(* ===== verification/Cosmos_Prelude.thy ===== *)
theory Cosmos_Prelude
  imports Main "HOL-Library.Word"
begin

text \<open>
  Shared vocabulary of the development: C++ exceptions as values, the outcome of running a
  piece of C++ code, state-passing actions with exceptions, and the retry loop that the
  library writes as \<^verbatim>\<open>while (true)\<close>.

  An action takes a state and yields an outcome and a new state.  The state survives an
  exception: what a C++ function changed before it threw stays changed, so the outcome and
  the state are a pair and not a sum.
\<close>

subsection \<open>Exceptions and outcomes\<close>

type_synonym errno = int

text \<open>
  The exception types below \<^verbatim>\<open>include/error\<close> and the ones of the C++ library that
  the sources throw.  An \<open>ApiError\<close> carries its operation label and the errno,
  a \<open>FileError\<close> also the path; \<open>ApiErrorMsg\<close> is an \<^verbatim>\<open>ApiError\<close> whose message was
  replaced by \<^verbatim>\<open>setMessage()\<close>.  A \<open>RangeError\<close> carries the required length as well, a
  \<open>ResolveError\<close> the code of the resolver and the system error.
\<close>

datatype exn =
    ApiError string errno
  | ApiErrorMsg string errno
  | FileError string string errno
  | WouldBlock string errno
  | RangeError string errno nat
  | ResolveError int errno
  | UsageError string
  | RuntimeError string
  | InternalError string
  | StdOutOfRange string
  | StdBadAlloc
  | StdRuntimeError string
  | StdInvalidArgument string
  | StdLengthError string

text \<open>
  \<open>Ret\<close> is a normal return, \<open>Throw\<close> an exception that leaves the function, \<open>Abort\<close>
  the end of the process (\<^verbatim>\<open>fatal_error()\<close>, \<^verbatim>\<open>_exit()\<close>), \<open>Blocked\<close> a function
  that has not returned because the environment has not answered a system call.
\<close>

datatype 'a outcome = Ret 'a | Throw exn | Abort int | Blocked

type_synonym ('s, 'a) act = "'s \<Rightarrow> 'a outcome \<times> 's"

definition ret :: "'a \<Rightarrow> ('s, 'a) act" where
  "ret x s = (Ret x, s)"

definition throw :: "exn \<Rightarrow> ('s, 'a) act" where
  "throw e s = (Throw e, s)"

definition abort :: "int \<Rightarrow> ('s, 'a) act" where
  "abort n s = (Abort n, s)"

definition bind :: "('s, 'a) act \<Rightarrow> ('a \<Rightarrow> ('s, 'b) act) \<Rightarrow> ('s, 'b) act" where
  "bind m f s = (case m s of
      (Ret x, s') \<Rightarrow> f x s'
    | (Throw e, s') \<Rightarrow> (Throw e, s')
    | (Abort n, s') \<Rightarrow> (Abort n, s')
    | (Blocked, s') \<Rightarrow> (Blocked, s'))"

definition andthen :: "('s, 'a) act \<Rightarrow> ('s, 'b) act \<Rightarrow> ('s, 'b) act" where
  "andthen m n = bind m (\<lambda>_. n)"

text \<open>A \<^verbatim>\<open>try\<close> block with one handler for every exception.\<close>

definition catch :: "('s, 'a) act \<Rightarrow> (exn \<Rightarrow> ('s, 'a) act) \<Rightarrow> ('s, 'a) act" where
  "catch m h s = (case m s of (Throw e, s') \<Rightarrow> h e s' | r \<Rightarrow> r)"

definition gets :: "('s \<Rightarrow> 'a) \<Rightarrow> ('s, 'a) act" where
  "gets f s = (Ret (f s), s)"

definition modify :: "('s \<Rightarrow> 's) \<Rightarrow> ('s, unit) act" where
  "modify f s = (Ret (), f s)"

definition whenA :: "bool \<Rightarrow> ('s, unit) act \<Rightarrow> ('s, unit) act" where
  "whenA b m = (if b then m else ret ())"

fun forA :: "'a list \<Rightarrow> ('a \<Rightarrow> ('s, unit) act) \<Rightarrow> ('s, unit) act" where
  "forA [] f = ret ()"
| "forA (x # xs) f = andthen (f x) (forA xs f)"

subsection \<open>Objects in a world\<close>

text \<open>
  A member function works on its object and the world it runs in, a pair.  A free function
  works on the world alone; \<open>on_world\<close> calls one from a member function and \<open>zoom\<close> calls
  a member function of a data member.
\<close>

definition on_world :: "('w, 'a) act \<Rightarrow> ('o \<times> 'w, 'a) act" where
  "on_world m s = (case m (snd s) of (r, w) \<Rightarrow> (r, (fst s, w)))"

definition zoom :: "('o \<Rightarrow> 'p) \<Rightarrow> ('p \<Rightarrow> 'o \<Rightarrow> 'o) \<Rightarrow> ('p \<times> 'w, 'a) act \<Rightarrow> ('o \<times> 'w, 'a) act" where
  "zoom get put m s = (case m (get (fst s), snd s) of (r, (p, w)) \<Rightarrow> (r, (put p (fst s), w)))"

definition this :: "('o \<Rightarrow> 'a) \<Rightarrow> ('o \<times> 'w, 'a) act" where
  "this f = gets (\<lambda>s. f (fst s))"

definition set_this :: "('o \<Rightarrow> 'o) \<Rightarrow> ('o \<times> 'w, unit) act" where
  "set_this f = modify (\<lambda>s. (f (fst s), snd s))"

text \<open>
  \<open>with_local obj m\<close> runs a member function of a local object and gives back the object
  together with the result, for the caller that goes on using it.
\<close>

definition with_local :: "'o \<Rightarrow> ('o \<times> 'w, 'a) act \<Rightarrow> ('w, 'a \<times> 'o) act" where
  "with_local obj m w = (case m (obj, w) of
      (Ret x, (o', w')) \<Rightarrow> (Ret (x, o'), w')
    | (Throw e, (o', w')) \<Rightarrow> (Throw e, w')
    | (Abort n, (o', w')) \<Rightarrow> (Abort n, w')
    | (Blocked, (o', w')) \<Rightarrow> (Blocked, w'))"

text \<open>
  \<open>scoped obj body destroy\<close> is a block with the local object \<open>obj\<close>: its destructor runs when
  the block is left normally or by an exception.  An exception that leaves a destructor ends
  the process.
\<close>

definition terminated :: int where "terminated = 134"

definition scoped :: "'o \<Rightarrow> ('o \<times> 'w, 'a) act \<Rightarrow> ('o \<times> 'w, unit) act \<Rightarrow> ('w, 'a) act" where
  "scoped obj body destroy w = (case body (obj, w) of
      (Abort n, (o', w')) \<Rightarrow> (Abort n, w')
    | (Blocked, (o', w')) \<Rightarrow> (Blocked, w')
    | (r, (o', w')) \<Rightarrow> (case destroy (o', w') of
          (Ret _, (_, w'')) \<Rightarrow> (r, w'')
        | (Throw _, (_, w'')) \<Rightarrow> (Abort terminated, w'')
        | (Abort n, (_, w'')) \<Rightarrow> (Abort n, w'')
        | (Blocked, (_, w'')) \<Rightarrow> (Blocked, w'')))"

named_theorems act_defs "definitions of the action combinators"

lemmas [act_defs] = ret_def throw_def abort_def bind_def andthen_def catch_def gets_def
  modify_def whenA_def on_world_def zoom_def this_def set_this_def with_local_def scoped_def

lemma bind_ret_left [simp]: "bind (ret x) f = f x"
  by (simp add: fun_eq_iff act_defs)

lemma bind_throw [simp]: "bind (throw e) f = throw e"
  by (simp add: fun_eq_iff act_defs)

lemma bind_assoc: "bind (bind m f) g = bind m (\<lambda>x. bind (f x) g)"
  by (auto simp: fun_eq_iff act_defs split: prod.split outcome.split)

lemma bind_ret_right [simp]: "bind m ret = m"
  by (auto simp: fun_eq_iff act_defs split: prod.split outcome.split)

lemma catch_throw [simp]: "catch (throw e) h = h e"
  by (simp add: fun_eq_iff act_defs)

lemma catch_ret [simp]: "catch (ret x) h = ret x"
  by (simp add: fun_eq_iff act_defs)

lemma bind_Ret: "m s = (Ret x, t) \<Longrightarrow> bind m f s = f x t"
  by (simp add: bind_def)

lemma andthen_Ret: "m s = (Ret x, t) \<Longrightarrow> andthen m n s = n t"
  by (simp add: andthen_def bind_def)

lemma bind_RetD:
  assumes "bind m f s = (Ret y, t)"
  obtains x s' where "m s = (Ret x, s')" "f x s' = (Ret y, t)"
  using assms by (auto simp: act_defs split: prod.splits outcome.splits)

lemma andthen_RetD:
  assumes "andthen m n s = (Ret y, t)"
  obtains x s' where "m s = (Ret x, s')" "n s' = (Ret y, t)"
  using assms by (auto simp: andthen_def elim: bind_RetD)

text \<open>The value a member function of a local object returns.\<close>

lemma with_local_value:
  "m (obj, w) = (Ret x, (obj', w')) \<Longrightarrow> bind (with_local obj m) (\<lambda>(s, _). ret s) w = (Ret x, w')"
  by (simp add: bind_def with_local_def ret_def)

subsection \<open>Loops that run until they return or throw\<close>

text \<open>
  \<open>loop \<mu> body\<close> models \<^verbatim>\<open>while (true) { body }\<close>: the body yields \<open>None\<close> to go round
  again (\<^verbatim>\<open>continue\<close>) and \<open>Some x\<close> to return \<open>x\<close>.  The measure \<open>\<mu>\<close> makes the
  recursion well founded: every round must lower it.  A round that does not lower it
  would never end in the code either, and counts as \<open>Blocked\<close>.  For loops over system
  calls the measure is the number of answers the environment still has to give.
\<close>

function loop :: "('s \<Rightarrow> nat) \<Rightarrow> ('s, 'a option) act \<Rightarrow> ('s, 'a) act" where
  "loop \<mu> body s = (case body s of
      (Ret None, s') \<Rightarrow> (if \<mu> s' < \<mu> s then loop \<mu> body s' else (Blocked, s'))
    | (Ret (Some x), s') \<Rightarrow> (Ret x, s')
    | (Throw e, s') \<Rightarrow> (Throw e, s')
    | (Abort n, s') \<Rightarrow> (Abort n, s')
    | (Blocked, s') \<Rightarrow> (Blocked, s'))"
  by pat_completeness auto
termination
  by (relation "measure (\<lambda>(\<mu>, body, s). \<mu> s)") auto

declare loop.simps [simp del]

text \<open>
  A partial-correctness rule: an invariant kept by the rounds that continue holds for the
  state in which the last round starts.
\<close>

lemma loop_invariant:
  assumes "I s"
    and step: "\<And>s s'. I s \<Longrightarrow> body s = (Ret None, s') \<Longrightarrow> I s'"
    and fin: "\<And>s x s'. I s \<Longrightarrow> body s = (Ret (Some x), s') \<Longrightarrow> Q x s'"
    and res: "loop \<mu> body s = (Ret x, t)"
  shows "Q x t"
  using \<open>I s\<close> res
proof (induction "\<mu> s" arbitrary: s rule: less_induct)
  case less
  obtain r s' where b: "body s = (r, s')"
    by (cases "body s")
  show ?case
  proof (cases r)
    case (Ret a)
    show ?thesis
    proof (cases a)
      case None
      with Ret b less.prems(2) have "\<mu> s' < \<mu> s" "loop \<mu> body s' = (Ret x, t)"
        by (auto simp: loop.simps[of \<mu> body s] split: if_splits)
      then show ?thesis
        using less.hyps step[OF less.prems(1)] b Ret None by blast
    next
      case (Some y)
      with Ret b less.prems show ?thesis
        by (auto simp: loop.simps[of \<mu> body s] intro: fin)
    qed
  qed (use b less.prems(2) in \<open>auto simp: loop.simps[of \<mu> body s]\<close>)
qed

end
