(* ===== verification/Kernel.thy ===== *)
theory Kernel
  imports Cosmos_Prelude
begin

text \<open>
  The boundary to the C library and the Linux kernel.  A world holds the answers the
  environment will give to the calls the library makes, in order, the trace of calls made
  so far with their answers, the thread's errno and the two global switches of the library
  (\<^verbatim>\<open>src/cosmos/private/cosmos.hxx\<close>).  What the kernel answers is arbitrary: a theorem
  about an operation holds for every script of answers, unless it states a documented
  behaviour of a call as a hypothesis.
\<close>

subsection \<open>Errno (include/error/errno.hxx)\<close>

text \<open>
  The names of the strong enum with the Linux values of the constants they stand for.  Some
  names share a value, as they do on Linux.
\<close>

datatype (plugins only: lifting) Errno =
    Errno_NO_ERROR
  | Errno_TOOBIG
  | Errno_ACCESS
  | Errno_ADDRESS_IN_USE
  | Errno_ADDRESS_NOT_AVAILABLE
  | Errno_AF_NOT_SUPPORTED
  | Errno_AGAIN
  | Errno_ALREADY
  | Errno_BAD_FD
  | Errno_BAD_MSG
  | Errno_BUSY
  | Errno_CANCELED
  | Errno_NO_CHILD
  | Errno_CONN_ABORTED
  | Errno_CONN_REFUSED
  | Errno_CONN_RESET
  | Errno_DEADLOCK
  | Errno_DEST_ADDR_REQ
  | Errno_OUT_OF_DOMAIN
  | Errno_EXISTS
  | Errno_FAULT
  | Errno_FILE_TOO_BIG
  | Errno_HOST_UNREACHABLE
  | Errno_ID_REMOVED
  | Errno_ILLEGAL_SEQ
  | Errno_IN_PROGRESS
  | Errno_INTERRUPTED
  | Errno_INVALID_ARG
  | Errno_IO_ERROR
  | Errno_IS_CONNECTED
  | Errno_IS_DIRECTORY
  | Errno_LINK_LOOP
  | Errno_TOO_MANY_FILES
  | Errno_TOO_MANY_LINKS
  | Errno_MSG_TOO_LARGE
  | Errno_NAME_TOO_LONG
  | Errno_NETWORK_DOWN
  | Errno_NETWORK_RESET
  | Errno_NETWORK_UNREACHABLE
  | Errno_TOO_MANY_FILES_IN_SYS
  | Errno_NO_BUFFER_SPACE
  | Errno_NO_DATA
  | Errno_NO_DEVICE
  | Errno_NO_ENTRY
  | Errno_NOT_EXECUTABLE
  | Errno_NO_LOCKS
  | Errno_NO_MEMORY
  | Errno_NO_MESSAGE
  | Errno_NO_PROTO_OPT
  | Errno_NO_SPACE
  | Errno_NO_STREAM_RESOURCES
  | Errno_NO_STREAM
  | Errno_NO_SYS
  | Errno_NOT_CONNECTED
  | Errno_NOT_A_DIR
  | Errno_NOT_EMPTY
  | Errno_NOT_RECOVERABLE
  | Errno_NOT_A_SOCKET
  | Errno_NOT_SUPPORTED
  | Errno_OP_NOT_SUPPORTED
  | Errno_NOT_A_TTY
  | Errno_NXIO
  | Errno_OVERFLOW
  | Errno_OWNER_DEAD
  | Errno_PERMISSION
  | Errno_BROKEN_PIPE
  | Errno_PROTO_ERR
  | Errno_PROTO_NOT_SUPPORTED
  | Errno_PROTO_MISMATCH
  | Errno_RANGE
  | Errno_READ_ONLY_FS
  | Errno_IS_PIPE
  | Errno_SEARCH
  | Errno_TIMER
  | Errno_TIMEDOUT
  | Errno_WOULD_BLOCK
  | Errno_TEXT_FILE_BUSY
  | Errno_CROSS_DEVICE
  | Errno_BAD_LIBRARY
  | Errno_DISK_QUOTA

primrec errno_of :: "Errno \<Rightarrow> errno" where
  "errno_of Errno_NO_ERROR = 0"
| "errno_of Errno_TOOBIG = 7"
| "errno_of Errno_ACCESS = 13"
| "errno_of Errno_ADDRESS_IN_USE = 98"
| "errno_of Errno_ADDRESS_NOT_AVAILABLE = 99"
| "errno_of Errno_AF_NOT_SUPPORTED = 97"
| "errno_of Errno_AGAIN = 11"
| "errno_of Errno_ALREADY = 114"
| "errno_of Errno_BAD_FD = 9"
| "errno_of Errno_BAD_MSG = 74"
| "errno_of Errno_BUSY = 16"
| "errno_of Errno_CANCELED = 125"
| "errno_of Errno_NO_CHILD = 10"
| "errno_of Errno_CONN_ABORTED = 103"
| "errno_of Errno_CONN_REFUSED = 111"
| "errno_of Errno_CONN_RESET = 104"
| "errno_of Errno_DEADLOCK = 35"
| "errno_of Errno_DEST_ADDR_REQ = 89"
| "errno_of Errno_OUT_OF_DOMAIN = 33"
| "errno_of Errno_EXISTS = 17"
| "errno_of Errno_FAULT = 14"
| "errno_of Errno_FILE_TOO_BIG = 27"
| "errno_of Errno_HOST_UNREACHABLE = 113"
| "errno_of Errno_ID_REMOVED = 43"
| "errno_of Errno_ILLEGAL_SEQ = 84"
| "errno_of Errno_IN_PROGRESS = 115"
| "errno_of Errno_INTERRUPTED = 4"
| "errno_of Errno_INVALID_ARG = 22"
| "errno_of Errno_IO_ERROR = 5"
| "errno_of Errno_IS_CONNECTED = 106"
| "errno_of Errno_IS_DIRECTORY = 21"
| "errno_of Errno_LINK_LOOP = 40"
| "errno_of Errno_TOO_MANY_FILES = 24"
| "errno_of Errno_TOO_MANY_LINKS = 31"
| "errno_of Errno_MSG_TOO_LARGE = 90"
| "errno_of Errno_NAME_TOO_LONG = 36"
| "errno_of Errno_NETWORK_DOWN = 100"
| "errno_of Errno_NETWORK_RESET = 102"
| "errno_of Errno_NETWORK_UNREACHABLE = 101"
| "errno_of Errno_TOO_MANY_FILES_IN_SYS = 23"
| "errno_of Errno_NO_BUFFER_SPACE = 105"
| "errno_of Errno_NO_DATA = 61"
| "errno_of Errno_NO_DEVICE = 19"
| "errno_of Errno_NO_ENTRY = 2"
| "errno_of Errno_NOT_EXECUTABLE = 8"
| "errno_of Errno_NO_LOCKS = 37"
| "errno_of Errno_NO_MEMORY = 12"
| "errno_of Errno_NO_MESSAGE = 42"
| "errno_of Errno_NO_PROTO_OPT = 92"
| "errno_of Errno_NO_SPACE = 28"
| "errno_of Errno_NO_STREAM_RESOURCES = 63"
| "errno_of Errno_NO_STREAM = 60"
| "errno_of Errno_NO_SYS = 38"
| "errno_of Errno_NOT_CONNECTED = 107"
| "errno_of Errno_NOT_A_DIR = 20"
| "errno_of Errno_NOT_EMPTY = 39"
| "errno_of Errno_NOT_RECOVERABLE = 131"
| "errno_of Errno_NOT_A_SOCKET = 88"
| "errno_of Errno_NOT_SUPPORTED = 95"
| "errno_of Errno_OP_NOT_SUPPORTED = 95"
| "errno_of Errno_NOT_A_TTY = 25"
| "errno_of Errno_NXIO = 6"
| "errno_of Errno_OVERFLOW = 75"
| "errno_of Errno_OWNER_DEAD = 130"
| "errno_of Errno_PERMISSION = 1"
| "errno_of Errno_BROKEN_PIPE = 32"
| "errno_of Errno_PROTO_ERR = 71"
| "errno_of Errno_PROTO_NOT_SUPPORTED = 93"
| "errno_of Errno_PROTO_MISMATCH = 91"
| "errno_of Errno_RANGE = 34"
| "errno_of Errno_READ_ONLY_FS = 30"
| "errno_of Errno_IS_PIPE = 29"
| "errno_of Errno_SEARCH = 3"
| "errno_of Errno_TIMER = 62"
| "errno_of Errno_TIMEDOUT = 110"
| "errno_of Errno_WOULD_BLOCK = 11"
| "errno_of Errno_TEXT_FILE_BUSY = 26"
| "errno_of Errno_CROSS_DEVICE = 18"
| "errno_of Errno_BAD_LIBRARY = 80"
| "errno_of Errno_DISK_QUOTA = 122"

subsection \<open>Calls, answers and worlds\<close>

text \<open>A call is the name of the C function and its arguments, as strace would print it.\<close>

datatype arg = I int | S string | L "arg list"

datatype syscall = Call string "arg list"

text \<open>
  An answer: the return value, the errno the call leaves behind (\<open>None\<close> when it does not
  touch errno), the bytes and the integers it stores through its pointer arguments.  A null
  pointer is the return value 0.
\<close>

record answer =
  rv :: int
  err :: "errno option"
  out :: string
  outs :: "int list"

abbreviation ok :: "int \<Rightarrow> answer" where
  "ok n \<equiv> \<lparr>rv = n, err = None, out = [], outs = []\<rparr>"

abbreviation ok_bytes :: "string \<Rightarrow> answer" where
  "ok_bytes bs \<equiv> \<lparr>rv = int (length bs), err = None, out = bs, outs = []\<rparr>"

abbreviation failed :: "Errno \<Rightarrow> answer" where
  "failed e \<equiv> \<lparr>rv = -1, err = Some (errno_of e), out = [], outs = []\<rparr>"

text \<open>The failure of a call that returns a pointer.\<close>

abbreviation null_failed :: "Errno \<Rightarrow> answer" where
  "null_failed e \<equiv> \<lparr>rv = 0, err = Some (errno_of e), out = [], outs = []\<rparr>"

record world =
  answers :: "answer list"
  trace :: "(syscall \<times> answer) list"
  errno_var :: errno
  auto_restart_syscalls :: bool
  running_on_valgrind :: bool

definition world_of :: "answer list \<Rightarrow> world" where
  "world_of as = \<lparr>answers = as, trace = [], errno_var = 0, auto_restart_syscalls = True,
     running_on_valgrind = False\<rparr>"

definition errno_after :: "errno \<Rightarrow> answer \<Rightarrow> errno" where
  "errno_after e a = (case err a of None \<Rightarrow> e | Some e' \<Rightarrow> e')"

lemma errno_after_simps [simp]:
  "err a = None \<Longrightarrow> errno_after e a = e"
  "err a = Some e' \<Longrightarrow> errno_after e a = e'"
  by (simp_all add: errno_after_def)

text \<open>
  Making a call takes the next answer of the script, records both and leaves the errno the
  answer carries.  Without an answer the call has not returned.
\<close>

definition call :: "string \<Rightarrow> arg list \<Rightarrow> (world, answer) act" where
  "call f args w = (case answers w of
      [] \<Rightarrow> (Blocked, w)
    | a # as \<Rightarrow> (Ret a, w\<lparr>answers := as, trace := trace w @ [(Call f args, a)],
        errno_var := errno_after (errno_var w) a\<rparr>))"

definition get_errno :: "(world, errno) act" where
  "get_errno = gets errno_var"

definition reset_errno :: "(world, unit) act" where
  "reset_errno = modify (\<lambda>w. w\<lparr>errno_var := errno_of Errno_NO_ERROR\<rparr>)"

definition set_errno :: "errno \<Rightarrow> (world, unit) act" where
  "set_errno e = modify (\<lambda>w. w\<lparr>errno_var := e\<rparr>)"

definition is_errno_set :: "(world, bool) act" where
  "is_errno_set = bind get_errno (\<lambda>e. ret (e \<noteq> errno_of Errno_NO_ERROR))"

text \<open>\<^verbatim>\<open>throw ApiError{label}\<close> takes the errno of the moment it is constructed.\<close>

definition throw_ApiError :: "string \<Rightarrow> (world, 'a) act" where
  "throw_ApiError label = bind get_errno (\<lambda>e. throw (ApiError label e))"

definition throw_FileError :: "string \<Rightarrow> string \<Rightarrow> (world, 'a) act" where
  "throw_FileError path operation = bind get_errno (\<lambda>e. throw (FileError path operation e))"

definition throw_WouldBlock :: "string \<Rightarrow> (world, 'a) act" where
  "throw_WouldBlock label = bind get_errno (\<lambda>e. throw (WouldBlock label e))"

text \<open>
  The pattern of the thin wrappers: make the call and throw unless it reports success.
\<close>

definition call_or_throw :: "(int \<Rightarrow> bool) \<Rightarrow> string \<Rightarrow> arg list \<Rightarrow> (world, unit) act \<Rightarrow> (world, unit) act" where
  "call_or_throw good f args fail = bind (call f args) (\<lambda>a. if good (rv a) then ret () else fail)"

named_theorems kernel_defs "the call layer"

lemmas [kernel_defs] = call_def get_errno_def reset_errno_def set_errno_def is_errno_set_def
  throw_ApiError_def throw_FileError_def throw_WouldBlock_def call_or_throw_def

text \<open>The loops over system calls are measured by the answers that are left.\<close>

abbreviation syscall_loop :: "(world, 'a option) act \<Rightarrow> (world, 'a) act" where
  "syscall_loop \<equiv> loop (\<lambda>w. length (answers w))"

subsection \<open>Accounting for kernel resources\<close>

text \<open>
  Which descriptors and directory streams are live follows from the trace: a successful
  opening call makes its result live, a close ends it whatever it returns (Linux releases
  the descriptor even when close reports an error), and \<^verbatim>\<open>fdopendir()\<close> turns a
  descriptor into a directory stream.  This is the yardstick for the ownership properties
  of the classes that hold such resources.
\<close>

datatype resource = Fd int | DirP int

definition opens_fd :: "string set" where
  "opens_fd = {''open'', ''openat'', ''epoll_create1'', ''pidfd_open'',
     ''eventfd'', ''signalfd'', ''timerfd_create'', ''mkostemps'', ''memfd_create'', ''memfd_secret'', ''socket'',
     ''accept4'', ''inotify_init1'', ''pidfd_getfd''}"

text \<open>\<^verbatim>\<open>F_DUPFD\<close> and \<^verbatim>\<open>F_DUPFD_CLOEXEC\<close>.\<close>

definition dup_cmds :: "int set" where
  "dup_cmds = {0, 1030}"

fun effect :: "syscall \<times> answer \<Rightarrow> resource set \<Rightarrow> resource set" where
  "effect (Call f args, a) R =
     (if f \<in> opens_fd then (if 0 \<le> rv a then insert (Fd (rv a)) R else R)
      else if f = ''fcntl'' then (case args of
          I fd # I cmd # _ \<Rightarrow> (if cmd \<in> dup_cmds \<and> 0 \<le> rv a then insert (Fd (rv a)) R else R)
        | _ \<Rightarrow> R)
      else if f = ''pipe2'' \<or> f = ''socketpair'' \<or> f = ''openpty'' then (if rv a = 0 then R \<union> Fd ` set (outs a) else R)
      else if f = ''clone3'' then (if 0 < rv a then R \<union> Fd ` set (outs a) else R)
      else if f = ''close'' then (case args of [I fd] \<Rightarrow> R - {Fd fd} | _ \<Rightarrow> R)
      else if f = ''fdopendir'' then
        (case args of [I fd] \<Rightarrow> (if rv a \<noteq> 0 then insert (DirP (rv a)) (R - {Fd fd}) else R)
         | _ \<Rightarrow> R)
      else if f = ''closedir'' then (case args of [I p] \<Rightarrow> R - {DirP p} | _ \<Rightarrow> R)
      else R)"

definition live :: "(syscall \<times> answer) list \<Rightarrow> resource set" where
  "live tr = foldl (\<lambda>R e. effect e R) {} tr"

lemma live_Nil [simp]: "live [] = {}"
  by (simp add: live_def)

lemma live_snoc [simp]: "live (tr @ [e]) = effect e (live tr)"
  by (simp add: live_def)

abbreviation live_in :: "world \<Rightarrow> resource set" where
  "live_in w \<equiv> live (trace w)"

subsection \<open>What every operation keeps\<close>

text \<open>
  An operation consumes a prefix of the script and appends exactly the calls that consumed
  it to the trace.
\<close>

definition runs_to :: "world \<Rightarrow> (syscall \<times> answer) list \<Rightarrow> world \<Rightarrow> bool" where
  "runs_to w es w' \<longleftrightarrow> trace w' = trace w @ es \<and> answers w = map snd es @ answers w' \<and>
     auto_restart_syscalls w' = auto_restart_syscalls w \<and>
     running_on_valgrind w' = running_on_valgrind w"

lemma runs_to_refl [simp, intro]: "runs_to w [] w"
  by (simp add: runs_to_def)

lemma runs_to_trans: "runs_to w es w' \<Longrightarrow> runs_to w' fs w'' \<Longrightarrow> runs_to w (es @ fs) w''"
  by (simp add: runs_to_def)

lemma runs_to_call: "call f args w = (Ret a, w') \<Longrightarrow> runs_to w [(Call f args, a)] w'"
  by (auto simp: call_def runs_to_def split: list.splits)

lemma call_answer: "answers w = a # as \<Longrightarrow> call f args w =
    (Ret a, w\<lparr>answers := as, trace := trace w @ [(Call f args, a)],
        errno_var := errno_after (errno_var w) a\<rparr>)"
  by (simp add: call_def)

lemma call_blocked: "answers w = [] \<Longrightarrow> call f args w = (Blocked, w)"
  by (simp add: call_def)

lemma call_cases:
  obtains (blocked) "answers w = []" "call f args w = (Blocked, w)"
  | (answered) a as w' where "answers w = a # as" "call f args w = (Ret a, w')"
      "answers w' = as" "trace w' = trace w @ [(Call f args, a)]"
      "errno_var w' = errno_after (errno_var w) a"
      "auto_restart_syscalls w' = auto_restart_syscalls w"
      "running_on_valgrind w' = running_on_valgrind w"
proof (cases "answers w")
  case Nil
  then show ?thesis by (intro blocked) (simp_all add: call_def)
next
  case (Cons a as)
  then show ?thesis
    by (intro answered[of a as "snd (call f args w)"]) (simp_all add: call_def)
qed

end
