(* ===== verification/BitMask.thy ===== *)
theory BitMask
  imports Cosmos_Prelude
begin

unbundle bit_operations_syntax

text \<open>
  \<^verbatim>\<open>template <typename ENUM> class BitMask\<close> of \<^verbatim>\<open>include/BitMask.hxx\<close>.  The mask is its
  only member \<^verbatim>\<open>m_flags\<close>, a word as wide as the underlying type of the enum, and an
  enumerator is the word \<^verbatim>\<open>static_cast<EnumBaseType>(val)\<close>, which may have any number of
  bits set.  Member functions that modify the object return the new mask.  The second half
  of the theory shows that the class implements finite sets of bit positions.
\<close>

type_synonym 'w mask = "'w word"

definition BitMask_empty :: "'w::len mask" where
  "BitMask_empty = 0"

definition BitMask_set_all :: "'w::len mask \<Rightarrow> 'w mask" where
  "BitMask_set_all m = NOT 0"

definition BitMask_all :: "'w::len mask" where
  "BitMask_all = BitMask_set_all BitMask_empty"

definition BitMask_of_list :: "'w::len word list \<Rightarrow> 'w mask" where
  "BitMask_of_list flags = foldl (\<lambda>m val. m OR val) 0 flags"

definition BitMask_of :: "'w::len word \<Rightarrow> 'w mask" where
  "BitMask_of val = val"

definition BitMask_raw :: "'w::len mask \<Rightarrow> 'w word" where
  "BitMask_raw m = m"

definition BitMask_size :: "'w::len mask \<Rightarrow> nat" where
  "BitMask_size m = LENGTH('w)"

definition BitMask_test :: "'w::len mask \<Rightarrow> 'w word \<Rightarrow> exn + bool" where
  "BitMask_test m val =
     (if val = 0 then Inl (UsageError ''test for zero'') else Inr (m AND val = val))"

definition BitMask_testAny :: "'w::len mask \<Rightarrow> 'w word \<Rightarrow> bool" where
  "BitMask_testAny m val \<longleftrightarrow> m AND val \<noteq> 0"

fun toString_loop :: "nat \<Rightarrow> 'w::len mask \<Rightarrow> exn + string" where
  "toString_loop 0 m = Inr []"
| "toString_loop (Suc pos) m = (case BitMask_test m (push_bit pos 1) of
      Inl e \<Rightarrow> Inl e
    | Inr b \<Rightarrow> (case toString_loop pos m of
          Inl e \<Rightarrow> Inl e
        | Inr s \<Rightarrow> Inr ((if b then CHR ''1'' else CHR ''0'') # s)))"

definition BitMask_toString :: "'w::len mask \<Rightarrow> exn + string" where
  "BitMask_toString m = toString_loop (BitMask_size m) m"

definition BitMask_set_flag :: "'w::len mask \<Rightarrow> 'w word \<Rightarrow> bool \<Rightarrow> 'w mask" where
  "BitMask_set_flag m val on_off = (if on_off then m OR val else m AND NOT val)"

definition BitMask_set_list :: "'w::len mask \<Rightarrow> 'w word list \<Rightarrow> 'w mask" where
  "BitMask_set_list m flags = foldl (\<lambda>m flag. BitMask_set_flag m flag True) m flags"

definition BitMask_set_mask :: "'w::len mask \<Rightarrow> 'w mask \<Rightarrow> 'w mask" where
  "BitMask_set_mask m other = m OR other"

definition BitMask_reset :: "'w::len mask \<Rightarrow> 'w mask" where
  "BitMask_reset m = 0"

definition BitMask_reset_list :: "'w::len mask \<Rightarrow> 'w word list \<Rightarrow> 'w mask" where
  "BitMask_reset_list m flags = foldl (\<lambda>m val. m AND NOT val) m flags"

definition BitMask_reset_flag :: "'w::len mask \<Rightarrow> 'w word \<Rightarrow> 'w mask" where
  "BitMask_reset_flag m val = BitMask_reset_list m [val]"

definition BitMask_reset_mask :: "'w::len mask \<Rightarrow> 'w mask \<Rightarrow> 'w mask" where
  "BitMask_reset_mask m other = m AND NOT (BitMask_raw other)"

definition BitMask_limit_list :: "'w::len mask \<Rightarrow> 'w word list \<Rightarrow> 'w mask" where
  "BitMask_limit_list m flags = m AND foldl (\<lambda>mask val. mask OR val) 0 flags"

definition BitMask_limit_flag :: "'w::len mask \<Rightarrow> 'w word \<Rightarrow> 'w mask" where
  "BitMask_limit_flag m flag = BitMask_limit_list m [flag]"

definition BitMask_limit_mask :: "'w::len mask \<Rightarrow> 'w mask \<Rightarrow> 'w mask" where
  "BitMask_limit_mask m other = m AND BitMask_raw other"

definition BitMask_flip :: "'w::len mask \<Rightarrow> 'w mask" where
  "BitMask_flip m = NOT m"

definition BitMask_flip_flag :: "'w::len mask \<Rightarrow> 'w word \<Rightarrow> 'w mask" where
  "BitMask_flip_flag m val = m XOR val"

fun count_loop :: "nat \<Rightarrow> nat \<Rightarrow> 'w::len mask \<Rightarrow> nat \<Rightarrow> exn + nat" where
  "count_loop 0 pos m acc = Inr acc"
| "count_loop (Suc left) pos m acc = (case BitMask_test m (push_bit pos 1) of
      Inl e \<Rightarrow> Inl e
    | Inr b \<Rightarrow> count_loop left (Suc pos) m (if b then Suc acc else acc))"

definition BitMask_count :: "'w::len mask \<Rightarrow> exn + nat" where
  "BitMask_count m = count_loop (BitMask_size m) 0 m 0"

definition BitMask_steal :: "'w::len mask \<Rightarrow> 'w word \<Rightarrow> exn + (bool \<times> 'w mask)" where
  "BitMask_steal m val = (case BitMask_test m val of
      Inl e \<Rightarrow> Inl e
    | Inr b \<Rightarrow> (if \<not> b then Inr (False, m) else Inr (True, BitMask_reset_flag m val)))"

definition BitMask_only :: "'w::len mask \<Rightarrow> 'w word \<Rightarrow> bool" where
  "BitMask_only m val \<longleftrightarrow> m = val"

definition BitMask_any :: "'w::len mask \<Rightarrow> bool" where
  "BitMask_any m \<longleftrightarrow> m \<noteq> 0"

definition BitMask_none :: "'w::len mask \<Rightarrow> bool" where
  "BitMask_none m \<longleftrightarrow> \<not> BitMask_any m"

fun BitMask_allOf_list :: "'w::len mask \<Rightarrow> 'w word list \<Rightarrow> exn + bool" where
  "BitMask_allOf_list m [] = Inr True"
| "BitMask_allOf_list m (val # vals) = (case BitMask_test m val of
      Inl e \<Rightarrow> Inl e
    | Inr b \<Rightarrow> (if \<not> b then Inr False else BitMask_allOf_list m vals))"

definition BitMask_allOf :: "'w::len mask \<Rightarrow> 'w mask \<Rightarrow> bool" where
  "BitMask_allOf m other \<longleftrightarrow> m AND other = other"

fun BitMask_anyOf_list :: "'w::len mask \<Rightarrow> 'w word list \<Rightarrow> exn + bool" where
  "BitMask_anyOf_list m [] = Inr False"
| "BitMask_anyOf_list m (val # vals) = (case BitMask_test m val of
      Inl e \<Rightarrow> Inl e
    | Inr b \<Rightarrow> (if b then Inr True else BitMask_anyOf_list m vals))"

definition BitMask_anyOf :: "'w::len mask \<Rightarrow> 'w mask \<Rightarrow> bool" where
  "BitMask_anyOf m other \<longleftrightarrow> m AND other \<noteq> 0"

definition BitMask_and :: "'w::len mask \<Rightarrow> 'w mask \<Rightarrow> 'w word" where
  "BitMask_and m other = BitMask_raw other AND BitMask_raw m"

definition BitMask_complement :: "'w::len mask \<Rightarrow> 'w mask" where
  "BitMask_complement m = NOT m"

definition BitMask_minus :: "'w::len mask \<Rightarrow> 'w mask \<Rightarrow> 'w mask" where
  "BitMask_minus m second = BitMask_reset_mask m second"

definition BitMask_minus_flag :: "'w::len mask \<Rightarrow> 'w word \<Rightarrow> 'w mask" where
  "BitMask_minus_flag m val = BitMask_reset_flag m val"

definition BitMask_plus :: "'w::len mask \<Rightarrow> 'w mask \<Rightarrow> 'w mask" where
  "BitMask_plus m second = BitMask_set_mask m second"

definition BitMask_plus_flag :: "'w::len mask \<Rightarrow> 'w word \<Rightarrow> 'w mask" where
  "BitMask_plus_flag m val = BitMask_set_flag m val True"

definition BitMask_union :: "'w::len mask \<Rightarrow> 'w mask \<Rightarrow> 'w mask" where
  "BitMask_union m second = m OR second"

lemmas BitMask_defs = BitMask_empty_def BitMask_set_all_def BitMask_all_def BitMask_of_list_def
  BitMask_of_def BitMask_raw_def BitMask_size_def BitMask_testAny_def
  BitMask_set_flag_def BitMask_set_list_def BitMask_set_mask_def BitMask_reset_def
  BitMask_reset_list_def BitMask_reset_flag_def BitMask_reset_mask_def BitMask_limit_list_def
  BitMask_limit_flag_def BitMask_limit_mask_def BitMask_flip_def BitMask_flip_flag_def
  BitMask_only_def BitMask_any_def BitMask_none_def BitMask_allOf_def BitMask_anyOf_def
  BitMask_and_def BitMask_complement_def BitMask_minus_def BitMask_minus_flag_def
  BitMask_plus_def BitMask_plus_flag_def BitMask_union_def

subsection \<open>The abstraction to sets of bit positions\<close>

definition bits :: "'w::len word \<Rightarrow> nat set" where
  "bits m = {n. bit m n}"

lemma bits_lt: "n \<in> bits (m :: 'w::len word) \<Longrightarrow> n < LENGTH('w)"
  by (simp add: bits_def bit_imp_le_length)

lemma finite_bits [simp, intro]: "finite (bits (m :: 'w::len word))"
  by (rule finite_subset [of _ "{..<LENGTH('w)}"]) (auto dest: bits_lt)

lemma bits_inject [simp]: "bits m = bits m' \<longleftrightarrow> m = m'"
  by (auto simp: bits_def set_eq_iff intro: bit_eqI)

lemma bits_zero [simp]: "bits 0 = {}"
  by (simp add: bits_def)

lemma bits_empty_iff [simp]: "bits m = {} \<longleftrightarrow> m = 0"
  using bits_inject[of m 0] by simp

lemma bits_or [simp]: "bits (m OR n) = bits m \<union> bits n"
  by (auto simp: bits_def bit_or_iff)

lemma bits_and [simp]: "bits (m AND n) = bits m \<inter> bits n"
  by (auto simp: bits_def bit_and_iff)

lemma bits_xor [simp]: "bits (m XOR n) = (bits m - bits n) \<union> (bits n - bits m)"
  by (auto simp: bits_def bit_xor_iff)

lemma bits_not: "bits (NOT m) = {..<LENGTH('w)} - bits (m :: 'w::len word)"
  by (auto simp: bits_def bit_not_iff dest: bit_imp_le_length)

lemma bits_and_not [simp]: "bits (m AND NOT n) = bits m - bits n"
  by (auto simp: bits_not dest: bits_lt)

lemma bits_exp [simp]: "n < LENGTH('w) \<Longrightarrow> bits (2 ^ n :: 'w::len word) = {n}"
  by (auto simp: bits_def bit_exp_iff)

lemma bits_shifted_one: "n < LENGTH('w) \<Longrightarrow> bits (push_bit n 1 :: 'w::len word) = {n}"
  by simp

lemma mask_eq_iff: "m = n \<longleftrightarrow> bits m = bits n"
  by simp

lemma and_eq_right_iff: "m AND v = v \<longleftrightarrow> bits v \<subseteq> bits m"
  by (auto simp: mask_eq_iff simp del: bits_inject)

lemma and_zero_iff: "m AND v = 0 \<longleftrightarrow> bits m \<inter> bits v = {}"
  by (metis bits_and bits_empty_iff)

lemma shifted_one_neq_0: "n < LENGTH('w) \<Longrightarrow> (push_bit n 1 :: 'w::len word) \<noteq> 0"
  by (metis bits_shifted_one bits_zero insert_not_empty)

lemma bits_foldl_or: "bits (foldl (\<lambda>m v. m OR v) m vs) = bits m \<union> \<Union> (bits ` set vs)"
  by (induction vs arbitrary: m) auto

lemma bits_foldl_and_not:
  "bits (foldl (\<lambda>m v. m AND NOT v) m vs) = bits m - \<Union> (bits ` set vs)"
proof (induction vs arbitrary: m)
  case (Cons v vs)
  show ?case by (simp only: foldl_Cons Cons.IH bits_and_not) auto
qed simp

lemma test_iff: "BitMask_test m v = (if v = 0 then Inl (UsageError ''test for zero'')
    else Inr (bits v \<subseteq> bits m))"
  by (simp add: BitMask_test_def and_eq_right_iff)

lemma test_position: "n < LENGTH('w) \<Longrightarrow>
    BitMask_test (m :: 'w::len word) (push_bit n 1) = Inr (n \<in> bits m)"
  by (simp add: test_iff shifted_one_neq_0 bits_shifted_one)

subsection \<open>Bit counting and printing\<close>

lemma count_loop_card:
  "pos + left \<le> LENGTH('w) \<Longrightarrow>
    count_loop left pos (m :: 'w::len word) acc = Inr (acc + card (bits m \<inter> {pos..<pos + left}))"
proof (induction left arbitrary: pos acc)
  case (Suc left)
  have "{pos..<pos + Suc left} = insert pos {Suc pos..<Suc pos + left}"
    by auto
  then have "card (bits m \<inter> {pos..<pos + Suc left}) =
      (if pos \<in> bits m then 1 else 0) + card (bits m \<inter> {Suc pos..<Suc pos + left})"
    by (simp add: Int_insert_right)
  then show ?case
    using Suc by (simp add: test_position del: push_bit_of_1)
qed simp

lemma allOf_iff: "BitMask_allOf m other \<longleftrightarrow> bits other \<subseteq> bits m"
  by (simp add: BitMask_allOf_def and_eq_right_iff)

lemma bitmask_of_list_bits: "bits (BitMask_of_list flags) = \<Union> (bits ` set flags)"
  by (simp add: BitMask_of_list_def bits_foldl_or)

lemma toString_loop_bits:
  "n \<le> LENGTH('w) \<Longrightarrow>
    toString_loop n (m :: 'w::len word) =
      Inr (map (\<lambda>i. if i \<in> bits m then CHR ''1'' else CHR ''0'') (rev [0..<n]))"
  by (induction n) (simp_all add: test_position del: push_bit_of_1)

subsection \<open>The contract of a flag set\<close>

text \<open>
  What the rest of the library expects of a bit mask: a set of positions to which the
  positions of a flag are added, from which they are removed, and which can be asked whether
  it has all positions of a flag.
\<close>

locale flag_set =
  fixes empty :: "'m"
    and add :: "'m \<Rightarrow> 'f \<Rightarrow> 'm"
    and remove :: "'m \<Rightarrow> 'f \<Rightarrow> 'm"
    and has :: "'m \<Rightarrow> 'f \<Rightarrow> bool"
    and positions :: "'m \<Rightarrow> nat set"
    and atoms :: "'f \<Rightarrow> nat set"
  assumes positions_empty: "positions empty = {}"
    and positions_add: "positions (add m f) = positions m \<union> atoms f"
    and positions_remove: "positions (remove m f) = positions m - atoms f"
    and has_iff: "has m f \<longleftrightarrow> atoms f \<subseteq> positions m"
    and extensional: "positions m = positions m' \<Longrightarrow> m = m'"
begin

lemma has_add [simp]: "has (add m f) f"
  by (simp add: has_iff positions_add)

lemma has_add_mono: "has m f \<Longrightarrow> has (add m g) f"
  by (auto simp: has_iff positions_add)

lemma add_commute: "add (add m f) g = add (add m g) f"
  by (rule extensional) (auto simp: positions_add)

lemma add_idem: "has m f \<Longrightarrow> add m f = m"
  by (rule extensional) (auto simp: positions_add has_iff)

lemma has_remove: "atoms f \<noteq> {} \<Longrightarrow> \<not> has (remove m f) f"
  by (auto simp: has_iff positions_remove)

lemma has_remove_other: "atoms f \<inter> atoms g = {} \<Longrightarrow> has (remove m g) f \<longleftrightarrow> has m f"
  by (auto simp: has_iff positions_remove)

lemma remove_add: "atoms f \<inter> positions m = {} \<Longrightarrow> remove (add m f) f = m"
  by (rule extensional) (auto simp: positions_add positions_remove)

lemma positions_fold_add: "positions (foldl add m fs) = positions m \<union> \<Union> (atoms ` set fs)"
  by (induction fs arbitrary: m) (auto simp: positions_add)

lemma fold_add_order: "set fs = set gs \<Longrightarrow> foldl add m fs = foldl add m gs"
  by (rule extensional) (simp add: positions_fold_add)

end

definition BitMask_has :: "'w::len mask \<Rightarrow> 'w word \<Rightarrow> bool" where
  "BitMask_has m val = (BitMask_test m val = Inr True \<or> val = 0)"

interpretation bm: flag_set "BitMask_empty :: 'w::len mask" "\<lambda>m f. BitMask_set_flag m f True"
    BitMask_reset_flag BitMask_has bits bits
  by unfold_locales
    (auto simp: BitMask_defs BitMask_has_def test_iff bits_not dest: bits_lt)

subsection \<open>Properties\<close>

lemma steal_iff: "BitMask_steal m v = (if v = 0 then Inl (UsageError ''test for zero'')
    else Inr (bits v \<subseteq> bits m, if bits v \<subseteq> bits m then BitMask_reset_flag m v else m))"
  by (simp add: BitMask_steal_def test_iff)

lemma bits_all: "bits (BitMask_set_all m :: 'w::len word) = {..<LENGTH('w)}"
  by (simp only: BitMask_set_all_def bits_not bits_zero Diff_empty)

lemma bits_set_flag:
  "bits (BitMask_set_flag m v on_off) = (if on_off then bits m \<union> bits v else bits m - bits v)"
  by (simp only: BitMask_set_flag_def bits_or bits_and_not if_distrib[of bits])

lemma bits_limit_list: "bits (BitMask_limit_list m flags) = bits m \<inter> \<Union> (bits ` set flags)"
  by (simp add: BitMask_limit_list_def bits_foldl_or)

text \<open>
  C1: the class implements sets of bit positions.  The constructors give the empty set, all
  positions and the positions of the flags; each form of \<^verbatim>\<open>set\<close>, \<^verbatim>\<open>reset\<close>,
  \<^verbatim>\<open>limit\<close> and \<^verbatim>\<open>flip\<close>, \<^verbatim>\<open>steal\<close> and the operators for masks and flags give the set operation of their
  name on the positions of the mask, for flags of any number of bits; and the mask versions of
  \<^verbatim>\<open>allOf\<close> and \<^verbatim>\<open>anyOf\<close> are inclusion and overlap, as is \<^verbatim>\<open>testAny\<close>.
\<close>

theorem bitmask_refines_sets:
  fixes m other val :: "'w::len mask"
  shows "bits (BitMask_empty :: 'w mask) = {} \<and>
    bits (BitMask_all :: 'w mask) = {..<LENGTH('w)} \<and>
    bits (BitMask_of val) = bits val \<and>
    bits (BitMask_of_list flags) = \<Union> (bits ` set flags) \<and>
    bits (BitMask_set_all m) = {..<LENGTH('w)} \<and>
    bits (BitMask_set_flag m val on_off) = (if on_off then bits m \<union> bits val else bits m - bits val) \<and>
    bits (BitMask_set_list m flags) = bits m \<union> \<Union> (bits ` set flags) \<and>
    bits (BitMask_set_mask m other) = bits m \<union> bits other \<and>
    bits (BitMask_reset m) = {} \<and>
    bits (BitMask_reset_flag m val) = bits m - bits val \<and>
    bits (BitMask_reset_list m flags) = bits m - \<Union> (bits ` set flags) \<and>
    bits (BitMask_reset_mask m other) = bits m - bits other \<and>
    bits (BitMask_limit_flag m val) = bits m \<inter> bits val \<and>
    bits (BitMask_limit_list m flags) = bits m \<inter> \<Union> (bits ` set flags) \<and>
    bits (BitMask_limit_mask m other) = bits m \<inter> bits other \<and>
    bits (BitMask_flip m) = {..<LENGTH('w)} - bits m \<and>
    bits (BitMask_flip_flag m other) = (bits m - bits other) \<union> (bits other - bits m) \<and>
    map_sum id (map_prod id bits) (BitMask_steal m val) =
      (if val = 0 then Inl (UsageError ''test for zero'')
       else if bits val \<subseteq> bits m then Inr (True, bits m - bits val) else Inr (False, bits m)) \<and>
    bits (BitMask_complement m) = {..<LENGTH('w)} - bits m \<and>
    bits (BitMask_minus m other) = bits m - bits other \<and>
    bits (BitMask_minus_flag m val) = bits m - bits val \<and>
    bits (BitMask_plus m other) = bits m \<union> bits other \<and>
    bits (BitMask_plus_flag m val) = bits m \<union> bits val \<and>
    bits (BitMask_union m other) = bits m \<union> bits other \<and>
    bits (BitMask_and m other) = bits m \<inter> bits other \<and>
    (BitMask_allOf m other \<longleftrightarrow> bits other \<subseteq> bits m) \<and>
    (BitMask_anyOf m other \<longleftrightarrow> bits other \<inter> bits m \<noteq> {}) \<and>
    (BitMask_testAny m val \<longleftrightarrow> bits m \<inter> bits val \<noteq> {})"
proof -
  note flag = bm.positions_remove[of m val]
  have lists: "bits (BitMask_set_list m flags) = bits m \<union> \<Union> (bits ` set flags)"
      "bits (BitMask_reset_list m flags) = bits m - \<Union> (bits ` set flags)"
    unfolding BitMask_set_list_def BitMask_reset_list_def
    by (rule bm.positions_fold_add) (rule bits_foldl_and_not)
  have limit_flag: "bits (BitMask_limit_flag m val) = bits m \<inter> bits val"
    by (simp add: BitMask_limit_flag_def bits_limit_list)
  have all: "bits (BitMask_all :: 'w mask) = {..<LENGTH('w)}"
    by (simp only: BitMask_all_def bits_all)
  have queries: "BitMask_allOf m other \<longleftrightarrow> bits other \<subseteq> bits m"
      "BitMask_anyOf m other \<longleftrightarrow> bits other \<inter> bits m \<noteq> {}"
      "BitMask_testAny m val \<longleftrightarrow> bits m \<inter> bits val \<noteq> {}"
    by (auto simp: allOf_iff BitMask_anyOf_def BitMask_testAny_def and_zero_iff)
  have masks: "bits (BitMask_set_mask m other) = bits m \<union> bits other"
      "bits (BitMask_limit_mask m other) = bits m \<inter> bits other"
      "bits (BitMask_union m other) = bits m \<union> bits other"
      "bits (BitMask_and m other) = bits m \<inter> bits other"
    by (simp_all add: BitMask_set_mask_def BitMask_limit_mask_def BitMask_union_def BitMask_and_def
        BitMask_raw_def Int_commute)
  have reset: "bits (BitMask_reset_mask m other) = bits m - bits other"
    by (simp only: BitMask_reset_mask_def BitMask_raw_def bits_and_not)
  have nots: "bits (BitMask_flip m) = {..<LENGTH('w)} - bits m"
      "bits (BitMask_complement m) = {..<LENGTH('w)} - bits m"
    by (simp_all add: BitMask_flip_def BitMask_complement_def bits_not)
  have "bits (BitMask_flip_flag m other) = (bits m - bits other) \<union> (bits other - bits m)"
    by (simp add: BitMask_flip_flag_def)
  then show ?thesis
    by (simp add: BitMask_of_list_def bits_foldl_or BitMask_empty_def BitMask_of_def BitMask_reset_def
        BitMask_minus_def BitMask_minus_flag_def BitMask_plus_def BitMask_plus_flag_def lists limit_flag all queries masks nots flag reset bits_all
        bits_set_flag bits_limit_list steal_iff)
qed

text \<open>
  \<^verbatim>\<open>count()\<close> and \<^verbatim>\<open>toString()\<close> never throw, although both go through
  \<^verbatim>\<open>test()\<close>; the first returns the number of set positions and the second prints one
  digit per position, the highest position first.
\<close>

theorem bitmask_count_toString:
  fixes m :: "'w::len mask"
  shows "BitMask_count m = Inr (card (bits m)) \<and>
    BitMask_toString m =
      Inr (map (\<lambda>i. if i \<in> bits m then CHR ''1'' else CHR ''0'') (rev [0..<LENGTH('w)]))"
proof -
  have "bits m \<inter> {0..<LENGTH('w)} = bits m"
    by (auto dest: bits_lt)
  then show ?thesis
    using count_loop_card[of 0 "LENGTH('w)" m 0]
    by (simp add: BitMask_count_def BitMask_toString_def BitMask_size_def toString_loop_bits)
qed

lemma allOf_list_iff: "0 \<notin> set flags \<Longrightarrow>
    BitMask_allOf_list m flags = Inr (\<forall>v \<in> set flags. bits v \<subseteq> bits m)"
  by (induction flags) (auto simp: test_iff)

lemma anyOf_list_iff: "0 \<notin> set flags \<Longrightarrow>
    BitMask_anyOf_list m flags = Inr (\<exists>v \<in> set flags. bits v \<subseteq> bits m)"
  by (induction flags) (auto simp: test_iff)

text \<open>
  \<^verbatim>\<open>test()\<close> rejects the empty flag with a UsageError and otherwise asks for all of
  the flag's positions; \<^verbatim>\<open>steal()\<close> reports exactly that and leaves the mask without the
  positions it reported.  For lists of flags without the empty flag, \<^verbatim>\<open>allOf\<close> agrees with
  the test against the mask of the list, while \<^verbatim>\<open>anyOf\<close> asks for one complete flag.
\<close>

theorem bitmask_queries:
  fixes m val :: "'w::len mask"
  assumes "0 \<notin> set flags"
  shows "BitMask_test m 0 = Inl (UsageError ''test for zero'') \<and>
    BitMask_steal m 0 = Inl (UsageError ''test for zero'') \<and>
    (val \<noteq> 0 \<longrightarrow> (\<exists>m'. BitMask_steal m val = Inr (bits val \<subseteq> bits m, m') \<and>
       bits m' = (if bits val \<subseteq> bits m then bits m - bits val else bits m))) \<and>
    BitMask_allOf_list m flags = Inr (BitMask_allOf m (BitMask_of_list flags)) \<and>
    BitMask_anyOf_list m flags = Inr (\<exists>v \<in> set flags. bits v \<subseteq> bits m)"
proof -
  have "BitMask_steal m val = Inr (bits val \<subseteq> bits m,
      if bits val \<subseteq> bits m then BitMask_reset_flag m val else m)" if "val \<noteq> 0"
    using that by (auto simp: BitMask_steal_def test_iff)
  moreover have "bits (BitMask_reset_flag m val) = bits m - bits val"
    by (rule bm.positions_remove)
  moreover have "BitMask_allOf_list m flags = Inr (BitMask_allOf m (BitMask_of_list flags))"
    by (simp add: allOf_list_iff[OF assms] allOf_iff bitmask_of_list_bits UN_subset_iff)
  ultimately show ?thesis
    using anyOf_list_iff[OF assms] by (auto simp: BitMask_steal_def test_iff)
qed

theorem bitmask_queries_witness:
  "0 \<notin> set [3, 4 :: 8 word] \<and>
   BitMask_allOf_list (6 :: 8 word) [3, 4] = Inr (BitMask_allOf (6 :: 8 word) (BitMask_of_list [3, 4])) \<and>
   (\<exists>m'. BitMask_steal (6 :: 8 word) 2 = Inr (bits (2 :: 8 word) \<subseteq> bits (6 :: 8 word), m'))"
proof -
  have h: "0 \<notin> set [3, 4 :: 8 word]" by simp
  have nz: "(2 :: 8 word) \<noteq> 0" by simp
  show ?thesis using bitmask_queries[OF h, of 6 2] h nz by blast
qed

end
