(* ===== verification/Strings.thy ===== *)
theory Strings
  imports BitMask
begin

text \<open>
  String processing of \<^verbatim>\<open>src/string.cxx\<close>, \<^verbatim>\<open>include/string.hxx\<close> and
  \<^verbatim>\<open>include/SysString.hxx\<close>: case mapping, stripping, splitting and the null-terminated
  strings handed to system calls.  A \<^verbatim>\<open>char\<close> is a byte.  The C and C++ library functions
  used are those of the "C" locale.
\<close>

subsection \<open>Library functions\<close>

definition c_tolower :: "char \<Rightarrow> char" where
  "c_tolower c = (let n = of_char c :: nat in if 65 \<le> n \<and> n \<le> 90 then char_of (n + 32) else c)"

definition c_toupper :: "char \<Rightarrow> char" where
  "c_toupper c = (let n = of_char c :: nat in if 97 \<le> n \<and> n \<le> 122 then char_of (n - 32) else c)"

definition c_isspace :: "char \<Rightarrow> bool" where
  "c_isspace c = (let n = of_char c :: nat in n = 32 \<or> 9 \<le> n \<and> n \<le> 13)"

definition NUL :: char where
  "NUL = CHR 0x00"

text \<open>
  \<^verbatim>\<open>std::string::find\<close>: the first position from \<open>pos\<close> on where \<open>sep\<close> occurs,
  \<open>None\<close> for \<^verbatim>\<open>npos\<close>.  \<^verbatim>\<open>substr\<close> throws when it starts beyond the end.
\<close>

fun find_first :: "string \<Rightarrow> string \<Rightarrow> nat option" where
  "find_first sep s = (if take (length sep) s = sep then Some 0
     else (case s of [] \<Rightarrow> None | c # cs \<Rightarrow> map_option Suc (find_first sep cs)))"

declare find_first.simps [simp del]

definition str_find :: "string \<Rightarrow> string \<Rightarrow> nat \<Rightarrow> nat option" where
  "str_find s sep pos = (if pos \<le> length s then map_option ((+) pos) (find_first sep (drop pos s))
     else None)"

definition substr :: "string \<Rightarrow> nat \<Rightarrow> nat \<Rightarrow> exn + string" where
  "substr s pos n = (if length s < pos then Inl (StdOutOfRange ''basic_string::substr'')
     else Inr (take n (drop pos s)))"

subsection \<open>Case mapping and stripping (src/string.cxx)\<close>

definition to_lower :: "string \<Rightarrow> string" where
  "to_lower s = map c_tolower s"

definition to_upper :: "string \<Rightarrow> string" where
  "to_upper s = map c_toupper s"

definition stripit :: "string \<Rightarrow> char \<Rightarrow> bool" where
  "stripit strip_set ch = (if strip_set = [] then c_isspace ch else ch \<in> set strip_set)"

fun strip_front :: "string \<Rightarrow> string \<Rightarrow> string" where
  "strip_front strip_set [] = []"
| "strip_front strip_set (c # s) =
     (if stripit strip_set c then strip_front strip_set s else c # s)"

function strip_back :: "string \<Rightarrow> string \<Rightarrow> string" where
  "strip_back strip_set s =
     (if s \<noteq> [] \<and> stripit strip_set (last s) then strip_back strip_set (butlast s) else s)"
  by pat_completeness auto
termination
  by (relation "measure (\<lambda>(_, s). length s)") auto

declare strip_back.simps [simp del]

definition strip :: "string \<Rightarrow> string \<Rightarrow> string" where
  "strip s strip_set = strip_back strip_set (strip_front strip_set s)"

definition stripped :: "string \<Rightarrow> string \<Rightarrow> string" where
  "stripped s strip_set = strip s strip_set"

subsection \<open>Splitting (src/string.cxx)\<close>

datatype SplitFlag = STRIP_PARTS | KEEP_EMPTY

primrec SplitFlag_value :: "SplitFlag \<Rightarrow> 32 word" where
  "SplitFlag_value STRIP_PARTS = 1"
| "SplitFlag_value KEEP_EMPTY = 2"

definition split_has :: "32 mask \<Rightarrow> SplitFlag \<Rightarrow> bool" where
  "split_has flags f = BitMask_has flags (SplitFlag_value f)"

text \<open>
  The inner loop \<^verbatim>\<open>while (str.substr(pos1, sep.size()) == sep) pos1 += sep.size()\<close>.
  Its measure does not go down when the separator is empty: the code spins there.
\<close>

definition skip_seps :: "string \<Rightarrow> string \<Rightarrow> (nat, unit) act" where
  "skip_seps str sep = loop (\<lambda>pos1. length str + 1 - pos1)
     (\<lambda>pos1. case substr str pos1 (length sep) of
         Inl e \<Rightarrow> throw e pos1
       | Inr s \<Rightarrow> if s = sep then (Ret None, pos1 + length sep) else (Ret (Some ()), pos1))"

text \<open>One round of the outer loop.  The state is \<^verbatim>\<open>pos2\<close> and \<^verbatim>\<open>parts\<close>.\<close>

definition split_round :: "string \<Rightarrow> string \<Rightarrow> 32 mask \<Rightarrow> nat \<Rightarrow>
    (nat \<times> string list, string list option) act" where
  "split_round str sep flags max_splits = (\<lambda>(pos2, parts).
     (case (if \<not> split_has flags KEEP_EMPTY then skip_seps str sep pos2 else (Ret (), pos2)) of
        (Ret _, pos1) \<Rightarrow>
          (let max_reached = (max_splits \<noteq> 0 \<and> length parts = max_splits);
               end_pos = (if max_reached then None else str_find str sep pos1);
               part = (case end_pos of None \<Rightarrow> drop pos1 str
                       | Some p \<Rightarrow> take (p - pos1) (drop pos1 str));
               token = (if part \<noteq> [] \<and> split_has flags STRIP_PARTS then strip part [] else part);
               parts' = (if token \<noteq> [] \<or> split_has flags KEEP_EMPTY then parts @ [token] else parts)
           in (case end_pos of
                 None \<Rightarrow> (Ret (Some parts'), (pos1, parts'))
               | Some p \<Rightarrow> (Ret None, (p + length sep, parts'))))
      | (Throw e, pos1) \<Rightarrow> (Throw e, (pos1, parts))
      | (Abort n, pos1) \<Rightarrow> (Abort n, (pos1, parts))
      | (Blocked, pos1) \<Rightarrow> (Blocked, (pos1, parts))))"

definition split :: "string \<Rightarrow> string \<Rightarrow> 32 mask \<Rightarrow> nat \<Rightarrow> string list outcome" where
  "split str sep flags max_splits =
     fst (loop (\<lambda>(pos2, parts). length str + 1 - pos2 + (max_splits - length parts)) (split_round str sep flags max_splits) (0, []))"

subsection \<open>Prefixes, comparison and null-terminated strings\<close>

definition is_prefix :: "string \<Rightarrow> string \<Rightarrow> bool" where
  "is_prefix s prefix \<longleftrightarrow> take (length prefix) s = prefix"

definition is_suffix :: "string \<Rightarrow> string \<Rightarrow> bool" where
  "is_suffix s suffix \<longleftrightarrow> length suffix \<le> length s \<and> drop (length s - length suffix) s = suffix"

definition string_vectors_eq :: "string list \<Rightarrow> string list \<Rightarrow> bool" where
  "string_vectors_eq left right =
     (if length left \<noteq> length right then False
      else list_all (\<lambda>i. left ! i = right ! i) [0..<length left])"

text \<open>
  A \<^verbatim>\<open>SysString\<close> is a pointer to a null-terminated string or null; the pointer built from a
  \<^verbatim>\<open>std::string\<close> reaches up to the first zero byte.
\<close>

type_synonym SysString = "string option"

definition c_str :: "string \<Rightarrow> string" where
  "c_str s = takeWhile (\<lambda>c. c \<noteq> NUL) s"

definition SysString_of :: "string \<Rightarrow> SysString" where
  "SysString_of s = Some (c_str s)"

definition SysString_raw :: "SysString \<Rightarrow> string" where
  "SysString_raw p = (case p of Some s \<Rightarrow> s | None \<Rightarrow> [])"

definition SysString_view :: "SysString \<Rightarrow> string" where
  "SysString_view p = (case p of Some s \<Rightarrow> s | None \<Rightarrow> [])"

definition SysString_str :: "SysString \<Rightarrow> string" where
  "SysString_str p = (case p of Some s \<Rightarrow> s | None \<Rightarrow> [])"

definition SysString_length :: "SysString \<Rightarrow> nat" where
  "SysString_length p = length (SysString_view p)"

definition SysString_empty :: "SysString \<Rightarrow> bool" where
  "SysString_empty p = (case p of None \<Rightarrow> True | Some s \<Rightarrow> s = [])"

definition SysString_eq :: "SysString \<Rightarrow> SysString \<Rightarrow> bool" where
  "SysString_eq p q = (case (p, q) of
      (None, None) \<Rightarrow> True
    | (None, Some _) \<Rightarrow> False
    | (Some _, None) \<Rightarrow> False
    | (Some s, Some t) \<Rightarrow> s = t)"

subsection \<open>Facts about find and strip\<close>

lemma find_first_Some:
  "find_first sep s = Some p \<Longrightarrow> p + length sep \<le> length s \<and> take (length sep) (drop p s) = sep \<and>
    (\<forall>q < p. take (length sep) (drop q s) \<noteq> sep)"
proof (induction sep s arbitrary: p rule: find_first.induct)
  case (1 sep s)
  show ?case
  proof (cases "take (length sep) s = sep")
    case True
    with "1.prems" have "p = 0" by (simp add: find_first.simps[of sep s])
    moreover from True have "length sep \<le> length s"
      by (metis length_take min.cobounded1 min.commute)
    ultimately show ?thesis using True by simp
  next
    case False
    with "1.prems" obtain c cs p' where s: "s = c # cs" "find_first sep cs = Some p'" "p = Suc p'"
      by (auto simp: find_first.simps[of sep s] split: list.splits)
    from "1.IH"[OF False s(1) s(2)] False s show ?thesis
      by (auto simp: less_Suc_eq_0_disj)
  qed
qed

lemma find_first_None:
  "find_first sep s = None \<Longrightarrow> take (length sep) (drop q s) \<noteq> sep \<or> length s < q"
proof (induction sep s arbitrary: q rule: find_first.induct)
  case (1 sep s)
  from "1.prems" have ne: "take (length sep) s \<noteq> sep"
    by (auto simp: find_first.simps[of sep s])
  show ?case
  proof (cases s)
    case Nil
    with ne show ?thesis by auto
  next
    case (Cons c cs)
    with "1.prems" ne have "find_first sep cs = None"
      by (simp add: find_first.simps[of sep "c # cs"])
    with "1.IH"[OF ne Cons] ne Cons show ?thesis
      by (cases q) auto
  qed
qed

lemma find_first_eqI:
  assumes "take (length sep) (drop p s) = sep" "p \<le> length s" "\<And>q. q < p \<Longrightarrow> take (length sep) (drop q s) \<noteq> sep"
  shows "find_first sep s = Some p"
proof (cases "find_first sep s")
  case None
  from find_first_None[OF None, of p] assms(1,2) show ?thesis by simp
next
  case (Some q)
  from find_first_Some[OF Some] assms(1) have "\<not> p < q" "take (length sep) (drop q s) = sep" by blast+
  with assms(3)[of q] Some show ?thesis by (metis linorder_neqE_nat)
qed

lemma find_first_take:
  assumes "find_first sep s = Some p" "sep \<noteq> []"
  shows "find_first sep (take p s) = None"
proof (rule ccontr)
  assume "find_first sep (take p s) \<noteq> None"
  then obtain q where q: "find_first sep (take p s) = Some q" by blast
  from find_first_Some[OF q] have le: "q + length sep \<le> min (length s) p"
    and m: "take (length sep) (drop q (take p s)) = sep" by auto
  from le assms(2) have "q < p" by (cases sep) auto
  moreover from m le have "take (length sep) (drop q s) = sep"
    by (simp add: drop_take take_take min_def split: if_splits)
  ultimately show False using find_first_Some[OF assms(1)] by blast
qed

lemma strip_front_eq: "strip_front st s = dropWhile (stripit st) s"
  by (induction s) auto

lemma strip_back_eq: "strip_back st s = rev (dropWhile (stripit st) (rev s))"
proof (induction st s rule: strip_back.induct)
  case (1 st s)
  show ?case
  proof (cases s rule: rev_cases)
    case Nil
    then show ?thesis by (simp add: strip_back.simps)
  next
    case (snoc ys y)
    with 1 show ?thesis by (simp add: strip_back.simps[of st "ys @ [y]"])
  qed
qed

lemma strip_Nil [simp]: "strip [] st = []"
  by (simp add: strip_def strip_front_eq strip_back_eq)

subsection \<open>The reference splitter\<close>

text \<open>
  The declarative meaning of splitting: cut at the first occurrence of the separator and go
  on behind it.
\<close>

function ref_split :: "string \<Rightarrow> string \<Rightarrow> string list" where
  "ref_split sep s = (if sep = [] then [s] else case find_first sep s of
      None \<Rightarrow> [s]
    | Some p \<Rightarrow> take p s # ref_split sep (drop (p + length sep) s))"
  by pat_completeness auto
termination
proof (relation "measure (\<lambda>(_, s). length s)", simp_all)
  fix sep s :: string and p
  assume "sep \<noteq> []" "find_first sep s = Some p"
  then show "length s - (p + length sep) < length s"
    using find_first_Some[of sep s p] by (cases sep) auto
qed

declare ref_split.simps [simp del]

fun join :: "string \<Rightarrow> string list \<Rightarrow> string" where
  "join sep [] = []"
| "join sep [p] = p"
| "join sep (p # ps) = p @ sep @ join sep ps"

lemma ref_split_neq_Nil [simp]: "ref_split sep s \<noteq> []"
  by (subst ref_split.simps) (auto split: option.splits)

lemma join_Cons: "ps \<noteq> [] \<Longrightarrow> join sep (p # ps) = p @ sep @ join sep ps"
  by (cases ps) auto

lemma join_ref_split: "join sep (ref_split sep s) = s"
proof (induction sep s rule: ref_split.induct)
  case (1 sep s)
  show ?case
  proof (cases "sep = [] \<or> find_first sep s = None")
    case True
    then show ?thesis by (subst ref_split.simps) auto
  next
    case False
    then obtain p where ne: "sep \<noteq> []" and p: "find_first sep s = Some p" by auto
    have "drop p s = sep @ drop (p + length sep) s"
      using find_first_Some[OF p] append_take_drop_id[of "length sep" "drop p s"]
      by (simp add: add.commute)
    then have "take p s @ sep @ drop (p + length sep) s = s"
      by (metis append_take_drop_id)
    then show ?thesis
      using "1.IH"[OF ne p] ne p by (subst ref_split.simps) (simp add: join_Cons)
  qed
qed

lemma ref_split_no_sep: "sep \<noteq> [] \<Longrightarrow> x \<in> set (ref_split sep s) \<Longrightarrow> find_first sep x = None"
proof (induction sep s rule: ref_split.induct)
  case (1 sep s)
  show ?case
  proof (cases "find_first sep s")
    case None
    with "1.prems" show ?thesis by (auto simp: ref_split.simps[of sep s])
  next
    case (Some p)
    with "1.prems" have "x = take p s \<or> x \<in> set (ref_split sep (drop (p + length sep) s))"
      by (auto simp: ref_split.simps[of sep s])
    then show ?thesis
      using "1.IH"[OF "1.prems"(1) Some "1.prems"(1)] find_first_take[OF Some "1.prems"(1)] by blast
  qed
qed

lemma ref_split_leading_sep:
  "sep \<noteq> [] \<Longrightarrow> take (length sep) s = sep \<Longrightarrow>
    ref_split sep s = [] # ref_split sep (drop (length sep) s)"
  by (subst ref_split.simps) (simp add: find_first.simps[of sep s])

text \<open>Parts without the separator are what their join is split into.\<close>

lemma ref_split_join:
  "ps \<noteq> [] \<Longrightarrow> (\<And>p. p \<in> set ps \<Longrightarrow> c \<notin> set p) \<Longrightarrow> ref_split [c] (join [c] ps) = ps"
proof (induction ps rule: list_nonempty_induct)
  case (single p)
  then have "find_first [c] p = None"
    by (metis find_first_Some in_set_dropD in_set_takeD list.set_intros(1) not_None_eq single.prems)
  then show ?case by (simp add: ref_split.simps)
next
  case (cons p ps)
  have "take (Suc 0) (drop q (p @ c # join [c] ps)) \<noteq> [c]" if "q < length p" for q
    using cons.prems[of p] that by (auto simp: drop_append take_Suc_conv_app_nth Cons_nth_drop_Suc[symmetric])
  then have "find_first [c] (p @ c # join [c] ps) = Some (length p)"
    by (intro find_first_eqI) auto
  with cons show ?case by (simp add: join_Cons ref_split.simps[of "[c]" "p @ c # join [c] ps"])
qed

subsection \<open>The loops compute the reference splitting\<close>

lemma skip_seps_result:
  "sep \<noteq> [] \<Longrightarrow> pos \<le> length str \<Longrightarrow> \<exists>pos1. skip_seps str sep pos = (Ret (), pos1) \<and>
     pos \<le> pos1 \<and> pos1 \<le> length str \<and>
     (\<exists>k. ref_split sep (drop pos str) = replicate k [] @ ref_split sep (drop pos1 str))"
proof (induction "length str - pos" arbitrary: pos rule: less_induct)
  case less
  show ?case
  proof (cases "take (length sep) (drop pos str) = sep")
    case False
    with less.prems show ?thesis
      by (auto simp: skip_seps_def loop.simps[of _ _ pos] substr_def intro!: exI[of _ 0])
  next
    case True
    then have "min (length str - pos) (length sep) = length sep"
      by (metis length_drop length_take)
    then have fit: "pos + length sep \<le> length str" "0 < length sep"
      using less.prems by auto
    then have "length str - (pos + length sep) < length str - pos" by linarith
    from less.hyps[OF this less.prems(1) fit(1)] obtain pos1 k where ih:
      "skip_seps str sep (pos + length sep) = (Ret (), pos1)" "pos + length sep \<le> pos1"
      "pos1 \<le> length str"
      "ref_split sep (drop (pos + length sep) str) = replicate k [] @ ref_split sep (drop pos1 str)"
      by blast
    have "Suc (length str) - (pos + length sep) < Suc (length str) - pos"
      using fit by linarith
    then have "skip_seps str sep pos = skip_seps str sep (pos + length sep)"
      using True fit less.prems
      by (simp add: skip_seps_def loop.simps[of _ _ pos] substr_def)
    moreover have "ref_split sep (drop pos str) = replicate (Suc k) [] @ ref_split sep (drop pos1 str)"
      using ref_split_leading_sep[OF less.prems(1) True] ih(4) by (simp add: add.commute)
    ultimately show ?thesis using ih by (metis le_add1 order_trans)
  qed
qed

definition kept_parts :: "32 mask \<Rightarrow> string list \<Rightarrow> string list" where
  "kept_parts flags ps =
     (let f = (\<lambda>p. if split_has flags STRIP_PARTS then strip p [] else p)
      in if split_has flags KEEP_EMPTY then map f ps else filter (\<lambda>p. p \<noteq> []) (map f ps))"

lemma kept_parts_Cons: "kept_parts flags (p # ps) =
    (let t = (if split_has flags STRIP_PARTS then strip p [] else p)
     in if t \<noteq> [] \<or> split_has flags KEEP_EMPTY then t # kept_parts flags ps else kept_parts flags ps)"
  by (simp add: kept_parts_def Let_def)

lemma kept_parts_empties:
  "\<not> split_has flags KEEP_EMPTY \<Longrightarrow> kept_parts flags (replicate k [] @ ps) = kept_parts flags ps"
  by (induction k) (simp_all add: kept_parts_def Let_def)

text \<open>
  The position at which a round looks for the next separator, and what the reference
  splitting of the rest is from there.
\<close>

definition token_start :: "string \<Rightarrow> string \<Rightarrow> 32 mask \<Rightarrow> nat \<Rightarrow> unit outcome \<times> nat" where
  "token_start str sep flags pos2 =
     (if \<not> split_has flags KEEP_EMPTY then skip_seps str sep pos2 else (Ret (), pos2))"

lemma token_start_result:
  assumes "sep \<noteq> []" "pos2 \<le> length str"
  obtains pos1 where "token_start str sep flags pos2 = (Ret (), pos1)" "pos2 \<le> pos1"
    "pos1 \<le> length str"
    "kept_parts flags (ref_split sep (drop pos2 str)) = kept_parts flags (ref_split sep (drop pos1 str))"
  using skip_seps_result[OF assms] assms(2) that
  by (cases "split_has flags KEEP_EMPTY") (auto simp: token_start_def kept_parts_empties)

lemma split_loop_ref:
  assumes "sep \<noteq> []"
  shows "pos2 \<le> length str \<Longrightarrow>
    fst (loop (\<lambda>(pos2, parts). length str + 1 - pos2 + (0 - length parts))
      (split_round str sep flags 0) (pos2, parts)) =
    Ret (parts @ kept_parts flags (ref_split sep (drop pos2 str)))"
proof (induction "length str - pos2" arbitrary: pos2 parts rule: less_induct)
  case less
  obtain pos1 where ts: "token_start str sep flags pos2 = (Ret (), pos1)" and
    pos1: "pos2 \<le> pos1" "pos1 \<le> length str" and
    kp: "kept_parts flags (ref_split sep (drop pos2 str)) =
      kept_parts flags (ref_split sep (drop pos1 str))"
    using token_start_result[OF assms less.prems] by blast
  let ?rest = "drop pos1 str"
  show ?case
  proof (cases "find_first sep ?rest")
    case None
    then have "ref_split sep ?rest = [?rest]" "str_find str sep pos1 = None"
      using assms by (simp_all add: ref_split.simps str_find_def)
    with ts kp show ?thesis
      by (subst loop.simps)
        (auto simp: split_round_def token_start_def[symmetric] kept_parts_def Let_def)
  next
    case (Some p)
    note fit = find_first_Some[OF Some]
    have rs: "ref_split sep ?rest = take p ?rest # ref_split sep (drop (pos1 + p + length sep) str)"
      using assms Some by (subst ref_split.simps) (simp add: add_ac)
    have sf: "str_find str sep pos1 = Some (pos1 + p)"
      using Some pos1 by (simp add: str_find_def)
    have pos: "0 < length sep" and in_rest: "p + length sep \<le> length str - pos1"
      using assms fit by simp_all
    have lt: "length str - (pos1 + p + length sep) < length str - pos2"
      and le: "pos1 + p + length sep \<le> length str"
      using pos in_rest pos1 by linarith+
    from less.hyps[OF lt le] lt ts kp rs sf show ?thesis
      using pos1 le
      by (subst loop.simps)
        (auto simp: split_round_def token_start_def[symmetric] kept_parts_Cons Let_def)
  qed
qed

lemma empty_flags: "\<not> split_has 0 STRIP_PARTS" "\<not> split_has 0 KEEP_EMPTY"
  by (simp_all add: split_has_def BitMask_has_def BitMask_test_def)

lemma keep_empty_flags: "\<not> split_has 2 STRIP_PARTS" "split_has 2 KEEP_EMPTY"
  by (simp_all add: split_has_def BitMask_has_def BitMask_test_def)

subsection \<open>Properties\<close>

text \<open>
  C6: with a nonempty separator and no limit, \<^verbatim>\<open>split()\<close> returns the reference splitting:
  every part stripped when STRIP_PARTS is set, and the parts that are then empty dropped
  unless KEEP_EMPTY is set.
\<close>

theorem split_reference:
  assumes "sep \<noteq> []"
  shows "split str sep flags 0 = Ret (kept_parts flags (ref_split sep str))"
  using split_loop_ref[OF assms, of 0 str flags "[]"] by (simp add: split_def)

theorem split_reference_witness:
  "'','' \<noteq> ([] :: string) \<and> split ''a,,b'' '','' 0 0 = Ret [''a'', ''b'']"
proof -
  have h: "'','' \<noteq> ([] :: string)" by simp
  have "ref_split '','' ''a,,b'' = [''a'', [], ''b'']"
    by (simp add: ref_split.simps find_first.simps)
  then show ?thesis
    using split_reference[OF h, of "''a,,b''" 0] by (simp add: kept_parts_def empty_flags)
qed

text \<open>
  splitting with KEEP_EMPTY loses nothing: joining the parts with the separator gives
  the input back, and no part contains the separator any more.
\<close>

theorem split_join_roundtrip:
  assumes "sep \<noteq> []"
  shows "\<exists>parts. split str sep (SplitFlag_value KEEP_EMPTY) 0 = Ret parts \<and>
    join sep parts = str \<and> (\<forall>p \<in> set parts. find_first sep p = None)"
proof -
  have "split str sep (SplitFlag_value KEEP_EMPTY) 0 = Ret (ref_split sep str)"
    using split_loop_ref[OF assms, of 0 str 2 "[]"]
    by (simp add: split_def kept_parts_def keep_empty_flags)
  then show ?thesis
    using join_ref_split ref_split_no_sep[OF assms] by auto
qed

theorem split_join_roundtrip_witness:
  "'':'' \<noteq> ([] :: string) \<and> (\<exists>parts. split ''a::b'' '':'' 2 0 = Ret parts \<and> join '':'' parts = ''a::b'')"
proof -
  have h: "'':'' \<noteq> ([] :: string)" by simp
  show ?thesis using split_join_roundtrip[OF h, of "''a::b''"] h by auto
qed

lemma split_round_measure:
  assumes "sep \<noteq> []" "pos2 \<le> length str"
  shows "(\<exists>ps pos parts'. split_round str sep flags n (pos2, parts) = (Ret (Some ps), (pos, parts')))
    \<or> (\<exists>pos parts'. split_round str sep flags n (pos2, parts) = (Ret None, (pos, parts')) \<and>
        pos2 < pos \<and> pos \<le> length str \<and> length parts \<le> length parts')"
proof -
  obtain pos1 where ts: "token_start str sep flags pos2 = (Ret (), pos1)" and
    pos1: "pos2 \<le> pos1" "pos1 \<le> length str"
    using token_start_result[OF assms] by blast
  let ?stop = "if n \<noteq> 0 \<and> length parts = n then None else str_find str sep pos1"
  show ?thesis
  proof (cases ?stop)
    case None
    with ts show ?thesis
      by (auto simp: split_round_def token_start_def[symmetric] Let_def split: if_splits)
  next
    case (Some p)
    then obtain q where q: "find_first sep (drop pos1 str) = Some q" "p = pos1 + q"
      and sf: "str_find str sep pos1 = Some p" and nm: "\<not> (n \<noteq> 0 \<and> length parts = n)"
      using pos1 by (auto simp: str_find_def split: if_splits)
    have "0 < length sep" "q + length sep \<le> length str - pos1"
      using find_first_Some[OF q(1)] assms(1) by simp_all
    then have "p + length sep \<le> length str" "pos2 < p + length sep"
      using q(2) pos1 by linarith+
    with ts sf nm show ?thesis
      by (auto simp: split_round_def token_start_def[symmetric] Let_def)
  qed
qed

lemma split_loop_returns:
  assumes "sep \<noteq> []"
  shows "pos2 \<le> length str \<Longrightarrow> \<exists>ps. fst (loop
      (\<lambda>(pos2, parts). length str + 1 - pos2 + (n - length parts))
      (split_round str sep flags n) (pos2, parts)) = Ret ps"
proof (induction "length str - pos2" arbitrary: pos2 parts rule: less_induct)
  case less
  from split_round_measure[OF assms less.prems, of flags n parts] show ?case
  proof (elim disjE exE conjE)
    fix pos parts'
    assume r: "split_round str sep flags n (pos2, parts) = (Ret None, (pos, parts'))"
      and pos: "pos2 < pos" "pos \<le> length str" "length parts \<le> length parts'"
    have "length str - pos < length str - pos2"
      using pos by linarith
    from less.hyps[OF this pos(2)]
    obtain ps where "fst (loop (\<lambda>(pos2, parts). length str + 1 - pos2 + (n - length parts))
      (split_round str sep flags n) (pos, parts')) = Ret ps"
      by blast
    moreover have "length str + 1 - pos + (n - length parts') <
        length str + 1 - pos2 + (n - length parts)"
      using pos by linarith
    ultimately show ?thesis using r by (subst loop.simps) simp
  qed (subst loop.simps, simp)
qed

lemma split_round_parts:
  "split_round str sep flags n (pos2, parts) = (Ret r, (pos, parts')) \<Longrightarrow>
    n \<noteq> 0 \<Longrightarrow> length parts \<le> n \<Longrightarrow>
    (case r of None \<Rightarrow> length parts' \<le> n | Some ps \<Rightarrow> length ps \<le> n + 1)"
  by (auto simp: split_round_def Let_def split: outcome.splits option.splits prod.splits if_splits)

lemma split_limit:
  assumes "n \<noteq> 0" "split str sep flags n = Ret ps"
  shows "length ps \<le> n + 1"
proof -
  obtain s' where l: "loop (\<lambda>(pos2, parts). length str + 1 - pos2 + (n - length parts))
      (split_round str sep flags n) (0, []) = (Ret ps, s')"
    using assms(2) by (auto simp: split_def fst_def split: prod.splits)
  show ?thesis
  proof (rule loop_invariant[where I = "\<lambda>(pos2, parts). length parts \<le> n", OF _ _ _ l])
    fix s s'
    assume "case s of (pos2, parts) \<Rightarrow> length parts \<le> n"
      "split_round str sep flags n s = (Ret None, s')"
    then show "case s' of (pos2, parts) \<Rightarrow> length parts \<le> n"
      using split_round_parts[of str sep flags n "fst s" "snd s" None "fst s'" "snd s'"] assms(1)
      by auto
  next
    fix s x s'
    assume "case s of (pos2, parts) \<Rightarrow> length parts \<le> n"
      "split_round str sep flags n s = (Ret (Some x), s')"
    then show "length x \<le> n + 1"
      using split_round_parts[of str sep flags n "fst s" "snd s" "Some x" "fst s'" "snd s'"] assms(1)
      by auto
  qed simp
qed

text \<open>
  a limit on the number of splits bounds the number of parts, also when it is reached
  and the rest of the input becomes the last part; \<^verbatim>\<open>split()\<close> with a nonempty separator
  always returns.  With an empty separator and no limit it never does.
\<close>

theorem split_limit_and_return:
  assumes "sep \<noteq> []" "n \<noteq> 0"
  shows "\<exists>parts. split str sep flags n = Ret parts \<and> length parts \<le> n + 1 \<and>
    split str [] flags 0 = Blocked"
proof -
  obtain ps where "split str sep flags n = Ret ps"
    using split_loop_returns[OF assms(1), of 0 str n flags "[]"] by (auto simp: split_def)
  moreover have "skip_seps str [] 0 = (Blocked, 0)"
    by (simp add: skip_seps_def loop.simps[of _ _ 0] substr_def)
  then have "split str [] flags 0 = Blocked"
    by (simp add: split_def loop.simps[of _ _ "(0, [])"] split_round_def str_find_def
        find_first.simps[of "[]"] Let_def)
  ultimately show ?thesis using split_limit[OF assms(2)] by blast
qed

theorem split_limit_and_return_witness:
  "\<exists>parts. split ''a,b,c'' '','' 0 1 = Ret parts \<and> length parts \<le> 2"
  using split_limit_and_return[of "'',''" 1 "''a,b,c''" 0] by auto

text \<open>
  \<^verbatim>\<open>strip()\<close> removes exactly the leading and trailing characters of the strip set:
  the result starts and ends with a character that is not in it, and what was cut off on
  both sides consists of characters that are.
\<close>

theorem strip_cuts_both_ends:
  "\<exists>front back. s = front @ strip s st @ back \<and>
    list_all (stripit st) front \<and> list_all (stripit st) back \<and>
    (strip s st = [] \<or> (\<not> stripit st (hd (strip s st)) \<and> \<not> stripit st (last (strip s st))))"
proof -
  let ?p = "stripit st"
  define m where "m = dropWhile ?p s"
  have s: "s = takeWhile ?p s @ m" by (simp add: m_def)
  have r: "strip s st = rev (dropWhile ?p (rev m))"
    by (simp add: strip_def strip_front_eq strip_back_eq m_def)
  have m: "m = rev (dropWhile ?p (rev m)) @ rev (takeWhile ?p (rev m))"
    by (metis rev_append rev_rev_ident takeWhile_dropWhile_id)
  have hd_m: "m = [] \<or> \<not> ?p (hd m)"
    unfolding m_def by (metis hd_dropWhile)
  have ends: "strip s st = [] \<or> (\<not> ?p (hd (strip s st)) \<and> \<not> ?p (last (strip s st)))"
  proof (cases "strip s st = []")
    case False
    then have "dropWhile ?p (rev m) \<noteq> []" by (simp add: r)
    then have "\<not> ?p (last (strip s st))" by (simp add: r last_rev hd_dropWhile)
    moreover have "hd m = hd (strip s st)"
      using False m r by (metis hd_append2)
    ultimately show ?thesis using False hd_m m r by (metis append_is_Nil_conv)
  qed simp
  have "s = takeWhile ?p s @ strip s st @ rev (takeWhile ?p (rev m))"
    using s m r by simp
  moreover have "list_all ?p (takeWhile ?p s)" "list_all ?p (rev (takeWhile ?p (rev m)))"
    by (auto simp: list_all_iff dest: set_takeWhileD)
  ultimately show ?thesis using ends by blast
qed

end
