(* ===== verification/FsTypes.thy ===== *)
theory FsTypes
  imports BitMask Kernel
begin

text \<open>
  The basic file system types of \<^verbatim>\<open>include/fs/types.hxx\<close> with \<^verbatim>\<open>src/fs/types.cxx\<close> and
  \<^verbatim>\<open>src/fs/FileStatus.cxx\<close>: file numbers, open modes and flags, file types and modes,
  locks.  Enumerators carry the values of the Linux constants (x86-64) they stand for; an
  enum class with values outside its enumerators is its underlying integer.
\<close>

subsection \<open>File numbers, open modes and open flags\<close>

type_synonym FileNum = int

datatype FileNum_const = FN_INVALID | FN_STDIN | FN_STDOUT | FN_STDERR | FN_AT_CWD | FN_MAX_FD

primrec FileNum_of :: "FileNum_const \<Rightarrow> FileNum" where
  "FileNum_of FN_INVALID = -1"
| "FileNum_of FN_STDIN = 0"
| "FileNum_of FN_STDOUT = 1"
| "FileNum_of FN_STDERR = 2"
| "FileNum_of FN_AT_CWD = -100"
| "FileNum_of FN_MAX_FD = sint (NOT 0 :: 32 word)"

datatype OpenMode = READ_ONLY | WRITE_ONLY | READ_WRITE

primrec OpenMode_value :: "OpenMode \<Rightarrow> 32 word" where
  "OpenMode_value READ_ONLY = 0"
| "OpenMode_value WRITE_ONLY = 1"
| "OpenMode_value READ_WRITE = 2"

datatype OpenFlag = APPEND | ASYNC | CLOEXEC | CREATE | DIRECT | DIRECTORY | DSYNC | EXCLUSIVE
  | NOATIME | NO_CONTROLLING_TTY | NOFOLLOW | NONBLOCK | PATH | SYNC | TMPFILE | TRUNCATE

primrec OpenFlag_value :: "OpenFlag \<Rightarrow> 32 word" where
  "OpenFlag_value APPEND = 0x400"
| "OpenFlag_value ASYNC = 0x2000"
| "OpenFlag_value CLOEXEC = 0x80000"
| "OpenFlag_value CREATE = 0x40"
| "OpenFlag_value DIRECT = 0x4000"
| "OpenFlag_value DIRECTORY = 0x10000"
| "OpenFlag_value DSYNC = 0x1000"
| "OpenFlag_value EXCLUSIVE = 0x80"
| "OpenFlag_value NOATIME = 0x40000"
| "OpenFlag_value NO_CONTROLLING_TTY = 0x100"
| "OpenFlag_value NOFOLLOW = 0x20000"
| "OpenFlag_value NONBLOCK = 0x800"
| "OpenFlag_value PATH = 0x200000"
| "OpenFlag_value SYNC = 0x101000"
| "OpenFlag_value TMPFILE = 0x410000"
| "OpenFlag_value TRUNCATE = 0x200"

type_synonym OpenFlags = "32 mask"

text \<open>
  The label is chosen by a switch over the values, so a combination of bits that is no
  enumerator gets the default label.
\<close>

definition get_label :: "32 word \<Rightarrow> string" where
  "get_label flag =
     (if flag = OpenFlag_value APPEND then ''APPEND''
      else if flag = OpenFlag_value ASYNC then ''ASYNC''
      else if flag = OpenFlag_value CLOEXEC then ''CLOEXEC''
      else if flag = OpenFlag_value CREATE then ''CREATE''
      else if flag = OpenFlag_value DIRECT then ''DIRECT''
      else if flag = OpenFlag_value DIRECTORY then ''DIRECTORY''
      else if flag = OpenFlag_value DSYNC then ''DSYNC''
      else if flag = OpenFlag_value EXCLUSIVE then ''EXCLUSIVE''
      else if flag = OpenFlag_value NOATIME then ''NOATIME''
      else if flag = OpenFlag_value NO_CONTROLLING_TTY then ''NO_CONTROLLING_TTY''
      else if flag = OpenFlag_value NOFOLLOW then ''NOFOLLOW''
      else if flag = OpenFlag_value NONBLOCK then ''NONBLOCK''
      else if flag = OpenFlag_value PATH then ''PATH''
      else if flag = OpenFlag_value SYNC then ''SYNC''
      else if flag = OpenFlag_value TMPFILE then ''TMPFILE''
      else if flag = OpenFlag_value TRUNCATE then ''TRUNCATE''
      else ''???'')"

subsection \<open>File types and file modes\<close>

type_synonym ModeT = "32 word"

datatype ModeT_const = MODE_NONE | MODE_T_TYPE_MASK | MODE_T_MODE_MASK

primrec ModeT_of :: "ModeT_const \<Rightarrow> ModeT" where
  "ModeT_of MODE_NONE = 0"
| "ModeT_of MODE_T_TYPE_MASK = 0xF000"
| "ModeT_of MODE_T_MODE_MASK = NOT 0xF000"

definition ModeT_and :: "ModeT \<Rightarrow> ModeT \<Rightarrow> ModeT" where
  "ModeT_and a b = a AND b"

datatype FileModeBit = SETUID | SETGID | STICKY
  | OWNER_READ | OWNER_WRITE | OWNER_EXEC | OWNER_ALL
  | GROUP_READ | GROUP_WRITE | GROUP_EXEC | GROUP_ALL
  | OTHER_READ | OTHER_WRITE | OTHER_EXEC | OTHER_ALL

primrec FileModeBit_value :: "FileModeBit \<Rightarrow> 32 word" where
  "FileModeBit_value SETUID = 0x800"
| "FileModeBit_value SETGID = 0x400"
| "FileModeBit_value STICKY = 0x200"
| "FileModeBit_value OWNER_READ = 0x100"
| "FileModeBit_value OWNER_WRITE = 0x80"
| "FileModeBit_value OWNER_EXEC = 0x40"
| "FileModeBit_value OWNER_ALL = 0x1C0"
| "FileModeBit_value GROUP_READ = 0x20"
| "FileModeBit_value GROUP_WRITE = 0x10"
| "FileModeBit_value GROUP_EXEC = 0x8"
| "FileModeBit_value GROUP_ALL = 0x38"
| "FileModeBit_value OTHER_READ = 0x4"
| "FileModeBit_value OTHER_WRITE = 0x2"
| "FileModeBit_value OTHER_EXEC = 0x1"
| "FileModeBit_value OTHER_ALL = 0x7"

datatype FileT = FT_NONE | FT_SOCKET | FT_LINK | FT_REGULAR | FT_BLOCKDEV | FT_DIRECTORY
  | FT_CHARDEV | FT_FIFO

primrec FileT_value :: "FileT \<Rightarrow> ModeT" where
  "FileT_value FT_NONE = 0"
| "FileT_value FT_SOCKET = 0xC000"
| "FileT_value FT_LINK = 0xA000"
| "FileT_value FT_REGULAR = 0x8000"
| "FileT_value FT_BLOCKDEV = 0x6000"
| "FileT_value FT_DIRECTORY = 0x4000"
| "FileT_value FT_CHARDEV = 0x2000"
| "FileT_value FT_FIFO = 0x1000"

text \<open>A \<^verbatim>\<open>FileType\<close> is its raw value, a \<^verbatim>\<open>FileMode\<close> the mask of mode bits.\<close>

type_synonym FileType = "32 word"
type_synonym FileMode = "32 mask"

definition FileType_of :: "ModeT \<Rightarrow> FileType" where
  "FileType_of raw = ModeT_and raw (ModeT_of MODE_T_TYPE_MASK)"

definition FileType_is :: "FileType \<Rightarrow> FileT \<Rightarrow> bool" where
  "FileType_is t k \<longleftrightarrow> t = FileT_value k"

definition FileType_symbolic :: "FileType \<Rightarrow> char" where
  "FileType_symbolic t =
     (if t = FileT_value FT_NONE then CHR ''-''
      else if t = FileT_value FT_SOCKET then CHR ''s''
      else if t = FileT_value FT_LINK then CHR ''l''
      else if t = FileT_value FT_REGULAR then CHR ''-''
      else if t = FileT_value FT_BLOCKDEV then CHR ''b''
      else if t = FileT_value FT_DIRECTORY then CHR ''d''
      else if t = FileT_value FT_CHARDEV then CHR ''c''
      else if t = FileT_value FT_FIFO then CHR ''p''
      else CHR ''?'')"

definition FileMode_of :: "ModeT \<Rightarrow> FileMode" where
  "FileMode_of raw = ModeT_and raw (ModeT_of MODE_T_MODE_MASK)"

definition FileMode_has :: "FileMode \<Rightarrow> FileModeBit \<Rightarrow> bool" where
  "FileMode_has m b = BitMask_has m (FileModeBit_value b)"

definition FileMode_canAnyRead :: "FileMode \<Rightarrow> bool" where
  "FileMode_canAnyRead m = (BitMask_anyOf_list m
     (map FileModeBit_value [OWNER_READ, GROUP_READ, OTHER_READ]) = Inr True)"

definition FileMode_canAnyWrite :: "FileMode \<Rightarrow> bool" where
  "FileMode_canAnyWrite m = (BitMask_anyOf_list m
     (map FileModeBit_value [OWNER_WRITE, GROUP_WRITE, OTHER_WRITE]) = Inr True)"

definition FileMode_canAnyExec :: "FileMode \<Rightarrow> bool" where
  "FileMode_canAnyExec m = (BitMask_anyOf_list m
     (map FileModeBit_value [OWNER_EXEC, GROUP_EXEC, OTHER_EXEC]) = Inr True)"

definition FileMode_symbolic :: "FileMode \<Rightarrow> string" where
  "FileMode_symbolic m =
     [if FileMode_has m OWNER_READ then CHR ''r'' else CHR ''-'',
      if FileMode_has m OWNER_WRITE then CHR ''w'' else CHR ''-'',
      if FileMode_has m SETUID then (if FileMode_has m OWNER_EXEC then CHR ''s'' else CHR ''S'')
      else if FileMode_has m OWNER_EXEC then CHR ''x'' else CHR ''-'',
      if FileMode_has m GROUP_READ then CHR ''r'' else CHR ''-'',
      if FileMode_has m GROUP_WRITE then CHR ''w'' else CHR ''-'',
      if FileMode_has m SETGID then (if FileMode_has m GROUP_EXEC then CHR ''s'' else CHR ''S'')
      else if FileMode_has m GROUP_EXEC then CHR ''x'' else CHR ''-'',
      if FileMode_has m OTHER_READ then CHR ''r'' else CHR ''-'',
      if FileMode_has m OTHER_WRITE then CHR ''w'' else CHR ''-'',
      if FileMode_has m STICKY then (if FileMode_has m OTHER_EXEC then CHR ''t'' else CHR ''T'')
      else if FileMode_has m OTHER_EXEC then CHR ''x'' else CHR ''-'']"

subsection \<open>Properties\<close>

lemma FileMode_has_iff: "FileMode_has m b \<longleftrightarrow> bits (FileModeBit_value b) \<subseteq> bits m"
  by (cases b) (auto simp: FileMode_has_def BitMask_has_def test_iff)

lemma bits_mode_bit [simp]:
  "bits (0x800 :: 32 word) = {11}" "bits (0x400 :: 32 word) = {10}" "bits (0x200 :: 32 word) = {9}"
  "bits (0x100 :: 32 word) = {8}" "bits (0x80 :: 32 word) = {7}" "bits (0x40 :: 32 word) = {6}"
  "bits (0x20 :: 32 word) = {5}" "bits (0x10 :: 32 word) = {4}" "bits (0x8 :: 32 word) = {3}"
  "bits (0x4 :: 32 word) = {2}" "bits (0x2 :: 32 word) = {1}" "bits (0x1 :: 32 word) = {0}"
  using bits_exp[where ?'w = 32, of 11] bits_exp[where ?'w = 32, of 10]
    bits_exp[where ?'w = 32, of 9] bits_exp[where ?'w = 32, of 8] bits_exp[where ?'w = 32, of 7]
    bits_exp[where ?'w = 32, of 6] bits_exp[where ?'w = 32, of 5] bits_exp[where ?'w = 32, of 4]
    bits_exp[where ?'w = 32, of 3] bits_exp[where ?'w = 32, of 2] bits_exp[where ?'w = 32, of 1]
    bits_exp[where ?'w = 32, of 0]
  by simp_all

text \<open>The positions of the permission and special bits.\<close>

definition mode_positions :: "FileMode \<Rightarrow> nat set" where
  "mode_positions m = bits m \<inter> {..<12}"

lemma below_12: "(n::nat) < 12 \<longleftrightarrow> n \<in> {0, 1, 2, 3, 4, 5, 6, 7, 8, 9, 10, 11}"
  by (simp only: insert_iff empty_iff) presburger

lemma read_char_eq:
  "((if a then CHR ''r'' else CHR ''-'') = (if b then CHR ''r'' else CHR ''-'')) = (a = b)"
  by simp

lemma write_char_eq:
  "((if a then CHR ''w'' else CHR ''-'') = (if b then CHR ''w'' else CHR ''-'')) = (a = b)"
  by simp

lemma exec_char_eq:
  "((if s then (if x then CHR ''s'' else CHR ''S'') else if x then CHR ''x'' else CHR ''-'') =
    (if s' then (if x' then CHR ''s'' else CHR ''S'') else if x' then CHR ''x'' else CHR ''-'')) =
   (s = s' \<and> x = x')"
  by (cases s; cases x; cases s'; cases x') simp_all

lemma sticky_char_eq:
  "((if s then (if x then CHR ''t'' else CHR ''T'') else if x then CHR ''x'' else CHR ''-'') =
    (if s' then (if x' then CHR ''t'' else CHR ''T'') else if x' then CHR ''x'' else CHR ''-'')) =
   (s = s' \<and> x = x')"
  by (cases s; cases x; cases s'; cases x') simp_all

lemma symbolic_tests: "FileMode_symbolic m = FileMode_symbolic n \<longleftrightarrow>
    (\<forall>b \<in> {OTHER_EXEC, OTHER_WRITE, OTHER_READ, GROUP_EXEC, GROUP_WRITE, GROUP_READ, OWNER_EXEC,
      OWNER_WRITE, OWNER_READ, STICKY, SETGID, SETUID}. FileMode_has m b = FileMode_has n b)"
  by (simp only: FileMode_symbolic_def list.inject read_char_eq write_char_eq exec_char_eq
      sticky_char_eq ball_simps simp_thms conj_ac)

text \<open>
  the symbolic form printed for a file mode determines exactly the twelve permission and
  special bits of the mode: two modes print alike just when they agree on those bits.
\<close>

theorem symbolic_determines_mode:
  "FileMode_symbolic m = FileMode_symbolic n \<longleftrightarrow> mode_positions m = mode_positions n"
proof -
  have "mode_positions m = mode_positions n \<longleftrightarrow> (\<forall>i. i < 12 \<longrightarrow> (i \<in> bits m) = (i \<in> bits n))"
    by (auto simp: mode_positions_def)
  also have "\<dots> \<longleftrightarrow> (\<forall>i \<in> {0, 1, 2, 3, 4, 5, 6, 7, 8, 9, 10, 11}. (i \<in> bits m) = (i \<in> bits n))"
    by (simp only: below_12 Ball_def)
  also have "\<dots> \<longleftrightarrow> FileMode_symbolic m = FileMode_symbolic n"
    by (simp only: symbolic_tests ball_simps simp_thms FileMode_has_iff FileModeBit_value.simps
        bits_mode_bit insert_subset empty_subsetI)
  finally show ?thesis by simp
qed

end
