(* ===== verification/FileDescriptor.thy ===== *)
theory FileDescriptor
  imports FsTypes
begin

text \<open>
  \<^verbatim>\<open>class FileDescriptor\<close> of \<^verbatim>\<open>include/fs/FileDescriptor.hxx\<close> and
  \<^verbatim>\<open>src/fs/FileDescriptor.cxx\<close>: a number that may be invalid and the operations on the
  descriptor it names.  The class does not own the descriptor.  Member functions that change
  the object are actions on the object and the world, the \<^verbatim>\<open>const\<close> ones actions on the
  world.
\<close>

record FileDescriptor =
  m_fd :: FileNum

definition FD :: "FileNum \<Rightarrow> FileDescriptor" where
  "FD n = \<lparr>m_fd = n\<rparr>"

definition FD_default :: FileDescriptor where
  "FD_default = FD (FileNum_of FN_INVALID)"

definition FD_valid :: "FileDescriptor \<Rightarrow> bool" where
  "FD_valid d \<longleftrightarrow> m_fd d \<noteq> FileNum_of FN_INVALID"

definition FD_setFD :: "FileNum \<Rightarrow> FileDescriptor \<Rightarrow> FileDescriptor" where
  "FD_setFD n d = d\<lparr>m_fd := n\<rparr>"

definition FD_reset :: "FileDescriptor \<Rightarrow> FileDescriptor" where
  "FD_reset d = d\<lparr>m_fd := FileNum_of FN_INVALID\<rparr>"

definition FD_close :: "(FileDescriptor \<times> world, unit) act" where
  "FD_close = bind (this FD_valid) (\<lambda>valid.
     if \<not> valid then ret ()
     else bind (this m_fd) (\<lambda>fd.
       andthen (set_this FD_reset)
       (on_world (bind (call ''close'' [I fd]) (\<lambda>a.
          if rv a = 0 then ret () else throw_ApiError ''close()'')))))"

subsection \<open>fcntl and duplicates\<close>

datatype FcntlCmd = F_DUPFD | F_DUPFD_CLOEXEC | F_GETFD | F_SETFD | F_GETFL | F_SETFL
  | F_GETLK | F_SETLK | F_SETLKW | F_SETSIG | F_GETSIG | F_SETOWN_EX | F_GETOWN_EX
  | F_OFD_GETLK | F_OFD_SETLK | F_OFD_SETLKW | F_SETLEASE | F_GETLEASE
  | F_SETPIPE_SZ | F_GETPIPE_SZ | F_ADD_SEALS | F_GET_SEALS
  | F_GET_RW_HINT | F_SET_RW_HINT | F_GET_FILE_RW_HINT | F_SET_FILE_RW_HINT

primrec cmd_value :: "FcntlCmd \<Rightarrow> int" where
  "cmd_value F_DUPFD = 0"
| "cmd_value F_DUPFD_CLOEXEC = 1030"
| "cmd_value F_GETFD = 1"
| "cmd_value F_SETFD = 2"
| "cmd_value F_GETFL = 3"
| "cmd_value F_SETFL = 4"
| "cmd_value F_GETLK = 5"
| "cmd_value F_SETLK = 6"
| "cmd_value F_SETLKW = 7"
| "cmd_value F_SETSIG = 10"
| "cmd_value F_GETSIG = 11"
| "cmd_value F_SETOWN_EX = 15"
| "cmd_value F_GETOWN_EX = 16"
| "cmd_value F_OFD_GETLK = 36"
| "cmd_value F_OFD_SETLK = 37"
| "cmd_value F_OFD_SETLKW = 38"
| "cmd_value F_SETLEASE = 1024"
| "cmd_value F_GETLEASE = 1025"
| "cmd_value F_SETPIPE_SZ = 1031"
| "cmd_value F_GETPIPE_SZ = 1032"
| "cmd_value F_ADD_SEALS = 1033"
| "cmd_value F_GET_SEALS = 1034"
| "cmd_value F_GET_RW_HINT = 1035"
| "cmd_value F_SET_RW_HINT = 1036"
| "cmd_value F_GET_FILE_RW_HINT = 1037"
| "cmd_value F_SET_FILE_RW_HINT = 1038"

definition FD_fcntl :: "FileDescriptor \<Rightarrow> FcntlCmd \<Rightarrow> (world, answer) act" where
  "FD_fcntl d cmd = call ''fcntl'' [I (m_fd d), I (cmd_value cmd)]"

definition FD_fcntl_val :: "FileDescriptor \<Rightarrow> FcntlCmd \<Rightarrow> arg \<Rightarrow> (world, answer) act" where
  "FD_fcntl_val d cmd val = call ''fcntl'' [I (m_fd d), I (cmd_value cmd), val]"

definition FD_duplicate_to :: "FileDescriptor \<Rightarrow> FileDescriptor \<Rightarrow> bool \<Rightarrow> (world, unit) act" where
  "FD_duplicate_to d new_fd cloexec =
     bind (call ''dup3'' [I (m_fd d), I (m_fd new_fd),
             I (if cloexec then uint (OpenFlag_value CLOEXEC) else 0)]) (\<lambda>a.
       if rv a = -1 then throw_ApiError ''dup3()'' else ret ())"

definition FD_duplicate :: "FileDescriptor \<Rightarrow> FileNum \<Rightarrow> bool \<Rightarrow> (world, FileDescriptor) act" where
  "FD_duplicate d lowest cloexec =
     bind (FD_fcntl_val d (if cloexec then F_DUPFD_CLOEXEC else F_DUPFD) (I lowest)) (\<lambda>a.
       if rv a = -1 then throw_ApiError ''fcntl(F_DUPFD)'' else ret (FD (rv a)))"

subsection \<open>Descriptor and status flags\<close>

datatype DescFlag = DESC_NONE | DESC_CLOEXEC

primrec DescFlag_value :: "DescFlag \<Rightarrow> 32 word" where
  "DescFlag_value DESC_NONE = 0"
| "DescFlag_value DESC_CLOEXEC = 1"

definition FD_getFlags :: "FileDescriptor \<Rightarrow> (world, 32 mask) act" where
  "FD_getFlags d = bind (FD_fcntl d F_GETFD) (\<lambda>a.
     if rv a = -1 then throw_ApiError ''fcntl(F_GETFD)'' else ret (word_of_int (rv a)))"

definition FD_setFlags :: "FileDescriptor \<Rightarrow> 32 mask \<Rightarrow> (world, unit) act" where
  "FD_setFlags d flags = bind (FD_fcntl_val d F_SETFD (I (sint (BitMask_raw flags)))) (\<lambda>a.
     if rv a \<noteq> 0 then throw_ApiError ''fcntl(F_SETFD)'' else ret ())"

definition FD_setCloseOnExec :: "FileDescriptor \<Rightarrow> bool \<Rightarrow> (world, unit) act" where
  "FD_setCloseOnExec d on_off =
     FD_setFlags d (BitMask_of_list [DescFlag_value (if on_off then DESC_CLOEXEC else DESC_NONE)])"

definition FD_getStatusFlags :: "FileDescriptor \<Rightarrow> (world, 32 word \<times> OpenFlags) act" where
  "FD_getStatusFlags d = bind (FD_fcntl d F_GETFL) (\<lambda>a.
     if rv a = -1 then throw_ApiError ''fcntl(F_GETFL)''
     else (let flags = word_of_int (rv a);
               mode = flags AND (OpenMode_value READ_ONLY OR OpenMode_value WRITE_ONLY OR
                                 OpenMode_value READ_WRITE)
           in ret (mode, flags AND NOT mode)))"

definition FD_setStatusFlags :: "FileDescriptor \<Rightarrow> OpenFlags \<Rightarrow> (world, unit) act" where
  "FD_setStatusFlags d flags = bind (FD_fcntl_val d F_SETFL (I (sint (BitMask_raw flags)))) (\<lambda>a.
     if rv a \<noteq> 0 then throw_ApiError ''fcntl(F_SETFL)'' else ret ())"

subsection \<open>Flushing\<close>

text \<open>
  The loop of \<^verbatim>\<open>sync_helper()\<close>: the only error that goes round again is EINTR, and only
  when automatic restarts are on.
\<close>

definition sync_helper :: "FileDescriptor \<Rightarrow> string \<Rightarrow> string \<Rightarrow> (world, unit) act" where
  "sync_helper fd sync_func errlabel = syscall_loop
     (bind (call sync_func [I (m_fd fd)]) (\<lambda>a.
        if rv a = 0 then ret (Some ())
        else bind get_errno (\<lambda>e. bind (gets auto_restart_syscalls) (\<lambda>restart.
          if e = errno_of Errno_INTERRUPTED \<and> restart then ret None
          else throw_ApiError errlabel))))"

definition FD_sync :: "FileDescriptor \<Rightarrow> (world, unit) act" where
  "FD_sync d = sync_helper d ''fsync'' ''fsync()''"

definition FD_dataSync :: "FileDescriptor \<Rightarrow> (world, unit) act" where
  "FD_dataSync d = sync_helper d ''fdatasync'' ''fdatasync()''"

subsection \<open>Seals and pipe sizes\<close>

datatype SealFlag = SEAL | SHRINK | GROW | SEAL_WRITE | FUTURE_WRITE

primrec SealFlag_value :: "SealFlag \<Rightarrow> 32 word" where
  "SealFlag_value SEAL = 0x1"
| "SealFlag_value SHRINK = 0x2"
| "SealFlag_value GROW = 0x4"
| "SealFlag_value SEAL_WRITE = 0x8"
| "SealFlag_value FUTURE_WRITE = 0x10"

definition FD_addSeals :: "FileDescriptor \<Rightarrow> 32 mask \<Rightarrow> (world, unit) act" where
  "FD_addSeals d flags = bind (FD_fcntl_val d F_ADD_SEALS (I (uint (BitMask_raw flags)))) (\<lambda>a.
     if rv a \<noteq> 0 then throw_ApiError ''fcntl(F_ADD_SEALS)'' else ret ())"

definition FD_getSeals :: "FileDescriptor \<Rightarrow> (world, 32 mask) act" where
  "FD_getSeals d = bind (FD_fcntl d F_GET_SEALS) (\<lambda>a.
     if rv a \<noteq> 0 then throw_ApiError ''fcntl(F_GET_SEALS)''
     else ret (BitMask_of (word_of_int (rv a))))"

definition FD_getPipeSize :: "FileDescriptor \<Rightarrow> (world, int) act" where
  "FD_getPipeSize d = bind (FD_fcntl d F_GETPIPE_SZ) (\<lambda>a.
     if rv a \<noteq> 0 then throw_ApiError ''fcntl(F_GETPIP_SZ)'' else ret (rv a))"

definition FD_setPipeSize :: "FileDescriptor \<Rightarrow> int \<Rightarrow> (world, int) act" where
  "FD_setPipeSize d new_size = bind (FD_fcntl_val d F_SETPIPE_SZ (I new_size)) (\<lambda>a.
     if rv a \<noteq> 0 then throw_ApiError ''fcntl(F_SETPIP_SZ)'' else ret (rv a))"

subsection \<open>Advisory locks (include/fs/FileLock.hxx)\<close>

datatype LockType = READ_LOCK | WRITE_LOCK | UNLOCK

primrec LockType_value :: "LockType \<Rightarrow> int" where
  "LockType_value READ_LOCK = 0"
| "LockType_value WRITE_LOCK = 1"
| "LockType_value UNLOCK = 2"

datatype SeekDir = DIR_SET | DIR_CUR | DIR_END

primrec SeekDir_value :: "SeekDir \<Rightarrow> int" where
  "SeekDir_value DIR_SET = 0"
| "SeekDir_value DIR_CUR = 1"
| "SeekDir_value DIR_END = 2"

record FileLock =
  l_type :: int
  l_whence :: int
  l_start :: int
  l_len :: int
  l_pid :: int

definition FileLock_clear :: "LockType \<Rightarrow> SeekDir \<Rightarrow> FileLock" where
  "FileLock_clear type dir = \<lparr>l_type = LockType_value type, l_whence = SeekDir_value dir,
     l_start = 0, l_len = 0, l_pid = 0\<rparr>"

definition FileLock_setType :: "LockType \<Rightarrow> FileLock \<Rightarrow> FileLock" where
  "FileLock_setType type l = l\<lparr>l_type := LockType_value type\<rparr>"

definition FileLock_clearPID :: "FileLock \<Rightarrow> FileLock" where
  "FileLock_clearPID l = l\<lparr>l_pid := 0\<rparr>"

definition FileLock_isOFDLock :: "FileLock \<Rightarrow> bool" where
  "FileLock_isOFDLock l \<longleftrightarrow> l_pid l = -1"

definition lock_arg :: "FileLock \<Rightarrow> arg" where
  "lock_arg l = L [I (l_type l), I (l_whence l), I (l_start l), I (l_len l), I (l_pid l)]"

text \<open>The lock structure after the kernel stored its five fields through the pointer.\<close>

definition lock_out :: "FileLock \<Rightarrow> answer \<Rightarrow> FileLock" where
  "lock_out l a = (case outs a of
      [t, w, s, n, p] \<Rightarrow> \<lparr>l_type = t, l_whence = w, l_start = s, l_len = n, l_pid = p\<rparr>
    | _ \<Rightarrow> l)"

definition FD_getLock_with :: "FcntlCmd \<Rightarrow> string \<Rightarrow> FileDescriptor \<Rightarrow> FileLock \<Rightarrow>
    (world, bool \<times> FileLock) act" where
  "FD_getLock_with cmd label d lock = bind (FD_fcntl_val d cmd (lock_arg lock)) (\<lambda>a.
     if rv a \<noteq> 0 then throw_ApiError label
     else (let l = lock_out lock a in ret (l_type l = LockType_value UNLOCK, l)))"

definition FD_getLock :: "FileDescriptor \<Rightarrow> FileLock \<Rightarrow> (world, bool \<times> FileLock) act" where
  "FD_getLock = FD_getLock_with F_GETLK ''fcntl(F_GETLK)''"

definition FD_getOFDLock :: "FileDescriptor \<Rightarrow> FileLock \<Rightarrow> (world, bool \<times> FileLock) act" where
  "FD_getOFDLock = FD_getLock_with F_OFD_GETLK ''fcntl(F_OFD_GETLK)''"

definition FD_setLock_with :: "FcntlCmd \<Rightarrow> string \<Rightarrow> FileDescriptor \<Rightarrow> FileLock \<Rightarrow>
    (world, bool) act" where
  "FD_setLock_with cmd label d lock = bind (FD_fcntl_val d cmd (lock_arg lock)) (\<lambda>a.
     if rv a \<noteq> 0 then bind get_errno (\<lambda>e.
       if e = errno_of Errno_AGAIN \<or> e = errno_of Errno_ACCESS then ret False
       else throw_ApiError label)
     else ret True)"

definition FD_setLock :: "FileDescriptor \<Rightarrow> FileLock \<Rightarrow> (world, bool) act" where
  "FD_setLock = FD_setLock_with F_SETLK ''fcntl(F_SETLK)''"

definition FD_setLockWait :: "FileDescriptor \<Rightarrow> FileLock \<Rightarrow> (world, unit) act" where
  "FD_setLockWait d lock = bind (FD_fcntl_val d F_SETLKW (lock_arg lock)) (\<lambda>a.
     if rv a \<noteq> 0 then throw_ApiError ''fcntl(F_SETLKW)'' else ret ())"

definition FD_setOFDLock :: "FileDescriptor \<Rightarrow> FileLock \<Rightarrow> (world, bool) act" where
  "FD_setOFDLock d lock =
     (if l_pid lock \<noteq> 0 then throw (UsageError ''attempt to set OFD lock with l_pid != 0'')
      else FD_setLock_with F_OFD_SETLK ''fcntl(F_OFD_SETLK)'' d lock)"

definition FD_setOFDLockWait :: "FileDescriptor \<Rightarrow> FileLock \<Rightarrow> (world, unit) act" where
  "FD_setOFDLockWait d lock =
     (if l_pid lock \<noteq> 0 then throw (UsageError ''attempt to set OFD lock with l_pid != 0'')
      else bind (FD_fcntl_val d F_OFD_SETLKW (lock_arg lock)) (\<lambda>a.
        if rv a \<noteq> 0 then throw_ApiError ''fcntl(F_OFD_SETLKW)'' else ret ()))"

text \<open>
  \<^verbatim>\<open>FileLockGuard\<close> (\<^verbatim>\<open>src/fs/FileLock.cxx\<close>): the constructor takes the lock, the
  destructor turns it into an unlock request.  Its state is the pair of its members.
\<close>

type_synonym FileLockGuard = "FileDescriptor \<times> FileLock"

definition FileLockGuard_create :: "FileDescriptor \<Rightarrow> FileLock \<Rightarrow> (world, FileLockGuard) act" where
  "FileLockGuard_create fd lock =
     (if l_type lock = LockType_value UNLOCK
      then throw (UsageError ''Cannot combine UNLOCK operation with FileLockGuard'')
      else andthen (FD_setOFDLockWait fd lock) (ret (fd, lock)))"

definition FileLockGuard_destroy :: "FileLockGuard \<Rightarrow> (world, unit) act" where
  "FileLockGuard_destroy g = FD_setOFDLockWait (fst g) (FileLock_setType UNLOCK (snd g))"

subsection \<open>Owners, signals, leases, hints and advice\<close>

datatype OwnerType = OWNER_THREAD | OWNER_PROCESS | OWNER_GROUP

primrec OwnerType_value :: "OwnerType \<Rightarrow> int" where
  "OwnerType_value OWNER_THREAD = 0"
| "OwnerType_value OWNER_PROCESS = 1"
| "OwnerType_value OWNER_GROUP = 2"

record Owner =
  owner_type :: int
  owner_pid :: int

definition Owner_invalid :: Owner where
  "Owner_invalid = \<lparr>owner_type = -1, owner_pid = -1\<rparr>"

definition Owner_set :: "OwnerType \<Rightarrow> int \<Rightarrow> Owner" where
  "Owner_set t n = \<lparr>owner_type = OwnerType_value t, owner_pid = n\<rparr>"

definition Owner_is :: "OwnerType \<Rightarrow> Owner \<Rightarrow> bool" where
  "Owner_is t o' \<longleftrightarrow> owner_type o' = OwnerType_value t"

definition Owner_valid :: "Owner \<Rightarrow> bool" where
  "Owner_valid o' \<longleftrightarrow> owner_pid o' \<noteq> 0 \<and>
     (Owner_is OWNER_THREAD o' \<or> Owner_is OWNER_PROCESS o' \<or> Owner_is OWNER_GROUP o')"

definition Owner_as :: "OwnerType \<Rightarrow> Owner \<Rightarrow> int option" where
  "Owner_as t o' = (if Owner_is t o' then Some (owner_pid o') else None)"

definition FD_getOwner :: "FileDescriptor \<Rightarrow> Owner \<Rightarrow> (world, Owner) act" where
  "FD_getOwner d owner = bind (FD_fcntl d F_GETOWN_EX) (\<lambda>a.
     if rv a \<noteq> 0 then throw_ApiError ''fcntl(F_GETOWN_EX)''
     else ret (case outs a of [t, p] \<Rightarrow> \<lparr>owner_type = t, owner_pid = p\<rparr> | _ \<Rightarrow> owner))"

definition FD_setOwner :: "FileDescriptor \<Rightarrow> Owner \<Rightarrow> (world, unit) act" where
  "FD_setOwner d owner =
     bind (FD_fcntl_val d F_SETOWN_EX (L [I (owner_type owner), I (owner_pid owner)])) (\<lambda>a.
       if rv a \<noteq> 0 then throw_ApiError ''fcntl(F_SETOWN_EX)'' else ret ())"

definition FD_getSignal :: "FileDescriptor \<Rightarrow> (world, int option) act" where
  "FD_getSignal d = bind (FD_fcntl d F_GETSIG) (\<lambda>a.
     if rv a = -1 then throw_ApiError ''fcntl(F_GETSIG)''
     else if rv a = 0 then ret None else ret (Some (rv a)))"

definition FD_setSignal :: "FileDescriptor \<Rightarrow> int option \<Rightarrow> (world, unit) act" where
  "FD_setSignal d sig =
     bind (FD_fcntl_val d F_SETSIG (I (case sig of Some s \<Rightarrow> s | None \<Rightarrow> 0))) (\<lambda>a.
       if rv a \<noteq> 0 then throw_ApiError ''fcntl(F_SETSIG)'' else ret ())"

datatype LeaseType = LEASE_READ | LEASE_WRITE | LEASE_UNLOCK

primrec LeaseType_value :: "LeaseType \<Rightarrow> int" where
  "LeaseType_value LEASE_READ = 0"
| "LeaseType_value LEASE_WRITE = 1"
| "LeaseType_value LEASE_UNLOCK = 2"

definition FD_getLease :: "FileDescriptor \<Rightarrow> (world, int) act" where
  "FD_getLease d = bind (FD_fcntl d F_GETLEASE) (\<lambda>a.
     if rv a = -1 then throw_ApiError ''fcntl(F_GETLEASE)'' else ret (rv a))"

definition FD_setLease :: "FileDescriptor \<Rightarrow> int \<Rightarrow> (world, unit) act" where
  "FD_setLease d lease = bind (FD_fcntl_val d F_SETLEASE (I lease)) (\<lambda>a.
     if rv a \<noteq> 0 then throw_ApiError ''fcntl(F_SETLEASE)'' else ret ())"

datatype ReadWriteHint = LIFE_NOT_SET | LIFE_NONE | LIFE_SHORT | LIFE_MEDIUM | LIFE_LONG
  | LIFE_EXTREME

primrec ReadWriteHint_value :: "ReadWriteHint \<Rightarrow> 64 word" where
  "ReadWriteHint_value LIFE_NOT_SET = 0"
| "ReadWriteHint_value LIFE_NONE = 1"
| "ReadWriteHint_value LIFE_SHORT = 2"
| "ReadWriteHint_value LIFE_MEDIUM = 3"
| "ReadWriteHint_value LIFE_LONG = 4"
| "ReadWriteHint_value LIFE_EXTREME = 5"

definition FD_setHint :: "FcntlCmd \<Rightarrow> string \<Rightarrow> FileDescriptor \<Rightarrow> 64 word \<Rightarrow> (world, unit) act" where
  "FD_setHint cmd label d hint = bind (FD_fcntl_val d cmd (L [I (uint hint)])) (\<lambda>a.
     if rv a \<noteq> 0 then throw_ApiError label else ret ())"

definition FD_getHint :: "FcntlCmd \<Rightarrow> string \<Rightarrow> FileDescriptor \<Rightarrow> (world, 64 word) act" where
  "FD_getHint cmd label d = bind (FD_fcntl d cmd) (\<lambda>a.
     if rv a \<noteq> 0 then throw_ApiError label
     else ret (case outs a of n # _ \<Rightarrow> word_of_int n | [] \<Rightarrow> 0))"

definition FD_setInodeReadWriteHint :: "FileDescriptor \<Rightarrow> 64 word \<Rightarrow> (world, unit) act" where
  "FD_setInodeReadWriteHint = FD_setHint F_SET_RW_HINT ''fcntl(F_SET_RW_HINT)''"

definition FD_getInodeReadWriteHint :: "FileDescriptor \<Rightarrow> (world, 64 word) act" where
  "FD_getInodeReadWriteHint = FD_getHint F_GET_RW_HINT ''fcntl(F_GET_RW_HINT)''"

definition FD_setFDReadWriteHint :: "FileDescriptor \<Rightarrow> 64 word \<Rightarrow> (world, unit) act" where
  "FD_setFDReadWriteHint = FD_setHint F_SET_FILE_RW_HINT ''fnctl(F_SET_FILE_RW_HINT)''"

definition FD_getFDReadWriteHint :: "FileDescriptor \<Rightarrow> (world, 64 word) act" where
  "FD_getFDReadWriteHint = FD_getHint F_GET_FILE_RW_HINT ''fcntl(F_GET_FILE_RW_HINT)''"

datatype AccessAdvice = ADV_NORMAL | ADV_SEQUENTIAL | ADV_RANDOM | ADV_NOREUSE | ADV_WILLNEED
  | ADV_DONTNEED

primrec AccessAdvice_value :: "AccessAdvice \<Rightarrow> int" where
  "AccessAdvice_value ADV_NORMAL = 0"
| "AccessAdvice_value ADV_SEQUENTIAL = 2"
| "AccessAdvice_value ADV_RANDOM = 1"
| "AccessAdvice_value ADV_NOREUSE = 5"
| "AccessAdvice_value ADV_WILLNEED = 3"
| "AccessAdvice_value ADV_DONTNEED = 4"

definition FD_setAdvice :: "FileDescriptor \<Rightarrow> int \<Rightarrow> int \<Rightarrow> int \<Rightarrow> (world, unit) act" where
  "FD_setAdvice d offset size' advice =
     bind (call ''posix_fadvise'' [I (m_fd d), I offset, I size', I advice]) (\<lambda>a.
       if rv a \<noteq> 0 then throw_ApiError ''posix_fadvice()'' else ret ())"

subsection \<open>Closing\<close>

lemma FD_close_invalid: "\<not> FD_valid d \<Longrightarrow> FD_close (d, w) = (Ret (), (d, w))"
  by (simp add: FD_close_def act_defs)

lemma FD_close_answered:
  assumes "FD_valid d" "answers w = a # as"
  shows "FD_close (d, w) = (if rv a = 0 then Ret () else
      Throw (ApiError ''close()'' (errno_after (errno_var w) a)),
    (FD_default, snd (call ''close'' [I (m_fd d)] w)))"
  using assms
  by (simp add: FD_close_def act_defs kernel_defs FD_reset_def FD_default_def FD_def)

lemma FD_close_unanswered:
  assumes "FD_valid d" "answers w = []"
  shows "FD_close (d, w) = (Blocked, (FD_default, w))"
  using assms
  by (simp add: FD_close_def act_defs kernel_defs FD_reset_def FD_default_def FD_def)

lemma FD_close_object: "fst (snd (FD_close (d, w))) = FD_default"
proof (cases "FD_valid d")
  case True
  then show ?thesis
    by (cases "answers w") (simp_all add: FD_close_answered FD_close_unanswered)
next
  case False
  then have "d = FD_default"
    by (simp add: FD_valid_def FD_default_def FD_def)
  with False show ?thesis by (simp add: FD_close_invalid)
qed

lemma close_ends_resource: "effect (Call ''close'' [I fd], a) R = R - {Fd fd}"
  by (simp add: opens_fd_def)

text \<open>
  \<^verbatim>\<open>close()\<close> leaves the object invalid whatever the kernel answers, so a second
  \<^verbatim>\<open>close()\<close> does nothing; on a valid object it makes exactly one call, after which the
  descriptor is not live any more, and it throws exactly when that call reports an error.
\<close>

theorem close_releases_once:
  "(case FD_close (d, w) of (r, (d', w')) \<Rightarrow>
      \<not> FD_valid d' \<and> FD_close (d', w') = (Ret (), (d', w')) \<and>
      (case answers w of
         [] \<Rightarrow> (if FD_valid d then r = Blocked else r = Ret ()) \<and> w' = w
       | a # as \<Rightarrow>
         (if FD_valid d then runs_to w [(Call ''close'' [I (m_fd d)], a)] w' \<and>
             live_in w' = live_in w - {Fd (m_fd d)} \<and>
             r = (if rv a = 0 then Ret () else Throw (ApiError ''close()'' (errno_var w')))
          else r = Ret () \<and> w' = w)))"
proof -
  have inv: "\<not> FD_valid FD_default"
    by (simp add: FD_valid_def FD_default_def FD_def)
  show ?thesis
  proof (cases "FD_valid d")
    case True
    then show ?thesis
      by (cases "answers w")
        (simp_all add: FD_close_answered FD_close_unanswered FD_close_invalid inv
           call_answer runs_to_def close_ends_resource del: effect.simps)
  qed (simp add: FD_close_invalid split: list.split)
qed

subsection \<open>Operations that cannot succeed\<close>

text \<open>
  \<^verbatim>\<open>getPipeSize()\<close> and \<^verbatim>\<open>setPipeSize()\<close> treat every non-zero result of
  \<^verbatim>\<open>fcntl()\<close> as an error although the call returns the size, and \<^verbatim>\<open>getSeals()\<close>
  does so with the mask of seals: the only size they can return is 0 and the only mask is
  the empty one, and a pipe whose size the kernel reports without touching errno makes them
  throw with the errno some earlier call left behind.
\<close>

theorem pipe_size_and_seals_only_zero:
  "(case FD_getPipeSize d w of (Ret n, _) \<Rightarrow> n = 0 | _ \<Rightarrow> True) \<and>
   (case FD_setPipeSize d k w of (Ret n, _) \<Rightarrow> n = 0 | _ \<Rightarrow> True) \<and>
   (case FD_getSeals d w of (Ret m, _) \<Rightarrow> BitMask_none m | _ \<Rightarrow> True) \<and>
   fst (FD_getPipeSize d (w\<lparr>answers := [ok 65536]\<rparr>)) =
     Throw (ApiError ''fcntl(F_GETPIP_SZ)'' (errno_var w)) \<and>
   fst (FD_setPipeSize d k (w\<lparr>answers := [ok 4096]\<rparr>)) =
     Throw (ApiError ''fcntl(F_SETPIP_SZ)'' (errno_var w)) \<and>
   fst (FD_getSeals d (w\<lparr>answers := [ok 1]\<rparr>)) =
     Throw (ApiError ''fcntl(F_GET_SEALS)'' (errno_var w))"
  by (cases "answers w")
    (simp_all add: FD_getPipeSize_def FD_setPipeSize_def FD_getSeals_def FD_fcntl_def
       FD_fcntl_val_def act_defs kernel_defs BitMask_none_def BitMask_any_def BitMask_of_def)

subsection \<open>Flushing\<close>

text \<open>One round of the loop, as the answer decides it.\<close>

lemma sync_helper_blocked: "answers w = [] \<Longrightarrow> sync_helper fd f l w = (Blocked, w)"
  by (simp add: sync_helper_def loop.simps act_defs kernel_defs)

lemma sync_helper_step:
  assumes "answers w = a # as"
    and "w' = w\<lparr>answers := as, trace := trace w @ [(Call f [I (m_fd fd)], a)],
        errno_var := errno_after (errno_var w) a\<rparr>"
  shows "sync_helper fd f l w =
     (if rv a = 0 then (Ret (), w')
      else if errno_var w' = errno_of Errno_INTERRUPTED \<and> auto_restart_syscalls w
      then sync_helper fd f l w'
      else (Throw (ApiError l (errno_var w')), w'))"
  using assms
  by (simp add: sync_helper_def loop.simps[of _ _ w] act_defs kernel_defs)

text \<open>
  What flushing promises: \<open>as\<close> are the answers it consumed, one per call; every one before
  the last is a failure that was retried.
\<close>

definition sync_spec :: "string \<Rightarrow> string \<Rightarrow> FileDescriptor \<Rightarrow> world \<Rightarrow> unit outcome \<times> world \<Rightarrow> bool" where
  "sync_spec f l fd w res \<longleftrightarrow> (\<exists>as.
     answers w = as @ answers (snd res) \<and>
     trace (snd res) = trace w @ map (Pair (Call f [I (m_fd fd)])) as \<and>
     (\<forall>a \<in> set (butlast as). rv a \<noteq> 0 \<and> auto_restart_syscalls w) \<and>
     (case fst res of
        Ret _ \<Rightarrow> as \<noteq> [] \<and> rv (last as) = 0
      | Throw e \<Rightarrow> as \<noteq> [] \<and> rv (last as) \<noteq> 0 \<and> e = ApiError l (errno_var (snd res)) \<and>
          (errno_var (snd res) \<noteq> errno_of Errno_INTERRUPTED \<or> \<not> auto_restart_syscalls w)
      | Abort _ \<Rightarrow> False
      | Blocked \<Rightarrow> answers (snd res) = [] \<and> (\<forall>a \<in> set as. rv a \<noteq> 0)))"

lemma sync_specI:
  assumes "answers w = as @ answers w'"
    "trace w' = trace w @ map (Pair (Call f [I (m_fd fd)])) as"
    "\<And>a. a \<in> set (butlast as) \<Longrightarrow> rv a \<noteq> 0 \<and> auto_restart_syscalls w"
    "case r of
        Ret _ \<Rightarrow> as \<noteq> [] \<and> rv (last as) = 0
      | Throw e \<Rightarrow> as \<noteq> [] \<and> rv (last as) \<noteq> 0 \<and> e = ApiError l (errno_var w') \<and>
          (errno_var w' \<noteq> errno_of Errno_INTERRUPTED \<or> \<not> auto_restart_syscalls w)
      | Abort _ \<Rightarrow> False
      | Blocked \<Rightarrow> answers w' = [] \<and> (\<forall>a \<in> set as. rv a \<noteq> 0)"
  shows "sync_spec f l fd w (r, w')"
  unfolding sync_spec_def fst_conv snd_conv using assms by (intro exI[of _ as]) auto

lemma sync_spec_retry:
  assumes "sync_spec f l fd w' res" "answers w = a # answers w'" "rv a \<noteq> 0"
    "auto_restart_syscalls w" "auto_restart_syscalls w' = auto_restart_syscalls w"
    "trace w' = trace w @ [(Call f [I (m_fd fd)], a)]"
  shows "sync_spec f l fd w res"
proof -
  obtain as where as: "answers w' = as @ answers (snd res)"
    "trace (snd res) = trace w' @ map (Pair (Call f [I (m_fd fd)])) as"
    "\<forall>a \<in> set (butlast as). rv a \<noteq> 0"
    "case fst res of
        Ret _ \<Rightarrow> as \<noteq> [] \<and> rv (last as) = 0
      | Throw e \<Rightarrow> as \<noteq> [] \<and> rv (last as) \<noteq> 0 \<and> e = ApiError l (errno_var (snd res)) \<and>
          (errno_var (snd res) \<noteq> errno_of Errno_INTERRUPTED \<or> \<not> auto_restart_syscalls w')
      | Abort _ \<Rightarrow> False
      | Blocked \<Rightarrow> answers (snd res) = [] \<and> (\<forall>a \<in> set as. rv a \<noteq> 0)"
    using assms(1) by (auto simp: sync_spec_def)
  have "sync_spec f l fd w (fst res, snd res)"
  proof (rule sync_specI[where as = "a # as"])
    show "case fst res of
        Ret _ \<Rightarrow> a # as \<noteq> [] \<and> rv (last (a # as)) = 0
      | Throw e \<Rightarrow> a # as \<noteq> [] \<and> rv (last (a # as)) \<noteq> 0 \<and>
          e = ApiError l (errno_var (snd res)) \<and>
          (errno_var (snd res) \<noteq> errno_of Errno_INTERRUPTED \<or> \<not> auto_restart_syscalls w)
      | Abort _ \<Rightarrow> False
      | Blocked \<Rightarrow> answers (snd res) = [] \<and> (\<forall>a \<in> set (a # as). rv a \<noteq> 0)"
      using as(4) assms(3,5) by (cases "fst res") auto
  qed (use as assms in \<open>auto split: if_splits\<close>)
  then show ?thesis by simp
qed

lemma sync_helper_meets_spec: "sync_spec f l fd w (sync_helper fd f l w)"
proof (induction "answers w" arbitrary: w)
  case Nil
  then show ?case
    using sync_specI[where as = "[]" and w = w and w' = w and r = Blocked] by (simp add: sync_helper_blocked)
next
  case (Cons a as)
  define w' where "w' = w\<lparr>answers := as, trace := trace w @ [(Call f [I (m_fd fd)], a)],
        errno_var := errno_after (errno_var w) a\<rparr>"
  note step = sync_helper_step[OF Cons.hyps(2)[symmetric] w'_def, of l]
  show ?case
  proof (cases "rv a \<noteq> 0 \<and> errno_var w' = errno_of Errno_INTERRUPTED \<and> auto_restart_syscalls w")
    case True
    then have "sync_helper fd f l w = sync_helper fd f l w'"
      using step by simp
    moreover have "sync_spec f l fd w' (sync_helper fd f l w')"
      by (rule Cons.hyps(1)) (simp add: w'_def)
    ultimately show ?thesis
      using True Cons.hyps(2) sync_spec_retry[of f l fd w' _ w a] by (simp add: w'_def)
  next
    case False
    then show ?thesis
      using step Cons.hyps(2)
      by (auto intro!: sync_specI[where as = "[a]"] simp: w'_def split: if_splits)
  qed
qed

text \<open>
  \<^verbatim>\<open>sync()\<close> returns only after a call of \<^verbatim>\<open>fsync()\<close> that succeeded, and every call
  before the last one failed and was repeated because automatic restarts are on; it throws
  exactly the errno of the last call, which is EINTR only if automatic restarts are off.
  It can only fail to return while the kernel has not answered.  The same holds for
  \<^verbatim>\<open>dataSync()\<close>.
\<close>

theorem sync_returns_only_when_flushed:
  "sync_spec ''fsync'' ''fsync()'' fd w (FD_sync fd w) \<and>
   sync_spec ''fdatasync'' ''fdatasync()'' fd w (FD_dataSync fd w)"
  by (simp add: FD_sync_def FD_dataSync_def sync_helper_meets_spec)

subsection \<open>Locks\<close>

lemma setOFDLockWait_call:
  assumes "l_pid lock = 0" "answers w = a # as"
  shows "FD_setOFDLockWait d lock w =
    (if rv a \<noteq> 0 then Throw (ApiError ''fcntl(F_OFD_SETLKW)'' (errno_after (errno_var w) a)) else Ret (),
     snd (call ''fcntl'' [I (m_fd d), I (cmd_value F_OFD_SETLKW), lock_arg lock] w))"
  using assms by (simp add: FD_setOFDLockWait_def FD_fcntl_val_def act_defs kernel_defs)

text \<open>
  Open file description locks insist on a zero \<^verbatim>\<open>l_pid\<close>: with any other value no
  system call is made.  A lock guard on an admissible lock makes one \<^verbatim>\<open>F_OFD_SETLKW\<close> call
  when it is created and one when it is destroyed, for the same descriptor and range, the
  second with the type UNLOCK; a guard that would unlock is rejected before any call; and
  the plain \<^verbatim>\<open>setLock()\<close> and \<^verbatim>\<open>setOFDLock()\<close> report a lock held by others as
  \<^verbatim>\<open>false\<close> for EAGAIN and EACCES alone, throwing every other error.
\<close>

theorem locks_and_guards:
  "(case (FileLockGuard_create d lock w, answers w) of
      ((Ret g, w1), a # b # as) \<Rightarrow> snd g = lock \<and> fst g = d \<and>
         runs_to w [(Call ''fcntl'' [I (m_fd d), I (cmd_value F_OFD_SETLKW), lock_arg lock], a)] w1 \<and>
         rv a = 0 \<and>
         runs_to w1 [(Call ''fcntl'' [I (m_fd d), I (cmd_value F_OFD_SETLKW),
            L [I (LockType_value UNLOCK), I (l_whence lock), I (l_start lock), I (l_len lock), I 0]], b)]
           (snd (FileLockGuard_destroy g w1))
    | _ \<Rightarrow> True) \<and>
   (l_pid lock \<noteq> 0 \<or> l_type lock = LockType_value UNLOCK \<longrightarrow>
      (\<exists>msg. FileLockGuard_create d lock w = (Throw (UsageError msg), w))) \<and>
   (l_pid lock \<noteq> 0 \<longrightarrow> (\<exists>msg. FD_setOFDLock d lock w = (Throw (UsageError msg), w))) \<and>
   (answers w = a # as \<longrightarrow>
      fst (FD_setLock d lock w) =
        (if rv a = 0 then Ret True
         else if errno_after (errno_var w) a \<in> errno_of ` {Errno_AGAIN, Errno_ACCESS} then Ret False
         else Throw (ApiError ''fcntl(F_SETLK)'' (errno_after (errno_var w) a))))"
proof (intro conjI)
  show "case (FileLockGuard_create d lock w, answers w) of
      ((Ret g, w1), a # b # as) \<Rightarrow> snd g = lock \<and> fst g = d \<and>
         runs_to w [(Call ''fcntl'' [I (m_fd d), I (cmd_value F_OFD_SETLKW), lock_arg lock], a)] w1 \<and>
         rv a = 0 \<and>
         runs_to w1 [(Call ''fcntl'' [I (m_fd d), I (cmd_value F_OFD_SETLKW),
            L [I (LockType_value UNLOCK), I (l_whence lock), I (l_start lock), I (l_len lock), I 0]], b)]
           (snd (FileLockGuard_destroy g w1))
    | _ \<Rightarrow> True"
    by (cases "answers w"; cases "tl (answers w)")
      (auto simp: FileLockGuard_create_def FileLockGuard_destroy_def FD_setOFDLockWait_def
        FD_fcntl_val_def FileLock_setType_def act_defs kernel_defs lock_arg_def runs_to_def
        split: if_splits)
  show "l_pid lock \<noteq> 0 \<or> l_type lock = LockType_value UNLOCK \<longrightarrow>
      (\<exists>msg. FileLockGuard_create d lock w = (Throw (UsageError msg), w))"
    by (auto simp: FileLockGuard_create_def FD_setOFDLockWait_def act_defs)
  show "l_pid lock \<noteq> 0 \<longrightarrow> (\<exists>msg. FD_setOFDLock d lock w = (Throw (UsageError msg), w))"
    by (simp add: FD_setOFDLock_def act_defs)
  show "answers w = a # as \<longrightarrow>
      fst (FD_setLock d lock w) =
        (if rv a = 0 then Ret True
         else if errno_after (errno_var w) a \<in> errno_of ` {Errno_AGAIN, Errno_ACCESS} then Ret False
         else Throw (ApiError ''fcntl(F_SETLK)'' (errno_after (errno_var w) a)))"
    by (auto simp: FD_setLock_def FD_setLock_with_def FD_fcntl_val_def act_defs kernel_defs)
qed

theorem locks_and_guards_witness:
  "fst (FD_setLock (FD 3) (FileLock_clear READ_LOCK DIR_SET) (world_of [failed Errno_AGAIN])) = Ret False \<and>
   (\<exists>msg. FD_setOFDLock (FD 3) (FileLock_clear READ_LOCK DIR_SET \<lparr>l_pid := 7\<rparr>) (world_of []) =
      (Throw (UsageError msg), world_of []))"
  using locks_and_guards[where d = "FD 3" and lock = "FileLock_clear READ_LOCK DIR_SET"
      and w = "world_of [failed Errno_AGAIN]" and a = "failed Errno_AGAIN" and as = "[]"]
    locks_and_guards[where d = "FD 3" and lock = "FileLock_clear READ_LOCK DIR_SET \<lparr>l_pid := 7\<rparr>"
      and w = "world_of []"]
  by (simp add: world_of_def)

end
