(* ===== verification/Path.thy ===== *)
theory Path
  imports Strings Kernel
begin

text \<open>
  Paths: \<^verbatim>\<open>src/fs/path.cxx\<close>, and \<^verbatim>\<open>get_working_dir()\<close> of \<^verbatim>\<open>src/fs/filesystem.cxx\<close> on
  which it relies.  The specification of normalization is a stack of components: \<open>walk\<close>
  runs the components of a path over it and \<open>render\<close> prints it.
\<close>

subsection \<open>Library functions\<close>

text \<open>\<^verbatim>\<open>std::string::rfind\<close>: the last position where the pattern occurs.\<close>

definition str_rfind :: "string \<Rightarrow> string \<Rightarrow> nat option" where
  "str_rfind s pat = List.find (\<lambda>i. take (length pat) (drop i s) = pat)
     (rev [0..<length s + 1 - length pat])"

text \<open>\<^verbatim>\<open>std::string::erase(pos)\<close> throws when the position is beyond the end.\<close>

definition str_erase :: "string \<Rightarrow> nat option \<Rightarrow> exn + string" where
  "str_erase s pos = (case pos of
      None \<Rightarrow> Inl (StdOutOfRange ''basic_string::erase'')
    | Some p \<Rightarrow> if length s < p then Inl (StdOutOfRange ''basic_string::erase'') else Inr (take p s))"

text \<open>What a call leaves in a buffer of fixed size when it stores the bytes \<open>bs\<close> at its start.\<close>

definition store :: "string \<Rightarrow> string \<Rightarrow> string" where
  "store buf bs = take (length buf) bs @ drop (length bs) buf"

text \<open>\<^verbatim>\<open>std::string::resize(n)\<close> cuts off or appends null bytes.\<close>

definition resize :: "nat \<Rightarrow> string \<Rightarrow> string" where
  "resize n s = take n s @ replicate (n - length s) NUL"

subsection \<open>The working directory (src/fs/filesystem.cxx)\<close>

definition getcwd_round :: "(string \<times> world, string option) act" where
  "getcwd_round = bind (this length) (\<lambda>n. bind (on_world (call ''getcwd'' [I (int n)])) (\<lambda>a.
     if rv a = 0 then
       bind (on_world get_errno) (\<lambda>e.
         if e = errno_of Errno_RANGE then
           andthen (set_this (\<lambda>buf. resize (length buf * 2) buf)) (ret None)
         else on_world (throw_ApiError ''getcwd()''))
     else andthen (set_this (\<lambda>buf. store buf (out a)))
       (bind (this (\<lambda>buf. takeWhile (\<lambda>c. c \<noteq> NUL) buf)) (\<lambda>s. ret (Some s)))))"

definition get_working_dir :: "(world, string) act" where
  "get_working_dir = bind (with_local (resize 128 [])
     (loop (\<lambda>(buf, w). length (answers w)) getcwd_round)) (\<lambda>(s, _). ret s)"

subsection \<open>Normalization (src/fs/path.cxx)\<close>

text \<open>
  The loop of \<^verbatim>\<open>normalize_path()\<close>.  Its variables are \<^verbatim>\<open>slashes\<close>, \<^verbatim>\<open>ret\<close> and
  \<^verbatim>\<open>start\<close>, the last one given by the rest of the path that begins there.  The string
  \<^verbatim>\<open>component\<close> reaches up to the next slash, or to the end when there is none.
\<close>

definition component_step :: "string \<Rightarrow> nat \<Rightarrow> string \<Rightarrow> (world, nat \<times> string) act" where
  "component_step component slashes r =
     (if component \<noteq> [] then
        bind (if slashes = 0 \<and> r = [] then bind get_working_dir (\<lambda>cwd. ret (r @ cwd)) else ret r)
          (\<lambda>r. if component = ''..'' then
                 (if 1 < length r then
                    (case str_erase r (str_rfind r ''/'') of
                       Inl e \<Rightarrow> throw e | Inr r' \<Rightarrow> ret (slashes + 1, r'))
                  else ret (slashes + 1, r))
               else if component = ''.'' then ret (slashes + 1, r)
               else ret (slashes, r @ ''/'' @ component))
      else ret (slashes + 1, r))"

function normalize_loop :: "string \<Rightarrow> nat \<Rightarrow> string \<Rightarrow> (world, nat \<times> string) act" where
  "normalize_loop rest slashes r =
     (if rest = [] then ret (slashes, r)
      else bind (component_step (takeWhile (\<lambda>c. c \<noteq> CHR ''/'') rest) slashes r)
        (\<lambda>(slashes', r'). normalize_loop (tl (dropWhile (\<lambda>c. c \<noteq> CHR ''/'') rest)) slashes' r'))"
  by pat_completeness auto
termination
proof (relation "measure (\<lambda>(rest, _, _). length rest)", simp)
  fix rest :: string
  assume "rest \<noteq> []"
  moreover have "length (dropWhile (\<lambda>c. c \<noteq> CHR ''/'') rest) \<le> length rest"
    by (rule length_dropWhile_le)
  ultimately have "length (tl (dropWhile (\<lambda>c. c \<noteq> CHR ''/'') rest)) < length rest"
    by (cases rest) auto
  then show "((tl (dropWhile (\<lambda>c. c \<noteq> CHR ''/'') rest), sl, r'), rest, slashes, r)
      \<in> measure (\<lambda>(rest, _, _). length rest)" for sl r' slashes r
    by simp
qed

declare normalize_loop.simps [simp del]

definition normalize_path :: "string \<Rightarrow> (world, string) act" where
  "normalize_path path = bind (normalize_loop path 0 []) (\<lambda>(slashes, r).
     ret (if slashes \<noteq> 0 \<and> r = [] then r @ ''/'' else r))"

text \<open>\<^verbatim>\<open>canonicalize_path()\<close> hands a buffer of \<^verbatim>\<open>PATH_MAX\<close> bytes to \<^verbatim>\<open>realpath()\<close>.\<close>

definition max_PATH :: nat where
  "max_PATH = 4096"

definition canonicalize_path :: "string \<Rightarrow> (world, string) act" where
  "canonicalize_path path = bind (call ''realpath'' [S path]) (\<lambda>a.
     if rv a = 0 then throw_FileError path ''realpath()''
     else ret (c_str (store (resize max_PATH []) (out a))))"

subsection \<open>The specification\<close>

text \<open>One component is run over the stack, the innermost directory last.\<close>

definition walk1 :: "string list \<Rightarrow> string \<Rightarrow> string list" where
  "walk1 st c = (if c = [] \<or> c = ''.'' then st else if c = ''..'' then butlast st else st @ [c])"

definition walk :: "string list \<Rightarrow> string list \<Rightarrow> string list" where
  "walk st cs = foldl walk1 st cs"

definition render :: "string list \<Rightarrow> string" where
  "render st = concat (map (\<lambda>c. ''/'' @ c) st)"

definition abs_path :: "string list \<Rightarrow> string" where
  "abs_path st = (if st = [] then ''/'' else render st)"

text \<open>A stack of proper components.\<close>

definition clean :: "string list \<Rightarrow> bool" where
  "clean st \<longleftrightarrow> (\<forall>c \<in> set st. c \<noteq> [] \<and> CHR ''/'' \<notin> set c)"

lemma walk_simps [simp]: "walk st [] = st" "walk st (c # cs) = walk (walk1 st c) cs"
  by (simp_all add: walk_def)

lemma walk_append [simp]: "walk st (cs @ ds) = walk (walk st cs) ds"
  by (simp add: walk_def)

lemma clean_walk1: "clean st \<Longrightarrow> CHR ''/'' \<notin> set c \<Longrightarrow> clean (walk1 st c)"
  by (auto simp: clean_def walk1_def dest: in_set_butlastD)

lemma render_simps [simp]:
  "render [] = []" "render (c # st) = CHR ''/'' # c @ render st"
  "render (st @ st') = render st @ render st'"
  by (simp_all add: render_def)

lemma render_eq_Nil [simp]: "render st = [] \<longleftrightarrow> st = []"
  by (cases st) auto

lemma find_append_none: "(\<And>x. x \<in> set xs \<Longrightarrow> \<not> P x) \<Longrightarrow> List.find P (xs @ ys) = List.find P ys"
  by (induction xs) auto

lemma str_rfind_last:
  assumes "c \<notin> set x"
  shows "str_rfind (r @ c # x) [c] = Some (length r)"
proof -
  let ?P = "\<lambda>i. take (length [c]) (drop i (r @ c # x)) = [c]"
  have x: "\<not> ?P i" if "i \<in> set (rev [Suc (length r)..<length r + Suc (length x)])" for i
  proof
    assume "?P i"
    from that obtain j where j: "i = Suc (length r) + j" "j < length x"
      by (auto simp: le_iff_add)
    then have "take 1 (drop j x) = [c]" using \<open>?P i\<close> by simp
    with j show False
      using assms by (metis drop_eq_Nil in_set_dropD in_set_takeD list.set_intros(1))
  qed
  have "[0..<length r + Suc (length x)] =
      [0..<length r] @ length r # [Suc (length r)..<length r + Suc (length x)]"
    using upt_add_eq_append[of 0 "length r" "Suc (length x)"]
    by (simp add: upt_conv_Cons del: upt_Suc)
  then have eq: "rev [0..<length r + Suc (length x)] =
     rev [Suc (length r)..<length r + Suc (length x)] @ length r # rev [0..<length r]"
    by (simp del: upt_Suc)
  have "List.find ?P (rev [0..<length r + Suc (length x)]) = Some (length r)"
    by (subst eq, subst find_append_none, erule x, simp)
  moreover have "length (r @ c # x) + 1 - length [c] = length r + Suc (length x)"
    by simp
  ultimately show ?thesis
    by (simp only: str_rfind_def)
qed

lemma find_first_char:
  "find_first [c] s = (if c \<in> set s then Some (length (takeWhile (\<lambda>x. x \<noteq> c) s)) else None)"
  by (induction s) (auto simp: find_first.simps)

lemma drop_takeWhile: "drop (length (takeWhile P s)) s = dropWhile P s"
  by (metis append_eq_conv_conj takeWhile_dropWhile_id)

lemma cut_absent [simp]:
  "c \<notin> set s \<Longrightarrow> takeWhile (\<lambda>x. x \<noteq> c) s = s"
  "c \<notin> set s \<Longrightarrow> dropWhile (\<lambda>x. x \<noteq> c) s = []"
  by (induction s) auto

lemma ref_split_char:
  "ref_split [c] s = takeWhile (\<lambda>x. x \<noteq> c) s #
     (if c \<in> set s then ref_split [c] (tl (dropWhile (\<lambda>x. x \<noteq> c) s)) else [])"
proof (cases "c \<in> set s")
  case True
  have "drop (length (takeWhile (\<lambda>x. x \<noteq> c) s) + 1) s = tl (dropWhile (\<lambda>x. x \<noteq> c) s)"
    by (metis drop_takeWhile drop_Suc drop_drop One_nat_def add.commute drop0 plus_1_eq_Suc tl_drop)
  moreover have "take (length (takeWhile (\<lambda>x. x \<noteq> c) s)) s = takeWhile (\<lambda>x. x \<noteq> c) s"
    by (metis append_eq_conv_conj takeWhile_dropWhile_id)
  ultimately show ?thesis
    using True by (subst ref_split.simps) (simp add: find_first_char)
next
  case False
  then show ?thesis by (subst ref_split.simps) (simp add: find_first_char)
qed

subsection \<open>Normalization computes the walk\<close>

lemma erase_last_component:
  assumes "clean st" "st \<noteq> []"
  shows "1 < length (render st) \<and> str_erase (render st) (str_rfind (render st) ''/'') = Inr (render (butlast st))"
proof -
  obtain ys y where st: "st = ys @ [y]" using assms(2) by (cases st rule: rev_cases) auto
  with assms(1) have "y \<noteq> []" "CHR ''/'' \<notin> set y" by (auto simp: clean_def)
  with st str_rfind_last[of "CHR ''/''" y "render ys"] show ?thesis
    by (cases y) (simp_all add: str_erase_def)
qed

text \<open>Once the result is anchored, a component is one step of the walk and makes no call.\<close>

lemma component_step_walk:
  assumes "clean st" "0 < slashes \<or> st \<noteq> []" "CHR ''/'' \<notin> set c"
  shows "\<exists>n. component_step c slashes (render st) w = (Ret (n, render (walk1 st c)), w) \<and>
    (0 < n \<or> walk1 st c \<noteq> [])"
  using assms erase_last_component[OF assms(1)]
  by (cases "st = []") (auto simp: component_step_def walk1_def act_defs)

lemma takeWhile_slash: "CHR ''/'' \<notin> set (takeWhile (\<lambda>c. c \<noteq> CHR ''/'') s)"
  using set_takeWhileD by fastforce

lemma walk_rest:
  "walk st (ref_split ''/'' rest) = walk (walk1 st (takeWhile (\<lambda>c. c \<noteq> CHR ''/'') rest))
     (ref_split ''/'' (tl (dropWhile (\<lambda>c. c \<noteq> CHR ''/'') rest)))"
proof (cases "CHR ''/'' \<in> set rest")
  case True
  then show ?thesis by (subst ref_split_char) simp
next
  case False
  then show ?thesis
    using ref_split_char[of "CHR ''/''" rest] ref_split_char[of "CHR ''/''" "[]"]
    by (simp add: walk1_def)
qed

lemma normalize_loop_walk:
  assumes "clean st" "0 < slashes \<or> st \<noteq> []"
  shows "\<exists>n. normalize_loop rest slashes (render st) w =
     (Ret (n, render (walk st (ref_split ''/'' rest))), w) \<and>
     (0 < n \<or> walk st (ref_split ''/'' rest) \<noteq> [])"
  using assms
proof (induction "length rest" arbitrary: rest st slashes rule: less_induct)
  case less
  show ?case
  proof (cases "rest = []")
    case True
    then show ?thesis
      using less.prems by (subst normalize_loop.simps) (auto simp: ret_def ref_split_char walk1_def)
  next
    case False
    let ?c = "takeWhile (\<lambda>c. c \<noteq> CHR ''/'') rest"
      and ?rest = "tl (dropWhile (\<lambda>c. c \<noteq> CHR ''/'') rest)"
    obtain n where n: "component_step ?c slashes (render st) w = (Ret (n, render (walk1 st ?c)), w)"
      "0 < n \<or> walk1 st ?c \<noteq> []"
      using component_step_walk[OF less.prems takeWhile_slash] by blast
    have "length ?rest < length rest"
      using False length_dropWhile_le[of _ rest]
      by (metis Nitpick.size_list_simp(2) diff_less length_tl less_imp_diff_less
          less_or_eq_imp_le linorder_not_less nat_less_le zero_less_one zero_less_Suc)
    from less.hyps[OF this clean_walk1[OF less.prems(1) takeWhile_slash] n(2)] n(1) False
    show ?thesis
      by (subst normalize_loop.simps) (simp add: bind_def walk_rest[of st rest])
  qed
qed

lemma normalize_anchored:
  assumes "clean st" "0 < slashes \<or> st \<noteq> []"
  shows "bind (normalize_loop rest slashes (render st)) (\<lambda>(slashes, r).
     ret (if slashes \<noteq> 0 \<and> r = [] then r @ ''/'' else r)) w =
    (Ret (abs_path (walk st (ref_split ''/'' rest))), w)"
  using normalize_loop_walk[OF assms, of rest w] by (auto simp: bind_def ret_def abs_path_def)

text \<open>
  C3: An absolute path is normalized without a system call, and the result is the walk of its
  components from the root: empty and \<^verbatim>\<open>.\<close> components vanish, \<^verbatim>\<open>..\<close> takes one level back
  and stops at the root.
\<close>

theorem normalize_absolute:
  "normalize_path (CHR ''/'' # p) w =
     (Ret (abs_path (walk [] (ref_split ''/'' (CHR ''/'' # p)))), w)"
proof -
  have "normalize_loop (CHR ''/'' # p) 0 [] = normalize_loop p 1 (render [])"
    by (subst normalize_loop.simps) (simp add: component_step_def)
  moreover have "walk [] (ref_split ''/'' (CHR ''/'' # p)) = walk [] (ref_split ''/'' p)"
    by (subst walk_rest) (simp add: walk1_def)
  ultimately show ?thesis
    using normalize_anchored[of "[]" 1 p w] by (simp add: normalize_path_def clean_def)
qed

lemma normalize_relative_step:
  assumes "p \<noteq> []" "hd p \<noteq> CHR ''/''" "get_working_dir w = (Ret cwd, w')" "cwd \<noteq> []"
  shows "normalize_loop p 0 [] w = normalize_loop p 0 cwd w'"
proof -
  let ?c = "takeWhile (\<lambda>c. c \<noteq> CHR ''/'') p"
  have "?c \<noteq> []" using assms(1,2) by (cases p) auto
  then have "component_step ?c 0 [] w = component_step ?c 0 cwd w'"
    using assms(3,4) by (simp add: component_step_def bind_def ret_def)
  then show ?thesis
    using assms(1) by (simp add: normalize_loop.simps[of p] bind_def)
qed

text \<open>
  A relative path is normalized by running its components over those of the working
  directory, which is asked for once; this needs the working directory to be a normalized
  path other than the root.
\<close>

theorem normalize_relative:
  assumes "p \<noteq> []" "hd p \<noteq> CHR ''/''"
    and "get_working_dir w = (Ret (render cs), w')" "clean cs" "cs \<noteq> []"
  shows "normalize_path p w = (Ret (abs_path (walk cs (ref_split ''/'' p))), w')"
proof -
  have "normalize_path p w = bind (normalize_loop p 0 (render cs)) (\<lambda>(slashes, r).
     ret (if slashes \<noteq> 0 \<and> r = [] then r @ ''/'' else r)) w'"
    using normalize_relative_step[OF assms(1-3)] assms(5)
    by (simp add: normalize_path_def bind_def)
  then show ?thesis
    using normalize_anchored[OF assms(4), of 0 p w'] assms(5) by simp
qed

lemma ref_split_render: "clean (c # st) \<Longrightarrow> ref_split ''/'' (c @ render st) = c # st"
proof (induction st arbitrary: c)
  case Nil
  then show ?case by (subst ref_split_char) (simp add: clean_def)
next
  case (Cons d st)
  then have "CHR ''/'' \<notin> set c" "clean (d # st)" by (simp_all add: clean_def)
  moreover have "takeWhile (\<lambda>x. x \<noteq> CHR ''/'') (c @ CHR ''/'' # d @ render st) = c"
    "dropWhile (\<lambda>x. x \<noteq> CHR ''/'') (c @ CHR ''/'' # d @ render st) = CHR ''/'' # d @ render st"
    using \<open>CHR ''/'' \<notin> set c\<close> by (auto simp: takeWhile_append dropWhile_append)
  ultimately show ?case
    using Cons.IH[of d] by (subst ref_split_char) simp
qed

text \<open>Normal forms: proper components without \<^verbatim>\<open>.\<close> and \<^verbatim>\<open>..\<close>.\<close>

definition normal :: "string list \<Rightarrow> bool" where
  "normal st \<longleftrightarrow> clean st \<and> ''.'' \<notin> set st \<and> ''..'' \<notin> set st"

lemma normal_walk1: "normal st \<Longrightarrow> CHR ''/'' \<notin> set c \<Longrightarrow> normal (walk1 st c)"
  by (auto simp: normal_def walk1_def clean_def dest: in_set_butlastD)

lemma normal_walk: "normal st \<Longrightarrow> \<forall>c \<in> set cs. CHR ''/'' \<notin> set c \<Longrightarrow> normal (walk st cs)"
  by (induction cs arbitrary: st) (auto intro: normal_walk1)

lemma walk_normal: "normal (st @ cs) \<Longrightarrow> walk st cs = st @ cs"
proof (induction cs arbitrary: st)
  case (Cons c cs)
  then have "walk1 st c = st @ [c]"
    by (auto simp: normal_def walk1_def clean_def)
  with Cons show ?case by simp
qed simp

lemma ref_split_slash_free: "c \<in> set (ref_split ''/'' p) \<Longrightarrow> CHR ''/'' \<notin> set c"
  using ref_split_no_sep[of "''/''" c p] by (auto simp: find_first_char split: if_splits)

lemma normalize_normal:
  assumes "normal st"
  shows "normalize_path (abs_path st) w = (Ret (abs_path st), w)"
proof -
  obtain p where p: "abs_path st = CHR ''/'' # p"
    by (cases st) (auto simp: abs_path_def)
  have "walk [] (ref_split ''/'' (CHR ''/'' # p)) = walk [] (ref_split ''/'' p)"
    by (subst walk_rest) (simp add: walk1_def)
  also have "\<dots> = st"
  proof (cases st)
    case Nil
    with p show ?thesis by (simp add: abs_path_def ref_split_char walk1_def)
  next
    case (Cons c cs)
    with p have "p = c @ render cs" by (simp add: abs_path_def)
    then show ?thesis
      using assms Cons ref_split_render[of c cs] walk_normal[of "[]" st] by (simp add: normal_def)
  qed
  finally have "walk [] (ref_split ''/'' (CHR ''/'' # p)) = st" .
  then show ?thesis
    using normalize_loop_walk[of "[]" 1 p w] p
      normalize_loop.simps[of "CHR ''/'' # p" 0 "[]"]
    by (auto simp: normalize_path_def clean_def component_step_def bind_def ret_def abs_path_def
        walk_rest[of "[]" "CHR ''/'' # p"] walk1_def)
qed

lemma normalize_absolute_walk:
  "normalize_path (CHR ''/'' # p) w = (Ret (abs_path (walk [] (ref_split ''/'' p))), w)"
proof -
  have "normalize_loop (CHR ''/'' # p) 0 [] = normalize_loop p 1 (render [])"
    by (subst normalize_loop.simps) (simp add: component_step_def)
  then show ?thesis
    using normalize_anchored[of "[]" 1 p w] by (simp add: normalize_path_def clean_def)
qed

text \<open>
  Normalizing is idempotent: the normal form of an absolute path is a fixed point.
\<close>

theorem normalize_idempotent:
  "\<exists>q. normalize_path (CHR ''/'' # p) w = (Ret q, w) \<and> normalize_path q w' = (Ret q, w')"
proof -
  have "normal (walk [] (ref_split ''/'' p))"
    by (rule normal_walk) (auto simp: normal_def clean_def dest: ref_split_slash_free)
  then show ?thesis
    using normalize_absolute_walk normalize_normal by blast
qed

subsection \<open>The buffer of getcwd\<close>

lemma store_terminated:
  "length s < length buf \<Longrightarrow> NUL \<notin> set s \<Longrightarrow>
    takeWhile (\<lambda>c. c \<noteq> NUL) (store buf (s @ [NUL])) = s"
  by (simp add: store_def takeWhile_append)

lemma length_resize [simp]: "length (resize n s) = n"
  by (simp add: resize_def)

lemma getcwd_round_range:
  assumes "answers w = null_failed Errno_RANGE # as"
  shows "getcwd_round (buf, w) = (Ret None, (resize (length buf * 2) buf,
    w\<lparr>answers := as, trace := trace w @ [(Call ''getcwd'' [I (int (length buf))], null_failed Errno_RANGE)],
      errno_var := errno_of Errno_RANGE\<rparr>))"
  using assms by (simp add: getcwd_round_def act_defs kernel_defs)

lemma getcwd_retries:
  assumes "answers w = replicate k (null_failed Errno_RANGE) @ a # as" "rv a \<noteq> 0"
    "out a = s @ [NUL]" "NUL \<notin> set s" "length s < length buf * 2 ^ k"
  shows "\<exists>buf' w'. loop (\<lambda>(buf, w). length (answers w)) getcwd_round (buf, w) = (Ret s, (buf', w')) \<and>
    runs_to w (map (\<lambda>i. (Call ''getcwd'' [I (int (length buf * 2 ^ i))], null_failed Errno_RANGE)) [0..<k] @
       [(Call ''getcwd'' [I (int (length buf * 2 ^ k))], a)]) w'"
  using assms(1,5)
proof (induction k arbitrary: w buf)
  case 0
  then show ?case
    using assms(2-4) store_terminated[of s buf]
    by (simp add: loop.simps getcwd_round_def act_defs kernel_defs runs_to_def)
next
  case (Suc k)
  let ?w = "w\<lparr>answers := replicate k (null_failed Errno_RANGE) @ a # as,
    trace := trace w @ [(Call ''getcwd'' [I (int (length buf))], null_failed Errno_RANGE)],
    errno_var := errno_of Errno_RANGE\<rparr>"
  let ?buf = "resize (length buf * 2) buf"
  have step: "loop (\<lambda>(buf, w). length (answers w)) getcwd_round (buf, w) =
      loop (\<lambda>(buf, w). length (answers w)) getcwd_round (?buf, ?w)"
    using Suc.prems(1)
    by (subst loop.simps) (simp add: getcwd_round_range)
  have "answers ?w = replicate k (null_failed Errno_RANGE) @ a # as" "length s < length ?buf * 2 ^ k"
    using Suc.prems(2) by (simp_all add: mult.assoc)
  from Suc.IH[OF this] obtain buf' w' where ih:
    "loop (\<lambda>(buf, w). length (answers w)) getcwd_round (?buf, ?w) = (Ret s, (buf', w'))"
    "runs_to ?w (map (\<lambda>i. (Call ''getcwd'' [I (int (length ?buf * 2 ^ i))], null_failed Errno_RANGE)) [0..<k] @
       [(Call ''getcwd'' [I (int (length ?buf * 2 ^ k))], a)]) w'" by blast
  have "map (\<lambda>i. (Call ''getcwd'' [I (int (length buf * 2 ^ i))], null_failed Errno_RANGE)) [0..<Suc k] =
     (Call ''getcwd'' [I (int (length buf))], null_failed Errno_RANGE) #
     map (\<lambda>i. (Call ''getcwd'' [I (int (length ?buf * 2 ^ i))], null_failed Errno_RANGE)) [0..<k]"
    by (simp add: upt_conv_Cons map_Suc_upt[symmetric] mult.assoc del: upt_Suc)
  then show ?case
    using ih(2) Suc.prems(1) ih(1)
    by (simp add: step runs_to_def mult.assoc del: upt_Suc)
qed

text \<open>
  As long as the kernel answers ERANGE, \<^verbatim>\<open>get_working_dir()\<close> doubles its buffer, 128
  bytes at first, and calls again; the first answer that fits ends it, and the result is the
  terminated string the kernel stored.
\<close>

theorem get_working_dir_grows:
  assumes "answers w = replicate k (null_failed Errno_RANGE) @ a # as" "rv a \<noteq> 0"
    "out a = s @ [NUL]" "NUL \<notin> set s" "length s < 128 * 2 ^ k"
  shows "\<exists>w'. get_working_dir w = (Ret s, w') \<and>
    runs_to w (map (\<lambda>i. (Call ''getcwd'' [I (int (128 * 2 ^ i))], null_failed Errno_RANGE)) [0..<k] @
       [(Call ''getcwd'' [I (int (128 * 2 ^ k))], a)]) w'"
  using getcwd_retries[OF assms(1-4), of "resize 128 []"] assms(5)
  by (auto simp: get_working_dir_def with_local_def bind_def ret_def del: upt_Suc)

definition cwd_answer :: "string \<Rightarrow> answer" where
  "cwd_answer s = \<lparr>rv = 1, err = None, out = s @ [NUL], outs = []\<rparr>"

lemma get_working_dir_answer:
  assumes "NUL \<notin> set s" "length s < 128"
  shows "get_working_dir (w\<lparr>answers := [cwd_answer s]\<rparr>) =
    (Ret s, w\<lparr>answers := [], trace := trace w @ [(Call ''getcwd'' [I 128], cwd_answer s)]\<rparr>)"
  using assms store_terminated[of s "resize 128 []"]
  by (simp add: get_working_dir_def loop.simps getcwd_round_def act_defs kernel_defs cwd_answer_def)

theorem get_working_dir_grows_witness:
  "\<exists>w'. get_working_dir (world_of [null_failed Errno_RANGE, cwd_answer ''/srv'']) = (Ret ''/srv'', w')"
  using get_working_dir_grows[of "world_of [null_failed Errno_RANGE, cwd_answer ''/srv'']" 1
      "cwd_answer ''/srv''" "[]" "''/srv''"]
  by (auto simp: world_of_def cwd_answer_def NUL_def)

theorem normalize_relative_witness:
  "fst (normalize_path ''a/../b'' ((world_of [])\<lparr>answers := [cwd_answer ''/srv'']\<rparr>)) = Ret ''/srv/b''"
proof -
  have "walk [''srv''] (ref_split ''/'' ''a/../b'') = [''srv'', ''b'']"
    by (simp add: ref_split_char walk1_def)
  moreover have "render [''srv''] = ''/srv''" "render [''srv'', ''b''] = ''/srv/b''"
    by simp_all
  ultimately show ?thesis
    using normalize_relative[of "''a/../b''" "(world_of [])\<lparr>answers := [cwd_answer ''/srv'']\<rparr>" "[''srv'']"]
      get_working_dir_answer[of "''/srv''" "world_of []"]
    by (simp add: clean_def NUL_def abs_path_def)
qed

text \<open>
  When the working directory is the root, the path of a single ordinary component \<open>c\<close>
  is normalized to \<^verbatim>\<open>//c\<close>: the result keeps a redundant separator, and normalizing it
  once more changes it.
\<close>

theorem normalize_in_root_directory:
  assumes "c \<noteq> []" "CHR ''/'' \<notin> set c" "c \<noteq> ''.''" "c \<noteq> ''..''"
  shows "fst (normalize_path c (w\<lparr>answers := [cwd_answer ''/'']\<rparr>)) = Ret (''//'' @ c) \<and>
    normalize_path (''//'' @ c) w = (Ret (CHR ''/'' # c), w)"
proof
  have "hd c \<noteq> CHR ''/''" using assms(1,2) by (cases c) auto
  then have "normalize_loop c 0 [] (w\<lparr>answers := [cwd_answer ''/'']\<rparr>) =
      normalize_loop c 0 ''/'' (snd (get_working_dir (w\<lparr>answers := [cwd_answer ''/'']\<rparr>)))"
    using get_working_dir_answer[of "''/''" w] assms(1)
    by (subst normalize_relative_step) (simp_all add: NUL_def)
  then show "fst (normalize_path c (w\<lparr>answers := [cwd_answer ''/'']\<rparr>)) = Ret (''//'' @ c)"
    using assms
    by (simp add: normalize_path_def bind_def normalize_loop.simps component_step_def ret_def)
  show "normalize_path (''//'' @ c) w = (Ret (CHR ''/'' # c), w)"
    using normalize_absolute_walk[of "CHR ''/'' # c" w] assms
    by (simp add: ref_split_char[of _ "CHR ''/'' # c"] ref_split_char[of _ c] walk1_def abs_path_def)
qed

theorem normalize_in_root_directory_witness:
  "fst (normalize_path ''tmp'' ((world_of [])\<lparr>answers := [cwd_answer ''/'']\<rparr>)) = Ret ''//tmp''"
  using normalize_in_root_directory[of "''tmp''" "world_of []"] by simp

end
