(* ===== verification/UserDb.thy ===== *)
theory UserDb
  imports Strings Kernel
begin

text \<open>
  The user and group databases: \<^verbatim>\<open>InfoBase\<close> (\<^verbatim>\<open>src/cosmos/private/InfoBase.hxx\<close>) with its two
  clients \<^verbatim>\<open>PasswdInfo\<close> and \<^verbatim>\<open>GroupInfo\<close>.  An answer of the \<^verbatim>\<open>get*_r\<close> functions
  returns the error number itself; through its pointers it stores the result pointer (0 for
  null) followed by the numeric fields of the structure.
\<close>

record info_base =
  m_valid :: bool
  m_info :: "int list"
  m_buf_size :: nat

definition info_empty :: info_base where
  "info_empty = \<lparr>m_valid = False, m_info = [], m_buf_size = 0\<rparr>"

definition BUF_INIT_SIZE :: nat where "BUF_INIT_SIZE = 512"
definition BUF_MAX_SIZE :: nat where "BUF_MAX_SIZE = 65535"

text \<open>
  One round of \<^verbatim>\<open>getInfo()\<close>.  The default branch of the switch builds an \<^verbatim>\<open>ApiError\<close>
  and drops it, so the loop goes round with the same buffer.
\<close>

definition getInfo_round :: "(nat \<Rightarrow> (world, answer) act) \<Rightarrow> (info_base \<times> world, bool option) act" where
  "getInfo_round get_func = bind (this m_buf_size) (\<lambda>n. bind (on_world (get_func n)) (\<lambda>a.
     if rv a = errno_of Errno_NO_ERROR then
       andthen (set_this (\<lambda>i. i\<lparr>m_info := tl (outs a)\<rparr>)) (ret (Some (hd (outs a @ [0]) \<noteq> 0)))
     else andthen
       (if rv a = errno_of Errno_RANGE then set_this (\<lambda>i. i\<lparr>m_buf_size := m_buf_size i * 2\<rparr>)
        else ret ())
       (bind (this m_buf_size) (\<lambda>n.
          if BUF_MAX_SIZE < n then throw (RuntimeError ''buffer size limit reached'')
          else ret None))))"

definition getInfo :: "(nat \<Rightarrow> (world, answer) act) \<Rightarrow> (info_base \<times> world, bool) act" where
  "getInfo get_func = andthen (set_this (\<lambda>i. i\<lparr>m_buf_size := BUF_INIT_SIZE\<rparr>))
     (loop (\<lambda>(i, w). length (answers w)) (getInfo_round get_func))"

definition info_reset :: "info_base \<Rightarrow> info_base" where
  "info_reset i = i\<lparr>m_buf_size := 0, m_info := [], m_valid := False\<rparr>"

text \<open>The constructors of both clients have this shape.\<close>

definition info_lookup :: "string \<Rightarrow> arg \<Rightarrow> (world, info_base) act" where
  "info_lookup f key = bind (with_local info_empty
     (bind (getInfo (\<lambda>n. call f [key, I (int n)])) (\<lambda>v.
        andthen (set_this (\<lambda>i. i\<lparr>m_valid := v\<rparr>))
          (if v then ret () else set_this info_reset))))
     (\<lambda>(_, i). ret i)"

definition PasswdInfo_by_name :: "string \<Rightarrow> (world, info_base) act" where
  "PasswdInfo_by_name name = info_lookup ''getpwnam_r'' (S name)"

definition PasswdInfo_by_uid :: "int \<Rightarrow> (world, info_base) act" where
  "PasswdInfo_by_uid uid = info_lookup ''getpwuid_r'' (I uid)"

definition GroupInfo_by_name :: "string \<Rightarrow> (world, info_base) act" where
  "GroupInfo_by_name name = info_lookup ''getgrnam_r'' (S name)"

definition GroupInfo_by_gid :: "int \<Rightarrow> (world, info_base) act" where
  "GroupInfo_by_gid gid = info_lookup ''getgrgid_r'' (I gid)"

text \<open>The numeric fields: user and group of a passwd entry, group of a group entry.\<close>

definition PasswdInfo_uid :: "info_base \<Rightarrow> int" where
  "PasswdInfo_uid i = (case m_info i of uid # _ \<Rightarrow> uid | [] \<Rightarrow> 0)"

definition PasswdInfo_gid :: "info_base \<Rightarrow> int" where
  "PasswdInfo_gid i = (case m_info i of _ # gid # _ \<Rightarrow> gid | _ \<Rightarrow> 0)"

definition GroupInfo_gid :: "info_base \<Rightarrow> int" where
  "GroupInfo_gid i = (case m_info i of gid # _ \<Rightarrow> gid | [] \<Rightarrow> 0)"

subsection \<open>The lookup loop\<close>

lemma getInfo_round_answer:
  assumes "answers w = a # as"
  shows "getInfo_round (\<lambda>n. call f [key, I (int n)]) (i, w) =
    (let w' = w\<lparr>answers := as, trace := trace w @ [(Call f [key, I (int (m_buf_size i))], a)],
           errno_var := errno_after (errno_var w) a\<rparr>;
         i' = (if rv a = errno_of Errno_RANGE then i\<lparr>m_buf_size := m_buf_size i * 2\<rparr> else i)
     in if rv a = 0 then (Ret (Some (hd (outs a @ [0]) \<noteq> 0)), (i\<lparr>m_info := tl (outs a)\<rparr>, w'))
        else if BUF_MAX_SIZE < m_buf_size i'
        then (Throw (RuntimeError ''buffer size limit reached''), (i', w'))
        else (Ret None, (i', w')))"
  using assms by (simp add: getInfo_round_def act_defs kernel_defs)

lemma getInfo_loop_step:
  assumes "answers w = a # as" "rv a \<noteq> 0"
    "m_buf_size i' \<le> BUF_MAX_SIZE"
    "i' = (if rv a = errno_of Errno_RANGE then i\<lparr>m_buf_size := m_buf_size i * 2\<rparr> else i)"
    "w' = w\<lparr>answers := as, trace := trace w @ [(Call f [key, I (int (m_buf_size i))], a)],
           errno_var := errno_after (errno_var w) a\<rparr>"
  shows "loop (\<lambda>(i, w). length (answers w)) (getInfo_round (\<lambda>n. call f [key, I (int n)])) (i, w) =
    loop (\<lambda>(i, w). length (answers w)) (getInfo_round (\<lambda>n. call f [key, I (int n)])) (i', w')"
  using assms
  by (subst loop.simps) (auto simp: getInfo_round_answer Let_def split: if_splits)

text \<open>Failures other than ERANGE change nothing but the trace.\<close>

lemma getInfo_spins:
  assumes "answers w = fs @ as" "\<forall>a \<in> set fs. rv a \<notin> {0, errno_of Errno_RANGE}"
    "m_buf_size i \<le> BUF_MAX_SIZE"
  shows "\<exists>w'. loop (\<lambda>(i, w). length (answers w)) (getInfo_round (\<lambda>n. call f [key, I (int n)])) (i, w) =
     loop (\<lambda>(i, w). length (answers w)) (getInfo_round (\<lambda>n. call f [key, I (int n)])) (i, w') \<and>
     runs_to w (map (Pair (Call f [key, I (int (m_buf_size i))])) fs) w' \<and> answers w' = as"
  using assms(1,2)
proof (induction fs arbitrary: w)
  case Nil
  then show ?case by auto
next
  case (Cons a fs)
  define w' where "w' = w\<lparr>answers := fs @ as, trace := trace w @ [(Call f [key, I (int (m_buf_size i))], a)],
           errno_var := errno_after (errno_var w) a\<rparr>"
  have "loop (\<lambda>(i, w). length (answers w)) (getInfo_round (\<lambda>n. call f [key, I (int n)])) (i, w) =
      loop (\<lambda>(i, w). length (answers w)) (getInfo_round (\<lambda>n. call f [key, I (int n)])) (i, w')"
    using Cons.prems assms(3) by (intro getInfo_loop_step[of w a "fs @ as"]) (simp_all add: w'_def)
  moreover have "runs_to w [(Call f [key, I (int (m_buf_size i))], a)] w'"
    using Cons.prems by (simp add: w'_def runs_to_def)
  moreover have "answers w' = fs @ as" "\<forall>a \<in> set fs. rv a \<notin> {0, errno_of Errno_RANGE}"
    using Cons.prems by (simp_all add: w'_def)
  ultimately show ?case
    using Cons.IH[of w'] runs_to_trans by fastforce
qed

text \<open>
  A database failure is never reported: \<^verbatim>\<open>getInfo()\<close> builds the exception for it without
  throwing it and calls again with the same buffer.  However many failures other than
  ERANGE the library answers, the lookup is still waiting after them, and the first answer
  that reports success decides the result as if there had been no failure.
\<close>

theorem lookup_failures_are_swallowed:
  assumes "answers w = fs @ as" "\<forall>a \<in> set fs. rv a \<notin> {0, errno_of Errno_RANGE}"
  shows "(as = [] \<longrightarrow> fst (info_lookup f key w) = Blocked) \<and>
    (\<forall>b. as = [b] \<and> rv b = 0 \<longrightarrow> (\<exists>i w'. info_lookup f key w = (Ret i, w') \<and>
        m_valid i = (hd (outs b @ [0]) \<noteq> 0) \<and>
        runs_to w (map (Pair (Call f [key, I 512])) (fs @ [b])) w'))"
proof -
  let ?i = "info_empty\<lparr>m_buf_size := BUF_INIT_SIZE\<rparr>"
  have "m_buf_size ?i \<le> BUF_MAX_SIZE" by (simp add: BUF_INIT_SIZE_def BUF_MAX_SIZE_def)
  from getInfo_spins[OF assms this] obtain w' where w':
    "loop (\<lambda>(i, w). length (answers w)) (getInfo_round (\<lambda>n. call f [key, I (int n)])) (?i, w) =
     loop (\<lambda>(i, w). length (answers w)) (getInfo_round (\<lambda>n. call f [key, I (int n)])) (?i, w')"
    "runs_to w (map (Pair (Call f [key, I (int (m_buf_size ?i))])) fs) w'" "answers w' = as"
    by blast
  have lookup: "info_lookup f key w = info_lookup f key w'"
    using w'(1) by (simp add: info_lookup_def getInfo_def with_local_def bind_def andthen_def
        set_this_def modify_def)
  show ?thesis
  proof (intro conjI impI allI)
    assume "as = []"
    then show "fst (info_lookup f key w) = Blocked"
      using w'(3) unfolding lookup
      by (simp add: info_lookup_def getInfo_def loop.simps getInfo_round_def act_defs kernel_defs)
  next
    fix b assume b: "as = [b] \<and> rv b = 0"
    then have ans: "answers w' = [b]" using w'(3) by simp
    let ?v = "hd (outs b @ [0]) \<noteq> 0"
    obtain i w'' where r: "info_lookup f key w' = (Ret i, w'')" "m_valid i = ?v"
      "runs_to w' [(Call f [key, I 512], b)] w''"
      using ans b by (cases ?v)
        (simp_all add: info_lookup_def getInfo_def loop.simps getInfo_round_answer act_defs
          runs_to_def BUF_INIT_SIZE_def info_reset_def info_empty_def)
    with w'(2) show "\<exists>i w'. info_lookup f key w = (Ret i, w') \<and>
        m_valid i = (hd (outs b @ [0]) \<noteq> 0) \<and>
        runs_to w (map (Pair (Call f [key, I 512])) (fs @ [b])) w'"
      unfolding lookup using runs_to_trans by (fastforce simp: BUF_INIT_SIZE_def)
  qed
qed

theorem lookup_failures_are_swallowed_witness:
  "fst (PasswdInfo_by_name ''joe'' (world_of [ok (errno_of Errno_IO_ERROR), ok (errno_of Errno_IO_ERROR)])) = Blocked"
  using lookup_failures_are_swallowed[of "world_of [ok 5, ok 5]" "[ok 5, ok 5]" "[]" "''getpwnam_r''" "S ''joe''"]
  by (simp add: world_of_def PasswdInfo_by_name_def)

end
