(* ===== verification/Filesystem.thy ===== *)
theory Filesystem
  imports FileDescriptor Path UserDb
begin

text \<open>
  The functions of \<^verbatim>\<open>src/fs/filesystem.cxx\<close>, except for the working directory (theory
  Path) and the removal of whole trees, which walks directory streams (theory
  DirStreams).  A path stands for the characters of the \<^verbatim>\<open>SysString\<close> argument; raw
  descriptor numbers stand for \<^verbatim>\<open>DirFD\<close> and \<^verbatim>\<open>FileDescriptor\<close> arguments.
\<close>

subsection \<open>Opening\<close>

definition needs_fmode :: "OpenFlags \<Rightarrow> bool" where
  "needs_fmode flags \<longleftrightarrow>
     BitMask_anyOf_list flags [OpenFlag_value CREATE, OpenFlag_value TMPFILE] = Inr True"

definition fmode_arg :: "FileMode option \<Rightarrow> arg" where
  "fmode_arg fmode = I (case fmode of Some m \<Rightarrow> uint (BitMask_raw m) | None \<Rightarrow> 0)"

definition raw_open_flags :: "OpenFlags \<Rightarrow> OpenMode \<Rightarrow> arg" where
  "raw_open_flags flags mode = I (sint (BitMask_raw flags OR OpenMode_value mode))"

definition fs_open :: "string \<Rightarrow> OpenMode \<Rightarrow> OpenFlags \<Rightarrow> FileMode option \<Rightarrow> (world, FileDescriptor) act" where
  "fs_open path mode flags fmode =
     (if needs_fmode flags \<and> fmode = None
      then throw (UsageError ''the given open flags require an fmode argument'')
      else bind (call ''open'' [S path, raw_open_flags flags mode, fmode_arg fmode]) (\<lambda>a.
        if rv a = -1 then throw_FileError path ''open'' else ret (FD (rv a))))"

definition fs_open_at :: "FileNum \<Rightarrow> string \<Rightarrow> OpenMode \<Rightarrow> OpenFlags \<Rightarrow> FileMode option \<Rightarrow>
    (world, FileDescriptor) act" where
  "fs_open_at dir_fd path mode flags fmode =
     (if needs_fmode flags \<and> fmode = None
      then throw (UsageError ''the given open flags require an fmode argument'')
      else bind (call ''openat'' [I dir_fd, S path, raw_open_flags flags mode, fmode_arg fmode]) (\<lambda>a.
        if rv a = -1 then throw_FileError path ''openat'' else ret (FD (rv a))))"

datatype CloseRangeFlag = CR_CLOEXEC | CR_UNSHARE

primrec CloseRangeFlag_value :: "CloseRangeFlag \<Rightarrow> 32 word" where
  "CloseRangeFlag_value CR_CLOEXEC = 4"
| "CloseRangeFlag_value CR_UNSHARE = 2"

definition close_range :: "FileNum \<Rightarrow> FileNum \<Rightarrow> 32 mask \<Rightarrow> (world, unit) act" where
  "close_range first last' flags = call_or_throw (\<lambda>r. r = 0) ''close_range''
     [I first, I last', I (uint (BitMask_raw flags))] (throw_ApiError ''close_range()'')"

subsection \<open>Temporary files\<close>

definition XS :: string where "XS = ''XXXXXX''"
definition PLACEHOLDER :: string where "PLACEHOLDER = ''{}''"

definition expand_temp_path :: "string \<Rightarrow> exn + (string \<times> nat)" where
  "expand_temp_path template =
     (let (path, base) = (case str_rfind template ''/'' of
            Some lastsep \<Rightarrow> (take (lastsep + 1) template, drop (lastsep + 1) template)
          | None \<Rightarrow> ([], template))
      in if base = [] then Inl (UsageError ''empty basename not allowed'')
         else (let (base', suffixlen) = (case str_rfind base PLACEHOLDER of
                 Some p \<Rightarrow> (take p base @ XS @ drop (p + 2) base, length base - p - 2)
               | None \<Rightarrow> (base @ XS, 0))
               in Inr (path @ base', suffixlen)))"

text \<open>
  \<^verbatim>\<open>mkostemps()\<close> replaces the placeholder in the buffer it is given: the answer's bytes are
  the path it leaves there.
\<close>

definition make_tempfile :: "string \<Rightarrow> OpenFlags \<Rightarrow> (world, FileDescriptor \<times> string) act" where
  "make_tempfile template flags = (case expand_temp_path template of
      Inl e \<Rightarrow> throw e
    | Inr (path, suffixlen) \<Rightarrow>
        bind (call ''mkostemps'' [S path, I (int suffixlen), I (sint (BitMask_raw flags))]) (\<lambda>a.
          if rv a = -1 then throw_ApiError ''mkostemps()''
          else ret (FD (rv a), store path (out a))))"

definition make_tempdir :: "string \<Rightarrow> (world, string) act" where
  "make_tempdir template = (let expanded = template @ XS in
     bind (call ''mkdtemp'' [S expanded]) (\<lambda>a.
       if rv a = 0 then throw_ApiError ''mkdtemp()'' else ret (store expanded (out a))))"

subsection \<open>Creating, removing and inspecting entries\<close>

definition mode_arg :: "FileMode \<Rightarrow> arg" where
  "mode_arg mode = I (uint (BitMask_raw mode))"

definition make_fifo :: "string \<Rightarrow> FileMode \<Rightarrow> (world, unit) act" where
  "make_fifo path mode = call_or_throw (\<lambda>r. r = 0) ''mkfifo'' [S path, mode_arg mode]
     (throw_FileError path ''mkfifo()'')"

definition make_fifo_at :: "FileNum \<Rightarrow> string \<Rightarrow> FileMode \<Rightarrow> (world, unit) act" where
  "make_fifo_at dir_fd path mode = call_or_throw (\<lambda>r. r = 0) ''mkfifoat''
     [I dir_fd, S path, mode_arg mode] (throw_FileError path ''mkfifoat()'')"

definition set_umask :: "FileMode \<Rightarrow> (world, FileMode) act" where
  "set_umask mode = (let raw_mode = BitMask_raw mode in
     if raw_mode AND NOT 0x1FF \<noteq> 0 then throw (UsageError ''invalid bits set in umask'')
     else bind (call ''umask'' [I (uint raw_mode)]) (\<lambda>a. ret (FileMode_of (word_of_int (rv a)))))"

definition exists_file :: "string \<Rightarrow> (world, bool) act" where
  "exists_file path = bind (call ''lstat'' [S path]) (\<lambda>a.
     if rv a = 0 then ret True
     else bind get_errno (\<lambda>e.
       if e \<noteq> errno_of Errno_NO_ENTRY then throw_FileError path ''lstat()'' else ret False))"

definition unlink_file :: "string \<Rightarrow> (world, unit) act" where
  "unlink_file path = call_or_throw (\<lambda>r. r = 0) ''unlink'' [S path]
     (throw_FileError path ''unlink()'')"

definition unlink_file_at :: "FileNum \<Rightarrow> string \<Rightarrow> (world, unit) act" where
  "unlink_file_at dir_fd path = call_or_throw (\<lambda>r. r = 0) ''unlinkat'' [I dir_fd, S path, I 0]
     (throw_FileError path ''unlinkat()'')"

definition change_dir :: "string \<Rightarrow> (world, unit) act" where
  "change_dir path = call_or_throw (\<lambda>r. r = 0) ''chdir'' [S path]
     (throw_FileError path ''chdir()'')"

definition change_dir_fd :: "FileNum \<Rightarrow> (world, unit) act" where
  "change_dir_fd dir_fd = call_or_throw (\<lambda>r. \<not> r < 0) ''fchdir'' [I dir_fd]
     (throw_ApiError ''fchdir()'')"

definition make_dir :: "string \<Rightarrow> FileMode \<Rightarrow> (world, unit) act" where
  "make_dir path mode = call_or_throw (\<lambda>r. r = 0) ''mkdir'' [S path, mode_arg mode]
     (throw_FileError path ''mkdir()'')"

definition make_dir_at :: "FileNum \<Rightarrow> string \<Rightarrow> FileMode \<Rightarrow> (world, unit) act" where
  "make_dir_at dir_fd path mode = call_or_throw (\<lambda>r. r = 0) ''mkdirat''
     [I dir_fd, S path, mode_arg mode] (throw_FileError path ''mkdirat()'')"

definition remove_dir :: "string \<Rightarrow> (world, unit) act" where
  "remove_dir path = call_or_throw (\<lambda>r. r = 0) ''rmdir'' [S path]
     (throw_FileError path ''rmdir()'')"

definition AT_REMOVEDIR :: int where "AT_REMOVEDIR = 0x200"
definition AT_SYMLINK_FOLLOW :: int where "AT_SYMLINK_FOLLOW = 0x400"
definition AT_EMPTY_PATH :: int where "AT_EMPTY_PATH = 0x1000"

definition remove_dir_at :: "FileNum \<Rightarrow> string \<Rightarrow> (world, unit) act" where
  "remove_dir_at dir_fd path = call_or_throw (\<lambda>r. r = 0) ''unlinkat''
     [I dir_fd, S path, I AT_REMOVEDIR] (throw_FileError path ''unlinkat(AT_REMOVEDIR)'')"

subsection \<open>Creating all directories of a path\<close>

text \<open>
  The loop of \<^verbatim>\<open>make_all_dirs()\<close>: its state is \<^verbatim>\<open>sep_pos\<close> (\<open>None\<close> for \<^verbatim>\<open>npos\<close>) and the
  result so far.  \<^verbatim>\<open>std::string::find\<close> from behind the end gives \<^verbatim>\<open>npos\<close>.
\<close>

definition mad_visit :: "string \<Rightarrow> FileMode \<Rightarrow> Errno \<Rightarrow> (world, Errno) act" where
  "mad_visit prefix mode result =
     (if prefix \<noteq> [] \<and> last prefix = CHR ''/'' then ret result
      else if prefix = ''.'' then ret result
      else bind (call ''mkdir'' [S prefix, mode_arg mode]) (\<lambda>a.
        if rv a \<noteq> 0 then bind get_errno (\<lambda>e.
          if e = errno_of Errno_EXISTS then ret result
          else throw_FileError prefix ''mkdir()'')
        else ret Errno_NO_ERROR))"

function mad_loop :: "string \<Rightarrow> FileMode \<Rightarrow> nat \<Rightarrow> Errno \<Rightarrow> (world, Errno) act" where
  "mad_loop normpath mode sep_pos result = (case str_find normpath ''/'' (sep_pos + 1) of
      None \<Rightarrow> mad_visit normpath mode result
    | Some p \<Rightarrow> bind (mad_visit (take p normpath) mode result) (\<lambda>r. mad_loop normpath mode p r))"
  by pat_completeness auto
termination
  by (relation "measure (\<lambda>(normpath, _, sep_pos, _). length normpath - sep_pos)")
    (auto simp: str_find_def find_first_char split: if_splits)

declare mad_loop.simps [simp del]

definition make_all_dirs :: "string \<Rightarrow> FileMode \<Rightarrow> (world, Errno) act" where
  "make_all_dirs path mode = bind (normalize_path path) (\<lambda>normpath.
     if path = [] then throw (UsageError ''empty string passed in'')
     else mad_loop normpath mode 0 Errno_EXISTS)"

subsection \<open>Modes and owners\<close>

definition change_mode :: "string \<Rightarrow> FileMode \<Rightarrow> (world, unit) act" where
  "change_mode path mode = call_or_throw (\<lambda>r. r = 0) ''chmod'' [S path, mode_arg mode]
     (throw_FileError path ''chmod()'')"

definition change_mode_fd :: "FileNum \<Rightarrow> FileMode \<Rightarrow> (world, unit) act" where
  "change_mode_fd fd mode = call_or_throw (\<lambda>r. r = 0) ''fchmod'' [I fd, mode_arg mode]
     (throw_FileError ''(fd)'' ''fchmod()'')"

definition change_owner_ids :: "string \<Rightarrow> int \<Rightarrow> int \<Rightarrow> (world, unit) act" where
  "change_owner_ids path uid gid = call_or_throw (\<lambda>r. r = 0) ''chown'' [S path, I uid, I gid]
     (throw_FileError path ''chown()'')"

definition change_owner_fd_ids :: "FileNum \<Rightarrow> int \<Rightarrow> int \<Rightarrow> (world, unit) act" where
  "change_owner_fd_ids fd uid gid = call_or_throw (\<lambda>r. r = 0) ''fchown'' [I fd, I uid, I gid]
     (throw_FileError ''(fd)'' ''fchown()'')"

definition ID_INVALID :: int where "ID_INVALID = -1"

definition resolve_user :: "string \<Rightarrow> (world, int) act" where
  "resolve_user user = (if user = [] then ret ID_INVALID
     else bind (PasswdInfo_by_name user) (\<lambda>info.
       if \<not> info_base.m_valid info then throw (RuntimeError (user @ '' does not exist''))
       else ret (PasswdInfo_uid info)))"

definition resolve_group :: "string \<Rightarrow> (world, int) act" where
  "resolve_group group' = (if group' = [] then ret ID_INVALID
     else bind (GroupInfo_by_name group') (\<lambda>info.
       if \<not> info_base.m_valid info then throw (RuntimeError (group' @ ''does not exist''))
       else ret (GroupInfo_gid info)))"

definition change_owner :: "string \<Rightarrow> string \<Rightarrow> string \<Rightarrow> (world, unit) act" where
  "change_owner path user group' = bind (resolve_user user) (\<lambda>uid.
     bind (resolve_group group') (\<lambda>gid. change_owner_ids path uid gid))"

definition change_owner_fd :: "FileNum \<Rightarrow> string \<Rightarrow> string \<Rightarrow> (world, unit) act" where
  "change_owner_fd fd user group' = bind (resolve_user user) (\<lambda>uid.
     bind (resolve_group group') (\<lambda>gid. change_owner_fd_ids fd uid gid))"

definition change_owner_nofollow_ids :: "string \<Rightarrow> int \<Rightarrow> int \<Rightarrow> (world, unit) act" where
  "change_owner_nofollow_ids path uid gid = call_or_throw (\<lambda>r. r = 0) ''lchown''
     [S path, I uid, I gid] (throw_FileError path ''lchown()'')"

definition change_owner_nofollow :: "string \<Rightarrow> string \<Rightarrow> string \<Rightarrow> (world, unit) act" where
  "change_owner_nofollow path user group' = bind (resolve_user user) (\<lambda>uid.
     bind (resolve_group group') (\<lambda>gid. change_owner_nofollow_ids path uid gid))"

subsection \<open>Links\<close>

definition make_symlink :: "string \<Rightarrow> string \<Rightarrow> (world, unit) act" where
  "make_symlink target path = call_or_throw (\<lambda>r. r = 0) ''symlink'' [S target, S path]
     (throw_FileError path ''symlink()'')"

definition make_symlink_at :: "string \<Rightarrow> FileNum \<Rightarrow> string \<Rightarrow> (world, unit) act" where
  "make_symlink_at target dir_fd path = call_or_throw (\<lambda>r. r = 0) ''symlinkat''
     [S target, I dir_fd, S path] (throw_FileError path ''symlinkat()'')"

definition read_symlink_round :: "string \<Rightarrow> string \<Rightarrow> (nat \<Rightarrow> (world, answer) act) \<Rightarrow>
    (string \<times> world, string option) act" where
  "read_symlink_round path label readlink_func = bind (this length) (\<lambda>n.
     bind (on_world (readlink_func n)) (\<lambda>a.
       if rv a < 0 then on_world (throw_FileError path label)
       else andthen (set_this (\<lambda>r. store r (out a)))
         (let len = nat (rv a) in
          if len < n then bind (this (\<lambda>r. resize len r)) (\<lambda>r. ret (Some r))
          else andthen (set_this (\<lambda>r. resize (len + 1) r)) (ret None))))"

definition read_symlink_with :: "string \<Rightarrow> string \<Rightarrow> (nat \<Rightarrow> (world, answer) act) \<Rightarrow> (world, string) act" where
  "read_symlink_with path label readlink_func = bind (with_local (resize 128 [])
     (loop (\<lambda>(r, w). length (answers w)) (read_symlink_round path label readlink_func)))
     (\<lambda>(s, _). ret s)"

definition read_symlink :: "string \<Rightarrow> (world, string) act" where
  "read_symlink path = read_symlink_with path ''readlink()''
     (\<lambda>n. call ''readlink'' [S path, I (int n)])"

definition read_symlink_at :: "FileNum \<Rightarrow> string \<Rightarrow> (world, string) act" where
  "read_symlink_at dir_fd path = read_symlink_with path ''readlinkat()''
     (\<lambda>n. call ''readlinkat'' [I dir_fd, S path, I (int n)])"

definition fs_link :: "string \<Rightarrow> string \<Rightarrow> (world, unit) act" where
  "fs_link old_path new_path = call_or_throw (\<lambda>r. r = 0) ''link'' [S old_path, S new_path]
     (throw_FileError new_path (''link() for '' @ old_path))"

definition fs_linkat :: "FileNum \<Rightarrow> string \<Rightarrow> FileNum \<Rightarrow> string \<Rightarrow> bool \<Rightarrow> (world, unit) act" where
  "fs_linkat old_dir old_path new_dir new_path follow_old =
     call_or_throw (\<lambda>r. r = 0) ''linkat'' [I old_dir, S old_path, I new_dir, S new_path,
        I (if follow_old then AT_SYMLINK_FOLLOW else 0)]
     (throw_FileError new_path (''linkat() for '' @ old_path))"

definition linkat_fd :: "FileNum \<Rightarrow> FileNum \<Rightarrow> string \<Rightarrow> (world, unit) act" where
  "linkat_fd fd new_dir new_path =
     call_or_throw (\<lambda>r. r = 0) ''linkat'' [I fd, S [], I new_dir, S new_path, I AT_EMPTY_PATH]
     (throw_FileError new_path ''linkat(AT_EMPTY_PATH)'')"

text \<open>The number is printed in decimal by \<^verbatim>\<open>sprintf("%d")\<close>.\<close>

fun print_nat :: "nat \<Rightarrow> string" where
  "print_nat n = (if n < 10 then [char_of (48 + n)] else print_nat (n div 10) @ [char_of (48 + n mod 10)])"

declare print_nat.simps [simp del]

definition print_int :: "int \<Rightarrow> string" where
  "print_int n = (if n < 0 then CHR ''-'' # print_nat (nat (- n)) else print_nat (nat n))"

definition linkat_proc_fd :: "FileNum \<Rightarrow> FileNum \<Rightarrow> string \<Rightarrow> (world, unit) act" where
  "linkat_proc_fd fd new_dir new_path =
     fs_linkat (FileNum_of FN_AT_CWD) (''/proc/self/fd/'' @ print_int fd) new_dir new_path True"

subsection \<open>Sizes, copying, access, locking and renaming\<close>

definition truncate_fd :: "FileNum \<Rightarrow> int \<Rightarrow> (world, unit) act" where
  "truncate_fd fd len = call_or_throw (\<lambda>r. r = 0) ''ftruncate'' [I fd, I len]
     (throw_ApiError ''ftruncate()'')"

definition truncate_path :: "string \<Rightarrow> int \<Rightarrow> (world, unit) act" where
  "truncate_path path len = call_or_throw (\<lambda>r. r = 0) ''truncate'' [S path, I len]
     (throw_ApiError ''truncate()'')"

record CopyFileRangeParameters =
  cfr_in :: FileDescriptor
  cfr_out :: FileDescriptor
  cfr_len :: "64 word"
  cfr_off_in :: "int option"
  cfr_off_out :: "int option"

definition off_arg :: "int option \<Rightarrow> arg" where
  "off_arg off = (case off of None \<Rightarrow> L [] | Some n \<Rightarrow> L [I n])"

definition copy_file_range_raw :: "FileNum \<Rightarrow> int option \<Rightarrow> FileNum \<Rightarrow> int option \<Rightarrow> 64 word \<Rightarrow>
    (world, answer) act" where
  "copy_file_range_raw fd_in off_in fd_out off_out len =
     bind (call ''copy_file_range'' [I fd_in, off_arg off_in, I fd_out, off_arg off_out,
             I (uint len), I 0]) (\<lambda>a.
       if rv a < 0 then throw_ApiError ''copy_file_range()'' else ret a)"

definition copy_file_range_fds :: "FileDescriptor \<Rightarrow> FileDescriptor \<Rightarrow> 64 word \<Rightarrow> (world, 64 word) act" where
  "copy_file_range_fds fd_in fd_out len =
     bind (copy_file_range_raw (m_fd fd_in) None (m_fd fd_out) None len)
       (\<lambda>a. ret (word_of_int (rv a)))"

text \<open>
  The kernel advances the offsets it is given a pointer to; the answer's integers are the new
  values, in order.
\<close>

definition new_offsets :: "answer \<Rightarrow> CopyFileRangeParameters \<Rightarrow> CopyFileRangeParameters" where
  "new_offsets a p = (case (cfr_off_in p, cfr_off_out p, outs a) of
      (Some _, Some _, [i, j]) \<Rightarrow> p\<lparr>cfr_off_in := Some i, cfr_off_out := Some j\<rparr>
    | (Some _, None, [i]) \<Rightarrow> p\<lparr>cfr_off_in := Some i\<rparr>
    | (None, Some _, [j]) \<Rightarrow> p\<lparr>cfr_off_out := Some j\<rparr>
    | _ \<Rightarrow> p)"

definition copy_file_range :: "(CopyFileRangeParameters \<times> world, 64 word) act" where
  "copy_file_range = bind (this (\<lambda>p. p)) (\<lambda>p.
     bind (on_world (copy_file_range_raw (m_fd (cfr_in p)) (cfr_off_in p) (m_fd (cfr_out p))
             (cfr_off_out p) (cfr_len p))) (\<lambda>a.
       let copied = word_of_int (rv a) in
       andthen (set_this (\<lambda>p. (new_offsets a p)\<lparr>cfr_len := cfr_len p - copied\<rparr>)) (ret copied)))"

datatype AccessCheck = READ_OK | WRITE_OK | EXEC_OK

primrec AccessCheck_value :: "AccessCheck \<Rightarrow> 32 word" where
  "AccessCheck_value READ_OK = 4"
| "AccessCheck_value WRITE_OK = 2"
| "AccessCheck_value EXEC_OK = 1"

datatype AccessFlag = EFFECTIVE_CREDS | NO_FOLLOW

primrec AccessFlag_value :: "AccessFlag \<Rightarrow> 32 word" where
  "AccessFlag_value EFFECTIVE_CREDS = 0x200"
| "AccessFlag_value NO_FOLLOW = 0x100"

definition check_access :: "string \<Rightarrow> 32 mask \<Rightarrow> (world, unit) act" where
  "check_access path checks = call_or_throw (\<lambda>r. r = 0) ''access''
     [S path, I (sint (BitMask_raw checks))] (throw_ApiError ''access()'')"

definition check_access_at :: "FileNum \<Rightarrow> string \<Rightarrow> 32 mask \<Rightarrow> 32 mask \<Rightarrow> (world, unit) act" where
  "check_access_at dir_fd path checks flags = call_or_throw (\<lambda>r. r = 0) ''faccessat''
     [I dir_fd, S path, I (sint (BitMask_raw checks)), I (sint (BitMask_raw flags))]
     (throw_ApiError ''faccessat()'')"

definition check_access_fd :: "FileNum \<Rightarrow> 32 mask \<Rightarrow> 32 mask \<Rightarrow> (world, unit) act" where
  "check_access_fd fd checks flags = call_or_throw (\<lambda>r. r = 0) ''faccessat''
     [I fd, S [], I (sint (BitMask_raw checks)),
      I (sint (BitMask_raw flags OR word_of_int AT_EMPTY_PATH))]
     (throw_ApiError ''faccessat()'')"

datatype LockOperation = LOCK_SHARED | LOCK_EXCLUSIVE | LOCK_UNLOCK

primrec LockOperation_value :: "LockOperation \<Rightarrow> 32 word" where
  "LockOperation_value LOCK_SHARED = 1"
| "LockOperation_value LOCK_EXCLUSIVE = 2"
| "LockOperation_value LOCK_UNLOCK = 8"

definition LOCK_NONBLOCK :: "32 word" where "LOCK_NONBLOCK = 4"

definition fs_flock :: "FileNum \<Rightarrow> LockOperation \<Rightarrow> 32 mask \<Rightarrow> (world, unit) act" where
  "fs_flock fd operation flags = call_or_throw (\<lambda>r. r = 0) ''flock''
     [I fd, I (sint (LockOperation_value operation OR BitMask_raw flags))]
     (throw_ApiError ''flock()'')"

datatype RenameFlag = REN_EXCHANGE | REN_NOREPLACE | REN_WHITEOUT

primrec RenameFlag_value :: "RenameFlag \<Rightarrow> 32 word" where
  "RenameFlag_value REN_EXCHANGE = 2"
| "RenameFlag_value REN_NOREPLACE = 1"
| "RenameFlag_value REN_WHITEOUT = 4"

definition fs_rename :: "string \<Rightarrow> string \<Rightarrow> (world, unit) act" where
  "fs_rename oldpath newpath = call_or_throw (\<lambda>r. r = 0) ''rename'' [S oldpath, S newpath]
     (throw_ApiError ''rename()'')"

definition rename_at :: "FileNum \<Rightarrow> string \<Rightarrow> FileNum \<Rightarrow> string \<Rightarrow> 32 mask \<Rightarrow> (world, unit) act" where
  "rename_at olddir_fd oldpath newdir_fd newpath flags = call_or_throw (\<lambda>r. \<not> r < 0) ''renameat2''
     [I olddir_fd, S oldpath, I newdir_fd, S newpath, I (uint (BitMask_raw flags))]
     (throw_ApiError ''renameat2()'')"

subsection \<open>Opening is checked first and yields a live descriptor\<close>

lemma fs_open_answered:
  assumes "\<not> (needs_fmode flags \<and> fmode = None)" "answers w = a # as"
  shows "fs_open path mode flags fmode w =
    (if rv a = -1 then Throw (FileError path ''open'' (errno_after (errno_var w) a)) else Ret (FD (rv a)),
     w\<lparr>answers := as, trace := trace w @
         [(Call ''open'' [S path, raw_open_flags flags mode, fmode_arg fmode], a)],
       errno_var := errno_after (errno_var w) a\<rparr>)"
  using assms by (simp add: fs_open_def act_defs kernel_defs)

lemma fs_open_at_answered:
  assumes "\<not> (needs_fmode flags \<and> fmode = None)" "answers w = a # as"
  shows "fs_open_at dir path mode flags fmode w =
    (if rv a = -1 then Throw (FileError path ''openat'' (errno_after (errno_var w) a)) else Ret (FD (rv a)),
     w\<lparr>answers := as, trace := trace w @
         [(Call ''openat'' [I dir, S path, raw_open_flags flags mode, fmode_arg fmode], a)],
       errno_var := errno_after (errno_var w) a\<rparr>)"
  using assms by (simp add: fs_open_at_def act_defs kernel_defs)

text \<open>
  Opening a file that may be created needs a file mode: without one no system call is
  made.  Otherwise exactly one call is made, with the flags and the access mode combined;
  the descriptor it returns is valid and live, and a failure carries the path.
\<close>

theorem open_checks_and_opens:
  assumes "answers w = a # as" "rv a \<ge> -1"
  shows "(needs_fmode flags \<and> fmode = None \<longrightarrow>
       fs_open path mode flags fmode w =
         (Throw (UsageError ''the given open flags require an fmode argument''), w)) \<and>
     (\<not> (needs_fmode flags \<and> fmode = None) \<longrightarrow>
       (\<exists>w'. runs_to w [(Call ''open'' [S path, raw_open_flags flags mode, fmode_arg fmode], a)] w' \<and>
          (if rv a = -1
           then fs_open path mode flags fmode w = (Throw (FileError path ''open'' (errno_var w')), w') \<and>
                live_in w' = live_in w
           else \<exists>d. fs_open path mode flags fmode w = (Ret d, w') \<and> FD_valid d \<and>
                live_in w' = insert (Fd (m_fd d)) (live_in w))))"
proof (intro conjI impI)
  assume "needs_fmode flags \<and> fmode = None"
  then show "fs_open path mode flags fmode w =
      (Throw (UsageError ''the given open flags require an fmode argument''), w)"
    by (simp add: fs_open_def throw_def)
next
  assume "\<not> (needs_fmode flags \<and> fmode = None)"
  note eq = fs_open_answered[OF this assms(1), of path mode]
  let ?w' = "w\<lparr>answers := as, trace := trace w @
         [(Call ''open'' [S path, raw_open_flags flags mode, fmode_arg fmode], a)],
       errno_var := errno_after (errno_var w) a\<rparr>"
  show "\<exists>w'. runs_to w [(Call ''open'' [S path, raw_open_flags flags mode, fmode_arg fmode], a)] w' \<and>
          (if rv a = -1
           then fs_open path mode flags fmode w = (Throw (FileError path ''open'' (errno_var w')), w') \<and>
                live_in w' = live_in w
           else \<exists>d. fs_open path mode flags fmode w = (Ret d, w') \<and> FD_valid d \<and>
                live_in w' = insert (Fd (m_fd d)) (live_in w))"
    unfolding eq using assms
    by (intro exI[of _ ?w']) (auto simp: runs_to_def opens_fd_def FD_valid_def FD_def)
qed

theorem open_checks_and_opens_witness:
  "fs_open ''f'' READ_WRITE (OpenFlag_value CREATE) None (world_of [ok 3]) =
     (Throw (UsageError ''the given open flags require an fmode argument''), world_of [ok 3])"
  using open_checks_and_opens[of "world_of [ok 3]" "ok 3" "[]" "OpenFlag_value CREATE" None "''f''" READ_WRITE]
  by (simp add: world_of_def needs_fmode_def BitMask_test_def)

subsection \<open>Templates of temporary files\<close>

lemma str_rfind_Some:
  assumes "str_rfind s pat = Some p"
  shows "p + length pat \<le> length s \<and> take (length pat) (drop p s) = pat \<and>
     (\<forall>q > p. take (length pat) (drop q s) = pat \<longrightarrow> length s < q + length pat)"
proof -
  let ?n = "length s + 1 - length pat"
  obtain i where i: "i < ?n" "take (length pat) (drop (?n - 1 - i) s) = pat" "p = ?n - 1 - i"
    "\<forall>j < i. take (length pat) (drop (?n - 1 - j) s) \<noteq> pat"
    using assms by (auto simp: str_rfind_def find_Some_iff rev_nth)
  have "take (length pat) (drop q s) \<noteq> pat" if "p < q" "q + length pat \<le> length s" for q
    using i(4)[rule_format, of "?n - 1 - q"] that i(1,3) by simp
  then show ?thesis using i by (auto simp: not_le[symmetric])
qed

lemma str_rfind_None:
  assumes "str_rfind s pat = None"
  shows "q + length pat \<le> length s \<Longrightarrow> take (length pat) (drop q s) \<noteq> pat"
  using assms by (auto simp: str_rfind_def find_None_iff)

lemma rfind_cut:
  assumes "str_rfind s pat = Some p"
  shows "s = take p s @ pat @ drop (p + length pat) s"
  using str_rfind_Some[OF assms] append_take_drop_id[of "length pat" "drop p s"]
    append_take_drop_id[of p s] by (simp add: add.commute)

lemma no_char: "(\<And>q. q < length s \<Longrightarrow> take 1 (drop q s) \<noteq> [c]) \<Longrightarrow> c \<notin> set s"
  by (auto simp: in_set_conv_nth Cons_nth_drop_Suc[symmetric])

text \<open>The directory part of a path and its last component.\<close>

definition dir_base :: "string \<Rightarrow> string \<times> string" where
  "dir_base t = (case str_rfind t ''/'' of
      Some p \<Rightarrow> (take (p + 1) t, drop (p + 1) t) | None \<Rightarrow> ([], t))"

lemma dir_base_cut:
  assumes "dir_base t = (dir, base)"
  shows "t = dir @ base \<and> CHR ''/'' \<notin> set base \<and> (dir = [] \<or> last dir = CHR ''/'')"
proof (cases "str_rfind t ''/''")
  case None
  then have "CHR ''/'' \<notin> set t"
    using str_rfind_None[OF None] by (intro no_char) auto
  with assms None show ?thesis by (simp add: dir_base_def)
next
  case (Some p)
  note f = str_rfind_Some[OF Some]
  then have eq: "take (p + 1) t = take p t @ ''/''"
    using rfind_cut[OF Some] by (metis append_eq_append_conv append_take_drop_id append_assoc
        length_take min.absorb2 take_add list.size(3,4) One_nat_def add_0 plus_1_eq_Suc Suc_eq_plus1)
  have "last (take (p + 1) t) = CHR ''/''"
    by (subst eq) simp
  moreover have "CHR ''/'' \<notin> set (drop (p + 1) t)"
  proof (rule no_char)
    fix q assume "q < length (drop (p + 1) t)"
    then show "take 1 (drop q (drop (p + 1) t)) \<noteq> ''/''"
      using f[THEN conjunct2, THEN conjunct2, rule_format, of "q + (p + 1)"] by auto
  qed
  ultimately show ?thesis
    using assms Some by (auto simp: dir_base_def)
qed

lemma expand_temp_path_eq:
  assumes "dir_base t = (dir, base)"
  shows "expand_temp_path t = (if base = [] then Inl (UsageError ''empty basename not allowed'')
     else (case str_rfind base PLACEHOLDER of
         Some p \<Rightarrow> Inr (dir @ take p base @ XS @ drop (p + 2) base, length base - p - 2)
       | None \<Rightarrow> Inr (dir @ base @ XS, 0)))"
  using assms by (auto simp: expand_temp_path_def dir_base_def split: option.splits)

text \<open>
  Expanding the template of a temporary file puts the six placeholder characters at the
  last pair of braces of the base name, or at its end when it has none, and gives the number
  of characters behind them, which is what \<^verbatim>\<open>mkostemps()\<close> requires; the directory part is
  kept, and only an empty base name is rejected.
\<close>

theorem expand_temp_path_correct:
  "case expand_temp_path t of
     Inl e \<Rightarrow> e = UsageError ''empty basename not allowed'' \<and> (t = [] \<or> last t = CHR ''/'')
   | Inr (p, n) \<Rightarrow> (\<exists>dir b1 hole b2. t = dir @ b1 @ hole @ b2 \<and> p = dir @ b1 @ XS @ b2 \<and>
       n = length b2 \<and> CHR ''/'' \<notin> set (b1 @ hole @ b2) \<and> b1 @ hole @ b2 \<noteq> [] \<and>
       (dir = [] \<or> last dir = CHR ''/'') \<and>
       (if hole = [] then b2 = [] \<and> str_rfind b1 PLACEHOLDER = None
        else hole = PLACEHOLDER \<and> str_rfind (b1 @ hole @ b2) PLACEHOLDER = Some (length b1)))"
proof -
  obtain dir base where db: "dir_base t = (dir, base)" by (cases "dir_base t")
  note cut = dir_base_cut[OF db]
  show ?thesis
  proof (cases "base = []")
    case True
    with cut show ?thesis unfolding expand_temp_path_eq[OF db] by auto
  next
    case ne: False
    show ?thesis
    proof (cases "str_rfind base PLACEHOLDER")
      case None
      then have eq: "expand_temp_path t = Inr (dir @ base @ XS, 0)"
        using ne by (simp add: expand_temp_path_eq[OF db])
      show ?thesis
        unfolding eq sum.case prod.case
        by (rule exI[of _ dir], rule exI[of _ base], rule exI[of _ "[]"], rule exI[of _ "[]"])
          (use cut ne None in auto)
    next
      case (Some p)
      have b: "base = take p base @ PLACEHOLDER @ drop (p + 2) base"
        using rfind_cut[OF Some] by (simp add: PLACEHOLDER_def)
      have "p + 2 \<le> length base"
        using str_rfind_Some[OF Some] by (simp add: PLACEHOLDER_def)
      then have len: "length (take p base) = p" "length (drop (p + 2) base) = length base - p - 2"
        by simp_all
      have eq: "expand_temp_path t =
          Inr (dir @ take p base @ XS @ drop (p + 2) base, length base - p - 2)"
        using ne Some by (simp add: expand_temp_path_eq[OF db])
      have "PLACEHOLDER \<noteq> []" by (simp add: PLACEHOLDER_def)
      show ?thesis
        unfolding eq sum.case prod.case
      proof (rule exI[of _ dir], rule exI[of _ "take p base"], rule exI[of _ PLACEHOLDER],
          rule exI[of _ "drop (p + 2) base"], unfold b[symmetric] len if_not_P[OF \<open>PLACEHOLDER \<noteq> []\<close>])
      qed (use cut ne Some in auto)
    qed
  qed
qed

subsection \<open>Reading symbolic links\<close>

text \<open>
  What \<^verbatim>\<open>readlink()\<close> answers for a link to \<open>t\<close> when it is offered \<open>n\<close> bytes: it stores
  as much of the target as fits, without a terminator, and returns how much that is.
\<close>

definition readlink_answer :: "string \<Rightarrow> nat \<Rightarrow> answer" where
  "readlink_answer t n = ok_bytes (take n t)"

lemma read_symlink_round_fits:
  assumes "answers w = readlink_answer t (length r) # as" "length t < length r"
  shows "read_symlink_round path label (\<lambda>n. call f (args n)) (r, w) =
    (Ret (Some t), (store r t, w\<lparr>answers := as,
       trace := trace w @ [(Call f (args (length r)), readlink_answer t (length r))]\<rparr>))"
  using assms
  by (simp add: read_symlink_round_def readlink_answer_def act_defs kernel_defs resize_def store_def Let_def)

lemma read_symlink_round_full:
  assumes "answers w = readlink_answer t (length r) # as" "length r \<le> length t"
  shows "\<exists>r'. read_symlink_round path label (\<lambda>n. call f (args n)) (r, w) =
    (Ret None, (r', w\<lparr>answers := as,
       trace := trace w @ [(Call f (args (length r)), readlink_answer t (length r))]\<rparr>)) \<and>
     length r' = length r + 1"
  using assms
  by (simp add: read_symlink_round_def readlink_answer_def act_defs kernel_defs min_def)

lemma read_symlink_loop:
  assumes "answers w = map (readlink_answer t) [length r..<max (length r + 1) (length t + 2)] @ as"
  shows "\<exists>r' w'. loop (\<lambda>(r, w). length (answers w))
      (read_symlink_round path label (\<lambda>n. call f (args n))) (r, w) = (Ret t, (r', w')) \<and>
    runs_to w (map (\<lambda>n. (Call f (args n), readlink_answer t n))
      [length r..<max (length r + 1) (length t + 2)]) w'"
  using assms
proof (induction "length t + 1 - length r" arbitrary: r w)
  case 0
  then have "max (length r + 1) (length t + 2) = Suc (length r)" "length t < length r" by auto
  with 0 show ?case
    by (subst loop.simps) (simp add: read_symlink_round_fits runs_to_def)
next
  case (Suc k)
  then have m: "max (length r + 1) (length t + 2) = length t + 2" "length r \<le> length t" by auto
  then have up: "[length r..<max (length r + 1) (length t + 2)] =
      length r # [length r + 1..<max (length r + 2) (length t + 2)]"
    by (simp add: upt_conv_Cons max_def del: upt_Suc)
  let ?as = "map (readlink_answer t) [length r + 1..<max (length r + 2) (length t + 2)] @ as"
  have a: "answers w = readlink_answer t (length r) # ?as"
    using Suc.prems unfolding up by simp
  from read_symlink_round_full[OF a m(2), of path label f args] obtain r' where r':
    "read_symlink_round path label (\<lambda>n. call f (args n)) (r, w) = (Ret None, (r', w\<lparr>answers := ?as,
       trace := trace w @ [(Call f (args (length r)), readlink_answer t (length r))]\<rparr>))"
    "length r' = length r + 1" by blast
  let ?w = "w\<lparr>answers := ?as,
       trace := trace w @ [(Call f (args (length r)), readlink_answer t (length r))]\<rparr>"
  have "k = length t + 1 - length r'" "answers ?w =
      map (readlink_answer t) [length r'..<max (length r' + 1) (length t + 2)] @ as"
    using Suc.hyps(2) r'(2) by simp_all
  from Suc.hyps(1)[OF this] obtain r'' w' where
    "loop (\<lambda>(r, w). length (answers w)) (read_symlink_round path label (\<lambda>n. call f (args n))) (r', ?w) =
       (Ret t, (r'', w'))"
    "runs_to ?w (map (\<lambda>n. (Call f (args n), readlink_answer t n))
      [length r + 1..<max (length r + 2) (length t + 2)]) w'"
    using r'(2) by auto
  moreover have "loop (\<lambda>(r, w). length (answers w))
      (read_symlink_round path label (\<lambda>n. call f (args n))) (r, w) =
    loop (\<lambda>(r, w). length (answers w)) (read_symlink_round path label (\<lambda>n. call f (args n))) (r', ?w)"
    using r'(1) a by (subst loop.simps) simp
  ultimately show ?case
    unfolding up using a by (auto simp: runs_to_def)
qed

text \<open>
  Reading a symbolic link returns the complete target however long it is.  The buffer
  starts with 128 bytes and grows by one byte with every call, up to one byte more than the
  target needs: a target of \<open>n\<close> bytes takes one call when it is shorter than 128 bytes and
  \<open>n - 126\<close> calls otherwise.  The same holds relative to a directory descriptor.
\<close>

theorem read_symlink_complete:
  "(\<exists>w'. read_symlink path
      (w\<lparr>answers := map (readlink_answer t) [128..<max 129 (length t + 2)] @ as\<rparr>) = (Ret t, w') \<and>
     trace w' = trace w @ map (\<lambda>n. (Call ''readlink'' [S path, I (int n)], readlink_answer t n))
        [128..<max 129 (length t + 2)] \<and> answers w' = as) \<and>
   (\<exists>w'. read_symlink_at dir path
      (w\<lparr>answers := map (readlink_answer t) [128..<max 129 (length t + 2)] @ as\<rparr>) = (Ret t, w') \<and>
     trace w' = trace w @ map (\<lambda>n. (Call ''readlinkat'' [I dir, S path, I (int n)], readlink_answer t n))
        [128..<max 129 (length t + 2)] \<and> answers w' = as)"
proof -
  let ?w = "w\<lparr>answers := map (readlink_answer t) [128..<max 129 (length t + 2)] @ as\<rparr>"
  have *: "\<exists>w'. read_symlink_with path label (\<lambda>n. call f (args n)) ?w = (Ret t, w') \<and>
      trace w' = trace w @ map (\<lambda>n. (Call f (args n), readlink_answer t n))
        [128..<max 129 (length t + 2)] \<and> answers w' = as" for label f args
  proof -
    obtain r' w' where l: "loop (\<lambda>(r, w). length (answers w))
        (read_symlink_round path label (\<lambda>n. call f (args n))) (resize 128 [], ?w) = (Ret t, (r', w'))"
      "runs_to ?w (map (\<lambda>n. (Call f (args n), readlink_answer t n)) [128..<max 129 (length t + 2)]) w'"
      using read_symlink_loop[of ?w t "resize 128 []" as path label f args] by auto
    from with_local_value[where m = "loop (\<lambda>(r, w). length (answers w))
        (read_symlink_round path label (\<lambda>n. call f (args n)))", OF l(1)] show ?thesis
      unfolding read_symlink_with_def
      by (intro exI[of _ w']) (use l(2) in \<open>simp add: runs_to_def o_def del: upt_Suc\<close>)
  qed
  show ?thesis
    unfolding read_symlink_def read_symlink_at_def by (intro conjI *)
qed

subsection \<open>Creating all directories\<close>

text \<open>The prefixes of a normalized path, from the outermost directory on.\<close>

definition prefixes :: "string list \<Rightarrow> string list" where
  "prefixes st = map (\<lambda>k. render (take (Suc k) st)) [0..<length st]"

lemma prefixes_Cons: "prefixes (c # st) = (CHR ''/'' # c) # map ((@) (CHR ''/'' # c)) (prefixes st)"
  by (simp add: prefixes_def map_upt_Suc del: upt_Suc)

fun visit_all :: "string list \<Rightarrow> FileMode \<Rightarrow> Errno \<Rightarrow> (world, Errno) act" where
  "visit_all [] mode r = ret r"
| "visit_all (p # ps) mode r = bind (mad_visit p mode r) (\<lambda>r. visit_all ps mode r)"

lemma visit_all_Nil [simp]: "visit_all [] mode = ret"
  by (simp add: fun_eq_iff)

lemma str_find_next:
  assumes "CHR ''/'' \<notin> set c"
  shows "str_find (d @ CHR ''/'' # c @ render st) ''/'' (length d + 1) =
    (case st of [] \<Rightarrow> None | _ \<Rightarrow> Some (length d + 1 + length c))"
  using assms
  by (cases st) (auto simp: str_find_def find_first_char takeWhile_append)

lemma mad_loop_visits:
  assumes "clean (c # st)"
  shows "mad_loop (d @ CHR ''/'' # c @ render st) mode (length d) r =
    visit_all (map ((@) d) (prefixes (c # st))) mode r"
  using assms
proof (induction st arbitrary: c d r)
  case Nil
  then have "CHR ''/'' \<notin> set c" by (simp add: clean_def)
  from str_find_next[OF this, of d "[]"] show ?case
    by (subst mad_loop.simps) (simp add: prefixes_def)
next
  case (Cons e st)
  then have c: "CHR ''/'' \<notin> set c" "clean (e # st)" by (simp_all add: clean_def)
  from str_find_next[OF c(1), of d "e # st"] have
    f: "str_find (d @ CHR ''/'' # c @ render (e # st)) ''/'' (length d + 1) = Some (length d + 1 + length c)"
    by simp
  have "mad_loop ((d @ CHR ''/'' # c) @ CHR ''/'' # e @ render st) mode (length (d @ CHR ''/'' # c)) =
     visit_all (map ((@) (d @ CHR ''/'' # c)) (prefixes (e # st))) mode"
    by (rule ext, rule Cons.IH[OF c(2)])
  moreover have "(@) (d @ CHR ''/'' # c) = (\<lambda>x. d @ CHR ''/'' # c @ x)"
    by auto
  ultimately show ?case
    using f
    by (subst mad_loop.simps) (simp add: prefixes_Cons[of c] o_def)
qed

text \<open>A failing call sets errno.\<close>

definition errno_reported :: "answer \<Rightarrow> bool" where
  "errno_reported a \<longleftrightarrow> (rv a \<noteq> 0 \<longrightarrow> err a \<noteq> None)"

definition tolerated :: "answer \<Rightarrow> bool" where
  "tolerated a \<longleftrightarrow> rv a = 0 \<or> err a = Some (errno_of Errno_EXISTS)"

text \<open>
  What creating the directories \<open>ps\<close> amounts to: one \<^verbatim>\<open>mkdir()\<close> per answer, in order; all of
  them when nothing but existing directories are met.
\<close>

definition mkdirs_spec :: "string list \<Rightarrow> FileMode \<Rightarrow> Errno \<Rightarrow> world \<Rightarrow> Errno outcome \<times> world \<Rightarrow> bool" where
  "mkdirs_spec ps mode r0 w res \<longleftrightarrow> (\<exists>as. length as \<le> length ps \<and>
     runs_to w (map2 (\<lambda>p a. (Call ''mkdir'' [S p, mode_arg mode], a)) ps as) (snd res) \<and>
     answers w = as @ answers (snd res) \<and>
     (case fst res of
        Ret r \<Rightarrow> length as = length ps \<and> (\<forall>a \<in> set as. tolerated a) \<and>
          r = (if \<exists>a \<in> set as. rv a = 0 then Errno_NO_ERROR else r0)
      | Throw e \<Rightarrow> as \<noteq> [] \<and> (\<forall>a \<in> set (butlast as). tolerated a) \<and> \<not> tolerated (last as) \<and>
          e = FileError (ps ! (length as - 1)) ''mkdir()'' (errno_var (snd res))
      | Abort _ \<Rightarrow> False
      | Blocked \<Rightarrow> answers (snd res) = [] \<and> length as < length ps \<and> (\<forall>a \<in> set as. tolerated a)))"

lemma visit_all_spec:
  assumes "\<forall>p \<in> set ps. p \<noteq> [] \<and> last p \<noteq> CHR ''/'' \<and> p \<noteq> ''.''"
    "\<forall>a \<in> set (answers w). errno_reported a"
  shows "mkdirs_spec ps mode r w (visit_all ps mode r w)"
  using assms
proof (induction ps arbitrary: r w)
  case Nil
  then show ?case by (simp add: mkdirs_spec_def ret_def)
next
  case (Cons p ps)
  show ?case
  proof (cases "answers w")
    case Nil
    with Cons.prems show ?thesis
      by (simp add: mkdirs_spec_def mad_visit_def act_defs kernel_defs)
  next
    case (Cons a as)
    let ?w = "w\<lparr>answers := as, trace := trace w @ [(Call ''mkdir'' [S p, mode_arg mode], a)],
       errno_var := errno_after (errno_var w) a\<rparr>"
    let ?r = "if rv a = 0 then Errno_NO_ERROR else r"
    have rep: "errno_reported a" "\<forall>a \<in> set (answers ?w). errno_reported a"
      using Cons.prems(2) Cons by simp_all
    show ?thesis
    proof (cases "tolerated a")
      case False
      with Cons Cons.prems rep(1) have
        "visit_all (p # ps) mode r w = (Throw (FileError p ''mkdir()'' (errno_var ?w)), ?w)"
        by (auto simp: mad_visit_def act_defs kernel_defs tolerated_def errno_reported_def)
      with Cons False show ?thesis
        by (auto simp: mkdirs_spec_def runs_to_def intro!: exI[of _ "[a]"])
    next
      case True
      with Cons Cons.prems rep(1) have
        step: "visit_all (p # ps) mode r w = visit_all ps mode ?r ?w"
        by (auto simp: mad_visit_def act_defs kernel_defs tolerated_def errno_reported_def)
      have "mkdirs_spec ps mode ?r ?w (visit_all ps mode ?r ?w)"
        using Cons.prems(1) rep(2) by (intro Cons.IH) auto
      then obtain bs where bs: "length bs \<le> length ps"
        "runs_to ?w (map2 (\<lambda>p a. (Call ''mkdir'' [S p, mode_arg mode], a)) ps bs)
           (snd (visit_all ps mode ?r ?w))"
        "answers ?w = bs @ answers (snd (visit_all ps mode ?r ?w))"
        "case fst (visit_all ps mode ?r ?w) of
          Ret r' \<Rightarrow> length bs = length ps \<and> (\<forall>a \<in> set bs. tolerated a) \<and>
            r' = (if \<exists>a \<in> set bs. rv a = 0 then Errno_NO_ERROR else ?r)
        | Throw e \<Rightarrow> bs \<noteq> [] \<and> (\<forall>a \<in> set (butlast bs). tolerated a) \<and> \<not> tolerated (last bs) \<and>
            e = FileError (ps ! (length bs - 1)) ''mkdir()'' (errno_var (snd (visit_all ps mode ?r ?w)))
        | Abort _ \<Rightarrow> False
        | Blocked \<Rightarrow> answers (snd (visit_all ps mode ?r ?w)) = [] \<and> length bs < length ps \<and>
            (\<forall>a \<in> set bs. tolerated a)"
        unfolding mkdirs_spec_def by blast
      show ?thesis
        unfolding mkdirs_spec_def step
      proof (rule exI[of _ "a # bs"], intro conjI)
        show "case fst (visit_all ps mode ?r ?w) of
          Ret r' \<Rightarrow> length (a # bs) = length (p # ps) \<and> (\<forall>a \<in> set (a # bs). tolerated a) \<and>
            r' = (if \<exists>a \<in> set (a # bs). rv a = 0 then Errno_NO_ERROR else r)
        | Throw e \<Rightarrow> a # bs \<noteq> [] \<and> (\<forall>a \<in> set (butlast (a # bs)). tolerated a) \<and>
            \<not> tolerated (last (a # bs)) \<and>
            e = FileError ((p # ps) ! (length (a # bs) - 1)) ''mkdir()''
              (errno_var (snd (visit_all ps mode ?r ?w)))
        | Abort _ \<Rightarrow> False
        | Blocked \<Rightarrow> answers (snd (visit_all ps mode ?r ?w)) = [] \<and> length (a # bs) < length (p # ps) \<and>
            (\<forall>a \<in> set (a # bs). tolerated a)"
          using bs(4) True by (cases "fst (visit_all ps mode ?r ?w)") (auto simp: nth_Cons')
      qed (use bs Cons in \<open>auto simp: runs_to_def\<close>)
    qed
  qed
qed

lemma last_render: "clean st \<Longrightarrow> st \<noteq> [] \<Longrightarrow> last (render st) \<noteq> CHR ''/'' \<and> render st \<noteq> ''.''"
proof -
  assume a: "clean st" "st \<noteq> []"
  then obtain ys y where st: "st = ys @ [y]" by (cases st rule: rev_cases) auto
  with a have y: "y \<noteq> []" "CHR ''/'' \<notin> set y" by (auto simp: clean_def)
  then have "last y \<noteq> CHR ''/''" by (metis last_in_set)
  moreover have "render ys @ CHR ''/'' # y \<noteq> ''.''"
    using y(1) by (cases ys; cases y) auto
  ultimately show ?thesis using st y(1) by simp
qed

lemma prefixes_proper:
  "clean st \<Longrightarrow> p \<in> set (prefixes st) \<Longrightarrow> p \<noteq> [] \<and> last p \<noteq> CHR ''/'' \<and> p \<noteq> ''.''"
proof -
  assume "clean st" "p \<in> set (prefixes st)"
  then obtain k where p: "p = render (take (Suc k) st)" "k < length st"
    by (auto simp: prefixes_def)
  moreover have "clean (take (Suc k) st)"
    using \<open>clean st\<close> by (auto simp: clean_def dest: in_set_takeD)
  moreover have "take (Suc k) st \<noteq> []" using p(2) by auto
  ultimately show ?thesis
    using last_render[of "take (Suc k) st"] by simp
qed

text \<open>
  C7: \<^verbatim>\<open>make_all_dirs()\<close> on an absolute path creates the prefixes of its normal form from the
  outermost on, one \<^verbatim>\<open>mkdir()\<close> each; existing directories are passed over, any other failure
  ends it with that prefix and its errno and no deeper call is made, and the result is
  NO\_ERROR exactly when some directory was created.
\<close>

theorem make_all_dirs_creates_prefixes:
  assumes "\<forall>a \<in> set (answers w). errno_reported a"
    and "st = walk [] (ref_split ''/'' (CHR ''/'' # p))" "st \<noteq> []"
  shows "mkdirs_spec (prefixes st) mode Errno_EXISTS w (make_all_dirs (CHR ''/'' # p) mode w)"
proof -
  have st: "walk [] (ref_split ''/'' p) = st"
    using assms(2) by (subst (asm) walk_rest) (simp add: walk1_def)
  have "normal st"
    unfolding st[symmetric]
    by (rule normal_walk) (auto simp: normal_def clean_def dest: ref_split_slash_free)
  then have clean: "clean st" by (simp add: normal_def)
  obtain c cs where cs: "st = c # cs" using assms(3) by (cases st) auto
  have "make_all_dirs (CHR ''/'' # p) mode w = mad_loop (render st) mode 0 Errno_EXISTS w"
    using normalize_absolute_walk[of p w] assms(3)
    by (simp add: make_all_dirs_def bind_def st abs_path_def)
  also have "\<dots> = visit_all (prefixes st) mode Errno_EXISTS w"
    using mad_loop_visits[of c cs "[]" mode Errno_EXISTS] clean cs by (simp add: map_idI)
  finally show ?thesis
    using visit_all_spec[OF _ assms(1)] prefixes_proper[OF clean] by auto
qed

theorem make_all_dirs_creates_prefixes_witness:
  "mkdirs_spec [''/a'', ''/a/b''] (FileMode_of 0x1ED) Errno_EXISTS (world_of [failed Errno_EXISTS, ok 0])
     (make_all_dirs ''/a//b'' (FileMode_of 0x1ED) (world_of [failed Errno_EXISTS, ok 0]))"
proof -
  have "walk [] (ref_split ''/'' (''/a//b'')) = [''a'', ''b'']"
    by (simp add: ref_split_char walk1_def)
  then show ?thesis
    using make_all_dirs_creates_prefixes[of "world_of [failed Errno_EXISTS, ok 0]" "[''a'', ''b'']"
        "''a//b''" "FileMode_of 0x1ED"]
    by (simp add: world_of_def errno_reported_def prefixes_def)
qed

end
