(* ===== verification/Files.thy ===== *)
theory Files
  imports Filesystem
begin

text \<open>
  The classes that own kernel resources: \<^verbatim>\<open>FileBase\<close>, \<^verbatim>\<open>FDFile\<close>, \<^verbatim>\<open>File\<close> and
  \<^verbatim>\<open>TempFile\<close>, \<^verbatim>\<open>Directory\<close>, \<^verbatim>\<open>Pipe\<close> and \<^verbatim>\<open>DirStream\<close>.  The locale
  \<open>resource_owner\<close> states what their destructors promise.
\<close>

subsection \<open>FileBase and FDFile (include/fs/FileBase.hxx, include/fs/FDFile.hxx)\<close>

record FileBase =
  fb_fd :: FileDescriptor

definition FileBase_isOpen :: "('z) FileBase_scheme \<Rightarrow> bool" where
  "FileBase_isOpen f \<longleftrightarrow> FD_valid (fb_fd f)"

text \<open>A member function of the descriptor the object holds.\<close>

definition on_fd :: "(FileDescriptor \<times> world, 'a) act \<Rightarrow> (('z) FileBase_scheme \<times> world, 'a) act" where
  "on_fd = zoom fb_fd (\<lambda>d f. f\<lparr>fb_fd := d\<rparr>)"

definition FileBase_close :: "(('z) FileBase_scheme \<times> world, unit) act" where
  "FileBase_close = bind (this FileBase_isOpen) (\<lambda>open'. if \<not> open' then ret () else on_fd FD_close)"

text \<open>The destructor reports a failing close on the error stream and goes on.\<close>

definition FileBase_destroy :: "(('z) FileBase_scheme \<times> world, unit) act" where
  "FileBase_destroy = catch FileBase_close (\<lambda>e. ret ())"

definition FileBase_truncate :: "int \<Rightarrow> (('z) FileBase_scheme \<times> world, unit) act" where
  "FileBase_truncate len = bind (this fb_fd) (\<lambda>d. on_world (truncate_fd (m_fd d) len))"

text \<open>Move assignment gives the new object, the old one and the world unchanged.\<close>

definition FileBase_move :: "('z) FileBase_scheme \<Rightarrow> ('y) FileBase_scheme \<Rightarrow>
    ('z) FileBase_scheme \<times> ('y) FileBase_scheme" where
  "FileBase_move self other = (self\<lparr>fb_fd := fb_fd other\<rparr>, other\<lparr>fb_fd := FD_reset (fb_fd other)\<rparr>)"

record FDFile = FileBase +
  m_auto_close :: bool

definition FDFile_default :: FDFile where
  "FDFile_default = \<lparr>fb_fd = FD_default, m_auto_close = True\<rparr>"

definition FDFile_open_fd :: "FileDescriptor \<Rightarrow> bool \<Rightarrow> FDFile \<Rightarrow> FDFile" where
  "FDFile_open_fd fd auto_close f = f\<lparr>fb_fd := fd, m_auto_close := auto_close\<rparr>"

definition FDFile_move :: "FDFile \<Rightarrow> FDFile \<Rightarrow> FDFile \<times> FDFile" where
  "FDFile_move self other = (let self' = self\<lparr>m_auto_close := m_auto_close other\<rparr>;
     other' = other\<lparr>m_auto_close := True\<rparr> in FileBase_move self' other')"

definition FDFile_close :: "(FDFile \<times> world, unit) act" where
  "FDFile_close = bind (this m_auto_close) (\<lambda>auto.
     if \<not> auto then set_this (\<lambda>f. f\<lparr>fb_fd := FD_reset (fb_fd f), m_auto_close := True\<rparr>)
     else FileBase_close)"

definition FDFile_takeOwnership :: "(FDFile \<times> world, FileDescriptor) act" where
  "FDFile_takeOwnership = bind (this fb_fd) (\<lambda>d.
     andthen (set_this (\<lambda>f. f\<lparr>fb_fd := FD_reset (fb_fd f)\<rparr>)) (ret d))"

definition FDFile_releaseOwnership :: "FDFile \<Rightarrow> FDFile" where
  "FDFile_releaseOwnership f = f\<lparr>m_auto_close := False\<rparr>"

definition FDFile_destroy :: "(FDFile \<times> world, unit) act" where
  "FDFile_destroy = andthen
     (bind (this m_auto_close) (\<lambda>auto. if \<not> auto then FDFile_close else ret ()))
     FileBase_destroy"

subsection \<open>File (src/fs/File.cxx)\<close>

definition File_open :: "string \<Rightarrow> OpenMode \<Rightarrow> OpenFlags \<Rightarrow> FileMode option \<Rightarrow> (FDFile \<times> world, unit) act" where
  "File_open path mode flags fmode = andthen FDFile_close
     (bind (on_world (fs_open path mode flags fmode)) (\<lambda>d. set_this (\<lambda>f. f\<lparr>fb_fd := d\<rparr>)))"

definition File_open_at :: "FileNum \<Rightarrow> string \<Rightarrow> OpenMode \<Rightarrow> OpenFlags \<Rightarrow> FileMode option \<Rightarrow>
    (FDFile \<times> world, unit) act" where
  "File_open_at dir_fd path mode flags fmode = andthen FDFile_close
     (bind (on_world (fs_open_at dir_fd path mode flags fmode)) (\<lambda>d. set_this (\<lambda>f. f\<lparr>fb_fd := d\<rparr>)))"

definition cloexec_flags :: OpenFlags where
  "cloexec_flags = BitMask_of_list [OpenFlag_value CLOEXEC]"

definition File_open_default :: "string \<Rightarrow> OpenMode \<Rightarrow> (FDFile \<times> world, unit) act" where
  "File_open_default path mode = File_open path mode cloexec_flags None"

subsection \<open>TempFile (include/fs/TempFile.hxx, src/fs/TempFile.cxx)\<close>

record TempFile = FileBase +
  m_tmp_path :: string

definition TempFile_default :: TempFile where
  "TempFile_default = \<lparr>fb_fd = FD_default, m_tmp_path = []\<rparr>"

definition TempFile_unlinkPath :: "(TempFile \<times> world, unit) act" where
  "TempFile_unlinkPath = bind (this m_tmp_path) (\<lambda>path.
     if path = [] then ret ()
     else andthen
       (catch (on_world (unlink_file path)) (\<lambda>e. andthen (set_this (\<lambda>f. f\<lparr>m_tmp_path := []\<rparr>)) (throw e)))
       (set_this (\<lambda>f. f\<lparr>m_tmp_path := []\<rparr>)))"

definition TempFile_close :: "(TempFile \<times> world, unit) act" where
  "TempFile_close = andthen
     (catch FileBase_close (\<lambda>e. andthen TempFile_unlinkPath (throw e)))
     TempFile_unlinkPath"

definition TempFile_open :: "string \<Rightarrow> OpenFlags \<Rightarrow> (TempFile \<times> world, unit) act" where
  "TempFile_open template flags = andthen TempFile_close
     (bind (on_world (make_tempfile template flags)) (\<lambda>(fd, path).
        set_this (\<lambda>f. f\<lparr>fb_fd := fd, m_tmp_path := path\<rparr>)))"

definition TempFile_path :: "TempFile \<Rightarrow> exn + string" where
  "TempFile_path f = (if m_tmp_path f \<noteq> [] then Inr (m_tmp_path f)
     else Inl (UsageError ''accessed path for closed TempFile''))"

definition TempFile_move :: "TempFile \<Rightarrow> TempFile \<Rightarrow> TempFile \<times> TempFile" where
  "TempFile_move self other = FileBase_move (self\<lparr>m_tmp_path := m_tmp_path other\<rparr>)
     (other\<lparr>m_tmp_path := []\<rparr>)"

definition TempFile_destroy :: "(TempFile \<times> world, unit) act" where
  "TempFile_destroy = andthen (catch TempFile_close (\<lambda>e. ret ())) FileBase_destroy"

subsection \<open>Directory (include/fs/Directory.hxx, src/fs/Directory.cxx)\<close>

record Directory =
  dir_auto_close :: bool
  dir_fd :: FileDescriptor

definition Directory_default :: Directory where
  "Directory_default = \<lparr>dir_auto_close = True, dir_fd = FD_default\<rparr>"

definition Directory_isOpen :: "Directory \<Rightarrow> bool" where
  "Directory_isOpen d \<longleftrightarrow> FD_valid (dir_fd d)"

definition Directory_open_fd :: "FileDescriptor \<Rightarrow> bool \<Rightarrow> Directory \<Rightarrow> Directory" where
  "Directory_open_fd fd auto_close d = d\<lparr>dir_fd := fd, dir_auto_close := auto_close\<rparr>"

definition Directory_open :: "string \<Rightarrow> OpenMode \<Rightarrow> OpenFlags \<Rightarrow> (Directory \<times> world, unit) act" where
  "Directory_open path mode flags = andthen (set_this (\<lambda>d. d\<lparr>dir_auto_close := True\<rparr>))
     (bind (on_world (fs_open path mode (BitMask_set_flag flags (OpenFlag_value DIRECTORY) True) None))
        (\<lambda>fd. set_this (\<lambda>d. d\<lparr>dir_fd := fd\<rparr>)))"

definition Directory_open_at :: "FileNum \<Rightarrow> string \<Rightarrow> OpenMode \<Rightarrow> OpenFlags \<Rightarrow> (Directory \<times> world, unit) act" where
  "Directory_open_at at path mode flags = andthen (set_this (\<lambda>d. d\<lparr>dir_auto_close := True\<rparr>))
     (bind (on_world (fs_open_at at path mode (BitMask_set_flag flags (OpenFlag_value DIRECTORY) True) None))
        (\<lambda>fd. set_this (\<lambda>d. d\<lparr>dir_fd := fd\<rparr>)))"

definition on_dir_fd :: "(FileDescriptor \<times> world, 'a) act \<Rightarrow> (Directory \<times> world, 'a) act" where
  "on_dir_fd = zoom dir_fd (\<lambda>fd d. d\<lparr>dir_fd := fd\<rparr>)"

definition Directory_close :: "(Directory \<times> world, unit) act" where
  "Directory_close = bind (this (\<lambda>d. d)) (\<lambda>d.
     if \<not> Directory_isOpen d then ret ()
     else andthen
       (if dir_auto_close d then on_dir_fd FD_close
        else set_this (\<lambda>d. d\<lparr>dir_fd := FD_reset (dir_fd d)\<rparr>))
       (set_this (\<lambda>d. d\<lparr>dir_auto_close := True\<rparr>)))"

definition Directory_destroy :: "(Directory \<times> world, unit) act" where
  "Directory_destroy = catch Directory_close (\<lambda>e. ret ())"

definition Directory_move :: "Directory \<Rightarrow> Directory \<Rightarrow> Directory \<times> Directory" where
  "Directory_move self other =
     (self\<lparr>dir_auto_close := dir_auto_close other, dir_fd := dir_fd other\<rparr>,
      other\<lparr>dir_auto_close := True, dir_fd := FD_reset (dir_fd other)\<rparr>)"

definition Directory_unlinkFileAt :: "string \<Rightarrow> Directory \<Rightarrow> (world, unit) act" where
  "Directory_unlinkFileAt path d = unlink_file_at (m_fd (dir_fd d)) path"

definition Directory_removeDirAt :: "string \<Rightarrow> Directory \<Rightarrow> (world, unit) act" where
  "Directory_removeDirAt path d = remove_dir_at (m_fd (dir_fd d)) path"

definition Directory_makeDirAt :: "string \<Rightarrow> FileMode \<Rightarrow> Directory \<Rightarrow> (world, unit) act" where
  "Directory_makeDirAt path mode d = make_dir_at (m_fd (dir_fd d)) path mode"

definition Directory_readSymlinkAt :: "string \<Rightarrow> Directory \<Rightarrow> (world, string) act" where
  "Directory_readSymlinkAt path d = read_symlink_at (m_fd (dir_fd d)) path"

definition Directory_makeSymlinkAt :: "string \<Rightarrow> string \<Rightarrow> Directory \<Rightarrow> (world, unit) act" where
  "Directory_makeSymlinkAt target path d = make_symlink_at target (m_fd (dir_fd d)) path"

definition Directory_renameAt :: "string \<Rightarrow> string \<Rightarrow> Directory \<Rightarrow> (world, unit) act" where
  "Directory_renameAt oldpath newpath d =
     rename_at (m_fd (dir_fd d)) oldpath (m_fd (dir_fd d)) newpath 0"

subsection \<open>Pipe (include/io/Pipe.hxx, src/io/Pipe.cxx)\<close>

record Pipe =
  m_read_end :: FileDescriptor
  m_write_end :: FileDescriptor

definition Pipe_default :: Pipe where
  "Pipe_default = \<lparr>m_read_end = FD_default, m_write_end = FD_default\<rparr>"

definition Pipe_create :: "(world, Pipe) act" where
  "Pipe_create = bind (call ''pipe2''
       [I (sint (OpenFlag_value CLOEXEC OR OpenFlag_value DIRECT))]) (\<lambda>a.
     if rv a \<noteq> 0 then throw_ApiError ''pipe2()''
     else ret (case outs a of [r, w] \<Rightarrow> \<lparr>m_read_end = FD r, m_write_end = FD w\<rparr>
               | _ \<Rightarrow> Pipe_default))"

definition Pipe_closeReadEnd :: "(Pipe \<times> world, unit) act" where
  "Pipe_closeReadEnd = bind (this (\<lambda>p. FD_valid (m_read_end p))) (\<lambda>have_end.
     if have_end then zoom m_read_end (\<lambda>d p. p\<lparr>m_read_end := d\<rparr>) FD_close else ret ())"

definition Pipe_closeWriteEnd :: "(Pipe \<times> world, unit) act" where
  "Pipe_closeWriteEnd = bind (this (\<lambda>p. FD_valid (m_write_end p))) (\<lambda>have_end.
     if have_end then zoom m_write_end (\<lambda>d p. p\<lparr>m_write_end := d\<rparr>) FD_close else ret ())"

definition Pipe_destroy :: "(Pipe \<times> world, unit) act" where
  "Pipe_destroy = andthen Pipe_closeReadEnd Pipe_closeWriteEnd"

definition Pipe_move :: "Pipe \<Rightarrow> Pipe \<Rightarrow> Pipe \<times> Pipe" where
  "Pipe_move self other = (self\<lparr>m_read_end := m_read_end other, m_write_end := m_write_end other\<rparr>,
     other\<lparr>m_read_end := FD_reset (m_read_end other), m_write_end := FD_reset (m_write_end other)\<rparr>)"

definition Pipe_takeReadEndOwnership :: "Pipe \<Rightarrow> FileDescriptor \<times> Pipe" where
  "Pipe_takeReadEndOwnership p = (m_read_end p, p\<lparr>m_read_end := FD_reset (m_read_end p)\<rparr>)"

definition Pipe_takeWriteEndOwnership :: "Pipe \<Rightarrow> FileDescriptor \<times> Pipe" where
  "Pipe_takeWriteEndOwnership p = (m_write_end p, p\<lparr>m_write_end := FD_reset (m_write_end p)\<rparr>)"

subsection \<open>Ownership\<close>

text \<open>
  The contract of a class that owns resources: after its destructor nothing the object owned
  is live, everything else still is, and the object owns nothing any more.  What is live is
  an account that follows from the calls made.
\<close>

locale resource_owner =
  fixes account :: "world \<Rightarrow> 'r set"
    and owned :: "'o \<Rightarrow> 'r set"
    and destroy :: "('o \<times> world, unit) act"
  assumes release: "destroy (obj, w) = (Ret (), (obj', w')) \<Longrightarrow>
    owned obj' = {} \<and> account w' = account w - owned obj"
begin

text \<open>
  A block with such an object leaks nothing, whether it returns or throws: what is live at its
  end was live before or is what the block's body made live beside the object's resources.
\<close>

lemma scoped_releases:
  assumes "body (obj, w) = (r, (obj', w'))" "r = Ret x \<or> r = Throw e"
    and "scoped obj body destroy w = (r', w'')" "r' = Ret y \<or> r' = Throw e'"
  shows "r' = r \<and> account w'' = account w' - owned obj'"
  using assms release[of obj' w']
  by (auto simp: scoped_def split: outcome.splits prod.splits)

end

definition FDFile_owned :: "FDFile \<Rightarrow> resource set" where
  "FDFile_owned f = (if m_auto_close f \<and> FD_valid (fb_fd f) then {Fd (m_fd (fb_fd f))} else {})"

definition Directory_owned :: "Directory \<Rightarrow> resource set" where
  "Directory_owned d = (if dir_auto_close d \<and> FD_valid (dir_fd d) then {Fd (m_fd (dir_fd d))} else {})"

definition fd_owned :: "FileDescriptor \<Rightarrow> resource set" where
  "fd_owned d = (if FD_valid d then {Fd (m_fd d)} else {})"

definition Pipe_owned :: "Pipe \<Rightarrow> resource set" where
  "Pipe_owned p = fd_owned (m_read_end p) \<union> fd_owned (m_write_end p)"

text \<open>Closing in terms of ownership; the object may be embedded in another.\<close>

lemma FD_close_releases:
  assumes "FD_close (d, w) = (r, (d', w'))" "r \<noteq> Blocked"
  shows "d' = FD_default \<and> live_in w' = live_in w - fd_owned d \<and> (\<exists>e. r = Ret () \<or> r = Throw e)"
proof (cases "FD_valid d")
  case True
  with assms obtain a as where "answers w = a # as"
    by (cases "answers w") (auto simp: FD_close_unanswered)
  with True assms show ?thesis
    by (auto simp: FD_close_answered fd_owned_def call_answer close_ends_resource
        simp del: effect.simps split: if_splits)
next
  case False
  then have "d = FD_default" by (simp add: FD_valid_def FD_default_def FD_def)
  with False assms show ?thesis by (auto simp: FD_close_invalid fd_owned_def)
qed

lemma FD_default_invalid [simp]: "\<not> FD_valid FD_default" "fd_owned FD_default = {}"
  by (simp_all add: FD_valid_def FD_default_def FD_def fd_owned_def)

lemma FD_reset_invalid [simp]: "\<not> FD_valid (FD_reset d)"
  by (simp add: FD_valid_def FD_reset_def)

lemma FileBase_close_invalid:
  "\<not> FD_valid (fb_fd f) \<Longrightarrow> FileBase_close (f, w) = (Ret (), (f, w))"
  by (simp add: FileBase_close_def FileBase_isOpen_def act_defs)

lemma FileBase_destroy_releases:
  assumes "FileBase_destroy (f, w) = (Ret (), (f', w'))"
  shows "f' = f\<lparr>fb_fd := FD_default\<rparr> \<and> live_in w' = live_in w - fd_owned (fb_fd f)"
proof (cases "FD_valid (fb_fd f)")
  case True
  obtain r d' v where c: "FD_close (fb_fd f, w) = (r, (d', v))" by (metis prod_cases3)
  with True assms have "r \<noteq> Blocked" "v = w'" "f' = f\<lparr>fb_fd := d'\<rparr>"
    by (auto simp: FileBase_destroy_def FileBase_close_def FileBase_isOpen_def on_fd_def act_defs
        split: outcome.splits)
  with FD_close_releases[OF c] show ?thesis by simp
next
  case False
  then have "fb_fd f = FD_default" by (simp add: FD_valid_def FD_default_def FD_def)
  with False assms show ?thesis
    by (simp add: FileBase_destroy_def FileBase_close_invalid catch_def fd_owned_def)
qed

interpretation fdfile: resource_owner live_in FDFile_owned FDFile_destroy
proof unfold_locales
  fix f f' w w'
  assume d: "FDFile_destroy (f, w) = (Ret (), (f', w'))"
  show "FDFile_owned f' = {} \<and> live_in w' = live_in w - FDFile_owned f"
  proof (cases "m_auto_close f")
    case True
    then have "FileBase_destroy (f, w) = (Ret (), (f', w'))"
      using d by (simp add: FDFile_destroy_def act_defs)
    from FileBase_destroy_releases[OF this] True show ?thesis
      by (auto simp: FDFile_owned_def fd_owned_def)
  next
    case False
    let ?g = "f\<lparr>fb_fd := FD_reset (fb_fd f), m_auto_close := True\<rparr>"
    have "FileBase_destroy (?g, w) = (Ret (), (f', w'))"
      using False d by (simp add: FDFile_destroy_def FDFile_close_def act_defs)
    from FileBase_destroy_releases[OF this] False show ?thesis
      by (simp add: FDFile_owned_def fd_owned_def)
  qed
qed

interpretation directory: resource_owner live_in Directory_owned Directory_destroy
proof unfold_locales
  fix f f' w w'
  assume d: "Directory_destroy (f, w) = (Ret (), (f', w'))"
  obtain r fd' v where c: "FD_close (dir_fd f, w) = (r, (fd', v))" by (metis prod_cases3)
  show "Directory_owned f' = {} \<and> live_in w' = live_in w - Directory_owned f"
  proof (cases "FD_valid (dir_fd f) \<and> dir_auto_close f")
    case True
    with c d have "r \<noteq> Blocked" "v = w'" "dir_fd f' = fd'"
      by (auto simp: Directory_destroy_def Directory_close_def Directory_isOpen_def on_dir_fd_def
          act_defs split: outcome.splits)
    with FD_close_releases[OF c] True show ?thesis
      by (simp add: Directory_owned_def fd_owned_def)
  next
    case False
    with d show ?thesis
      by (auto simp: Directory_destroy_def Directory_close_def Directory_isOpen_def
          Directory_owned_def act_defs split: if_splits)
  qed
qed

lemma Pipe_end_closes:
  "\<lbrakk>Pipe_closeReadEnd (p, w) = (Ret (), (p', w'))\<rbrakk> \<Longrightarrow>
     p' = p\<lparr>m_read_end := FD_default\<rparr> \<and> live_in w' = live_in w - fd_owned (m_read_end p)"
  "\<lbrakk>Pipe_closeWriteEnd (p, w) = (Ret (), (p', w'))\<rbrakk> \<Longrightarrow>
     p' = p\<lparr>m_write_end := FD_default\<rparr> \<and> live_in w' = live_in w - fd_owned (m_write_end p)"
proof -
  have invalid: "d = FD_default" if "\<not> FD_valid d" for d
    using that by (simp add: FD_valid_def FD_default_def FD_def)
  {
    assume a: "Pipe_closeReadEnd (p, w) = (Ret (), (p', w'))"
    obtain r d v where c: "FD_close (m_read_end p, w) = (r, (d, v))" by (metis prod_cases3)
    show "p' = p\<lparr>m_read_end := FD_default\<rparr> \<and> live_in w' = live_in w - fd_owned (m_read_end p)"
      using a c FD_close_releases[OF c] invalid[of "m_read_end p"]
      by (auto simp: Pipe_closeReadEnd_def act_defs split: if_splits)
  next
    assume a: "Pipe_closeWriteEnd (p, w) = (Ret (), (p', w'))"
    obtain r d v where c: "FD_close (m_write_end p, w) = (r, (d, v))" by (metis prod_cases3)
    show "p' = p\<lparr>m_write_end := FD_default\<rparr> \<and> live_in w' = live_in w - fd_owned (m_write_end p)"
      using a c FD_close_releases[OF c] invalid[of "m_write_end p"]
      by (auto simp: Pipe_closeWriteEnd_def act_defs split: if_splits)
  }
qed

interpretation pipe: resource_owner live_in Pipe_owned Pipe_destroy
proof unfold_locales
  fix p p' w w'
  assume "Pipe_destroy (p, w) = (Ret (), (p', w'))"
  then obtain q v where 1: "Pipe_closeReadEnd (p, w) = (Ret (), (q, v))"
    and 2: "Pipe_closeWriteEnd (q, v) = (Ret (), (p', w'))"
    by (auto simp: Pipe_destroy_def elim!: andthen_RetD)
  from Pipe_end_closes(1)[OF 1] Pipe_end_closes(2)[OF 2]
  show "Pipe_owned p' = {} \<and> live_in w' = live_in w - Pipe_owned p"
    by (auto simp: Pipe_owned_def)
qed

text \<open>
  C8: The destructors of file, directory and pipe objects release exactly what the object
  owns: afterwards it owns nothing, and of the live resources precisely its own are gone.  A
  file or directory that does not own its descriptor (\<^verbatim>\<open>AutoCloseFD\<close> off) leaves it live.
\<close>

theorem destructors_release:
  "(FDFile_destroy (f, w) = (Ret (), (f', wx)) \<longrightarrow>
      FDFile_owned f' = {} \<and> live_in wx = live_in w - FDFile_owned f) \<and>
   (Directory_destroy (d, w) = (Ret (), (d', wd)) \<longrightarrow>
      Directory_owned d' = {} \<and> live_in wd = live_in w - Directory_owned d) \<and>
   (Pipe_destroy (p, w) = (Ret (), (p', wp)) \<longrightarrow>
      Pipe_owned p' = {} \<and> live_in wp = live_in w - Pipe_owned p)"
  using fdfile.release directory.release pipe.release by blast

definition piped_world :: world where
  "piped_world = (world_of [ok 0, ok 0])\<lparr>trace :=
     [(Call ''pipe2'' [I 0x84000], \<lparr>rv = 0, err = None, out = [], outs = [3, 4]\<rparr>)]\<rparr>"

theorem destructors_release_witness:
  "\<exists>p w. Pipe_destroy (\<lparr>m_read_end = FD 3, m_write_end = FD 4\<rparr>, piped_world) = (Ret (), (p, w)) \<and>
     live_in piped_world = {Fd 3, Fd 4} \<and> live_in w = {}"
proof -
  let ?p = "\<lparr>m_read_end = FD 3, m_write_end = FD 4\<rparr>"
  obtain p w where d: "Pipe_destroy (?p, piped_world) = (Ret (), (p, w))"
    by (simp add: Pipe_destroy_def Pipe_closeReadEnd_def Pipe_closeWriteEnd_def FD_close_def
        FD_valid_def FD_def FD_reset_def act_defs kernel_defs piped_world_def world_of_def)
  have l: "live_in piped_world = {Fd 3, Fd 4}"
    by (simp add: live_def opens_fd_def piped_world_def)
  have "Pipe_owned ?p = {Fd 3, Fd 4}"
    by (auto simp: Pipe_owned_def fd_owned_def FD_valid_def FD_def)
  then show ?thesis
    using destructors_release[of FDFile_default piped_world FDFile_default piped_world
        Directory_default Directory_default piped_world ?p p w] d l by auto
qed

subsection \<open>Opening again and moving\<close>

lemma FDFile_close_owning:
  assumes "m_auto_close f" "FD_valid (fb_fd f)"
  shows "FDFile_close (f, w) =
    (case FD_close (fb_fd f, w) of (r, (d, v)) \<Rightarrow> (r, (f\<lparr>fb_fd := d\<rparr>, v)))"
  using assms
  by (simp add: FDFile_close_def FileBase_close_def FileBase_isOpen_def on_fd_def bind_def
      this_def gets_def zoom_def)

lemma FDFile_close_releases:
  assumes "FDFile_close (f, w) = (Ret (), (f', w'))"
  shows "\<not> FD_valid (fb_fd f') \<and> live_in w' = live_in w - FDFile_owned f \<and>
    m_auto_close f'"
proof (cases "m_auto_close f \<and> FD_valid (fb_fd f)")
  case True
  obtain r d v where c: "FD_close (fb_fd f, w) = (r, (d, v))" by (metis prod_cases3)
  with True assms have "r = Ret ()" "f' = f\<lparr>fb_fd := d\<rparr>" "w' = v"
    by (simp_all add: FDFile_close_owning)
  with FD_close_releases[OF c] True show ?thesis
    by (simp add: FDFile_owned_def fd_owned_def)
next
  case False
  with assms show ?thesis
    by (auto simp: FDFile_close_def FileBase_close_def FileBase_isOpen_def bind_def this_def
        gets_def set_this_def modify_def ret_def FDFile_owned_def split: if_splits)
qed

lemma fs_open_Ret:
  assumes "fs_open path mode flags fmode w = (Ret d, w')" "\<forall>a \<in> set (answers w). -1 \<le> rv a"
  shows "FD_valid d \<and> live_in w' = insert (Fd (m_fd d)) (live_in w)"
proof -
  have n: "\<not> (needs_fmode flags \<and> fmode = None)"
    using assms(1) by (auto simp: fs_open_def throw_def split: if_splits)
  then obtain a as where "answers w = a # as"
    using assms(1) by (cases "answers w") (auto simp: fs_open_def act_defs kernel_defs split: if_splits)
  from fs_open_answered[OF n this] this assms show ?thesis
    by (auto simp: FD_valid_def FD_def opens_fd_def split: if_splits)
qed

lemma FDFile_close_answers:
  assumes "FDFile_close (f, w) = (r, (f', w'))"
  shows "set (answers w') \<subseteq> set (answers w)"
proof (cases "m_auto_close f \<and> FD_valid (fb_fd f)")
  case True
  with assms show ?thesis
    by (cases "answers w")
      (auto simp: FDFile_close_owning FD_close_answered FD_close_unanswered call_answer)
next
  case False
  with assms show ?thesis
    by (auto simp: FDFile_close_def FileBase_close_def FileBase_isOpen_def bind_def this_def
        gets_def set_this_def modify_def ret_def split: if_splits)
qed

text \<open>
  Opening a file object again closes what it owned first: when \<^verbatim>\<open>File::open()\<close> returns,
  the old descriptor is gone and the object owns the new one.  \<^verbatim>\<open>Directory::open()\<close> does not:
  after opening by path what the object owned before is still live although the object only
  knows the new descriptor.
\<close>

theorem reopening:
  assumes "\<forall>a \<in> set (answers w). -1 \<le> rv a"
  shows "(File_open path mode flags fmode (f, w) = (Ret (), (f', wx)) \<longrightarrow>
       FDFile_owned f' = {Fd (m_fd (fb_fd f'))} \<and>
       live_in wx = insert (Fd (m_fd (fb_fd f'))) (live_in w - FDFile_owned f)) \<and>
     (Directory_open path mode flags (d, w) = (Ret (), (d', wd)) \<longrightarrow>
       Directory_owned d' = {Fd (m_fd (dir_fd d'))} \<and>
       live_in wd = insert (Fd (m_fd (dir_fd d'))) (live_in w))"
proof (intro conjI impI)
  assume "File_open path mode flags fmode (f, w) = (Ret (), (f', wx))"
  then obtain g v fd where 1: "FDFile_close (f, w) = (Ret (), (g, v))"
    and 2: "fs_open path mode flags fmode v = (Ret fd, wx)" "f' = g\<lparr>fb_fd := fd\<rparr>"
    by (auto simp: File_open_def act_defs split: outcome.splits prod.splits)
  have "\<forall>a \<in> set (answers v). -1 \<le> rv a"
    using FDFile_close_answers[OF 1] assms by blast
  from fs_open_Ret[OF 2(1) this] FDFile_close_releases[OF 1] 2(2)
  show "FDFile_owned f' = {Fd (m_fd (fb_fd f'))}"
    "live_in wx = insert (Fd (m_fd (fb_fd f'))) (live_in w - FDFile_owned f)"
    by (auto simp: FDFile_owned_def)
next
  assume "Directory_open path mode flags (d, w) = (Ret (), (d', wd))"
  then obtain fd where 2: "d' = d\<lparr>dir_auto_close := True, dir_fd := fd\<rparr>"
    "fs_open path mode (BitMask_set_flag flags (OpenFlag_value DIRECTORY) True) None w = (Ret fd, wd)"
    by (auto simp: Directory_open_def act_defs split: outcome.splits prod.splits)
  from fs_open_Ret[OF 2(2) assms] 2(1)
  show "Directory_owned d' = {Fd (m_fd (dir_fd d'))}"
    "live_in wd = insert (Fd (m_fd (dir_fd d'))) (live_in w)"
    by (auto simp: Directory_owned_def)
qed

theorem reopening_witness:
  "\<exists>d wd. Directory_open ''b'' READ_ONLY cloexec_flags
       (\<lparr>dir_auto_close = True, dir_fd = FD 3\<rparr>,
        (world_of [ok 4])\<lparr>trace := [(Call ''open'' [S ''a'', I 0, I 0], ok 3)]\<rparr>) = (Ret (), (d, wd)) \<and>
     live_in wd = {Fd 3, Fd 4} \<and> Directory_owned d = {Fd 4}"
proof -
  let ?w = "(world_of [ok 4])\<lparr>trace := [(Call ''open'' [S ''a'', I 0, I 0], ok 3)]\<rparr>"
  let ?d = "\<lparr>dir_auto_close = True, dir_fd = FD 3\<rparr>"
  obtain d wd where d: "Directory_open ''b'' READ_ONLY cloexec_flags (?d, ?w) = (Ret (), (d, wd))"
    "m_fd (dir_fd d) = 4"
    by (simp add: Directory_open_def fs_open_def needs_fmode_def BitMask_test_def cloexec_flags_def
        BitMask_set_flag_def BitMask_of_list_def act_defs kernel_defs world_of_def FD_def)
  have "live_in ?w = {Fd 3}" by (simp add: live_def opens_fd_def)
  with d reopening[of ?w "''b''" READ_ONLY cloexec_flags None FDFile_default FDFile_default ?w
      ?d d wd]
  show ?thesis by (auto simp: world_of_def)
qed

text \<open>
  Move assignment hands over what the source object owns and empties it, but it forgets
  what the target owned: after it no object owns that resource, for files, directories and
  pipes alike.  The same holds for \<^verbatim>\<open>FDFile::open()\<close> on a descriptor.
\<close>

theorem assignment_forgets_target:
  "(let (f', g') = FDFile_move f g in FDFile_owned f' = FDFile_owned g \<and> FDFile_owned g' = {}) \<and>
   (let (d', e') = Directory_move d e in Directory_owned d' = Directory_owned e \<and> Directory_owned e' = {}) \<and>
   (let (p', q') = Pipe_move p q in Pipe_owned p' = Pipe_owned q \<and> Pipe_owned q' = {}) \<and>
   FDFile_owned (FDFile_open_fd fd True f) = fd_owned fd"
  by (simp add: FDFile_move_def FileBase_move_def FDFile_owned_def Directory_move_def
      Directory_owned_def Pipe_move_def Pipe_owned_def FDFile_open_fd_def fd_owned_def)

end
