(* ===== verification/DirStreams.thy ===== *)
theory DirStreams
  imports Files
begin

text \<open>
  Directory streams: \<^verbatim>\<open>DirEntry\<close>, \<^verbatim>\<open>DirStream\<close>, \<^verbatim>\<open>DirIterator\<close> and the recursive
  \<^verbatim>\<open>remove_tree()\<close> of \<^verbatim>\<open>src/fs/filesystem.cxx\<close> with \<^verbatim>\<open>TempDir\<close>, which relies on it.  A
  stream is the number the C library returned for it, 0 for null.
\<close>

subsection \<open>Directory entries (include/fs/DirEntry.hxx)\<close>

datatype DirEntryType = DT_BLOCK_DEVICE | DT_CHAR_DEVICE | DT_DIRECTORY | DT_FIFO | DT_SYMLINK
  | DT_REGULAR | DT_UNIX_SOCKET | DT_UNKNOWN

primrec DirEntryType_value :: "DirEntryType \<Rightarrow> int" where
  "DirEntryType_value DT_BLOCK_DEVICE = 6"
| "DirEntryType_value DT_CHAR_DEVICE = 2"
| "DirEntryType_value DT_DIRECTORY = 4"
| "DirEntryType_value DT_FIFO = 1"
| "DirEntryType_value DT_SYMLINK = 10"
| "DirEntryType_value DT_REGULAR = 8"
| "DirEntryType_value DT_UNIX_SOCKET = 12"
| "DirEntryType_value DT_UNKNOWN = 0"

text \<open>
  The structure \<^verbatim>\<open>readdir()\<close> points to: \<open>de_name\<close> are the bytes from \<^verbatim>\<open>d_name\<close> to the
  end of the record, which begin with the terminated name; \<^verbatim>\<open>d_name\<close> lies 19 bytes behind
  the start of the structure.
\<close>

record DirEntry =
  de_type :: int
  de_ino :: int
  de_off :: int
  de_reclen :: nat
  de_name :: string

definition d_name_offset :: nat where "d_name_offset = 19"

definition DirEntry_name :: "DirEntry \<Rightarrow> string" where
  "DirEntry_name e = c_str (de_name e)"

text \<open>
  The search for the terminator in the last eight bytes of the name field: \<open>p\<close> is the offset
  of \<^verbatim>\<open>endp\<close> from the name.  Reading beyond the record is undefined, and counts as a byte
  that is not null.
\<close>

fun scan_end :: "string \<Rightarrow> nat \<Rightarrow> nat \<Rightarrow> nat option" where
  "scan_end name p 0 = None"
| "scan_end name p (Suc i) =
     (if p < length name \<and> name ! p = NUL then Some p else scan_end name (p + 1) i)"

definition DirEntry_nameLength :: "DirEntry \<Rightarrow> nat" where
  "DirEntry_nameLength e =
     (let len = de_reclen e - d_name_offset - 1;
          len' = (if len < 8 then 0 else len - 8)
      in case scan_end (de_name e) len' 8 of Some n \<Rightarrow> n | None \<Rightarrow> length (DirEntry_name e))"

definition byte_at :: "string \<Rightarrow> nat \<Rightarrow> char" where
  "byte_at s i = (if i < length s then s ! i else NUL)"

definition DirEntry_isDotEntry :: "DirEntry \<Rightarrow> bool" where
  "DirEntry_isDotEntry e = (let name = de_name e in
     if byte_at name 0 \<noteq> CHR ''.'' then False
     else if byte_at name 1 = NUL then True
     else if byte_at name 1 \<noteq> CHR ''.'' then False
     else byte_at name 2 = NUL)"

subsection \<open>Streams (include/fs/DirStream.hxx, src/fs/DirStream.cxx)\<close>

record DirStream =
  m_stream :: int

definition DirStream_default :: DirStream where
  "DirStream_default = \<lparr>m_stream = 0\<rparr>"

definition DirStream_isOpen :: "DirStream \<Rightarrow> bool" where
  "DirStream_isOpen s \<longleftrightarrow> m_stream s \<noteq> 0"

definition DirStream_close :: "(DirStream \<times> world, unit) act" where
  "DirStream_close = bind (this m_stream) (\<lambda>p.
     if p = 0 then ret ()
     else bind (on_world (call ''closedir'' [I p])) (\<lambda>a.
       andthen (set_this (\<lambda>s. s\<lparr>m_stream := 0\<rparr>))
         (if rv a = -1 then on_world (throw_ApiError ''closedir()'') else ret ())))"

definition DirStream_destroy :: "(DirStream \<times> world, unit) act" where
  "DirStream_destroy = catch DirStream_close (\<lambda>e. ret ())"

definition DirStream_open_num :: "FileNum \<Rightarrow> (DirStream \<times> world, unit) act" where
  "DirStream_open_num fd = bind (on_world (call ''fdopendir'' [I fd])) (\<lambda>a.
     andthen (set_this (\<lambda>s. s\<lparr>m_stream := rv a\<rparr>))
       (if rv a = 0 then on_world (throw_ApiError ''fdopendir()'') else ret ()))"

definition dir_open_flags :: "bool \<Rightarrow> int" where
  "dir_open_flags follow_links = sint (OpenFlag_value CLOEXEC OR OpenFlag_value DIRECTORY OR
     (if follow_links then 0 else OpenFlag_value NOFOLLOW))"

definition DirStream_open :: "string \<Rightarrow> bool \<Rightarrow> (DirStream \<times> world, unit) act" where
  "DirStream_open path follow_links = andthen DirStream_close
     (bind (on_world (call ''open'' [S path, I (dir_open_flags follow_links)])) (\<lambda>a.
       let fd = FD (rv a) in
       if \<not> FD_valid fd then on_world (throw_ApiError ''open(O_DIRECTORY)'')
       else catch (DirStream_open_num (m_fd fd))
         (\<lambda>e. andthen
            (on_world (catch (bind (with_local fd FD_close) (\<lambda>_. ret ())) (\<lambda>_. ret ())))
            (throw e))))"

definition DirStream_open_fd :: "FileDescriptor \<Rightarrow> (DirStream \<times> world, unit) act" where
  "DirStream_open_fd fd = andthen DirStream_close
     (bind (on_world (FD_duplicate fd 0 True)) (\<lambda>d. DirStream_open_num (m_fd d)))"

definition DirStream_open_at :: "FileNum \<Rightarrow> string \<Rightarrow> (DirStream \<times> world, unit) act" where
  "DirStream_open_at at subpath =
     bind (on_world (fs_open_at at subpath READ_ONLY
             (BitMask_of_list [OpenFlag_value DIRECTORY]) None)) (\<lambda>d.
       DirStream_open_num (m_fd d))"

definition requireOpenStream :: "string \<Rightarrow> (DirStream \<times> world, unit) act" where
  "requireOpenStream context = bind (this DirStream_isOpen) (\<lambda>is_open.
     if is_open then ret ()
     else throw (UsageError (context @ '' on unassociated DirStream instance'')))"

definition DirStream_fd :: "(DirStream \<times> world, FileDescriptor) act" where
  "DirStream_fd = andthen (requireOpenStream ''fd'')
     (bind (this m_stream) (\<lambda>p. bind (on_world (call ''dirfd'' [I p])) (\<lambda>a.
       let d = FD (rv a) in
       if \<not> FD_valid d then on_world (throw_ApiError ''dirfd()'') else ret d)))"

definition DirStream_tell :: "(DirStream \<times> world, int) act" where
  "DirStream_tell = andthen (requireOpenStream ''tell'')
     (bind (this m_stream) (\<lambda>p. bind (on_world (call ''telldir'' [I p])) (\<lambda>a.
       if rv a = -1 then on_world (throw_ApiError ''telldir()'') else ret (rv a))))"

definition DirStream_seek :: "int \<Rightarrow> (DirStream \<times> world, unit) act" where
  "DirStream_seek pos = andthen (requireOpenStream ''seek'')
     (bind (this m_stream) (\<lambda>p. bind (on_world (call ''seekdir'' [I p, I pos])) (\<lambda>a. ret ())))"

definition DirStream_rewind :: "(DirStream \<times> world, unit) act" where
  "DirStream_rewind = bind (this m_stream) (\<lambda>p.
     bind (on_world (call ''rewinddir'' [I p])) (\<lambda>a. ret ()))"

text \<open>The entry an answer of \<^verbatim>\<open>readdir()\<close> stands for: type, inode, position, record length.\<close>

definition entry_of :: "answer \<Rightarrow> DirEntry" where
  "entry_of a = (case outs a of
      [t, i, p, n] \<Rightarrow> \<lparr>de_type = t, de_ino = i, de_off = p, de_reclen = nat n, de_name = out a\<rparr>
    | _ \<Rightarrow> \<lparr>de_type = 0, de_ino = 0, de_off = 0, de_reclen = 0, de_name = out a\<rparr>)"

definition DirStream_nextEntry :: "(DirStream \<times> world, DirEntry option) act" where
  "DirStream_nextEntry = andthen (requireOpenStream ''nextEntry'')
     (andthen (on_world reset_errno)
       (bind (this m_stream) (\<lambda>p. bind (on_world (call ''readdir'' [I p])) (\<lambda>a.
         if rv a \<noteq> 0 then ret (Some (entry_of a))
         else bind (on_world is_errno_set) (\<lambda>set'.
           if set' then on_world (throw_ApiError ''readdir()'') else ret None)))))"

text \<open>
  The range-based loop over a stream (\<^verbatim>\<open>include/fs/DirIterator.hxx\<close>): \<^verbatim>\<open>begin()\<close> rewinds an
  open stream and reads the first entry, \<^verbatim>\<open>++\<close> reads the next, and the loop ends at the end
  iterator, which holds no entry.
\<close>

definition for_entries :: "(DirEntry \<Rightarrow> (DirStream \<times> world, unit) act) \<Rightarrow> (DirStream \<times> world, unit) act" where
  "for_entries visit = bind (this DirStream_isOpen) (\<lambda>is_open.
     if \<not> is_open then ret ()
     else andthen DirStream_rewind
       (loop (\<lambda>(s, w). length (answers w)) (bind DirStream_nextEntry (\<lambda>e. case e of
          None \<Rightarrow> ret (Some ())
        | Some e \<Rightarrow> andthen (visit e) (ret None)))))"

subsection \<open>File status as far as the tree walk needs it (src/fs/FileStatus.cxx)\<close>

text \<open>The structure is given by its mode field, the first integer the call stores.\<close>

record FileStatus =
  st_mode :: ModeT

definition FileStatus_of :: "answer \<Rightarrow> FileStatus" where
  "FileStatus_of a = \<lparr>st_mode = (case outs a of m # _ \<Rightarrow> word_of_int m | [] \<Rightarrow> 0)\<rparr>"

definition AT_SYMLINK_NOFOLLOW :: int where "AT_SYMLINK_NOFOLLOW = 0x100"

definition FileStatus_fd :: "FileNum \<Rightarrow> (world, FileStatus) act" where
  "FileStatus_fd fd = bind (call ''fstat'' [I fd]) (\<lambda>a.
     if rv a \<noteq> 0 then throw_ApiError ''fstat()'' else ret (FileStatus_of a))"

definition FileStatus_path :: "string \<Rightarrow> bool \<Rightarrow> (world, FileStatus) act" where
  "FileStatus_path path follow =
     bind (call (if follow then ''stat'' else ''lstat'') [S path]) (\<lambda>a.
     if rv a \<noteq> 0 then throw_FileError path (if follow then ''stat'' else ''lstat'')
     else ret (FileStatus_of a))"

definition FileStatus_at :: "FileNum \<Rightarrow> string \<Rightarrow> bool \<Rightarrow> (world, FileStatus) act" where
  "FileStatus_at fd path follow =
     bind (call ''fstatat'' [I fd, S path, I (if follow then 0 else AT_SYMLINK_NOFOLLOW)]) (\<lambda>a.
     if rv a \<noteq> 0 then throw_FileError path ''fstatat()'' else ret (FileStatus_of a))"

definition FileStatus_type :: "FileStatus \<Rightarrow> FileType" where
  "FileStatus_type s = FileType_of (st_mode s)"

definition FileStatus_mode :: "FileStatus \<Rightarrow> FileMode" where
  "FileStatus_mode s = FileMode_of (st_mode s)"

subsection \<open>Removing a tree (src/fs/filesystem.cxx)\<close>

text \<open>
  One entry of the walk, where \<open>recurse\<close> empties a subdirectory.  The local stream of the
  directory case is closed when its block is left.
\<close>

definition remove_file_case :: "FileNum \<Rightarrow> string \<Rightarrow> (world, unit) act" where
  "remove_file_case d name = Directory_unlinkFileAt name (Directory_open_fd (FD d) False Directory_default)"

definition remove_dir_case :: "(DirStream \<times> world, unit) act \<Rightarrow> FileNum \<Rightarrow> string \<Rightarrow> (world, unit) act" where
  "remove_dir_case recurse d name =
     bind (with_local DirStream_default (DirStream_open_at d name)) (\<lambda>(_, subdir).
       scoped subdir
         (andthen recurse
           (on_world (Directory_removeDirAt name (Directory_open_fd (FD d) False Directory_default))))
         DirStream_destroy)"

definition remove_entry :: "(DirStream \<times> world, unit) act \<Rightarrow> FileNum \<Rightarrow> DirEntry \<Rightarrow> (world, unit) act" where
  "remove_entry recurse d e =
     (if DirEntry_isDotEntry e then ret ()
      else (let name = DirEntry_name e in
        if de_type e = DirEntryType_value DT_UNKNOWN then
          bind (FileStatus_at d name False) (\<lambda>fs.
            if FileType_is (FileStatus_type fs) FT_DIRECTORY then remove_dir_case recurse d name
            else remove_file_case d name)
        else if de_type e = DirEntryType_value DT_DIRECTORY then remove_dir_case recurse d name
        else remove_file_case d name))"

text \<open>
  The recursion descends one directory level per call; \<open>depth\<close> bounds how deep the tree may
  be (\<open>remove_tree_complete\<close> shows that the depth of the tree is enough).
\<close>

primrec remove_tree_stream :: "nat \<Rightarrow> (DirStream \<times> world, unit) act" where
  "remove_tree_stream 0 = (\<lambda>s. (Blocked, s))"
| "remove_tree_stream (Suc depth) = bind DirStream_fd (\<lambda>d.
     for_entries (\<lambda>e. on_world (remove_entry (remove_tree_stream depth) (m_fd d) e)))"

definition remove_tree :: "nat \<Rightarrow> string \<Rightarrow> (world, unit) act" where
  "remove_tree depth path =
     bind (with_local DirStream_default (DirStream_open path False)) (\<lambda>(_, dir).
       scoped dir (andthen (remove_tree_stream depth) (on_world (remove_dir path))) DirStream_destroy)"

subsection \<open>TempDir (include/fs/TempDir.hxx, src/fs/TempDir.cxx)\<close>

record TempDir =
  td_path :: string

definition TempDir_close :: "nat \<Rightarrow> (TempDir \<times> world, unit) act" where
  "TempDir_close depth = bind (this td_path) (\<lambda>p.
     if p = [] then ret ()
     else andthen (on_world (remove_tree depth p)) (set_this (\<lambda>t. t\<lparr>td_path := []\<rparr>)))"

definition TempDir_create :: "nat \<Rightarrow> string \<Rightarrow> (TempDir \<times> world, unit) act" where
  "TempDir_create depth template = andthen (TempDir_close depth)
     (bind (on_world (bind (normalize_path template) make_tempdir)) (\<lambda>p.
        set_this (\<lambda>t. t\<lparr>td_path := p\<rparr>)))"

definition TempDir_destroy :: "nat \<Rightarrow> (TempDir \<times> world, unit) act" where
  "TempDir_destroy depth = catch (TempDir_close depth) (\<lambda>e. ret ())"

definition TempDir_path :: "TempDir \<Rightarrow> exn + string" where
  "TempDir_path t = (if td_path t \<noteq> [] then Inr (td_path t)
     else Inl (UsageError ''accessed path for closed TempDir''))"

definition TempDir_move :: "TempDir \<Rightarrow> TempDir \<Rightarrow> TempDir \<times> TempDir" where
  "TempDir_move self other = (self\<lparr>td_path := td_path other\<rparr>, other\<lparr>td_path := []\<rparr>)"

subsection \<open>Names of entries\<close>

lemma scan_end_Some: "scan_end name p k = Some n \<Longrightarrow>
    p \<le> n \<and> n < length name \<and> name ! n = NUL \<and> (\<forall>i. p \<le> i \<and> i < n \<longrightarrow> name ! i \<noteq> NUL)"
proof (induction name p k rule: scan_end.induct)
  case (2 name p k)
  show ?case
  proof (cases "p < length name \<and> name ! p = NUL")
    case True
    with 2(2) show ?thesis by auto
  next
    case False
    then have "scan_end name (p + 1) k = Some n"
      using 2(2) by (auto split: if_splits)
    from 2(1)[OF False this] have ih: "p + 1 \<le> n \<and> n < length name \<and> name ! n = NUL \<and>
        (\<forall>i. p + 1 \<le> i \<and> i < n \<longrightarrow> name ! i \<noteq> NUL)" .
    have "name ! i \<noteq> NUL" if "p \<le> i" "i < n" for i
      using ih that False by (cases "i = p") auto
    with ih show ?thesis by simp
  qed
qed simp

lemma c_str_terminated: "NUL \<notin> set n \<Longrightarrow> c_str (n @ NUL # pad) = n"
  by (simp add: c_str_def takeWhile_append)

text \<open>
  \<^verbatim>\<open>nameLength()\<close>, which looks for the terminator in the last eight bytes of the record,
  is the length of the name for every record the kernel lays out, that is with the record
  length padded to the next multiple of eight: also when the name fills its record so that
  the search misses the terminator and \<^verbatim>\<open>strlen()\<close> decides.
\<close>

theorem nameLength_correct:
  assumes "NUL \<notin> set n" "de_name e = n @ NUL # pad"
    and "de_reclen e = d_name_offset + length (de_name e)"
    and "de_reclen e < d_name_offset + length n + 1 + 8"
  shows "DirEntry_nameLength e = length n \<and> DirEntry_name e = n \<and>
    (DirEntry_isDotEntry e \<longleftrightarrow> n = ''.'' \<or> n = ''..'')"
proof (intro conjI)
  show name: "DirEntry_name e = n"
    using assms(1,2) by (simp add: DirEntry_name_def c_str_terminated)
  have pad: "length pad < 8" "de_reclen e - d_name_offset - 1 = length n + length pad"
    using assms(2-4) by simp_all
  show "DirEntry_nameLength e = length n"
  proof (cases "scan_end (de_name e) (if length n + length pad < 8 then 0 else length n + length pad - 8) 8")
    case None
    then show ?thesis using name pad by (simp add: DirEntry_nameLength_def Let_def)
  next
    case (Some k)
    let ?p = "if length n + length pad < 8 then 0 else length n + length pad - 8"
    have k: "?p \<le> k" "k < length (de_name e)" "de_name e ! k = NUL"
      "\<forall>i. ?p \<le> i \<and> i < k \<longrightarrow> de_name e ! i \<noteq> NUL"
      using scan_end_Some[OF Some] by blast+
    have "\<not> k < length n"
      using k(3) assms(1,2) by (metis nth_append nth_mem)
    moreover have "?p \<le> length n" using pad(1) by (cases "length n + length pad < 8") simp_all
    then have "\<not> length n < k"
      using k(4)[rule_format, of "length n"] pad(1) assms(2)
      by (auto simp: nth_append split: if_splits)
    ultimately show ?thesis
      using Some pad by (simp add: DirEntry_nameLength_def Let_def)
  qed
  show "DirEntry_isDotEntry e \<longleftrightarrow> n = ''.'' \<or> n = ''..''"
    using assms(1,2)
    by (cases n rule: remdups_adj.cases)
      (auto simp: DirEntry_isDotEntry_def byte_at_def Let_def nth_Cons' NUL_def neq_Nil_conv
        split: if_splits)
qed

theorem nameLength_correct_witness:
  "DirEntry_nameLength \<lparr>de_type = 8, de_ino = 1, de_off = 2, de_reclen = 24, de_name = ''log'' @ [NUL, NUL]\<rparr> = 3"
  using nameLength_correct[of "''log''"
      "\<lparr>de_type = 8, de_ino = 1, de_off = 2, de_reclen = 24, de_name = ''log'' @ [NUL, NUL]\<rparr>" "[NUL]"]
  by (simp add: NUL_def d_name_offset_def)

subsection \<open>The specification of removing a tree\<close>

text \<open>
  What a directory holds: entries that are no directories (regular files, symbolic links,
  FIFOs, sockets and devices) and subdirectories, the latter with the descriptor and the stream
  under which the walk opens them.  Each entry has its mode, type and permissions, as
  \<^verbatim>\<open>fstatat()\<close> gives it, and the file system may or may not report its type in the directory
  entry.  The dot entries are what \<^verbatim>\<open>readdir()\<close> also reports.
\<close>

datatype node = Dots string | Leaf string bool ModeT | Sub string bool ModeT int int "node list"

text \<open>The type a directory entry reports for a mode (\<^verbatim>\<open>IFTODT\<close> of \<^verbatim>\<open>dirent.h\<close>).\<close>

definition reported_type :: "ModeT \<Rightarrow> int" where
  "reported_type m = uint m mod 0x10000 div 0x1000"

text \<open>
  The calls of emptying a directory with the descriptor \<open>d\<close> and the stream \<open>h\<close>, each with
  the answer of a file system where everything succeeds.
\<close>

definition entry_answer :: "string \<Rightarrow> int \<Rightarrow> answer" where
  "entry_answer name t = \<lparr>rv = 1, err = None, out = name @ [NUL], outs = [t, 0, 0, 0]\<rparr>"

definition stat_answer :: "ModeT \<Rightarrow> answer" where
  "stat_answer m = \<lparr>rv = 0, err = None, out = [], outs = [uint m]\<rparr>"

definition type_seen :: "bool \<Rightarrow> int \<Rightarrow> int" where
  "type_seen known t = (if known then t else DirEntryType_value DT_UNKNOWN)"

definition stat_calls :: "bool \<Rightarrow> int \<Rightarrow> string \<Rightarrow> ModeT \<Rightarrow> (syscall \<times> answer) list" where
  "stat_calls known d name m = (if known then [] else
     [(Call ''fstatat'' [I d, S name, I AT_SYMLINK_NOFOLLOW], stat_answer m)])"

definition open_sub :: "int \<Rightarrow> string \<Rightarrow> int \<Rightarrow> int \<Rightarrow> (syscall \<times> answer) list" where
  "open_sub d name d' h' =
     [(Call ''openat'' [I d, S name, raw_open_flags (BitMask_of_list [OpenFlag_value DIRECTORY]) READ_ONLY,
          I 0], ok d'),
      (Call ''fdopendir'' [I d'], ok h')]"

definition start_calls :: "int \<Rightarrow> int \<Rightarrow> (syscall \<times> answer) list" where
  "start_calls d h = [(Call ''dirfd'' [I h], ok d), (Call ''rewinddir'' [I h], ok 0)]"

fun node_calls :: "int \<Rightarrow> int \<Rightarrow> node \<Rightarrow> (syscall \<times> answer) list" where
  "node_calls d h (Dots name) = [(Call ''readdir'' [I h], entry_answer name 4)]"
| "node_calls d h (Leaf name known m) =
     [(Call ''readdir'' [I h], entry_answer name (type_seen known (reported_type m)))]
     @ stat_calls known d name m
     @ [(Call ''unlinkat'' [I d, S name, I 0], ok 0)]"
| "node_calls d h (Sub name known m d' h' ns) =
     [(Call ''readdir'' [I h], entry_answer name (type_seen known (reported_type m)))]
     @ stat_calls known d name m
     @ open_sub d name d' h'
     @ (start_calls d' h' @ concat (map (node_calls d' h') ns) @ [(Call ''readdir'' [I h'], ok 0)])
     @ [(Call ''unlinkat'' [I d, S name, I AT_REMOVEDIR], ok 0), (Call ''closedir'' [I h'], ok 0)]"

definition dir_calls :: "int \<Rightarrow> int \<Rightarrow> node list \<Rightarrow> (syscall \<times> answer) list" where
  "dir_calls d h ns = start_calls d h @ concat (map (node_calls d h) ns) @ [(Call ''readdir'' [I h], ok 0)]"

text \<open>
  Names are not empty, hold no null byte and are not the dots (which the dot entries are);
  an entry has one of the seven types of files, and a subdirectory has the type of a directory;
  opened descriptors are valid and streams not null.
\<close>

definition is_dir_mode :: "ModeT \<Rightarrow> bool" where
  "is_dir_mode m \<longleftrightarrow> FileType_of m = FileT_value FT_DIRECTORY"

definition is_other_mode :: "ModeT \<Rightarrow> bool" where
  "is_other_mode m \<longleftrightarrow> FileType_of m \<in> set (map FileT_value
     [FT_REGULAR, FT_LINK, FT_FIFO, FT_SOCKET, FT_BLOCKDEV, FT_CHARDEV])"

fun wf_node :: "node \<Rightarrow> bool" where
  "wf_node (Dots name) \<longleftrightarrow> name = ''.'' \<or> name = ''..''"
| "wf_node (Leaf name known m) \<longleftrightarrow> is_other_mode m \<and>
     NUL \<notin> set name \<and> name \<noteq> [] \<and> name \<noteq> ''.'' \<and> name \<noteq> ''..''"
| "wf_node (Sub name known m d' h' ns) \<longleftrightarrow> is_dir_mode m \<and> NUL \<notin> set name \<and> name \<noteq> [] \<and> name \<noteq> ''.'' \<and> name \<noteq> ''..'' \<and>
     0 \<le> d' \<and> h' \<noteq> 0 \<and> (\<forall>n \<in> set ns. wf_node n)"

fun node_depth :: "node \<Rightarrow> nat" where
  "node_depth (Sub name known m d' h' ns) = Suc (fold max (map node_depth ns) 0)"
| "node_depth _ = 0"

definition tree_depth :: "node list \<Rightarrow> nat" where
  "tree_depth ns = fold max (map node_depth ns) 0"

lemma fold_max_le: "fold max xs (m :: nat) \<le> k \<longleftrightarrow> m \<le> k \<and> (\<forall>x \<in> set xs. x \<le> k)"
  by (induction xs arbitrary: m) auto

subsection \<open>The walk makes the calls of the specification\<close>

text \<open>
  \<open>does m s es t\<close>: the action returns and makes exactly the calls \<open>es\<close>, whatever script
  follows their answers.
\<close>

definition does :: "(world, unit) act \<Rightarrow> (syscall \<times> answer) list \<Rightarrow> bool" where
  "does m es \<longleftrightarrow> (\<forall>w as. answers w = map snd es @ as \<longrightarrow>
     (\<exists>w'. m w = (Ret (), w') \<and> runs_to w es w' \<and> answers w' = as))"

lemma doesI:
  assumes "\<And>w as. answers w = map snd es @ as \<Longrightarrow> \<exists>w'. m w = (Ret (), w') \<and> runs_to w es w'"
  shows "does m es"
  unfolding does_def using assms by (fastforce simp: runs_to_def)

lemma doesD:
  assumes "does m es" "answers w = map snd es @ as"
  obtains w' where "m w = (Ret (), w')" "runs_to w es w'" "answers w' = as"
  using assms unfolding does_def by blast

lemma does_ret: "does (ret ()) []"
  by (rule doesI) (auto simp: ret_def)

lemma does_andthen: "does m es \<Longrightarrow> does n fs \<Longrightarrow> does (andthen m n) (es @ fs)"
proof (rule doesI)
  fix w :: world and as
  assume d: "does m es" "does n fs" and a: "answers w = map snd (es @ fs) @ as"
  from a have "answers w = map snd es @ (map snd fs @ as)" by simp
  from doesD[OF d(1) this] obtain v where v: "m w = (Ret (), v)" "runs_to w es v"
    "answers v = map snd fs @ as" .
  from doesD[OF d(2) v(3)] obtain u where "n v = (Ret (), u)" "runs_to v fs u" .
  with v show "\<exists>w'. andthen m n w = (Ret (), w') \<and> runs_to w (es @ fs) w'"
    using runs_to_trans by (fastforce simp: andthen_def bind_def)
qed

lemma does_call_or_throw:
  "good (rv a) \<Longrightarrow> does (call_or_throw good f args fail) [(Call f args, a)]"
  by (rule doesI) (simp add: call_or_throw_def act_defs kernel_defs runs_to_def)

definition entry_dir :: "string \<Rightarrow> int \<Rightarrow> DirEntry" where
  "entry_dir name t = \<lparr>de_type = t, de_ino = 0, de_off = 0, de_reclen = 0, de_name = name @ [NUL]\<rparr>"

lemma entry_of_answer: "entry_of (entry_answer name t) = entry_dir name t"
  by (simp add: entry_of_def entry_answer_def entry_dir_def)

lemma entry_dir_name: "NUL \<notin> set name \<Longrightarrow> DirEntry_name (entry_dir name t) = name"
  by (simp add: DirEntry_name_def entry_dir_def c_str_terminated)

lemma entry_dir_dots:
  "NUL \<notin> set name \<Longrightarrow> DirEntry_isDotEntry (entry_dir name t) \<longleftrightarrow> name = ''.'' \<or> name = ''..''"
  by (cases name rule: remdups_adj.cases)
    (auto simp: DirEntry_isDotEntry_def byte_at_def Let_def nth_Cons' NUL_def neq_Nil_conv entry_dir_def
        split: if_splits)

text \<open>The same for an action on an open stream, which stays as it is.\<close>

definition stream_does :: "(DirStream \<times> world, unit) act \<Rightarrow> int \<Rightarrow> (syscall \<times> answer) list \<Rightarrow> bool" where
  "stream_does m h es \<longleftrightarrow> (\<forall>w as. answers w = map snd es @ as \<longrightarrow>
     (\<exists>w'. m (\<lparr>m_stream = h\<rparr>, w) = (Ret (), (\<lparr>m_stream = h\<rparr>, w')) \<and> runs_to w es w' \<and> answers w' = as))"

lemma stream_doesD:
  assumes "stream_does m h es" "answers w = map snd es @ as"
  obtains w' where "m (\<lparr>m_stream = h\<rparr>, w) = (Ret (), (\<lparr>m_stream = h\<rparr>, w'))" "runs_to w es w'"
    "answers w' = as"
  using assms unfolding stream_does_def by blast

text \<open>The world after a call with a given answer.\<close>

abbreviation (input) after :: "string \<Rightarrow> arg list \<Rightarrow> answer \<Rightarrow> answer list \<Rightarrow> world \<Rightarrow> world" where
  "after f args a as w \<equiv> w\<lparr>answers := as, trace := trace w @ [(Call f args, a)],
     errno_var := errno_after (errno_var w) a\<rparr>"

lemma open_at_answered:
  assumes "answers w = ok d' # ok h' # as" "0 \<le> d'" "h' \<noteq> 0"
  shows "\<exists>w'. with_local DirStream_default (DirStream_open_at d name) w = (Ret ((), \<lparr>m_stream = h'\<rparr>), w') \<and>
    runs_to w (open_sub d name d' h') w' \<and> answers w' = as"
  using assms
  by (auto simp: DirStream_open_at_def fs_open_at_def needs_fmode_def BitMask_test_def BitMask_of_list_def
      fmode_arg_def DirStream_open_num_def FD_def DirStream_default_def open_sub_def runs_to_def
      act_defs kernel_defs)

lemma stream_close_answered:
  assumes "answers w = ok 0 # as" "h \<noteq> 0"
  shows "\<exists>w'. DirStream_destroy (\<lparr>m_stream = h\<rparr>, w) = (Ret (), (\<lparr>m_stream = 0\<rparr>, w')) \<and>
    runs_to w [(Call ''closedir'' [I h], ok 0)] w' \<and> answers w' = as"
  using assms by (simp add: DirStream_destroy_def DirStream_close_def runs_to_def act_defs kernel_defs)

lemma remove_dir_at_does:
  "does (Directory_removeDirAt name (Directory_open_fd (FD d) False Directory_default))
     [(Call ''unlinkat'' [I d, S name, I AT_REMOVEDIR], ok 0)]"
  by (simp add: Directory_removeDirAt_def Directory_open_fd_def FD_def remove_dir_at_def
      does_call_or_throw)

lemma remove_file_case_does:
  "does (remove_file_case d name) [(Call ''unlinkat'' [I d, S name, I 0], ok 0)]"
  by (simp add: remove_file_case_def Directory_unlinkFileAt_def Directory_open_fd_def FD_def
      unlink_file_at_def does_call_or_throw)

lemma remove_dir_case_does:
  assumes rec: "stream_does recurse h' es" and "0 \<le> d'" "h' \<noteq> 0"
  shows "does (remove_dir_case recurse d name) (open_sub d name d' h' @ es @
     [(Call ''unlinkat'' [I d, S name, I AT_REMOVEDIR], ok 0), (Call ''closedir'' [I h'], ok 0)])"
proof (rule doesI)
  fix w :: world and as
  assume a: "answers w = map snd (open_sub d name d' h' @ es @
     [(Call ''unlinkat'' [I d, S name, I AT_REMOVEDIR], ok 0), (Call ''closedir'' [I h'], ok 0)]) @ as"
  then have "answers w = ok d' # ok h' # (map snd es @ ok 0 # ok 0 # as)"
    by (simp add: open_sub_def)
  from open_at_answered[OF this assms(2,3)] obtain w1 where w1:
    "with_local DirStream_default (DirStream_open_at d name) w = (Ret ((), \<lparr>m_stream = h'\<rparr>), w1)"
    "runs_to w (open_sub d name d' h') w1" "answers w1 = map snd es @ ok 0 # ok 0 # as" by blast
  from stream_doesD[OF rec w1(3)] obtain w2 where w2:
    "recurse (\<lparr>m_stream = h'\<rparr>, w1) = (Ret (), (\<lparr>m_stream = h'\<rparr>, w2))" "runs_to w1 es w2"
    "answers w2 = ok 0 # ok 0 # as" .
  from doesD[OF remove_dir_at_does[of name d], of w2 "ok 0 # as"] w2(3) obtain w3 where w3:
    "Directory_removeDirAt name (Directory_open_fd (FD d) False Directory_default) w2 = (Ret (), w3)"
    "runs_to w2 [(Call ''unlinkat'' [I d, S name, I AT_REMOVEDIR], ok 0)] w3" "answers w3 = ok 0 # as"
    by auto
  from stream_close_answered[OF w3(3) assms(3)] obtain w4 where w4:
    "DirStream_destroy (\<lparr>m_stream = h'\<rparr>, w3) = (Ret (), (\<lparr>m_stream = 0\<rparr>, w4))"
    "runs_to w3 [(Call ''closedir'' [I h'], ok 0)] w4" by blast
  have "remove_dir_case recurse d name w = (Ret (), w4)"
    using w1(1) w2(1) w3(1) w4(1)
    by (simp add: remove_dir_case_def bind_def scoped_def andthen_def on_world_def)
  with runs_to_trans[OF w1(2) runs_to_trans[OF w2(2) runs_to_trans[OF w3(2) w4(2)]]]
  show "\<exists>w'. remove_dir_case recurse d name w = (Ret (), w') \<and> runs_to w (open_sub d name d' h' @ es @
     [(Call ''unlinkat'' [I d, S name, I AT_REMOVEDIR], ok 0), (Call ''closedir'' [I h'], ok 0)]) w'"
    by auto
qed

subsection \<open>One entry\<close>

fun node_name :: "node \<Rightarrow> string" where
  "node_name (Dots name) = name"
| "node_name (Leaf name known m) = name"
| "node_name (Sub name known m d' h' ns) = name"

fun node_type :: "node \<Rightarrow> int" where
  "node_type (Dots name) = 4"
| "node_type (Leaf name known m) = type_seen known (reported_type m)"
| "node_type (Sub name known m d' h' ns) = type_seen known (reported_type m)"

fun node_rest :: "int \<Rightarrow> node \<Rightarrow> (syscall \<times> answer) list" where
  "node_rest d (Dots name) = []"
| "node_rest d (Leaf name known m) = stat_calls known d name m
     @ [(Call ''unlinkat'' [I d, S name, I 0], ok 0)]"
| "node_rest d (Sub name known m d' h' ns) = stat_calls known d name m
     @ open_sub d name d' h' @ dir_calls d' h' ns
     @ [(Call ''unlinkat'' [I d, S name, I AT_REMOVEDIR], ok 0), (Call ''closedir'' [I h'], ok 0)]"

lemma node_calls_split: "node_calls d h n =
    (Call ''readdir'' [I h], entry_answer (node_name n) (node_type n)) # node_rest d n"
  by (cases n) (simp_all add: dir_calls_def)

lemma wf_node_name: "wf_node n \<Longrightarrow> NUL \<notin> set (node_name n)"
  by (cases n) (auto simp: NUL_def)

lemma status_does:
  assumes "does (m (\<lparr>st_mode = k\<rparr>)) es"
  shows "does (bind (FileStatus_at d name False) m)
    ((Call ''fstatat'' [I d, S name, I AT_SYMLINK_NOFOLLOW], stat_answer k) # es)"
proof (rule doesI)
  fix w :: world and as
  assume "answers w = map snd ((Call ''fstatat'' [I d, S name, I AT_SYMLINK_NOFOLLOW], stat_answer k) # es) @ as"
  then have a: "answers w = stat_answer k # map snd es @ as" by simp
  let ?w = "after ''fstatat'' [I d, S name, I AT_SYMLINK_NOFOLLOW] (stat_answer k) (map snd es @ as) w"
  have "bind (FileStatus_at d name False) m w = m \<lparr>st_mode = k\<rparr> ?w"
    using a by (simp add: FileStatus_at_def FileStatus_of_def stat_answer_def act_defs kernel_defs)
  moreover obtain w' where "m \<lparr>st_mode = k\<rparr> ?w = (Ret (), w')" "runs_to ?w es w'"
    using doesD[OF assms, of ?w as] by auto
  ultimately show "\<exists>w'. bind (FileStatus_at d name False) m w = (Ret (), w') \<and>
      runs_to w ((Call ''fstatat'' [I d, S name, I AT_SYMLINK_NOFOLLOW], stat_answer k) # es) w'"
    using a by (auto simp: runs_to_def)
qed

text \<open>The type of a mode, as the directory entry and as the status of the file tell it.\<close>

lemma reported_type_alt: "reported_type m = uint (FileType_of m) div 0x1000"
proof -
  have "(0xF000 :: int) = push_bit 12 (mask 4)" by (simp add: mask_eq_exp_minus_1 push_bit_eq_mult)
  then have "uint (FileType_of m) = uint m AND push_bit 12 (mask 4)"
    by (simp add: FileType_of_def ModeT_and_def uint_and)
  then have "uint (FileType_of m) div 0x1000 = drop_bit 12 (uint m AND push_bit 12 (mask 4))"
    by (simp add: drop_bit_eq_div)
  also have "\<dots> = take_bit 4 (drop_bit 12 (uint m))"
    by (simp add: drop_bit_and take_bit_eq_mask drop_bit_push_bit)
  also have "\<dots> = drop_bit 12 (take_bit 16 (uint m))"
    by (simp add: drop_bit_take_bit)
  also have "\<dots> = reported_type m"
    by (simp add: reported_type_def take_bit_eq_mod drop_bit_eq_div)
  finally show ?thesis by simp
qed

lemma dir_mode_types:
  assumes "is_dir_mode m"
  shows "FileType_is (FileStatus_type \<lparr>st_mode = m\<rparr>) FT_DIRECTORY" "reported_type m = 4"
  using assms by (simp_all add: is_dir_mode_def FileType_is_def FileStatus_type_def reported_type_alt)

lemma other_mode_types:
  assumes "is_other_mode m"
  shows "\<not> FileType_is (FileStatus_type \<lparr>st_mode = m\<rparr>) FT_DIRECTORY"
    "reported_type m \<noteq> 4" "reported_type m \<noteq> 0"
  using assms
  by (auto simp: is_other_mode_def FileType_is_def FileStatus_type_def reported_type_alt)

lemma remove_entry_does:
  assumes "wf_node n"
    and rec: "\<And>name known m d' h' ns. n = Sub name known m d' h' ns \<Longrightarrow> stream_does recurse h' (dir_calls d' h' ns)"
  shows "does (remove_entry recurse d (entry_dir (node_name n) (node_type n))) (node_rest d n)"
proof (cases n)
  case (Dots name)
  with assms(1) have "DirEntry_isDotEntry (entry_dir name 4)"
    by (subst entry_dir_dots) (auto simp: NUL_def)
  with Dots show ?thesis by (simp add: remove_entry_def does_ret)
next
  case (Leaf name known m)
  with assms(1) have "NUL \<notin> set name" "\<not> DirEntry_isDotEntry (entry_dir name t)" for t
    by (auto simp: entry_dir_dots)
  moreover have "de_type (entry_dir name t) = t" for t by (simp add: entry_dir_def)
  moreover have "is_other_mode m" using Leaf assms(1) by simp
  note other_mode_types[OF this]
  ultimately show ?thesis
    using Leaf remove_file_case_does[of d name]
    by (cases known) (auto simp: remove_entry_def entry_dir_name type_seen_def stat_calls_def Let_def
        intro: status_does)
next
  case (Sub name known m d' h' ns)
  with assms(1) have n: "NUL \<notin> set name" "\<not> DirEntry_isDotEntry (entry_dir name t)" for t
    by (auto simp: entry_dir_dots)
  have t: "de_type (entry_dir name t) = t" for t by (simp add: entry_dir_def)
  from Sub assms(1) have "is_dir_mode m" by simp
  note dir = dir_mode_types[OF this]
  from Sub assms(1) have "0 \<le> d'" "h' \<noteq> 0" by auto
  note remove_dir_case_does[OF rec[OF Sub] this, of d name]
  with Sub n t dir show ?thesis
    by (cases known) (auto simp: remove_entry_def entry_dir_name type_seen_def stat_calls_def Let_def
        intro: status_does)
qed

subsection \<open>The loop and the recursion\<close>

lemma nextEntry_some:
  assumes "answers w = entry_answer name t # as" "h \<noteq> 0"
  shows "\<exists>w'. DirStream_nextEntry (\<lparr>m_stream = h\<rparr>, w) = (Ret (Some (entry_dir name t)), (\<lparr>m_stream = h\<rparr>, w')) \<and>
    runs_to w [(Call ''readdir'' [I h], entry_answer name t)] w' \<and> answers w' = as"
proof -
  have "rv (entry_answer name t) = 1" by (simp add: entry_answer_def)
  with assms show ?thesis
    by (simp add: DirStream_nextEntry_def requireOpenStream_def DirStream_isOpen_def runs_to_def
        entry_of_answer act_defs kernel_defs)
qed

lemma nextEntry_none:
  assumes "answers w = ok 0 # as" "h \<noteq> 0"
  shows "\<exists>w'. DirStream_nextEntry (\<lparr>m_stream = h\<rparr>, w) = (Ret None, (\<lparr>m_stream = h\<rparr>, w')) \<and>
    runs_to w [(Call ''readdir'' [I h], ok 0)] w' \<and> answers w' = as"
  using assms
  by (simp add: DirStream_nextEntry_def requireOpenStream_def DirStream_isOpen_def runs_to_def
      act_defs kernel_defs)

abbreviation entries_loop :: "(DirEntry \<Rightarrow> (world, unit) act) \<Rightarrow> (DirStream \<times> world, unit) act" where
  "entries_loop visit \<equiv> loop (\<lambda>(s, w). length (answers w)) (bind DirStream_nextEntry (\<lambda>e. case e of
          None \<Rightarrow> ret (Some ())
        | Some e \<Rightarrow> andthen (on_world (visit e)) (ret None)))"

lemma entries_loop_does:
  assumes "\<And>n. n \<in> set ns \<Longrightarrow> does (visit (entry_dir (node_name n) (node_type n))) (node_rest d n)" "h \<noteq> 0"
  shows "stream_does (entries_loop visit) h (concat (map (node_calls d h) ns) @ [(Call ''readdir'' [I h], ok 0)])"
  using assms(1)
proof (induction ns)
  case Nil
  show ?case
    unfolding stream_does_def
  proof (intro allI impI)
    fix w :: world and as
    assume "answers w = map snd (concat (map (node_calls d h) []) @ [(Call ''readdir'' [I h], ok 0)]) @ as"
    then have "answers w = ok 0 # as" by simp
    from nextEntry_none[OF this assms(2)] obtain w' where
      "DirStream_nextEntry (\<lparr>m_stream = h\<rparr>, w) = (Ret None, (\<lparr>m_stream = h\<rparr>, w'))"
      "runs_to w [(Call ''readdir'' [I h], ok 0)] w'" "answers w' = as" by blast
    then show "\<exists>w'. entries_loop visit (\<lparr>m_stream = h\<rparr>, w) = (Ret (), (\<lparr>m_stream = h\<rparr>, w')) \<and>
        runs_to w (concat (map (node_calls d h) []) @ [(Call ''readdir'' [I h], ok 0)]) w' \<and> answers w' = as"
      by (subst loop.simps) (simp add: bind_def ret_def)
  qed
next
  case (Cons n ns)
  let ?rest = "concat (map (node_calls d h) ns) @ [(Call ''readdir'' [I h], ok 0)]"
  have ih: "stream_does (entries_loop visit) h ?rest" using Cons by simp
  have vis: "does (visit (entry_dir (node_name n) (node_type n))) (node_rest d n)" using Cons by simp
  show ?case
    unfolding stream_does_def
  proof (intro allI impI)
    fix w :: world and as
    assume "answers w = map snd (concat (map (node_calls d h) (n # ns)) @ [(Call ''readdir'' [I h], ok 0)]) @ as"
    then have a: "answers w = entry_answer (node_name n) (node_type n) #
        (map snd (node_rest d n) @ map snd ?rest @ as)"
      by (simp add: node_calls_split)
    from nextEntry_some[OF a assms(2)] obtain w1 where w1:
      "DirStream_nextEntry (\<lparr>m_stream = h\<rparr>, w) =
         (Ret (Some (entry_dir (node_name n) (node_type n))), (\<lparr>m_stream = h\<rparr>, w1))"
      "runs_to w [(Call ''readdir'' [I h], entry_answer (node_name n) (node_type n))] w1"
      "answers w1 = map snd (node_rest d n) @ map snd ?rest @ as" by blast
    from doesD[OF vis w1(3)] obtain w2 where w2:
      "visit (entry_dir (node_name n) (node_type n)) w1 = (Ret (), w2)" "runs_to w1 (node_rest d n) w2"
      "answers w2 = map snd ?rest @ as" .
    from stream_doesD[OF ih w2(3)] obtain w3 where w3:
      "entries_loop visit (\<lparr>m_stream = h\<rparr>, w2) = (Ret (), (\<lparr>m_stream = h\<rparr>, w3))"
      "runs_to w2 ?rest w3" "answers w3 = as" .
    have "length (answers w2) < length (answers w)"
      using a w2(3) by simp
    with w1(1) w2(1) have "entries_loop visit (\<lparr>m_stream = h\<rparr>, w) = entries_loop visit (\<lparr>m_stream = h\<rparr>, w2)"
      by (subst loop.simps) (simp add: bind_def ret_def andthen_def on_world_def)
    with w3 runs_to_trans[OF w1(2) runs_to_trans[OF w2(2) w3(2)]]
    show "\<exists>w'. entries_loop visit (\<lparr>m_stream = h\<rparr>, w) = (Ret (), (\<lparr>m_stream = h\<rparr>, w')) \<and>
        runs_to w (concat (map (node_calls d h) (n # ns)) @ [(Call ''readdir'' [I h], ok 0)]) w' \<and>
        answers w' = as"
      by (auto simp: node_calls_split)
  qed
qed

lemma remove_tree_stream_does:
  assumes "tree_depth ns < depth" "\<forall>n \<in> set ns. wf_node n" "0 \<le> d" "h \<noteq> 0"
  shows "stream_does (remove_tree_stream depth) h (dir_calls d h ns)"
  using assms
proof (induction depth arbitrary: ns d h)
  case (Suc depth)
  have vis: "does (remove_entry (remove_tree_stream depth) d (entry_dir (node_name n) (node_type n))) (node_rest d n)"
    if "n \<in> set ns" for n
  proof (rule remove_entry_does)
    show "wf_node n" using Suc.prems(2) that by blast
    fix name known m d' h' ms
    assume n: "n = Sub name known m d' h' ms"
    have "tree_depth ms < depth"
      using Suc.prems(1) that n by (fastforce simp: tree_depth_def less_Suc_eq_le fold_max_le)
    moreover have "\<forall>m \<in> set ms. wf_node m" "0 \<le> d'" "h' \<noteq> 0"
      using Suc.prems(2) that n by fastforce+
    ultimately show "stream_does (remove_tree_stream depth) h' (dir_calls d' h' ms)"
      by (intro Suc.IH)
  qed
  show ?case
    unfolding stream_does_def
  proof (intro allI impI)
    fix w :: world and as
    let ?rest = "concat (map (node_calls d h) ns) @ [(Call ''readdir'' [I h], ok 0)]"
    assume "answers w = map snd (dir_calls d h ns) @ as"
    then have a: "answers w = ok d # ok 0 # (map snd ?rest @ as)"
      by (simp add: dir_calls_def start_calls_def)
    let ?w1 = "after ''dirfd'' [I h] (ok d) (ok 0 # (map snd ?rest @ as)) w"
    let ?w2 = "after ''rewinddir'' [I h] (ok 0) (map snd ?rest @ as) ?w1"
    obtain w3 where w3: "entries_loop (remove_entry (remove_tree_stream depth) d) (\<lparr>m_stream = h\<rparr>, ?w2) =
        (Ret (), (\<lparr>m_stream = h\<rparr>, w3))" "runs_to ?w2 ?rest w3" "answers w3 = as"
      using stream_doesD[OF entries_loop_does[OF vis Suc.prems(4)], where w = ?w2 and as = as] by auto
    have fd: "DirStream_fd (\<lparr>m_stream = h\<rparr>, w) = (Ret (FD d), (\<lparr>m_stream = h\<rparr>, ?w1))"
      using a Suc.prems(3,4)
      by (simp add: DirStream_fd_def requireOpenStream_def DirStream_isOpen_def FD_valid_def FD_def
          Let_def act_defs kernel_defs)
    have rw: "DirStream_rewind (\<lparr>m_stream = h\<rparr>, ?w1) = (Ret (), (\<lparr>m_stream = h\<rparr>, ?w2))"
      by (simp add: DirStream_rewind_def act_defs kernel_defs)
    have is_open: "this DirStream_isOpen (\<lparr>m_stream = h\<rparr>, ?w1) = (Ret True, (\<lparr>m_stream = h\<rparr>, ?w1))"
      using Suc.prems(4) by (simp add: DirStream_isOpen_def act_defs)
    have "remove_tree_stream (Suc depth) (\<lparr>m_stream = h\<rparr>, w) =
        for_entries (\<lambda>e. on_world (remove_entry (remove_tree_stream depth) d e)) (\<lparr>m_stream = h\<rparr>, ?w1)"
      by (simp only: remove_tree_stream.simps bind_Ret[of DirStream_fd, OF fd]) (simp add: FD_def)
    also have "\<dots> = entries_loop (remove_entry (remove_tree_stream depth) d) (\<lparr>m_stream = h\<rparr>, ?w2)"
      by (simp only: for_entries_def bind_Ret[of "this DirStream_isOpen", OF is_open] andthen_Ret[of DirStream_rewind, OF rw] not_True_eq_False if_False)
    finally have "remove_tree_stream (Suc depth) (\<lparr>m_stream = h\<rparr>, w) =
        entries_loop (remove_entry (remove_tree_stream depth) d) (\<lparr>m_stream = h\<rparr>, ?w2)" .
    with w3 a show "\<exists>w'. remove_tree_stream (Suc depth) (\<lparr>m_stream = h\<rparr>, w) =
        (Ret (), (\<lparr>m_stream = h\<rparr>, w')) \<and> runs_to w (dir_calls d h ns) w' \<and> answers w' = as"
      by (auto simp: dir_calls_def start_calls_def runs_to_def)
  qed
qed simp

subsection \<open>The whole operation\<close>

definition tree_calls :: "string \<Rightarrow> int \<Rightarrow> int \<Rightarrow> node list \<Rightarrow> (syscall \<times> answer) list" where
  "tree_calls path d h ns =
     [(Call ''open'' [S path, I (dir_open_flags False)], ok d), (Call ''fdopendir'' [I d], ok h)]
     @ dir_calls d h ns @ [(Call ''rmdir'' [S path], ok 0), (Call ''closedir'' [I h], ok 0)]"

text \<open>The removals among the calls, and the order in which a tree has to be taken down.\<close>

definition removals :: "(syscall \<times> answer) list \<Rightarrow> syscall list" where
  "removals es = filter (\<lambda>c. case c of Call f _ \<Rightarrow> f = ''unlinkat'' \<or> f = ''rmdir'') (map fst es)"

fun postorder :: "int \<Rightarrow> node \<Rightarrow> syscall list" where
  "postorder d (Dots name) = []"
| "postorder d (Leaf name known m) = [Call ''unlinkat'' [I d, S name, I 0]]"
| "postorder d (Sub name known m d' h' ns) =
     concat (map (postorder d') ns) @ [Call ''unlinkat'' [I d, S name, I AT_REMOVEDIR]]"

lemma removals_simps [simp]:
  "removals [] = []"
  "removals ((Call f args, a) # es) =
     (if f = ''unlinkat'' \<or> f = ''rmdir'' then [Call f args] else []) @ removals es"
  "removals (es @ fs) = removals es @ removals fs"
  by (simp_all add: removals_def)

lemma removals_node: "removals (node_calls d h n) = postorder d n"
proof (induction d h n rule: node_calls.induct)
  case (3 d h name known m d' h' ns)
  have "removals (concat (map (node_calls d' h') ns)) = concat (map (postorder d') ns)"
    using "3.IH" by (induction ns) auto
  then show ?case
    by (simp add: stat_calls_def open_sub_def start_calls_def)
qed (simp_all add: stat_calls_def)

lemma removals_dir: "removals (dir_calls d h ns) = concat (map (postorder d) ns)"
proof -
  have "removals (concat (map (node_calls d h) ns)) = concat (map (postorder d) ns)"
    by (induction ns) (simp_all add: removals_node)
  then show ?thesis by (simp add: dir_calls_def start_calls_def)
qed

text \<open>Resources: the walk opens descriptors and streams the process does not hold yet.\<close>

fun fresh_node :: "resource set \<Rightarrow> node \<Rightarrow> bool" where
  "fresh_node R (Sub name known m d' h' ns) \<longleftrightarrow> Fd d' \<notin> R \<and> DirP h' \<notin> R \<and> 0 \<le> d' \<and> h' \<noteq> 0 \<and>
     (\<forall>n \<in> set ns. fresh_node (insert (DirP h') R) n)"
| "fresh_node R _ \<longleftrightarrow> True"

definition run_effect :: "resource set \<Rightarrow> (syscall \<times> answer) list \<Rightarrow> resource set" where
  "run_effect R es = foldl (\<lambda>R e. effect e R) R es"

lemma run_effect_simps [simp]:
  "run_effect R [] = R" "run_effect R (e # es) = run_effect (effect e R) es"
  "run_effect R (es @ fs) = run_effect (run_effect R es) fs"
  by (simp_all add: run_effect_def)

lemma live_append: "live (tr @ es) = run_effect (live tr) es"
  by (simp add: live_def run_effect_def)

lemma run_effect_concat: "(\<And>n. n \<in> set ns \<Longrightarrow> run_effect R (f n) = R) \<Longrightarrow> run_effect R (concat (map f ns)) = R"
  by (induction ns) auto

lemma run_effect_node: "fresh_node R n \<Longrightarrow> run_effect R (node_calls d h n) = R"
proof (induction d h n arbitrary: R rule: node_calls.induct)
  case (3 d h name known m d' h' ns)
  let ?R = "insert (DirP h') R"
  have "run_effect ?R (concat (map (node_calls d' h') ns)) = ?R"
    using 3 by (intro run_effect_concat) simp
  then show ?case
    using 3(2) by (cases known) (auto simp: opens_fd_def stat_calls_def open_sub_def start_calls_def)
qed (auto simp: opens_fd_def stat_calls_def)

lemma run_effect_tree:
  assumes "Fd d \<notin> R" "DirP h \<notin> R" "0 \<le> d" "h \<noteq> 0" "\<forall>n \<in> set ns. fresh_node (insert (DirP h) R) n"
  shows "run_effect R (tree_calls path d h ns) = R"
proof -
  have "run_effect (insert (DirP h) R) (concat (map (node_calls d h) ns)) = insert (DirP h) R"
    using assms(5) by (intro run_effect_concat run_effect_node) simp
  then show ?thesis
    using assms by (simp add: tree_calls_def dir_calls_def start_calls_def opens_fd_def)
qed

text \<open>
  C2: On a file system where every call succeeds, \<^verbatim>\<open>remove_tree()\<close> returns after removing
  every entry of the tree and the root, each directory after everything in it and never a
  dot entry.  It opens the subdirectories and unlinks every other entry without opening it,
  whether it is a regular file, a symbolic link, a FIFO, a socket or a device and whatever its
  permissions are; it asks for the type of an entry only where the directory does not report
  it, and it leaves no descriptor or stream open.
\<close>

theorem remove_tree_complete:
  assumes "tree_depth ns < depth" "\<forall>n \<in> set ns. wf_node n" "0 \<le> d" "h \<noteq> 0"
    and "answers w = map snd (tree_calls path d h ns) @ as"
    and "Fd d \<notin> live_in w" "DirP h \<notin> live_in w"
      "\<forall>n \<in> set ns. fresh_node (insert (DirP h) (live_in w)) n"
  shows "\<exists>w'. remove_tree depth path w = (Ret (), w') \<and>
    trace w' = trace w @ tree_calls path d h ns \<and> answers w' = as \<and>
    removals (tree_calls path d h ns) = concat (map (postorder d) ns) @ [Call ''rmdir'' [S path]] \<and>
    live_in w' = live_in w"
proof -
  let ?rest = "map snd (dir_calls d h ns) @ ok 0 # ok 0 # as"
  have a: "answers w = ok d # ok h # ?rest"
    using assms(5) by (simp add: tree_calls_def)
  let ?w1 = "after ''open'' [S path, I (dir_open_flags False)] (ok d) (ok h # ?rest) w"
  let ?w2 = "after ''fdopendir'' [I d] (ok h) ?rest ?w1"
  have op: "with_local DirStream_default (DirStream_open path False) w = (Ret ((), \<lparr>m_stream = h\<rparr>), ?w2)"
    using a assms(3,4)
    by (simp add: DirStream_open_def DirStream_close_def DirStream_default_def DirStream_open_num_def
        FD_valid_def FD_def Let_def act_defs kernel_defs)
  obtain w3 where w3: "remove_tree_stream depth (\<lparr>m_stream = h\<rparr>, ?w2) = (Ret (), (\<lparr>m_stream = h\<rparr>, w3))"
    "runs_to ?w2 (dir_calls d h ns) w3" "answers w3 = ok 0 # ok 0 # as"
    using stream_doesD[OF remove_tree_stream_does[OF assms(1-4)], where w = ?w2 and as = "ok 0 # ok 0 # as"]
    by auto
  let ?w4 = "after ''rmdir'' [S path] (ok 0) (ok 0 # as) w3"
  have "remove_dir path w3 = (Ret (), ?w4)"
    using w3(3) by (simp add: remove_dir_def act_defs kernel_defs)
  moreover obtain w5 where w5: "DirStream_destroy (\<lparr>m_stream = h\<rparr>, ?w4) = (Ret (), (\<lparr>m_stream = 0\<rparr>, w5))"
    "runs_to ?w4 [(Call ''closedir'' [I h], ok 0)] w5" "answers w5 = as"
    using stream_close_answered[of ?w4 as h] assms(4) by auto
  ultimately have "remove_tree depth path w = (Ret (), w5)"
    using op w3(1) by (simp add: remove_tree_def bind_def scoped_def andthen_def on_world_def)
  moreover have tr: "trace w5 = trace w @ tree_calls path d h ns"
    using w3(2) w5(2) by (simp add: runs_to_def tree_calls_def)
  moreover have "live_in w5 = live_in w"
    unfolding tr live_append using assms by (intro run_effect_tree)
  moreover have "removals (tree_calls path d h ns) = concat (map (postorder d) ns) @ [Call ''rmdir'' [S path]]"
    by (simp add: tree_calls_def removals_dir)
  ultimately show ?thesis using w5(3) by blast
qed

definition sample_tree :: "node list" where
  "sample_tree = [Dots ''.'', Sub ''sub'' False 0x41ED 4 200 [Leaf ''f'' True 0x81A4, Leaf ''p'' True 0x11A4],
     Leaf ''link'' False 0xA1FF, Leaf ''sock'' True 0xC1ED]"

theorem remove_tree_complete_witness:
  "\<exists>w'. remove_tree 2 ''/t'' (world_of (map snd (tree_calls ''/t'' 3 100 sample_tree))) = (Ret (), w') \<and>
     live_in w' = {}"
  using remove_tree_complete[of sample_tree 2 3 100
      "world_of (map snd (tree_calls ''/t'' 3 100 sample_tree))" "''/t''" "[]"]
  by (auto simp: sample_tree_def tree_depth_def world_of_def NUL_def is_dir_mode_def is_other_mode_def
      FileType_of_def ModeT_and_def)

definition failed_open_world :: "int \<Rightarrow> world" where
  "failed_open_world n = world_of [ok n, null_failed Errno_NO_MEMORY, ok 0]"

text \<open>
  A directory stream that replaces an open one without closing it, and one whose
  \<^verbatim>\<open>fdopendir()\<close> fails, lose a resource: \<^verbatim>\<open>open(DirFD, subpath)\<close> leaves the old stream live,
  and after a failing \<^verbatim>\<open>fdopendir()\<close> the descriptor it had opened; \<^verbatim>\<open>open(DirFD)\<close> leaves its
  duplicate.  \<^verbatim>\<open>open(path)\<close> closes in both situations.
\<close>

theorem stream_open_leaks:
  "(let (r, (s, w)) = DirStream_open_at 3 ''d'' (DirStream_default, failed_open_world 5)
    in r \<in> range Throw \<and> live_in w = {Fd 5} \<and> \<not> DirStream_isOpen s) \<and>
   (let (r, (s, w)) = DirStream_open_fd (FD 3) (DirStream_default, failed_open_world 5)
    in r \<in> range Throw \<and> live_in w = {Fd 5} \<and> \<not> DirStream_isOpen s) \<and>
   (let (r, (s, w)) = DirStream_open ''d'' False (DirStream_default, failed_open_world 5)
    in r \<in> range Throw \<and> live_in w = {} \<and> \<not> DirStream_isOpen s) \<and>
   (let (r, (s, w)) = DirStream_open_at 3 ''d'' (\<lparr>m_stream = 100\<rparr>,
        (world_of [ok 5, ok 200])\<lparr>trace := [(Call ''fdopendir'' [I 4], ok 100)]\<rparr>)
    in r = Ret () \<and> live_in w = {DirP 100, DirP 200} \<and> m_stream s = 200) \<and>
   (let (r, (s, w)) = DirStream_open ''d'' False (\<lparr>m_stream = 100\<rparr>,
        (world_of [ok 0, ok 5, ok 200])\<lparr>trace := [(Call ''fdopendir'' [I 4], ok 100)]\<rparr>)
    in r = Ret () \<and> live_in w = {DirP 200} \<and> m_stream s = 200)"
  by (auto simp: DirStream_open_at_def DirStream_open_fd_def DirStream_open_def DirStream_close_def
      FD_duplicate_def FD_fcntl_val_def FD_close_def FD_valid_def FD_def FD_reset_def dup_cmds_def
      DirStream_open_num_def DirStream_default_def DirStream_isOpen_def failed_open_world_def
      fs_open_at_def needs_fmode_def BitMask_test_def BitMask_of_list_def fmode_arg_def
      world_of_def act_defs kernel_defs live_def opens_fd_def Let_def)

end
