(* ===== verification/StreamIO.thy ===== *)
theory StreamIO
  imports FileDescriptor
begin

text \<open>
  Reading and writing: \<^verbatim>\<open>StreamIO\<close> (\<^verbatim>\<open>include/io/StreamIO.hxx\<close>, \<^verbatim>\<open>src/io/StreamIO.cxx\<close>)
  and the scatter/gather vectors of \<^verbatim>\<open>include/io/iovector.hxx\<close> and
  \<^verbatim>\<open>src/io/iovector.cxx\<close>.  A transfer that stores into a buffer yields the bytes, one that
  takes from a buffer has them as an argument of the call; lengths are \<^verbatim>\<open>size_t\<close> values.
\<close>

subsection \<open>Vectors of memory regions\<close>

text \<open>A region: its address and its length.\<close>

record region =
  iov_base :: nat
  iov_len :: nat

definition region_finished :: "region \<Rightarrow> bool" where
  "region_finished r \<longleftrightarrow> iov_len r = 0"

definition region_update :: "nat \<Rightarrow> region \<Rightarrow> nat \<times> region" where
  "region_update processed_bytes r = (let to_reduce = min processed_bytes (iov_len r) in
     (to_reduce, r\<lparr>iov_base := iov_base r + to_reduce, iov_len := iov_len r - to_reduce\<rparr>))"

type_synonym iovector = "region list"

definition leftBytes :: "iovector \<Rightarrow> 64 word" where
  "leftBytes v = fold (\<lambda>r n. n + of_nat (iov_len r)) v 0"

text \<open>
  The loop of \<^verbatim>\<open>update()\<close> returns the vector, the bytes not accounted for and whether every
  entry is finished; it stops at the first entry that is not.
\<close>

fun update_entries :: "iovector \<Rightarrow> nat \<Rightarrow> iovector \<times> nat \<times> bool" where
  "update_entries [] n = ([], n, True)"
| "update_entries (r # v) n = (let (k, r') = region_update n r; n' = n - k in
     if \<not> region_finished r' then (r' # v, n', False)
     else (let (v', n'', finished) = update_entries v n' in (r' # v', n'', finished)))"

definition iovec_update :: "nat \<Rightarrow> (iovector \<times> 'w, bool) act" where
  "iovec_update processed_bytes = bind (this (\<lambda>v. v)) (\<lambda>v.
     let (v', n, vec_finished) = update_entries v processed_bytes in
     andthen (set_this (\<lambda>_. v'))
       (if n \<noteq> 0 then throw (RuntimeError ''inconsistency while updating IOVector'')
        else ret vec_finished))"

subsection \<open>Single transfers\<close>

definition handleIOError :: "string \<Rightarrow> (world, unit) act" where
  "handleIOError operation = bind get_errno (\<lambda>error. bind (gets auto_restart_syscalls) (\<lambda>restart.
     if restart \<and> error = errno_of Errno_INTERRUPTED then ret ()
     else if error = errno_of Errno_AGAIN \<or> error = errno_of Errno_WOULD_BLOCK
     then throw_WouldBlock operation
     else throw_ApiError operation))"

text \<open>
  The loop all transfers share: repeat the call until it does not fail or the error is thrown.
\<close>

definition io_loop :: "string \<Rightarrow> string \<Rightarrow> arg list \<Rightarrow> (world, answer) act" where
  "io_loop label f args = syscall_loop (bind (call f args) (\<lambda>a.
     if rv a < 0 then andthen (handleIOError label) (ret None) else ret (Some a)))"

definition stored :: "answer \<Rightarrow> string" where
  "stored a = take (nat (rv a)) (out a)"

text \<open>Reading yields the returned size and the bytes that were stored.\<close>

definition StreamIO_read :: "FileNum \<Rightarrow> 64 word \<Rightarrow> (world, nat \<times> string) act" where
  "StreamIO_read fd len = bind (io_loop ''read()'' ''read'' [I fd, I (uint len)]) (\<lambda>a. ret (nat (rv a), stored a))"

definition StreamIO_readAtPos :: "FileNum \<Rightarrow> 64 word \<Rightarrow> int \<Rightarrow> (world, nat \<times> string) act" where
  "StreamIO_readAtPos fd len offset =
     bind (io_loop ''pread64()'' ''pread64'' [I fd, I (uint len), I offset]) (\<lambda>a. ret (nat (rv a), stored a))"

definition StreamIO_write :: "FileNum \<Rightarrow> string \<Rightarrow> (world, nat) act" where
  "StreamIO_write fd buf = bind (io_loop ''write()'' ''write'' [I fd, S buf]) (\<lambda>a. ret (nat (rv a)))"

definition StreamIO_writeAtPos :: "FileNum \<Rightarrow> string \<Rightarrow> int \<Rightarrow> (world, nat) act" where
  "StreamIO_writeAtPos fd buf offset =
     bind (io_loop ''pwrite64()'' ''pwrite64'' [I fd, S buf, I offset]) (\<lambda>a. ret (nat (rv a)))"

definition iovec_arg :: "iovector \<Rightarrow> arg" where
  "iovec_arg v = L (map (\<lambda>r. L [I (int (iov_base r)), I (int (iov_len r))]) v)"

definition iovec_transfer :: "string \<Rightarrow> string \<Rightarrow> (iovector \<Rightarrow> arg list) \<Rightarrow> (iovector \<times> world, bool) act" where
  "iovec_transfer label f args = bind (this (\<lambda>v. v)) (\<lambda>v.
     bind (on_world (io_loop label f (args v))) (\<lambda>a. iovec_update (nat (rv a))))"

definition StreamIO_read_iovec :: "FileNum \<Rightarrow> (iovector \<times> world, bool) act" where
  "StreamIO_read_iovec fd = iovec_transfer ''readv()'' ''readv'' (\<lambda>v. [I fd, iovec_arg v])"

definition StreamIO_write_iovec :: "FileNum \<Rightarrow> (iovector \<times> world, bool) act" where
  "StreamIO_write_iovec fd = iovec_transfer ''writev()'' ''writev'' (\<lambda>v. [I fd, iovec_arg v])"

datatype ReadWriteFlag = RWF_DSYNC | RWF_HIGH_PRIO | RWF_SYNC | RWF_NOWAIT | RWF_APPEND
  | RWF_NOAPPEND | RWF_ATOMIC | RWF_DONTCACHE

primrec ReadWriteFlag_value :: "ReadWriteFlag \<Rightarrow> 32 word" where
  "ReadWriteFlag_value RWF_DSYNC = 0x2"
| "ReadWriteFlag_value RWF_HIGH_PRIO = 0x1"
| "ReadWriteFlag_value RWF_SYNC = 0x4"
| "ReadWriteFlag_value RWF_NOWAIT = 0x8"
| "ReadWriteFlag_value RWF_APPEND = 0x10"
| "ReadWriteFlag_value RWF_NOAPPEND = 0x20"
| "ReadWriteFlag_value RWF_ATOMIC = 0x40"
| "ReadWriteFlag_value RWF_DONTCACHE = 0x80"

definition StreamIO_readAtPos_iovec :: "FileNum \<Rightarrow> int \<Rightarrow> 32 mask \<Rightarrow> (iovector \<times> world, bool) act" where
  "StreamIO_readAtPos_iovec fd offset flags = iovec_transfer ''readv()'' ''preadv2''
     (\<lambda>v. [I fd, iovec_arg v, I offset, I (sint (BitMask_raw flags))])"

definition StreamIO_writeAtPos_iovec :: "FileNum \<Rightarrow> int \<Rightarrow> 32 mask \<Rightarrow> (iovector \<times> world, bool) act" where
  "StreamIO_writeAtPos_iovec fd offset flags = iovec_transfer ''pwritev2()'' ''pwritev2''
     (\<lambda>v. [I fd, iovec_arg v, I offset, I (sint (BitMask_raw flags))])"

datatype SeekType = SEEK_SET | SEEK_CUR | SEEK_END | SEEK_DATA | SEEK_HOLE

primrec SeekType_value :: "SeekType \<Rightarrow> int" where
  "SeekType_value SEEK_SET = 0"
| "SeekType_value SEEK_CUR = 1"
| "SeekType_value SEEK_END = 2"
| "SeekType_value SEEK_DATA = 3"
| "SeekType_value SEEK_HOLE = 4"

definition StreamIO_seek :: "FileNum \<Rightarrow> SeekType \<Rightarrow> int \<Rightarrow> (world, int) act" where
  "StreamIO_seek fd type off = bind (call ''lseek'' [I fd, I off, I (SeekType_value type)]) (\<lambda>a.
     if rv a = -1 then throw_ApiError ''lseek()'' else ret (rv a))"

subsection \<open>Complete transfers\<close>

text \<open>
  \<^verbatim>\<open>readAll()\<close>: the state is the part of the buffer that has been filled and the length that
  is left.  The subtraction is that of \<^verbatim>\<open>size_t\<close>.
\<close>

definition readAll_round :: "FileNum \<Rightarrow> ((string \<times> 64 word) \<times> world, unit option) act" where
  "readAll_round fd = bind (this snd) (\<lambda>len.
     if len = 0 then ret (Some ())
     else bind (on_world (StreamIO_read fd len)) (\<lambda>(res, bs).
       andthen (set_this (\<lambda>(buf, len). (buf @ bs, len - of_nat res)))
         (if res = 0 then throw (RuntimeError ''unexpected EOF'') else ret None)))"

definition readAll_loop :: "FileNum \<Rightarrow> ((string \<times> 64 word) \<times> world, unit) act" where
  "readAll_loop fd = loop (\<lambda>(s, w). length (answers w)) (readAll_round fd)"

definition StreamIO_readAll :: "FileNum \<Rightarrow> 64 word \<Rightarrow> (world, string) act" where
  "StreamIO_readAll fd len =
     bind (with_local ([], len) (readAll_loop fd)) (\<lambda>(_, (buf, _)). ret buf)"

text \<open>The variant for a string clears it when the transfer fails.\<close>

definition StreamIO_readAll_string :: "FileNum \<Rightarrow> 64 word \<Rightarrow> (string \<times> world, unit) act" where
  "StreamIO_readAll_string fd len = andthen (set_this (\<lambda>_. replicate (unat len) (CHR 0x00)))
     (catch (bind (on_world (StreamIO_readAll fd len)) (\<lambda>bs. set_this (\<lambda>_. bs)))
       (\<lambda>e. andthen (set_this (\<lambda>_. [])) (throw e)))"

definition writeAll_round :: "FileNum \<Rightarrow> (string \<times> world, unit option) act" where
  "writeAll_round fd = bind (this (\<lambda>buf. buf)) (\<lambda>buf.
     if buf = [] then ret (Some ())
     else bind (on_world (StreamIO_write fd buf)) (\<lambda>n.
       andthen (set_this (drop n)) (ret None)))"

definition StreamIO_writeAll :: "FileNum \<Rightarrow> string \<Rightarrow> (world, unit) act" where
  "StreamIO_writeAll fd buf = bind (with_local buf
     (loop (\<lambda>(s, w). length (answers w)) (writeAll_round fd))) (\<lambda>(_, _). ret ())"

definition iovec_all :: "('s \<times> world, bool) act \<Rightarrow> ('s \<times> world, unit) act" where
  "iovec_all transfer = loop (\<lambda>(s, w). length (answers w))
     (bind transfer (\<lambda>finished. ret (if finished then Some () else None)))"

definition StreamIO_readAll_iovec :: "FileNum \<Rightarrow> (iovector \<times> world, unit) act" where
  "StreamIO_readAll_iovec fd = iovec_all (StreamIO_read_iovec fd)"

definition StreamIO_writeAll_iovec :: "FileNum \<Rightarrow> (iovector \<times> world, unit) act" where
  "StreamIO_writeAll_iovec fd = iovec_all (StreamIO_write_iovec fd)"

subsection \<open>Updating a vector\<close>

text \<open>The bytes a vector still stands for: their addresses, in order.\<close>

definition region_bytes :: "region \<Rightarrow> nat list" where
  "region_bytes r = [iov_base r..<iov_base r + iov_len r]"

definition vec_bytes :: "iovector \<Rightarrow> nat list" where
  "vec_bytes v = concat (map region_bytes v)"

lemma vec_bytes_simps [simp]: "vec_bytes [] = []" "vec_bytes (r # v) = region_bytes r @ vec_bytes v"
  by (simp_all add: vec_bytes_def)

lemma length_region_bytes [simp]: "length (region_bytes r) = iov_len r"
  by (simp add: region_bytes_def)

lemma region_update_bytes:
  "region_update n r = (k, r') \<Longrightarrow> k = min n (iov_len r) \<and> region_bytes r' = drop n (region_bytes r) \<and>
    iov_len r' = iov_len r - n"
  by (auto simp: region_update_def region_bytes_def Let_def min_def)

lemma update_entries_bytes:
  "update_entries v n = (v', m, fin) \<Longrightarrow> vec_bytes v' = drop n (vec_bytes v) \<and> length v' = length v \<and>
    m = n - length (vec_bytes v) \<and> (n \<le> length (vec_bytes v) \<longrightarrow> fin = (vec_bytes v' = []))"
proof (induction v n arbitrary: v' m fin rule: update_entries.induct)
  case (2 r v n)
  obtain k r' where u: "region_update n r = (k, r')" by (cases "region_update n r")
  note ub = region_update_bytes[OF u]
  show ?case
  proof (cases "region_finished r'")
    case False
    then have "n < iov_len r" using ub by (auto simp: region_finished_def)
    moreover have "region_bytes r' \<noteq> []"
      using False by (metis region_finished_def length_region_bytes list.size(3))
    ultimately show ?thesis
      using 2(2) u ub False by auto
  next
    case True
    then have n: "iov_len r \<le> n" using ub by (simp add: region_finished_def)
    have "region_bytes r' = []"
      using True by (simp add: region_finished_def region_bytes_def)
    moreover obtain v'' m' fin' where e: "update_entries v (n - k) = (v'', m', fin')"
      by (metis prod_cases3)
    moreover note 2(1)[OF u[symmetric] refl refl _ e]
    ultimately show ?thesis
      using 2(2) u ub True n by (auto simp: Let_def)
  qed
qed auto

text \<open>
  Updating a scatter/gather vector after \<open>n\<close> processed bytes leaves exactly the bytes
  behind the first \<open>n\<close> of the sequence it stood for, with every entry kept in place, and
  tells whether none are left; it throws exactly when more bytes are reported than the
  vector had.
\<close>

theorem iovec_update_drops:
  "\<exists>v'. vec_bytes v' = drop n (vec_bytes v) \<and> length v' = length v \<and>
     iovec_update n (v, w) =
       (if n \<le> length (vec_bytes v) then Ret (vec_bytes v' = [])
        else Throw (RuntimeError ''inconsistency while updating IOVector''), (v', w))"
proof -
  obtain v' m fin where u: "update_entries v n = (v', m, fin)" by (metis prod_cases3)
  from update_entries_bytes[OF u] u show ?thesis
    by (intro exI[of _ v']) (auto simp: iovec_update_def act_defs Let_def)
qed

subsection \<open>What the kernel may answer to a transfer\<close>

text \<open>
  A script of events: the next chunk is transferred, or a signal interrupts the call.
\<close>

datatype event = Chunk string | Intr

fun event_answer :: "event \<Rightarrow> answer" where
  "event_answer (Chunk c) = ok_bytes c"
| "event_answer Intr = failed Errno_INTERRUPTED"

fun event_data :: "event \<Rightarrow> string" where
  "event_data (Chunk c) = c"
| "event_data Intr = []"

definition events_data :: "event list \<Rightarrow> string" where
  "events_data evs = concat (map event_data evs)"

lemma events_data_simps [simp]:
  "events_data [] = []" "events_data (e # evs) = event_data e @ events_data evs"
  by (simp_all add: events_data_def)

text \<open>The world after \<open>n\<close> interruptions of the same call.\<close>

lemma io_loop_interrupted:
  assumes "answers w = event_answer Intr # as" "auto_restart_syscalls w"
  shows "\<exists>w'. io_loop label f args w = io_loop label f args w' \<and>
    runs_to w [(Call f args, event_answer Intr)] w' \<and> answers w' = as"
proof -
  let ?w = "w\<lparr>answers := as, trace := trace w @ [(Call f args, event_answer Intr)],
    errno_var := errno_of Errno_INTERRUPTED\<rparr>"
  have "io_loop label f args w = io_loop label f args ?w"
    using assms by (simp add: io_loop_def handleIOError_def loop.simps[of _ _ w] act_defs kernel_defs)
  moreover have "runs_to w [(Call f args, event_answer Intr)] ?w" "answers ?w = as"
    using assms by (simp_all add: runs_to_def)
  ultimately show ?thesis by blast
qed

lemma io_loop_answered:
  assumes "answers w = a # as" "0 \<le> rv a"
  shows "\<exists>w'. io_loop label f args w = (Ret a, w') \<and> runs_to w [(Call f args, a)] w' \<and> answers w' = as"
  using assms by (simp add: io_loop_def loop.simps[of _ _ w] runs_to_def act_defs kernel_defs)

lemma io_loop_intrs:
  assumes "answers w = map event_answer (replicate k Intr) @ a # as" "0 \<le> rv a" "auto_restart_syscalls w"
  shows "\<exists>w'. io_loop label f args w = (Ret a, w') \<and>
    runs_to w (replicate k (Call f args, event_answer Intr) @ [(Call f args, a)]) w' \<and> answers w' = as"
  using assms
proof (induction k arbitrary: w)
  case 0
  then show ?case using io_loop_answered by simp
next
  case (Suc k)
  then have "answers w = event_answer Intr # (map event_answer (replicate k Intr) @ a # as)" by simp
  from io_loop_interrupted[OF this Suc.prems(3)] obtain v where v:
    "io_loop label f args w = io_loop label f args v"
    "runs_to w [(Call f args, event_answer Intr)] v"
    "answers v = map event_answer (replicate k Intr) @ a # as" by blast
  have "auto_restart_syscalls v" using v(2) Suc.prems(3) by (simp add: runs_to_def)
  from Suc.IH[OF v(3) Suc.prems(2) this] v show ?case
    using runs_to_trans by fastforce
qed

text \<open>Any other failure leaves the loop at once.\<close>

lemma io_loop_failed:
  assumes "answers w = a # as" "rv a < 0"
    "\<not> (auto_restart_syscalls w \<and> errno_after (errno_var w) a = errno_of Errno_INTERRUPTED)"
  shows "fst (io_loop label f args w) = Throw
    (if errno_after (errno_var w) a = errno_of Errno_AGAIN
     then WouldBlock label (errno_after (errno_var w) a)
     else ApiError label (errno_after (errno_var w) a))"
  using assms by (auto simp: io_loop_def loop.simps[of _ _ w] handleIOError_def act_defs kernel_defs)

text \<open>
  Every transfer repeats an interrupted call, with the same arguments, exactly when
  automatic restarts are on; a non-blocking descriptor without data is reported as
  \<^verbatim>\<open>WouldBlock\<close>, and any other failure as an \<^verbatim>\<open>ApiError\<close> with its errno.
\<close>

theorem io_errors:
  "(\<exists>w'. StreamIO_read fd n (w\<lparr>answers := replicate k (failed Errno_INTERRUPTED) @ [ok_bytes bs],
        auto_restart_syscalls := True\<rparr>) = (Ret (length bs, bs), w') \<and>
      trace w' = trace w @ map (Pair (Call ''read'' [I fd, I (uint n)]))
        (replicate k (failed Errno_INTERRUPTED) @ [ok_bytes bs])) \<and>
   fst (StreamIO_write fd bs (w\<lparr>answers := [failed Errno_INTERRUPTED], auto_restart_syscalls := False\<rparr>)) =
     Throw (ApiError ''write()'' (errno_of Errno_INTERRUPTED)) \<and>
   fst (StreamIO_write fd bs (w\<lparr>answers := [failed Errno_AGAIN]\<rparr>)) =
     Throw (WouldBlock ''write()'' (errno_of Errno_AGAIN)) \<and>
   fst (StreamIO_read fd n (w\<lparr>answers := [failed Errno_IO_ERROR]\<rparr>)) =
     Throw (ApiError ''read()'' (errno_of Errno_IO_ERROR))"
proof (intro conjI)
  let ?w = "w\<lparr>answers := replicate k (failed Errno_INTERRUPTED) @ [ok_bytes bs],
        auto_restart_syscalls := True\<rparr>"
  have "answers ?w = map event_answer (replicate k Intr) @ ok_bytes bs # []" by (simp add: map_replicate)
  from io_loop_intrs[OF this, of "''read()''" "''read''" "[I fd, I (uint n)]"] obtain w' where
    "io_loop ''read()'' ''read'' [I fd, I (uint n)] ?w = (Ret (ok_bytes bs), w')"
    "runs_to ?w (replicate k (Call ''read'' [I fd, I (uint n)], event_answer Intr) @
       [(Call ''read'' [I fd, I (uint n)], ok_bytes bs)]) w'" by auto
  then show "\<exists>w'. StreamIO_read fd n ?w = (Ret (length bs, bs), w') \<and>
      trace w' = trace w @ map (Pair (Call ''read'' [I fd, I (uint n)]))
        (replicate k (failed Errno_INTERRUPTED) @ [ok_bytes bs])"
    by (simp add: StreamIO_read_def bind_def ret_def stored_def runs_to_def map_replicate)
qed (simp_all add: StreamIO_read_def StreamIO_write_def io_loop_def loop.simps handleIOError_def act_defs kernel_defs)

subsection \<open>Reading and writing everything\<close>

lemma events_split:
  assumes "evs \<noteq> []" "last evs \<noteq> Intr"
  obtains k c rest where "evs = replicate k Intr @ Chunk c # rest"
  using assms
proof (induction evs arbitrary: thesis)
  case (Cons e evs)
  show ?case
  proof (cases e)
    case (Chunk c)
    then show ?thesis using Cons.prems(1)[of 0 c evs] by simp
  next
    case Intr
    with Cons.prems(3) have "evs \<noteq> []" "last evs \<noteq> Intr" by (auto split: if_splits)
    from Cons.IH[OF _ this] obtain k c rest where "evs = replicate k Intr @ Chunk c # rest" by blast
    with Intr show ?thesis using Cons.prems(1)[of "Suc k" c rest] by simp
  qed
qed simp

text \<open>The calls a complete read makes: each asks for what is missing.\<close>

fun read_calls :: "FileNum \<Rightarrow> 64 word \<Rightarrow> event list \<Rightarrow> (syscall \<times> answer) list" where
  "read_calls fd len [] = []"
| "read_calls fd len (e # evs) = (Call ''read'' [I fd, I (uint len)], event_answer e) #
     read_calls fd (len - of_nat (length (event_data e))) evs"

lemma read_calls_intrs: "read_calls fd len (replicate k Intr @ evs) =
    replicate k (Call ''read'' [I fd, I (uint len)], event_answer Intr) @ read_calls fd len evs"
  by (induction k) auto

lemma read_step:
  assumes "answers w = map event_answer (replicate k Intr @ Chunk c # rest) @ as" "auto_restart_syscalls w"
  shows "\<exists>w'. StreamIO_read fd len w = (Ret (length c, c), w') \<and>
    runs_to w (replicate k (Call ''read'' [I fd, I (uint len)], event_answer Intr) @
       [(Call ''read'' [I fd, I (uint len)], event_answer (Chunk c))]) w' \<and>
    answers w' = map event_answer rest @ as"
proof -
  have "answers w = map event_answer (replicate k Intr) @ ok_bytes c # (map event_answer rest @ as)"
    using assms(1) by simp
  from io_loop_intrs[OF this _ assms(2), of "''read()''" "''read''" "[I fd, I (uint len)]"] show ?thesis
    by (auto simp: StreamIO_read_def bind_def ret_def stored_def)
qed

lemma unat_minus_of_nat: "n \<le> unat (len :: 64 word) \<Longrightarrow> unat (len - of_nat n) = unat len - n"
proof -
  assume n: "n \<le> unat len"
  moreover have "unat len < 2 ^ LENGTH(64)" by (rule unsigned_less)
  ultimately have "unat (of_nat n :: 64 word) = n"
    by (simp add: unat_of_nat take_bit_nat_eq_self)
  with n show ?thesis by (simp add: unat_sub word_le_nat_alt)
qed

text \<open>
  After a number of pieces that fit into the buffer the loop is where it would be had it been
  started behind them.
\<close>

lemma readAll_loop_prefix:
  assumes "answers w = map event_answer evs @ as" "auto_restart_syscalls w"
    "length (events_data evs) \<le> unat len" "\<forall>c. Chunk c \<in> set evs \<longrightarrow> c \<noteq> []" "evs \<noteq> [] \<longrightarrow> last evs \<noteq> Intr"
  shows "\<exists>v. readAll_loop fd ((buf, len), w) =
      readAll_loop fd ((buf @ events_data evs, len - of_nat (length (events_data evs))), v) \<and>
    runs_to w (read_calls fd len evs) v \<and> answers v = as"
  using assms
proof (induction "length evs" arbitrary: evs w len buf rule: less_induct)
  case less
  show ?case
  proof (cases "evs = []")
    case True
    with less.prems(1) show ?thesis by auto
  next
    case False
    with less.prems(5) obtain k c rest where evs: "evs = replicate k Intr @ Chunk c # rest"
      using events_split by blast
    from less.prems(1) evs have "answers w = map event_answer (replicate k Intr @ Chunk c # rest) @ as"
      by simp
    from read_step[OF this less.prems(2), of fd len] obtain v where v:
      "StreamIO_read fd len w = (Ret (length c, c), v)"
      "runs_to w (replicate k (Call ''read'' [I fd, I (uint len)], event_answer Intr) @
         [(Call ''read'' [I fd, I (uint len)], event_answer (Chunk c))]) v"
      "answers v = map event_answer rest @ as" by blast
    have c: "c \<noteq> []" using less.prems(4) evs by simp
    have data: "events_data evs = c @ events_data rest"
      by (simp add: evs events_data_def)
    have len: "len \<noteq> 0" using less.prems(3) data c by auto
    let ?len = "len - of_nat (length c)"
    have 1: "length (events_data rest) \<le> unat ?len"
      using less.prems(3) data by (simp add: unat_minus_of_nat)
    have 2: "\<forall>c. Chunk c \<in> set rest \<longrightarrow> c \<noteq> []" "rest \<noteq> [] \<longrightarrow> last rest \<noteq> Intr"
      using less.prems(4,5) evs by auto
    have "auto_restart_syscalls v" using v(2) less.prems(2) by (simp add: runs_to_def)
    from less.hyps[OF _ v(3) this 1 2, of "buf @ c"] evs obtain w' where w':
      "readAll_loop fd ((buf @ c, ?len), v) =
        readAll_loop fd (((buf @ c) @ events_data rest, ?len - of_nat (length (events_data rest))), w')"
      "runs_to v (read_calls fd ?len rest) w'" "answers w' = as" by auto
    have "length (answers v) < length (answers w)"
      using v(3) less.prems(1) evs by simp
    moreover have "readAll_round fd ((buf, len), w) = (Ret None, ((buf @ c, ?len), v))"
      using v(1) len c by (simp add: readAll_round_def act_defs)
    ultimately have "readAll_loop fd ((buf, len), w) = readAll_loop fd ((buf @ c, ?len), v)"
      by (simp add: readAll_loop_def loop.simps[of _ _ "((buf, len), w)"])
    with w' runs_to_trans[OF v(2) w'(2)] data show ?thesis
      by (auto simp: evs read_calls_intrs algebra_simps)
  qed
qed

lemma readAll_loop_full: "readAll_loop fd ((buf, 0), v) = (Ret (), ((buf, 0), v))"
  by (simp add: readAll_loop_def loop.simps readAll_round_def act_defs)

lemma readAll_loop_eof:
  assumes "answers v = map event_answer (replicate k Intr @ [Chunk []]) @ as" "auto_restart_syscalls v" "len \<noteq> 0"
  shows "\<exists>v'. readAll_loop fd ((buf, len), v) = (Throw (RuntimeError ''unexpected EOF''), ((buf, len), v')) \<and>
    runs_to v (read_calls fd len (replicate k Intr @ [Chunk []])) v' \<and> answers v' = as"
proof -
  from read_step[OF assms(1,2), of fd len] obtain v' where
    "StreamIO_read fd len v = (Ret (0, []), v')"
    "runs_to v (read_calls fd len (replicate k Intr @ [Chunk []])) v'" "answers v' = as"
    by (auto simp: read_calls_intrs)
  with assms(3) show ?thesis
    by (simp add: readAll_loop_def loop.simps readAll_round_def act_defs)
qed

lemma read_calls_append: "read_calls fd len (es @ fs) =
    read_calls fd len es @ read_calls fd (len - of_nat (length (events_data es))) fs"
  by (induction es arbitrary: len) (simp_all add: events_data_def algebra_simps)

text \<open>
  C5: Reading everything returns exactly the requested number of bytes, in order, whatever the
  sizes of the pieces the kernel delivers and however often it is interrupted, with each
  call asking for the bytes that are still missing and none made once the buffer is full.
  When the stream ends before that, the call that returns zero is the last one, and the
  exception of an unexpected end of file is thrown.
\<close>

theorem readAll_exact:
  assumes "\<forall>c. Chunk c \<in> set evs \<longrightarrow> c \<noteq> []" "evs \<noteq> [] \<longrightarrow> last evs \<noteq> Intr" "auto_restart_syscalls w"
  shows "(length (events_data evs) = unat len \<and> answers w = map event_answer evs @ as \<longrightarrow>
       (\<exists>w'. StreamIO_readAll fd len w = (Ret (events_data evs), w') \<and>
         runs_to w (read_calls fd len evs) w' \<and> answers w' = as)) \<and>
    (length (events_data evs) < unat len \<and>
       answers w = map event_answer (evs @ replicate k Intr @ [Chunk []]) @ as \<longrightarrow>
       (\<exists>w'. StreamIO_readAll fd len w = (Throw (RuntimeError ''unexpected EOF''), w') \<and>
         runs_to w (read_calls fd len (evs @ replicate k Intr @ [Chunk []])) w' \<and> answers w' = as))"
proof (intro conjI impI; elim conjE)
  assume l: "length (events_data evs) = unat len" and a: "answers w = map event_answer evs @ as"
  from readAll_loop_prefix[OF a assms(3) _ assms(1,2), of len fd "[]"] l obtain v where
    "readAll_loop fd (([], len), w) = readAll_loop fd ((events_data evs, 0), v)"
    "runs_to w (read_calls fd len evs) v" "answers v = as"
    by auto
  then show "\<exists>w'. StreamIO_readAll fd len w = (Ret (events_data evs), w') \<and>
      runs_to w (read_calls fd len evs) w' \<and> answers w' = as"
    by (simp add: StreamIO_readAll_def with_local_def bind_def ret_def readAll_loop_full)
next
  let ?tail = "replicate k Intr @ [Chunk []]" and ?n = "of_nat (length (events_data evs)) :: 64 word"
  assume l: "length (events_data evs) < unat len" and a: "answers w = map event_answer (evs @ ?tail) @ as"
  from a have "answers w = map event_answer evs @ (map event_answer ?tail @ as)" by simp
  from readAll_loop_prefix[OF this assms(3) _ assms(1,2), of len fd "[]"] l obtain v where v:
    "readAll_loop fd (([], len), w) = readAll_loop fd ((events_data evs, len - ?n), v)"
    "runs_to w (read_calls fd len evs) v" "answers v = map event_answer ?tail @ as"
    by auto
  have "unat (len - ?n) \<noteq> 0" using l by (simp add: unat_minus_of_nat)
  then have "len - ?n \<noteq> 0" by (metis unsigned_0)
  moreover have "auto_restart_syscalls v" using v(2) assms(3) by (simp add: runs_to_def)
  ultimately obtain v' where v': "readAll_loop fd ((events_data evs, len - ?n), v) =
      (Throw (RuntimeError ''unexpected EOF''), ((events_data evs, len - ?n), v'))"
    "runs_to v (read_calls fd (len - ?n) ?tail) v'" "answers v' = as"
    using readAll_loop_eof[OF v(3)] by blast
  show "\<exists>w'. StreamIO_readAll fd len w = (Throw (RuntimeError ''unexpected EOF''), w') \<and>
      runs_to w (read_calls fd len (evs @ ?tail)) w' \<and> answers w' = as"
    using v(1) v' runs_to_trans[OF v(2) v'(2)]
    by (auto simp: StreamIO_readAll_def with_local_def bind_def ret_def read_calls_append)
qed

theorem readAll_exact_witness:
  "(\<exists>w'. StreamIO_readAll 0 5 (world_of (map event_answer [Chunk ''ab'', Intr, Chunk ''cde''])) =
     (Ret ''abcde'', w')) \<and>
   (\<exists>w'. StreamIO_readAll 0 5 (world_of (map event_answer [Chunk ''ab'', Intr, Chunk []])) =
     (Throw (RuntimeError ''unexpected EOF''), w'))"
  using readAll_exact[of "[Chunk ''ab'', Intr, Chunk ''cde'']"
      "world_of (map event_answer [Chunk ''ab'', Intr, Chunk ''cde''])" 5 "[]" 0 0]
    readAll_exact[of "[Chunk ''ab'']"
      "world_of (map event_answer [Chunk ''ab'', Intr, Chunk []])" 5 "[]" 0 1]
  by (auto simp: world_of_def)

text \<open>The calls of a complete write: each hands over what is left.\<close>

fun write_calls :: "FileNum \<Rightarrow> string \<Rightarrow> (nat \<times> nat) list \<Rightarrow> (syscall \<times> answer) list" where
  "write_calls fd buf [] = []"
| "write_calls fd buf ((k, n) # evs) =
     replicate k (Call ''write'' [I fd, S buf], event_answer Intr) @
     [(Call ''write'' [I fd, S buf], ok (int n))] @ write_calls fd (drop n buf) evs"

text \<open>The bytes the kernel took, from the calls and their results.\<close>

fun taken :: "(syscall \<times> answer) list \<Rightarrow> string" where
  "taken [] = []"
| "taken ((Call f [I fd, S buf], a) # es) = take (nat (rv a)) buf @ taken es"
| "taken (_ # es) = taken es"

lemma taken_append [simp]: "taken (es @ fs) = taken es @ taken fs"
  by (induction es rule: taken.induct) auto

lemma taken_replicate: "rv a \<le> 0 \<Longrightarrow> taken (replicate k (Call f [I fd, S buf], a)) = []"
  by (induction k) auto

lemma taken_write_calls:
  "sum_list (map snd evs) = length buf \<Longrightarrow> taken (write_calls fd buf evs) = buf"
  by (induction evs arbitrary: buf) (auto simp: taken_replicate)

lemma write_step:
  assumes "answers w = replicate k (event_answer Intr) @ ok (int n) # as" "auto_restart_syscalls w"
  shows "\<exists>w'. StreamIO_write fd buf w = (Ret n, w') \<and>
    runs_to w (replicate k (Call ''write'' [I fd, S buf], event_answer Intr) @
       [(Call ''write'' [I fd, S buf], ok (int n))]) w' \<and> answers w' = as"
proof -
  have "answers w = map event_answer (replicate k Intr) @ ok (int n) # as"
    using assms(1) by (simp add: map_replicate)
  from io_loop_intrs[OF this _ assms(2), of "''write()''" "''write''" "[I fd, S buf]"] show ?thesis
    by (auto simp: StreamIO_write_def bind_def ret_def)
qed

definition write_script :: "(nat \<times> nat) list \<Rightarrow> answer list" where
  "write_script evs = concat (map (\<lambda>(k, n). replicate k (event_answer Intr) @ [ok (int n)]) evs)"

lemma writeAll_loop_events:
  assumes "answers w = write_script evs @ as" "auto_restart_syscalls w"
    "sum_list (map snd evs) = length buf" "\<forall>(k, n) \<in> set evs. 0 < n"
  shows "\<exists>w'. loop (\<lambda>(s, w). length (answers w)) (writeAll_round fd) (buf, w) = (Ret (), ([], w')) \<and>
    runs_to w (write_calls fd buf evs) w' \<and> answers w' = as"
  using assms
proof (induction evs arbitrary: w buf)
  case Nil
  then show ?case by (simp add: loop.simps writeAll_round_def act_defs write_script_def)
next
  case (Cons e evs)
  obtain k n where e: "e = (k, n)" by force
  with Cons.prems have n: "0 < n" "n \<le> length buf" "buf \<noteq> []" by auto
  have "answers w = replicate k (event_answer Intr) @ ok (int n) # (write_script evs @ as)"
    using Cons.prems(1) e by (simp add: write_script_def)
  from write_step[OF this Cons.prems(2), of fd buf] obtain v where v:
    "StreamIO_write fd buf w = (Ret n, v)"
    "runs_to w (replicate k (Call ''write'' [I fd, S buf], event_answer Intr) @
       [(Call ''write'' [I fd, S buf], ok (int n))]) v" "answers v = write_script evs @ as" by blast
  have "auto_restart_syscalls v" using v(2) Cons.prems(2) by (simp add: runs_to_def)
  moreover have "sum_list (map snd evs) = length (drop n buf)" "\<forall>(k, n) \<in> set evs. 0 < n"
    using Cons.prems(3,4) e by auto
  ultimately obtain w' where w':
    "loop (\<lambda>(s, w). length (answers w)) (writeAll_round fd) (drop n buf, v) = (Ret (), ([], w'))"
    "runs_to v (write_calls fd (drop n buf) evs) w'" "answers w' = as"
    using Cons.IH[OF v(3)] by blast
  have "length (answers v) < length (answers w)"
    using v(3) Cons.prems(1) e by (simp add: write_script_def)
  moreover have "writeAll_round fd (buf, w) = (Ret None, (drop n buf, v))"
    using v(1) n by (simp add: writeAll_round_def act_defs)
  ultimately have "loop (\<lambda>(s, w). length (answers w)) (writeAll_round fd) (buf, w) =
      loop (\<lambda>(s, w). length (answers w)) (writeAll_round fd) (drop n buf, v)"
    by (simp add: loop.simps[of _ _ "(buf, w)"])
  with w' runs_to_trans[OF v(2) w'(2)] e show ?case by auto
qed

text \<open>
  C4: Writing everything hands over every byte exactly once and in order: whatever parts of
  the rest the kernel accepts and however often it is interrupted, the accepted parts make
  up the buffer when the function returns.
\<close>

theorem writeAll_exact:
  assumes "sum_list (map snd evs) = length buf" "\<forall>(k, n) \<in> set evs. 0 < n"
    "answers w = write_script evs @ as" "auto_restart_syscalls w"
  shows "\<exists>es w'. StreamIO_writeAll fd buf w = (Ret (), w') \<and> runs_to w es w' \<and> answers w' = as \<and>
    taken es = buf"
  using writeAll_loop_events[OF assms(3,4,1,2), of fd] taken_write_calls[OF assms(1), of fd]
  by (fastforce simp: StreamIO_writeAll_def with_local_def bind_def ret_def)

theorem writeAll_exact_witness:
  "\<exists>w'. StreamIO_writeAll 1 ''hello'' (world_of (write_script [(1, 2), (0, 3)])) = (Ret (), w')"
  using writeAll_exact[of "[(1, 2), (0, 3)]" "''hello''" "world_of (write_script [(1, 2), (0, 3)])" "[]" 1]
  by (auto simp: world_of_def)

subsection \<open>Vectored transfers\<close>

text \<open>
  The memory a run of calls has moved, in order: what the kernel sees are the regions in the
  argument of each call and how many bytes of them it moved.  There is no answer when the run
  has another call than the given one on the given descriptor.
\<close>

fun arg_region :: "arg \<Rightarrow> nat list option" where
  "arg_region (L [I base, I len]) = Some [nat base..<nat (base + len)]"
| "arg_region _ = None"

fun arg_regions :: "arg list \<Rightarrow> nat list option" where
  "arg_regions [] = Some []"
| "arg_regions (x # xs) = (case (arg_region x, arg_regions xs) of
      (Some bs, Some cs) \<Rightarrow> Some (bs @ cs) | _ \<Rightarrow> None)"

fun moved :: "string \<Rightarrow> FileNum \<Rightarrow> (syscall \<times> answer) list \<Rightarrow> nat list option" where
  "moved f fd [] = Some []"
| "moved f fd ((Call g [I d, L xs], a) # es) = (if g \<noteq> f \<or> d \<noteq> fd then None
     else (case (arg_regions xs, moved f fd es) of
        (Some bs, Some cs) \<Rightarrow> Some (take (nat (rv a)) bs @ cs) | _ \<Rightarrow> None))"
| "moved f fd (_ # es) = None"

lemma moved_append:
  "moved f fd es = Some xs \<Longrightarrow> moved f fd fs = Some ys \<Longrightarrow> moved f fd (es @ fs) = Some (xs @ ys)"
  by (induction f fd es arbitrary: xs rule: moved.induct) (auto split: option.splits if_splits)

lemma iovec_arg_regions:
  "iovec_arg v = L (map (\<lambda>r. L [I (int (iov_base r)), I (int (iov_len r))]) v)"
  "arg_regions (map (\<lambda>r. L [I (int (iov_base r)), I (int (iov_len r))]) v) = Some (vec_bytes v)"
  by (simp add: iovec_arg_def) (induction v; simp add: region_bytes_def nat_int_add)

lemma moved_calls:
  "moved f fd (replicate k (Call f [I fd, iovec_arg v], event_answer Intr) @
     [(Call f [I fd, iovec_arg v], ok (int n))]) = Some (take n (vec_bytes v))"
  by (induction k) (simp_all add: iovec_arg_regions)

text \<open>
  The contract of a transfer that may be partial, where \<open>remaining\<close> is the memory it still has
  to cover: a transfer of \<open>n\<close> bytes, after any number of interruptions, moves the next \<open>n\<close>
  bytes of that memory and reports whether that is all.
\<close>

locale partial_transfer =
  fixes transfer :: "('s \<times> world, bool) act" and remaining :: "'s \<Rightarrow> nat list"
    and call :: string and fd :: FileNum
  assumes progress: "\<lbrakk>answers w = replicate k (failed Errno_INTERRUPTED) @ ok (int n) # as;
      auto_restart_syscalls w; n \<le> length (remaining s)\<rbrakk> \<Longrightarrow>
    \<exists>s' w' es. transfer (s, w) = (Ret (remaining s' = []), (s', w')) \<and>
      remaining s' = drop n (remaining s) \<and> runs_to w es w' \<and> answers w' = as \<and>
      moved call fd es = Some (take n (remaining s))"
    and waits: "answers w = [] \<Longrightarrow> fst (transfer (s, w)) = Blocked"
begin

lemma all_completes:
  assumes "evs \<noteq> []" "sum_list (map snd evs) = length (remaining s)" "\<forall>(k, n) \<in> set evs. 0 < n"
    "answers w = write_script evs @ as" "auto_restart_syscalls w"
  shows "\<exists>s' w' es. iovec_all transfer (s, w) = (Ret (), (s', w')) \<and> remaining s' = [] \<and>
    runs_to w es w' \<and> answers w' = as \<and> moved call fd es = Some (remaining s)"
  using assms
proof (induction evs arbitrary: s w)
  case (Cons e evs)
  obtain k n where e: "e = (k, n)" by force
  have a: "answers w = replicate k (failed Errno_INTERRUPTED) @ ok (int n) # (write_script evs @ as)"
    using Cons.prems(4) e by (simp add: write_script_def)
  have n: "n \<le> length (remaining s)" using Cons.prems(2) e by simp
  from progress[OF a Cons.prems(5) this] obtain s' v es where v:
    "transfer (s, w) = (Ret (remaining s' = []), (s', v))" "remaining s' = drop n (remaining s)"
    "runs_to w es v" "answers v = write_script evs @ as" "moved call fd es = Some (take n (remaining s))"
    by blast
  show ?case
  proof (cases "evs = []")
    case True
    with Cons.prems(2) e have "n = length (remaining s)" by simp
    with v True show ?thesis
      by (auto simp: iovec_all_def loop.simps[of _ _ "(s, w)"] bind_def ret_def write_script_def)
  next
    case False
    with Cons.prems(2,3) e v(2) have more: "sum_list (map snd evs) = length (remaining s')" "remaining s' \<noteq> []"
      by (auto simp: neq_Nil_conv)
    have "length (answers v) < length (answers w)" using v(4) a by simp
    with v(1) more(2) have step: "iovec_all transfer (s, w) = iovec_all transfer (s', v)"
      by (simp add: iovec_all_def loop.simps[of _ _ "(s, w)"] bind_def ret_def)
    have "auto_restart_syscalls v" using v(3) Cons.prems(5) by (simp add: runs_to_def)
    with Cons.IH[OF False more(1) _ v(4)] Cons.prems(3) obtain s'' w' fs where
      "iovec_all transfer (s', v) = (Ret (), (s'', w'))" "remaining s'' = []" "runs_to v fs w'"
      "answers w' = as" "moved call fd fs = Some (remaining s')"
      by auto
    with step runs_to_trans[OF v(3)] moved_append[OF v(5)] v(2) show ?thesis
      by (metis append_take_drop_id)
  qed
qed simp

lemma all_stalls_on_zero:
  assumes "answers w = replicate m (ok 0)" "remaining s \<noteq> []" "auto_restart_syscalls w"
  shows "fst (iovec_all transfer (s, w)) = Blocked"
  using assms
proof (induction m arbitrary: s w)
  case 0
  then show ?case using waits[of w s]
    by (cases "transfer (s, w)") (simp add: iovec_all_def loop.simps bind_def)
next
  case (Suc m)
  then have a: "answers w = replicate 0 (failed Errno_INTERRUPTED) @ ok (int 0) # replicate m (ok 0)"
    by simp
  from progress[OF a Suc.prems(3), of s] obtain s' v es where v:
    "transfer (s, w) = (Ret (remaining s' = []), (s', v))" "remaining s' = remaining s"
    "runs_to w es v" "answers v = replicate m (ok 0)" by auto
  have "auto_restart_syscalls v" using v(3) Suc.prems(3) by (simp add: runs_to_def)
  note ih = Suc.IH[OF v(4) _ this, of s']
  have "length (answers v) < length (answers w)" using v(4) a by simp
  with v(1,2) Suc.prems(2) have "iovec_all transfer (s, w) = iovec_all transfer (s', v)"
    by (simp add: iovec_all_def loop.simps[of _ _ "(s, w)"] bind_def ret_def)
  with ih v(2) Suc.prems(2) show ?case by simp
qed

end

lemma iovec_transfer_progress:
  assumes "answers w = replicate k (failed Errno_INTERRUPTED) @ ok (int n) # as"
    "auto_restart_syscalls w" "n \<le> length (vec_bytes v)"
  shows "\<exists>v' w' es. iovec_transfer label f (\<lambda>v. [I fd, iovec_arg v]) (v, w) = (Ret (vec_bytes v' = []), (v', w')) \<and>
    vec_bytes v' = drop n (vec_bytes v) \<and> runs_to w es w' \<and> answers w' = as \<and>
    moved f fd es = Some (take n (vec_bytes v))"
proof -
  have "answers w = map event_answer (replicate k Intr) @ ok (int n) # as"
    using assms(1) by (simp add: map_replicate)
  from io_loop_intrs[OF this _ assms(2), of label f "[I fd, iovec_arg v]"] obtain w' where w':
    "io_loop label f [I fd, iovec_arg v] w = (Ret (ok (int n)), w')" "answers w' = as"
    "runs_to w (replicate k (Call f [I fd, iovec_arg v], event_answer Intr) @
       [(Call f [I fd, iovec_arg v], ok (int n))]) w'" by auto
  from update_entries_bytes[of v n] obtain v' m fin where u: "update_entries v n = (v', m, fin)"
    "vec_bytes v' = drop n (vec_bytes v)" "m = n - length (vec_bytes v)" "fin = (vec_bytes v' = [])"
    using assms(3) by (metis prod_cases3)
  then have "iovec_transfer label f (\<lambda>v. [I fd, iovec_arg v]) (v, w) = (Ret (vec_bytes v' = []), (v', w'))"
    using w'(1) assms(3)
    by (simp add: iovec_transfer_def iovec_update_def act_defs Let_def)
  with u(2) w' moved_calls show ?thesis by blast
qed

lemma iovec_transfer_waits: "answers w = [] \<Longrightarrow> fst (iovec_transfer label f args (v, w)) = Blocked"
  by (simp add: iovec_transfer_def io_loop_def loop.simps act_defs kernel_defs)

interpretation iovec_read: partial_transfer "StreamIO_read_iovec fd" vec_bytes "''readv''" fd
  unfolding StreamIO_read_iovec_def
  by unfold_locales (use iovec_transfer_progress iovec_transfer_waits in blast)+

interpretation iovec_write: partial_transfer "StreamIO_write_iovec fd" vec_bytes "''writev''" fd
  unfolding StreamIO_write_iovec_def
  by unfold_locales (use iovec_transfer_progress iovec_transfer_waits in blast)+

text \<open>
  C39: Transferring a whole scatter/gather vector ends with every entry finished once the kernel
  has moved all its bytes in pieces of any size, with any number of interruptions: only
  \<^verbatim>\<open>readv()\<close> or \<^verbatim>\<open>writev()\<close> is called, on the descriptor of the stream, and the regions the
  calls name and the sizes they return cover the memory of the vector, each byte once and in
  order.  But a read that reaches the end of the stream before that is never noticed: the
  kernel's answer of zero bytes is asked for again and again, so the function does not return.
\<close>

theorem vectored_transfer_all:
  assumes "vec_bytes v \<noteq> []" "auto_restart_syscalls w"
  shows "(\<forall>evs as. evs \<noteq> [] \<and> sum_list (map snd evs) = length (vec_bytes v) \<and>
       (\<forall>(k, n) \<in> set evs. 0 < n) \<and> answers w = write_script evs @ as \<longrightarrow>
      (\<exists>v' w' es. StreamIO_readAll_iovec fd (v, w) = (Ret (), (v', w')) \<and> vec_bytes v' = [] \<and>
         runs_to w es w' \<and> answers w' = as \<and> moved ''readv'' fd es = Some (vec_bytes v)) \<and>
      (\<exists>v' w' es. StreamIO_writeAll_iovec fd (v, w) = (Ret (), (v', w')) \<and> vec_bytes v' = [] \<and>
         runs_to w es w' \<and> answers w' = as \<and> moved ''writev'' fd es = Some (vec_bytes v))) \<and>
    (\<forall>m. answers w = replicate m (ok 0) \<longrightarrow> fst (StreamIO_readAll_iovec fd (v, w)) = Blocked)"
  unfolding StreamIO_readAll_iovec_def StreamIO_writeAll_iovec_def
  using iovec_read.all_completes[of _ v w _ fd] iovec_write.all_completes[of _ v w _ fd]
    iovec_read.all_stalls_on_zero[of w _ v fd] assms by auto

definition sample_vector :: iovector where
  "sample_vector = [\<lparr>iov_base = 1000, iov_len = 4\<rparr>, \<lparr>iov_base = 2000, iov_len = 2\<rparr>]"

theorem vectored_transfer_all_witness:
  "(\<exists>v' w' es. StreamIO_readAll_iovec 0 (sample_vector, world_of (write_script [(1, 3), (0, 3)])) = (Ret (), (v', w')) \<and>
     runs_to (world_of (write_script [(1, 3), (0, 3)])) es w' \<and>
     moved ''readv'' 0 es = Some [1000, 1001, 1002, 1003, 2000, 2001]) \<and>
   (\<exists>v' w' es. StreamIO_writeAll_iovec 0 (sample_vector, world_of (write_script [(1, 3), (0, 3)])) = (Ret (), (v', w')) \<and>
     runs_to (world_of (write_script [(1, 3), (0, 3)])) es w' \<and>
     moved ''writev'' 0 es = Some [1000, 1001, 1002, 1003, 2000, 2001]) \<and>
   fst (StreamIO_readAll_iovec 0 (sample_vector, world_of (replicate 9 (ok 0)))) = Blocked"
proof -
  have v: "vec_bytes sample_vector = [1000, 1001, 1002, 1003, 2000, 2001]"
    by (simp add: sample_vector_def region_bytes_def upt_conv_Cons)
  have r: "auto_restart_syscalls (world_of as)" "answers (world_of as) = as" for as
    by (simp_all add: world_of_def)
  note t = vectored_transfer_all[of sample_vector "world_of as" 0 for as, unfolded v, OF _ r(1)]
  let ?e = "[(1, 3), (0, 3)] :: (nat \<times> nat) list"
  have e: "?e \<noteq> [] \<and> sum_list (map snd ?e) = length [1000, 1001, 1002, 1003, 2000, 2001 :: nat] \<and>
      (\<forall>(k, n) \<in> set ?e. 0 < n) \<and> answers (world_of (write_script ?e)) = write_script ?e @ []"
    by (simp add: r(2))
  from t[of "write_script [(1, 3), (0, 3)]", THEN conjunct1, rule_format, OF _ e]
    t[of "replicate 9 (ok 0)", THEN conjunct2, rule_format, of 9] r(2)
  show ?thesis by blast
qed

end
