(* ===== verification/ByteOrder.thy ===== *)
theory ByteOrder
  imports Cosmos_Prelude
begin

unbundle bit_operations_syntax

text \<open>
  Byte order: \<^verbatim>\<open>include/net/byte_order.hxx\<close>.  The byte order of the host is a parameter, so
  what is proved holds on hosts of either kind.  The abstraction is the sequence of bytes a
  number occupies in memory.
\<close>

datatype Endian = LITTLE | BIG

definition other_endian :: "Endian \<Rightarrow> Endian" where
  "other_endian e = (case e of LITTLE \<Rightarrow> BIG | BIG \<Rightarrow> LITTLE)"

text \<open>The bytes of a word from the least significant on, and back.\<close>

definition bytes :: "'w::len word \<Rightarrow> 8 word list" where
  "bytes w = map (\<lambda>i. ucast (drop_bit (8 * i) w)) [0..<LENGTH('w) div 8]"

fun of_bytes :: "8 word list \<Rightarrow> 'w::len word" where
  "of_bytes [] = 0"
| "of_bytes (b # bs) = ucast b OR push_bit 8 (of_bytes bs)"

text \<open>\<^verbatim>\<open>bswap_16/32/64\<close>: the same bytes in the opposite order.\<close>

definition swap_byte_order :: "'w::len word \<Rightarrow> 'w word" where
  "swap_byte_order value = of_bytes (rev (bytes value))"

definition to_network_order :: "Endian \<Rightarrow> 'w::len word \<Rightarrow> 'w word" where
  "to_network_order our_endian host = (if our_endian = BIG then host else swap_byte_order host)"

definition to_host_order :: "Endian \<Rightarrow> 'w::len word \<Rightarrow> 'w word" where
  "to_host_order our_endian network = (if our_endian = BIG then network else swap_byte_order network)"

subsection \<open>EndianNumber\<close>

record 't EndianNumber =
  m_egg :: 't

definition toTargetEndianness :: "Endian \<Rightarrow> Endian \<Rightarrow> 'w::len word \<Rightarrow> 'w word" where
  "toTargetEndianness our_endian endianness egg =
     (if our_endian = endianness then egg else swap_byte_order egg)"

definition EndianNumber_zero :: "'w::len word EndianNumber" where
  "EndianNumber_zero = \<lparr>m_egg = 0\<rparr>"

definition EndianNumber_of_raw :: "'w::len word \<Rightarrow> 'w word EndianNumber" where
  "EndianNumber_of_raw rint = \<lparr>m_egg = rint\<rparr>"

definition EndianNumber_of :: "Endian \<Rightarrow> Endian \<Rightarrow> 'w::len word \<Rightarrow> 'w word EndianNumber" where
  "EndianNumber_of our_endian endianness egg = \<lparr>m_egg = toTargetEndianness our_endian endianness egg\<rparr>"

definition toHost :: "Endian \<Rightarrow> Endian \<Rightarrow> 'w::len word EndianNumber \<Rightarrow> 'w word" where
  "toHost our_endian endianness n =
     (if our_endian = endianness then m_egg n else swap_byte_order (m_egg n))"

definition setFromHost :: "Endian \<Rightarrow> Endian \<Rightarrow> 'w::len word \<Rightarrow> 'w word EndianNumber \<Rightarrow> 'w word EndianNumber" where
  "setFromHost our_endian endianness egg n = n\<lparr>m_egg := toTargetEndianness our_endian endianness egg\<rparr>"

definition EndianNumber_of_other :: "Endian \<Rightarrow> Endian \<Rightarrow> 'w::len word EndianNumber \<Rightarrow> 'w word EndianNumber" where
  "EndianNumber_of_other our_endian endianness other =
     \<lparr>m_egg = toTargetEndianness our_endian endianness (toHost our_endian (other_endian endianness) other)\<rparr>"

definition EndianNumber_raw :: "'w::len word EndianNumber \<Rightarrow> 'w word" where
  "EndianNumber_raw n = m_egg n"

subsection \<open>Bytes\<close>

text \<open>The bytes a word occupies in memory, from the lowest address on.\<close>

definition memory :: "Endian \<Rightarrow> 'w::len word \<Rightarrow> 8 word list" where
  "memory our_endian w = (case our_endian of LITTLE \<Rightarrow> bytes w | BIG \<Rightarrow> rev (bytes w))"

lemma bit_of_bytes: "bit (of_bytes bs :: 'w::len word) n \<longleftrightarrow>
    n < LENGTH('w) \<and> n div 8 < length bs \<and> bit (bs ! (n div 8)) (n mod 8)"
proof (induction bs arbitrary: n)
  case (Cons b bs)
  have high: "bit b n \<Longrightarrow> n < 8" for n using bit_imp_le_length[of b n] by simp
  show ?case
  proof (cases "n < 8")
    case True
    then show ?thesis by (auto simp: bit_simps)
  next
    case False
    then have "n div 8 = Suc ((n - 8) div 8)" "n mod 8 = (n - 8) mod 8"
      by (auto simp: le_div_geq le_mod_geq)
    with False Cons[of "n - 8"] high[of n] show ?thesis
      by (auto simp: bit_simps)
  qed
qed simp

lemma length_bytes [simp]: "length (bytes (w :: 'w::len word)) = LENGTH('w) div 8"
  by (simp add: bytes_def)

lemma of_bytes_bytes: "8 dvd LENGTH('w) \<Longrightarrow> of_bytes (bytes w) = (w :: 'w::len word)"
proof (rule bit_word_eqI)
  fix n assume "8 dvd LENGTH('w)" "n < LENGTH('w)"
  moreover from this have "n div 8 < LENGTH('w) div 8"
    by (auto simp: dvd_def less_mult_imp_div_less mult.commute)
  ultimately show "bit (of_bytes (bytes w) :: 'w word) n = bit w n"
    by (simp add: bit_of_bytes bytes_def bit_simps)
qed

lemma bytes_of_bytes: "8 dvd LENGTH('w) \<Longrightarrow> length bs = LENGTH('w) div 8 \<Longrightarrow>
    bytes (of_bytes bs :: 'w::len word) = bs"
proof (rule nth_equalityI)
  fix i assume 8: "8 dvd LENGTH('w)" and l: "length bs = LENGTH('w) div 8"
    and "i < length (bytes (of_bytes bs :: 'w word))"
  then have i: "i < LENGTH('w) div 8" by simp
  show "bytes (of_bytes bs :: 'w word) ! i = bs ! i"
  proof (rule bit_word_eqI)
    fix n assume n: "n < LENGTH(8)"
    with i 8 have "8 * i + n < LENGTH('w)" by (auto simp: dvd_def)
    moreover have "(8 * i + n) div 8 = i" "(8 * i + n) mod 8 = n" using n by auto
    ultimately show "bit (bytes (of_bytes bs :: 'w word) ! i) n = bit (bs ! i) n"
      using i l n by (simp add: bytes_def bit_simps bit_of_bytes)
  qed
qed simp

lemma bytes_swap: "8 dvd LENGTH('w) \<Longrightarrow> bytes (swap_byte_order w) = rev (bytes (w :: 'w::len word))"
  by (simp add: swap_byte_order_def bytes_of_bytes)

lemma swap_swap: "8 dvd LENGTH('w) \<Longrightarrow> swap_byte_order (swap_byte_order w) = (w :: 'w::len word)"
  by (metis bytes_swap rev_rev_ident swap_byte_order_def of_bytes_bytes)

subsection \<open>The promises\<close>

text \<open>
  On a host of either byte order, a number of a given endianness occupies memory in that
  order whatever host number it was made from, its host value is that number again, and
  converting between the two kinds keeps the host value.
\<close>

theorem endian_number_layout:
  fixes x :: "'w::len word" and n m :: "'w word EndianNumber"
  assumes "8 dvd LENGTH('w)"
  shows "memory our_endian (EndianNumber_raw (EndianNumber_of our_endian e x)) =
       (case e of LITTLE \<Rightarrow> bytes x | BIG \<Rightarrow> rev (bytes x)) \<and>
     toHost our_endian e (EndianNumber_of our_endian e x) = x \<and>
     toHost our_endian e (setFromHost our_endian e x n) = x \<and>
     toHost our_endian e (EndianNumber_of_other our_endian e m) = toHost our_endian (other_endian e) m \<and>
     EndianNumber_of our_endian e (toHost our_endian e n) = n"
  using assms
  by (cases e; cases our_endian)
    (simp_all add: memory_def EndianNumber_raw_def EndianNumber_of_def toTargetEndianness_def toHost_def
       setFromHost_def EndianNumber_of_other_def other_endian_def bytes_swap swap_swap)

theorem endian_number_layout_witness:
  "memory LITTLE (EndianNumber_raw (EndianNumber_of LITTLE BIG (0x1234 :: 16 word))) = [0x12, 0x34]"
  using endian_number_layout[where 'w = 16 and our_endian = LITTLE and e = BIG and x = "0x1234"]
  by (simp add: bytes_def upt_rec)

text \<open>
  Swapping the byte order of a 16, 32 or 64 bit number reverses its bytes and undoes
  itself; network order is the big-endian layout in memory on every host, and host and
  network order are inverse to each other.
\<close>

theorem network_order:
  assumes "8 dvd LENGTH('w)"
  shows "bytes (swap_byte_order (x :: 'w::len word)) = rev (bytes x) \<and>
     swap_byte_order (swap_byte_order x) = x \<and>
     memory our_endian (to_network_order our_endian x) = rev (bytes x) \<and>
     to_host_order our_endian (to_network_order our_endian x) = x \<and>
     to_network_order our_endian (to_host_order our_endian x) = x"
  using assms
  by (cases our_endian)
    (simp_all add: memory_def to_network_order_def to_host_order_def bytes_swap swap_swap)

theorem network_order_witness:
  "to_network_order LITTLE (0x12345678 :: 32 word) = 0x78563412 \<and>
   to_host_order LITTLE (to_network_order LITTLE (0x12345678 :: 32 word)) = 0x12345678"
  using network_order[where 'w = 32 and our_endian = LITTLE and x = "0x12345678"]
  by (simp add: to_network_order_def swap_byte_order_def bytes_def upt_rec)

end
