(* ===== verification/TimeTypes.thy ===== *)
theory TimeTypes
  imports Kernel "HOL-Library.Signed_Division"
begin

text \<open>
  Time values and clocks: \<^verbatim>\<open>TimeSpec\<close> and \<^verbatim>\<open>TimeVal\<close> of \<^verbatim>\<open>include/time/types.hxx\<close>,
  \<^verbatim>\<open>Clock\<close> (\<^verbatim>\<open>src/time/Clock.cxx\<close>) and \<^verbatim>\<open>StopWatch\<close>.  The fields are signed integers whose
  overflow is undefined in C++, so they are integers here; conversions to \<^verbatim>\<open>size_t\<close> wrap.
  Division is that of C++, which truncates towards zero.
\<close>

datatype ClockType = REALTIME | REALTIME_COARSE | ATOMIC_REALTIME | MONOTONIC | MONOTONIC_RAW
  | MONOTONIC_COARSE | BOOTTIME | PROCESS_CPUTIME | THREAD_CPUTIME | CLOCK_INVALID

primrec ClockType_value :: "ClockType \<Rightarrow> int" where
  "ClockType_value REALTIME = 0"
| "ClockType_value REALTIME_COARSE = 5"
| "ClockType_value ATOMIC_REALTIME = 11"
| "ClockType_value MONOTONIC = 1"
| "ClockType_value MONOTONIC_RAW = 4"
| "ClockType_value MONOTONIC_COARSE = 6"
| "ClockType_value BOOTTIME = 7"
| "ClockType_value PROCESS_CPUTIME = 2"
| "ClockType_value THREAD_CPUTIME = 3"
| "ClockType_value CLOCK_INVALID = -1"

datatype TimeSpec = TimeSpec (tv_sec: int) (tv_nsec: int)

definition NANOSECOND_BASE :: int where
  "NANOSECOND_BASE = 1000 * 1000 * 1000"

definition TimeSpec_reset :: TimeSpec where
  "TimeSpec_reset = TimeSpec 0 0"

definition TimeSpec_isZero :: "TimeSpec \<Rightarrow> bool" where
  "TimeSpec_isZero t \<longleftrightarrow> tv_sec t = 0 \<and> tv_nsec t = 0"

definition addSeconds :: "int \<Rightarrow> TimeSpec \<Rightarrow> TimeSpec" where
  "addSeconds s t = TimeSpec (tv_sec t + s) (tv_nsec t)"

definition addNanoSeconds :: "int \<Rightarrow> TimeSpec \<Rightarrow> TimeSpec" where
  "addNanoSeconds n t = TimeSpec (tv_sec t) (tv_nsec t + n)"

definition setAsMilliseconds :: "64 word \<Rightarrow> TimeSpec" where
  "setAsMilliseconds milliseconds = (let left_ms = milliseconds mod 1000 in
     TimeSpec (uint ((milliseconds - left_ms) div 1000)) (uint (left_ms * 1000 * 1000)))"

definition set_ms :: "int \<Rightarrow> TimeSpec" where
  "set_ms ms = TimeSpec (ms sdiv 1000) (ms smod 1000 * 1000 * 1000)"

definition set_ns :: "int \<Rightarrow> TimeSpec" where
  "set_ns ns = TimeSpec (ns sdiv NANOSECOND_BASE) (ns smod NANOSECOND_BASE)"

definition toMilliseconds :: "TimeSpec \<Rightarrow> 64 word" where
  "toMilliseconds t = word_of_int (tv_sec t * 1000) + word_of_int (tv_nsec t sdiv 1000 sdiv 1000)"

definition TimeSpec_less :: "TimeSpec \<Rightarrow> TimeSpec \<Rightarrow> bool" where
  "TimeSpec_less t other =
     (if tv_sec t < tv_sec other then True
      else if tv_sec t \<noteq> tv_sec other then False
      else if tv_nsec t < tv_nsec other then True
      else False)"

definition TimeSpec_eq :: "TimeSpec \<Rightarrow> TimeSpec \<Rightarrow> bool" where
  "TimeSpec_eq t other \<longleftrightarrow> tv_sec t = tv_sec other \<and> tv_nsec t = tv_nsec other"

definition TimeSpec_less_eq :: "TimeSpec \<Rightarrow> TimeSpec \<Rightarrow> bool" where
  "TimeSpec_less_eq t other \<longleftrightarrow> TimeSpec_less t other \<or> TimeSpec_eq t other"

definition TimeSpec_minus :: "TimeSpec \<Rightarrow> TimeSpec \<Rightarrow> TimeSpec" where
  "TimeSpec_minus t other = (let sec = tv_sec t - tv_sec other; nsec = tv_nsec t - tv_nsec other in
     if nsec < 0 then TimeSpec (sec - 1) (nsec + NANOSECOND_BASE) else TimeSpec sec nsec)"

definition TimeSpec_plus :: "TimeSpec \<Rightarrow> TimeSpec \<Rightarrow> TimeSpec" where
  "TimeSpec_plus t other = (let sec = tv_sec t + tv_sec other; nsec = tv_nsec t + tv_nsec other in
     if NANOSECOND_BASE \<le> nsec then TimeSpec (sec + 1) (nsec - NANOSECOND_BASE) else TimeSpec sec nsec)"

text \<open>The order the comparison operators define, as the library's type class.\<close>

instantiation TimeSpec :: linorder
begin

definition less_TimeSpec :: "TimeSpec \<Rightarrow> TimeSpec \<Rightarrow> bool" where
  "less_TimeSpec = TimeSpec_less"

definition less_eq_TimeSpec :: "TimeSpec \<Rightarrow> TimeSpec \<Rightarrow> bool" where
  "less_eq_TimeSpec = TimeSpec_less_eq"

instance
  by intro_classes
    (auto simp: less_TimeSpec_def less_eq_TimeSpec_def TimeSpec_less_def TimeSpec_less_eq_def
       TimeSpec_eq_def TimeSpec.expand split: if_splits)

end

subsection \<open>TimeVal\<close>

datatype TimeVal = TimeVal (tvv_sec: int) (tvv_usec: int)

definition TimeVal_isZero :: "TimeVal \<Rightarrow> bool" where
  "TimeVal_isZero t \<longleftrightarrow> tvv_sec t = 0 \<and> tvv_usec t = 0"

definition TimeVal_eq :: "TimeVal \<Rightarrow> TimeVal \<Rightarrow> bool" where
  "TimeVal_eq t other \<longleftrightarrow> tvv_sec other = tvv_sec t \<and> tvv_usec other = tvv_usec t"

subsection \<open>Clocks and stop watches (src/time/Clock.cxx, include/time/StopWatch.hxx)\<close>

definition timespec_out :: "answer \<Rightarrow> TimeSpec" where
  "timespec_out a = (case outs a of [s, n] \<Rightarrow> TimeSpec s n | _ \<Rightarrow> TimeSpec_reset)"

definition timespec_arg :: "TimeSpec \<Rightarrow> arg" where
  "timespec_arg t = L [I (tv_sec t), I (tv_nsec t)]"

definition Clock_now :: "ClockType \<Rightarrow> (world, TimeSpec) act" where
  "Clock_now c = bind (call ''clock_gettime'' [I (ClockType_value c)]) (\<lambda>a.
     if rv a \<noteq> 0 then throw_ApiError ''clock_gettime()'' else ret (timespec_out a))"

definition Clock_resolution :: "ClockType \<Rightarrow> (world, TimeSpec) act" where
  "Clock_resolution c = bind (call ''clock_getres'' [I (ClockType_value c)]) (\<lambda>a.
     if rv a \<noteq> 0 then throw_ApiError ''clock_getres()'' else ret (timespec_out a))"

definition Clock_setTime :: "ClockType \<Rightarrow> TimeSpec \<Rightarrow> (world, unit) act" where
  "Clock_setTime c t = call_or_throw (\<lambda>r. r = 0) ''clock_settime'' [I (ClockType_value c), timespec_arg t]
     (throw_ApiError ''clock_settime()'')"

text \<open>\<^verbatim>\<open>clock_nanosleep()\<close> returns the error number; the sleep is until an absolute time.\<close>

definition TIMER_ABSTIME :: int where "TIMER_ABSTIME = 1"

definition Clock_sleep :: "ClockType \<Rightarrow> TimeSpec \<Rightarrow> (world, unit) act" where
  "Clock_sleep c until = syscall_loop
     (bind (call ''clock_nanosleep'' [I (ClockType_value c), I TIMER_ABSTIME, timespec_arg until]) (\<lambda>a.
        if rv a = errno_of Errno_NO_ERROR then ret (Some ())
        else bind (gets auto_restart_syscalls) (\<lambda>restart.
          if rv a = errno_of Errno_INTERRUPTED \<and> restart then ret None
          else throw (ApiError ''clock_nanosleep()'' (rv a)))))"

definition StopWatch_mark :: "ClockType \<Rightarrow> (TimeSpec \<times> world, unit) act" where
  "StopWatch_mark c = bind (on_world (Clock_now c)) (\<lambda>t. set_this (\<lambda>_. t))"

definition StopWatch_elapsedMs :: "ClockType \<Rightarrow> (TimeSpec \<times> world, 64 word) act" where
  "StopWatch_elapsedMs c = bind (on_world (Clock_now c)) (\<lambda>now. bind (this (\<lambda>m. m)) (\<lambda>m.
     ret (toMilliseconds (TimeSpec_minus now m))))"

subsection \<open>The value of a time\<close>

definition nanoseconds :: "TimeSpec \<Rightarrow> int" where
  "nanoseconds t = tv_sec t * NANOSECOND_BASE + tv_nsec t"

definition normalized :: "TimeSpec \<Rightarrow> bool" where
  "normalized t \<longleftrightarrow> 0 \<le> tv_nsec t \<and> tv_nsec t < NANOSECOND_BASE"

text \<open>
  Times in normal form, with the nanoseconds within a second, are a faithful picture of
  the integers: sum and difference are in normal form again and add and subtract the values,
  and every comparison operator compares the values.
\<close>

theorem times_are_numbers:
  assumes "normalized a" "normalized b"
  shows "normalized (TimeSpec_plus a b) \<and> nanoseconds (TimeSpec_plus a b) = nanoseconds a + nanoseconds b \<and>
     normalized (TimeSpec_minus a b) \<and> nanoseconds (TimeSpec_minus a b) = nanoseconds a - nanoseconds b \<and>
     (a < b \<longleftrightarrow> nanoseconds a < nanoseconds b) \<and> (a \<le> b \<longleftrightarrow> nanoseconds a \<le> nanoseconds b) \<and>
     (TimeSpec_eq a b \<longleftrightarrow> nanoseconds a = nanoseconds b) \<and>
     TimeSpec_minus (TimeSpec_plus a b) b = a"
  using assms
  by (cases a; cases b)
    (auto simp: normalized_def nanoseconds_def TimeSpec_plus_def TimeSpec_minus_def Let_def
      NANOSECOND_BASE_def less_TimeSpec_def less_eq_TimeSpec_def TimeSpec_less_def
      TimeSpec_less_eq_def TimeSpec_eq_def)

theorem times_are_numbers_witness:
  "nanoseconds (TimeSpec_plus (TimeSpec 1 600000000) (TimeSpec 2 700000000)) = 4300000000 \<and>
   TimeSpec 1 999999999 < TimeSpec 2 0"
  using times_are_numbers[of "TimeSpec 1 600000000" "TimeSpec 2 700000000"]
    times_are_numbers[of "TimeSpec 1 999999999" "TimeSpec 2 0"]
  by (simp add: normalized_def nanoseconds_def NANOSECOND_BASE_def)

lemma setAsMilliseconds_parts:
  "setAsMilliseconds ms = TimeSpec (uint ms div 1000) (uint ms mod 1000 * 1000000)"
proof -
  let ?u = "uint ms" and ?m = "ms mod 1000"
  have m: "uint ?m = ?u mod 1000" by (simp add: uint_mod)
  then have "uint ?m \<le> ?u" by (simp add: zmod_le_nonneg_dividend)
  then have "uint (ms - ?m) = ?u - ?u mod 1000"
    using uint_sub_lem[of ?m ms] m by simp
  then have d: "uint ((ms - ?m) div 1000) = ?u div 1000"
    by (simp add: uint_div minus_mod_eq_mult_div)
  have "?u mod 1000 < 1000" by simp
  then have "uint (?m * 1000000) = ?u mod 1000 * 1000000"
    using m by (simp add: uint_word_ariths(3) del: pos_mod_bound)
  with d show ?thesis by (simp add: setAsMilliseconds_def Let_def mult.assoc)
qed

lemma sdiv_nonneg: "0 \<le> a \<Longrightarrow> 0 < b \<Longrightarrow> (a :: int) sdiv b = a div b"
  by (simp add: signed_divide_int_def sgn_if)

lemma milliseconds_of_normalized:
  assumes "normalized t" "0 \<le> tv_sec t"
  shows "toMilliseconds t = word_of_int (nanoseconds t div 1000000)"
proof -
  have n: "0 \<le> tv_nsec t" "0 \<le> tv_nsec t div 1000"
    using assms by (auto simp: normalized_def pos_imp_zdiv_nonneg_iff)
  have "tv_nsec t sdiv 1000 sdiv 1000 = tv_nsec t div 1000000"
    by (simp add: sdiv_nonneg[OF n(1)] sdiv_nonneg[OF n(2)] zdiv_zmult2_eq[symmetric])
  moreover have "nanoseconds t div 1000000 = tv_sec t * 1000 + tv_nsec t div 1000000"
    by (simp add: nanoseconds_def NANOSECOND_BASE_def div_add1_eq[of "tv_sec t * 1000000000"]
        div_plus_div_distrib_dvd_left)
  ultimately show ?thesis by (simp add: toMilliseconds_def)
qed

text \<open>
  Setting a time from any number of milliseconds and reading it back gives the number
  again; for a non-negative time in normal form the conversion gives the whole milliseconds,
  so the time a stop watch reports is the elapsed time rounded down.
\<close>

theorem milliseconds_roundtrip:
  "toMilliseconds (setAsMilliseconds ms) = ms \<and> normalized (setAsMilliseconds ms) \<and>
   (normalized now \<and> normalized mark \<and> mark \<le> now \<longrightarrow>
      toMilliseconds (TimeSpec_minus now mark) =
        word_of_int ((nanoseconds now - nanoseconds mark) div 1000000))"
proof (intro conjI impI)
  show n: "normalized (setAsMilliseconds ms)"
    by (simp add: setAsMilliseconds_parts normalized_def NANOSECOND_BASE_def)
  show "toMilliseconds (setAsMilliseconds ms) = ms"
    using milliseconds_of_normalized[OF n] pos_imp_zdiv_nonneg_iff[of 1000 "uint ms"]
    by (simp add: setAsMilliseconds_parts nanoseconds_def NANOSECOND_BASE_def)
next
  assume a: "normalized now \<and> normalized mark \<and> mark \<le> now"
  then have "normalized (TimeSpec_minus now mark)" "nanoseconds (TimeSpec_minus now mark) =
      nanoseconds now - nanoseconds mark" "nanoseconds mark \<le> nanoseconds now"
    using times_are_numbers[of now mark] times_are_numbers[of mark now] by auto
  moreover from this have "0 \<le> tv_sec (TimeSpec_minus now mark)"
    by (auto simp: normalized_def nanoseconds_def NANOSECOND_BASE_def)
  ultimately show "toMilliseconds (TimeSpec_minus now mark) =
        word_of_int ((nanoseconds now - nanoseconds mark) div 1000000)"
    using milliseconds_of_normalized by simp
qed

theorem milliseconds_roundtrip_witness:
  "toMilliseconds (TimeSpec_minus (TimeSpec 5 0) (TimeSpec 3 999000000)) = 1001"
  using milliseconds_roundtrip[of 0 "TimeSpec 5 0" "TimeSpec 3 999000000"]
  by (simp add: normalized_def nanoseconds_def NANOSECOND_BASE_def less_eq_TimeSpec_def
      TimeSpec_less_eq_def TimeSpec_less_def)

end
