(* ===== verification/SizedArray.thy ===== *)
theory SizedArray
  imports Cosmos_Prelude
begin

text \<open>
  \<^verbatim>\<open>SizedArray<T, N>\<close> of \<^verbatim>\<open>include/SizedArray.hxx\<close>: a fixed array with a count of used
  elements.  The array is a list of length \<open>N\<close>.  The locale \<open>bounded_sequence\<close> is what a
  user of the class may rely on; it is interpreted on the operations of the class.
\<close>

record 't SizedArray =
  m_array :: "'t list"
  m_used :: nat

definition SizedArray_create :: "nat \<Rightarrow> 't \<Rightarrow> nat \<Rightarrow> exn + 't SizedArray" where
  "SizedArray_create N init size' =
     (if N < size' then Inl (StdOutOfRange ''excess array init size'')
      else Inr \<lparr>m_array = replicate N init, m_used = size'\<rparr>)"

definition SizedArray_clear :: "'t SizedArray \<Rightarrow> 't SizedArray" where
  "SizedArray_clear a = a\<lparr>m_used := 0\<rparr>"

definition SizedArray_empty :: "'t SizedArray \<Rightarrow> bool" where
  "SizedArray_empty a \<longleftrightarrow> m_used a = 0"

definition SizedArray_max_size :: "'t SizedArray \<Rightarrow> nat" where
  "SizedArray_max_size a = length (m_array a)"

definition SizedArray_size :: "'t SizedArray \<Rightarrow> nat" where
  "SizedArray_size a = m_used a"

text \<open>
  \<^verbatim>\<open>operator[]\<close> reaches every element of the array, used or not; beyond it the access is
  undefined (\<open>None\<close>).
\<close>

definition SizedArray_index :: "'t SizedArray \<Rightarrow> nat \<Rightarrow> 't option" where
  "SizedArray_index a i = (if i < length (m_array a) then Some (m_array a ! i) else None)"

definition SizedArray_at :: "'t SizedArray \<Rightarrow> nat \<Rightarrow> exn + 't" where
  "SizedArray_at a i =
     (if m_used a \<le> i then Inl (StdOutOfRange ''access beyond used elements'')
      else if length (m_array a) \<le> i then Inl (StdOutOfRange ''array::at'')
      else Inr (m_array a ! i))"

text \<open>Assigning through the reference that \<^verbatim>\<open>at()\<close> returns.\<close>

definition SizedArray_assign_at :: "'t SizedArray \<Rightarrow> nat \<Rightarrow> 't \<Rightarrow> exn + 't SizedArray" where
  "SizedArray_assign_at a i x = (case SizedArray_at a i of
      Inl e \<Rightarrow> Inl e | Inr _ \<Rightarrow> Inr (a\<lparr>m_array := (m_array a)[i := x]\<rparr>))"

definition SizedArray_push_back :: "'t SizedArray \<Rightarrow> 't \<Rightarrow> exn + 't SizedArray" where
  "SizedArray_push_back a t =
     (if m_used a = length (m_array a) then Inl StdBadAlloc
      else Inr \<lparr>m_array = (m_array a)[m_used a := t], m_used = m_used a + 1\<rparr>)"

definition SizedArray_pop_back :: "'t SizedArray \<Rightarrow> exn + 't SizedArray" where
  "SizedArray_pop_back a =
     (if m_used a = 0 then Inl (StdRuntimeError ''pop on empty array'')
      else Inr (a\<lparr>m_used := m_used a - 1\<rparr>))"

definition SizedArray_front :: "'t SizedArray \<Rightarrow> 't option" where
  "SizedArray_front a = SizedArray_index a 0"

text \<open>
  \<^verbatim>\<open>rbegin()\<close> is the reverse iterator of the array advanced by \<open>N - m_used\<close>: it refers to the
  element before index \<open>m_used\<close>, and is \<^verbatim>\<open>rend()\<close>, not to be dereferenced, on an empty array.
\<close>

definition SizedArray_elements :: "'t SizedArray \<Rightarrow> 't list" where
  "SizedArray_elements a = take (m_used a) (m_array a)"

definition SizedArray_reverse_elements :: "'t SizedArray \<Rightarrow> 't list" where
  "SizedArray_reverse_elements a = drop (length (m_array a) - m_used a) (rev (m_array a))"

definition SizedArray_back :: "'t SizedArray \<Rightarrow> 't option" where
  "SizedArray_back a = (case SizedArray_reverse_elements a of [] \<Rightarrow> None | x # _ \<Rightarrow> Some x)"

text \<open>What the copy assignment does to the object; it has no return statement.\<close>

fun copy_used :: "nat \<Rightarrow> 't list \<Rightarrow> 't list \<Rightarrow> 't list" where
  "copy_used 0 dst src = dst"
| "copy_used (Suc n) dst src = (copy_used n dst src)[n := src ! n]"

definition SizedArray_assign :: "'t SizedArray \<Rightarrow> 't SizedArray \<Rightarrow> 't SizedArray" where
  "SizedArray_assign a other =
     \<lparr>m_array = copy_used (m_used other) (m_array a) (m_array other), m_used = m_used other\<rparr>"

definition SizedArray_ok :: "nat \<Rightarrow> 't SizedArray \<Rightarrow> bool" where
  "SizedArray_ok N a \<longleftrightarrow> length (m_array a) = N \<and> m_used a \<le> N"

subsection \<open>The interface\<close>

locale bounded_sequence =
  fixes N :: nat and ok :: "'a \<Rightarrow> bool" and abs :: "'a \<Rightarrow> 't list"
    and push :: "'a \<Rightarrow> 't \<Rightarrow> exn + 'a" and pop :: "'a \<Rightarrow> exn + 'a"
    and at' :: "'a \<Rightarrow> nat \<Rightarrow> exn + 't" and peek :: "'a \<Rightarrow> 't option"
  assumes bounded: "ok a \<Longrightarrow> length (abs a) \<le> N"
    and push_ok: "\<lbrakk>ok a; length (abs a) < N\<rbrakk> \<Longrightarrow> \<exists>a'. push a x = Inr a' \<and> ok a' \<and> abs a' = abs a @ [x]"
    and push_full: "\<lbrakk>ok a; length (abs a) = N\<rbrakk> \<Longrightarrow> push a x = Inl StdBadAlloc"
    and pop_ok: "\<lbrakk>ok a; abs a \<noteq> []\<rbrakk> \<Longrightarrow> \<exists>a'. pop a = Inr a' \<and> ok a' \<and> abs a' = butlast (abs a)"
    and pop_empty: "\<lbrakk>ok a; abs a = []\<rbrakk> \<Longrightarrow> \<exists>msg. pop a = Inl (StdRuntimeError msg)"
    and at_ok: "\<lbrakk>ok a; i < length (abs a)\<rbrakk> \<Longrightarrow> at' a i = Inr (abs a ! i)"
    and at_out: "\<lbrakk>ok a; length (abs a) \<le> i\<rbrakk> \<Longrightarrow> \<exists>msg. at' a i = Inl (StdOutOfRange msg)"
    and peek_ok: "\<lbrakk>ok a; abs a \<noteq> []\<rbrakk> \<Longrightarrow> peek a = Some (last (abs a))"
begin

fun push_all :: "'a \<Rightarrow> 't list \<Rightarrow> exn + 'a" where
  "push_all a [] = Inr a"
| "push_all a (x # xs) = (case push a x of Inl e \<Rightarrow> Inl e | Inr a' \<Rightarrow> push_all a' xs)"

lemma push_all_result:
  assumes "ok a"
  shows "if length (abs a) + length xs \<le> N
    then \<exists>a'. push_all a xs = Inr a' \<and> ok a' \<and> abs a' = abs a @ xs
    else push_all a xs = Inl StdBadAlloc"
  using assms
proof (induction xs arbitrary: a)
  case Nil
  then show ?case using bounded by auto
next
  case (Cons x xs)
  show ?case
  proof (cases "length (abs a) < N")
    case True
    from push_ok[OF Cons.prems True] obtain a' where
      "push a x = Inr a'" "ok a'" "abs a' = abs a @ [x]" by blast
    with Cons.IH[of a'] show ?thesis by auto
  next
    case False
    with bounded[OF Cons.prems] have "length (abs a) = N" by simp
    with push_full[OF Cons.prems] show ?thesis by simp
  qed
qed

lemma push_pop:
  assumes "ok a" "length (abs a) < N"
  shows "\<exists>a' a''. push a x = Inr a' \<and> peek a' = Some x \<and> at' a' (length (abs a)) = Inr x \<and>
    pop a' = Inr a'' \<and> ok a'' \<and> abs a'' = abs a"
proof -
  from push_ok[OF assms] obtain a' where a': "push a x = Inr a'" "ok a'" "abs a' = abs a @ [x]" by blast
  from pop_ok[of a'] a' obtain a'' where "pop a' = Inr a''" "ok a''" "abs a'' = abs a" by auto
  with a' peek_ok[of a'] at_ok[of a' "length (abs a)"] show ?thesis by auto
qed

end

lemma take_update_end: "n < length xs \<Longrightarrow> take (Suc n) (xs[n := x]) = take n xs @ [x]"
  by (simp add: take_Suc_conv_app_nth)

lemma reverse_elements: "m_used a \<le> length (m_array a) \<Longrightarrow>
    SizedArray_reverse_elements a = rev (SizedArray_elements a)"
  by (simp add: SizedArray_reverse_elements_def SizedArray_elements_def rev_take)

interpretation sized_array: bounded_sequence N "SizedArray_ok N" SizedArray_elements
  SizedArray_push_back SizedArray_pop_back SizedArray_at SizedArray_back
proof unfold_locales
  fix a :: "'a SizedArray" and i
  assume ok: "SizedArray_ok N a"
  show "length (SizedArray_elements a) \<le> N"
    using ok by (simp add: SizedArray_ok_def SizedArray_elements_def)
  show "\<exists>a'. SizedArray_push_back a x = Inr a' \<and> SizedArray_ok N a' \<and>
      SizedArray_elements a' = SizedArray_elements a @ [x]" if "length (SizedArray_elements a) < N" for x
    using ok that by (auto simp: SizedArray_ok_def SizedArray_elements_def SizedArray_push_back_def
        take_update_end)
  show "SizedArray_push_back a x = Inl StdBadAlloc" if "length (SizedArray_elements a) = N" for x
    using ok that by (simp add: SizedArray_ok_def SizedArray_elements_def SizedArray_push_back_def)
  show "\<exists>a'. SizedArray_pop_back a = Inr a' \<and> SizedArray_ok N a' \<and>
      SizedArray_elements a' = butlast (SizedArray_elements a)" if "SizedArray_elements a \<noteq> []"
    using ok that by (auto simp: SizedArray_ok_def SizedArray_elements_def SizedArray_pop_back_def
        butlast_take)
  show "\<exists>msg. SizedArray_pop_back a = Inl (StdRuntimeError msg)" if "SizedArray_elements a = []"
    using ok that by (auto simp: SizedArray_ok_def SizedArray_elements_def SizedArray_pop_back_def)
  show "SizedArray_at a i = Inr (SizedArray_elements a ! i)" if "i < length (SizedArray_elements a)"
    using ok that by (simp add: SizedArray_ok_def SizedArray_elements_def SizedArray_at_def)
  show "\<exists>msg. SizedArray_at a i = Inl (StdOutOfRange msg)" if "length (SizedArray_elements a) \<le> i"
    using ok that by (auto simp: SizedArray_ok_def SizedArray_elements_def SizedArray_at_def)
  show "SizedArray_back a = Some (last (SizedArray_elements a))" if ne: "SizedArray_elements a \<noteq> []"
  proof -
    obtain ys y where "SizedArray_elements a = ys @ [y]"
      using ne by (cases "SizedArray_elements a" rule: rev_cases) auto
    then show ?thesis
      using ok by (simp add: SizedArray_ok_def SizedArray_back_def reverse_elements)
  qed
qed

lemma copy_used_take:
  "n \<le> length dst \<Longrightarrow> n \<le> length src \<Longrightarrow> take n (copy_used n dst src) = take n src \<and>
    length (copy_used n dst src) = length dst"
proof (induction n)
  case (Suc n)
  then have ih: "take n (copy_used n dst src) = take n src" "length (copy_used n dst src) = length dst"
    by simp_all
  have "take (Suc n) (copy_used (Suc n) dst src) = take n (copy_used n dst src) @ [src ! n]"
    using Suc.prems ih(2) by (simp add: take_update_end del: take_Suc)
  then show ?case
    using ih Suc.prems by (simp add: take_Suc_conv_app_nth)
qed simp

text \<open>
  A sized array behaves as a list of at most \<open>N\<close> elements: it starts with the requested
  copies or refuses more than \<open>N\<close>; pushing appends and fails exactly when it is full,
  popping undoes a push, and checked access and iteration in both directions show the used
  elements only, also after clearing and copying.
\<close>

theorem sized_array_is_bounded_list:
  fixes a other :: "'t SizedArray"
  assumes "SizedArray_ok N a" "SizedArray_ok N other"
  shows "(if length (SizedArray_elements a) < N
      then \<exists>a' a''. SizedArray_push_back a x = Inr a' \<and> SizedArray_ok N a' \<and>
         SizedArray_elements a' = SizedArray_elements a @ [x] \<and> SizedArray_back a' = Some x \<and>
         SizedArray_pop_back a' = Inr a'' \<and> SizedArray_elements a'' = SizedArray_elements a
      else SizedArray_push_back a x = Inl StdBadAlloc) \<and>
    (case SizedArray_at a i of
       Inr y \<Rightarrow> i < length (SizedArray_elements a) \<and> y = SizedArray_elements a ! i
     | Inl e \<Rightarrow> length (SizedArray_elements a) \<le> i \<and> e = StdOutOfRange ''access beyond used elements'') \<and>
    SizedArray_reverse_elements a = rev (SizedArray_elements a) \<and>
    SizedArray_size a = length (SizedArray_elements a) \<and>
    SizedArray_elements (SizedArray_clear a) = [] \<and>
    SizedArray_elements (SizedArray_assign a other) = SizedArray_elements other \<and>
    SizedArray_ok N (SizedArray_assign a other) \<and>
    (case SizedArray_create N x k of
       Inr c \<Rightarrow> k \<le> N \<and> SizedArray_ok N c \<and> SizedArray_elements c = replicate k x
     | Inl _ \<Rightarrow> N < k)"
proof (intro conjI)
  show "if length (SizedArray_elements a) < N
      then \<exists>a' a''. SizedArray_push_back a x = Inr a' \<and> SizedArray_ok N a' \<and>
         SizedArray_elements a' = SizedArray_elements a @ [x] \<and> SizedArray_back a' = Some x \<and>
         SizedArray_pop_back a' = Inr a'' \<and> SizedArray_elements a'' = SizedArray_elements a
      else SizedArray_push_back a x = Inl StdBadAlloc"
    using sized_array.push_ok[OF assms(1), of x] sized_array.push_pop[OF assms(1), of x]
      sized_array.push_full[OF assms(1), of x] sized_array.bounded[OF assms(1)]
    by fastforce
  have len: "m_used a \<le> length (m_array a)" "length (SizedArray_elements a) = m_used a"
    using assms(1) by (simp_all add: SizedArray_ok_def SizedArray_elements_def)
  show "case SizedArray_at a i of
       Inr y \<Rightarrow> i < length (SizedArray_elements a) \<and> y = SizedArray_elements a ! i
     | Inl e \<Rightarrow> length (SizedArray_elements a) \<le> i \<and> e = StdOutOfRange ''access beyond used elements''"
    using len by (auto simp: SizedArray_at_def SizedArray_elements_def)
  show "SizedArray_reverse_elements a = rev (SizedArray_elements a)"
    using len(1) by (rule reverse_elements)
  show "SizedArray_size a = length (SizedArray_elements a)"
    using len by (simp add: SizedArray_size_def)
  show "SizedArray_elements (SizedArray_clear a) = []"
    by (simp add: SizedArray_elements_def SizedArray_clear_def)
  show "SizedArray_elements (SizedArray_assign a other) = SizedArray_elements other"
    "SizedArray_ok N (SizedArray_assign a other)"
    using assms copy_used_take[of "m_used other" "m_array a" "m_array other"]
    by (simp_all add: SizedArray_ok_def SizedArray_elements_def SizedArray_assign_def)
  show "case SizedArray_create N x k of
       Inr c \<Rightarrow> k \<le> N \<and> SizedArray_ok N c \<and> SizedArray_elements c = replicate k x
     | Inl _ \<Rightarrow> N < k"
    by (auto simp: SizedArray_create_def SizedArray_ok_def SizedArray_elements_def)
qed

theorem sized_array_is_bounded_list_witness:
  "SizedArray_push_back \<lparr>m_array = [1, 2 :: nat], m_used = 2\<rparr> 3 = Inl StdBadAlloc \<and>
   SizedArray_reverse_elements \<lparr>m_array = [1, 2 :: nat], m_used = 2\<rparr> = [2, 1]"
  using sized_array_is_bounded_list[of 2 "\<lparr>m_array = [1, 2 :: nat], m_used = 2\<rparr>"
      "\<lparr>m_array = [1, 2 :: nat], m_used = 2\<rparr>" 3 0 0]
  by (simp add: SizedArray_ok_def SizedArray_elements_def)

end
