(* ===== verification/AuxVector.thy ===== *)
theory AuxVector
  imports ByteOrder
begin

text \<open>
  The parser of the auxiliary vector: \<^verbatim>\<open>include/proc/AuxVector.hxx\<close> and
  \<^verbatim>\<open>src/proc/AuxVector.cxx\<close>, on a 64 bit little-endian host.  The strings and bytes that
  values point to are read through two parameters, the memory of the process.
\<close>

type_synonym AuxType = "64 word"

datatype AuxType_const = BASE | BASE_PLATFORM | CLKTCK | DCACHEBSIZE | EGID | ENTRY | EUID
  | EXECFD | EXECFN | GID | ICACHEBSIZE | L1D_CACHEGEOMETRY | L1D_CACHESIZE | L1I_CACHEGEOMETRY
  | L1I_CACHESIZE | L2_CACHEGEOMETRY | L2_CACHESIZE | L3_CACHEGEOMETRY | PAGESZ | PHDR | PHENT
  | PLATFORM | RANDOM | SECURE | SYSINFO | SYSINFO_EHDR | UCACHEBSIZE | UID

primrec AuxType_of :: "AuxType_const \<Rightarrow> AuxType" where
  "AuxType_of BASE = 7"
| "AuxType_of BASE_PLATFORM = 24"
| "AuxType_of CLKTCK = 17"
| "AuxType_of DCACHEBSIZE = 19"
| "AuxType_of EGID = 14"
| "AuxType_of ENTRY = 9"
| "AuxType_of EUID = 12"
| "AuxType_of EXECFD = 2"
| "AuxType_of EXECFN = 31"
| "AuxType_of GID = 13"
| "AuxType_of ICACHEBSIZE = 20"
| "AuxType_of L1D_CACHEGEOMETRY = 43"
| "AuxType_of L1D_CACHESIZE = 42"
| "AuxType_of L1I_CACHEGEOMETRY = 41"
| "AuxType_of L1I_CACHESIZE = 40"
| "AuxType_of L2_CACHEGEOMETRY = 45"
| "AuxType_of L2_CACHESIZE = 44"
| "AuxType_of L3_CACHEGEOMETRY = 47"
| "AuxType_of PAGESZ = 6"
| "AuxType_of PHDR = 3"
| "AuxType_of PHENT = 4"
| "AuxType_of PLATFORM = 15"
| "AuxType_of RANDOM = 25"
| "AuxType_of SECURE = 23"
| "AuxType_of SYSINFO = 32"
| "AuxType_of SYSINFO_EHDR = 33"
| "AuxType_of UCACHEBSIZE = 21"
| "AuxType_of UID = 11"

definition AT_NULL :: AuxType where "AT_NULL = 0"

datatype AuxData = DString string | DNumber "64 word" | DPointer "64 word" | DFileNum int
  | DBytes "8 word list" | DUserID "32 word" | DGroupID "32 word" | DBool bool

record RawEntry =
  re_type :: AuxType
  re_value :: "64 word"

definition type_in :: "RawEntry \<Rightarrow> AuxType_const list \<Rightarrow> bool" where
  "type_in e ts \<longleftrightarrow> re_type e \<in> set (map AuxType_of ts)"

definition isString :: "RawEntry \<Rightarrow> bool" where
  "isString e = type_in e [BASE_PLATFORM, EXECFN, PLATFORM]"

definition isPointer :: "RawEntry \<Rightarrow> bool" where
  "isPointer e = type_in e [BASE, ENTRY, PHDR, SYSINFO, SYSINFO_EHDR]"

definition isFileNum :: "RawEntry \<Rightarrow> bool" where
  "isFileNum e = type_in e [EXECFD]"

definition isBuffer :: "RawEntry \<Rightarrow> bool" where
  "isBuffer e = type_in e [RANDOM]"

definition isUID :: "RawEntry \<Rightarrow> bool" where
  "isUID e = type_in e [UID, EUID]"

definition isGID :: "RawEntry \<Rightarrow> bool" where
  "isGID e = type_in e [GID, EGID]"

definition isBool :: "RawEntry \<Rightarrow> bool" where
  "isBool e = type_in e [SECURE]"

definition isNull :: "RawEntry \<Rightarrow> bool" where
  "isNull e \<longleftrightarrow> re_type e = AT_NULL"

type_synonym memory = "(64 word \<Rightarrow> string) \<times> (64 word \<Rightarrow> nat \<Rightarrow> 8 word list)"

definition make_data :: "memory \<Rightarrow> RawEntry \<Rightarrow> AuxData" where
  "make_data mem e =
     (if isString e then DString (fst mem (re_value e))
      else if isPointer e then DPointer (re_value e)
      else if isUID e then DUserID (ucast (re_value e))
      else if isGID e then DGroupID (ucast (re_value e))
      else if isBuffer e then DBytes (snd mem (re_value e) 16)
      else if isBool e then DBool (re_value e \<noteq> 0)
      else if isFileNum e then DFileNum (sint (ucast (re_value e) :: 32 word))
      else DNumber (re_value e))"

text \<open>The entry at the front of a buffer of at least 16 bytes.\<close>

definition entry_at :: "8 word list \<Rightarrow> RawEntry" where
  "entry_at buf = \<lparr>re_type = of_bytes (take 8 buf), re_value = of_bytes (take 8 (drop 8 buf))\<rparr>"

text \<open>
  \<^verbatim>\<open>iterate()\<close> with a callback that threads a state and tells whether to go on; \<open>num\<close> is the
  number of complete entries left.
\<close>

fun iterate_entries :: "nat \<Rightarrow> 8 word list \<Rightarrow> ('s \<Rightarrow> RawEntry \<Rightarrow> 's \<times> bool) \<Rightarrow> 's \<Rightarrow> 's" where
  "iterate_entries 0 buf cb s = s"
| "iterate_entries (Suc num) buf cb s = (let e = entry_at buf in
     if isNull e then s
     else (let (s', go_on) = cb s e in
       if go_on then iterate_entries num (drop 16 buf) cb s' else s'))"

definition iterate :: "8 word list \<Rightarrow> ('s \<Rightarrow> RawEntry \<Rightarrow> 's \<times> bool) \<Rightarrow> 's \<Rightarrow> 's" where
  "iterate buffer cb s = iterate_entries (length buffer div 16) buffer cb s"

definition lookupValue :: "memory \<Rightarrow> 8 word list \<Rightarrow> AuxType \<Rightarrow> AuxData option" where
  "lookupValue mem view type = iterate view (\<lambda>r e.
     if re_type e = type then (Some (make_data mem e), False) else (r, True)) None"

text \<open>\<^verbatim>\<open>std::map::insert\<close> keeps an entry that is already there.\<close>

definition map_insert :: "('k \<rightharpoonup> 'v) \<Rightarrow> 'k \<Rightarrow> 'v \<Rightarrow> ('k \<rightharpoonup> 'v)" where
  "map_insert m k v = (if m k = None then m(k \<mapsto> v) else m)"

definition asMap :: "memory \<Rightarrow> 8 word list \<Rightarrow> (AuxType \<rightharpoonup> AuxData)" where
  "asMap mem view = iterate view (\<lambda>m e. (map_insert m (re_type e) (make_data mem e), True)) Map.empty"

subsection \<open>Objects\<close>

text \<open>
  An object holds a buffer of its own and a view, which refers to that buffer or to storage of
  the caller.  \<open>viewed\<close> are the bytes the view shows while the caller's storage holds \<open>ext\<close>.
\<close>

datatype view_target = OwnBuffer | CallerStorage

record AuxVector =
  m_buffer :: "8 word list"
  m_view :: view_target

definition AuxVector_span :: AuxVector where
  "AuxVector_span = \<lparr>m_buffer = [], m_view = CallerStorage\<rparr>"

definition AuxVector_move :: "8 word list \<Rightarrow> AuxVector" where
  "AuxVector_move buffer = \<lparr>m_buffer = buffer, m_view = OwnBuffer\<rparr>"

definition AuxVector_copy :: "8 word list \<Rightarrow> AuxVector" where
  "AuxVector_copy buffer = \<lparr>m_buffer = buffer, m_view = CallerStorage\<rparr>"

definition AuxVector_bytes :: "8 word list \<Rightarrow> AuxVector" where
  "AuxVector_bytes bs = \<lparr>m_buffer = bs, m_view = OwnBuffer\<rparr>"

definition viewed :: "AuxVector \<Rightarrow> 8 word list \<Rightarrow> 8 word list" where
  "viewed v ext = (case m_view v of OwnBuffer \<Rightarrow> m_buffer v | CallerStorage \<Rightarrow> ext)"

subsection \<open>Lookup and map agree\<close>

text \<open>The entries before the terminator, as the specification of a vector.\<close>

fun raw_entries :: "nat \<Rightarrow> 8 word list \<Rightarrow> RawEntry list" where
  "raw_entries 0 buf = []"
| "raw_entries (Suc n) buf = (if isNull (entry_at buf) then [] else entry_at buf # raw_entries n (drop 16 buf))"

definition entries :: "8 word list \<Rightarrow> RawEntry list" where
  "entries buf = raw_entries (length buf div 16) buf"

definition first_entry :: "AuxType \<Rightarrow> RawEntry list \<Rightarrow> RawEntry option" where
  "first_entry type es = List.find (\<lambda>e. re_type e = type) es"

lemma lookup_entries: "iterate_entries n buf (\<lambda>r e.
     if re_type e = type then (Some (make_data mem e), False) else (r, True)) None =
   map_option (make_data mem) (first_entry type (raw_entries n buf))"
  by (induction n arbitrary: buf) (auto simp: first_entry_def Let_def)

lemma map_entries: "iterate_entries n buf (\<lambda>m e. (map_insert m (re_type e) (make_data mem e), True)) m type =
   (case m type of Some d \<Rightarrow> Some d
    | None \<Rightarrow> map_option (make_data mem) (first_entry type (raw_entries n buf)))"
  by (induction n arbitrary: buf m) (auto simp: first_entry_def map_insert_def Let_def split: option.splits)

lemma first_entry_Some:
  "first_entry type es = Some e \<longleftrightarrow> (\<exists>xs ys. es = xs @ e # ys \<and> re_type e = type \<and> (\<forall>x \<in> set xs. re_type x \<noteq> type))"
proof (induction es)
  case Nil
  then show ?case by (simp add: first_entry_def)
next
  case (Cons a es)
  show ?case
  proof (cases "re_type a = type")
    case True
    then have "first_entry type (a # es) = Some a" by (simp add: first_entry_def)
    with True show ?thesis by (auto simp: Cons_eq_append_conv)
  next
    case False
    then have "first_entry type (a # es) = first_entry type es" by (simp add: first_entry_def)
    moreover have "(\<exists>xs ys. a # es = xs @ e # ys \<and> re_type e = type \<and> (\<forall>x \<in> set xs. re_type x \<noteq> type)) \<longleftrightarrow>
        (\<exists>xs ys. es = xs @ e # ys \<and> re_type e = type \<and> (\<forall>x \<in> set xs. re_type x \<noteq> type))"
      (is "?L \<longleftrightarrow> ?R")
    proof
      assume ?L
      then obtain xs ys where x: "a # es = xs @ e # ys" "re_type e = type" "\<forall>x \<in> set xs. re_type x \<noteq> type"
        by blast
      then obtain xs' where "xs = a # xs'" using False by (cases xs) auto
      with x show ?R by auto
    next
      assume ?R
      then obtain xs ys where "es = xs @ e # ys" "re_type e = type" "\<forall>x \<in> set xs. re_type x \<noteq> type"
        by blast
      with False show ?L by (intro exI[of _ "a # xs"] exI[of _ ys]) auto
    qed
    ultimately show ?thesis using Cons.IH by simp
  qed
qed

text \<open>
  Looking a type up in the auxiliary vector and reading it from the map give the same
  answer for every buffer: the value of the first entry of that type before the terminator,
  and nothing when there is none; bytes behind the terminator and an incomplete last entry
  do not matter.
\<close>

theorem lookup_is_map:
  "asMap mem buf type = lookupValue mem buf type \<and>
   lookupValue mem buf type = map_option (make_data mem) (first_entry type (entries buf)) \<and>
   (first_entry type (entries buf) = Some e \<longleftrightarrow>
     (\<exists>xs ys. entries buf = xs @ e # ys \<and> re_type e = type \<and> (\<forall>x \<in> set xs. re_type x \<noteq> type)))"
  using map_entries[of "length buf div 16" buf mem Map.empty type] first_entry_Some[of type "entries buf" e]
  by (simp add: asMap_def lookupValue_def iterate_def lookup_entries entries_def)

theorem lookup_is_map_witness:
  "\<exists>xs ys. entries (bytes (6 :: 64 word) @ bytes (4096 :: 64 word)) = xs @ \<lparr>re_type = 6, re_value = 4096\<rparr> # ys"
proof -
  have "entries (bytes (6 :: 64 word) @ bytes (4096 :: 64 word)) = [\<lparr>re_type = 6, re_value = 4096\<rparr>]"
    by (simp add: entries_def isNull_def AT_NULL_def entry_at_def of_bytes_bytes)
  then show ?thesis
    using lookup_is_map[of "(\<lambda>_. [], \<lambda>_ _. [])" "bytes (6 :: 64 word) @ bytes (4096 :: 64 word)" 6
        "\<lparr>re_type = 6, re_value = 4096\<rparr>"] by auto
qed

text \<open>
  The constructors that take bytes or a vector they may keep give an object that shows
  those bytes whatever happens to the caller's storage.  The one that promises a deep copy
  of a vector does copy it, but its view stays on the caller's vector: what the object shows
  is whatever that storage holds later.
\<close>

theorem copy_constructor_keeps_no_view:
  "viewed (AuxVector_move b) ext = b \<and> viewed (AuxVector_bytes b) ext = b \<and>
   m_buffer (AuxVector_copy b) = b \<and> viewed (AuxVector_copy b) ext = ext \<and>
   lookupValue mem (viewed (AuxVector_copy b) []) type = None"
  by (simp add: AuxVector_move_def AuxVector_bytes_def AuxVector_copy_def viewed_def lookupValue_def iterate_def)

end
