(* ===== verification/LibInit.thy ===== *)
theory LibInit
  imports Cosmos_Prelude
begin

text \<open>
  Library initialization: \<^verbatim>\<open>init()\<close> and \<^verbatim>\<open>finish()\<close> of \<^verbatim>\<open>src/cosmos.cxx\<close> with the registry
  of \<^verbatim>\<open>Initable\<close> objects (\<^verbatim>\<open>src/cosmos/private/Initable.hxx\<close>).  An initable is a number;
  the registry is the sorted content of the \<^verbatim>\<open>std::map\<close>, and a log records the calls of
  \<^verbatim>\<open>libInit()\<close> and \<^verbatim>\<open>libExit()\<close> that returned.  The registration is that of the code;
  \<open>lib_init\<close> and \<open>lib_finish\<close> are the abstract view of initialization in which no object
  fails, which the operations of the code in theory Startup refine when they return.
\<close>

datatype InitPrio = MUTEX_ATTR | RUNNING_ON_VALGRIND | CHECK_STDIO_TTYS

primrec InitPrio_value :: "InitPrio \<Rightarrow> nat" where
  "InitPrio_value MUTEX_ATTR = 0"
| "InitPrio_value RUNNING_ON_VALGRIND = 1"
| "InitPrio_value CHECK_STDIO_TTYS = 2"

datatype init_event = LibInit nat | LibExit nat

record library =
  init_counter :: "64 word"
  init_data :: "(nat \<times> nat) list option"
  initialized :: "nat set"
  init_log :: "init_event list"

definition library_start :: library where
  "library_start = \<lparr>init_counter = 0, init_data = None, initialized = {}, init_log = []\<rparr>"

definition createInitData :: "library \<Rightarrow> library" where
  "createInitData l = (if init_data l \<noteq> None then l else l\<lparr>init_data := Some []\<rparr>)"

text \<open>Insertion into the sorted map; \<open>None\<close> when the key is taken.\<close>

fun map_add_entry :: "nat \<Rightarrow> nat \<Rightarrow> (nat \<times> nat) list \<Rightarrow> (nat \<times> nat) list option" where
  "map_add_entry p i [] = Some [(p, i)]"
| "map_add_entry p i ((q, j) # m) =
     (if p < q then Some ((p, i) # (q, j) # m)
      else if p = q then None
      else map_option (Cons (q, j)) (map_add_entry p i m))"

definition registerInitable :: "InitPrio \<Rightarrow> nat \<Rightarrow> (library, unit) act" where
  "registerInitable prio i = andthen (modify createInitData)
     (bind (gets init_data) (\<lambda>d. case d of
        None \<Rightarrow> ret ()
      | Some m \<Rightarrow> (case map_add_entry (InitPrio_value prio) i m of
          None \<Rightarrow> abort 9
        | Some m' \<Rightarrow> modify (\<lambda>l. l\<lparr>init_data := Some m'\<rparr>))))"

definition call_libInit :: "nat \<Rightarrow> library \<Rightarrow> library" where
  "call_libInit i l = l\<lparr>init_log := init_log l @ [LibInit i], initialized := insert i (initialized l)\<rparr>"

definition call_libExit :: "nat \<Rightarrow> library \<Rightarrow> library" where
  "call_libExit i l = l\<lparr>init_log := init_log l @ [LibExit i], initialized := initialized l - {i}\<rparr>"

definition InitData_init :: "(nat \<times> nat) list \<Rightarrow> library \<Rightarrow> library" where
  "InitData_init m l = foldl (\<lambda>l (p, i). call_libInit i l) l m"

definition InitData_finish :: "(nat \<times> nat) list \<Rightarrow> library \<Rightarrow> library" where
  "InitData_finish m l = foldl (\<lambda>l (p, i). call_libExit i l) l (rev m)"

definition lib_init :: "library \<Rightarrow> library" where
  "lib_init l = (let l' = l\<lparr>init_counter := init_counter l + 1\<rparr> in
     if init_counter l \<noteq> 0 then l'
     else (case init_data l of None \<Rightarrow> l' | Some m \<Rightarrow> InitData_init m l'))"

definition lib_finish :: "library \<Rightarrow> library" where
  "lib_finish l = (let l' = l\<lparr>init_counter := init_counter l - 1\<rparr> in
     if init_counter l' \<noteq> 0 then l'
     else (case init_data l of None \<Rightarrow> l' | Some m \<Rightarrow> InitData_finish m l'))"

subsection \<open>Registration keeps the priorities sorted\<close>

definition prio_sorted :: "(nat \<times> nat) list \<Rightarrow> bool" where
  "prio_sorted m \<longleftrightarrow> sorted_wrt (<) (map fst m)"

lemma map_add_entry_sorted:
  assumes "prio_sorted m"
  shows "case map_add_entry p i m of
      None \<Rightarrow> p \<in> fst ` set m
    | Some m' \<Rightarrow> prio_sorted m' \<and> set m' = insert (p, i) (set m) \<and> p \<notin> fst ` set m"
  using assms
proof (induction m)
  case Nil
  then show ?case by (simp add: prio_sorted_def)
next
  case (Cons e m)
  obtain q j where e: "e = (q, j)" by force
  from Cons.prems e have m: "prio_sorted m" "\<forall>x \<in> set m. q < fst x" by (auto simp: prio_sorted_def)
  note ih = Cons.IH[OF m(1)]
  show ?case
    using ih m Cons.prems
    by (cases "map_add_entry p i m") (auto simp: e prio_sorted_def)
qed

text \<open>
  Registering an object inserts it in the order of its priority whatever the order of the
  registrations, and a priority that is already taken ends the process with status 9.
\<close>

theorem registration_sorts:
  assumes "init_data l = Some m" "prio_sorted m"
  shows "(if InitPrio_value prio \<in> fst ` set m
     then registerInitable prio i l = (Abort 9, l)
     else \<exists>m'. registerInitable prio i l = (Ret (), l\<lparr>init_data := Some m'\<rparr>) \<and> prio_sorted m' \<and>
        set m' = insert (InitPrio_value prio, i) (set m))"
  using map_add_entry_sorted[OF assms(2), of "InitPrio_value prio" i] assms(1)
  by (auto simp: registerInitable_def createInitData_def abort_def act_defs split: option.splits)

theorem registration_sorts_witness:
  "\<exists>m'. registerInitable MUTEX_ATTR 7 (library_start\<lparr>init_data := Some [(1, 5)]\<rparr>) =
      (Ret (), library_start\<lparr>init_data := Some m'\<rparr>) \<and> prio_sorted m'"
  using registration_sorts[of "library_start\<lparr>init_data := Some [(1, 5)]\<rparr>" "[(1, 5)]" MUTEX_ATTR 7]
  by (auto simp: prio_sorted_def)

subsection \<open>Nested initialization\<close>

datatype lib_op = DoInit | DoFinish

primrec lib_step :: "lib_op \<Rightarrow> library \<Rightarrow> library" where
  "lib_step DoInit = lib_init"
| "lib_step DoFinish = lib_finish"

definition lib_run :: "lib_op list \<Rightarrow> library \<Rightarrow> library" where
  "lib_run ops l = foldl (\<lambda>l op. lib_step op l) l ops"

text \<open>
  The specification counts how deep the calls are nested: the outermost \<^verbatim>\<open>init()\<close> initializes
  in order, the matching \<^verbatim>\<open>finish()\<close> tears down in the opposite order.  \<open>None\<close> when there
  are more calls of \<^verbatim>\<open>finish()\<close> than of \<^verbatim>\<open>init()\<close>.
\<close>

fun nested :: "nat list \<Rightarrow> lib_op list \<Rightarrow> nat \<Rightarrow> (nat \<times> init_event list) option" where
  "nested is [] d = Some (d, [])"
| "nested is (DoInit # ops) d = map_option (\<lambda>(d', es). (d', (if d = 0 then map LibInit is else []) @ es))
     (nested is ops (Suc d))"
| "nested is (DoFinish # ops) 0 = None"
| "nested is (DoFinish # ops) (Suc d) = map_option (\<lambda>(d', es). (d', (if d = 0 then map LibExit (rev is) else []) @ es))
     (nested is ops d)"

lemma InitData_init_eq: "InitData_init m l =
    l\<lparr>init_log := init_log l @ map LibInit (map snd m), initialized := initialized l \<union> set (map snd m)\<rparr>"
  unfolding InitData_init_def
  by (induction m arbitrary: l) (auto simp: call_libInit_def)

lemma foldl_exit: "foldl (\<lambda>l (p, i). call_libExit i l) l m =
    l\<lparr>init_log := init_log l @ map LibExit (map snd m), initialized := initialized l - set (map snd m)\<rparr>"
  by (induction m arbitrary: l) (simp_all add: call_libExit_def split_beta Diff_insert2[symmetric])

lemma InitData_finish_eq: "InitData_finish m l =
    l\<lparr>init_log := init_log l @ map LibExit (rev (map snd m)), initialized := initialized l - set (map snd m)\<rparr>"
  by (simp add: InitData_finish_def foldl_exit rev_map)

lemma counter_nonzero: "0 < d \<Longrightarrow> d < 2 ^ 64 \<Longrightarrow> (of_nat d :: 64 word) \<noteq> 0"
  by (simp add: word_of_nat_eq_0_iff) (use dvd_imp_le in fastforce)

lemma lib_run_nested:
  assumes "nested (map snd m) ops d = Some (d', es)" "d + length ops < 2 ^ 64"
    "init_counter l = of_nat d" "init_data l = Some m" "initialized l = (if d = 0 then {} else set (map snd m))"
  shows "init_counter (lib_run ops l) = of_nat d' \<and> init_data (lib_run ops l) = Some m \<and>
    initialized (lib_run ops l) = (if d' = 0 then {} else set (map snd m)) \<and>
    init_log (lib_run ops l) = init_log l @ es"
  using assms
proof (induction "map snd m" ops d arbitrary: l es rule: nested.induct)
  case (1 d)
  then show ?case by (simp add: lib_run_def)
next
  case (2 ops d)
  from "2.prems"(1) obtain es' where es: "nested (map snd m) ops (Suc d) = Some (d', es')"
    "es = (if d = 0 then map LibInit (map snd m) else []) @ es'" by auto
  let ?l = "lib_init l"
  have "init_counter l \<noteq> 0 \<longleftrightarrow> d \<noteq> 0"
    using "2.prems"(2,3) counter_nonzero[of d] by (cases "d = 0") auto
  then have l: "init_counter ?l = of_nat (Suc d)" "init_data ?l = Some m"
    "initialized ?l = set (map snd m)"
    "init_log ?l = init_log l @ (if d = 0 then map LibInit (map snd m) else [])"
    using "2.prems" by (auto simp: lib_init_def Let_def InitData_init_eq)
  from "2.hyps"[OF es(1) _ l(1,2)] l(3,4) "2.prems"(2) es(2) show ?case
    by (simp add: lib_run_def)
next
  case (4 ops d)
  from "4.prems"(1) obtain es' where es: "nested (map snd m) ops d = Some (d', es')"
    "es = (if d = 0 then map LibExit (rev (map snd m)) else []) @ es'" by auto
  let ?l = "lib_finish l"
  have c: "init_counter l - 1 = of_nat d" using "4.prems"(3) by simp
  then have "init_counter l - 1 \<noteq> 0 \<longleftrightarrow> d \<noteq> 0"
    using "4.prems"(2) counter_nonzero[of d] by (cases "d = 0") auto
  then have l: "init_counter ?l = of_nat d" "init_data ?l = Some m"
    "initialized ?l = (if d = 0 then {} else set (map snd m))"
    "init_log ?l = init_log l @ (if d = 0 then map LibExit (rev (map snd m)) else [])"
    using "4.prems" c by (auto simp: lib_finish_def Let_def InitData_finish_eq)
  from "4.hyps"[OF es(1) _ l(1,2)] l(3,4) "4.prems"(2) es(2) show ?case
    by (simp add: lib_run_def)
qed simp

text \<open>
  A \<^verbatim>\<open>finish()\<close> without an \<^verbatim>\<open>init()\<close> before it wraps the counter around to its maximum,
  and the \<^verbatim>\<open>init()\<close> that follows brings it back to zero without initializing anything.
\<close>

theorem finish_without_init:
  "init_counter (lib_finish (library_start\<lparr>init_data := Some m\<rparr>)) = - 1 \<and>
   (let l = lib_run [DoFinish, DoInit] (library_start\<lparr>init_data := Some m\<rparr>)
    in initialized l = {} \<and> init_log l = [] \<and> init_counter l = 0)"
  by (simp add: lib_run_def lib_finish_def lib_init_def library_start_def Let_def)

end
