(* ===== verification/ProcTypes.thy ===== *)
theory ProcTypes
  imports BitMask
begin

text \<open>
  The basic types of process control: process IDs, signals, exit and wait statuses and the
  state of a child (\<^verbatim>\<open>include/proc/types.hxx\<close>, \<^verbatim>\<open>WaitStatus\<close> of \<^verbatim>\<open>include/proc/process.hxx\<close>
  and \<^verbatim>\<open>src/proc/process.cxx\<close>, \<^verbatim>\<open>include/proc/SigSet.hxx\<close>).  The strong enums are the integers
  they stand for, with the Linux values of the constants.
\<close>

subsection \<open>Identifiers\<close>

type_synonym ProcessID = int

datatype ProcessID_const = PID_INVALID | PID_SELF | PID_CHILD

primrec ProcessID_of :: "ProcessID_const \<Rightarrow> ProcessID" where
  "ProcessID_of PID_INVALID = -1"
| "ProcessID_of PID_SELF = 0"
| "ProcessID_of PID_CHILD = 0"

datatype ProcessGroupID_const = PGID_INVALID | PGID_SELF

primrec ProcessGroupID_of :: "ProcessGroupID_const \<Rightarrow> int" where
  "ProcessGroupID_of PGID_INVALID = -1"
| "ProcessGroupID_of PGID_SELF = 0"

datatype SessionID_const = SID_INVALID

primrec SessionID_of :: "SessionID_const \<Rightarrow> int" where
  "SessionID_of SID_INVALID = -1"

record ProcessCtx =
  ctx_pid :: ProcessID
  ctx_uid :: int

datatype ExitStatus = EXIT_INVALID | EXIT_SUCCESS | EXIT_FAILURE | PRE_EXEC_ERROR
  | PROG_NOT_EXECUTABLE | PROG_NOT_FOUND | BAD_EXIT_VAL | EXIT_MAXIMUM

primrec ExitStatus_value :: "ExitStatus \<Rightarrow> int" where
  "ExitStatus_value EXIT_INVALID = -1"
| "ExitStatus_value EXIT_SUCCESS = 0"
| "ExitStatus_value EXIT_FAILURE = 1"
| "ExitStatus_value PRE_EXEC_ERROR = 125"
| "ExitStatus_value PROG_NOT_EXECUTABLE = 126"
| "ExitStatus_value PROG_NOT_FOUND = 127"
| "ExitStatus_value BAD_EXIT_VAL = 128"
| "ExitStatus_value EXIT_MAXIMUM = 255"

subsection \<open>Signals\<close>

datatype (plugins only: lifting) SignalNr = SIG_NONE | SIG_HANGUP | SIG_INTERRUPT | SIG_QUIT
  | SIG_ILL | SIG_TRAP | SIG_SYS_TRAP | SIG_ABORT | SIG_IOT | SIG_BUS | SIG_FPE | SIG_KILL
  | SIG_USR1 | SIG_SEGV | SIG_USR2 | SIG_PIPE | SIG_ALARM | SIG_TERMINATE | SIG_STACK_FAULT
  | SIG_CHILD | SIG_CONT | SIG_STOP | SIG_TERM_STOP | SIG_TERM_INPUT | SIG_TERM_OUTPUT
  | SIG_URGENT | SIG_CPU_EXCEEDED | SIG_FS_EXCEEDED | SIG_VIRTUAL_ALARM | SIG_PROFILING
  | SIG_WIN_CHANGED | SIG_IO_EVENT | SIG_POLL | SIG_POWER | SIG_BAD_SYS | SIG_MAXIMUM

text \<open>A signal object holds a number, which need not be one of the constants.\<close>

type_synonym Signal = int

primrec SignalNr_value :: "SignalNr \<Rightarrow> Signal" where
  "SignalNr_value SIG_NONE = 0"
| "SignalNr_value SIG_HANGUP = 1"
| "SignalNr_value SIG_INTERRUPT = 2"
| "SignalNr_value SIG_QUIT = 3"
| "SignalNr_value SIG_ILL = 4"
| "SignalNr_value SIG_TRAP = 5"
| "SignalNr_value SIG_SYS_TRAP = 0x85"
| "SignalNr_value SIG_ABORT = 6"
| "SignalNr_value SIG_IOT = 6"
| "SignalNr_value SIG_BUS = 7"
| "SignalNr_value SIG_FPE = 8"
| "SignalNr_value SIG_KILL = 9"
| "SignalNr_value SIG_USR1 = 10"
| "SignalNr_value SIG_SEGV = 11"
| "SignalNr_value SIG_USR2 = 12"
| "SignalNr_value SIG_PIPE = 13"
| "SignalNr_value SIG_ALARM = 14"
| "SignalNr_value SIG_TERMINATE = 15"
| "SignalNr_value SIG_STACK_FAULT = 16"
| "SignalNr_value SIG_CHILD = 17"
| "SignalNr_value SIG_CONT = 18"
| "SignalNr_value SIG_STOP = 19"
| "SignalNr_value SIG_TERM_STOP = 20"
| "SignalNr_value SIG_TERM_INPUT = 21"
| "SignalNr_value SIG_TERM_OUTPUT = 22"
| "SignalNr_value SIG_URGENT = 23"
| "SignalNr_value SIG_CPU_EXCEEDED = 24"
| "SignalNr_value SIG_FS_EXCEEDED = 25"
| "SignalNr_value SIG_VIRTUAL_ALARM = 26"
| "SignalNr_value SIG_PROFILING = 27"
| "SignalNr_value SIG_WIN_CHANGED = 28"
| "SignalNr_value SIG_IO_EVENT = 29"
| "SignalNr_value SIG_POLL = 29"
| "SignalNr_value SIG_POWER = 30"
| "SignalNr_value SIG_BAD_SYS = 31"
| "SignalNr_value SIG_MAXIMUM = 65"

definition Signal_valid :: "Signal \<Rightarrow> bool" where
  "Signal_valid s \<longleftrightarrow> s \<noteq> SignalNr_value SIG_NONE"

definition Signal_isPtraceEventStop :: "Signal \<Rightarrow> bool" where
  "Signal_isPtraceEventStop s \<longleftrightarrow> SignalNr_value SIG_MAXIMUM < s"

text \<open>
  A signal set is the set of its members.  The C functions behind it refuse numbers outside
  of 1 to 64 and leave the set alone, and the class ignores what they return.
\<close>

definition sig_in_range :: "Signal \<Rightarrow> bool" where
  "sig_in_range s \<longleftrightarrow> 1 \<le> s \<and> s \<le> 64"

type_synonym SigSet = "Signal set"

definition SigSet_clear :: SigSet where
  "SigSet_clear = {}"

definition SigSet_fill :: SigSet where
  "SigSet_fill = {1..64}"

text \<open>
  \<^verbatim>\<open>sigismember()\<close> is \<open>-1\<close> for a number out of range, which converts to \<^verbatim>\<open>true\<close>.
\<close>

definition SigSet_isSet :: "SigSet \<Rightarrow> Signal \<Rightarrow> bool" where
  "SigSet_isSet S s \<longleftrightarrow> (if sig_in_range s then s \<in> S else True)"

definition SigSet_set :: "SigSet \<Rightarrow> Signal \<Rightarrow> SigSet" where
  "SigSet_set S s = (if sig_in_range s then insert s S else S)"

definition SigSet_del :: "SigSet \<Rightarrow> Signal \<Rightarrow> SigSet" where
  "SigSet_del S s = (if sig_in_range s then S - {s} else S)"

definition SigSet_of_list :: "Signal list \<Rightarrow> SigSet" where
  "SigSet_of_list sigs = foldl SigSet_set SigSet_clear sigs"

lemma SigSet_of_list_set: "SigSet_of_list sigs = {s \<in> set sigs. sig_in_range s}"
proof -
  have "foldl SigSet_set S sigs = S \<union> {s \<in> set sigs. sig_in_range s}" for S
    by (induction sigs arbitrary: S) (auto simp: SigSet_set_def)
  then show ?thesis by (simp add: SigSet_of_list_def SigSet_clear_def)
qed

subsection \<open>The state of a child process\<close>

datatype ChildEvent = EV_INVALID | EV_EXITED | EV_KILLED | EV_DUMPED | EV_TRAPPED | EV_STOPPED
  | EV_CONTINUED

primrec ChildEvent_value :: "ChildEvent \<Rightarrow> int" where
  "ChildEvent_value EV_INVALID = -1"
| "ChildEvent_value EV_EXITED = 1"
| "ChildEvent_value EV_KILLED = 2"
| "ChildEvent_value EV_DUMPED = 3"
| "ChildEvent_value EV_TRAPPED = 4"
| "ChildEvent_value EV_STOPPED = 5"
| "ChildEvent_value EV_CONTINUED = 6"

record ChildState =
  cs_event :: int
  cs_child :: ProcessCtx
  cs_status :: "int option"
  cs_signal :: "Signal option"

definition is_event :: "ChildEvent \<Rightarrow> ('z) ChildState_scheme \<Rightarrow> bool" where
  "is_event e c \<longleftrightarrow> cs_event c = ChildEvent_value e"

abbreviation "cs_exited \<equiv> is_event EV_EXITED"
abbreviation "cs_killed \<equiv> is_event EV_KILLED"
abbreviation "cs_dumped \<equiv> is_event EV_DUMPED"
abbreviation "cs_trapped \<equiv> is_event EV_TRAPPED"
abbreviation "cs_continued \<equiv> is_event EV_CONTINUED"
abbreviation "cs_stopped \<equiv> is_event EV_STOPPED"

definition cs_signaled :: "('z) ChildState_scheme \<Rightarrow> bool" where
  "cs_signaled c \<longleftrightarrow> cs_killed c \<or> cs_dumped c \<or> cs_stopped c \<or> cs_continued c"

definition cs_exitedSuccessfully :: "('z) ChildState_scheme \<Rightarrow> bool" where
  "cs_exitedSuccessfully c \<longleftrightarrow> cs_exited c \<and> cs_status c = Some (ExitStatus_value EXIT_SUCCESS)"

definition cs_valid :: "('z) ChildState_scheme \<Rightarrow> bool" where
  "cs_valid c \<longleftrightarrow> \<not> is_event EV_INVALID c"

definition cs_reset :: "('z) ChildState_scheme \<Rightarrow> ('z) ChildState_scheme" where
  "cs_reset c = c\<lparr>cs_event := ChildEvent_value EV_INVALID,
     cs_child := (cs_child c)\<lparr>ctx_pid := ProcessID_of PID_INVALID\<rparr>, cs_status := None, cs_signal := None\<rparr>"

subsection \<open>Wait statuses\<close>

text \<open>The macros of \<^verbatim>\<open>sys/wait.h\<close> that the class is written with.\<close>

definition WTERMSIG :: "int \<Rightarrow> int" where "WTERMSIG s = s AND 0x7f"
definition WEXITSTATUS :: "int \<Rightarrow> int" where "WEXITSTATUS s = drop_bit 8 (s AND 0xff00)"
definition WIFEXITED :: "int \<Rightarrow> bool" where "WIFEXITED s \<longleftrightarrow> WTERMSIG s = 0"
definition WIFSIGNALED :: "int \<Rightarrow> bool" where
  "WIFSIGNALED s \<longleftrightarrow> 0 < drop_bit 1 (signed_take_bit 7 ((s AND 0x7f) + 1) :: int)"
definition WIFSTOPPED :: "int \<Rightarrow> bool" where "WIFSTOPPED s \<longleftrightarrow> s AND 0xff = 0x7f"
definition WIFCONTINUED :: "int \<Rightarrow> bool" where "WIFCONTINUED s \<longleftrightarrow> s = 0xffff"
definition WCOREFLAG :: int where "WCOREFLAG = 0x80"
definition W_EXITCODE :: "int \<Rightarrow> int \<Rightarrow> int" where "W_EXITCODE st sig = push_bit 8 st OR sig"
definition W_STOPCODE :: "int \<Rightarrow> int" where "W_STOPCODE sig = push_bit 8 sig OR 0x7f"

text \<open>The object is its raw status.  The optional signal is dereferenced without a test.\<close>

definition WaitStatus_of :: "('z) ChildState_scheme \<Rightarrow> int option" where
  "WaitStatus_of state =
     (if cs_dumped state then map_option (\<lambda>s. (0 OR s) OR WCOREFLAG) (cs_signal state)
      else if cs_stopped state \<or> cs_trapped state then map_option W_STOPCODE (cs_signal state)
      else if cs_continued state then Some 0xffff
      else if cs_killed state then map_option (\<lambda>s. 0 OR s) (cs_signal state)
      else if cs_exited state then map_option (\<lambda>st. W_EXITCODE st 0) (cs_status state)
      else Some 0)"

definition ws_exited :: "int \<Rightarrow> bool" where "ws_exited = WIFEXITED"
definition ws_signaled :: "int \<Rightarrow> bool" where "ws_signaled = WIFSIGNALED"
definition ws_dumped :: "int \<Rightarrow> bool" where
  "ws_dumped s \<longleftrightarrow> ws_signaled s \<and> s AND WCOREFLAG \<noteq> 0"
definition ws_stopped :: "int \<Rightarrow> bool" where "ws_stopped = WIFSTOPPED"
definition ws_continued :: "int \<Rightarrow> bool" where "ws_continued = WIFCONTINUED"
definition ws_status :: "int \<Rightarrow> int option" where
  "ws_status s = (if \<not> ws_exited s then None else Some (WEXITSTATUS s))"
definition ws_termSig :: "int \<Rightarrow> Signal option" where
  "ws_termSig s = (if \<not> ws_signaled s then None else Some (WTERMSIG s))"
definition ws_stopSig :: "int \<Rightarrow> Signal option" where
  "ws_stopSig s = (if \<not> ws_stopped s then None else Some (WEXITSTATUS s))"

named_theorems wait_defs "definitions of the wait status"

lemmas [wait_defs] = WTERMSIG_def WEXITSTATUS_def WIFEXITED_def WIFSIGNALED_def WIFSTOPPED_def
  WIFCONTINUED_def WCOREFLAG_def W_EXITCODE_def W_STOPCODE_def ws_exited_def ws_signaled_def
  ws_dumped_def ws_stopped_def ws_continued_def ws_status_def ws_termSig_def ws_stopSig_def

lemma int_low_bits:
  "(s::int) AND 0x7f = s mod 128" "s AND 0xff = s mod 256"
  using take_bit_eq_mask[of 7 s] take_bit_eq_mask[of 8 s]
  by (simp_all add: mask_eq_exp_minus_1 take_bit_eq_mod)

lemma signaled_range:
  assumes "0 \<le> t" "t < (128::int)"
  shows "0 < (drop_bit 1 (signed_take_bit 7 (t + 1)) :: int) \<longleftrightarrow> 1 \<le> t \<and> t \<le> 126"
proof (cases "t = 127")
  case True
  then show ?thesis by (simp add: signed_take_bit_def not_int_def mask_eq_exp_minus_1 drop_bit_eq_div)
next
  case False
  then have "signed_take_bit 7 (t + 1) = t + 1"
    using assms by (intro signed_take_bit_int_eq_self) simp_all
  then show ?thesis using False assms by (auto simp: drop_bit_eq_div)
qed

lemma or_high:
  "0 \<le> s \<Longrightarrow> s < 128 \<Longrightarrow> (s::int) OR 0x80 = s + 128"
  "(push_bit 8 s :: int) OR 0x7f = 256 * s + 127"
proof -
  assume "0 \<le> s" "s < 128"
  then show "s OR 0x80 = s + 128"
    using concat_bit_eq[of 7 s 1]
    by (simp add: concat_bit_def take_bit_int_eq_self push_bit_eq_mult)
next
  show "(push_bit 8 s :: int) OR 0x7f = 256 * s + 127"
    using concat_bit_eq[of 8 127 s]
    by (simp add: concat_bit_def take_bit_int_eq_self push_bit_eq_mult or.commute)
qed

lemma wexitstatus: "WEXITSTATUS s = s div 256 mod 256"
proof -
  have "(0xff00::int) = push_bit 8 (mask 8)"
    by (simp add: push_bit_eq_mult mask_eq_exp_minus_1)
  moreover have "s AND push_bit 8 (mask 8) = push_bit 8 (take_bit 8 (drop_bit 8 s))"
    by (intro bit_eqI) (auto simp: bit_simps)
  ultimately have "s AND 0xff00 = push_bit 8 (take_bit 8 (drop_bit 8 s))" by simp
  then show ?thesis
    by (simp add: WEXITSTATUS_def drop_bit_eq_div take_bit_eq_mod push_bit_eq_mult)
qed

lemma ws_questions:
  "ws_exited ws \<longleftrightarrow> ws mod 128 = 0"
  "ws_signaled ws \<longleftrightarrow> 1 \<le> ws mod 128 \<and> ws mod 128 \<le> 126"
  "ws_dumped ws \<longleftrightarrow> ws_signaled ws \<and> odd (ws div 128)"
  "ws_stopped ws \<longleftrightarrow> ws mod 256 = 127"
  "ws_continued ws \<longleftrightarrow> ws = 0xffff"
  "ws_status ws = (if ws_exited ws then Some (ws div 256 mod 256) else None)"
  "ws_termSig ws = (if ws_signaled ws then Some (ws mod 128) else None)"
  "ws_stopSig ws = (if ws_stopped ws then Some (ws div 256 mod 256) else None)"
proof -
  have "ws AND 128 = 0 \<longleftrightarrow> \<not> odd (ws div 128)"
    using and_exp_eq_0_iff_not_bit[of ws 7] by (simp add: bit_iff_odd)
  then show "ws_dumped ws \<longleftrightarrow> ws_signaled ws \<and> odd (ws div 128)"
    by (simp add: ws_dumped_def WCOREFLAG_def)
  show "ws_signaled ws \<longleftrightarrow> 1 \<le> ws mod 128 \<and> ws mod 128 \<le> 126"
    using signaled_range[of "ws mod 128"] by (simp add: ws_signaled_def WIFSIGNALED_def int_low_bits)
qed (simp_all add: ws_exited_def ws_stopped_def ws_continued_def ws_status_def ws_termSig_def
    ws_stopSig_def WIFEXITED_def WIFSTOPPED_def WIFCONTINUED_def WTERMSIG_def wexitstatus int_low_bits)

text \<open>
  What the kernel reports about a child: an exit status of eight bits, a signal that ended the
  process, or the signal of a stop, into which a traced child packs the kind of its event.
\<close>

definition complete_state :: "('z) ChildState_scheme \<Rightarrow> bool" where
  "complete_state c \<longleftrightarrow>
     (case cs_status c of Some st \<Rightarrow> cs_exited c \<and> 0 \<le> st \<and> st < 256
      | None \<Rightarrow> (case cs_signal c of
          Some s \<Rightarrow> 0 < s \<and> ((cs_killed c \<or> cs_dumped c) \<and> s < 127 \<or>
            cs_stopped c \<or> cs_trapped c \<or> cs_continued c)
        | None \<Rightarrow> False))"

text \<open>
  C22: The wait status built from the state of a child agrees with the state on how the process
  exited, on a core dump, on having been continued and on the exit status.  Two questions of the
  same name mean something else: \<^verbatim>\<open>signaled()\<close> of the state is also true for a child that was
  stopped or continued, that of the wait status only for one a signal has ended; and
  \<^verbatim>\<open>stopped()\<close> of the wait status is also true for a traced child in a trap, that of the state
  is not.  The signal is found as the terminating one or as the stopping one, of which the lower
  eight bits are kept, so that the event that a traced child reports in the upper ones is lost;
  the signal of a child that was continued is lost.
\<close>

theorem wait_status_describes_child:
  assumes "complete_state c"
  shows "\<exists>ws. WaitStatus_of c = Some ws \<and>
    (ws_exited ws \<longleftrightarrow> cs_exited c) \<and> (ws_dumped ws \<longleftrightarrow> cs_dumped c) \<and>
    (ws_continued ws \<longleftrightarrow> cs_continued c) \<and> ws_status ws = cs_status c \<and>
    (cs_exitedSuccessfully c \<longleftrightarrow> ws_status ws = Some (ExitStatus_value EXIT_SUCCESS)) \<and>
    (cs_signaled c \<longleftrightarrow> ws_signaled ws \<or> cs_stopped c \<or> cs_continued c) \<and>
    (cs_stopped c \<or> cs_continued c \<or> cs_trapped c \<longrightarrow> \<not> ws_signaled ws) \<and>
    (ws_stopped ws \<longleftrightarrow> cs_stopped c \<or> cs_trapped c) \<and>
    ws_termSig ws = (if cs_killed c \<or> cs_dumped c then cs_signal c else None) \<and>
    ws_stopSig ws = (if cs_stopped c \<or> cs_trapped c then map_option (\<lambda>s. s mod 256) (cs_signal c) else None)"
proof (cases "cs_status c")
  case (Some st)
  then have st: "cs_exited c" "0 \<le> st" "st < 256" using assms by (auto simp: complete_state_def)
  then have "WaitStatus_of c = Some (256 * st)"
    using Some by (simp add: WaitStatus_of_def is_event_def W_EXITCODE_def push_bit_eq_mult)
  moreover have "(256 * st) mod 128 = 0" "(256 * st) mod 256 = 0" by simp_all
  moreover have "256 * st \<noteq> 0xffff" using st(3) by linarith
  ultimately show ?thesis
    using st Some by (simp add: ws_questions is_event_def cs_signaled_def cs_exitedSuccessfully_def)
next
  case None
  with assms obtain s where s: "cs_signal c = Some s" "0 < s"
    "(cs_killed c \<or> cs_dumped c) \<and> s < 127 \<or> cs_stopped c \<or> cs_trapped c \<or> cs_continued c"
    by (auto simp: complete_state_def split: option.splits)
  have stop: "(256 * s + 127) mod 128 = 127" "(256 * s + 127) mod 256 = 127"
    "(256 * s + 127) div 256 = s"
    using mod_mult_self2[of 127 128 "2 * s"] by (simp_all add: algebra_simps)
  have "(0xffff :: int) mod 256 \<noteq> 127" by simp
  with stop(2) have stop': "256 * s + 127 \<noteq> 0xffff" by metis
  have sig: "s mod 128 = s" "s mod 256 = s" "s div 128 = 0" "(s + 128) mod 128 = s"
    "(s + 128) mod 256 = s + 128" "(s + 128) div 128 = 1" if "s < 127"
    using s(2) that by (simp_all add: div_pos_pos_trivial)
  from s(3) consider "cs_killed c" "s < 127" | "cs_dumped c" "s < 127" | "cs_stopped c \<or> cs_trapped c" | "cs_continued c"
    by blast
  then show ?thesis
  proof cases
    case 1
    then have "WaitStatus_of c = Some s" using s(1) by (simp add: WaitStatus_of_def is_event_def)
    then show ?thesis using 1 s(1,2) sig by (simp add: ws_questions is_event_def cs_signaled_def cs_exitedSuccessfully_def None)
  next
    case 2
    then have "WaitStatus_of c = Some (s + 128)"
      using s(1,2) by (simp add: WaitStatus_of_def is_event_def WCOREFLAG_def or_high)
    then show ?thesis using 2 s(1,2) sig by (simp add: ws_questions is_event_def cs_signaled_def cs_exitedSuccessfully_def None)
  next
    case 3
    then have "WaitStatus_of c = Some (256 * s + 127)"
      using s(1) by (auto simp: WaitStatus_of_def is_event_def W_STOPCODE_def or_high)
    then show ?thesis using 3 s(1) stop stop' by (auto simp: ws_questions is_event_def cs_signaled_def cs_exitedSuccessfully_def None)
  next
    case 4
    then have "WaitStatus_of c = Some 0xffff" by (simp add: WaitStatus_of_def is_event_def)
    then show ?thesis using 4 s(1) by (simp add: ws_questions is_event_def cs_signaled_def cs_exitedSuccessfully_def None)
  qed
qed

definition child_with :: "ChildEvent \<Rightarrow> Signal \<Rightarrow> ChildState" where
  "child_with e sig = \<lparr>cs_event = ChildEvent_value e, cs_child = \<lparr>ctx_pid = 100, ctx_uid = 0\<rparr>,
     cs_status = None, cs_signal = Some sig\<rparr>"

theorem wait_status_describes_child_witness:
  "(\<exists>ws. WaitStatus_of (child_with EV_DUMPED 11) = Some ws \<and> ws_dumped ws \<and> ws_termSig ws = Some 11) \<and>
   (\<exists>ws. WaitStatus_of (child_with EV_STOPPED 19) = Some ws \<and> cs_signaled (child_with EV_STOPPED 19) \<and>
     \<not> ws_signaled ws \<and> ws_stopSig ws = Some 19) \<and>
   (\<exists>ws. WaitStatus_of (child_with EV_TRAPPED 0x405) = Some ws \<and> \<not> cs_stopped (child_with EV_TRAPPED 0x405) \<and>
     ws_stopped ws \<and> ws_stopSig ws = Some 5)"
proof (intro conjI)
  have "complete_state (child_with EV_DUMPED 11)" "cs_dumped (child_with EV_DUMPED 11)"
    "cs_signal (child_with EV_DUMPED 11) = Some 11"
    by (simp_all add: complete_state_def is_event_def child_with_def)
  then show "\<exists>ws. WaitStatus_of (child_with EV_DUMPED 11) = Some ws \<and> ws_dumped ws \<and> ws_termSig ws = Some 11"
    using wait_status_describes_child by metis
  have s: "complete_state (child_with EV_STOPPED 19)" "cs_stopped (child_with EV_STOPPED 19)"
    "cs_signal (child_with EV_STOPPED 19) = Some 19"
    by (simp_all add: complete_state_def is_event_def child_with_def)
  then show "\<exists>ws. WaitStatus_of (child_with EV_STOPPED 19) = Some ws \<and> cs_signaled (child_with EV_STOPPED 19) \<and>
     \<not> ws_signaled ws \<and> ws_stopSig ws = Some 19"
    using wait_status_describes_child[OF s(1)] by auto
  have t: "complete_state (child_with EV_TRAPPED 0x405)" "cs_trapped (child_with EV_TRAPPED 0x405)"
    "\<not> cs_stopped (child_with EV_TRAPPED 0x405)" "cs_signal (child_with EV_TRAPPED 0x405) = Some 0x405"
    by (simp_all add: complete_state_def is_event_def child_with_def)
  then show "\<exists>ws. WaitStatus_of (child_with EV_TRAPPED 0x405) = Some ws \<and> \<not> cs_stopped (child_with EV_TRAPPED 0x405) \<and>
     ws_stopped ws \<and> ws_stopSig ws = Some 5"
    using wait_status_describes_child[OF t(1)] by auto
qed

end
