(* ===== verification/SigInfo.thy ===== *)
theory SigInfo
  imports ProcTypes Kernel
begin

text \<open>
  What a signal carries: \<^verbatim>\<open>SigInfo\<close> (\<^verbatim>\<open>include/proc/SigInfo.hxx\<close>, \<^verbatim>\<open>src/proc/SigInfo.cxx\<close>) and
  its twin \<^verbatim>\<open>SignalFD::Info\<close> (\<^verbatim>\<open>include/proc/SignalFD.hxx\<close>, \<^verbatim>\<open>src/proc/SignalFD.cxx\<close>).  The raw
  structures are records with one field for every member that the classes read; members of
  the C union are views of the same bytes and are only ever read.  Integers that C stores
  with a sign are \<open>int\<close>, the others words.  The order of bytes is that of x86.
\<close>

subsection \<open>Constants\<close>

datatype Source = SRC_USER | SRC_KERNEL | SRC_QUEUE | SRC_TIMER | SRC_MESGQ | SRC_ASYNCIO
  | SRC_QSIGIO | SRC_TKILL

primrec Source_value :: "Source \<Rightarrow> int" where
  "Source_value SRC_USER = 0"
| "Source_value SRC_KERNEL = 0x80"
| "Source_value SRC_QUEUE = -1"
| "Source_value SRC_TIMER = -2"
| "Source_value SRC_MESGQ = -3"
| "Source_value SRC_ASYNCIO = -4"
| "Source_value SRC_QSIGIO = -5"
| "Source_value SRC_TKILL = -6"

datatype IllReason = ILL_OPCODE | ILL_OPERAND | ILL_ADDRESS | ILL_TRAP | ILL_PRIV_OP
  | ILL_PRIV_REG | ILL_COPROC | ILL_BAD_STACK | ILL_BAD_IADDR

primrec IllReason_value :: "IllReason \<Rightarrow> int" where
  "IllReason_value ILL_OPCODE = 1"
| "IllReason_value ILL_OPERAND = 2"
| "IllReason_value ILL_ADDRESS = 3"
| "IllReason_value ILL_TRAP = 4"
| "IllReason_value ILL_PRIV_OP = 5"
| "IllReason_value ILL_PRIV_REG = 6"
| "IllReason_value ILL_COPROC = 7"
| "IllReason_value ILL_BAD_STACK = 8"
| "IllReason_value ILL_BAD_IADDR = 9"

datatype FPEReason = INT_DIV_ZERO | INT_OVERFLOW | FLOAT_DIV_ZERO | FLOAT_OVERFLOW
  | FLOAT_UNDERFLOW | FLOAT_INEXACT | FLOAT_INVALID | FLOAT_SUB_RANGE | FLOAT_UNKNOWN
  | FLOAT_CONDTRAP

primrec FPEReason_value :: "FPEReason \<Rightarrow> int" where
  "FPEReason_value INT_DIV_ZERO = 1"
| "FPEReason_value INT_OVERFLOW = 2"
| "FPEReason_value FLOAT_DIV_ZERO = 3"
| "FPEReason_value FLOAT_OVERFLOW = 4"
| "FPEReason_value FLOAT_UNDERFLOW = 5"
| "FPEReason_value FLOAT_INEXACT = 6"
| "FPEReason_value FLOAT_INVALID = 7"
| "FPEReason_value FLOAT_SUB_RANGE = 8"
| "FPEReason_value FLOAT_UNKNOWN = 14"
| "FPEReason_value FLOAT_CONDTRAP = 15"

datatype SegvReason = MAP_ERROR | ACCESS_ERROR | BOUND_ERROR | PROT_KEY_ERROR | ACCESS_ADI
  | MCD_DISRUPT | PRECISE_MCD | ASYNC_MTE | SYNC_MTE | CPROT_ERROR

primrec SegvReason_value :: "SegvReason \<Rightarrow> int" where
  "SegvReason_value MAP_ERROR = 1"
| "SegvReason_value ACCESS_ERROR = 2"
| "SegvReason_value BOUND_ERROR = 3"
| "SegvReason_value PROT_KEY_ERROR = 4"
| "SegvReason_value ACCESS_ADI = 5"
| "SegvReason_value MCD_DISRUPT = 6"
| "SegvReason_value PRECISE_MCD = 7"
| "SegvReason_value ASYNC_MTE = 8"
| "SegvReason_value SYNC_MTE = 9"
| "SegvReason_value CPROT_ERROR = 10"

datatype BusReason = BUS_ALIGNMENT | BUS_NOT_EXISTING | BUS_OBJECT_ERROR
  | MCE_ACTION_REQUIRED | MCE_ACTION_OPTIONAL

primrec BusReason_value :: "BusReason \<Rightarrow> int" where
  "BusReason_value BUS_ALIGNMENT = 1"
| "BusReason_value BUS_NOT_EXISTING = 2"
| "BusReason_value BUS_OBJECT_ERROR = 3"
| "BusReason_value MCE_ACTION_REQUIRED = 4"
| "BusReason_value MCE_ACTION_OPTIONAL = 5"

datatype SysReason = SYSR_SECCOMP | SYSR_USER_DISPATCH

primrec SysReason_value :: "SysReason \<Rightarrow> int" where
  "SysReason_value SYSR_SECCOMP = 1"
| "SysReason_value SYSR_USER_DISPATCH = 2"

datatype PollReason = POLLR_INPUT | POLLR_OUTPUT | POLLR_MESSAGE | POLLR_ERROR | POLLR_PRIORITY
  | POLLR_HANGUP

primrec PollReason_value :: "PollReason \<Rightarrow> int" where
  "PollReason_value POLLR_INPUT = 1"
| "PollReason_value POLLR_OUTPUT = 2"
| "PollReason_value POLLR_MESSAGE = 3"
| "PollReason_value POLLR_ERROR = 4"
| "PollReason_value POLLR_PRIORITY = 5"
| "PollReason_value POLLR_HANGUP = 6"

subsection \<open>The data of the signals\<close>

text \<open>\<^verbatim>\<open>union sigval\<close>: eight bytes, of which an integer occupies the lower four.\<close>

type_synonym CustomData = "64 word"

definition CustomData_asInt :: "CustomData \<Rightarrow> int" where
  "CustomData_asInt v = sint (ucast v :: 32 word)"

definition CustomData_asPtr :: "CustomData \<Rightarrow> 64 word" where
  "CustomData_asPtr v = v"

record QueueSigData =
  q_sender :: ProcessCtx
  q_data :: CustomData

record TimerData =
  timer_id :: int
  timer_overrun :: int

record FaultData =
  fault_addr :: "64 word"
  fault_reason :: int

record SegfaultData = FaultData +
  seg_bound :: "(64 word \<times> 64 word) option"
  seg_key :: "32 word option"

record BusData = FaultData +
  bus_addr_lsb :: "16 word option"

record ChildData = ChildState +
  user_time :: "int option"
  system_time :: "int option"

record SysData =
  sys_reason :: int
  sys_call_addr :: "64 word"
  sys_call_nr :: int
  sys_arch :: "32 word"
  sys_error :: int

record PollData =
  poll_reason :: int
  poll_fd :: int
  poll_events :: "16 word"

subsection \<open>SigInfo\<close>

record siginfo =
  si_signo :: int
  si_errno :: int
  si_code :: int
  si_pid :: int
  si_uid :: "32 word"
  si_status :: int
  si_utime :: int
  si_stime :: int
  si_value :: "64 word"
  si_timerid :: int
  si_overrun :: int
  si_addr :: "64 word"
  si_addr_lsb :: "16 word"
  si_lower :: "64 word"
  si_upper :: "64 word"
  si_pkey :: "32 word"
  si_band :: "64 word"
  si_fd :: int
  si_call_addr :: "64 word"
  si_syscall :: int
  si_arch :: "32 word"

definition SigInfo_clear :: siginfo where
  "SigInfo_clear = \<lparr>si_signo = 0, si_errno = 0, si_code = 0, si_pid = 0, si_uid = 0, si_status = 0,
     si_utime = 0, si_stime = 0, si_value = 0, si_timerid = 0, si_overrun = 0, si_addr = 0,
     si_addr_lsb = 0, si_lower = 0, si_upper = 0, si_pkey = 0, si_band = 0, si_fd = 0,
     si_call_addr = 0, si_syscall = 0, si_arch = 0\<rparr>"

definition sigNr :: "siginfo \<Rightarrow> Signal" where
  "sigNr si = si_signo si"

definition isTrustedSource :: "siginfo \<Rightarrow> bool" where
  "isTrustedSource si \<longleftrightarrow> 0 \<le> si_code si"

definition SPECIAL_SIGS :: "Signal set" where
  "SPECIAL_SIGS = SignalNr_value ` {SIG_FPE, SIG_BUS, SIG_ILL, SIG_SEGV, SIG_TRAP, SIG_CHILD,
     SIG_POLL, SIG_BAD_SYS}"

definition si_source :: "siginfo \<Rightarrow> int" where
  "si_source si = (if isTrustedSource si \<and> sigNr si \<in> SPECIAL_SIGS then Source_value SRC_KERNEL
     else si_code si)"

definition isFaultSignal :: "siginfo \<Rightarrow> bool" where
  "isFaultSignal si \<longleftrightarrow> sigNr si \<in> SignalNr_value ` {SIG_ILL, SIG_FPE, SIG_SEGV, SIG_BUS, SIG_TRAP}"

definition procCtx :: "siginfo \<Rightarrow> ProcessCtx" where
  "procCtx si = \<lparr>ctx_pid = si_pid si, ctx_uid = uint (si_uid si)\<rparr>"

definition userSigData :: "siginfo \<Rightarrow> ProcessCtx option" where
  "userSigData si = (if si_source si = Source_value SRC_USER then Some (procCtx si) else None)"

definition queueSigData :: "siginfo \<Rightarrow> QueueSigData option" where
  "queueSigData si = (if si_source si = Source_value SRC_QUEUE
     then Some \<lparr>q_sender = procCtx si, q_data = si_value si\<rparr> else None)"

definition msgQueueData :: "siginfo \<Rightarrow> QueueSigData option" where
  "msgQueueData si = (if si_source si = Source_value SRC_MESGQ
     then Some \<lparr>q_sender = procCtx si, q_data = si_value si\<rparr> else None)"

definition timerData :: "siginfo \<Rightarrow> TimerData option" where
  "timerData si = (if si_source si = Source_value SRC_TIMER
     then Some \<lparr>timer_id = si_timerid si, timer_overrun = si_overrun si\<rparr> else None)"

definition childData :: "siginfo \<Rightarrow> ChildData option" where
  "childData si = (if sigNr si = SignalNr_value SIG_CHILD then
     (let event = si_code si; is_waitid_res = (si_errno si = errno_of Errno_INVALID_ARG) in
       Some \<lparr>cs_event = event, cs_child = procCtx si,
         cs_status = (if event = ChildEvent_value EV_EXITED then Some (si_status si) else None),
         cs_signal = (if event = ChildEvent_value EV_EXITED then None else Some (si_status si)),
         user_time = (if is_waitid_res then None else Some (si_utime si)),
         system_time = (if is_waitid_res then None else Some (si_stime si))\<rparr>)
     else None)"

definition sysData :: "siginfo \<Rightarrow> SysData option" where
  "sysData si = (if sigNr si = SignalNr_value SIG_BAD_SYS
     then Some \<lparr>sys_reason = si_code si, sys_call_addr = si_call_addr si, sys_call_nr = si_syscall si,
       sys_arch = si_arch si, sys_error = si_errno si\<rparr> else None)"

definition pollData :: "siginfo \<Rightarrow> PollData option" where
  "pollData si = (if sigNr si = SignalNr_value SIG_IO_EVENT \<or> sigNr si = SignalNr_value SIG_POLL
     then Some \<lparr>poll_reason = si_code si, poll_fd = si_fd si, poll_events = ucast (si_band si)\<rparr> else None)"

definition illData :: "siginfo \<Rightarrow> FaultData option" where
  "illData si = (if sigNr si = SignalNr_value SIG_ILL
     then Some \<lparr>fault_addr = si_addr si, fault_reason = si_code si\<rparr> else None)"

definition fpeData :: "siginfo \<Rightarrow> FaultData option" where
  "fpeData si = (if sigNr si = SignalNr_value SIG_FPE
     then Some \<lparr>fault_addr = si_addr si, fault_reason = si_code si\<rparr> else None)"

definition segfaultData :: "siginfo \<Rightarrow> SegfaultData option" where
  "segfaultData si = (if sigNr si = SignalNr_value SIG_SEGV
     then Some \<lparr>fault_addr = si_addr si, fault_reason = si_code si,
       seg_bound = (if si_code si = SegvReason_value BOUND_ERROR then Some (si_lower si, si_upper si) else None),
       seg_key = (if si_code si = SegvReason_value PROT_KEY_ERROR then Some (si_pkey si) else None)\<rparr> else None)"

definition busData :: "siginfo \<Rightarrow> BusData option" where
  "busData si = (if sigNr si = SignalNr_value SIG_BUS
     then Some \<lparr>fault_addr = si_addr si, fault_reason = si_code si,
       bus_addr_lsb = (if si_code si \<in> BusReason_value ` {MCE_ACTION_REQUIRED, MCE_ACTION_OPTIONAL}
         then Some (si_addr_lsb si) else None)\<rparr> else None)"

subsection \<open>The information read from a signal descriptor\<close>

record ssiginfo =
  ssi_signo :: "32 word"
  ssi_errno :: int
  ssi_code :: int
  ssi_pid :: "32 word"
  ssi_uid :: "32 word"
  ssi_fd :: int
  ssi_tid :: "32 word"
  ssi_band :: "32 word"
  ssi_overrun :: "32 word"
  ssi_status :: int
  ssi_ptr :: "64 word"
  ssi_utime :: "64 word"
  ssi_stime :: "64 word"
  ssi_syscall :: int
  ssi_call_addr :: "64 word"
  ssi_arch :: "32 word"

definition Info_clear :: ssiginfo where
  "Info_clear = \<lparr>ssi_signo = 0, ssi_errno = 0, ssi_code = 0, ssi_pid = 0, ssi_uid = 0, ssi_fd = 0,
     ssi_tid = 0, ssi_band = 0, ssi_overrun = 0, ssi_status = 0, ssi_ptr = 0, ssi_utime = 0,
     ssi_stime = 0, ssi_syscall = 0, ssi_call_addr = 0, ssi_arch = 0\<rparr>"

definition Info_sigNr :: "ssiginfo \<Rightarrow> Signal" where
  "Info_sigNr r = sint (ssi_signo r)"

definition Info_isTrustedSource :: "ssiginfo \<Rightarrow> bool" where
  "Info_isTrustedSource r \<longleftrightarrow> 0 \<le> ssi_code r"

definition Info_source :: "ssiginfo \<Rightarrow> int" where
  "Info_source r = (if Info_isTrustedSource r \<and> Info_sigNr r \<in> SPECIAL_SIGS then Source_value SRC_KERNEL
     else ssi_code r)"

definition Info_procCtx :: "ssiginfo \<Rightarrow> ProcessCtx" where
  "Info_procCtx r = \<lparr>ctx_pid = sint (ssi_pid r), ctx_uid = uint (ssi_uid r)\<rparr>"

definition Info_userSigData :: "ssiginfo \<Rightarrow> ProcessCtx option" where
  "Info_userSigData r = (if Info_source r = Source_value SRC_USER then Some (Info_procCtx r) else None)"

definition Info_queueSigData :: "ssiginfo \<Rightarrow> QueueSigData option" where
  "Info_queueSigData r = (if Info_source r = Source_value SRC_QUEUE
     then Some \<lparr>q_sender = Info_procCtx r, q_data = ssi_ptr r\<rparr> else None)"

definition Info_msgQueueData :: "ssiginfo \<Rightarrow> QueueSigData option" where
  "Info_msgQueueData r = (if Info_source r = Source_value SRC_MESGQ
     then Some \<lparr>q_sender = Info_procCtx r, q_data = ssi_ptr r\<rparr> else None)"

definition Info_timerData :: "ssiginfo \<Rightarrow> TimerData option" where
  "Info_timerData r = (if Info_source r = Source_value SRC_TIMER
     then Some \<lparr>timer_id = sint (ssi_tid r), timer_overrun = sint (ssi_overrun r)\<rparr> else None)"

definition Info_sysData :: "ssiginfo \<Rightarrow> SysData option" where
  "Info_sysData r = (if Info_sigNr r = SignalNr_value SIG_BAD_SYS
     then Some \<lparr>sys_reason = ssi_code r, sys_call_addr = ssi_call_addr r, sys_call_nr = ssi_syscall r,
       sys_arch = ssi_arch r, sys_error = ssi_errno r\<rparr> else None)"

definition Info_childData :: "ssiginfo \<Rightarrow> ChildData option" where
  "Info_childData r = (if Info_sigNr r = SignalNr_value SIG_CHILD then
     (let event = ssi_code r in
       Some \<lparr>cs_event = event, cs_child = Info_procCtx r,
         cs_status = (if event = ChildEvent_value EV_EXITED then Some (ssi_status r) else None),
         cs_signal = (if event = ChildEvent_value EV_EXITED then None else Some (ssi_status r)),
         user_time = Some (sint (ssi_utime r)), system_time = Some (sint (ssi_stime r))\<rparr>)
     else None)"

definition Info_pollData :: "ssiginfo \<Rightarrow> PollData option" where
  "Info_pollData r = (if Info_sigNr r = SignalNr_value SIG_IO_EVENT \<or> Info_sigNr r = SignalNr_value SIG_POLL
     then Some \<lparr>poll_reason = ssi_code r, poll_fd = ssi_fd r, poll_events = ucast (ssi_band r)\<rparr> else None)"

named_theorems info_defs "definitions of the signal data"

lemmas [info_defs] = sigNr_def isTrustedSource_def si_source_def procCtx_def userSigData_def
  queueSigData_def msgQueueData_def timerData_def childData_def sysData_def pollData_def
  illData_def fpeData_def segfaultData_def busData_def
  Info_sigNr_def Info_isTrustedSource_def Info_source_def Info_procCtx_def Info_userSigData_def
  Info_queueSigData_def Info_msgQueueData_def Info_timerData_def Info_sysData_def
  Info_childData_def Info_pollData_def

subsection \<open>Which data a signal has\<close>

datatype siginfo_kind = KUser | KQueue | KMsgQueue | KTimer | KChild | KSys | KPoll | KIll
  | KFPE | KSegv | KBus

primrec present :: "siginfo \<Rightarrow> siginfo_kind \<Rightarrow> bool" where
  "present si KUser = (userSigData si \<noteq> None)"
| "present si KQueue = (queueSigData si \<noteq> None)"
| "present si KMsgQueue = (msgQueueData si \<noteq> None)"
| "present si KTimer = (timerData si \<noteq> None)"
| "present si KChild = (childData si \<noteq> None)"
| "present si KSys = (sysData si \<noteq> None)"
| "present si KPoll = (pollData si \<noteq> None)"
| "present si KIll = (illData si \<noteq> None)"
| "present si KFPE = (fpeData si \<noteq> None)"
| "present si KSegv = (segfaultData si \<noteq> None)"
| "present si KBus = (busData si \<noteq> None)"

definition sender_kinds :: "int \<Rightarrow> siginfo_kind set" where
  "sender_kinds src = (if src = 0 then {KUser} else if src = -1 then {KQueue}
     else if src = -3 then {KMsgQueue} else if src = -2 then {KTimer} else {})"

definition signal_kinds :: "Signal \<Rightarrow> siginfo_kind set" where
  "signal_kinds s = (if s = 17 then {KChild} else if s = 31 then {KSys} else if s = 29 then {KPoll}
     else if s = 4 then {KIll} else if s = 8 then {KFPE} else if s = 11 then {KSegv}
     else if s = 7 then {KBus} else {})"

lemma special_signals: "SPECIAL_SIGS = {8, 7, 4, 11, 5, 17, 29, 31}"
  by (auto simp: SPECIAL_SIGS_def)

lemma present_kinds: "{k. present si k} = sender_kinds (si_source si) \<union> signal_kinds (sigNr si)"
proof -
  have "present si k \<longleftrightarrow> k \<in> sender_kinds (si_source si) \<or> k \<in> signal_kinds (sigNr si)" for k
    by (cases k) (simp_all add: sender_kinds_def signal_kinds_def userSigData_def queueSigData_def
      msgQueueData_def timerData_def childData_def sysData_def pollData_def illData_def fpeData_def
      segfaultData_def busData_def Let_def)
  then show ?thesis by auto
qed

lemma card_kinds: "card (sender_kinds n) \<le> 1" "card (signal_kinds n) \<le> 1"
  "finite (sender_kinds n)" "finite (signal_kinds n)"
  by (simp_all add: sender_kinds_def signal_kinds_def)

lemma signal_kinds_special: "s \<notin> SPECIAL_SIGS \<Longrightarrow> signal_kinds s = {}"
  by (simp add: signal_kinds_def special_signals)

text \<open>
  A signal from the kernel carries at most one of the eleven kinds of data, a signal
  forged with a negative code at most two: the one of its sender and the one of its number.
  The source is KERNEL for the fault, child, poll and system call signals of the kernel, the
  code of the signal otherwise, so user data is never read from one of those signals.
\<close>

theorem signal_data_exclusive:
  "card {k. present si k} \<le> (if isTrustedSource si then 1 else 2) \<and>
   (present si KUser \<longleftrightarrow> si_code si = 0 \<and> sigNr si \<notin> SPECIAL_SIGS) \<and>
   (isTrustedSource si \<longrightarrow> \<not> present si KQueue \<and> \<not> present si KMsgQueue \<and> \<not> present si KTimer)"
proof (intro conjI)
  show "card {k. present si k} \<le> (if isTrustedSource si then 1 else 2)"
  proof (cases "isTrustedSource si")
    case False
    have "card {k. present si k} \<le> card (sender_kinds (si_source si)) + card (signal_kinds (sigNr si))"
      unfolding present_kinds by (rule card_Un_le)
    then show ?thesis using False card_kinds(1)[of "si_source si"] card_kinds(2)[of "sigNr si"] by simp
  next
    case True
    show ?thesis
    proof (cases "sigNr si \<in> SPECIAL_SIGS")
      case special: True
      then have "si_source si = 0x80" using True by (simp add: si_source_def)
      then show ?thesis using True card_kinds(2) by (simp add: present_kinds sender_kinds_def)
    next
      case False
      then show ?thesis using True card_kinds(1) by (simp add: present_kinds signal_kinds_special)
    qed
  qed
qed (auto simp: userSigData_def queueSigData_def msgQueueData_def timerData_def si_source_def isTrustedSource_def)

theorem signal_data_exclusive_witness:
  "present (SigInfo_clear\<lparr>si_signo := 11\<rparr>) KSegv \<and> \<not> present (SigInfo_clear\<lparr>si_signo := 11\<rparr>) KUser"
  using signal_data_exclusive[of "SigInfo_clear\<lparr>si_signo := 11\<rparr>"]
  by (simp add: sigNr_def special_signals segfaultData_def)

text \<open>
  A signal descriptor delivers the fields of the signal in the widths of its own structure;
  \<open>same_signal\<close> says that they are the fields of one signal.
\<close>

definition same_signal :: "ssiginfo \<Rightarrow> siginfo \<Rightarrow> bool" where
  "same_signal r si \<longleftrightarrow>
     sint (ssi_signo r) = si_signo si \<and> ssi_errno r = si_errno si \<and> ssi_code r = si_code si \<and>
     sint (ssi_pid r) = si_pid si \<and> ssi_uid r = si_uid si \<and> ssi_fd r = si_fd si \<and>
     sint (ssi_tid r) = si_timerid si \<and> ssi_band r = ucast (si_band si) \<and>
     sint (ssi_overrun r) = si_overrun si \<and> ssi_status r = si_status si \<and> ssi_ptr r = si_value si \<and>
     sint (ssi_utime r) = si_utime si \<and> sint (ssi_stime r) = si_stime si \<and>
     ssi_syscall r = si_syscall si \<and> ssi_call_addr r = si_call_addr si \<and> ssi_arch r = si_arch si"

lemma ucast_band: "(ucast (ucast (b :: 64 word) :: 32 word) :: 16 word) = ucast b"
  by (rule bit_word_eqI) (simp add: bit_simps)

text \<open>
  The information read from a signal descriptor and the one given to a handler agree for
  one and the same signal: each of the seven kinds of data they share, the number and the
  source, although the structures behind them differ in width and sign.  Only a result of
  \<^verbatim>\<open>waitid()\<close>, which is marked by EINVAL, has no times in the handler's form.
\<close>

theorem signal_fd_agrees:
  assumes "same_signal r si"
  shows "Info_sigNr r = sigNr si \<and> Info_source r = si_source si \<and>
    Info_userSigData r = userSigData si \<and> Info_queueSigData r = queueSigData si \<and>
    Info_msgQueueData r = msgQueueData si \<and> Info_timerData r = timerData si \<and>
    Info_sysData r = sysData si \<and> Info_pollData r = pollData si \<and>
    (if si_errno si = errno_of Errno_INVALID_ARG
     then map_option ChildState.truncate (Info_childData r) = map_option ChildState.truncate (childData si)
     else Info_childData r = childData si)"
  using assms unfolding same_signal_def
  by (auto simp: info_defs Let_def ucast_band ChildState.truncate_def)

theorem signal_fd_agrees_witness:
  "Info_timerData (Info_clear\<lparr>ssi_signo := 14, ssi_code := -2, ssi_tid := 5\<rparr>) =
     timerData (SigInfo_clear\<lparr>si_signo := 14, si_code := -2, si_timerid := 5\<rparr>)"
  using signal_fd_agrees[of "Info_clear\<lparr>ssi_signo := 14, ssi_code := -2, ssi_tid := 5\<rparr>"
      "SigInfo_clear\<lparr>si_signo := 14, si_code := -2, si_timerid := 5\<rparr>"]
  by (simp add: same_signal_def Info_clear_def SigInfo_clear_def)

end
