(* ===== verification/Signals.thy ===== *)
theory Signals
  imports SigInfo FileDescriptor Strings
begin

text \<open>
  Sending, blocking and waiting for signals (\<^verbatim>\<open>src/proc/signal.cxx\<close>, \<^verbatim>\<open>include/proc/signal.hxx\<close>),
  signal descriptors (\<^verbatim>\<open>src/proc/SignalFD.cxx\<close>) and signal actions with the dispatch tables
  behind them (\<^verbatim>\<open>src/proc/SigAction.cxx\<close>, \<^verbatim>\<open>include/proc/SigAction.hxx\<close>).
\<close>

subsection \<open>Sending signals\<close>

definition signal_raise :: "Signal \<Rightarrow> (world, unit) act" where
  "signal_raise s = call_or_throw (\<lambda>r. r = 0) ''raise'' [I s] (throw_ApiError ''raise()'')"

definition signal_send :: "ProcessID \<Rightarrow> Signal \<Rightarrow> (world, unit) act" where
  "signal_send proc s = call_or_throw (\<lambda>r. r = 0) ''kill'' [I proc, I s] (throw_ApiError ''kill()'')"

text \<open>The data of a queued signal is a pointer or an integer in the bytes of a zeroed union.\<close>

datatype signal_payload = PtrData "64 word" | IntData "32 word"

primrec sigval_of :: "signal_payload \<Rightarrow> 64 word" where
  "sigval_of (PtrData p) = p"
| "sigval_of (IntData n) = ucast n"

definition signal_send_data :: "ProcessID \<Rightarrow> Signal \<Rightarrow> signal_payload \<Rightarrow> (world, unit) act" where
  "signal_send_data proc s d = call_or_throw (\<lambda>r. r = 0) ''sigqueue''
     [I proc, I s, I (uint (sigval_of d))] (throw_ApiError ''sigqueue()'')"

definition signal_send_thread :: "ProcessID \<Rightarrow> int \<Rightarrow> Signal \<Rightarrow> (world, unit) act" where
  "signal_send_thread proc thread s = call_or_throw (\<lambda>r. r = 0) ''tgkill'' [I proc, I thread, I s]
     (throw_ApiError ''tgkill()'')"

text \<open>
  \<^verbatim>\<open>std::stoi\<close> on a string without leading white space: an optional sign and digits, and how
  many characters they are.
\<close>

definition is_digit :: "char \<Rightarrow> bool" where
  "is_digit c \<longleftrightarrow> 48 \<le> (of_char c :: nat) \<and> (of_char c :: nat) \<le> 57"

definition digits_value :: "string \<Rightarrow> int" where
  "digits_value ds = foldl (\<lambda>n c. 10 * n + (of_char c - 48)) 0 ds"

definition stoi :: "string \<Rightarrow> exn + (int \<times> nat)" where
  "stoi s = (let (neg, sgn, ds) = (if s \<noteq> [] \<and> hd s = CHR ''-'' then (True, 1, tl s)
         else if s \<noteq> [] \<and> hd s = CHR ''+'' then (False, 1, tl s) else (False, 0, s));
       num = takeWhile is_digit ds;
       n = (if neg then - digits_value num else digits_value num)
     in if num = [] then Inl (StdInvalidArgument ''stoi'')
        else if n < - (2 ^ 31) \<or> 2 ^ 31 \<le> n then Inl (StdOutOfRange ''stoi'')
        else Inr (n, sgn + length num))"

text \<open>
  The lines that \<^verbatim>\<open>getline()\<close> reads while the stream is good: those that end in a newline.
\<close>

function good_lines :: "string \<Rightarrow> string list" where
  "good_lines s = (let l = takeWhile (\<lambda>c. c \<noteq> CHR 0x0A) s in
     if l = s then [] else l # good_lines (drop (length l + 1) s))"
  by pat_completeness auto
termination
proof (relation "measure length", goal_cases)
  case (2 s x)
  then have "s \<noteq> []" by auto
  then show ?case by (cases s) auto
qed simp

declare good_lines.simps [simp del]

definition PID_FIELD :: string where "PID_FIELD = ''Pid:''"

fun send_by_fdinfo :: "string list \<Rightarrow> Signal \<Rightarrow> (world, unit) act" where
  "send_by_fdinfo [] s = throw (RuntimeError ''couldn't parse PID for PIDFD (valgrind fallback logic)'')"
| "send_by_fdinfo (line # ls) s =
     (if take (length PID_FIELD) line \<noteq> PID_FIELD then send_by_fdinfo ls s
      else (case stoi (stripped (drop (length PID_FIELD) line) []) of
          Inl e \<Rightarrow> throw e
        | Inr (pid, processed) \<Rightarrow>
            if processed < 1 then throw (RuntimeError ''failed to determine PID for PIDFD (valgrind fallback logic)'')
            else signal_send pid s))"

definition signal_send_pidfd :: "FileNum \<Rightarrow> Signal \<Rightarrow> 32 mask \<Rightarrow> (world, unit) act" where
  "signal_send_pidfd pidfd s flags = bind (gets running_on_valgrind) (\<lambda>valgrind.
     if \<not> valgrind then
       call_or_throw (\<lambda>r. r = 0) ''pidfd_send_signal'' [I pidfd, I s, I 0, I (uint (BitMask_raw flags))]
         (throw_ApiError ''pidfd_send_signal()'')
     else bind (call ''ifstream /proc/self/fdinfo'' [I pidfd]) (\<lambda>a.
       if rv a < 0 then throw_ApiError ''open(\"/proc/self/fdinfo/<pidfd>\")''
       else send_by_fdinfo (good_lines (out a)) s))"

subsection \<open>Signal masks and waiting\<close>

definition mask_arg :: "SigSet \<Rightarrow> arg" where
  "mask_arg sigs = L (map I (sorted_list_of_set (sigs \<inter> {1..64})))"

datatype MaskOp = SIG_BLOCK | SIG_UNBLOCK | SIG_SETMASK

primrec MaskOp_value :: "MaskOp \<Rightarrow> int" where
  "MaskOp_value SIG_BLOCK = 0"
| "MaskOp_value SIG_UNBLOCK = 1"
| "MaskOp_value SIG_SETMASK = 2"

text \<open>The call returns its error; the old mask is what it stores.\<close>

definition set_signal_mask :: "int \<Rightarrow> arg \<Rightarrow> (world, SigSet) act" where
  "set_signal_mask op set_arg = bind (call ''pthread_sigmask'' [I op, set_arg]) (\<lambda>a.
     if rv a \<noteq> errno_of Errno_NO_ERROR then throw (ApiError ''pthread_sigmask()'' (rv a))
     else ret (set (outs a)))"

definition signal_block :: "SigSet \<Rightarrow> (world, SigSet) act" where
  "signal_block sigs = set_signal_mask (MaskOp_value SIG_BLOCK) (mask_arg sigs)"

definition signal_unblock :: "SigSet \<Rightarrow> (world, SigSet) act" where
  "signal_unblock sigs = set_signal_mask (MaskOp_value SIG_UNBLOCK) (mask_arg sigs)"

definition set_sigmask :: "SigSet \<Rightarrow> (world, SigSet) act" where
  "set_sigmask sigs = set_signal_mask (MaskOp_value SIG_SETMASK) (mask_arg sigs)"

definition get_sigmask :: "(world, SigSet) act" where
  "get_sigmask = set_signal_mask 0 (I 0)"

definition signal_pause :: "(world, unit) act" where
  "signal_pause = bind (call ''pause'' []) (\<lambda>_. ret ())"

definition signal_suspend :: "SigSet \<Rightarrow> (world, unit) act" where
  "signal_suspend sigs = bind (call ''sigsuspend'' [mask_arg sigs]) (\<lambda>_. ret ())"

text \<open>The number that was received is the first integer stored.\<close>

definition signal_wait :: "SigSet \<Rightarrow> (world, Signal) act" where
  "signal_wait sigs = bind (call ''sigwait'' [mask_arg sigs]) (\<lambda>a.
     if rv a \<noteq> 0 then throw (ApiError ''sigwait()'' (rv a))
     else ret (case outs a of [] \<Rightarrow> 0 | n # _ \<Rightarrow> n))"

text \<open>The answers of the calls that fill a structure are decoded by \<open>info\<close>, as the kernel lays it out.\<close>

definition wait_info :: "(answer \<Rightarrow> siginfo) \<Rightarrow> SigSet \<Rightarrow> (world, siginfo) act" where
  "wait_info info sigs = bind (call ''sigwaitinfo'' [mask_arg sigs]) (\<lambda>a.
     if rv a < 0 then throw_ApiError ''sigwaitinfo()'' else ret (info a))"

datatype WaitRes = SIGNALED siginfo | NO_RESULT

definition timed_wait :: "(answer \<Rightarrow> siginfo) \<Rightarrow> SigSet \<Rightarrow> arg \<Rightarrow> (world, WaitRes) act" where
  "timed_wait info sigs timeout = bind (call ''sigtimedwait'' [mask_arg sigs, timeout]) (\<lambda>a.
     if rv a < 0 then bind get_errno (\<lambda>e.
       if e = errno_of Errno_AGAIN then ret NO_RESULT else throw_ApiError ''sigtimedwait()'')
     else ret (SIGNALED (info a)))"

definition poll_info :: "(answer \<Rightarrow> siginfo) \<Rightarrow> SigSet \<Rightarrow> (world, WaitRes) act" where
  "poll_info info sigs = timed_wait info sigs (L [I 0, I 0])"

record Stack =
  ss_flags :: "32 word"
  ss_sp :: "64 word"
  ss_size :: "64 word"

definition stack_arg :: "Stack \<Rightarrow> arg" where
  "stack_arg s = L [I (uint (ss_flags s)), I (uint (ss_sp s)), I (uint (ss_size s))]"

definition stack_out :: "answer \<Rightarrow> Stack" where
  "stack_out a = (case outs a of
      f # p # n # _ \<Rightarrow> \<lparr>ss_flags = word_of_int f, ss_sp = word_of_int p, ss_size = word_of_int n\<rparr>
    | _ \<Rightarrow> \<lparr>ss_flags = 0, ss_sp = 0, ss_size = 0\<rparr>)"

definition set_altstack :: "Stack \<Rightarrow> (world, Stack) act" where
  "set_altstack s = bind (call ''sigaltstack'' [stack_arg s]) (\<lambda>a.
     if rv a \<noteq> 0 then throw_ApiError ''sigaltstack()'' else ret (stack_out a))"

definition get_altstack :: "(world, Stack) act" where
  "get_altstack = bind (call ''sigaltstack'' [I 0]) (\<lambda>a.
     if rv a \<noteq> 0 then throw_ApiError ''sigalstack()'' else ret (stack_out a))"

subsection \<open>Signal descriptors\<close>

datatype SignalFDFlag = SFD_NONBLOCK | SFD_CLOEXEC

primrec SignalFDFlag_value :: "SignalFDFlag \<Rightarrow> 32 word" where
  "SignalFDFlag_value SFD_NONBLOCK = 0x800"
| "SignalFDFlag_value SFD_CLOEXEC = 0x80000"

text \<open>The object is its descriptor.\<close>

definition SignalFD_create :: "SigSet \<Rightarrow> 32 mask \<Rightarrow> (FileDescriptor \<times> world, unit) act" where
  "SignalFD_create sigs flags = andthen FD_close
     (bind (on_world (call ''signalfd'' [I (-1), mask_arg sigs, I (uint (BitMask_raw flags))])) (\<lambda>a.
        if rv a = -1 then on_world (throw_ApiError ''signalfd()'')
        else set_this (FD_setFD (rv a))))"

definition SignalFD_adjustMask :: "SigSet \<Rightarrow> (FileDescriptor \<times> world, unit) act" where
  "SignalFD_adjustMask sigs = bind (this (\<lambda>d. d)) (\<lambda>d.
     if \<not> FD_valid d then throw (UsageError ''no signal fd currently open'')
     else bind (on_world (call ''signalfd'' [I (m_fd d), mask_arg sigs, I 0])) (\<lambda>a.
       if rv a = -1 then on_world (throw_ApiError ''signalfd()'') else ret ()))"

definition ssiginfo_size :: int where "ssiginfo_size = 128"

definition SignalFD_readEvent :: "(answer \<Rightarrow> ssiginfo) \<Rightarrow> (FileDescriptor \<times> world, ssiginfo) act" where
  "SignalFD_readEvent info = bind (this m_fd) (\<lambda>n.
     bind (on_world (call ''read'' [I n, I ssiginfo_size])) (\<lambda>a.
       if rv a < 0 then on_world (throw_ApiError ''read(sigfd)'')
       else if rv a < ssiginfo_size then throw (RuntimeError ''short read from signal fd'')
       else ret (info a)))"

text \<open>A failure of the destructor's \<^verbatim>\<open>close()\<close> is only logged.\<close>

definition SignalFD_destroy :: "(FileDescriptor \<times> world, unit) act" where
  "SignalFD_destroy = catch FD_close (\<lambda>_. ret ())"

subsection \<open>Signal actions\<close>

text \<open>
  Handlers are pointers; the first three values of a simple handler are the special ones.
  The raw handler of the kernel's structure is a pointer too: one of the two constants, one of
  the two entry points of the library, or foreign code.
\<close>

type_synonym handler = "64 word"

definition DEFAULT_handler :: handler where "DEFAULT_handler = 0"
definition IGNORE_handler :: handler where "IGNORE_handler = 1"
definition UNKNOWN_handler :: handler where "UNKNOWN_handler = 2"

datatype raw_handler = SIG_DFL | SIG_IGN | Simple_entry | Info_entry | Foreign "64 word"

record raw_action =
  sa_handler :: raw_handler
  sa_flags :: "32 word"
  sa_mask :: SigSet

datatype handler_variant = SimpleHandler handler | InfoHandler handler

record SigAction =
  sa_raw :: raw_action
  m_handler :: handler_variant

datatype SigActionFlag = NO_CHILD_STOP | NO_CHILD_WAIT | NO_DEFER | ON_STACK | RESET_HANDLER
  | RESTART | SIGINFO | RESTORER

primrec SigActionFlag_value :: "SigActionFlag \<Rightarrow> 32 word" where
  "SigActionFlag_value NO_CHILD_STOP = 1"
| "SigActionFlag_value NO_CHILD_WAIT = 2"
| "SigActionFlag_value NO_DEFER = 0x40000000"
| "SigActionFlag_value ON_STACK = 0x08000000"
| "SigActionFlag_value RESET_HANDLER = 0x80000000"
| "SigActionFlag_value RESTART = 0x10000000"
| "SigActionFlag_value SIGINFO = 4"
| "SigActionFlag_value RESTORER = 0x04000000"

definition SA_SIGINFO :: "32 word" where
  "SA_SIGINFO = SigActionFlag_value SIGINFO"

definition SigAction_clear :: "SigAction \<Rightarrow> SigAction" where
  "SigAction_clear a = a\<lparr>sa_raw := \<lparr>sa_handler = SIG_DFL, sa_flags = 0, sa_mask = {}\<rparr>\<rparr>"

definition SigAction_default :: SigAction where
  "SigAction_default = \<lparr>sa_raw = \<lparr>sa_handler = SIG_DFL, sa_flags = 0, sa_mask = {}\<rparr>,
     m_handler = SimpleHandler 0\<rparr>"

definition SigAction_setFlags :: "32 mask \<Rightarrow> SigAction \<Rightarrow> SigAction" where
  "SigAction_setFlags flags a = (let had_siginfo = (sa_flags (sa_raw a) AND SA_SIGINFO \<noteq> 0) in
     a\<lparr>sa_raw := (sa_raw a)\<lparr>sa_flags := (if had_siginfo then BitMask_raw flags OR SA_SIGINFO
       else BitMask_raw flags AND NOT SA_SIGINFO)\<rparr>\<rparr>)"

definition SigAction_getFlags :: "SigAction \<Rightarrow> 32 mask" where
  "SigAction_getFlags a = sa_flags (sa_raw a)"

definition SigAction_setMask :: "SigSet \<Rightarrow> SigAction \<Rightarrow> SigAction" where
  "SigAction_setMask sigs a = a\<lparr>sa_raw := (sa_raw a)\<lparr>sa_mask := sigs\<rparr>\<rparr>"

definition SigAction_setSimpleHandler :: "handler \<Rightarrow> SigAction \<Rightarrow> exn + SigAction" where
  "SigAction_setSimpleHandler h a =
     (if h = UNKNOWN_handler then Inl (UsageError ''Cannot set UNKNOWN type handler'')
      else Inr (a\<lparr>sa_raw := (sa_raw a)\<lparr>sa_flags := sa_flags (sa_raw a) AND NOT SA_SIGINFO,
          sa_handler := (if h = IGNORE_handler then SIG_IGN else if h = DEFAULT_handler then SIG_DFL
            else Simple_entry)\<rparr>, m_handler := SimpleHandler h\<rparr>))"

definition SigAction_setInfoHandler :: "handler \<Rightarrow> SigAction \<Rightarrow> SigAction" where
  "SigAction_setInfoHandler h a =
     a\<lparr>sa_raw := (sa_raw a)\<lparr>sa_flags := sa_flags (sa_raw a) OR SA_SIGINFO, sa_handler := Info_entry\<rparr>,
       m_handler := InfoHandler h\<rparr>"

definition getSimpleHandler :: "SigAction \<Rightarrow> handler option" where
  "getSimpleHandler a = (case m_handler a of SimpleHandler h \<Rightarrow> Some h | InfoHandler _ \<Rightarrow> None)"

definition getInfoHandler :: "SigAction \<Rightarrow> handler option" where
  "getInfoHandler a = (case m_handler a of SimpleHandler _ \<Rightarrow> None | InfoHandler h \<Rightarrow> Some h)"

definition isIgnored :: "SigAction \<Rightarrow> bool" where
  "isIgnored a \<longleftrightarrow> getSimpleHandler a = Some IGNORE_handler"

definition isDefaultAction :: "SigAction \<Rightarrow> bool" where
  "isDefaultAction a \<longleftrightarrow> getSimpleHandler a = Some DEFAULT_handler"

definition updateFromOld :: "handler \<Rightarrow> handler \<Rightarrow> SigAction \<Rightarrow> SigAction" where
  "updateFromOld info simple a = a\<lparr>m_handler :=
     (if SigAction_getFlags a AND SA_SIGINFO = SA_SIGINFO then
        (if sa_handler (sa_raw a) \<noteq> Info_entry then SimpleHandler UNKNOWN_handler else InfoHandler info)
      else if sa_handler (sa_raw a) = SIG_DFL then SimpleHandler DEFAULT_handler
      else if sa_handler (sa_raw a) = SIG_IGN then SimpleHandler IGNORE_handler
      else if sa_handler (sa_raw a) \<noteq> Simple_entry then SimpleHandler UNKNOWN_handler
      else SimpleHandler simple)\<rparr>"

text \<open>
  The process: the two tables of the library, and the dispositions that \<^verbatim>\<open>sigaction()\<close> sets
  when it succeeds, which the kernel may refuse to do.  The tables have 65 entries; a signal
  number outside of them is refused by \<^verbatim>\<open>sigaction()\<close> before they are read.
\<close>

record sig_process =
  simple_handlers :: "Signal \<Rightarrow> handler"
  info_handlers :: "Signal \<Rightarrow> handler"
  dispositions :: "Signal \<Rightarrow> raw_action"

definition sys_sigaction :: "Signal \<Rightarrow> raw_action option \<Rightarrow> (sig_process \<times> world, raw_action option) act" where
  "sys_sigaction sig act = bind (on_world (call ''sigaction'' [I sig])) (\<lambda>a.
     if rv a \<noteq> 0 then ret None
     else bind (this (\<lambda>p. dispositions p sig)) (\<lambda>old.
       andthen (set_this (\<lambda>p. case act of None \<Rightarrow> p
           | Some r \<Rightarrow> p\<lparr>dispositions := (dispositions p)(sig := r)\<rparr>))
         (ret (Some old))))"

text \<open>The second half of \<^verbatim>\<open>set_action()\<close>, after the kernel has switched the disposition.\<close>

definition store_handlers :: "Signal \<Rightarrow> SigAction \<Rightarrow> sig_process \<Rightarrow> sig_process" where
  "store_handlers sig action p = (case m_handler action of
      SimpleHandler h \<Rightarrow>
        (if h = IGNORE_handler \<or> h = DEFAULT_handler \<or> h = UNKNOWN_handler
         then p\<lparr>simple_handlers := (simple_handlers p)(sig := 0), info_handlers := (info_handlers p)(sig := 0)\<rparr>
         else p\<lparr>simple_handlers := (simple_handlers p)(sig := h)\<rparr>)
    | InfoHandler h \<Rightarrow> p\<lparr>info_handlers := (info_handlers p)(sig := h)\<rparr>)"

text \<open>The result is what \<^verbatim>\<open>*old\<close> becomes when it is asked for.\<close>

definition set_action :: "Signal \<Rightarrow> SigAction \<Rightarrow> (sig_process \<times> world, SigAction) act" where
  "set_action sig action = bind (sys_sigaction sig (Some (sa_raw action))) (\<lambda>r. case r of
      None \<Rightarrow> on_world (throw_ApiError ''sigaction()'')
    | Some old \<Rightarrow>
        bind (this (\<lambda>p. (simple_handlers p sig, info_handlers p sig))) (\<lambda>(old_simple, old_info).
          andthen (set_this (store_handlers sig action))
            (ret (updateFromOld old_info old_simple \<lparr>sa_raw = old, m_handler = SimpleHandler 0\<rparr>))))"

definition get_action :: "Signal \<Rightarrow> (sig_process \<times> world, SigAction) act" where
  "get_action sig = bind (sys_sigaction sig None) (\<lambda>r. case r of
      None \<Rightarrow> on_world (throw_ApiError ''sigaction()'')
    | Some old \<Rightarrow>
        bind (this (\<lambda>p. (simple_handlers p sig, info_handlers p sig))) (\<lambda>(simple, info).
          ret (updateFromOld info simple \<lparr>sa_raw = old, m_handler = SimpleHandler 0\<rparr>)))"

text \<open>What happens when a signal is delivered: the entry points look the handler up.\<close>

datatype delivery = DefaultAction | Ignored | RunsSimple handler | RunsInfo handler | Dropped
  | RunsForeign "64 word"

definition simple_handler :: "sig_process \<Rightarrow> Signal \<Rightarrow> delivery" where
  "simple_handler p sig = (if simple_handlers p sig = 0 then Dropped else RunsSimple (simple_handlers p sig))"

definition info_handler :: "sig_process \<Rightarrow> Signal \<Rightarrow> delivery" where
  "info_handler p sig = (if info_handlers p sig = 0 then Dropped else RunsInfo (info_handlers p sig))"

definition deliver :: "sig_process \<Rightarrow> Signal \<Rightarrow> delivery" where
  "deliver p sig = (case sa_handler (dispositions p sig) of
      SIG_DFL \<Rightarrow> DefaultAction
    | SIG_IGN \<Rightarrow> Ignored
    | Simple_entry \<Rightarrow> simple_handler p sig
    | Info_entry \<Rightarrow> info_handler p sig
    | Foreign f \<Rightarrow> RunsForeign f)"

subsection \<open>Signal actions and the dispatch tables agree\<close>

definition has_siginfo :: "raw_action \<Rightarrow> bool" where
  "has_siginfo r \<longleftrightarrow> sa_flags r AND SA_SIGINFO \<noteq> 0"

text \<open>The handler of the object is the one behind its raw handler.\<close>

fun consistent :: "handler_variant \<Rightarrow> raw_handler \<Rightarrow> bool \<Rightarrow> bool" where
  "consistent (SimpleHandler h) SIG_DFL si = (h = DEFAULT_handler \<or> h = UNKNOWN_handler \<and> si)"
| "consistent (SimpleHandler h) SIG_IGN si = (h = IGNORE_handler \<or> h = UNKNOWN_handler \<and> si)"
| "consistent (SimpleHandler h) Simple_entry si =
     (h \<notin> {DEFAULT_handler, IGNORE_handler, UNKNOWN_handler} \<and> \<not> si)"
| "consistent (SimpleHandler h) Info_entry si = False"
| "consistent (SimpleHandler h) (Foreign f) si = (h = UNKNOWN_handler)"
| "consistent (InfoHandler h) r si = (r = Info_entry \<and> si \<and> h \<noteq> 0)"

definition action_ok :: "SigAction \<Rightarrow> bool" where
  "action_ok a \<longleftrightarrow> consistent (m_handler a) (sa_handler (sa_raw a)) (has_siginfo (sa_raw a))"

text \<open>The tables know the handler of every signal that enters the library.\<close>

fun entry_ok :: "raw_handler \<Rightarrow> bool \<Rightarrow> handler \<Rightarrow> handler \<Rightarrow> bool" where
  "entry_ok Simple_entry si simple info =
     (simple \<notin> {DEFAULT_handler, IGNORE_handler, UNKNOWN_handler} \<and> \<not> si)"
| "entry_ok Info_entry si simple info = (info \<noteq> 0 \<and> si)"
| "entry_ok r si simple info = True"

definition process_ok :: "sig_process \<Rightarrow> bool" where
  "process_ok p \<longleftrightarrow> (\<forall>sig. entry_ok (sa_handler (dispositions p sig)) (has_siginfo (dispositions p sig))
     (simple_handlers p sig) (info_handlers p sig))"

definition delivery_of :: "SigAction \<Rightarrow> delivery" where
  "delivery_of a = (case sa_handler (sa_raw a) of
      SIG_DFL \<Rightarrow> DefaultAction
    | SIG_IGN \<Rightarrow> Ignored
    | Foreign f \<Rightarrow> RunsForeign f
    | _ \<Rightarrow> (case m_handler a of SimpleHandler h \<Rightarrow> RunsSimple h | InfoHandler h \<Rightarrow> RunsInfo h))"

lemmas action_defs = DEFAULT_handler_def IGNORE_handler_def UNKNOWN_handler_def

lemma siginfo_flag: "m AND SA_SIGINFO = SA_SIGINFO \<longleftrightarrow> (m AND SA_SIGINFO \<noteq> 0)"
proof -
  have sa: "bit SA_SIGINFO n \<longleftrightarrow> n = 2" for n
    using bit_exp_iff[of 2 n, where ?'a = "32 word"] by (auto simp: SA_SIGINFO_def)
  have "m AND SA_SIGINFO = (if bit m 2 then SA_SIGINFO else 0)"
    by (rule bit_word_eqI) (auto simp: bit_simps sa)
  moreover have "SA_SIGINFO \<noteq> 0" by (simp add: SA_SIGINFO_def)
  ultimately show ?thesis by auto
qed

lemma siginfo_set [simp]: "has_siginfo (r\<lparr>sa_flags := m OR SA_SIGINFO, sa_handler := h\<rparr>)"
  "\<not> has_siginfo (r\<lparr>sa_flags := m AND NOT SA_SIGINFO, sa_handler := h\<rparr>)"
  "has_siginfo (r\<lparr>sa_flags := m OR SA_SIGINFO\<rparr>)" "\<not> has_siginfo (r\<lparr>sa_flags := m AND NOT SA_SIGINFO\<rparr>)"
proof -
  have "(m OR SA_SIGINFO) AND SA_SIGINFO = SA_SIGINFO" "(m AND NOT SA_SIGINFO) AND SA_SIGINFO = 0"
    by (simp_all add: and.assoc)
  then show "has_siginfo (r\<lparr>sa_flags := m OR SA_SIGINFO, sa_handler := h\<rparr>)"
    "\<not> has_siginfo (r\<lparr>sa_flags := m AND NOT SA_SIGINFO, sa_handler := h\<rparr>)"
    "has_siginfo (r\<lparr>sa_flags := m OR SA_SIGINFO\<rparr>)" "\<not> has_siginfo (r\<lparr>sa_flags := m AND NOT SA_SIGINFO\<rparr>)"
    by (simp_all add: has_siginfo_def SA_SIGINFO_def)
qed

text \<open>
  A signal action stays consistent under its setters: the handler it reports, the raw
  handler and the SIGINFO flag belong together, whatever flags and masks are set in between,
  and an unknown handler cannot be set.  Only \<^verbatim>\<open>clear()\<close> breaks it: it resets the raw
  structure to the default action while the object still reports the old handler.
\<close>

theorem action_setters_consistent:
  assumes "action_ok a"
  shows "action_ok SigAction_default \<and> action_ok (SigAction_setFlags fl a) \<and>
    action_ok (SigAction_setMask sigs a) \<and>
    (h \<noteq> 0 \<longrightarrow> action_ok (SigAction_setInfoHandler h a)) \<and>
    (case SigAction_setSimpleHandler h a of
       Inl e \<Rightarrow> h = UNKNOWN_handler | Inr b \<Rightarrow> action_ok b \<and> getSimpleHandler b = Some h) \<and>
    sa_handler (sa_raw (SigAction_clear a)) = SIG_DFL \<and>
    getSimpleHandler (SigAction_clear a) = getSimpleHandler a"
proof (intro conjI)
  have flags: "has_siginfo (sa_raw (SigAction_setFlags fl a)) = has_siginfo (sa_raw a)"
    by (simp add: SigAction_setFlags_def Let_def flip: has_siginfo_def)
  have "m_handler (SigAction_setFlags fl a) = m_handler a"
    "sa_handler (sa_raw (SigAction_setFlags fl a)) = sa_handler (sa_raw a)"
    by (simp_all add: SigAction_setFlags_def Let_def)
  with flags show "action_ok (SigAction_setFlags fl a)"
    using assms by (simp add: action_ok_def)
  show "action_ok (SigAction_setMask sigs a)"
    using assms by (simp add: action_ok_def SigAction_setMask_def has_siginfo_def)
  show "h \<noteq> 0 \<longrightarrow> action_ok (SigAction_setInfoHandler h a)"
    by (simp add: action_ok_def SigAction_setInfoHandler_def)
  show "case SigAction_setSimpleHandler h a of
       Inl e \<Rightarrow> h = UNKNOWN_handler | Inr b \<Rightarrow> action_ok b \<and> getSimpleHandler b = Some h"
    by (simp add: action_ok_def SigAction_setSimpleHandler_def getSimpleHandler_def action_defs)
qed (simp_all add: action_ok_def SigAction_default_def DEFAULT_handler_def SigAction_clear_def
    getSimpleHandler_def)

lemma updateFromOld_ok:
  assumes "process_ok p"
  shows "action_ok (updateFromOld (info_handlers p sig) (simple_handlers p sig)
           \<lparr>sa_raw = dispositions p sig, m_handler = v\<rparr>)"
    "delivery_of (updateFromOld (info_handlers p sig) (simple_handlers p sig)
           \<lparr>sa_raw = dispositions p sig, m_handler = v\<rparr>) = deliver p sig"
  using assms[unfolded process_ok_def, rule_format, of sig] siginfo_flag[of "sa_flags (dispositions p sig)"]
  by (cases "sa_handler (dispositions p sig)"; simp add: action_ok_def updateFromOld_def
      SigAction_getFlags_def has_siginfo_def delivery_of_def deliver_def simple_handler_def
      info_handler_def action_defs)+

lemma store_handlers_entry:
  assumes "action_ok a"
  shows "entry_ok (sa_handler (sa_raw a)) (has_siginfo (sa_raw a))
      (simple_handlers (store_handlers sig a p) sig) (info_handlers (store_handlers sig a p) sig)"
    "deliver (store_handlers sig a (p\<lparr>dispositions := (dispositions p)(sig := sa_raw a)\<rparr>)) sig = delivery_of a"
  using assms
  by (cases "m_handler a"; cases "sa_handler (sa_raw a)"; auto simp: action_ok_def store_handlers_def
      action_defs deliver_def delivery_of_def simple_handler_def info_handler_def)+

lemma store_handlers_other:
  assumes "s \<noteq> sig"
  shows "simple_handlers (store_handlers sig a p) s = simple_handlers p s"
    "info_handlers (store_handlers sig a p) s = info_handlers p s"
  using assms by (simp_all add: store_handlers_def split: handler_variant.splits)

lemma store_handlers_dispositions [simp]:
  "dispositions (store_handlers sig a p) = dispositions p"
  by (simp add: store_handlers_def split: handler_variant.splits)

lemma store_handlers_ok:
  assumes "process_ok p" "action_ok a"
  shows "process_ok (store_handlers sig a (p\<lparr>dispositions := (dispositions p)(sig := sa_raw a)\<rparr>))"
    "deliver (store_handlers sig a (p\<lparr>dispositions := (dispositions p)(sig := sa_raw a)\<rparr>)) =
       (deliver p)(sig := delivery_of a)"
proof -
  let ?p = "p\<lparr>dispositions := (dispositions p)(sig := sa_raw a)\<rparr>"
  show "process_ok (store_handlers sig a ?p)"
    unfolding process_ok_def
  proof
    fix s
    show "entry_ok (sa_handler (dispositions (store_handlers sig a ?p) s))
        (has_siginfo (dispositions (store_handlers sig a ?p) s))
        (simple_handlers (store_handlers sig a ?p) s) (info_handlers (store_handlers sig a ?p) s)"
      using assms store_handlers_entry(1)[OF assms(2), of sig ?p]
      by (cases "s = sig") (simp_all add: process_ok_def store_handlers_other)
  qed
  show "deliver (store_handlers sig a ?p) = (deliver p)(sig := delivery_of a)"
  proof
    fix s
    show "deliver (store_handlers sig a ?p) s = ((deliver p)(sig := delivery_of a)) s"
      using store_handlers_entry(2)[OF assms(2), of sig p]
      by (cases "s = sig"; cases "sa_handler (dispositions p s)")
        (simp_all add: deliver_def[of _ s] simple_handler_def info_handler_def store_handlers_other)
  qed
qed

lemma set_action_answered:
  assumes "answers w = an # as"
  shows "set_action sig a (p, w) =
    (if rv an \<noteq> 0 then (Throw (ApiError ''sigaction()'' (errno_after (errno_var w) an)), (p, snd (call ''sigaction'' [I sig] w)))
     else (Ret (updateFromOld (info_handlers p sig) (simple_handlers p sig)
             \<lparr>sa_raw = dispositions p sig, m_handler = SimpleHandler 0\<rparr>),
           (store_handlers sig a (p\<lparr>dispositions := (dispositions p)(sig := sa_raw a)\<rparr>), snd (call ''sigaction'' [I sig] w))))"
  using assms by (simp add: set_action_def sys_sigaction_def act_defs kernel_defs)

theorem action_setters_consistent_witness:
  "getSimpleHandler (SigAction_clear (SigAction_setInfoHandler 0x1000 SigAction_default)) = None \<and>
   action_ok (SigAction_setFlags 0 (SigAction_setInfoHandler 0x1000 SigAction_default))"
  using action_setters_consistent[of "SigAction_setInfoHandler 0x1000 SigAction_default"]
  by (simp add: action_ok_def SigAction_setInfoHandler_def getSimpleHandler_def)

text \<open>
  C14: A successful \<^verbatim>\<open>set_action()\<close> changes what is run for this signal to what the action
  says and nothing else, keeps the dispatch tables consistent, and hands out the previous
  action: setting that one again runs exactly what ran before, for handlers of either kind,
  ignored and default signals and foreign handlers.  When the kernel refuses, nothing has
  changed.
\<close>

theorem set_action_switches_and_restores:
  assumes "process_ok p" "action_ok a" "answers w = an # as"
  shows "if rv an \<noteq> 0
     then fst (set_action sig a (p, w)) = Throw (ApiError ''sigaction()'' (errno_after (errno_var w) an)) \<and>
       fst (snd (set_action sig a (p, w))) = p
     else (\<exists>old q v. set_action sig a (p, w) = (Ret old, (q, v)) \<and>
       process_ok q \<and> deliver q = (deliver p)(sig := delivery_of a) \<and>
       action_ok old \<and> delivery_of old = deliver p sig \<and>
       (case as of [] \<Rightarrow> True | an' # _ \<Rightarrow>
          rv an' = 0 \<longrightarrow> deliver (fst (snd (set_action sig old (q, v)))) = deliver p))"
proof (cases "rv an = 0")
  case False
  then show ?thesis by (simp add: set_action_answered[OF assms(3)])
next
  case True
  let ?old = "updateFromOld (info_handlers p sig) (simple_handlers p sig)
    \<lparr>sa_raw = dispositions p sig, m_handler = SimpleHandler 0\<rparr>"
  let ?q = "store_handlers sig a (p\<lparr>dispositions := (dispositions p)(sig := sa_raw a)\<rparr>)"
  let ?v = "snd (call ''sigaction'' [I sig] w)"
  have s: "set_action sig a (p, w) = (Ret ?old, (?q, ?v))"
    using True by (simp add: set_action_answered[OF assms(3)])
  note old = updateFromOld_ok[OF assms(1), of sig "SimpleHandler 0"]
  note q = store_handlers_ok[OF assms(1,2), of sig]
  have "case as of [] \<Rightarrow> True | an' # _ \<Rightarrow>
      rv an' = 0 \<longrightarrow> deliver (fst (snd (set_action sig ?old (?q, ?v)))) = deliver p"
  proof (cases as)
    case (Cons an' as')
    have "answers ?v = an' # as'" using assms(3) Cons by (simp add: call_def)
    from set_action_answered[OF this, of sig ?old ?q] store_handlers_ok(2)[OF q(1) old(1), of sig]
    show ?thesis by (auto simp: Cons q(2) old(2))
  qed simp
  then show ?thesis using True s q old by auto
qed

definition sample_process :: sig_process where
  "sample_process = \<lparr>simple_handlers = (\<lambda>_. 0), info_handlers = (\<lambda>_. 0),
     dispositions = (\<lambda>_. \<lparr>sa_handler = SIG_DFL, sa_flags = 0, sa_mask = {}\<rparr>)\<rparr>"

theorem set_action_switches_and_restores_witness:
  "\<exists>old q v. set_action 10 (SigAction_setInfoHandler 0x4000 SigAction_default) (sample_process, world_of [ok 0, ok 0])
      = (Ret old, (q, v)) \<and> deliver q 10 = RunsInfo 0x4000 \<and> deliver q 12 = DefaultAction \<and>
     deliver (fst (snd (set_action 10 old (q, v)))) 10 = DefaultAction"
proof -
  have "process_ok sample_process" by (simp add: process_ok_def sample_process_def)
  moreover have "action_ok (SigAction_setInfoHandler 0x4000 SigAction_default)"
    by (simp add: action_ok_def SigAction_setInfoHandler_def)
  moreover have "answers (world_of [ok 0, ok 0]) = ok 0 # [ok 0]" by (simp add: world_of_def)
  moreover have "deliver sample_process s = DefaultAction" for s
    by (simp add: deliver_def sample_process_def)
  moreover have "delivery_of (SigAction_setInfoHandler 0x4000 SigAction_default) = RunsInfo 0x4000"
    by (simp add: delivery_of_def SigAction_setInfoHandler_def)
  ultimately show ?thesis
    using set_action_switches_and_restores[of sample_process "SigAction_setInfoHandler 0x4000 SigAction_default"
        "world_of [ok 0, ok 0]" "ok 0" "[ok 0]" 10]
    by auto
qed

end
