(* ===== verification/Process.thy ===== *)
theory Process
  imports Signals Filesystem
begin

text \<open>
  Processes: identity and credentials, groups and sessions, waiting, executing and forking
  (\<^verbatim>\<open>src/proc/process.cxx\<close>, \<^verbatim>\<open>include/proc/process.hxx\<close>, \<^verbatim>\<open>include/creds.hxx\<close>), \<^verbatim>\<open>clone3()\<close>
  (\<^verbatim>\<open>proc/clone.hxx\<close>, \<^verbatim>\<open>clone.cxx\<close>) and scheduler settings (\<^verbatim>\<open>proc/Scheduler.hxx\<close>,
  \<^verbatim>\<open>Scheduler.cxx\<close>).
\<close>

subsection \<open>Identity and credentials\<close>

definition get_own_pid :: "(world, ProcessID) act" where
  "get_own_pid = bind (call ''getpid'' []) (\<lambda>a. ret (rv a))"

definition get_parent_pid :: "(world, ProcessID) act" where
  "get_parent_pid = bind (call ''getppid'' []) (\<lambda>a. ret (rv a))"

definition get_real_user_id :: "(world, int) act" where
  "get_real_user_id = bind (call ''getuid'' []) (\<lambda>a. ret (rv a))"

definition get_effective_user_id :: "(world, int) act" where
  "get_effective_user_id = bind (call ''geteuid'' []) (\<lambda>a. ret (rv a))"

definition get_real_group_id :: "(world, int) act" where
  "get_real_group_id = bind (call ''getgid'' []) (\<lambda>a. ret (rv a))"

definition get_effective_group_id :: "(world, int) act" where
  "get_effective_group_id = bind (call ''getegid'' []) (\<lambda>a. ret (rv a))"

text \<open>
  The vector starts with 32 entries and doubles while \<^verbatim>\<open>getgroups()\<close> refuses its size.  The
  groups are the integers stored.
\<close>

definition NGROUPS_MAX :: nat where "NGROUPS_MAX = 65536"

definition get_groups_round :: "(nat \<times> world, int list option) act" where
  "get_groups_round = bind (this (\<lambda>n. n)) (\<lambda>n.
     bind (on_world (call ''getgroups'' [I (int n)])) (\<lambda>a.
       if rv a \<noteq> -1 then ret (Some (take (nat (rv a)) (outs a)))
       else bind (on_world get_errno) (\<lambda>e.
         if e = errno_of Errno_INVALID_ARG then
           andthen (set_this (\<lambda>n. n * 2))
             (if NGROUPS_MAX \<le> n * 2 then throw (RuntimeError ''excess number of supplementary groups'')
              else ret None)
         else on_world (throw_ApiError ''getgroups()''))))"

definition get_supplementary_groups :: "(world, int list) act" where
  "get_supplementary_groups = bind (with_local 32 (loop (\<lambda>(n, w). length (answers w)) get_groups_round))
     (\<lambda>(gs, _). ret gs)"

definition set_supplementary_groups :: "int list \<Rightarrow> (world, unit) act" where
  "set_supplementary_groups gs = call_or_throw (\<lambda>r. r = 0) ''setgroups'' [I (int (length gs)), L (map I gs)]
     (throw_ApiError ''setgroups()'')"

text \<open>User and group IDs are unsigned, the C functions return them as \<^verbatim>\<open>int\<close>.\<close>

definition as_id :: "int \<Rightarrow> int" where
  "as_id n = n mod 2 ^ 32"

definition set_fs_user_id :: "int \<Rightarrow> (world, int) act" where
  "set_fs_user_id uid = bind (call ''setfsuid'' [I uid]) (\<lambda>a. bind (call ''setfsuid'' [I (-1)]) (\<lambda>b.
     if as_id (rv b) \<noteq> as_id uid then throw (ApiError ''setfsuid()'' (errno_of Errno_PERMISSION))
     else ret (as_id (rv a))))"

definition get_fs_user_id :: "(world, int) act" where
  "get_fs_user_id = bind (call ''setfsuid'' [I (-1)]) (\<lambda>a. ret (as_id (rv a)))"

definition set_fs_group_id :: "int \<Rightarrow> (world, int) act" where
  "set_fs_group_id gid = bind (call ''setfsgid'' [I gid]) (\<lambda>a. bind (call ''setfsgid'' [I (-1)]) (\<lambda>b.
     if as_id (rv b) \<noteq> as_id gid then throw (ApiError ''setfsgid()'' (errno_of Errno_PERMISSION))
     else ret (as_id (rv a))))"

definition get_fs_group_id :: "(world, int) act" where
  "get_fs_group_id = bind (call ''setfsgid'' [I (-1)]) (\<lambda>a. ret (as_id (rv a)))"

record UserCreds =
  real_uid :: int
  effective_uid :: int
  saved_uid :: int

record GroupCreds =
  real_gid :: int
  effective_gid :: int
  saved_gid :: int

definition get_user_creds :: "(world, UserCreds) act" where
  "get_user_creds = bind (call ''getresuid'' []) (\<lambda>a.
     if rv a < 0 then throw_ApiError ''getresuid()''
     else ret (case outs a of r # e # s # _ \<Rightarrow> \<lparr>real_uid = r, effective_uid = e, saved_uid = s\<rparr>
       | _ \<Rightarrow> \<lparr>real_uid = ID_INVALID, effective_uid = ID_INVALID, saved_uid = ID_INVALID\<rparr>))"

definition get_group_creds :: "(world, GroupCreds) act" where
  "get_group_creds = bind (call ''getresgid'' []) (\<lambda>a.
     if rv a < 0 then throw_ApiError ''getresgid()''
     else ret (case outs a of r # e # s # _ \<Rightarrow> \<lparr>real_gid = r, effective_gid = e, saved_gid = s\<rparr>
       | _ \<Rightarrow> \<lparr>real_gid = ID_INVALID, effective_gid = ID_INVALID, saved_gid = ID_INVALID\<rparr>))"

definition set_user_creds :: "UserCreds \<Rightarrow> (world, unit) act" where
  "set_user_creds c = call_or_throw (\<lambda>r. \<not> r < 0) ''setresuid'' [I (real_uid c), I (effective_uid c), I (saved_uid c)]
     (throw_ApiError ''setresuid()'')"

definition set_group_creds :: "GroupCreds \<Rightarrow> (world, unit) act" where
  "set_group_creds c = call_or_throw (\<lambda>r. \<not> r < 0) ''setresgid'' [I (real_gid c), I (effective_gid c), I (saved_gid c)]
     (throw_ApiError ''setresgid()'')"

subsection \<open>Process groups and sessions\<close>

definition get_own_process_group :: "(world, int) act" where
  "get_own_process_group = bind (call ''getpgrp'' []) (\<lambda>a. ret (rv a))"

definition get_process_group_of :: "ProcessID \<Rightarrow> (world, int) act" where
  "get_process_group_of pid = bind (call ''getpgid'' [I pid]) (\<lambda>a.
     if rv a = -1 then throw_ApiError ''getpgid()'' else ret (rv a))"

definition set_process_group_of :: "ProcessID \<Rightarrow> int \<Rightarrow> (world, unit) act" where
  "set_process_group_of pid pgid = call_or_throw (\<lambda>r. r = 0) ''setpgid'' [I pid, I pgid] (throw_ApiError ''setpgid()'')"

definition set_own_process_group :: "int \<Rightarrow> (world, unit) act" where
  "set_own_process_group = set_process_group_of (ProcessID_of PID_SELF)"

definition is_process_group_leader :: "ProcessID \<Rightarrow> (world, bool) act" where
  "is_process_group_leader pid =
     (if pid = ProcessID_of PID_INVALID then ret False
      else bind (get_process_group_of pid) (\<lambda>pgid. ret (pid = pgid)))"

definition is_caller_process_group_leader :: "(world, bool) act" where
  "is_caller_process_group_leader = is_process_group_leader (ProcessID_of PID_SELF)"

definition create_new_session :: "(world, int) act" where
  "create_new_session = bind (call ''setsid'' []) (\<lambda>a.
     if rv a = SessionID_of SID_INVALID then throw_ApiError ''setsid()'' else ret (rv a))"

definition get_session_of :: "ProcessID \<Rightarrow> (world, int) act" where
  "get_session_of pid = bind (call ''getsid'' [I pid]) (\<lambda>a.
     if rv a = SessionID_of SID_INVALID then throw_ApiError ''getsid()'' else ret (rv a))"

definition get_own_session_id :: "(world, int) act" where
  "get_own_session_id = get_session_of (ProcessID_of PID_SELF)"

subsection \<open>Waiting for children\<close>

datatype WaitFlag = WAIT_FOR_EXITED | WAIT_FOR_STOPPED | WAIT_FOR_CONTINUED | NO_HANG | LEAVE_INFO
  | WAIT_ALL | WAIT_CLONE | WAIT_NOTHREAD

primrec WaitFlag_value :: "WaitFlag \<Rightarrow> 32 word" where
  "WaitFlag_value WAIT_FOR_EXITED = 4"
| "WaitFlag_value WAIT_FOR_STOPPED = 2"
| "WaitFlag_value WAIT_FOR_CONTINUED = 8"
| "WaitFlag_value NO_HANG = 1"
| "WaitFlag_value LEAVE_INFO = 0x01000000"
| "WaitFlag_value WAIT_ALL = 0x40000000"
| "WaitFlag_value WAIT_CLONE = 0x80000000"
| "WaitFlag_value WAIT_NOTHREAD = 0x20000000"

definition wait_has :: "32 mask \<Rightarrow> WaitFlag \<Rightarrow> bool" where
  "wait_has flags f \<longleftrightarrow> flags AND WaitFlag_value f = WaitFlag_value f"

datatype WaitId = P_ALL | P_PID ProcessID | P_PGID int | P_PIDFD FileNum

primrec WaitId_args :: "WaitId \<Rightarrow> arg list" where
  "WaitId_args P_ALL = [I 0, I 0]"
| "WaitId_args (P_PID pid) = [I 1, I pid]"
| "WaitId_args (P_PGID pgid) = [I 2, I pgid]"
| "WaitId_args (P_PIDFD fd) = [I 3, I fd]"

text \<open>
  \<^verbatim>\<open>waitid()\<close> stores the signal number, the code, the process, its user and the status; when
  it has nothing to report it stores zeros or nothing at all.
\<close>

definition waitid_out :: "siginfo \<Rightarrow> answer \<Rightarrow> siginfo" where
  "waitid_out si a = (case outs a of
      sig # code # pid # uid # status # _ \<Rightarrow>
        si\<lparr>si_signo := sig, si_code := code, si_pid := pid, si_uid := word_of_int uid, si_status := status\<rparr>
    | _ \<Rightarrow> si)"

definition proc_wait :: "WaitId \<Rightarrow> 32 mask \<Rightarrow> (world, ChildData option) act" where
  "proc_wait wid flags = (let si = SigInfo_clear\<lparr>si_pid := 0\<rparr> in
     bind (call ''waitid'' (WaitId_args wid @ [I (uint (BitMask_raw flags))])) (\<lambda>a.
       if rv a \<noteq> 0 then throw_ApiError ''wait()''
       else let si = waitid_out si a in
         if wait_has flags NO_HANG \<and> si_pid si = 0 then ret None
         else ret (childData (si\<lparr>si_errno := errno_of Errno_INVALID_ARG\<rparr>))))"

subsection \<open>Executing programs\<close>

text \<open>
  A vector of C strings is a list of optional strings; \<open>None\<close> is the null pointer.  Taking
  the last entry of an empty vector is undefined and counts as a missing terminator.  A
  successful execution never returns: the process goes on as another program.
\<close>

type_synonym CStringVector = "string option list"

definition image_replaced :: int where "image_replaced = -1"

definition vec_arg :: "CStringVector \<Rightarrow> arg" where
  "vec_arg v = L (map (\<lambda>s. S (case s of None \<Rightarrow> [] | Some s \<Rightarrow> s)) (butlast v))"

definition terminated_vec :: "CStringVector option \<Rightarrow> bool" where
  "terminated_vec v = (case v of None \<Rightarrow> True | Some v \<Rightarrow> v \<noteq> [] \<and> last v = None)"

definition exec_wrapper :: "(string \<Rightarrow> arg \<Rightarrow> arg \<Rightarrow> (world, answer) act) \<Rightarrow> string \<Rightarrow>
    CStringVector option \<Rightarrow> CStringVector option \<Rightarrow> (world, unit) act" where
  "exec_wrapper exec_func path args env =
     (if \<not> terminated_vec args then throw (UsageError ''argument vector without nullptr terminator encountered'')
      else if \<not> terminated_vec env then throw (UsageError ''environment vector without nullptr terminator encountered'')
      else bind (exec_func path (vec_arg (case args of None \<Rightarrow> [Some path, None] | Some v \<Rightarrow> v))
             (case env of None \<Rightarrow> I 0 | Some v \<Rightarrow> vec_arg v))
           (\<lambda>a. if rv a = -1 then ret () else abort image_replaced))"

definition proc_exec :: "string \<Rightarrow> CStringVector option \<Rightarrow> CStringVector option \<Rightarrow> (world, unit) act" where
  "proc_exec path args env = andthen
     (exec_wrapper (\<lambda>p av ev. call ''execvpe'' [S p, av, ev]) path args env)
     (throw_FileError path ''execvpe()'')"

definition proc_exec_at :: "FileNum \<Rightarrow> string \<Rightarrow> CStringVector option \<Rightarrow> CStringVector option \<Rightarrow> bool \<Rightarrow> (world, unit) act" where
  "proc_exec_at d path args env follow = andthen
     (exec_wrapper (\<lambda>p av ev. call ''execveat'' [I d, S p, av, ev, I (if follow then 0 else 0x100)]) path args env)
     (throw_ApiError ''execveat()'')"

definition proc_fexec :: "FileNum \<Rightarrow> CStringVector option \<Rightarrow> CStringVector option \<Rightarrow> (world, unit) act" where
  "proc_fexec fd args env = andthen
     (exec_wrapper (\<lambda>p av ev. call ''execveat'' [I fd, S [], av, ev, I AT_EMPTY_PATH]) [] args env)
     (throw_ApiError ''fexecve()'')"

text \<open>\<^verbatim>\<open>_exit()\<close> does not return, so it needs no answer; it is recorded in the trace.\<close>

definition proc_exit :: "int \<Rightarrow> (world, 'a) act" where
  "proc_exit status = andthen (modify (\<lambda>w. w\<lparr>trace := trace w @ [(Call ''_exit'' [I status], ok 0)]\<rparr>))
     (abort status)"

subsection \<open>Environment variables\<close>

definition get_env_var :: "string \<Rightarrow> (world, string option) act" where
  "get_env_var name = bind (call ''getenv'' [S name]) (\<lambda>a.
     ret (if rv a \<noteq> 0 then Some (out a) else None))"

definition exists_env_var :: "string \<Rightarrow> (world, bool) act" where
  "exists_env_var name = bind (get_env_var name) (\<lambda>v. ret (v \<noteq> None))"

definition set_env_var :: "string \<Rightarrow> string \<Rightarrow> bool \<Rightarrow> (world, unit) act" where
  "set_env_var name val overwrite = call_or_throw (\<lambda>r. r = 0) ''setenv'' [S name, S val, I (if overwrite then 1 else 0)]
     (throw_ApiError ''setenv()'')"

definition clear_env_var :: "string \<Rightarrow> (world, unit) act" where
  "clear_env_var name = call_or_throw (\<lambda>r. r = 0) ''unsetenv'' [S name] (throw_ApiError ''unsetenv()'')"

definition build_proc_path :: "ProcessID \<Rightarrow> string \<Rightarrow> string" where
  "build_proc_path pid subpath = ''/proc/'' @ print_int pid @ ''/'' @ subpath"

subsection \<open>Forking and cloning\<close>

text \<open>The world after a fork is the one of the parent or of the child, as the answer says.\<close>

definition proc_fork :: "(world, ProcessID option) act" where
  "proc_fork = bind (call ''fork'' []) (\<lambda>a.
     if rv a = ProcessID_of PID_INVALID then throw_ApiError ''fork()''
     else if rv a = ProcessID_of PID_CHILD then ret None
     else ret (Some (rv a)))"

datatype (plugins only: lifting) CloneFlag = CHILD_CLEARTID | CHILD_SETTID | CLEAR_SIGHAND | CLONE_DETACHED
  | SHARE_FILES | SHARE_FS | INTO_CGROUP | SHARE_IO | NEW_CGROUP | NEW_IPC | NEW_NET | NEW_MOUNT
  | NEW_NS | NEW_PID | NEW_USER | NEW_UTS | SHARE_PARENT | PARENT_SETTID | CLONE_PIDFD
  | CLONE_PTRACE | SETTLS | SIGHAND | SHARE_SYSVSEM | CLONE_THREAD | UNTRACED | VFORK | SHARE_VM

primrec CloneFlag_value :: "CloneFlag \<Rightarrow> 64 word" where
  "CloneFlag_value CHILD_CLEARTID = 0x00200000"
| "CloneFlag_value CHILD_SETTID = 0x01000000"
| "CloneFlag_value CLEAR_SIGHAND = 0x100000000"
| "CloneFlag_value CLONE_DETACHED = 0x00400000"
| "CloneFlag_value SHARE_FILES = 0x00000400"
| "CloneFlag_value SHARE_FS = 0x00000200"
| "CloneFlag_value INTO_CGROUP = 0x200000000"
| "CloneFlag_value SHARE_IO = 0x80000000"
| "CloneFlag_value NEW_CGROUP = 0x02000000"
| "CloneFlag_value NEW_IPC = 0x08000000"
| "CloneFlag_value NEW_NET = 0x40000000"
| "CloneFlag_value NEW_MOUNT = 0x00020000"
| "CloneFlag_value NEW_NS = 0x00020000"
| "CloneFlag_value NEW_PID = 0x20000000"
| "CloneFlag_value NEW_USER = 0x10000000"
| "CloneFlag_value NEW_UTS = 0x04000000"
| "CloneFlag_value SHARE_PARENT = 0x00008000"
| "CloneFlag_value PARENT_SETTID = 0x00100000"
| "CloneFlag_value CLONE_PIDFD = 0x00001000"
| "CloneFlag_value CLONE_PTRACE = 0x00002000"
| "CloneFlag_value SETTLS = 0x00080000"
| "CloneFlag_value SIGHAND = 0x00000800"
| "CloneFlag_value SHARE_SYSVSEM = 0x00040000"
| "CloneFlag_value CLONE_THREAD = 0x00010000"
| "CloneFlag_value UNTRACED = 0x00800000"
| "CloneFlag_value VFORK = 0x00004000"
| "CloneFlag_value SHARE_VM = 0x00000100"

text \<open>The fields of \<^verbatim>\<open>struct clone_args\<close>; addresses are words.\<close>

record CloneArgs =
  cl_flags :: "64 word"
  cl_pidfd :: "64 word"
  cl_child_tid :: "64 word"
  cl_parent_tid :: "64 word"
  cl_exit_signal :: "64 word"
  cl_stack :: "64 word"
  cl_stack_size :: "64 word"
  cl_set_tid :: "64 word"
  cl_set_tid_size :: "64 word"
  cl_cgroup :: "64 word"

definition CloneArgs_setExitSignal :: "Signal \<Rightarrow> CloneArgs \<Rightarrow> CloneArgs" where
  "CloneArgs_setExitSignal s a = a\<lparr>cl_exit_signal := word_of_int s\<rparr>"

definition CloneArgs_exitSignal :: "CloneArgs \<Rightarrow> Signal" where
  "CloneArgs_exitSignal a = sint (ucast (cl_exit_signal a) :: 32 word)"

definition CloneArgs_clear :: CloneArgs where
  "CloneArgs_clear = CloneArgs_setExitSignal (SignalNr_value SIG_CHILD)
     \<lparr>cl_flags = 0, cl_pidfd = 0, cl_child_tid = 0, cl_parent_tid = 0, cl_exit_signal = 0, cl_stack = 0,
      cl_stack_size = 0, cl_set_tid = 0, cl_set_tid_size = 0, cl_cgroup = 0\<rparr>"

definition CloneArgs_setFlags :: "64 mask \<Rightarrow> CloneArgs \<Rightarrow> CloneArgs" where
  "CloneArgs_setFlags flags a = a\<lparr>cl_flags := BitMask_raw flags\<rparr>"

definition CloneArgs_isSet :: "CloneFlag \<Rightarrow> CloneArgs \<Rightarrow> bool" where
  "CloneArgs_isSet f a \<longleftrightarrow> cl_flags a AND CloneFlag_value f = CloneFlag_value f"

definition CloneArgs_adjustFlag :: "CloneFlag \<Rightarrow> bool \<Rightarrow> CloneArgs \<Rightarrow> CloneArgs" where
  "CloneArgs_adjustFlag f on_off a = CloneArgs_setFlags
     (if on_off then BitMask_set_flag (cl_flags a) (CloneFlag_value f) True
      else BitMask_reset_flag (cl_flags a) (CloneFlag_value f)) a"

definition CloneArgs_setPidFD :: "64 word \<Rightarrow> CloneArgs \<Rightarrow> CloneArgs" where
  "CloneArgs_setPidFD p a = (CloneArgs_adjustFlag CLONE_PIDFD (p \<noteq> 0) a)\<lparr>cl_pidfd := p\<rparr>"

definition CloneArgs_pidfd :: "CloneArgs \<Rightarrow> 64 word" where
  "CloneArgs_pidfd a = (if CloneArgs_isSet CLONE_PIDFD a then cl_pidfd a else 0)"

definition CloneArgs_setChildTID :: "64 word \<Rightarrow> CloneArgs \<Rightarrow> CloneArgs" where
  "CloneArgs_setChildTID p a = (CloneArgs_adjustFlag CHILD_SETTID (p \<noteq> 0) a)\<lparr>cl_child_tid := p\<rparr>"

definition CloneArgs_childTID :: "CloneArgs \<Rightarrow> 64 word" where
  "CloneArgs_childTID a = (if CloneArgs_isSet CHILD_SETTID a then cl_child_tid a else 0)"

definition CloneArgs_setParentTID :: "64 word \<Rightarrow> CloneArgs \<Rightarrow> CloneArgs" where
  "CloneArgs_setParentTID p a = (CloneArgs_adjustFlag PARENT_SETTID (p \<noteq> 0) a)\<lparr>cl_parent_tid := p\<rparr>"

definition CloneArgs_parentTID :: "CloneArgs \<Rightarrow> 64 word" where
  "CloneArgs_parentTID a = (if CloneArgs_isSet PARENT_SETTID a then cl_parent_tid a else 0)"

definition CloneArgs_setCGroup :: "FileDescriptor \<Rightarrow> CloneArgs \<Rightarrow> CloneArgs" where
  "CloneArgs_setCGroup d a = (CloneArgs_adjustFlag INTO_CGROUP (FD_valid d) a)\<lparr>cl_cgroup := word_of_int (m_fd d)\<rparr>"

definition CloneArgs_cgroup :: "CloneArgs \<Rightarrow> FileDescriptor" where
  "CloneArgs_cgroup a = (if CloneArgs_isSet INTO_CGROUP a
     then FD (sint (ucast (cl_cgroup a) :: 32 word)) else FD_default)"

definition CloneArgs_setStack :: "64 word \<Rightarrow> 64 word \<Rightarrow> CloneArgs \<Rightarrow> CloneArgs" where
  "CloneArgs_setStack p n a = a\<lparr>cl_stack := p, cl_stack_size := n\<rparr>"

definition CloneArgs_setTIDs :: "64 word \<Rightarrow> 64 word \<Rightarrow> CloneArgs \<Rightarrow> CloneArgs" where
  "CloneArgs_setTIDs p n a = a\<lparr>cl_set_tid := p, cl_set_tid_size := n\<rparr>"

definition clone_arg :: "CloneArgs \<Rightarrow> arg" where
  "clone_arg a = L (map (\<lambda>f. I (uint (f a))) [cl_flags, cl_exit_signal, cl_stack, cl_stack_size,
     cl_set_tid, cl_set_tid_size, cl_cgroup])"

text \<open>The descriptor that is stored through \<^verbatim>\<open>pidfd\<close> is the first integer of the answer.\<close>

definition proc_clone :: "CloneArgs \<Rightarrow> (world, (ProcessID \<times> FileNum) option) act" where
  "proc_clone args = bind (call ''clone3'' [clone_arg args]) (\<lambda>a.
     if rv a = -1 then throw_ApiError ''clone3()''
     else if rv a = 0 then ret None
     else ret (Some (rv a, case outs a of [] \<Rightarrow> FileNum_of FN_INVALID | n # _ \<Rightarrow> n)))"

subsection \<open>Scheduler settings\<close>

datatype SchedulerPolicy = SCHED_FIFO | SCHED_ROUND_ROBIN | SCHED_DEADLINE | SCHED_OTHER | SCHED_BATCH
  | SCHED_IDLE | SCHED_INVALID

primrec SchedulerPolicy_value :: "SchedulerPolicy \<Rightarrow> int" where
  "SchedulerPolicy_value SCHED_FIFO = 1"
| "SchedulerPolicy_value SCHED_ROUND_ROBIN = 2"
| "SchedulerPolicy_value SCHED_DEADLINE = 6"
| "SchedulerPolicy_value SCHED_OTHER = 0"
| "SchedulerPolicy_value SCHED_BATCH = 3"
| "SchedulerPolicy_value SCHED_IDLE = 5"
| "SchedulerPolicy_value SCHED_INVALID = -1"

text \<open>The three classes that can be chosen, with the value each of them holds.\<close>

datatype SchedulerSettings = OtherSettings int | FifoSettings int | RoundRobinSettings int

definition INVALID_NICE_PRIO :: int where "INVALID_NICE_PRIO = 20"

primrec sched_policy :: "SchedulerSettings \<Rightarrow> SchedulerPolicy" where
  "sched_policy (OtherSettings n) = SCHED_OTHER"
| "sched_policy (FifoSettings n) = SCHED_FIFO"
| "sched_policy (RoundRobinSettings n) = SCHED_ROUND_ROBIN"

record sched_attr =
  sa_policy :: int
  sa_nice :: int
  sa_priority :: int

primrec fillStruct :: "SchedulerSettings \<Rightarrow> exn + sched_attr" where
  "fillStruct (OtherSettings n) = Inr \<lparr>sa_policy = SchedulerPolicy_value SCHED_OTHER, sa_nice = n, sa_priority = 0\<rparr>"
| "fillStruct (FifoSettings n) = Inr \<lparr>sa_policy = SchedulerPolicy_value SCHED_FIFO, sa_nice = 0, sa_priority = n\<rparr>"
| "fillStruct (RoundRobinSettings n) = Inr \<lparr>sa_policy = SchedulerPolicy_value SCHED_ROUND_ROBIN, sa_nice = 0, sa_priority = n\<rparr>"

definition SchedulerSettings_apply :: "SchedulerSettings \<Rightarrow> ProcessID \<Rightarrow> (world, unit) act" where
  "SchedulerSettings_apply s pid = (case fillStruct s of
      Inl e \<Rightarrow> throw e
    | Inr attr \<Rightarrow> call_or_throw (\<lambda>r. r = 0) ''sched_setattr''
        [I pid, L [I (sa_policy attr), I (sa_nice attr), I (sa_priority attr)], I 0]
        (throw_ApiError ''sched_setattr()''))"

definition minPriority :: "SchedulerSettings \<Rightarrow> (world, int) act" where
  "minPriority s = bind (call ''sched_get_priority_min'' [I (SchedulerPolicy_value (sched_policy s))]) (\<lambda>a.
     if rv a = -1 then throw_ApiError ''sched_get_priority_min()'' else ret (rv a))"

definition maxPriority :: "SchedulerSettings \<Rightarrow> (world, int) act" where
  "maxPriority s = bind (call ''sched_get_priority_max'' [I (SchedulerPolicy_value (sched_policy s))]) (\<lambda>a.
     if rv a = -1 then throw_ApiError ''sched_get_priority_max()'' else ret (rv a))"

subsection \<open>Properties\<close>

text \<open>
  Waiting for a child makes one call.  What it returns has the event, the process and the
  exit status or signal the kernel stored, an exit status exactly for an exit and a signal
  otherwise, and never any times; with NO_HANG it returns nothing when no child has changed;
  and a failure is thrown.
\<close>

theorem wait_reports_child:
  assumes "answers w = a # as" "outs a = [SignalNr_value SIG_CHILD, code, pid, uid, status]"
  shows "fst (proc_wait wid flags w) =
    (if rv a \<noteq> 0 then Throw (ApiError ''wait()'' (errno_after (errno_var w) a))
     else if wait_has flags NO_HANG \<and> pid = 0 then Ret None
     else Ret (Some \<lparr>cs_event = code, cs_child = \<lparr>ctx_pid = pid, ctx_uid = as_id uid\<rparr>,
       cs_status = (if code = ChildEvent_value EV_EXITED then Some status else None),
       cs_signal = (if code = ChildEvent_value EV_EXITED then None else Some status),
       user_time = None, system_time = None\<rparr>)) \<and>
   trace (snd (proc_wait wid flags w)) = trace w @ [(Call ''waitid'' (WaitId_args wid @ [I (uint flags)]), a)]"
  using assms
  by (simp add: proc_wait_def act_defs kernel_defs waitid_out_def childData_def sigNr_def procCtx_def
      uint_word_of_int as_id_def BitMask_raw_def)

theorem wait_reports_child_witness:
  "fst (proc_wait (P_PID 42) (WaitFlag_value WAIT_FOR_EXITED)
      (world_of [\<lparr>rv = 0, err = None, out = [], outs = [17, 1, 42, 0, 7]\<rparr>])) =
    Ret (Some \<lparr>cs_event = 1, cs_child = \<lparr>ctx_pid = 42, ctx_uid = 0\<rparr>, cs_status = Some 7, cs_signal = None,
      user_time = None, system_time = None\<rparr>)"
  using wait_reports_child[of "world_of [\<lparr>rv = 0, err = None, out = [], outs = [17, 1, 42, 0, 7]\<rparr>]"
      "\<lparr>rv = 0, err = None, out = [], outs = [17, 1, 42, 0, 7]\<rparr>" "[]" 1 42 0 7 "P_PID 42"
      "WaitFlag_value WAIT_FOR_EXITED"]
  by (simp add: world_of_def wait_has_def as_id_def)

text \<open>
  A process is told to lead its group exactly when the kernel reports its own number as
  that of the group.  For the calling process the number asked with is zero, which is no
  group's, so the answer is \<^verbatim>\<open>false\<close> even for a leader.
\<close>

theorem caller_is_never_group_leader:
  assumes "answers w = a # as" "0 < rv a"
  shows "fst (is_caller_process_group_leader w) = Ret False \<and>
    (pid \<noteq> -1 \<longrightarrow> fst (is_process_group_leader pid w) = Ret (pid = rv a))"
  using assms
  by (simp add: is_caller_process_group_leader_def is_process_group_leader_def get_process_group_of_def
      act_defs kernel_defs)

theorem caller_is_never_group_leader_witness:
  "fst (is_caller_process_group_leader (world_of [ok 500])) = Ret False \<and>
   fst (is_process_group_leader 500 (world_of [ok 500])) = Ret True"
  using caller_is_never_group_leader[of "world_of [ok 500]" "ok 500" "[]" 500] by (simp add: world_of_def)

end
