(* ===== verification/HostBytes.thy ===== *)
theory HostBytes
  imports ByteOrder
begin

text \<open>
  Numbers as the bytes they occupy in memory, for the parts of the library that read and write
  the structures of the kernel: events of an eventfd, records of inotify, control messages.
  Memory contents are strings, as in the transfers of theory StreamIO; the byte order of the
  host is a parameter.
\<close>

definition str_of_bytes :: "8 word list \<Rightarrow> string" where
  "str_of_bytes bs = map (\<lambda>b. char_of (unat b)) bs"

definition bytes_of_str :: "string \<Rightarrow> 8 word list" where
  "bytes_of_str s = map (\<lambda>c. of_nat (of_char c)) s"

definition host_str :: "Endian \<Rightarrow> 'w::len word \<Rightarrow> string" where
  "host_str e w = str_of_bytes (memory e w)"

definition host_word :: "Endian \<Rightarrow> string \<Rightarrow> 'w::len word" where
  "host_word e s = of_bytes (case e of LITTLE \<Rightarrow> bytes_of_str s | BIG \<Rightarrow> rev (bytes_of_str s))"

lemma byte_of_char_of: "(of_nat (of_char (char_of (unat b))) :: 8 word) = b"
proof -
  have "unat b < 256" using unsigned_less[of b] by simp
  then show ?thesis by simp
qed

lemma bytes_of_str_of_bytes [simp]: "bytes_of_str (str_of_bytes bs) = bs"
  by (simp add: bytes_of_str_def str_of_bytes_def o_def byte_of_char_of del: of_char_of)

lemma length_str_of_bytes [simp]: "length (str_of_bytes bs) = length bs"
  by (simp add: str_of_bytes_def)

lemma length_host_str [simp]: "length (host_str e (w :: 'w::len word)) = LENGTH('w) div 8"
  by (cases e) (simp_all add: host_str_def memory_def)

text \<open>Reading a number back gives what was stored.\<close>

lemma host_word_str [simp]:
  "8 dvd LENGTH('w) \<Longrightarrow> host_word e (host_str e w) = (w :: 'w::len word)"
  by (cases e) (simp_all add: host_word_def host_str_def memory_def of_bytes_bytes)

lemma char_of_byte_of: "char_of (unat (of_nat (of_char c) :: 8 word)) = c"
proof -
  have "(of_char c :: nat) < 256" using nat_of_char_less_256[of c] by simp
  then show ?thesis by (simp add: unat_of_nat)
qed

lemma str_of_bytes_of_str [simp]: "str_of_bytes (bytes_of_str s) = s"
  by (simp add: bytes_of_str_def str_of_bytes_def o_def char_of_byte_of)

lemma length_bytes_of_str [simp]: "length (bytes_of_str s) = length s"
  by (simp add: bytes_of_str_def)

lemma host_str_word:
  "8 dvd LENGTH('w) \<Longrightarrow> length s = LENGTH('w) div 8 \<Longrightarrow> host_str e (host_word e s :: 'w::len word) = s"
  by (cases e) (simp_all add: host_word_def host_str_def memory_def bytes_of_bytes)

subsection \<open>Fields of a structure in memory\<close>

text \<open>The \<open>n\<close> bytes at an offset, and storing bytes at an offset as \<^verbatim>\<open>memcpy()\<close> does.\<close>

definition peek :: "nat \<Rightarrow> nat \<Rightarrow> string \<Rightarrow> string" where
  "peek off n m = take n (drop off m)"

definition poke :: "nat \<Rightarrow> string \<Rightarrow> string \<Rightarrow> string" where
  "poke off s m = take off m @ s @ drop (off + length s) m"

lemma length_poke [simp]: "off + length s \<le> length m \<Longrightarrow> length (poke off s m) = length m"
  by (simp add: poke_def)

lemma length_peek [simp]: "off + n \<le> length m \<Longrightarrow> length (peek off n m) = n"
  by (simp add: peek_def)

lemma peek_poke_same [simp]: "off + length s \<le> length m \<Longrightarrow> n = length s \<Longrightarrow> peek off n (poke off s m) = s"
  by (simp add: peek_def poke_def)

lemma peek_poke_other:
  assumes "off + length s \<le> length m" "o' + n \<le> off \<or> off + length s \<le> o'"
  shows "peek o' n (poke off s m) = peek o' n m"
  using assms(2)
proof
  assume "o' + n \<le> off"
  with assms(1) show ?thesis by (simp add: peek_def poke_def take_drop min_def)
next
  assume a: "off + length s \<le> o'"
  with assms(1) have "drop (o' - off) (s @ drop (off + length s) m) = drop o' m" by simp
  with a assms(1) show ?thesis by (simp add: peek_def poke_def)
qed

end
