(* ===== verification/Retry.thy ===== *)
theory Retry
  imports Kernel
begin

text \<open>
  The contract of an operation that repeats an interrupted system call by itself: with
  \<^verbatim>\<open>auto_restart_syscalls\<close> set, an answer EINTR is as if the call had not been made yet, apart
  from the trace and errno.  The operations of several classes keep it, each with its own loop.
\<close>

locale restarting =
  fixes run :: "(world, 'a) act" and f :: string and args :: "arg list"
  assumes interrupted: "\<lbrakk>answers w = failed Errno_INTERRUPTED # as; auto_restart_syscalls w\<rbrakk> \<Longrightarrow>
    run w = run (snd (call f args w))"
begin

lemma interrupted_often:
  assumes "answers w = replicate k (failed Errno_INTERRUPTED) @ as" "auto_restart_syscalls w"
  shows "\<exists>w'. run w = run w' \<and> runs_to w (replicate k (Call f args, failed Errno_INTERRUPTED)) w' \<and>
    answers w' = as"
  using assms
proof (induction k arbitrary: w)
  case 0
  then show ?case by auto
next
  case (Suc k)
  let ?v = "snd (call f args w)"
  from Suc.prems have a: "answers w = failed Errno_INTERRUPTED # replicate k (failed Errno_INTERRUPTED) @ as"
    by simp
  then have v: "runs_to w [(Call f args, failed Errno_INTERRUPTED)] ?v"
    "answers ?v = replicate k (failed Errno_INTERRUPTED) @ as" "auto_restart_syscalls ?v"
    using Suc.prems(2) by (simp_all add: call_def runs_to_def)
  from Suc.IH[OF v(2,3)] obtain u where
    "run ?v = run u" "runs_to ?v (replicate k (Call f args, failed Errno_INTERRUPTED)) u" "answers u = as"
    by blast
  with interrupted[OF a Suc.prems(2)] runs_to_trans[OF v(1)] show ?case by fastforce
qed

text \<open>So an operation that handles the first other answer handles it after any number of interruptions.\<close>

lemma eventually_answered:
  assumes "answers w = replicate k (failed Errno_INTERRUPTED) @ a # as" "auto_restart_syscalls w"
    and fin: "\<And>v. answers v = a # as \<Longrightarrow> auto_restart_syscalls v \<Longrightarrow>
      \<exists>v'. run v = (r, v') \<and> runs_to v [(Call f args, a)] v'"
  shows "\<exists>w'. run w = (r, w') \<and>
    runs_to w (replicate k (Call f args, failed Errno_INTERRUPTED) @ [(Call f args, a)]) w'"
proof -
  from interrupted_often[OF assms(1,2)] obtain v where v: "run w = run v"
    "runs_to w (replicate k (Call f args, failed Errno_INTERRUPTED)) v" "answers v = a # as" by blast
  with assms(2) have "auto_restart_syscalls v" by (simp add: runs_to_def)
  from fin[OF v(3) this] v runs_to_trans show ?thesis by fastforce
qed

end

end
