(* ===== verification/Events.thy ===== *)
theory Events
  imports Files StreamIO HostBytes Retry TimeTypes
begin

text \<open>
  The descriptors events come from: \<^verbatim>\<open>EventFile\<close> (\<^verbatim>\<open>src/io/EventFile.cxx\<close>), \<^verbatim>\<open>Poller\<close>
  (\<^verbatim>\<open>src/io/Poller.cxx\<close>), \<^verbatim>\<open>TimerFD\<close> (\<^verbatim>\<open>src/time/TimerFD.cxx\<close>) and \<^verbatim>\<open>INotify\<close>
  (\<^verbatim>\<open>src/fs/INotify.cxx\<close>).  The byte order of the host is the first argument of the operations
  that exchange numbers with the kernel through \<^verbatim>\<open>read()\<close> and \<^verbatim>\<open>write()\<close>.
\<close>

subsection \<open>EventFile\<close>

datatype EventFlag = EFD_CLOSE_ON_EXEC | EFD_NONBLOCK | EFD_SEMAPHORE

primrec EventFlag_value :: "EventFlag \<Rightarrow> 32 word" where
  "EventFlag_value EFD_CLOSE_ON_EXEC = 0x80000"
| "EventFlag_value EFD_NONBLOCK = 0x800"
| "EventFlag_value EFD_SEMAPHORE = 1"

text \<open>The parameter of \<^verbatim>\<open>eventfd()\<close> is an \<^verbatim>\<open>unsigned int\<close>: the upper half of the counter is lost.\<close>

definition EventFile_create :: "64 word \<Rightarrow> 32 mask \<Rightarrow> (world, FDFile) act" where
  "EventFile_create initval flags =
     bind (call ''eventfd'' [I (uint (ucast initval :: 32 word)), I (sint (BitMask_raw flags))]) (\<lambda>a.
       if rv a = -1 then throw_ApiError ''eventfd()''
       else ret (FDFile_open_fd (FD (rv a)) True FDFile_default))"

definition EventFile_wait :: "Endian \<Rightarrow> FDFile \<Rightarrow> (world, 64 word) act" where
  "EventFile_wait e f = bind (StreamIO_read (m_fd (fb_fd f)) 8) (\<lambda>(n, bs).
     if n \<noteq> 8 then throw (RuntimeError ''short eventfd read?!'') else ret (host_word e bs))"

definition EventFile_signal :: "Endian \<Rightarrow> 64 word \<Rightarrow> FDFile \<Rightarrow> (world, unit) act" where
  "EventFile_signal e increment f = bind (StreamIO_write (m_fd (fb_fd f)) (host_str e increment)) (\<lambda>n.
     if n \<noteq> 8 then throw (RuntimeError ''short eventfd write?!'') else ret ())"

subsection \<open>Poller\<close>

datatype MonitorFlag = MON_INPUT | MON_OUTPUT | MON_SOCKET_HANGUP | MON_EXCEPTIONS | MON_EDGE_TRIGGERED
  | MON_ONESHOT | MON_STAY_AWAKE

primrec MonitorFlag_value :: "MonitorFlag \<Rightarrow> 32 word" where
  "MonitorFlag_value MON_INPUT = 0x001"
| "MonitorFlag_value MON_OUTPUT = 0x004"
| "MonitorFlag_value MON_SOCKET_HANGUP = 0x2000"
| "MonitorFlag_value MON_EXCEPTIONS = 0x002"
| "MonitorFlag_value MON_EDGE_TRIGGERED = 0x80000000"
| "MonitorFlag_value MON_ONESHOT = 0x40000000"
| "MonitorFlag_value MON_STAY_AWAKE = 0x20000000"

datatype PollerEvent = PE_INPUT_READY | PE_OUTPUT_READY | PE_SOCKET_HANGUP | PE_EXCEPTION_OCCURED
  | PE_ERROR_OCCURED | PE_HANGUP_OCCURED

primrec PollerEvent_value :: "PollerEvent \<Rightarrow> 32 word" where
  "PollerEvent_value PE_INPUT_READY = 0x001"
| "PollerEvent_value PE_OUTPUT_READY = 0x004"
| "PollerEvent_value PE_SOCKET_HANGUP = 0x2000"
| "PollerEvent_value PE_EXCEPTION_OCCURED = 0x002"
| "PollerEvent_value PE_ERROR_OCCURED = 0x008"
| "PollerEvent_value PE_HANGUP_OCCURED = 0x010"

record PollEvent =
  pe_fd :: FileNum
  pe_events :: "32 word"

definition PollEvent_fd :: "PollEvent \<Rightarrow> FileDescriptor" where
  "PollEvent_fd e = FD (pe_fd e)"

definition PollEvent_getEvents :: "PollEvent \<Rightarrow> 32 mask" where
  "PollEvent_getEvents e = BitMask_of (pe_events e)"

record Poller =
  m_poll_fd :: FileDescriptor
  m_events :: "PollEvent list"

definition Poller_default :: Poller where
  "Poller_default = \<lparr>m_poll_fd = FD_default, m_events = []\<rparr>"

definition Poller_valid :: "Poller \<Rightarrow> bool" where
  "Poller_valid p \<longleftrightarrow> FD_valid (m_poll_fd p)"

definition EPOLL_CLOEXEC :: int where "EPOLL_CLOEXEC = 0x80000"

text \<open>\<^verbatim>\<open>resize()\<close> of the vector adds empty events or cuts its end off.\<close>

definition resize_events :: "nat \<Rightarrow> PollEvent list \<Rightarrow> PollEvent list" where
  "resize_events n es = take n es @ replicate (n - length es) \<lparr>pe_fd = 0, pe_events = 0\<rparr>"

definition Poller_create :: "nat \<Rightarrow> (Poller \<times> world, unit) act" where
  "Poller_create max_events = bind (this Poller_valid) (\<lambda>valid.
     if valid then ret ()
     else bind (on_world (call ''epoll_create1'' [I EPOLL_CLOEXEC])) (\<lambda>a.
       if rv a < 0 then on_world (throw_ApiError ''epoll_create1()'')
       else set_this (\<lambda>p. p\<lparr>m_poll_fd := FD_setFD (rv a) (m_poll_fd p),
          m_events := resize_events max_events (m_events p)\<rparr>)))"

definition Poller_close :: "(Poller \<times> world, unit) act" where
  "Poller_close = bind (this Poller_valid) (\<lambda>valid.
     if \<not> valid then ret ()
     else andthen (zoom m_poll_fd (\<lambda>d p. p\<lparr>m_poll_fd := d\<rparr>) FD_close)
       (set_this (\<lambda>p. p\<lparr>m_events := []\<rparr>)))"

definition Poller_destroy :: "(Poller \<times> world, unit) act" where
  "Poller_destroy = catch Poller_close (\<lambda>e. ret ())"

datatype EpollOp = EPOLL_CTL_ADD | EPOLL_CTL_DEL | EPOLL_CTL_MOD

primrec EpollOp_value :: "EpollOp \<Rightarrow> int" where
  "EpollOp_value EPOLL_CTL_ADD = 1"
| "EpollOp_value EPOLL_CTL_DEL = 2"
| "EpollOp_value EPOLL_CTL_MOD = 3"

definition control :: "FileNum \<Rightarrow> FileNum \<Rightarrow> EpollOp \<Rightarrow> 32 word \<Rightarrow> (world, unit) act" where
  "control epfd fd oper events = call_or_throw (\<lambda>r. \<not> r < 0) ''epoll_ctl''
     [I epfd, I (EpollOp_value oper), I fd, L [I fd, I (uint events)]] (throw_ApiError ''epoll_ctl()'')"

definition Poller_addFD :: "FileDescriptor \<Rightarrow> 32 mask \<Rightarrow> Poller \<Rightarrow> (world, unit) act" where
  "Poller_addFD fd flags p = control (m_fd (m_poll_fd p)) (m_fd fd) EPOLL_CTL_ADD (BitMask_raw flags)"

definition Poller_modFD :: "FileDescriptor \<Rightarrow> 32 mask \<Rightarrow> Poller \<Rightarrow> (world, unit) act" where
  "Poller_modFD fd flags p = control (m_fd (m_poll_fd p)) (m_fd fd) EPOLL_CTL_MOD (BitMask_raw flags)"

definition Poller_delFD :: "FileDescriptor \<Rightarrow> Poller \<Rightarrow> (world, unit) act" where
  "Poller_delFD fd p = call_or_throw (\<lambda>r. \<not> r < 0) ''epoll_ctl''
     [I (m_fd (m_poll_fd p)), I (EpollOp_value EPOLL_CTL_DEL), I (m_fd fd), I 0]
     (throw_ApiError ''epoll_ctl(EPOLL_CTL_DEL)'')"

text \<open>The events the kernel stores: descriptor and mask of each.\<close>

fun events_out :: "int list \<Rightarrow> PollEvent list" where
  "events_out (fd # m # rest) = \<lparr>pe_fd = fd, pe_events = word_of_int m\<rparr> # events_out rest"
| "events_out _ = []"

definition timeout_arg :: "TimeSpec option \<Rightarrow> arg" where
  "timeout_arg t = (case t of None \<Rightarrow> I 0 | Some ts \<Rightarrow> timespec_arg ts)"

definition wait_args :: "Poller \<Rightarrow> TimeSpec option \<Rightarrow> arg list" where
  "wait_args p timeout = [I (m_fd (m_poll_fd p)), I (int (length (m_events p))), timeout_arg timeout]"

definition poll_call :: "Poller \<Rightarrow> TimeSpec option \<Rightarrow> (world, answer) act" where
  "poll_call p timeout = syscall_loop (bind (call ''epoll_pwait2'' (wait_args p timeout)) (\<lambda>a.
     if rv a < 0 then
       bind get_errno (\<lambda>e. bind (gets auto_restart_syscalls) (\<lambda>restart.
         if restart \<and> e = errno_of Errno_INTERRUPTED then ret None
         else throw_ApiError ''epoll_wait()''))
     else ret (Some a)))"

definition Poller_wait :: "TimeSpec option \<Rightarrow> (Poller \<times> world, PollEvent list) act" where
  "Poller_wait timeout = bind (this (\<lambda>p. p)) (\<lambda>p.
     bind (on_world (poll_call p timeout)) (\<lambda>a.
       let stored = events_out (outs a) @ drop (length (events_out (outs a))) (m_events p)
       in andthen (set_this (\<lambda>p. p\<lparr>m_events := stored\<rparr>)) (ret (take (nat (rv a)) stored))))"

subsection \<open>TimerFD\<close>

datatype TimerCreateFlag = TFD_NONBLOCK | TFD_CLOEXEC

primrec TimerCreateFlag_value :: "TimerCreateFlag \<Rightarrow> 32 word" where
  "TimerCreateFlag_value TFD_NONBLOCK = 0x800"
| "TimerCreateFlag_value TFD_CLOEXEC = 0x80000"

datatype TimerStartFlag = TFD_ABSTIME | TFD_CANCEL_ON_SET

primrec TimerStartFlag_value :: "TimerStartFlag \<Rightarrow> 32 word" where
  "TimerStartFlag_value TFD_ABSTIME = 1"
| "TimerStartFlag_value TFD_CANCEL_ON_SET = 2"

record TimerSpec =
  ts_initial :: TimeSpec
  ts_interval :: TimeSpec

definition TimerSpec_default :: TimerSpec where
  "TimerSpec_default = \<lparr>ts_initial = TimeSpec_reset, ts_interval = TimeSpec_reset\<rparr>"

definition makeEqualInterval :: "TimerSpec \<Rightarrow> TimerSpec" where
  "makeEqualInterval t = t\<lparr>ts_interval := ts_initial t\<rparr>"

definition resetInterval :: "TimerSpec \<Rightarrow> TimerSpec" where
  "resetInterval t = t\<lparr>ts_interval := TimeSpec_reset\<rparr>"

text \<open>In memory \<^verbatim>\<open>struct itimerspec\<close> has the interval first.\<close>

definition TimerSpec_arg :: "TimerSpec \<Rightarrow> arg" where
  "TimerSpec_arg t = L [timespec_arg (ts_interval t), timespec_arg (ts_initial t)]"

definition TimerSpec_out :: "answer \<Rightarrow> TimerSpec" where
  "TimerSpec_out a = (case outs a of
      [isec, insec, vsec, vnsec] \<Rightarrow> \<lparr>ts_initial = TimeSpec vsec vnsec, ts_interval = TimeSpec isec insec\<rparr>
    | _ \<Rightarrow> TimerSpec_default)"

definition TimerFD_create :: "ClockType \<Rightarrow> 32 mask \<Rightarrow> (FDFile \<times> world, unit) act" where
  "TimerFD_create clock flags = andthen FDFile_close
     (bind (on_world (call ''timerfd_create'' [I (ClockType_value clock), I (sint (BitMask_raw flags))])) (\<lambda>a.
       if rv a \<noteq> FileNum_of FN_INVALID then set_this (FDFile_open_fd (FD (rv a)) True)
       else on_world (throw_ApiError ''timerfd_create()'')))"

definition TimerFD_getTime :: "FDFile \<Rightarrow> (world, TimerSpec) act" where
  "TimerFD_getTime f = bind (call ''timerfd_gettime'' [I (m_fd (fb_fd f))]) (\<lambda>a.
     if rv a \<noteq> 0 then throw_ApiError ''timerfd_gettime()'' else ret (TimerSpec_out a))"

definition TimerFD_setTime :: "TimerSpec \<Rightarrow> 32 mask \<Rightarrow> FDFile \<Rightarrow> (world, unit) act" where
  "TimerFD_setTime spec flags f = call_or_throw (\<lambda>r. r = 0) ''timerfd_settime''
     [I (m_fd (fb_fd f)), I (sint (BitMask_raw flags)), TimerSpec_arg spec, I 0]
     (throw_ApiError ''timerfd_settime()'')"

definition TimerFD_wait :: "Endian \<Rightarrow> FDFile \<Rightarrow> (world, 64 word) act" where
  "TimerFD_wait e f = bind (StreamIO_read (m_fd (fb_fd f)) 8) (\<lambda>(n, bs).
     if n \<noteq> 8 then throw (RuntimeError ''Short read on timer fd'') else ret (host_word e bs))"

definition TimerFD_disarm :: "FDFile \<Rightarrow> (world, unit) act" where
  "TimerFD_disarm = TimerFD_setTime TimerSpec_default 0"

subsection \<open>INotify\<close>

datatype (plugins only: lifting) EventType = IN_ACCESS | IN_ATTRIB | IN_CLOSE_WRITE | IN_CLOSE_NOWRITE | IN_CLOSED
  | IN_CREATE | IN_DELETE | IN_DELETE_SELF | IN_MODIFY | IN_MOVE_SELF | IN_MOVED_FROM | IN_MOVED_TO
  | IN_MOVED | IN_OPEN | IN_ALL_EVENTS

primrec EventType_value :: "EventType \<Rightarrow> 32 word" where
  "EventType_value IN_ACCESS = 0x1"
| "EventType_value IN_ATTRIB = 0x4"
| "EventType_value IN_CLOSE_WRITE = 0x8"
| "EventType_value IN_CLOSE_NOWRITE = 0x10"
| "EventType_value IN_CLOSED = 0x18"
| "EventType_value IN_CREATE = 0x100"
| "EventType_value IN_DELETE = 0x200"
| "EventType_value IN_DELETE_SELF = 0x400"
| "EventType_value IN_MODIFY = 0x2"
| "EventType_value IN_MOVE_SELF = 0x800"
| "EventType_value IN_MOVED_FROM = 0x40"
| "EventType_value IN_MOVED_TO = 0x80"
| "EventType_value IN_MOVED = 0xc0"
| "EventType_value IN_OPEN = 0x20"
| "EventType_value IN_ALL_EVENTS = 0xfff"

datatype NotifyFlag = IN_IGNORED | IN_ISDIR | IN_OVERFLOW | IN_UNMOUNT

primrec NotifyFlag_value :: "NotifyFlag \<Rightarrow> 32 word" where
  "NotifyFlag_value IN_IGNORED = 0x8000"
| "NotifyFlag_value IN_ISDIR = 0x40000000"
| "NotifyFlag_value IN_OVERFLOW = 0x4000"
| "NotifyFlag_value IN_UNMOUNT = 0x2000"

datatype WatchFlag = IN_DONT_FOLLOW | IN_EXCL_UNLINK | IN_MASK_ADD | IN_ONESHOT | IN_ONLY_DIR | IN_MASK_CREATE

primrec WatchFlag_value :: "WatchFlag \<Rightarrow> 32 word" where
  "WatchFlag_value IN_DONT_FOLLOW = 0x02000000"
| "WatchFlag_value IN_EXCL_UNLINK = 0x04000000"
| "WatchFlag_value IN_MASK_ADD = 0x20000000"
| "WatchFlag_value IN_ONESHOT = 0x80000000"
| "WatchFlag_value IN_ONLY_DIR = 0x01000000"
| "WatchFlag_value IN_MASK_CREATE = 0x10000000"

datatype NotifyInitFlag = IN_NONBLOCK | IN_CLOEXEC

primrec NotifyInitFlag_value :: "NotifyInitFlag \<Rightarrow> 32 word" where
  "NotifyInitFlag_value IN_NONBLOCK = 0x800"
| "NotifyInitFlag_value IN_CLOEXEC = 0x80000"

text \<open>
  \<^verbatim>\<open>struct inotify_event\<close>: four numbers of 32 bits and the bytes of the name, which the kernel
  pads with zeros to the length it announces.
\<close>

record inotify_event =
  ev_wd :: "32 word"
  ev_mask :: "32 word"
  ev_cookie :: "32 word"
  ev_len :: "32 word"
  ev_name :: string

definition inotify_header :: nat where "inotify_header = 16"

text \<open>The record at an offset of the buffer.\<close>

definition event_at :: "Endian \<Rightarrow> string \<Rightarrow> nat \<Rightarrow> inotify_event" where
  "event_at e buf off = (let b = drop off buf; len = host_word e (take 4 (drop 12 b)) in
     \<lparr>ev_wd = host_word e (take 4 b), ev_mask = host_word e (take 4 (drop 4 b)),
      ev_cookie = host_word e (take 4 (drop 8 b)), ev_len = len,
      ev_name = take (unat len) (drop inotify_header b)\<rparr>)"

definition Event_id :: "inotify_event \<Rightarrow> int" where
  "Event_id ev = sint (ev_wd ev)"

definition Event_cookie :: "inotify_event \<Rightarrow> 32 word" where
  "Event_cookie ev = ev_cookie ev"

definition Event_event :: "inotify_event \<Rightarrow> 32 mask" where
  "Event_event ev = BitMask_of (ev_mask ev AND EventType_value IN_ALL_EVENTS)"

definition Event_flags :: "inotify_event \<Rightarrow> 32 mask" where
  "Event_flags ev = BitMask_of (ev_mask ev AND NOT (EventType_value IN_ALL_EVENTS))"

text \<open>\<^verbatim>\<open>std::string_view::find_last_not_of()\<close>; \<open>None\<close> stands for \<^verbatim>\<open>npos\<close>.\<close>

definition find_last_not_of :: "string \<Rightarrow> string \<Rightarrow> nat option" where
  "find_last_not_of s cs = (case filter (\<lambda>i. s ! i \<notin> set cs) (rev [0..<length s]) of
      [] \<Rightarrow> None | i # _ \<Rightarrow> Some i)"

definition Event_name :: "inotify_event \<Rightarrow> string" where
  "Event_name ev = (if ev_len ev = 0 then []
     else case find_last_not_of (ev_name ev) [CHR 0x00] of None \<Rightarrow> [] | Some i \<Rightarrow> take (i + 1) (ev_name ev))"

record INotify =
  m_notify_file :: FDFile
  m_io_buffer_size :: nat
  m_buffer :: string
  m_offset :: nat

definition INotify_create :: "nat \<Rightarrow> 32 mask \<Rightarrow> (world, INotify) act" where
  "INotify_create io_buffer_size flags = bind (call ''inotify_init1'' [I (sint (BitMask_raw flags))]) (\<lambda>a.
     if rv a = -1 then throw_ApiError ''inotify_init1()''
     else ret \<lparr>m_notify_file = FDFile_open_fd (FD (rv a)) True FDFile_default,
       m_io_buffer_size = io_buffer_size, m_buffer = [], m_offset = 0\<rparr>)"

definition INotify_destroy :: "(INotify \<times> world, unit) act" where
  "INotify_destroy = zoom m_notify_file (\<lambda>f n. n\<lparr>m_notify_file := f\<rparr>) FDFile_destroy"

definition INotify_rawFD :: "INotify \<Rightarrow> FileNum" where
  "INotify_rawFD n = m_fd (fb_fd (m_notify_file n))"

definition INotify_addWatch :: "string \<Rightarrow> 32 mask \<Rightarrow> 32 mask \<Rightarrow> INotify \<Rightarrow> (world, int) act" where
  "INotify_addWatch path types flags n =
     bind (call ''inotify_add_watch'' [I (INotify_rawFD n), S path, I (uint (BitMask_raw types OR BitMask_raw flags))]) (\<lambda>a.
       if rv a = -1 then throw_ApiError ''inotify_add_watch()'' else ret (rv a))"

definition INotify_removeWatch :: "int \<Rightarrow> INotify \<Rightarrow> (world, unit) act" where
  "INotify_removeWatch watch n = call_or_throw (\<lambda>r. r = 0) ''inotify_rm_watch''
     [I (INotify_rawFD n), I watch] (throw_ApiError ''inotify_rm_watch()'')"

text \<open>
  Refilling the buffer: it gets its full size and the offset moves behind it before the read,
  so that an exception leaves an object that will read again.  A read of nothing trips the
  assertion.
\<close>

definition assertion_failed :: int where "assertion_failed = 134"

definition INotify_refill :: "(INotify \<times> world, unit) act" where
  "INotify_refill = andthen
     (set_this (\<lambda>n. n\<lparr>m_buffer := take (m_io_buffer_size n) (m_buffer n) @
          replicate (m_io_buffer_size n - length (m_buffer n)) (CHR 0x00),
        m_offset := m_io_buffer_size n\<rparr>))
     (bind (this (\<lambda>n. n)) (\<lambda>n.
        bind (on_world (StreamIO_read (INotify_rawFD n) (of_nat (length (m_buffer n))))) (\<lambda>(size, bs).
          andthen (set_this (\<lambda>n. n\<lparr>m_offset := 0\<rparr>))
            (if size = 0 then abort assertion_failed
             else set_this (\<lambda>n. n\<lparr>m_buffer := bs\<rparr>)))))"

definition INotify_readEvent :: "Endian \<Rightarrow> (INotify \<times> world, inotify_event) act" where
  "INotify_readEvent e = andthen
     (bind (this (\<lambda>n. length (m_buffer n) \<le> m_offset n)) (\<lambda>empty. whenA empty INotify_refill))
     (bind (this (\<lambda>n. event_at e (m_buffer n) (m_offset n))) (\<lambda>ev.
        andthen (set_this (\<lambda>n. n\<lparr>m_offset := m_offset n + inotify_header + unat (ev_len ev)\<rparr>)) (ret ev)))"

text \<open>Only \<^verbatim>\<open>ApiError\<close> and what derives from it carries an errno.\<close>

fun exn_errno :: "exn \<Rightarrow> errno option" where
  "exn_errno (ApiError _ e) = Some e"
| "exn_errno (ApiErrorMsg _ e) = Some e"
| "exn_errno (FileError _ _ e) = Some e"
| "exn_errno (WouldBlock _ e) = Some e"
| "exn_errno (RangeError _ e _) = Some e"
| "exn_errno _ = None"

definition INotify_tryReadEvent :: "Endian \<Rightarrow> (INotify \<times> world, inotify_event option) act" where
  "INotify_tryReadEvent e = catch (bind (INotify_readEvent e) (\<lambda>ev. ret (Some ev)))
     (\<lambda>ex. if exn_errno ex = Some (errno_of Errno_AGAIN) then ret None else throw ex)"

subsection \<open>Waiting for events\<close>

lemma poll_call_interrupted:
  "\<lbrakk>answers w = failed Errno_INTERRUPTED # as; auto_restart_syscalls w\<rbrakk> \<Longrightarrow>
     poll_call p t w = poll_call p t (snd (call ''epoll_pwait2'' (wait_args p t) w))"
  by (simp add: poll_call_def loop.simps[of _ _ w] act_defs kernel_defs)

interpretation poll: restarting "poll_call p t" "''epoll_pwait2''" "wait_args p t" for p t
  by unfold_locales (rule poll_call_interrupted)

lemma poll_call_answered:
  "\<lbrakk>answers w = a # as; 0 \<le> rv a\<rbrakk> \<Longrightarrow>
     \<exists>w'. poll_call p t w = (Ret a, w') \<and> runs_to w [(Call ''epoll_pwait2'' (wait_args p t), a)] w'"
  by (simp add: poll_call_def loop.simps[of _ _ w] runs_to_def act_defs kernel_defs)

text \<open>
  However often it is interrupted, waiting repeats the call with the same arguments, so the
  whole timeout counts again each time, and then returns exactly the events the kernel stored:
  nothing an earlier call left in the buffer, whose size stays the same.  With automatic
  restarts off an interruption is thrown like any other failure.
\<close>

theorem poller_reports_events:
  assumes "answers w = replicate k (failed Errno_INTERRUPTED) @ a # as" "auto_restart_syscalls w"
    "rv a = int (length (events_out (outs a)))" "length (events_out (outs a)) \<le> length (m_events p)"
  shows "\<exists>p' w'. Poller_wait t (p, w) = (Ret (events_out (outs a)), (p', w')) \<and>
     runs_to w (replicate k (Call ''epoll_pwait2'' (wait_args p t), failed Errno_INTERRUPTED) @
        [(Call ''epoll_pwait2'' (wait_args p t), a)]) w' \<and>
     length (m_events p') = length (m_events p) \<and> m_poll_fd p' = m_poll_fd p \<and>
     fst (Poller_wait t (p, w\<lparr>answers := failed Errno_INTERRUPTED # as, auto_restart_syscalls := False\<rparr>)) =
       Throw (ApiError ''epoll_wait()'' (errno_of Errno_INTERRUPTED))"
proof -
  have "\<exists>w'. poll_call p t w = (Ret a, w') \<and>
      runs_to w (replicate k (Call ''epoll_pwait2'' (wait_args p t), failed Errno_INTERRUPTED) @
        [(Call ''epoll_pwait2'' (wait_args p t), a)]) w'"
    by (rule poll.eventually_answered[OF assms(1,2)], rule poll_call_answered) (simp_all add: assms(3))
  then obtain w' where w': "poll_call p t w = (Ret a, w')" "runs_to w (replicate k (Call ''epoll_pwait2''
      (wait_args p t), failed Errno_INTERRUPTED) @ [(Call ''epoll_pwait2'' (wait_args p t), a)]) w'" by blast
  have throws: "fst (Poller_wait t (p, w\<lparr>answers := failed Errno_INTERRUPTED # as, auto_restart_syscalls := False\<rparr>)) =
       Throw (ApiError ''epoll_wait()'' (errno_of Errno_INTERRUPTED))"
    by (simp add: Poller_wait_def poll_call_def loop.simps act_defs kernel_defs)
  from w' assms(3,4) throws show ?thesis
    by (simp add: Poller_wait_def act_defs Let_def)
qed

theorem poller_reports_events_witness:
  "\<exists>p' w'. Poller_wait None (\<lparr>m_poll_fd = FD 4, m_events = resize_events 2 []\<rparr>,
      world_of [failed Errno_INTERRUPTED, \<lparr>rv = 1, err = None, out = [], outs = [7, 1]\<rparr>]) =
    (Ret [\<lparr>pe_fd = 7, pe_events = 1\<rparr>], (p', w'))"
  using poller_reports_events[where w = "world_of [failed Errno_INTERRUPTED, \<lparr>rv = 1, err = None, out = [], outs = [7, 1]\<rparr>]"
      and k = 1 and a = "\<lparr>rv = 1, err = None, out = [], outs = [7, 1]\<rparr>" and as = "[]"
      and p = "\<lparr>m_poll_fd = FD 4, m_events = resize_events 2 []\<rparr>" and t = None]
  by (auto simp: world_of_def resize_events_def)

subsection \<open>Owning event descriptors\<close>

definition Poller_owned :: "Poller \<Rightarrow> resource set" where
  "Poller_owned p = fd_owned (m_poll_fd p)"

definition INotify_owned :: "INotify \<Rightarrow> resource set" where
  "INotify_owned n = FDFile_owned (m_notify_file n)"

interpretation poller: resource_owner live_in Poller_owned Poller_destroy
proof unfold_locales
  fix p p' w w'
  assume d: "Poller_destroy (p, w) = (Ret (), (p', w'))"
  obtain r fd' v where c: "FD_close (m_poll_fd p, w) = (r, (fd', v))" by (metis prod_cases3)
  show "Poller_owned p' = {} \<and> live_in w' = live_in w - Poller_owned p"
  proof (cases "FD_valid (m_poll_fd p)")
    case True
    with c d have "r \<noteq> Blocked" "v = w'" "m_poll_fd p' = fd'"
      by (auto simp: Poller_destroy_def Poller_close_def Poller_valid_def act_defs split: outcome.splits)
    with FD_close_releases[OF c] show ?thesis by (simp add: Poller_owned_def)
  next
    case False
    with d show ?thesis
      by (auto simp: Poller_destroy_def Poller_close_def Poller_valid_def Poller_owned_def fd_owned_def act_defs)
  qed
qed

interpretation inotify: resource_owner live_in INotify_owned INotify_destroy
proof unfold_locales
  fix n n' w w'
  assume "INotify_destroy (n, w) = (Ret (), (n', w'))"
  then obtain f' where "FDFile_destroy (m_notify_file n, w) = (Ret (), (f', w'))"
    "m_notify_file n' = f'"
    by (auto simp: INotify_destroy_def zoom_def split: prod.splits)
  with fdfile.release show "INotify_owned n' = {} \<and> live_in w' = live_in w - INotify_owned n"
    by (simp add: INotify_owned_def)
qed

subsection \<open>The queue of inotify events\<close>

text \<open>What the kernel stores for an event.\<close>

definition encode_event :: "Endian \<Rightarrow> inotify_event \<Rightarrow> string" where
  "encode_event e ev = host_str e (ev_wd ev) @ host_str e (ev_mask ev) @ host_str e (ev_cookie ev) @
     host_str e (ev_len ev) @ ev_name ev"

definition encode_events :: "Endian \<Rightarrow> inotify_event list \<Rightarrow> string" where
  "encode_events e evs = concat (map (encode_event e) evs)"

definition event_ok :: "inotify_event \<Rightarrow> bool" where
  "event_ok ev \<longleftrightarrow> unat (ev_len ev) = length (ev_name ev)"

lemma length_encode_event: "length (encode_event e ev) = inotify_header + length (ev_name ev)"
  by (simp add: encode_event_def inotify_header_def)

lemma event_at_encoded:
  assumes "drop off buf = encode_event e ev @ rest" "event_ok ev"
  shows "event_at e buf off = ev"
  using assms
  by (simp add: event_at_def encode_event_def event_ok_def inotify_header_def Let_def)

text \<open>The events that are still in the buffer.\<close>

definition queued :: "Endian \<Rightarrow> INotify \<Rightarrow> inotify_event list \<Rightarrow> bool" where
  "queued e n evs \<longleftrightarrow> m_offset n \<le> length (m_buffer n) \<and>
     drop (m_offset n) (m_buffer n) = encode_events e evs \<and> list_all event_ok evs"

lemma encode_events_simps [simp]:
  "encode_events e [] = []" "encode_events e (ev # evs) = encode_event e ev @ encode_events e evs"
  by (simp_all add: encode_events_def)

lemma encode_events_empty: "encode_events e evs = [] \<longleftrightarrow> evs = []"
  using length_encode_event[of e] by (cases evs) (auto simp: inotify_header_def simp flip: length_0_conv)

lemma readEvent_queued:
  assumes "queued e n (ev # evs)"
  shows "\<exists>n'. INotify_readEvent e (n, w) = (Ret ev, (n', w)) \<and> queued e n' evs"
proof -
  let ?n = "n\<lparr>m_offset := m_offset n + inotify_header + unat (ev_len ev)\<rparr>"
  have d: "drop (m_offset n) (m_buffer n) = encode_event e ev @ encode_events e evs" and ok: "event_ok ev"
    using assms by (simp_all add: queued_def)
  have len: "length (encode_event e ev) = inotify_header + unat (ev_len ev)"
    using ok by (simp add: length_encode_event event_ok_def)
  have "length (encode_event e ev) \<le> length (m_buffer n) - m_offset n"
    using arg_cong[OF d, of length] by simp
  then have more: "m_offset n < length (m_buffer n)"
    "m_offset n + inotify_header + unat (ev_len ev) \<le> length (m_buffer n)"
    using len by (auto simp: inotify_header_def)
  have "drop (m_offset n + inotify_header + unat (ev_len ev)) (m_buffer n) =
      drop (inotify_header + unat (ev_len ev)) (drop (m_offset n) (m_buffer n))"
    by (simp add: add.commute add.left_commute)
  also have "\<dots> = encode_events e evs" using d len by simp
  finally have "queued e ?n evs" using more assms by (simp add: queued_def)
  moreover have "INotify_readEvent e (n, w) = (Ret ev, (?n, w))"
    using more event_at_encoded[OF d ok] by (simp add: INotify_readEvent_def act_defs)
  ultimately show ?thesis by blast
qed

text \<open>An empty queue is filled by the next read; a failing read leaves it empty.\<close>

lemma read_answered:
  "answers w = ok_bytes bs # as \<Longrightarrow> \<exists>w'. StreamIO_read fd len w = (Ret (length bs, bs), w') \<and> answers w' = as"
  by (simp add: StreamIO_read_def io_loop_def loop.simps[of _ _ w] stored_def act_defs kernel_defs)

lemma read_would_block:
  "answers w = failed Errno_AGAIN # as \<Longrightarrow>
     \<exists>w'. StreamIO_read fd len w = (Throw (WouldBlock ''read()'' (errno_of Errno_AGAIN)), w') \<and> answers w' = as"
  by (simp add: StreamIO_read_def io_loop_def loop.simps[of _ _ w] handleIOError_def act_defs kernel_defs)

lemma readEvent_refill:
  assumes "queued e n []" "answers w = ok_bytes (encode_events e (ev # evs)) # as" "list_all event_ok (ev # evs)"
  shows "\<exists>n' w'. INotify_readEvent e (n, w) = (Ret ev, (n', w')) \<and> queued e n' evs \<and> answers w' = as"
proof -
  let ?bs = "encode_events e (ev # evs)"
  have empty: "length (m_buffer n) \<le> m_offset n" using assms(1) by (simp add: queued_def)
  let ?b = "take (m_io_buffer_size n) (m_buffer n) @ replicate (m_io_buffer_size n - length (m_buffer n)) (CHR 0x00)"
  obtain v where v: "StreamIO_read (INotify_rawFD (n\<lparr>m_buffer := ?b, m_offset := m_io_buffer_size n\<rparr>))
      (of_nat (length ?b)) w = (Ret (length ?bs, ?bs), v)" "answers v = as"
    using read_answered[OF assms(2)] by blast
  let ?n = "n\<lparr>m_buffer := ?bs, m_offset := 0\<rparr>"
  have ne: "?bs \<noteq> []" by (simp only: encode_events_empty) simp
  have r: "INotify_refill (n, w) = (Ret (), (?n, v))"
    using v(1) ne by (simp add: INotify_refill_def act_defs del: encode_events_simps)
  have q: "queued e ?n (ev # evs)" using assms(3) by (simp add: queued_def)
  have "0 < length ?bs" using ne by (simp del: encode_events_simps)
  then have "INotify_readEvent e (n, w) = INotify_readEvent e (?n, v)"
    using r empty by (simp add: INotify_readEvent_def act_defs del: encode_events_simps)
  with readEvent_queued[OF q, of v] v(2) show ?thesis by auto
qed

lemma readEvent_would_block:
  assumes "queued e n []" "answers w = failed Errno_AGAIN # as"
  shows "\<exists>n' w'. INotify_readEvent e (n, w) = (Throw (WouldBlock ''read()'' (errno_of Errno_AGAIN)), (n', w')) \<and>
    queued e n' [] \<and> answers w' = as"
proof -
  have empty: "length (m_buffer n) \<le> m_offset n" using assms(1) by (simp add: queued_def)
  let ?b = "take (m_io_buffer_size n) (m_buffer n) @ replicate (m_io_buffer_size n - length (m_buffer n)) (CHR 0x00)"
  let ?n = "n\<lparr>m_buffer := ?b, m_offset := m_io_buffer_size n\<rparr>"
  obtain v where v: "StreamIO_read (INotify_rawFD ?n) (of_nat (length ?b)) w =
      (Throw (WouldBlock ''read()'' (errno_of Errno_AGAIN)), v)" "answers v = as"
    using read_would_block[OF assms(2)] by blast
  have "INotify_readEvent e (n, w) = (Throw (WouldBlock ''read()'' (errno_of Errno_AGAIN)), (?n, v))"
    using v(1) empty by (simp add: INotify_readEvent_def INotify_refill_def act_defs)
  moreover have "queued e ?n []" by (simp add: queued_def)
  ultimately show ?thesis using v(2) by blast
qed

text \<open>Trying to read an event again and again, and what the kernel delivers meanwhile.\<close>

primrec try_events :: "Endian \<Rightarrow> nat \<Rightarrow> (INotify \<times> world, inotify_event option list) act" where
  "try_events e 0 = ret []"
| "try_events e (Suc k) = bind (INotify_tryReadEvent e) (\<lambda>x. bind (try_events e k) (\<lambda>xs. ret (x # xs)))"

fun delivery_answer :: "Endian \<Rightarrow> inotify_event list \<Rightarrow> answer" where
  "delivery_answer e [] = failed Errno_AGAIN"
| "delivery_answer e evs = ok_bytes (encode_events e evs)"

fun delivery_result :: "inotify_event list \<Rightarrow> inotify_event option list" where
  "delivery_result [] = [None]"
| "delivery_result evs = map Some evs"

lemma tryReadEvent_queued:
  "queued e n (ev # evs) \<Longrightarrow> \<exists>n'. INotify_tryReadEvent e (n, w) = (Ret (Some ev), (n', w)) \<and> queued e n' evs"
  using readEvent_queued[of e n ev evs w]
  by (auto simp: INotify_tryReadEvent_def act_defs)

lemma try_events_queued:
  "queued e n (evs @ rest) \<Longrightarrow>
     \<exists>n'. try_events e (length evs + k) (n, w) = bind (try_events e k) (\<lambda>xs. ret (map Some evs @ xs)) (n', w) \<and>
       queued e n' rest"
proof (induction evs arbitrary: n)
  case Nil
  then show ?case by auto
next
  case (Cons ev evs)
  from tryReadEvent_queued[of e n ev "evs @ rest" w] Cons.prems obtain n1 where
    n1: "INotify_tryReadEvent e (n, w) = (Ret (Some ev), (n1, w))" "queued e n1 (evs @ rest)" by auto
  from Cons.IH[OF n1(2)] obtain n2 where
    n2: "try_events e (length evs + k) (n1, w) = bind (try_events e k) (\<lambda>xs. ret (map Some evs @ xs)) (n2, w)"
    "queued e n2 rest" by blast
  have "try_events e (length (ev # evs) + k) (n, w) =
      bind (try_events e k) (\<lambda>xs. ret (map Some (ev # evs) @ xs)) (n2, w)"
    using n1(1) n2(1) by (simp add: bind_Ret) (simp add: bind_def ret_def split: prod.splits outcome.splits)
  with n2(2) show ?case by blast
qed

lemma try_events_delivery:
  assumes "queued e n []" "answers w = delivery_answer e evs # as" "list_all event_ok evs"
  shows "\<exists>n' w'. try_events e (length (delivery_result evs) + k) (n, w) =
      bind (try_events e k) (\<lambda>xs. ret (delivery_result evs @ xs)) (n', w') \<and> queued e n' [] \<and> answers w' = as"
proof (cases evs)
  case Nil
  with assms readEvent_would_block[of e n w as] obtain n' w' where
    "INotify_tryReadEvent e (n, w) = (Ret None, (n', w'))" "queued e n' []" "answers w' = as"
    by (auto simp: INotify_tryReadEvent_def act_defs)
  with Nil show ?thesis by (auto simp: bind_Ret)
next
  case (Cons ev evs')
  with assms readEvent_refill[of e n w ev evs' as] obtain n' w' where
    "INotify_tryReadEvent e (n, w) = (Ret (Some ev), (n', w'))" and q: "queued e n' evs'" and "answers w' = as"
    by (auto simp: INotify_tryReadEvent_def act_defs)
  moreover from try_events_queued[of e n' evs' "[]" k w'] q obtain n'' where
    "try_events e (length evs' + k) (n', w') = bind (try_events e k) (\<lambda>xs. ret (map Some evs' @ xs)) (n'', w')"
    "queued e n'' []" by auto
  ultimately have "try_events e (length (delivery_result evs) + k) (n, w) =
      bind (try_events e k) (\<lambda>xs. ret (delivery_result evs @ xs)) (n'', w')"
    using Cons by (simp add: bind_Ret) (simp add: bind_def ret_def split: prod.splits outcome.splits)
  with \<open>queued e n'' []\<close> \<open>answers w' = as\<close> show ?thesis by blast
qed

lemma try_events_deliveries:
  assumes "queued e n []" "answers w = map (delivery_answer e) batches" "list_all (list_all event_ok) batches"
  shows "\<exists>n' w'. try_events e (length (concat (map delivery_result batches))) (n, w) =
      (Ret (concat (map delivery_result batches)), (n', w')) \<and> answers w' = []"
  using assms
proof (induction batches arbitrary: n w)
  case Nil
  then show ?case by (simp add: ret_def)
next
  case (Cons b batches)
  let ?k = "length (concat (map delivery_result batches))"
  from Cons.prems try_events_delivery[of e n w b "map (delivery_answer e) batches" ?k] obtain n' w' where
    1: "try_events e (length (delivery_result b) + ?k) (n, w) =
      bind (try_events e ?k) (\<lambda>xs. ret (delivery_result b @ xs)) (n', w')"
    and q: "queued e n' []" "answers w' = map (delivery_answer e) batches" by auto
  from Cons.IH[OF q] Cons.prems(3) obtain n'' w'' where
    "try_events e ?k (n', w') = (Ret (concat (map delivery_result batches)), (n'', w''))" "answers w'' = []"
    by auto
  with 1 show ?case by (simp add: bind_Ret ret_def)
qed

text \<open>
  C15: A new \<^verbatim>\<open>INotify\<close> object is a queue of the events the kernel delivers, whatever number
  of them each read returns and however long their names are: trying to read again and again
  yields every event exactly once and in order, with nothing for each time none was available,
  and makes one read for each delivery.
\<close>

theorem inotify_is_queue:
  assumes "answers w = ok fd # map (delivery_answer e) batches" "fd \<noteq> -1"
    "list_all (list_all event_ok) batches"
  shows "\<exists>n v n' w'. INotify_create bufsize flags w = (Ret n, v) \<and> INotify_owned n = {Fd fd} \<and>
    try_events e (length (concat (map delivery_result batches))) (n, v) =
      (Ret (concat (map delivery_result batches)), (n', w')) \<and> answers w' = []"
proof -
  let ?n = "\<lparr>m_notify_file = FDFile_open_fd (FD fd) True FDFile_default,
       m_io_buffer_size = bufsize, m_buffer = [], m_offset = 0\<rparr>"
  obtain v where v: "INotify_create bufsize flags w = (Ret ?n, v)" "answers v = map (delivery_answer e) batches"
    using assms(1,2) by (simp add: INotify_create_def act_defs kernel_defs)
  have "queued e ?n []" by (simp add: queued_def)
  from try_events_deliveries[OF this v(2) assms(3)] obtain n' w' where
    "try_events e (length (concat (map delivery_result batches))) (?n, v) =
      (Ret (concat (map delivery_result batches)), (n', w'))" "answers w' = []" by blast
  moreover have "INotify_owned ?n = {Fd fd}"
    using assms(2) by (simp add: INotify_owned_def FDFile_owned_def FDFile_open_fd_def FD_valid_def FD_def)
  ultimately show ?thesis using v(1) by blast
qed

definition sample_event :: inotify_event where
  "sample_event = \<lparr>ev_wd = 1, ev_mask = 0x100, ev_cookie = 0, ev_len = 4, ev_name = ''a'' @ replicate 3 (CHR 0x00)\<rparr>"

theorem inotify_is_queue_witness:
  "\<exists>n v n' w'. INotify_create 8192 0 (world_of (ok 5 # map (delivery_answer LITTLE) [[sample_event, sample_event], []])) =
     (Ret n, v) \<and> try_events LITTLE 3 (n, v) = (Ret [Some sample_event, Some sample_event, None], (n', w'))"
proof -
  let ?bs = "[[sample_event, sample_event], []]"
  have a: "answers (world_of (ok 5 # map (delivery_answer LITTLE) ?bs)) = ok 5 # map (delivery_answer LITTLE) ?bs"
    by (simp add: world_of_def)
  have h: "list_all (list_all event_ok) ?bs" by (simp add: event_ok_def sample_event_def)
  have r: "concat (map delivery_result ?bs) = [Some sample_event, Some sample_event, None]" by simp
  have l: "length [Some sample_event, Some sample_event, None] = 3" by simp
  from inotify_is_queue[OF a _ h, where bufsize = 8192 and flags = 0] show ?thesis
    unfolding r l by fastforce
qed

text \<open>The name of an event ends at its padding.\<close>

lemma find_last_not_of_snoc:
  "find_last_not_of (s @ [x]) cs = (if x \<notin> set cs then Some (length s) else find_last_not_of s cs)"
proof -
  have "filter (\<lambda>i. (s @ [x]) ! i \<notin> set cs) (rev [0..<length s]) = filter (\<lambda>i. s ! i \<notin> set cs) (rev [0..<length s])"
    by (rule filter_cong) (simp_all add: nth_append)
  then show ?thesis by (simp add: find_last_not_of_def)
qed

lemma find_last_padded:
  assumes "s \<noteq> []" "last s \<noteq> c"
  shows "find_last_not_of (s @ replicate k c) [c] = Some (length s - 1)"
proof (induction k)
  case 0
  from assms show ?case by (cases s rule: rev_cases) (simp_all add: find_last_not_of_snoc)
next
  case (Suc k)
  then show ?case
    using find_last_not_of_snoc[of "s @ replicate k c" c "[c]"] by (simp flip: replicate_append_same)
qed

lemma Event_name_padded:
  assumes "event_ok ev" "ev_name ev = s @ replicate k (CHR 0x00)" "s \<noteq> []" "last s \<noteq> CHR 0x00"
  shows "Event_name ev = s"
proof -
  have "ev_len ev \<noteq> 0" using assms(1-3) by (auto simp: event_ok_def)
  with assms find_last_padded[OF assms(3,4), of k] show ?thesis
    by (simp add: Event_name_def Suc_leI)
qed

subsection \<open>Counters\<close>

text \<open>
  Signalling an event file writes the eight bytes of the increment in the byte order of
  the host, and waiting returns the counter whose bytes it reads, for event files and timers
  alike; any other number of bytes is an error.  The initial value of an event file reaches
  the kernel modulo 2^32 although the counter has 64 bits.
\<close>

theorem event_counters:
  assumes "answers w = ok_bytes (host_str e c) # as" "answers v = ok n # bs" "0 \<le> n" "answers u = a # cs" "rv a \<noteq> -1"
  shows "fst (EventFile_wait e f w) = Ret c \<and> fst (TimerFD_wait e f w) = Ret c \<and>
    fst (EventFile_signal e c f v) = (if n = 8 then Ret () else Throw (RuntimeError ''short eventfd write?!'')) \<and>
    trace (snd (EventFile_signal e c f v)) =
      trace v @ [(Call ''write'' [I (m_fd (fb_fd f)), S (host_str e c)], ok n)] \<and>
    (\<exists>flag_arg. trace (snd (EventFile_create c flags u)) = trace u @ [(Call ''eventfd'' [I (uint c mod 2 ^ 32), flag_arg], a)])"
proof -
  have r: "fst (EventFile_wait e f w) = Ret c" "fst (TimerFD_wait e f w) = Ret c"
    using assms(1)
    by (simp_all add: EventFile_wait_def TimerFD_wait_def StreamIO_read_def io_loop_def loop.simps[of _ _ w]
        stored_def act_defs kernel_defs)
  have s: "fst (EventFile_signal e c f v) = (if n = 8 then Ret () else Throw (RuntimeError ''short eventfd write?!''))"
    "trace (snd (EventFile_signal e c f v)) = trace v @ [(Call ''write'' [I (m_fd (fb_fd f)), S (host_str e c)], ok n)]"
    using assms(2,3) nat_eq_iff[of n 8]
    by (simp_all add: EventFile_signal_def StreamIO_write_def io_loop_def loop.simps[of _ _ v] act_defs kernel_defs)
  have "uint (ucast c :: 32 word) = uint c mod 2 ^ 32"
    by (simp add: unsigned_ucast_eq take_bit_eq_mod)
  then have "trace (snd (EventFile_create c flags u)) = trace u @
      [(Call ''eventfd'' [I (uint c mod 2 ^ 32), I (sint (BitMask_raw flags))], a)]"
    using assms(4,5) by (simp add: EventFile_create_def act_defs kernel_defs)
  with r s show ?thesis by blast
qed

theorem event_counters_witness:
  "fst (EventFile_wait LITTLE FDFile_default (world_of [ok_bytes (host_str LITTLE (258 :: 64 word))])) = Ret 258"
  using event_counters[where w = "world_of [ok_bytes (host_str LITTLE (258 :: 64 word))]" and e = LITTLE and c = "258 :: 64 word"
      and v = "world_of [ok 8]" and n = 8 and u = "world_of [ok 5]" and a = "ok 5" and as = "[]" and bs = "[]"
      and cs = "[]" and f = FDFile_default]
  by (simp add: world_of_def)

end
