(* ===== verification/SubProcess.thy ===== *)
theory SubProcess
  imports Process Events
begin

text \<open>
  Child processes: \<^verbatim>\<open>ProcessFile\<close> (\<^verbatim>\<open>src/proc/ProcessFile.cxx\<close>), \<^verbatim>\<open>SubProc\<close>
  (\<^verbatim>\<open>src/proc/SubProc.cxx\<close>) and \<^verbatim>\<open>ChildCloner\<close> (\<^verbatim>\<open>src/proc/ChildCloner.cxx\<close>).  A world after a
  fork or clone is that of the parent or of the child, as the answer of the call says, so the
  code of either side is run by choosing the answer.  The text of an exception, which the
  child sends to its parent, is a parameter.
\<close>

text \<open>Undefined behaviour, such as the value of an empty optional.\<close>

definition undefined_behaviour :: int where "undefined_behaviour = -2"

definition value_of :: "'a option \<Rightarrow> ('s, 'a) act" where
  "value_of x = (case x of None \<Rightarrow> abort undefined_behaviour | Some y \<Rightarrow> ret y)"

subsection \<open>ProcessFile\<close>

record ProcessFile =
  pf_fd :: FileDescriptor

datatype ProcessOpenFlag = PIDFD_NONBLOCK | PIDFD_THREAD

primrec ProcessOpenFlag_value :: "ProcessOpenFlag \<Rightarrow> 32 word" where
  "ProcessOpenFlag_value PIDFD_NONBLOCK = 0x800"
| "ProcessOpenFlag_value PIDFD_THREAD = 0x80"

definition ProcessFile_create :: "ProcessID \<Rightarrow> 32 mask \<Rightarrow> (world, ProcessFile) act" where
  "ProcessFile_create pid flags = bind (call ''pidfd_open'' [I pid, I (uint (BitMask_raw flags))]) (\<lambda>a.
     if rv a = -1 then throw_ApiError ''pidfd_open()'' else ret \<lparr>pf_fd = FD (rv a)\<rparr>)"

definition ProcessFile_create_thread :: "int \<Rightarrow> 32 mask \<Rightarrow> (world, ProcessFile) act" where
  "ProcessFile_create_thread tid flags =
     ProcessFile_create tid (BitMask_set_flag flags (ProcessOpenFlag_value PIDFD_THREAD) True)"

definition ProcessFile_open :: "ProcessFile \<Rightarrow> bool" where
  "ProcessFile_open p \<longleftrightarrow> FD_valid (pf_fd p)"

definition ProcessFile_close :: "(ProcessFile \<times> world, unit) act" where
  "ProcessFile_close = zoom pf_fd (\<lambda>d p. p\<lparr>pf_fd := d\<rparr>) FD_close"

definition ProcessFile_destroy :: "(ProcessFile \<times> world, unit) act" where
  "ProcessFile_destroy = catch ProcessFile_close (\<lambda>e. ret ())"

definition ProcessFile_move :: "ProcessFile \<Rightarrow> ProcessFile \<Rightarrow> ProcessFile \<times> ProcessFile" where
  "ProcessFile_move self other = (self\<lparr>pf_fd := pf_fd other\<rparr>, other\<lparr>pf_fd := FD_reset (pf_fd other)\<rparr>)"

definition ProcessFile_sendSignal :: "Signal \<Rightarrow> 32 mask \<Rightarrow> ProcessFile \<Rightarrow> (world, unit) act" where
  "ProcessFile_sendSignal s flags p = signal_send_pidfd (m_fd (pf_fd p)) s flags"

definition ProcessFile_dupFD :: "FileNum \<Rightarrow> ProcessFile \<Rightarrow> (world, FileDescriptor) act" where
  "ProcessFile_dupFD targetfd p = bind (call ''pidfd_getfd'' [I (m_fd (pf_fd p)), I targetfd, I 0]) (\<lambda>a.
     if rv a = -1 then throw_ApiError ''pidfd_getfd()'' else ret (FD (rv a)))"

definition ProcessFile_wait :: "32 mask \<Rightarrow> ProcessFile \<Rightarrow> (world, ChildData option) act" where
  "ProcessFile_wait flags p = proc_wait (P_PIDFD (m_fd (pf_fd p))) flags"

text \<open>\<^verbatim>\<open>UnsafeProcessFile::invalidate()\<close>.\<close>

definition ProcessFile_invalidate :: "ProcessFile \<Rightarrow> ProcessFile" where
  "ProcessFile_invalidate p = p\<lparr>pf_fd := FD_reset (pf_fd p)\<rparr>"

subsection \<open>SubProc\<close>

record SubProc =
  m_pid :: ProcessID
  m_child_fd :: FileDescriptor

definition SubProc_default :: SubProc where
  "SubProc_default = \<lparr>m_pid = ProcessID_of PID_INVALID, m_child_fd = FD_default\<rparr>"

definition SubProc_running :: "SubProc \<Rightarrow> bool" where
  "SubProc_running p \<longleftrightarrow> FD_valid (m_child_fd p)"

text \<open>\<^verbatim>\<open>fatal_error()\<close> ends the process by \<^verbatim>\<open>std::abort()\<close>.\<close>

definition SubProc_destroy :: "(SubProc \<times> 'w, unit) act" where
  "SubProc_destroy = bind (this SubProc_running) (\<lambda>running. if running then abort terminated else ret ())"

definition SubProc_move :: "SubProc \<Rightarrow> SubProc \<Rightarrow> (SubProc \<times> SubProc) option" where
  "SubProc_move self other = (if SubProc_running self then None
     else Some (self\<lparr>m_pid := m_pid other, m_child_fd := m_child_fd other\<rparr>,
       other\<lparr>m_pid := ProcessID_of PID_INVALID, m_child_fd := FD_reset (m_child_fd other)\<rparr>))"

definition SubProc_kill :: "Signal \<Rightarrow> SubProc \<Rightarrow> (world, unit) act" where
  "SubProc_kill s p = signal_send_pidfd (m_fd (m_child_fd p)) s 0"

definition SubProc_reset :: "(SubProc \<times> world, unit) act" where
  "SubProc_reset = andthen (set_this (\<lambda>p. p\<lparr>m_pid := ProcessID_of PID_INVALID\<rparr>))
     (zoom m_child_fd (\<lambda>d p. p\<lparr>m_child_fd := d\<rparr>) FD_close)"

definition default_wait_flags :: "32 mask" where
  "default_wait_flags = BitMask_of_list [WaitFlag_value WAIT_FOR_EXITED]"

definition SubProc_wait :: "32 mask \<Rightarrow> (SubProc \<times> world, ChildData) act" where
  "SubProc_wait flags =
     (if wait_has flags NO_HANG
      then throw (UsageError ''cannot use NO_HANG with SubProc, use waitTimed() instead'')
      else catch
        (bind (this m_child_fd) (\<lambda>fd. bind (on_world (proc_wait (P_PIDFD (m_fd fd)) flags)) (\<lambda>child.
           if wait_has flags LEAVE_INFO then value_of child
           else bind (value_of child) (\<lambda>c.
             andthen (whenA (cs_exited c \<or> cs_killed c) SubProc_reset) (ret c)))))
        (\<lambda>ex. andthen (whenA (exn_errno ex = Some (errno_of Errno_NO_CHILD)) (catch SubProc_reset (\<lambda>e. ret ())))
           (throw ex)))"

text \<open>A member function of the innermost object, for a block with another local object.\<close>

definition inner :: "('o \<times> world, 'a) act \<Rightarrow> ('o \<times> ('p \<times> world), 'a) act" where
  "inner m s = (case s of (obj, (q, w)) \<Rightarrow> (case m (obj, w) of (r, (obj', w')) \<Rightarrow> (r, (obj', (q, w')))))"

definition SubProc_waitTimed :: "TimeSpec \<Rightarrow> 32 mask \<Rightarrow> (SubProc \<times> world, ChildData option) act" where
  "SubProc_waitTimed limit flags = bind (on_world (with_local Poller_default (Poller_create 8))) (\<lambda>(_, poller).
     scoped poller
       (bind (on_world (this m_child_fd)) (\<lambda>fd. andthen
          (bind (this (\<lambda>p. p)) (\<lambda>p. inner (on_world
             (Poller_addFD fd (BitMask_of_list [MonitorFlag_value MON_INPUT]) p))))
          (bind (inner (Poller_wait (Some limit))) (\<lambda>events.
             if events = [] then ret None
             else bind (on_world (SubProc_wait flags)) (\<lambda>c. ret (Some c))))))
       (inner Poller_destroy))"

subsection \<open>ChildCloner: configuration\<close>

text \<open>
  The callback is given the object it is called for, which it can only read; the part it can
  read is a record of its own.
\<close>

record ClonerSettings =
  m_executable :: string
  m_argv :: "string list"
  m_cwd :: string
  m_env :: "string list option"
  m_sched_settings :: "SchedulerSettings option"
  m_allow_no_exe :: bool
  m_stdout :: FileDescriptor
  m_stderr :: FileDescriptor
  m_stdin :: FileDescriptor
  m_inherit_fds :: "FileDescriptor list"
  m_forward_child_errors :: bool

record ChildCloner = ClonerSettings +
  m_post_fork_cb :: "(ClonerSettings \<Rightarrow> (world, unit) act) option"

definition ChildCloner_default :: ChildCloner where
  "ChildCloner_default = \<lparr>m_executable = [], m_argv = [], m_cwd = [], m_env = None, m_sched_settings = None,
     m_allow_no_exe = False, m_stdout = FD_default, m_stderr = FD_default, m_stdin = FD_default,
     m_inherit_fds = [], m_forward_child_errors = False, m_post_fork_cb = None\<rparr>"

definition hasExe :: "('z) ClonerSettings_scheme \<Rightarrow> bool" where
  "hasExe c \<longleftrightarrow> m_executable c \<noteq> []"

definition setArgv0 :: "('z) ClonerSettings_scheme \<Rightarrow> ('z) ClonerSettings_scheme" where
  "setArgv0 c = (if m_argv c = [] then c\<lparr>m_argv := [m_executable c]\<rparr>
     else c\<lparr>m_argv := (m_argv c)[0 := m_executable c]\<rparr>)"

definition setExeFromArgv0 :: "('z) ClonerSettings_scheme \<Rightarrow> ('z) ClonerSettings_scheme" where
  "setExeFromArgv0 c = (case m_argv c of [] \<Rightarrow> c\<lparr>m_executable := []\<rparr> | a # _ \<Rightarrow> c\<lparr>m_executable := a\<rparr>)"

definition setExe :: "string \<Rightarrow> ('z) ClonerSettings_scheme \<Rightarrow> ('z) ClonerSettings_scheme" where
  "setExe exe c = setArgv0 (c\<lparr>m_allow_no_exe := False, m_executable := exe\<rparr>)"

definition setNoExe :: "('z) ClonerSettings_scheme \<Rightarrow> ('z) ClonerSettings_scheme" where
  "setNoExe c = c\<lparr>m_allow_no_exe := True\<rparr>"

definition setArgs :: "string list \<Rightarrow> ('z) ClonerSettings_scheme \<Rightarrow> ('z) ClonerSettings_scheme" where
  "setArgs sv c = setExeFromArgv0 (c\<lparr>m_argv := sv\<rparr>)"

text \<open>\<^verbatim>\<open>erase()\<close> with one iterator removes the element it points to.\<close>

definition clearArgs :: "('z) ClonerSettings_scheme \<Rightarrow> ('z) ClonerSettings_scheme" where
  "clearArgs c = (if 1 < length (m_argv c) then c\<lparr>m_argv := take 1 (m_argv c) @ drop 2 (m_argv c)\<rparr> else c)"

definition addInheritFD :: "FileDescriptor \<Rightarrow> ('z) ClonerSettings_scheme \<Rightarrow> exn + ('z) ClonerSettings_scheme" where
  "addInheritFD fd c = (if m_fd fd \<le> FileNum_of FN_STDERR
     then Inl (UsageError ''added stdio or invalid FD as extra inherit FD'')
     else Inr (c\<lparr>m_inherit_fds := m_inherit_fds c @ [fd]\<rparr>))"

definition resetStdFiles :: "('z) ClonerSettings_scheme \<Rightarrow> ('z) ClonerSettings_scheme" where
  "resetStdFiles c = c\<lparr>m_stderr := FD_reset (m_stderr c), m_stdin := FD_reset (m_stdin c),
     m_stdout := FD_reset (m_stdout c)\<rparr>"

text \<open>\<^verbatim>\<open>operator<<\<close> for an argument.\<close>

definition add_arg :: "string \<Rightarrow> ('z) ClonerSettings_scheme \<Rightarrow> ('z) ClonerSettings_scheme" where
  "add_arg a c = (if \<not> hasExe c then setExe a c else c\<lparr>m_argv := m_argv c @ [a]\<rparr>)"

text \<open>The description; the label of the directory follows the last argument without a separator.\<close>

definition ChildCloner_info :: "('z) ClonerSettings_scheme \<Rightarrow> string" where
  "ChildCloner_info c = ''Arguments: '' @ concat (map2 (\<lambda>n a. (if 0 < n then '' '' else []) @ a)
     [0..<length (m_argv c)] (m_argv c)) @ (if m_cwd c \<noteq> [] then ''CWD: '' @ m_cwd c else [])"

definition verifyArgs :: "ChildCloner \<Rightarrow> exn option" where
  "verifyArgs c = (if m_allow_no_exe c then
       (if m_post_fork_cb c = None then Some (UsageError
          ''attempted to run a cloned process without callback function (no post fork CB)'') else None)
     else if m_executable c = [] \<or> m_argv c = [] then Some (UsageError
          ''attempted to run a sub process w/o specifying an executable path and/or argv0'')
     else None)"

subsection \<open>ChildCloner: the child\<close>

definition print_child_error :: "(world, unit) act" where
  "print_child_error = bind get_own_pid (\<lambda>_. ret ())"

definition resetSignals :: "(world, unit) act" where
  "resetSignals = bind (signal_unblock SigSet_fill) (\<lambda>_. ret ())"

definition redirectFD :: "FileDescriptor \<Rightarrow> FileDescriptor \<Rightarrow> (world, unit) act" where
  "redirectFD orig redirect = (if \<not> FD_valid redirect then ret () else FD_duplicate_to redirect orig False)"

definition postFork :: "ChildCloner \<Rightarrow> (world, unit) act" where
  "postFork c = andthen
     (case m_sched_settings c of None \<Rightarrow> ret ()
      | Some s \<Rightarrow> catch (SchedulerSettings_apply s (ProcessID_of PID_SELF)) (\<lambda>ex. print_child_error))
    (andthen resetSignals
    (andthen (if m_cwd c \<noteq> [] then change_dir (m_cwd c) else ret ())
    (andthen (redirectFD (FD (FileNum_of FN_STDOUT)) (m_stdout c))
    (andthen (redirectFD (FD (FileNum_of FN_STDERR)) (m_stderr c))
    (andthen (redirectFD (FD (FileNum_of FN_STDIN)) (m_stdin c))
    (andthen (forA (m_inherit_fds c) (\<lambda>fd. FD_setCloseOnExec fd False))
      (case m_post_fork_cb c of None \<Rightarrow> ret () | Some cb \<Rightarrow> cb (ClonerSettings.truncate c))))))))"

text \<open>\<^verbatim>\<open>setup_argv()\<close> and \<^verbatim>\<open>setup_env()\<close>.\<close>

definition setup_vec :: "string list \<Rightarrow> CStringVector" where
  "setup_vec args = map Some args @ [None]"

text \<open>
  The report is written to a local \<^verbatim>\<open>File\<close> that owns the write end, which is closed when a
  write fails and the exception leaves the function.
\<close>

definition reportPreExecErrorAndExit :: "Endian \<Rightarrow> errno \<Rightarrow> string \<Rightarrow> (Pipe \<times> world, unit) act" where
  "reportPreExecErrorAndExit e error description =
     bind (this Pipe_takeWriteEndOwnership) (\<lambda>(fd, pipe).
       andthen (set_this (\<lambda>_. pipe))
         (on_world (scoped (FDFile_open_fd fd True FDFile_default)
           (on_world
             (bind (StreamIO_write (m_fd fd) (host_str e (word_of_int error :: 32 word))) (\<lambda>_.
              bind (StreamIO_write (m_fd fd) description) (\<lambda>_.
              proc_exit (ExitStatus_value PRE_EXEC_ERROR)))))
           FDFile_destroy)))"

text \<open>The optional pipe of \<^verbatim>\<open>run()\<close>.\<close>

definition if_pipe :: "(Pipe \<times> 'w, unit) act \<Rightarrow> (Pipe option \<times> 'w, unit) act" where
  "if_pipe m s = (case fst s of None \<Rightarrow> (Ret (), s)
     | Some p \<Rightarrow> (case m (p, snd s) of (r, (p', w')) \<Rightarrow> (r, (Some p', w'))))"

definition exit_status_of :: "errno \<Rightarrow> ExitStatus option" where
  "exit_status_of en =
     (if en = errno_of Errno_LINK_LOOP \<or> en = errno_of Errno_NAME_TOO_LONG \<or> en = errno_of Errno_NO_ENTRY \<or>
         en = errno_of Errno_NOT_A_DIR then Some PROG_NOT_FOUND
      else if en = errno_of Errno_NOT_EXECUTABLE \<or> en = errno_of Errno_ACCESS then Some PROG_NOT_EXECUTABLE
      else None)"

definition exec_program :: "ChildCloner \<Rightarrow> (world, unit) act" where
  "exec_program c = (let argv = setup_vec (m_argv c) in
     proc_exec (case hd argv of None \<Rightarrow> [] | Some a \<Rightarrow> a) (Some argv) (map_option setup_vec (m_env c)))"

text \<open>The handler around the execution: only an \<^verbatim>\<open>ApiError\<close> is handled here.\<close>

definition exec_failed :: "Endian \<Rightarrow> (exn \<Rightarrow> string) \<Rightarrow> exn \<Rightarrow> (Pipe option \<times> world, unit) act" where
  "exec_failed e what ex = (case exn_errno ex of
      None \<Rightarrow> throw ex
    | Some en \<Rightarrow> andthen (if_pipe (reportPreExecErrorAndExit e en (what ex)))
        (case exit_status_of en of
           Some st \<Rightarrow> on_world (proc_exit (ExitStatus_value st))
         | None \<Rightarrow> throw ex))"

definition runChild :: "Endian \<Rightarrow> (exn \<Rightarrow> string) \<Rightarrow> ChildCloner \<Rightarrow> (Pipe option \<times> world, unit) act" where
  "runChild e what c = catch
     (andthen (if_pipe Pipe_closeReadEnd)
     (andthen (on_world (postFork c))
     (andthen (if m_allow_no_exe c then on_world (proc_exit 0) else ret ())
       (catch (on_world (exec_program c)) (exec_failed e what)))))
     (\<lambda>ex. andthen (if_pipe (reportPreExecErrorAndExit e (errno_of Errno_NO_ERROR) (what ex)))
       (on_world (andthen print_child_error (proc_exit (ExitStatus_value PRE_EXEC_ERROR)))))"

subsection \<open>ChildCloner: the parent\<close>

definition maxAtomicWriteSize :: "64 word" where "maxAtomicWriteSize = 4096"

definition handlePreExecError :: "Endian \<Rightarrow> (Pipe \<times> world, unit) act" where
  "handlePreExecError e = andthen Pipe_closeWriteEnd
     (bind (this Pipe_takeReadEndOwnership) (\<lambda>(fd, pipe).
       andthen (set_this (\<lambda>_. pipe))
         (on_world (scoped (FDFile_open_fd fd True FDFile_default)
           (on_world (bind (StreamIO_read (m_fd fd) maxAtomicWriteSize) (\<lambda>(n, buf).
              if n = 0 then ret ()
              else if n \<noteq> 4 then throw (RuntimeError ''bad error code read from error pipe'')
              else let errnum = sint (host_word e buf :: 32 word) in
                bind (StreamIO_read (m_fd fd) maxAtomicWriteSize) (\<lambda>(n, message).
                  if n = 0 then throw (RuntimeError ''missing error message from error pipe'')
                  else if errnum = errno_of Errno_NO_ERROR then throw (RuntimeError message)
                  else throw (ApiErrorMsg message errnum)))))
           FDFile_destroy))))"

text \<open>
  With Valgrind: fork, then the parent opens a descriptor of the child and lets it go on.  The
  locals are the event file and, in the parent, the process file.
\<close>

definition runClone2 :: "Endian \<Rightarrow> (world, SubProc option) act" where
  "runClone2 e = bind (EventFile_create 0 (BitMask_of_list [EventFlag_value EFD_CLOSE_ON_EXEC])) (\<lambda>ev.
     scoped ev
       (on_world (bind proc_fork (\<lambda>child. case child of
          Some pid \<Rightarrow> catch
            (bind (ProcessFile_create pid 0) (\<lambda>pidfile. scoped pidfile
               (bind (this pf_fd) (\<lambda>pidfd.
                  andthen (on_world (EventFile_signal e 1 ev))
                  (andthen (set_this ProcessFile_invalidate)
                    (ret (Some \<lparr>m_pid = pid, m_child_fd = pidfd\<rparr>)))))
               ProcessFile_destroy))
            (\<lambda>ex. andthen (catch (signal_send pid (SignalNr_value SIG_KILL)) (\<lambda>_. ret ()))
               (bind (proc_wait (P_PID pid) default_wait_flags) (\<lambda>_. throw ex)))
        | None \<Rightarrow> catch (bind (EventFile_wait e ev) (\<lambda>_. ret None))
            (\<lambda>ex. andthen print_child_error (proc_exit (ExitStatus_value PRE_EXEC_ERROR))))))
       FDFile_destroy)"

text \<open>The address of the local that receives the descriptor: any but the null pointer.\<close>

definition pidfd_address :: "64 word" where "pidfd_address = 8"

definition clone3_args :: CloneArgs where
  "clone3_args = CloneArgs_setFlags (BitMask_of_list [CloneFlag_value CLEAR_SIGHAND, CloneFlag_value CLONE_PIDFD])
     (CloneArgs_setPidFD pidfd_address CloneArgs_clear)"

definition runClone3 :: "(world, SubProc option) act" where
  "runClone3 = bind (proc_clone clone3_args) (\<lambda>child. ret (case child of
      Some (pid, pidfd) \<Rightarrow> Some \<lparr>m_pid = pid, m_child_fd = FD pidfd\<rparr> | None \<Rightarrow> None))"

text \<open>
  The parent's part of \<^verbatim>\<open>run()\<close>: the new object is a local, moved out of when all is well; when
  the child failed it is killed and waited for.
\<close>

definition await_exec :: "Endian \<Rightarrow> SubProc \<Rightarrow> (Pipe option \<times> world, SubProc) act" where
  "await_exec e subproc = scoped subproc
     (andthen
       (catch (on_world (if_pipe (handlePreExecError e)))
         (\<lambda>ex. andthen
            (catch (bind (this (\<lambda>p. p)) (\<lambda>p. on_world (on_world (SubProc_kill (SignalNr_value SIG_KILL) p)))) (\<lambda>_. ret ()))
            (bind (inner (SubProc_wait default_wait_flags)) (\<lambda>_. throw ex))))
       (bind (this (\<lambda>p. p)) (\<lambda>p. andthen (set_this (\<lambda>_. SubProc_default)) (ret p))))
     SubProc_destroy"

definition ChildCloner_run :: "Endian \<Rightarrow> (exn \<Rightarrow> string) \<Rightarrow> ChildCloner \<Rightarrow> (world, SubProc) act" where
  "ChildCloner_run e what c = (case verifyArgs c of
      Some ex \<Rightarrow> throw ex
    | None \<Rightarrow> bind (if m_forward_child_errors c then bind Pipe_create (\<lambda>p. ret (Some p)) else ret None) (\<lambda>error_pipe.
        scoped error_pipe
          (bind (on_world (bind (gets running_on_valgrind) (\<lambda>valgrind. if valgrind then runClone2 e else runClone3))) (\<lambda>sub.
             case sub of
               Some subproc \<Rightarrow> await_exec e subproc
             | None \<Rightarrow> andthen (runChild e what c) (ret SubProc_default)))
          (if_pipe Pipe_destroy)))"

subsection \<open>Forwarding errors\<close>

lemmas transfer_defs = StreamIO_read_def StreamIO_write_def io_loop_def handleIOError_def stored_def

text \<open>What the child writes for an error.\<close>

lemma report_written:
  assumes "answers w = ok 4 # ok n # as" "0 \<le> n"
  shows "\<exists>w'. reportPreExecErrorAndExit e en msg (p, w) =
      (Abort 125, (p\<lparr>m_write_end := FD_reset (m_write_end p)\<rparr>, w')) \<and>
    trace w' = trace w @ [(Call ''write'' [I (m_fd (m_write_end p)), S (host_str e (word_of_int en :: 32 word))], ok 4),
      (Call ''write'' [I (m_fd (m_write_end p)), S msg], ok n), (Call ''_exit'' [I 125], ok 0)]"
  using assms
  by (simp add: reportPreExecErrorAndExit_def Pipe_takeWriteEndOwnership_def FDFile_open_fd_def
      transfer_defs loop.simps proc_exit_def act_defs kernel_defs)

lemma live_trace_append: "live (tr @ es) = foldl (\<lambda>R x. effect x R) (live tr) es"
  by (simp add: live_def)

lemma effect_read_close:
  "effect (Call ''read'' args, a) R = R" "effect (Call ''close'' [I fd], a) R = R - {Fd fd}"
  "effect (Call ''pidfd_send_signal'' args, a) R = R" "effect (Call ''waitid'' args, a) R = R"
  by (simp_all add: opens_fd_def)

lemma sint_of_int32: "- (2 ^ 31) \<le> n \<Longrightarrow> n < 2 ^ 31 \<Longrightarrow> sint (word_of_int n :: 32 word) = n"
  by (simp add: signed_of_int signed_take_bit_int_eq_self_iff)

lemmas close_defs = FDFile_destroy_def FileBase_destroy_def FileBase_close_def FileBase_isOpen_def on_fd_def
  FD_close_def FD_reset_def FD_valid_def FD_default_def FD_def FDFile_default_def FDFile_open_fd_def

lemma handle_report:
  assumes "answers w = ok 0 # ok_bytes (host_str e (word_of_int en :: 32 word)) # ok_bytes msg # ok 0 # as"
    "r \<noteq> -1" "wr \<noteq> -1" "msg \<noteq> []" "- (2 ^ 31) \<le> en" "en < 2 ^ 31"
  shows "\<exists>w'. handlePreExecError e (\<lparr>m_read_end = FD r, m_write_end = FD wr\<rparr>, w) =
      (Throw (if en = 0 then RuntimeError msg else ApiErrorMsg msg en), (Pipe_default, w')) \<and>
    answers w' = as \<and> live_in w' = live_in w - {Fd wr} - {Fd r} \<and>
    auto_restart_syscalls w' = auto_restart_syscalls w \<and> running_on_valgrind w' = running_on_valgrind w"
  using assms(1-4) sint_of_int32[OF assms(5,6)]
  by (simp add: handlePreExecError_def Pipe_closeWriteEnd_def Pipe_takeReadEndOwnership_def Pipe_default_def
      close_defs transfer_defs loop.simps act_defs kernel_defs live_trace_append effect_read_close
      del: effect.simps)

subsection \<open>Waiting for a sub process\<close>

lemma subproc_wait_lemma:
  assumes "answers w = a # ok 0 # as" "rv a = 0" "outs a = [SignalNr_value SIG_CHILD, code, pid, uid, st]"
    "\<not> wait_has flags NO_HANG" "\<not> wait_has flags LEAVE_INFO" "SubProc_running sp"
  shows "\<exists>child sp' w'. SubProc_wait flags (sp, w) = (Ret child, (sp', w')) \<and> cs_event child = code \<and>
    (if code \<in> {ChildEvent_value EV_EXITED, ChildEvent_value EV_KILLED}
     then sp' = SubProc_default \<and> live_in w' = live_in w - {Fd (m_fd (m_child_fd sp))} \<and>
       answers w' = as \<and> fst (SubProc_destroy (sp', w')) = Ret ()
     else sp' = sp \<and> live_in w' = live_in w \<and> answers w' = ok 0 # as \<and>
       fst (SubProc_destroy (sp', w')) = Abort terminated)"
proof -
  obtain p fd where sp: "sp = \<lparr>m_pid = p, m_child_fd = FD fd\<rparr>"
    by (rule that[of "m_pid sp" "m_fd (m_child_fd sp)"]) (simp add: FD_def)
  have fd: "fd \<noteq> -1" using assms(6) sp by (simp add: SubProc_running_def FD_valid_def FD_def)
  let ?c = "\<lparr>cs_event = code, cs_child = \<lparr>ctx_pid = pid, ctx_uid = as_id uid\<rparr>,
       cs_status = (if code = ChildEvent_value EV_EXITED then Some st else None),
       cs_signal = (if code = ChildEvent_value EV_EXITED then None else Some st),
       user_time = None, system_time = None\<rparr> :: ChildData"
  obtain v where v: "proc_wait (P_PIDFD fd) flags w = (Ret (Some ?c), v)"
    and tr: "runs_to w [(Call ''waitid'' (WaitId_args (P_PIDFD fd) @ [I (uint flags)]), a)] v" "answers v = ok 0 # as"
    using assms(1-4)
    by (simp add: proc_wait_def act_defs kernel_defs waitid_out_def childData_def sigNr_def procCtx_def
      uint_word_of_int as_id_def BitMask_raw_def runs_to_def)
  have live: "live_in v = live_in w"
    using tr(1) by (simp add: runs_to_def effect_read_close del: effect.simps)
  have "code \<in> {ChildEvent_value EV_EXITED, ChildEvent_value EV_KILLED} \<longleftrightarrow> cs_exited ?c \<or> cs_killed ?c"
    by (simp add: is_event_def)
  then show ?thesis
    using assms(4,5) v tr(2) live fd unfolding sp
    by (simp add: SubProc_wait_def value_of_def SubProc_reset_def SubProc_destroy_def SubProc_running_def
        SubProc_default_def is_event_def close_defs act_defs kernel_defs effect_read_close del: effect.simps)
qed

text \<open>
  C40: Waiting returns the event the kernel reports.  After an exit or a fatal signal the object
  has given up the process: its descriptor is closed and it can be destroyed.  After any other
  event, a death that dumped core among them, it is as before, and destroying it aborts.
\<close>

theorem subproc_wait_releases:
  assumes "answers w = a # ok 0 # as" "rv a = 0" "outs a = [SignalNr_value SIG_CHILD, code, pid, uid, st]"
    "\<not> wait_has flags NO_HANG" "\<not> wait_has flags LEAVE_INFO" "SubProc_running sp"
  shows "\<exists>child sp' w'. SubProc_wait flags (sp, w) = (Ret child, (sp', w')) \<and> cs_event child = code \<and>
    (if code \<in> {ChildEvent_value EV_EXITED, ChildEvent_value EV_KILLED}
     then sp' = SubProc_default \<and> live_in w' = live_in w - {Fd (m_fd (m_child_fd sp))} \<and>
       answers w' = as \<and> fst (SubProc_destroy (sp', w')) = Ret ()
     else sp' = sp \<and> live_in w' = live_in w \<and> answers w' = ok 0 # as \<and>
       fst (SubProc_destroy (sp', w')) = Abort terminated)"
  using assms by (rule subproc_wait_lemma)

theorem subproc_wait_releases_witness:
  "\<exists>child w'. SubProc_wait default_wait_flags (\<lparr>m_pid = 42, m_child_fd = FD 5\<rparr>,
      world_of [\<lparr>rv = 0, err = None, out = [], outs = [17, 3, 42, 0, 11]\<rparr>, ok 0]) =
      (Ret child, (\<lparr>m_pid = 42, m_child_fd = FD 5\<rparr>, w')) \<and>
    fst (SubProc_destroy (\<lparr>m_pid = 42, m_child_fd = FD 5\<rparr>, w')) = Abort terminated"
  using subproc_wait_releases[where w = "world_of [\<lparr>rv = 0, err = None, out = [], outs = [17, 3, 42, 0, 11]\<rparr>, ok 0]"
      and a = "\<lparr>rv = 0, err = None, out = [], outs = [17, 3, 42, 0, 11]\<rparr>" and as = "[]" and code = 3
      and pid = 42 and uid = 0 and st = 11 and flags = default_wait_flags
      and sp = "\<lparr>m_pid = 42, m_child_fd = FD 5\<rparr>"]
  by (auto simp: world_of_def wait_has_def default_wait_flags_def BitMask_of_list_def SubProc_running_def
      FD_valid_def FD_def)

subsection \<open>A failing child\<close>

text \<open>What was written to a descriptor, one message for each write.\<close>

fun messages :: "FileNum \<Rightarrow> (syscall \<times> answer) list \<Rightarrow> string list" where
  "messages fd ((Call f [I n, S bs], a) # es) =
     (if f = ''write'' \<and> n = fd then bs # messages fd es else messages fd es)"
| "messages fd (_ # es) = messages fd es"
| "messages fd [] = []"

lemma catch_Throw: "m s = (Throw e, t) \<Longrightarrow> catch m h s = h e t"
  by (simp add: catch_def)

lemma catch_Abort: "m s = (Abort n, t) \<Longrightarrow> catch m h s = (Abort n, t)"
  by (simp add: catch_def)

lemma runChild_exec_failed:
  assumes "Pipe_closeReadEnd (p, w) = (Ret (), (q, w1))" "postFork c w1 = (Ret (), w2)"
    "\<not> m_allow_no_exe c" "m_argv c = prog # args" "answers w2 = a # ok 4 # ok n # as" "rv a = -1"
    "err a = Some en" "0 \<le> n" "m_write_end q = FD wr"
  shows "\<exists>q' w'. runChild e what c (Some p, w) = (Abort 125, (Some q', w')) \<and>
    (\<exists>es. trace w' = trace w2 @ es \<and>
      messages wr es = [host_str e (word_of_int en :: 32 word), what (FileError prog ''execvpe()'' en)])"
proof -
  let ?ex = "FileError prog ''execvpe()'' en"
  let ?argv = "vec_arg (setup_vec (prog # args))"
  let ?env = "(case map_option setup_vec (m_env c) of None \<Rightarrow> I 0 | Some v \<Rightarrow> vec_arg v)"
  obtain w3 where w3: "exec_program c w2 = (Throw ?ex, w3)" "answers w3 = ok 4 # ok n # as"
    "trace w3 = trace w2 @ [(Call ''execvpe'' [S prog, ?argv, ?env], a)]"
    using assms(4-7)
    by (cases "m_env c") (simp_all add: exec_program_def proc_exec_def exec_wrapper_def terminated_vec_def
        setup_vec_def Let_def act_defs kernel_defs)
  obtain w4 where w4: "reportPreExecErrorAndExit e en (what ?ex) (q, w3) =
      (Abort 125, (q\<lparr>m_write_end := FD_reset (m_write_end q)\<rparr>, w4))"
    "trace w4 = trace w3 @ [(Call ''write'' [I (m_fd (m_write_end q)), S (host_str e (word_of_int en :: 32 word))], ok 4),
      (Call ''write'' [I (m_fd (m_write_end q)), S (what ?ex)], ok n), (Call ''_exit'' [I 125], ok 0)]"
    using report_written[OF w3(2) assms(8)] by blast
  have "runChild e what c (Some p, w) = (Abort 125, (Some (q\<lparr>m_write_end := FD_reset (m_write_end q)\<rparr>), w4))"
    using assms(1-3) w3(1) w4(1)
    by (simp add: runChild_def exec_failed_def if_pipe_def act_defs)
  moreover have "messages wr [(Call ''execvpe'' [S prog, ?argv, ?env], a),
      (Call ''write'' [I (m_fd (m_write_end q)), S (host_str e (word_of_int en :: 32 word))], ok 4),
      (Call ''write'' [I (m_fd (m_write_end q)), S (what ?ex)], ok n), (Call ''_exit'' [I 125], ok 0)] =
    [host_str e (word_of_int en :: 32 word), what ?ex]"
    using assms(9) by (simp add: FD_def)
  ultimately show ?thesis using w3(3) w4(2) by auto
qed

lemma await_exec_throws:
  assumes "handlePreExecError e (p, v) = (Throw ex, (p', v1))"
    "SubProc_kill (SignalNr_value SIG_KILL) sp v1 = (r, v2)" "r = Ret () \<or> r = Throw ex'"
    "SubProc_wait default_wait_flags (sp, v2) = (Ret child, (sp', v3))" "\<not> SubProc_running sp'"
  shows "await_exec e sp (Some p, v) = (Throw ex, (Some p', v3))"
  using assms
  by (auto simp: await_exec_def if_pipe_def inner_def SubProc_destroy_def act_defs)

lemma effect_opens:
  "effect (Call ''pipe2'' args, a) R = (if rv a = 0 then R \<union> Fd ` set (outs a) else R)"
  "effect (Call ''clone3'' args, a) R = (if 0 < rv a then R \<union> Fd ` set (outs a) else R)"
  by (simp_all add: opens_fd_def)

lemma handle_eof:
  assumes "answers w = ok 0 # ok 0 # ok 0 # as" "r \<noteq> -1" "wr \<noteq> -1"
  shows "\<exists>w'. handlePreExecError e (\<lparr>m_read_end = FD r, m_write_end = FD wr\<rparr>, w) = (Ret (), (Pipe_default, w')) \<and>
    answers w' = as \<and> live_in w' = live_in w - {Fd wr} - {Fd r}"
  using assms
  by (simp add: handlePreExecError_def Pipe_closeWriteEnd_def Pipe_takeReadEndOwnership_def Pipe_default_def
      close_defs transfer_defs loop.simps act_defs kernel_defs live_trace_append effect_read_close
      del: effect.simps)

lemma SubProc_kill_answered:
  assumes "answers w = a # as" "\<not> running_on_valgrind w"
  shows "\<exists>r w' ex. SubProc_kill s sp w = (r, w') \<and> (r = Ret () \<or> r = Throw ex) \<and> answers w' = as \<and>
    live_in w' = live_in w"
  using assms
  by (simp add: SubProc_kill_def signal_send_pidfd_def act_defs kernel_defs effect_read_close del: effect.simps)

text \<open>
  C13: With error forwarding, a program that cannot be executed is reported to the caller of
  \<^verbatim>\<open>run()\<close>: the child sends the error and its text in two messages and ends with the status
  PRE_EXEC_ERROR; the parent that reads these messages throws an exception with the same errno
  and the same text, after it has killed and collected the child, and none of the descriptors
  it had for the child is left open.
\<close>

theorem exec_failure_reaches_parent:
  assumes child: "Pipe_closeReadEnd (\<lparr>m_read_end = FD r, m_write_end = FD wr\<rparr>, w) = (Ret (), (q, w1))"
      "postFork c w1 = (Ret (), w2)" "\<not> m_allow_no_exe c" "m_argv c = prog # args"
      "answers w2 = a # ok 4 # ok n # as" "rv a = -1" "err a = Some en" "0 \<le> n"
    and en: "0 < en" "en < 2 ^ 31" and msg: "what (FileError prog ''execvpe()'' en) \<noteq> []"
    and fds: "r \<noteq> -1" "wr \<noteq> -1" "pfd \<noteq> -1"
  shows "\<exists>q' w' es. runChild e what c (Some \<lparr>m_read_end = FD r, m_write_end = FD wr\<rparr>, w) =
      (Abort (ExitStatus_value PRE_EXEC_ERROR), (q', w')) \<and> trace w' = trace w2 @ es \<and>
    (\<forall>v k x cs. answers v = ok 0 # map ok_bytes (messages wr es) @ [ok 0, k,
         \<lparr>rv = 0, err = None, out = [], outs = [SignalNr_value SIG_CHILD, ChildEvent_value EV_KILLED, pid, 0, 9]\<rparr>, ok 0] \<longrightarrow>
       \<not> running_on_valgrind v \<longrightarrow>
       (\<exists>p' v'. await_exec e \<lparr>m_pid = pid, m_child_fd = FD pfd\<rparr> (Some \<lparr>m_read_end = FD r, m_write_end = FD wr\<rparr>, v) =
          (Throw (ApiErrorMsg (what (FileError prog ''execvpe()'' en)) en), (p', v')) \<and>
         live_in v' = live_in v - {Fd r, Fd wr, Fd pfd}))"
proof -
  let ?msg = "what (FileError prog ''execvpe()'' en)"
  let ?sp = "\<lparr>m_pid = pid, m_child_fd = FD pfd\<rparr>"
  let ?wait = "\<lparr>rv = 0, err = None, out = [], outs = [SignalNr_value SIG_CHILD, ChildEvent_value EV_KILLED, pid, 0, 9]\<rparr>"
  have "m_write_end q = FD wr"
    using child(1) by (auto simp: Pipe_closeReadEnd_def act_defs split: if_splits prod.splits outcome.splits)
  from runChild_exec_failed[OF child this, of e what] obtain q' w' es where c:
    "runChild e what c (Some \<lparr>m_read_end = FD r, m_write_end = FD wr\<rparr>, w) = (Abort 125, (Some q', w'))"
    "trace w' = trace w2 @ es" "messages wr es = [host_str e (word_of_int en :: 32 word), ?msg]" by blast
  have parent: "\<exists>p' v'. await_exec e ?sp (Some \<lparr>m_read_end = FD r, m_write_end = FD wr\<rparr>, v) =
      (Throw (ApiErrorMsg ?msg en), (p', v')) \<and> live_in v' = live_in v - {Fd r, Fd wr, Fd pfd}"
    if ans: "answers v = ok 0 # map ok_bytes (messages wr es) @ [ok 0, k, ?wait, ok 0]"
      and nv: "\<not> running_on_valgrind v" for v k
  proof -
    have a: "answers v = ok 0 # ok_bytes (host_str e (word_of_int en :: 32 word)) # ok_bytes ?msg # ok 0 # [k, ?wait, ok 0]"
      using ans c(3) by simp
    from handle_report[OF a fds(1,2) msg _ en(2)] en(1) obtain v1 where 1:
      "handlePreExecError e (\<lparr>m_read_end = FD r, m_write_end = FD wr\<rparr>, v) = (Throw (ApiErrorMsg ?msg en), (Pipe_default, v1))"
      "answers v1 = [k, ?wait, ok 0]" "live_in v1 = live_in v - {Fd wr} - {Fd r}" "\<not> running_on_valgrind v1"
      using nv by auto
    from SubProc_kill_answered[OF 1(2,4), of "SignalNr_value SIG_KILL" ?sp] obtain x v2 ex where 2:
      "SubProc_kill (SignalNr_value SIG_KILL) ?sp v1 = (x, v2)" "x = Ret () \<or> x = Throw ex"
      "answers v2 = ?wait # ok 0 # []" "live_in v2 = live_in v1" by auto
    have f: "\<not> wait_has default_wait_flags NO_HANG" "\<not> wait_has default_wait_flags LEAVE_INFO"
      "SubProc_running ?sp"
      using fds(3) by (simp_all add: wait_has_def default_wait_flags_def BitMask_of_list_def SubProc_running_def
          FD_valid_def FD_def)
    from subproc_wait_lemma[OF 2(3) _ _ f, of "ChildEvent_value EV_KILLED" pid 0 9] obtain child sp' v3 where 3:
      "SubProc_wait default_wait_flags (?sp, v2) = (Ret child, (sp', v3))"
      "sp' = SubProc_default" "live_in v3 = live_in v2 - {Fd pfd}" by (auto simp: FD_def)
    have "\<not> SubProc_running sp'" using 3(2) by (simp add: SubProc_running_def SubProc_default_def)
    from await_exec_throws[OF 1(1) 2(1,2) 3(1) this] 1(3) 2(4) 3(3) show ?thesis by auto
  qed
  show ?thesis using c(1,2) parent by auto
qed

definition sample_cloner :: ChildCloner where
  "sample_cloner = setExe ''prog'' (ChildCloner_default\<lparr>m_forward_child_errors := True\<rparr>)"

definition sample_child :: world where
  "sample_child = world_of [ok 0, ok 0, failed Errno_NO_ENTRY, ok 4, ok 5]"

lemma sample_child_runs:
  "\<exists>w1. Pipe_closeReadEnd (\<lparr>m_read_end = FD 3, m_write_end = FD 4\<rparr>, sample_child) =
      (Ret (), (\<lparr>m_read_end = FD_default, m_write_end = FD 4\<rparr>, w1)) \<and>
    (\<exists>w2. postFork sample_cloner w1 = (Ret (), w2) \<and> answers w2 = [failed Errno_NO_ENTRY, ok 4, ok 5])"
  by (simp add: sample_child_def world_of_def Pipe_closeReadEnd_def close_defs act_defs kernel_defs postFork_def
      sample_cloner_def setExe_def setArgv0_def ChildCloner_default_def resetSignals_def signal_unblock_def
      set_signal_mask_def redirectFD_def)

theorem exec_failure_reaches_parent_witness:
  "\<exists>q' w'. runChild LITTLE (\<lambda>_. ''gone!'') sample_cloner (Some \<lparr>m_read_end = FD 3, m_write_end = FD 4\<rparr>, sample_child) =
      (Abort (ExitStatus_value PRE_EXEC_ERROR), (q', w'))"
proof -
  obtain w1 w2 where w: "Pipe_closeReadEnd (\<lparr>m_read_end = FD 3, m_write_end = FD 4\<rparr>, sample_child) =
      (Ret (), (\<lparr>m_read_end = FD_default, m_write_end = FD 4\<rparr>, w1))"
    "postFork sample_cloner w1 = (Ret (), w2)" "answers w2 = failed Errno_NO_ENTRY # ok 4 # ok 5 # []"
    using sample_child_runs by blast
  have c: "\<not> m_allow_no_exe sample_cloner" "m_argv sample_cloner = ''prog'' # []"
    by (simp_all add: sample_cloner_def setExe_def setArgv0_def ChildCloner_default_def)
  have h: "rv (failed Errno_NO_ENTRY) = -1" "err (failed Errno_NO_ENTRY) = Some 2" "(0 :: int) \<le> 5"
    "(0 :: int) < 2" "(2 :: int) < 2 ^ 31" "(\<lambda>_. ''gone!'') (FileError ''prog'' ''execvpe()'' 2) \<noteq> []"
    "(3 :: int) \<noteq> -1" "(4 :: int) \<noteq> -1" "(5 :: int) \<noteq> -1" by simp_all
  from exec_failure_reaches_parent[OF w(1,2) c w(3) h, where e = LITTLE and pid = 42]
  show ?thesis by (elim exE conjE) (intro exI)
qed

text \<open>
  Without error forwarding the exit status of the child tells why the program was not
  executed: 127 when it was not found, 126 when it may not be executed, 125 otherwise, also
  when the preparation of the child has thrown.
\<close>

theorem child_exit_status:
  assumes "postFork c w = (Ret (), w2)" "\<not> m_allow_no_exe c" "m_argv c = prog # args"
    "answers w2 = a # b # as" "rv a = -1" "err a = Some en"
    and "postFork c v = (Throw ex, v2)" "answers v2 = b # as"
  shows "fst (runChild e what c (None, w)) = Abort (
      if en \<in> {errno_of Errno_NO_ENTRY, errno_of Errno_NOT_A_DIR, errno_of Errno_LINK_LOOP, errno_of Errno_NAME_TOO_LONG}
      then 127 else if en \<in> {errno_of Errno_ACCESS, errno_of Errno_NOT_EXECUTABLE} then 126 else 125) \<and>
    fst (runChild e what c (None, v)) = Abort 125"
proof
  obtain w3 where w3: "exec_program c w2 = (Throw (FileError prog ''execvpe()'' en), w3)" "answers w3 = b # as"
    using assms(3-6)
    by (cases "m_env c") (simp_all add: exec_program_def proc_exec_def exec_wrapper_def terminated_vec_def
        setup_vec_def Let_def act_defs kernel_defs)
  have "fst (runChild e what c (None, w)) =
      Abort (case exit_status_of en of Some st \<Rightarrow> ExitStatus_value st | None \<Rightarrow> 125)"
    using assms(1,2) w3
    by (cases "exit_status_of en") (simp_all add: runChild_def exec_failed_def if_pipe_def print_child_error_def
        get_own_pid_def proc_exit_def act_defs kernel_defs)
  then show "fst (runChild e what c (None, w)) = Abort (
      if en \<in> {errno_of Errno_NO_ENTRY, errno_of Errno_NOT_A_DIR, errno_of Errno_LINK_LOOP, errno_of Errno_NAME_TOO_LONG}
      then 127 else if en \<in> {errno_of Errno_ACCESS, errno_of Errno_NOT_EXECUTABLE} then 126 else 125)"
    by (auto simp: exit_status_of_def)
  show "fst (runChild e what c (None, v)) = Abort 125"
    using assms(7,8)
    by (simp add: runChild_def if_pipe_def print_child_error_def get_own_pid_def proc_exit_def act_defs kernel_defs)
qed

definition plain_cloner :: ChildCloner where
  "plain_cloner = setExe ''prog'' ChildCloner_default"

theorem child_exit_status_witness:
  "fst (runChild LITTLE (\<lambda>_. []) plain_cloner (None, world_of [ok 0, failed Errno_NO_ENTRY, ok 42])) = Abort 127 \<and>
   fst (runChild LITTLE (\<lambda>_. []) plain_cloner (None, world_of [ok 22, ok 42])) = Abort 125"
proof -
  have ok: "postFork plain_cloner (world_of (ok 0 # as)) =
      (Ret (), snd (call ''pthread_sigmask'' [I 1, mask_arg SigSet_fill] (world_of (ok 0 # as))))" for as
    by (simp add: world_of_def act_defs kernel_defs postFork_def plain_cloner_def setExe_def setArgv0_def
        ChildCloner_default_def resetSignals_def signal_unblock_def set_signal_mask_def redirectFD_def)
  have fails: "postFork plain_cloner (world_of (ok 22 # as)) = (Throw (ApiError ''pthread_sigmask()'' 22),
      snd (call ''pthread_sigmask'' [I 1, mask_arg SigSet_fill] (world_of (ok 22 # as))))" for as
    by (simp add: world_of_def act_defs kernel_defs postFork_def plain_cloner_def setExe_def setArgv0_def
        ChildCloner_default_def resetSignals_def signal_unblock_def set_signal_mask_def redirectFD_def)
  have c: "\<not> m_allow_no_exe plain_cloner" "m_argv plain_cloner = ''prog'' # []"
    by (simp_all add: plain_cloner_def setExe_def setArgv0_def ChildCloner_default_def)
  have a: "answers (snd (call ''pthread_sigmask'' [I 1, mask_arg SigSet_fill] (world_of (x # as)))) = as" for x as
    by (simp add: call_def world_of_def)
  from child_exit_status[OF ok c, where a = "failed Errno_NO_ENTRY" and b = "ok 42" and as = "[]" and en = 2,
      OF _ _ _ fails, where e = LITTLE and what = "\<lambda>_. []"]
  show ?thesis by (simp add: a)
qed

text \<open>
  C16: A started program leaves the parent with the process and its descriptor only: when the
  child's end of the error pipe is closed without a message \<^verbatim>\<open>run()\<close> returns the new object and
  both ends of the pipe are closed.
\<close>

theorem run_leaves_only_the_pidfd:
  assumes "verifyArgs c = None" "m_forward_child_errors c" "\<not> running_on_valgrind w"
    "answers w = \<lparr>rv = 0, err = None, out = [], outs = [r, wr]\<rparr> # \<lparr>rv = pid, err = None, out = [], outs = [pfd]\<rparr> #
       ok 0 # ok 0 # ok 0 # as"
    "0 < pid" "0 \<le> r" "0 \<le> wr" "r \<noteq> wr" "0 \<le> pfd" "pfd \<noteq> r" "pfd \<noteq> wr"
    "Fd r \<notin> live_in w" "Fd wr \<notin> live_in w"
  shows "\<exists>w'. ChildCloner_run e what c w = (Ret \<lparr>m_pid = pid, m_child_fd = FD pfd\<rparr>, w') \<and>
    live_in w' = insert (Fd pfd) (live_in w) \<and> answers w' = as"
proof -
  let ?p = "\<lparr>m_read_end = FD r, m_write_end = FD wr\<rparr>" and ?sp = "\<lparr>m_pid = pid, m_child_fd = FD pfd\<rparr>"
  obtain w1 where w1: "Pipe_create w = (Ret ?p, w1)" "live_in w1 = live_in w \<union> {Fd r, Fd wr}"
    "answers w1 = \<lparr>rv = pid, err = None, out = [], outs = [pfd]\<rparr> # ok 0 # ok 0 # ok 0 # as" "\<not> running_on_valgrind w1"
    using assms(3,4) by (simp add: Pipe_create_def act_defs kernel_defs effect_opens del: effect.simps)
  obtain w2 where w2: "runClone3 w1 = (Ret (Some ?sp), w2)" "live_in w2 = insert (Fd pfd) (live_in w1)"
    "answers w2 = ok 0 # ok 0 # ok 0 # as"
    using w1(3) assms(5) by (simp add: runClone3_def proc_clone_def act_defs kernel_defs effect_opens del: effect.simps)
  from handle_eof[OF w2(3), of r wr e] assms(6,7) obtain w3 where w3:
    "handlePreExecError e (?p, w2) = (Ret (), (Pipe_default, w3))" "answers w3 = as"
    "live_in w3 = live_in w2 - {Fd wr} - {Fd r}" by auto
  have "await_exec e ?sp (Some ?p, w2) = (Ret ?sp, (Some Pipe_default, w3))"
    using w3(1) by (simp add: await_exec_def if_pipe_def SubProc_destroy_def SubProc_running_def SubProc_default_def act_defs)
  then have "ChildCloner_run e what c w = (Ret ?sp, w3)"
    using assms(1,2) w1(1,4) w2(1)
    by (simp add: ChildCloner_run_def if_pipe_def Pipe_destroy_def Pipe_closeReadEnd_def Pipe_closeWriteEnd_def
        Pipe_default_def act_defs)
  moreover have "live_in w3 = insert (Fd pfd) (live_in w)"
    using w3(3) w2(2) w1(2) assms(10-13) by auto
  ultimately show ?thesis using w3(2) by auto
qed

theorem run_leaves_only_the_pidfd_witness:
  "\<exists>w'. ChildCloner_run LITTLE (\<lambda>_. []) sample_cloner (world_of [\<lparr>rv = 0, err = None, out = [], outs = [3, 4]\<rparr>,
      \<lparr>rv = 42, err = None, out = [], outs = [5]\<rparr>, ok 0, ok 0, ok 0]) = (Ret \<lparr>m_pid = 42, m_child_fd = FD 5\<rparr>, w') \<and>
    live_in w' = {Fd 5}"
  using run_leaves_only_the_pidfd[where c = sample_cloner and w = "world_of [\<lparr>rv = 0, err = None, out = [], outs = [3, 4]\<rparr>,
      \<lparr>rv = 42, err = None, out = [], outs = [5]\<rparr>, ok 0, ok 0, ok 0]" and r = 3 and wr = 4 and pid = 42 and pfd = 5
      and as = "[]" and e = LITTLE and what = "\<lambda>_. []"]
  by (auto simp: world_of_def sample_cloner_def setExe_def setArgv0_def ChildCloner_default_def verifyArgs_def)

subsection \<open>The configuration\<close>

text \<open>The executable is the first entry of the argument vector.\<close>

definition exe_is_argv0 :: "('z) ClonerSettings_scheme \<Rightarrow> bool" where
  "exe_is_argv0 c \<longleftrightarrow> m_executable c = (case m_argv c of [] \<Rightarrow> [] | a # _ \<Rightarrow> a)"

text \<open>
  A new cloner has no executable; every operation that configures one keeps the executable
  equal to the first argument, and an added argument comes last.  Clearing the arguments takes
  only the first of them away, although it is documented to clear them all.
\<close>

theorem cloner_configuration:
  "exe_is_argv0 ChildCloner_default \<and> exe_is_argv0 (setExe exe c) \<and> exe_is_argv0 (setArgs sv c) \<and>
   (exe_is_argv0 c \<longrightarrow> exe_is_argv0 (clearArgs c) \<and> exe_is_argv0 (setNoExe c) \<and> exe_is_argv0 (resetStdFiles c) \<and>
     exe_is_argv0 (add_arg a c) \<and> (\<forall>c'. addInheritFD fd c = Inr c' \<longrightarrow> exe_is_argv0 c') \<and>
     (hasExe c \<longrightarrow> m_argv (add_arg a c) = m_argv c @ [a])) \<and>
   m_argv (setExe exe c) = exe # tl (m_argv c) \<and>
   m_argv (clearArgs (setArgs (a # b # args) c)) = a # args"
  by (cases "m_argv c") (auto simp: exe_is_argv0_def ChildCloner_default_def setExe_def setArgv0_def setArgs_def
      setExeFromArgv0_def clearArgs_def setNoExe_def resetStdFiles_def add_arg_def hasExe_def addInheritFD_def
      split: list.splits if_splits)

theorem cloner_configuration_witness:
  "exe_is_argv0 (add_arg ''b'' (setExe ''a'' ChildCloner_default))"
  using cloner_configuration[where exe = "''a''" and c = ChildCloner_default]
    cloner_configuration[where c = "setExe ''a'' ChildCloner_default" and a = "''b''"] by blast

end
