(* ===== verification/NetTypes.thy ===== *)
theory NetTypes
  imports HostBytes BitMask Kernel
begin

text \<open>
  The enumerations of the network classes (\<^verbatim>\<open>include/net/types.hxx\<close>,
  \<^verbatim>\<open>include/net/LinkLayerAddress.hxx\<close>, \<^verbatim>\<open>include/net/inet/IPAddress.hxx\<close>) with the values
  of the constants of Linux they stand for.
\<close>

subsection \<open>include/net/types.hxx\<close>

datatype SocketFamily = AF_UNSPEC | AF_INET | AF_INET6 | AF_UNIX | AF_NETLINK | AF_PACKET

primrec SocketFamily_value :: "SocketFamily \<Rightarrow> int" where
  "SocketFamily_value AF_UNSPEC = 0"
| "SocketFamily_value AF_INET = 2"
| "SocketFamily_value AF_INET6 = 0xa"
| "SocketFamily_value AF_UNIX = 1"
| "SocketFamily_value AF_NETLINK = 0x10"
| "SocketFamily_value AF_PACKET = 0x11"

datatype SocketType = SOCK_ANY | SOCK_STREAM | SOCK_DGRAM | SOCK_RAW | SOCK_SEQPACKET | SOCK_RDM

primrec SocketType_value :: "SocketType \<Rightarrow> int" where
  "SocketType_value SOCK_ANY = 0"
| "SocketType_value SOCK_STREAM = 1"
| "SocketType_value SOCK_DGRAM = 2"
| "SocketType_value SOCK_RAW = 3"
| "SocketType_value SOCK_SEQPACKET = 5"
| "SocketType_value SOCK_RDM = 4"

text \<open>The protocol of a socket is a number; the enumeration names the default only.\<close>

definition SocketProtocol_DEFAULT :: int where
  "SocketProtocol_DEFAULT = 0"

datatype SocketFlag = SOCK_CLOEXEC | SOCK_NONBLOCK

primrec SocketFlag_value :: "SocketFlag \<Rightarrow> 32 word" where
  "SocketFlag_value SOCK_CLOEXEC = 0x80000"
| "SocketFlag_value SOCK_NONBLOCK = 0x800"

datatype OptLevel = OPT_SOCKET | OPT_IP | OPT_IPV6 | OPT_TCP | OPT_UDP

primrec OptLevel_value :: "OptLevel \<Rightarrow> int" where
  "OptLevel_value OPT_SOCKET = 1"
| "OptLevel_value OPT_IP = 0"
| "OptLevel_value OPT_IPV6 = 0x29"
| "OptLevel_value OPT_TCP = 6"
| "OptLevel_value OPT_UDP = 0x11"

definition MAX_NET_INTERFACE_NAME :: nat where
  "MAX_NET_INTERFACE_NAME = 16"

definition MAX_HOSTNAME :: nat where
  "MAX_HOSTNAME = 1025"

definition MAX_SERVICE :: nat where
  "MAX_SERVICE = 32"

datatype InterfaceIndex_const = IF_INVALID | IF_ANY

primrec InterfaceIndex_of :: "InterfaceIndex_const \<Rightarrow> 32 word" where
  "InterfaceIndex_of IF_INVALID = 0"
| "InterfaceIndex_of IF_ANY = 0"

text \<open>
  Ports and IPv4 addresses are numbers in network byte order, IPv6 and MAC addresses are
  sequences of bytes.
\<close>

type_synonym IPPort = "16 word EndianNumber"
type_synonym IP4RawAddress = "32 word EndianNumber"
type_synonym IP6RawAddress = string
type_synonym MACAddress = string

text \<open>The well-known IPv4 addresses are numbers in host byte order.\<close>

definition IP4_LOOPBACK_ADDR :: "Endian \<Rightarrow> 32 word EndianNumber" where
  "IP4_LOOPBACK_ADDR e = EndianNumber_of e e 0x7F000001"

definition IP4_ANY_ADDR :: "Endian \<Rightarrow> 32 word EndianNumber" where
  "IP4_ANY_ADDR e = EndianNumber_of e e 0"

definition IP4_BROADCAST_ADDR :: "Endian \<Rightarrow> 32 word EndianNumber" where
  "IP4_BROADCAST_ADDR e = EndianNumber_of e e 0xFFFFFFFF"

definition IP6_LOOPBACK :: IP6RawAddress where
  "IP6_LOOPBACK = replicate 15 CHR 0x00 @ [CHR 0x01]"

definition IP6_ANY_ADDR :: IP6RawAddress where
  "IP6_ANY_ADDR = replicate 16 CHR 0x00"

datatype (plugins only: lifting) MessageFlag = MSG_CONFIRM | MSG_DONT_ROUTE | MSG_DONT_WAIT |
    MSG_END_OF_RECORD | MSG_MORE_DATA | MSG_NO_SIGNAL | MSG_OUT_OF_BAND | MSG_FASTOPEN |
    MSG_CLOEXEC | MSG_ERRQUEUE | MSG_PEEK | MSG_TRUNCATE | MSG_CTL_WAS_TRUNCATED | MSG_WAIT_ALL |
    MSG_WAIT_FOR_ONE | MSG_ZEROCOPY

primrec MessageFlag_value :: "MessageFlag \<Rightarrow> 32 word" where
  "MessageFlag_value MSG_CONFIRM = 0x800"
| "MessageFlag_value MSG_DONT_ROUTE = 4"
| "MessageFlag_value MSG_DONT_WAIT = 0x40"
| "MessageFlag_value MSG_END_OF_RECORD = 0x80"
| "MessageFlag_value MSG_MORE_DATA = 0x8000"
| "MessageFlag_value MSG_NO_SIGNAL = 0x4000"
| "MessageFlag_value MSG_OUT_OF_BAND = 1"
| "MessageFlag_value MSG_FASTOPEN = 0x20000000"
| "MessageFlag_value MSG_CLOEXEC = 0x40000000"
| "MessageFlag_value MSG_ERRQUEUE = 0x2000"
| "MessageFlag_value MSG_PEEK = 2"
| "MessageFlag_value MSG_TRUNCATE = 0x20"
| "MessageFlag_value MSG_CTL_WAS_TRUNCATED = 8"
| "MessageFlag_value MSG_WAIT_ALL = 0x100"
| "MessageFlag_value MSG_WAIT_FOR_ONE = 0x10000"
| "MessageFlag_value MSG_ZEROCOPY = 0x4000000"

datatype UnixMessage = UNIX_RIGHTS | UNIX_CREDENTIALS

primrec UnixMessage_value :: "UnixMessage \<Rightarrow> int" where
  "UnixMessage_value UNIX_RIGHTS = 1"
| "UnixMessage_value UNIX_CREDENTIALS = 2"

datatype IP4Message = IP4_RECVERR | IP4_PKTINFO | IP4_ORIGDSTADDR | IP4_TOS | IP4_TTL

primrec IP4Message_value :: "IP4Message \<Rightarrow> int" where
  "IP4Message_value IP4_RECVERR = 0xb"
| "IP4Message_value IP4_PKTINFO = 8"
| "IP4Message_value IP4_ORIGDSTADDR = 0x14"
| "IP4Message_value IP4_TOS = 1"
| "IP4Message_value IP4_TTL = 2"

datatype IP6Message = IP6_RECVERR | IP6_PKTINFO

primrec IP6Message_value :: "IP6Message \<Rightarrow> int" where
  "IP6Message_value IP6_RECVERR = 0x19"
| "IP6Message_value IP6_PKTINFO = 0x32"

text \<open>The option level of a family (\<^verbatim>\<open>include/net/traits.hxx\<close>).\<close>

definition OPT_LEVEL :: "SocketFamily \<Rightarrow> OptLevel option" where
  "OPT_LEVEL family = (case family of AF_INET \<Rightarrow> Some OPT_IP | AF_INET6 \<Rightarrow> Some OPT_IPV6 | _ \<Rightarrow> None)"

text \<open>The type \<^verbatim>\<open>RECVERR\<close> of the control messages of a family.\<close>

definition RECVERR_of :: "SocketFamily \<Rightarrow> int option" where
  "RECVERR_of family = (case family of AF_INET \<Rightarrow> Some (IP4Message_value IP4_RECVERR)
     | AF_INET6 \<Rightarrow> Some (IP6Message_value IP6_RECVERR) | _ \<Rightarrow> None)"

subsection \<open>include/net/LinkLayerAddress.hxx\<close>

datatype (plugins only: lifting) EthernetProtocol = ETH_LOOP | ETH_PUP | ETH_PUPAT | ETH_TSN |
    ETH_ERSPAN2 | ETH_IP | ETH_X25 | ETH_ARP | ETH_BPQ | ETH_IEEEPUP | ETH_IEEEPUPAT | ETH_BATMAN
    | ETH_DEC | ETH_DNA_DL | ETH_DNA_RC | ETH_DNA_RT | ETH_LAT | ETH_DIAG | ETH_CUST | ETH_SCA |
    ETH_TEB | ETH_RARP | ETH_ATALK | ETH_AARP | ETH_VLAN_8021Q | ETH_ERSPAN | ETH_IPX | ETH_IPV6 |
    ETH_PAUSE | ETH_SLOW | ETH_WCCP | ETH_MPLS_UC | ETH_MPLS_MC | ETH_ATMMPOA | ETH_PPP_DISC |
    ETH_PPP_SES | ETH_LINK_CTL | ETH_ATMFATE | ETH_PAE | ETH_PROFINET | ETH_REALTEK | ETH_AOE |
    ETH_ETHERCAT | ETH_VLAN_8021AD | ETH_EX1_802 | ETH_PREAUTH | ETH_TIPC | ETH_LLDP | ETH_MRP |
    ETH_MACSEC | ETH_BACK_8021AH | ETH_MVRP | ETH_TS_1588 | ETH_NCSI | ETH_PRP | ETH_CFM |
    ETH_FCOE | ETH_IBOE | ETH_TDLS | ETH_FIP | ETH_HO_80221 | ETH_HSR | ETH_NSH | ETH_LOOPBACK |
    ETH_QINQ1 | ETH_QINQ2 | ETH_QINQ3 | ETH_EDSA | ETH_DSA_8021Q | ETH_IFE | ETH_IUCV

primrec EthernetProtocol_value :: "EthernetProtocol \<Rightarrow> 16 word" where
  "EthernetProtocol_value ETH_LOOP = 0x60"
| "EthernetProtocol_value ETH_PUP = 0x200"
| "EthernetProtocol_value ETH_PUPAT = 0x201"
| "EthernetProtocol_value ETH_TSN = 0x22f0"
| "EthernetProtocol_value ETH_ERSPAN2 = 0x22eb"
| "EthernetProtocol_value ETH_IP = 0x800"
| "EthernetProtocol_value ETH_X25 = 0x805"
| "EthernetProtocol_value ETH_ARP = 0x806"
| "EthernetProtocol_value ETH_BPQ = 0x8ff"
| "EthernetProtocol_value ETH_IEEEPUP = 0xa00"
| "EthernetProtocol_value ETH_IEEEPUPAT = 0xa01"
| "EthernetProtocol_value ETH_BATMAN = 0x4305"
| "EthernetProtocol_value ETH_DEC = 0x6000"
| "EthernetProtocol_value ETH_DNA_DL = 0x6001"
| "EthernetProtocol_value ETH_DNA_RC = 0x6002"
| "EthernetProtocol_value ETH_DNA_RT = 0x6003"
| "EthernetProtocol_value ETH_LAT = 0x6004"
| "EthernetProtocol_value ETH_DIAG = 0x6005"
| "EthernetProtocol_value ETH_CUST = 0x6006"
| "EthernetProtocol_value ETH_SCA = 0x6007"
| "EthernetProtocol_value ETH_TEB = 0x6558"
| "EthernetProtocol_value ETH_RARP = 0x8035"
| "EthernetProtocol_value ETH_ATALK = 0x809b"
| "EthernetProtocol_value ETH_AARP = 0x80f3"
| "EthernetProtocol_value ETH_VLAN_8021Q = 0x8100"
| "EthernetProtocol_value ETH_ERSPAN = 0x88be"
| "EthernetProtocol_value ETH_IPX = 0x8137"
| "EthernetProtocol_value ETH_IPV6 = 0x86dd"
| "EthernetProtocol_value ETH_PAUSE = 0x8808"
| "EthernetProtocol_value ETH_SLOW = 0x8809"
| "EthernetProtocol_value ETH_WCCP = 0x883e"
| "EthernetProtocol_value ETH_MPLS_UC = 0x8847"
| "EthernetProtocol_value ETH_MPLS_MC = 0x8848"
| "EthernetProtocol_value ETH_ATMMPOA = 0x884c"
| "EthernetProtocol_value ETH_PPP_DISC = 0x8863"
| "EthernetProtocol_value ETH_PPP_SES = 0x8864"
| "EthernetProtocol_value ETH_LINK_CTL = 0x886c"
| "EthernetProtocol_value ETH_ATMFATE = 0x8884"
| "EthernetProtocol_value ETH_PAE = 0x888e"
| "EthernetProtocol_value ETH_PROFINET = 0x8892"
| "EthernetProtocol_value ETH_REALTEK = 0x8899"
| "EthernetProtocol_value ETH_AOE = 0x88a2"
| "EthernetProtocol_value ETH_ETHERCAT = 0x88a4"
| "EthernetProtocol_value ETH_VLAN_8021AD = 0x88a8"
| "EthernetProtocol_value ETH_EX1_802 = 0x88b5"
| "EthernetProtocol_value ETH_PREAUTH = 0x88c7"
| "EthernetProtocol_value ETH_TIPC = 0x88ca"
| "EthernetProtocol_value ETH_LLDP = 0x88cc"
| "EthernetProtocol_value ETH_MRP = 0x88e3"
| "EthernetProtocol_value ETH_MACSEC = 0x88e5"
| "EthernetProtocol_value ETH_BACK_8021AH = 0x88e7"
| "EthernetProtocol_value ETH_MVRP = 0x88f5"
| "EthernetProtocol_value ETH_TS_1588 = 0x88f7"
| "EthernetProtocol_value ETH_NCSI = 0x88f8"
| "EthernetProtocol_value ETH_PRP = 0x88fb"
| "EthernetProtocol_value ETH_CFM = 0x8902"
| "EthernetProtocol_value ETH_FCOE = 0x8906"
| "EthernetProtocol_value ETH_IBOE = 0x8915"
| "EthernetProtocol_value ETH_TDLS = 0x890d"
| "EthernetProtocol_value ETH_FIP = 0x8914"
| "EthernetProtocol_value ETH_HO_80221 = 0x8917"
| "EthernetProtocol_value ETH_HSR = 0x892f"
| "EthernetProtocol_value ETH_NSH = 0x894f"
| "EthernetProtocol_value ETH_LOOPBACK = 0x9000"
| "EthernetProtocol_value ETH_QINQ1 = 0x9100"
| "EthernetProtocol_value ETH_QINQ2 = 0x9200"
| "EthernetProtocol_value ETH_QINQ3 = 0x9300"
| "EthernetProtocol_value ETH_EDSA = 0xdada"
| "EthernetProtocol_value ETH_DSA_8021Q = 0xdadb"
| "EthernetProtocol_value ETH_IFE = 0xed3e"
| "EthernetProtocol_value ETH_IUCV = 0xfbfb"

datatype (plugins only: lifting) ARPType = ARP_NETROM | ARP_ETHER | ARP_EETHER | ARP_AX25 |
    ARP_PRONET | ARP_CHAOS | ARP_IEEE802 | ARP_ARCNET | ARP_APPLE_TALK | ARP_DLCI | ARP_ATM |
    ARP_METRICOM | ARP_IEEE1394 | ARP_EUI64 | ARP_INFINIBAND

primrec ARPType_value :: "ARPType \<Rightarrow> 16 word" where
  "ARPType_value ARP_NETROM = 0"
| "ARPType_value ARP_ETHER = 1"
| "ARPType_value ARP_EETHER = 2"
| "ARPType_value ARP_AX25 = 3"
| "ARPType_value ARP_PRONET = 4"
| "ARPType_value ARP_CHAOS = 5"
| "ARPType_value ARP_IEEE802 = 6"
| "ARPType_value ARP_ARCNET = 7"
| "ARPType_value ARP_APPLE_TALK = 8"
| "ARPType_value ARP_DLCI = 0xf"
| "ARPType_value ARP_ATM = 0x13"
| "ARPType_value ARP_METRICOM = 0x17"
| "ARPType_value ARP_IEEE1394 = 0x18"
| "ARPType_value ARP_EUI64 = 0x1b"
| "ARPType_value ARP_INFINIBAND = 0x20"

datatype PacketType = PACKET_HOST | PACKET_BROADCAST | PACKET_MULTICAST | PACKET_OTHERHOST |
    PACKET_OUTGOING

primrec PacketType_value :: "PacketType \<Rightarrow> 8 word" where
  "PacketType_value PACKET_HOST = 0"
| "PacketType_value PACKET_BROADCAST = 1"
| "PacketType_value PACKET_MULTICAST = 2"
| "PacketType_value PACKET_OTHERHOST = 3"
| "PacketType_value PACKET_OUTGOING = 4"

subsection \<open>include/net/inet/IPAddress.hxx\<close>

datatype NameInfoFlag = NI_NAME_REQUIRED | NI_DGRAM | NI_NO_FQDN | NI_NUMERIC_HOST |
    NI_NUMERIC_SERVICE | NI_IDN

primrec NameInfoFlag_value :: "NameInfoFlag \<Rightarrow> 32 word" where
  "NameInfoFlag_value NI_NAME_REQUIRED = 8"
| "NameInfoFlag_value NI_DGRAM = 0x10"
| "NameInfoFlag_value NI_NO_FQDN = 4"
| "NameInfoFlag_value NI_NUMERIC_HOST = 1"
| "NameInfoFlag_value NI_NUMERIC_SERVICE = 2"
| "NameInfoFlag_value NI_IDN = 0x20"

end
