(* ===== verification/Addresses.thy ===== *)
theory Addresses
  imports NetTypes Path
begin

text \<open>
  The socket addresses: \<^verbatim>\<open>SocketAddress\<close> (\<^verbatim>\<open>src/net/SocketAddress.cxx\<close>), \<^verbatim>\<open>IP4Address\<close> and
  \<^verbatim>\<open>IP6Address\<close> (\<^verbatim>\<open>src/net/inet/IPAddress.cxx\<close>), \<^verbatim>\<open>UnixAddress\<close>
  (\<^verbatim>\<open>src/net/unix/UnixAddress.cxx\<close>) and \<^verbatim>\<open>LinkLayerAddress\<close>
  (\<^verbatim>\<open>src/net/LinkLayerAddress.cxx\<close>).  Each wraps a structure of the C library; the bytes of the
  structure are what the kernel reads and writes through \<^verbatim>\<open>basePtr()\<close>.  The first argument
  \<open>e\<close> of the operations that depend on it is the byte order of the host.
\<close>

subsection \<open>The structures and their bytes\<close>

record sockaddr_in =
  sin_family :: "16 word"
  sin_port :: "16 word"
  sin_addr :: "32 word"
  sin_zero :: string

record sockaddr_in6 =
  sin6_family :: "16 word"
  sin6_port :: "16 word"
  sin6_flowinfo :: "32 word"
  sin6_addr :: string
  sin6_scope_id :: "32 word"

record sockaddr_un =
  sun_family :: "16 word"
  sun_path :: string

record sockaddr_ll =
  sll_family :: "16 word"
  sll_protocol :: "16 word"
  sll_ifindex :: "32 word"
  sll_hatype :: "16 word"
  sll_pkttype :: "8 word"
  sll_halen :: "8 word"
  sll_addr :: string

record UnixAddress =
  ua_addr :: sockaddr_un
  m_path_len :: "64 word"

text \<open>The classes below \<^verbatim>\<open>SocketAddress\<close>; its virtual functions are case distinctions.\<close>

datatype SocketAddress = IP4Address sockaddr_in | IP6Address sockaddr_in6 | UNIXAddress UnixAddress
  | LLAddress sockaddr_ll

definition sin_bytes :: "Endian \<Rightarrow> sockaddr_in \<Rightarrow> string" where
  "sin_bytes e a = host_str e (sin_family a) @ host_str e (sin_port a) @ host_str e (sin_addr a) @ sin_zero a"

definition sin_of_bytes :: "Endian \<Rightarrow> string \<Rightarrow> sockaddr_in" where
  "sin_of_bytes e m = \<lparr>sin_family = host_word e (peek 0 2 m), sin_port = host_word e (peek 2 2 m),
     sin_addr = host_word e (peek 4 4 m), sin_zero = peek 8 8 m\<rparr>"

definition sin6_bytes :: "Endian \<Rightarrow> sockaddr_in6 \<Rightarrow> string" where
  "sin6_bytes e a = host_str e (sin6_family a) @ host_str e (sin6_port a) @ host_str e (sin6_flowinfo a)
     @ sin6_addr a @ host_str e (sin6_scope_id a)"

definition sin6_of_bytes :: "Endian \<Rightarrow> string \<Rightarrow> sockaddr_in6" where
  "sin6_of_bytes e m = \<lparr>sin6_family = host_word e (peek 0 2 m), sin6_port = host_word e (peek 2 2 m),
     sin6_flowinfo = host_word e (peek 4 4 m), sin6_addr = peek 8 16 m,
     sin6_scope_id = host_word e (peek 24 4 m)\<rparr>"

definition sun_bytes :: "Endian \<Rightarrow> sockaddr_un \<Rightarrow> string" where
  "sun_bytes e a = host_str e (sun_family a) @ sun_path a"

definition sun_of_bytes :: "Endian \<Rightarrow> string \<Rightarrow> sockaddr_un" where
  "sun_of_bytes e m = \<lparr>sun_family = host_word e (peek 0 2 m), sun_path = peek 2 108 m\<rparr>"

definition sll_bytes :: "Endian \<Rightarrow> sockaddr_ll \<Rightarrow> string" where
  "sll_bytes e a = host_str e (sll_family a) @ host_str e (sll_protocol a) @ host_str e (sll_ifindex a)
     @ host_str e (sll_hatype a) @ host_str e (sll_pkttype a) @ host_str e (sll_halen a) @ sll_addr a"

definition sll_of_bytes :: "Endian \<Rightarrow> string \<Rightarrow> sockaddr_ll" where
  "sll_of_bytes e m = \<lparr>sll_family = host_word e (peek 0 2 m), sll_protocol = host_word e (peek 2 2 m),
     sll_ifindex = host_word e (peek 4 4 m), sll_hatype = host_word e (peek 8 2 m),
     sll_pkttype = host_word e (peek 10 1 m), sll_halen = host_word e (peek 11 1 m), sll_addr = peek 12 8 m\<rparr>"

subsection \<open>SocketAddress\<close>

definition family_field :: "SocketFamily \<Rightarrow> 16 word" where
  "family_field f = of_int (SocketFamily_value f)"

primrec address_family :: "SocketAddress \<Rightarrow> SocketFamily" where
  "address_family (IP4Address _) = AF_INET"
| "address_family (IP6Address _) = AF_INET6"
| "address_family (UNIXAddress _) = AF_UNIX"
| "address_family (LLAddress _) = AF_PACKET"

definition BASE_SIZE :: "64 word" where
  "BASE_SIZE = 2"

definition UnixAddress_size :: "UnixAddress \<Rightarrow> 64 word" where
  "UnixAddress_size a = BASE_SIZE + m_path_len a + 1"

primrec address_size :: "SocketAddress \<Rightarrow> 64 word" where
  "address_size (IP4Address _) = 16"
| "address_size (IP6Address _) = 28"
| "address_size (UNIXAddress a) = UnixAddress_size a"
| "address_size (LLAddress _) = 20"

primrec address_maxSize :: "SocketAddress \<Rightarrow> 64 word" where
  "address_maxSize (IP4Address _) = 16"
| "address_maxSize (IP6Address _) = 28"
| "address_maxSize (UNIXAddress _) = 110"
| "address_maxSize (LLAddress _) = 20"

primrec basePtr :: "Endian \<Rightarrow> SocketAddress \<Rightarrow> string" where
  "basePtr e (IP4Address a) = sin_bytes e a"
| "basePtr e (IP6Address a) = sin6_bytes e a"
| "basePtr e (UNIXAddress u) = sun_bytes e (ua_addr u)"
| "basePtr e (LLAddress a) = sll_bytes e a"

text \<open>What the kernel writes through \<^verbatim>\<open>basePtr()\<close>; it never writes more than the structure holds.\<close>

primrec fill :: "Endian \<Rightarrow> string \<Rightarrow> SocketAddress \<Rightarrow> SocketAddress" where
  "fill e bs (IP4Address a) = IP4Address (sin_of_bytes e (poke 0 (take 16 bs) (sin_bytes e a)))"
| "fill e bs (IP6Address a) = IP6Address (sin6_of_bytes e (poke 0 (take 28 bs) (sin6_bytes e a)))"
| "fill e bs (UNIXAddress u) =
     UNIXAddress (u\<lparr>ua_addr := sun_of_bytes e (poke 0 (take 110 bs) (sun_bytes e (ua_addr u)))\<rparr>)"
| "fill e bs (LLAddress a) = LLAddress (sll_of_bytes e (poke 0 (take 20 bs) (sll_bytes e a)))"

text \<open>\<^verbatim>\<open>base->sa_family\<close>, the first field of every structure.\<close>

primrec sa_family :: "SocketAddress \<Rightarrow> 16 word" where
  "sa_family (IP4Address a) = sin_family a"
| "sa_family (IP6Address a) = sin6_family a"
| "sa_family (UNIXAddress u) = sun_family (ua_addr u)"
| "sa_family (LLAddress a) = sll_family a"

primrec set_sa_family :: "16 word \<Rightarrow> SocketAddress \<Rightarrow> SocketAddress" where
  "set_sa_family f (IP4Address a) = IP4Address (a\<lparr>sin_family := f\<rparr>)"
| "set_sa_family f (IP6Address a) = IP6Address (a\<lparr>sin6_family := f\<rparr>)"
| "set_sa_family f (UNIXAddress u) = UNIXAddress (u\<lparr>ua_addr := (ua_addr u)\<lparr>sun_family := f\<rparr>\<rparr>)"
| "set_sa_family f (LLAddress a) = LLAddress (a\<lparr>sll_family := f\<rparr>)"

definition address_clear :: "Endian \<Rightarrow> SocketAddress \<Rightarrow> SocketAddress" where
  "address_clear e a = set_sa_family (family_field (address_family a))
     (fill e (replicate (unat (address_maxSize a)) NUL) a)"

definition UnixAddress_update :: "64 word \<Rightarrow> (UnixAddress \<times> 'w, unit) act" where
  "UnixAddress_update new_length =
     (if new_length < BASE_SIZE
      then andthen (set_this (\<lambda>a. a\<lparr>ua_addr := (ua_addr a)\<lparr>sun_family := family_field AF_UNIX\<rparr>, m_path_len := 0\<rparr>))
        (throw (RuntimeError ''short address on update''))
      else set_this (\<lambda>a. a\<lparr>m_path_len := new_length - BASE_SIZE - 1\<rparr>))"

definition SocketAddress_update :: "64 word \<Rightarrow> (SocketAddress \<times> 'w, unit) act" where
  "SocketAddress_update new_length = bind (this address_size) (\<lambda>n.
     if new_length \<noteq> n then throw (RuntimeError ''inconsistent socket address size on return'') else ret ())"

text \<open>The virtual function: \<^verbatim>\<open>UnixAddress\<close> overrides it.\<close>

definition address_update :: "64 word \<Rightarrow> (SocketAddress \<times> 'w, unit) act" where
  "address_update new_length = bind (this (\<lambda>a. a)) (\<lambda>a. case a of
      UNIXAddress u \<Rightarrow> zoom (\<lambda>_. u) (\<lambda>u' _. UNIXAddress u') (UnixAddress_update new_length)
    | _ \<Rightarrow> SocketAddress_update new_length)"

subsection \<open>UnixAddress\<close>

definition UnixAddress_create :: "sockaddr_un \<Rightarrow> UnixAddress" where
  "UnixAddress_create raw =
     \<lparr>ua_addr = raw\<lparr>sun_family := family_field AF_UNIX, sun_path := poke 0 [NUL] (sun_path raw)\<rparr>, m_path_len = 0\<rparr>"

definition maxPathLen :: "64 word" where
  "maxPathLen = 110 - BASE_SIZE - 1"

definition setPath :: "string \<Rightarrow> bool \<Rightarrow> (UnixAddress \<times> 'w, unit) act" where
  "setPath path abstract =
     (if unat maxPathLen < length path then throw (RuntimeError ''UNIX address path too long'')
      else set_this (\<lambda>a. let
          buf = sun_path (ua_addr a);
          buf = (if abstract then poke 0 [NUL] buf else buf);
          ptr = (if abstract then 1 else 0);
          buf = poke ptr path buf;
          buf = (if \<not> abstract then poke (ptr + length path) [NUL] buf else buf)
        in a\<lparr>ua_addr := (ua_addr a)\<lparr>sun_path := buf\<rparr>, m_path_len := of_nat (length path)\<rparr>))"

definition isAbstract :: "UnixAddress \<Rightarrow> bool" where
  "isAbstract a \<longleftrightarrow> 1 < m_path_len a \<and> sun_path (ua_addr a) ! 0 = NUL"

definition isUnnamed :: "UnixAddress \<Rightarrow> bool" where
  "isUnnamed a \<longleftrightarrow> m_path_len a = 0"

text \<open>The characters the view shows; \<open>None\<close> when it reaches beyond the end of the structure.\<close>

definition getPath :: "UnixAddress \<Rightarrow> string option" where
  "getPath a = (let start = (if isAbstract a then 1 else 0); n = unat (m_path_len a) in
     if start + n \<le> length (sun_path (ua_addr a)) then Some (peek start n (sun_path (ua_addr a))) else None)"

definition UnixAddress_of_raw :: "sockaddr_un \<Rightarrow> 64 word \<Rightarrow> UnixAddress" where
  "UnixAddress_of_raw raw len =
     (if BASE_SIZE \<le> len then let a = \<lparr>ua_addr = raw, m_path_len = len - BASE_SIZE\<rparr> in
        (if isAbstract a then a\<lparr>m_path_len := m_path_len a - 1\<rparr> else a)
      else \<lparr>ua_addr = raw, m_path_len = 0\<rparr>)"

text \<open>\<^verbatim>\<open>back()\<close> of an empty string is undefined behaviour: \<open>None\<close>.\<close>

fun pop_nulls :: "string \<Rightarrow> string option" where
  "pop_nulls s = (if s = [] then None else if last s = NUL then pop_nulls (butlast s) else Some s)"

declare pop_nulls.simps [simp del]

definition label :: "(char \<Rightarrow> bool) \<Rightarrow> UnixAddress \<Rightarrow> string option" where
  "label isprint a =
     (if isUnnamed a then Some ''<unnamed>''
      else case getPath a of None \<Rightarrow> None
        | Some p \<Rightarrow> map_option (map (\<lambda>c. if \<not> isprint c then CHR ''?'' else c))
            (pop_nulls (if isAbstract a then ''@'' @ p else p)))"

text \<open>\<^verbatim>\<open>memcmp()\<close> of more bytes than the structure holds is undefined behaviour: \<open>None\<close>.\<close>

definition UnixAddress_eq :: "UnixAddress \<Rightarrow> UnixAddress \<Rightarrow> bool option" where
  "UnixAddress_eq a b =
     (if m_path_len a \<noteq> m_path_len b then Some False
      else if sun_family (ua_addr a) \<noteq> sun_family (ua_addr b) then Some False
      else let n = unat (m_path_len a + 1) in
        if n \<le> length (sun_path (ua_addr a)) then Some (take n (sun_path (ua_addr a)) = take n (sun_path (ua_addr b)))
        else None)"

subsection \<open>IP addresses\<close>

definition isV4 :: "SocketAddress \<Rightarrow> bool" where
  "isV4 a \<longleftrightarrow> address_family a = AF_INET"

definition isV6 :: "SocketAddress \<Rightarrow> bool" where
  "isV6 a \<longleftrightarrow> address_family a = AF_INET6"

definition IP4Address_setFamily :: "sockaddr_in \<Rightarrow> sockaddr_in" where
  "IP4Address_setFamily a = a\<lparr>sin_family := family_field AF_INET\<rparr>"

definition IP4Address_port :: "sockaddr_in \<Rightarrow> IPPort" where
  "IP4Address_port a = EndianNumber_of_raw (sin_port a)"

definition IP4Address_setPort :: "IPPort \<Rightarrow> sockaddr_in \<Rightarrow> sockaddr_in" where
  "IP4Address_setPort port a = a\<lparr>sin_port := EndianNumber_raw port\<rparr>"

definition IP4Address_addr :: "sockaddr_in \<Rightarrow> IP4RawAddress" where
  "IP4Address_addr a = EndianNumber_of_raw (sin_addr a)"

definition IP4Address_setAddr :: "IP4RawAddress \<Rightarrow> sockaddr_in \<Rightarrow> sockaddr_in" where
  "IP4Address_setAddr addr a = a\<lparr>sin_addr := EndianNumber_raw addr\<rparr>"

text \<open>The constructor with an address writes three fields of the memory \<open>raw\<close> of the object.\<close>

definition IP4Address_create :: "sockaddr_in \<Rightarrow> IP4RawAddress \<Rightarrow> IPPort \<Rightarrow> sockaddr_in" where
  "IP4Address_create raw addr port =
     IP4Address_setPort port (IP4Address_setAddr addr (IP4Address_setFamily raw))"

definition IP4Address_eq :: "sockaddr_in \<Rightarrow> sockaddr_in \<Rightarrow> bool" where
  "IP4Address_eq a b \<longleftrightarrow> IP4Address_addr a = IP4Address_addr b \<and> IP4Address_port a = IP4Address_port b"

definition sin6_zero :: sockaddr_in6 where
  "sin6_zero = \<lparr>sin6_family = family_field AF_INET6, sin6_port = 0, sin6_flowinfo = 0,
     sin6_addr = replicate 16 NUL, sin6_scope_id = 0\<rparr>"

definition IP6Address_port :: "sockaddr_in6 \<Rightarrow> IPPort" where
  "IP6Address_port a = EndianNumber_of_raw (sin6_port a)"

definition IP6Address_setPort :: "IPPort \<Rightarrow> sockaddr_in6 \<Rightarrow> sockaddr_in6" where
  "IP6Address_setPort port a = a\<lparr>sin6_port := EndianNumber_raw port\<rparr>"

definition IP6Address_addr :: "sockaddr_in6 \<Rightarrow> IP6RawAddress" where
  "IP6Address_addr a = peek 0 16 (sin6_addr a)"

definition IP6Address_setAddr :: "IP6RawAddress \<Rightarrow> sockaddr_in6 \<Rightarrow> sockaddr_in6" where
  "IP6Address_setAddr addr a = a\<lparr>sin6_addr := poke 0 addr (sin6_addr a)\<rparr>"

definition IP6Address_create :: "IP6RawAddress \<Rightarrow> IPPort \<Rightarrow> sockaddr_in6" where
  "IP6Address_create addr port = IP6Address_setPort port (IP6Address_setAddr addr sin6_zero)"

text \<open>The scope is unsigned in the structure and signed as an \<^verbatim>\<open>InterfaceIndex\<close>.\<close>

definition getScopeID :: "sockaddr_in6 \<Rightarrow> 32 word" where
  "getScopeID a = sin6_scope_id a"

definition setScopeID :: "32 word \<Rightarrow> sockaddr_in6 \<Rightarrow> sockaddr_in6" where
  "setScopeID index a = a\<lparr>sin6_scope_id := index\<rparr>"

definition getFlowInfo :: "sockaddr_in6 \<Rightarrow> 32 word" where
  "getFlowInfo a = sin6_flowinfo a"

definition setFlowInfo :: "32 word \<Rightarrow> sockaddr_in6 \<Rightarrow> sockaddr_in6" where
  "setFlowInfo flowinfo a = a\<lparr>sin6_flowinfo := flowinfo\<rparr>"

definition IP6Address_eq :: "sockaddr_in6 \<Rightarrow> sockaddr_in6 \<Rightarrow> bool" where
  "IP6Address_eq a b \<longleftrightarrow> sin6_addr a = sin6_addr b \<and> IP6Address_port a = IP6Address_port b"

text \<open>
  The address bytes \<^verbatim>\<open>ipAddrPtr()\<close> points to: those of the \<^verbatim>\<open>in_addr\<close> of an IPv4 address, and
  for every other family the 16 bytes at the offset of an \<^verbatim>\<open>in6_addr\<close>.
\<close>

definition ipAddrPtr :: "Endian \<Rightarrow> SocketAddress \<Rightarrow> string" where
  "ipAddrPtr e a = (if isV4 a then peek 4 4 (basePtr e a) else peek 8 16 (basePtr e a))"

definition store_ip :: "Endian \<Rightarrow> string \<Rightarrow> SocketAddress \<Rightarrow> SocketAddress" where
  "store_ip e bs a = (let off = (if isV4 a then 4 else 8) in fill e (poke off bs (basePtr e a)) a)"

text \<open>
  The loop of \<^verbatim>\<open>ipAsString()\<close>: the buffer is doubled until the text fits.  The measure is the
  room up to the limit of the code, so that the loop ends whatever the C library answers.
\<close>

definition inet_ntop_round :: "Endian \<Rightarrow> SocketAddress \<Rightarrow> (string \<times> world, string option) act" where
  "inet_ntop_round e a = bind (this length) (\<lambda>n.
     bind (on_world (call ''inet_ntop'' [I (SocketFamily_value (address_family a)), S (ipAddrPtr e a), I (int n)])) (\<lambda>ans.
       if rv ans = 0 then
         (if 512 < n then on_world (throw_ApiError ''inet_ntop()'')
          else andthen (set_this (\<lambda>r. resize (length r * 2) r)) (ret None))
       else andthen (set_this (\<lambda>r. store r (out ans))) (bind (this c_str) (\<lambda>s. ret (Some s)))))"

definition ipAsString :: "Endian \<Rightarrow> SocketAddress \<Rightarrow> (world, string) act" where
  "ipAsString e a = bind (with_local (resize 64 [])
     (loop (\<lambda>(buf, w). 1024 - length buf) (inet_ntop_round e a))) (\<lambda>(s, _). ret s)"

definition setIpFromString :: "Endian \<Rightarrow> string \<Rightarrow> (SocketAddress \<times> world, unit) act" where
  "setIpFromString e str = bind (this address_family) (\<lambda>f.
     bind (on_world (call ''inet_pton'' [I (SocketFamily_value f), S str])) (\<lambda>ans.
       if rv ans < 0 then on_world (throw_ApiError ''inet_pton()'')
       else if rv ans = 0 then throw (RuntimeError ''inet_pton: bad IP address string'')
       else set_this (store_ip e (out ans))))"

definition throw_ResolveError :: "int \<Rightarrow> (world, 'a) act" where
  "throw_ResolveError code = bind get_errno (\<lambda>en.
     throw (ResolveError code (if code = -11 then en else errno_of Errno_NO_ERROR)))"

text \<open>
  \<^verbatim>\<open>getNameInfo()\<close> with the buffers that are asked for.  The answer holds the contents of the
  buffer of the host followed by that of the service.
\<close>

definition getNameInfo :: "Endian \<Rightarrow> SocketAddress \<Rightarrow> bool \<Rightarrow> bool \<Rightarrow> 32 mask \<Rightarrow> (world, string \<times> string) act" where
  "getNameInfo e a host service flags =
     (let h = (if host then MAX_HOSTNAME else 0); s = (if service then MAX_SERVICE else 0) in
      bind (call ''getnameinfo'' [S (basePtr e a), I (uint (address_size a)), I (int h), I (int s), I (sint (BitMask_raw flags))])
        (\<lambda>ans. if rv ans \<noteq> 0 then throw_ResolveError (rv ans)
          else let bufs = store (resize (h + s) []) (out ans) in ret (c_str (take h bufs), c_str (drop h bufs))))"

definition getHostInfo :: "Endian \<Rightarrow> SocketAddress \<Rightarrow> 32 mask \<Rightarrow> (world, string) act" where
  "getHostInfo e a flags = bind (getNameInfo e a True False flags) (\<lambda>(h, _). ret h)"

definition getServiceInfo :: "Endian \<Rightarrow> SocketAddress \<Rightarrow> 32 mask \<Rightarrow> (world, string) act" where
  "getServiceInfo e a flags = bind (getNameInfo e a False True flags) (\<lambda>(_, s). ret s)"

subsection \<open>LinkLayerAddress\<close>

definition LL_protocol :: "Endian \<Rightarrow> sockaddr_ll \<Rightarrow> 16 word" where
  "LL_protocol e a = to_host_order e (sll_protocol a)"

definition LL_setProtocol :: "Endian \<Rightarrow> 16 word \<Rightarrow> sockaddr_ll \<Rightarrow> sockaddr_ll" where
  "LL_setProtocol e prot a = a\<lparr>sll_protocol := to_network_order e prot\<rparr>"

definition LL_ifindex :: "sockaddr_ll \<Rightarrow> 32 word" where
  "LL_ifindex a = sll_ifindex a"

definition LL_setIfindex :: "32 word \<Rightarrow> sockaddr_ll \<Rightarrow> sockaddr_ll" where
  "LL_setIfindex index a = a\<lparr>sll_ifindex := index\<rparr>"

definition LL_arpType :: "Endian \<Rightarrow> sockaddr_ll \<Rightarrow> 16 word" where
  "LL_arpType e a = to_host_order e (sll_hatype a)"

definition LL_packetType :: "sockaddr_ll \<Rightarrow> 8 word" where
  "LL_packetType a = sll_pkttype a"

definition LL_macAddress :: "sockaddr_ll \<Rightarrow> exn + MACAddress" where
  "LL_macAddress a = (if sll_halen a \<noteq> 6 then Inl (RuntimeError ''LinkLayerAddress does not contain a MAC address'')
     else Inr (peek 0 6 (sll_addr a)))"

definition LL_setMacAddress :: "MACAddress \<Rightarrow> sockaddr_ll \<Rightarrow> sockaddr_ll" where
  "LL_setMacAddress mac a = a\<lparr>sll_halen := of_nat (length mac), sll_addr := poke 0 mac (sll_addr a)\<rparr>"

subsection \<open>The layout is kept\<close>

text \<open>The arrays of the structures have their C sizes.\<close>

primrec address_layout :: "SocketAddress \<Rightarrow> bool" where
  "address_layout (IP4Address a) \<longleftrightarrow> length (sin_zero a) = 8"
| "address_layout (IP6Address a) \<longleftrightarrow> length (sin6_addr a) = 16"
| "address_layout (UNIXAddress u) \<longleftrightarrow> length (sun_path (ua_addr u)) = 108"
| "address_layout (LLAddress a) \<longleftrightarrow> length (sll_addr a) = 8"

named_theorems layout_defs "the structures and their bytes"

lemmas [layout_defs] = sin_bytes_def sin6_bytes_def sun_bytes_def sll_bytes_def
  sin_of_bytes_def sin6_of_bytes_def sun_of_bytes_def sll_of_bytes_def

lemma length_basePtr: "address_layout a \<Longrightarrow> length (basePtr e a) = unat (address_maxSize a)"
  by (cases a) (simp_all add: layout_defs)

lemma layout_fill [simp]: "address_layout a \<Longrightarrow> address_layout (fill e bs a)"
  by (cases a) (simp_all add: layout_defs)

lemma layout_set_sa_family [simp]: "address_layout (set_sa_family f a) = address_layout a"
  by (cases a) simp_all

lemma address_family_fill [simp]: "address_family (fill e bs a) = address_family a"
  by (cases a) simp_all

lemma setPath_Ret:
  assumes "length path \<le> 107"
  shows "setPath path abstract (u, w) = (Ret (), (u\<lparr>ua_addr := (ua_addr u)\<lparr>sun_path :=
      (if abstract then poke 1 path (poke 0 [NUL] (sun_path (ua_addr u)))
       else poke (length path) [NUL] (poke 0 path (sun_path (ua_addr u))))\<rparr>, m_path_len := of_nat (length path)\<rparr>, w))"
proof -
  have "unat maxPathLen = 107" by (simp add: maxPathLen_def BASE_SIZE_def)
  with assms show ?thesis by (simp add: setPath_def act_defs Let_def)
qed

lemma setPath_Throw:
  "107 < length path \<Longrightarrow> setPath path abstract (u, w) = (Throw (RuntimeError ''UNIX address path too long''), (u, w))"
  by (simp add: setPath_def act_defs maxPathLen_def BASE_SIZE_def)

subsection \<open>Paths of UNIX addresses\<close>

text \<open>What the kernel is told of an address: the first \<^verbatim>\<open>size()\<close> bytes.\<close>

definition sent_bytes :: "Endian \<Rightarrow> SocketAddress \<Rightarrow> string" where
  "sent_bytes e a = take (unat (address_size a)) (basePtr e a)"

lemma unat_path_len: "length path \<le> 107 \<Longrightarrow> unat (of_nat (length path) :: 64 word) = length path"
  by (simp add: unat_of_nat)

lemma unat_unix_size:
  "m_path_len u = of_nat n \<Longrightarrow> n \<le> 107 \<Longrightarrow> unat (UnixAddress_size u) = n + 3"
  by (simp add: UnixAddress_size_def BASE_SIZE_def unat_word_ariths unat_of_nat)

lemma less_path_len: "length path \<le> 107 \<Longrightarrow> (1 < (of_nat (length path) :: 64 word)) = (1 < length path)"
  by (simp add: word_less_nat_alt unat_of_nat)

lemma take_poke: "off + length s \<le> length m \<Longrightarrow> take (off + length s) (poke off s m) = take off m @ s"
  by (simp add: poke_def)

text \<open>The start of the path array after \<^verbatim>\<open>setPath()\<close>.\<close>

lemma poke_start:
  assumes "length m = 108" "length path \<le> 107"
  shows "take (length path + 1) (if abstract then poke 1 path (poke 0 [NUL] m) else poke (length path) [NUL] (poke 0 path m)) =
    (if abstract then NUL # path else path @ [NUL])"
  using assms take_poke[of 1 path "poke 0 [NUL] m"] take_poke[of "length path" "[NUL]" "poke 0 path m"]
  by (auto simp: poke_def)

lemma peek_start: "take n m = xs \<Longrightarrow> start + k \<le> n \<Longrightarrow> peek start k m = take k (drop start xs)"
  by (auto simp: peek_def take_drop min_def)

text \<open>An address that begins with the bytes \<^verbatim>\<open>setPath()\<close> stores is read back by \<^verbatim>\<open>getPath()\<close>.\<close>

lemma getPath_stored:
  assumes "length (sun_path (ua_addr u)) = 108" "length path \<le> 107" "m_path_len u = of_nat (length path)"
    and st: "take (length path + 1) (sun_path (ua_addr u)) = (if abstract then NUL # path else path @ [NUL])"
  shows "isAbstract u \<longleftrightarrow> 1 < length path \<and> (abstract \<or> path ! 0 = NUL)"
    "getPath u = Some (if abstract then (if length path = 1 then [NUL] else path)
       else if 1 < length path \<and> path ! 0 = NUL then drop 1 path @ [NUL] else path)"
proof -
  have "sun_path (ua_addr u) ! 0 = take (length path + 1) (sun_path (ua_addr u)) ! 0" by simp
  also have "\<dots> = (if abstract then NUL else (path @ [NUL]) ! 0)" using st by simp
  finally show ab: "isAbstract u \<longleftrightarrow> 1 < length path \<and> (abstract \<or> path ! 0 = NUL)"
    using assms(2,3) by (auto simp: isAbstract_def less_path_len nth_append)
  have "peek start (length path) (sun_path (ua_addr u)) =
      take (length path) (drop start (if abstract then NUL # path else path @ [NUL]))" if "start \<le> 1" for start
    using peek_start[OF st, of start "length path"] that by simp
  note pk = this
  have "unat (m_path_len u) = length path" using assms(2,3) by (simp add: unat_path_len)
  with assms(1,2) have "getPath u = Some (take (length path) (drop (if isAbstract u then 1 else 0)
      (if abstract then NUL # path else path @ [NUL])))"
    using pk[of "if isAbstract u then 1 else 0"] by (auto simp: getPath_def Let_def)
  with ab show "getPath u = Some (if abstract then (if length path = 1 then [NUL] else path)
       else if 1 < length path \<and> path ! 0 = NUL then drop 1 path @ [NUL] else path)"
    by (cases path; cases "tl path") auto
qed

lemma sent_unix:
  assumes "length (sun_path (ua_addr u)) = 108" "m_path_len u = of_nat n" "n \<le> 107"
  shows "sent_bytes e (UNIXAddress u) = host_str e (sun_family (ua_addr u)) @ take (n + 1) (sun_path (ua_addr u))"
proof -
  have "unat (UnixAddress_size u) = n + 3" using assms(2,3) by (rule unat_unix_size)
  then show ?thesis by (simp add: sent_bytes_def sun_bytes_def)
qed

text \<open>The kernel storing an address of \<open>n + 3\<close> bytes in another object.\<close>

lemma fill_unix:
  assumes "length (sun_path (ua_addr v)) = 108" "length p = n + 1" "n \<le> 107"
  shows "fill e (host_str e (f :: 16 word) @ p) (UNIXAddress v) =
    UNIXAddress (v\<lparr>ua_addr := \<lparr>sun_family = f, sun_path = p @ drop (n + 1) (sun_path (ua_addr v))\<rparr>\<rparr>)"
  using assms by (simp add: sun_bytes_def sun_of_bytes_def poke_def peek_def)

lemma update_unix:
  assumes "n \<le> 107"
  shows "address_update (of_nat (n + 3)) (UNIXAddress v, w) = (Ret (), (UNIXAddress (v\<lparr>m_path_len := of_nat n\<rparr>), w))"
proof -
  have "\<not> (of_nat (n + 3) :: 64 word) < 2" "(of_nat (n + 3) :: 64 word) - 2 - 1 = of_nat n"
    using assms by (simp_all add: word_less_nat_alt unat_word_ariths unat_of_nat)
  then show ?thesis by (simp add: address_update_def UnixAddress_update_def BASE_SIZE_def act_defs)
qed

text \<open>
  C12: Setting a path of at most 107 characters succeeds, a longer one is refused and
  changes nothing.  The kernel is then told the family, the path, and the null byte in front of
  an abstract label or behind a file system path, three bytes more than the path is long.
  \<^verbatim>\<open>getPath()\<close> gives the path back, except for an abstract label of one character, which
  is shown as a null byte and has no label, and for a file system path that begins with a null
  byte.  When the kernel stores these bytes into another address, the two are equal and the
  path is the same.
\<close>

theorem unix_path_roundtrip:
  assumes u: "address_layout (UNIXAddress u)" and v: "address_layout (UNIXAddress v)"
    and set: "setPath path abstract (u, w) = (r, (u', w'))"
  shows "(107 < length path \<longrightarrow> r = Throw (RuntimeError ''UNIX address path too long'') \<and> u' = u) \<and>
     (length path \<le> 107 \<longrightarrow> r = Ret () \<and>
        sent_bytes e (UNIXAddress u') =
          host_str e (sun_family (ua_addr u)) @ (if abstract then NUL # path else path @ [NUL]) \<and>
        getPath u' = Some (if abstract then (if length path = 1 then [NUL] else path)
          else if 1 < length path \<and> path ! 0 = NUL then drop 1 path @ [NUL] else path) \<and>
        (\<exists>v'. address_update (UnixAddress_size u') (fill e (sent_bytes e (UNIXAddress u')) (UNIXAddress v), w) =
             (Ret (), (UNIXAddress v', w)) \<and> UnixAddress_eq v' u' = Some True \<and> getPath v' = getPath u'))"
proof (cases "length path \<le> 107")
  case False
  with set show ?thesis by (simp add: setPath_Throw)
next
  case True
  define p where "p = (if abstract then NUL # path else path @ [NUL])"
  let ?n = "length path"
  from set True have r: "r = Ret ()" "length (sun_path (ua_addr u')) = 108" "m_path_len u' = of_nat ?n"
    "sun_family (ua_addr u') = sun_family (ua_addr u)" "take (?n + 1) (sun_path (ua_addr u')) = p"
    using u poke_start[of "sun_path (ua_addr u)" path abstract] by (auto simp: setPath_Ret p_def)
  have lp: "length p = ?n + 1" by (simp add: p_def)
  have sent: "sent_bytes e (UNIXAddress u') = host_str e (sun_family (ua_addr u)) @ p"
    using sent_unix[OF r(2,3) True] r(4,5) by simp
  define v' where "v' = \<lparr>ua_addr = \<lparr>sun_family = sun_family (ua_addr u), sun_path = p @ drop (?n + 1) (sun_path (ua_addr v))\<rparr>,
      m_path_len = of_nat ?n\<rparr>"
  have size: "UnixAddress_size u' = of_nat (?n + 3)" using r(3) by (simp add: UnixAddress_size_def BASE_SIZE_def)
  have upd: "address_update (UnixAddress_size u') (fill e (sent_bytes e (UNIXAddress u')) (UNIXAddress v), w) =
      (Ret (), (UNIXAddress v', w))"
    using v lp fill_unix[of v p ?n] True
    by (simp add: sent size v'_def update_unix[OF True] del: of_nat_add of_nat_numeral fill.simps)
  have v': "length (sun_path (ua_addr v')) = 108" "m_path_len v' = of_nat ?n" "take (?n + 1) (sun_path (ua_addr v')) = p"
    using v lp True by (simp_all add: v'_def)
  have "unat (of_nat ?n + 1 :: 64 word) = ?n + 1" using True by (simp add: unat_word_ariths unat_of_nat)
  then have "UnixAddress_eq v' u' = Some True"
    using r v' True by (simp add: UnixAddress_eq_def v'_def Let_def del: of_nat_Suc)
  moreover have "getPath v' = getPath u'"
    using getPath_stored(2)[OF r(2) True r(3)] getPath_stored(2)[OF v'(1) True v'(2)] r(5) v'(3) by (simp add: p_def)
  ultimately show ?thesis
    using True r(1) sent upd getPath_stored(2)[OF r(2) True r(3)] r(5) by (auto simp: p_def)
qed

theorem unix_path_roundtrip_witness:
  "\<exists>u'. setPath ''bus'' True (UnixAddress_create \<lparr>sun_family = 0, sun_path = replicate 108 CHR ''#''\<rparr>, ()) = (Ret (), (u', ())) \<and>
     getPath u' = Some ''bus''"
proof -
  let ?u = "UnixAddress_create \<lparr>sun_family = 0, sun_path = replicate 108 CHR ''#''\<rparr>"
  obtain r u' where s: "setPath ''bus'' True (?u, ()) = (r, (u', ()))"
    by (cases "setPath ''bus'' True (?u, ())") auto
  have "address_layout (UNIXAddress ?u)" by (simp add: UnixAddress_create_def)
  from unix_path_roundtrip[OF this this s] s show ?thesis by auto
qed

text \<open>
  C25: An abstract label of one character has no readable label: popping the null bytes empties
  the string.  An unnamed peer, for which the kernel stores two bytes, leaves an address that
  claims a path of 2^64 - 1 characters: it is not unnamed and its path reaches beyond the
  structure, while a short address is refused and leaves it unnamed.
\<close>

theorem unnamed_and_short_addresses:
  assumes "address_layout (UNIXAddress u)"
  shows "(\<exists>u'. setPath [c] True (u, w) = (Ret (), (u', w)) \<and> \<not> isAbstract u' \<and> label isprint u' = None) \<and>
    (\<exists>u'. address_update 2 (fill e (host_str e (family_field AF_UNIX)) (UNIXAddress u), w) =
        (Ret (), (UNIXAddress u', w)) \<and> unat (m_path_len u') = 2 ^ 64 - 1 \<and> \<not> isUnnamed u' \<and> getPath u' = None \<and>
        label isprint u' = None \<and> UnixAddress_size u' = 2) \<and>
    (n < 2 \<longrightarrow> (\<exists>u'. address_update n (UNIXAddress u, w) =
        (Throw (RuntimeError ''short address on update''), (UNIXAddress u', w)) \<and> isUnnamed u' \<and>
        label isprint u' = Some ''<unnamed>''))"
proof -
  define a where "a = snd (setPath [c] True (u, w))"
  have a: "setPath [c] True (u, w) = (Ret (), (fst a, w))" "length (sun_path (ua_addr (fst a))) = 108"
    "m_path_len (fst a) = of_nat (length [c])"
    "take (length [c] + 1) (sun_path (ua_addr (fst a))) = (if True then NUL # [c] else [c] @ [NUL])"
    using assms poke_start[of "sun_path (ua_addr u)" "[c]" True] by (simp_all add: a_def setPath_Ret)
  note p = getPath_stored[OF a(2) _ a(3,4)]
  have "label isprint (fst a) = None"
    using p a(3) by (simp add: label_def isUnnamed_def pop_nulls.simps)
  moreover have "\<not> isAbstract (fst a)" using p by simp
  moreover define b where "b = u\<lparr>ua_addr := sun_of_bytes e (poke 0 (host_str e (family_field AF_UNIX)) (sun_bytes e (ua_addr u))),
      m_path_len := - 1\<rparr>"
  have b: "length (sun_path (ua_addr b)) = 108" "m_path_len b = - 1"
    using assms by (simp_all add: b_def layout_defs)
  have "address_update 2 (fill e (host_str e (family_field AF_UNIX)) (UNIXAddress u), w) = (Ret (), (UNIXAddress b, w))"
    by (simp add: address_update_def UnixAddress_update_def BASE_SIZE_def act_defs b_def)
  moreover have "unat (m_path_len b) = 2 ^ 64 - 1" "\<not> isUnnamed b" "UnixAddress_size b = 2"
    using b by (simp_all add: isUnnamed_def UnixAddress_size_def BASE_SIZE_def unsigned_minus_1_eq_mask mask_eq_exp_minus_1)
  moreover from this b have "getPath b = None" by (auto simp: getPath_def Let_def)
  moreover from this \<open>\<not> isUnnamed b\<close> have "label isprint b = None" by (simp add: label_def)
  moreover have "n < 2 \<longrightarrow> (\<exists>u'. address_update n (UNIXAddress u, w) =
        (Throw (RuntimeError ''short address on update''), (UNIXAddress u', w)) \<and> isUnnamed u' \<and>
        label isprint u' = Some ''<unnamed>'')"
    by (simp add: address_update_def UnixAddress_update_def BASE_SIZE_def act_defs isUnnamed_def label_def)
  ultimately show ?thesis using a(1) by blast
qed

theorem unnamed_and_short_addresses_witness:
  "\<exists>u'. setPath ''x'' True (UnixAddress_create \<lparr>sun_family = 0, sun_path = replicate 108 CHR ''#''\<rparr>, ()) = (Ret (), (u', ())) \<and>
     label (\<lambda>c. True) u' = None"
proof -
  let ?u = "UnixAddress_create \<lparr>sun_family = 0, sun_path = replicate 108 CHR ''#''\<rparr>"
  have "address_layout (UNIXAddress ?u)" by (simp add: UnixAddress_create_def)
  from unnamed_and_short_addresses[OF this, of "CHR ''x''" "()" "\<lambda>c. True"] show ?thesis by blast
qed

subsection \<open>Numbers in IP and link layer addresses\<close>

lemma net_layout:
  "8 dvd LENGTH('w) \<Longrightarrow> host_str e (EndianNumber_raw (EndianNumber_of e BIG (x :: 'w::len word))) = str_of_bytes (rev (bytes x))"
  by (cases e) (simp_all add: host_str_def memory_def EndianNumber_raw_def EndianNumber_of_def toTargetEndianness_def bytes_swap)

lemma raw_of_raw [simp]: "EndianNumber_raw (EndianNumber_of_raw x) = x" "EndianNumber_of_raw (EndianNumber_raw n) = n"
  by (simp_all add: EndianNumber_raw_def EndianNumber_of_raw_def)

lemma of_raw_inject [simp]: "EndianNumber_of_raw x = EndianNumber_of_raw y \<longleftrightarrow> x = y"
  by (simp add: EndianNumber_of_raw_def)

lemmas ip_field_defs = IP4Address_create_def IP4Address_setPort_def IP4Address_setAddr_def
  IP4Address_setFamily_def IP4Address_port_def IP4Address_addr_def IP4Address_eq_def
  IP6Address_create_def IP6Address_setPort_def IP6Address_setAddr_def IP6Address_port_def
  IP6Address_addr_def IP6Address_eq_def sin6_zero_def getScopeID_def setScopeID_def getFlowInfo_def
  setFlowInfo_def

text \<open>
  In the memory of an address made from host numbers the port and the IPv4 address stand in
  network byte order behind the family, on hosts of both byte orders, and the address bytes are
  where \<^verbatim>\<open>ipAddrPtr()\<close> points.  The getters return what was set, the scope and the flow
  information leave address and port alone, and addresses are equal exactly when their
  address and port are, whatever their scope.
\<close>

theorem ip_address_layout:
  assumes "length bs = 16" "length (sin_zero raw) = 8"
  shows "let a4 = IP4Address_create raw (EndianNumber_of e BIG ip) (EndianNumber_of e BIG port);
       a6 = setScopeID scope (setFlowInfo flow (IP6Address_create bs (EndianNumber_of e BIG port))) in
     basePtr e (IP4Address a4) =
       host_str e (family_field AF_INET) @ str_of_bytes (rev (bytes port)) @ str_of_bytes (rev (bytes ip)) @ sin_zero raw \<and>
     basePtr e (IP6Address a6) =
       host_str e (family_field AF_INET6) @ str_of_bytes (rev (bytes port)) @ host_str e flow @ bs @ host_str e scope \<and>
     ipAddrPtr e (IP4Address a4) = str_of_bytes (rev (bytes ip)) \<and> ipAddrPtr e (IP6Address a6) = bs \<and>
     IP4Address_addr a4 = EndianNumber_of e BIG ip \<and> IP4Address_port a4 = EndianNumber_of e BIG port \<and>
     IP6Address_addr a6 = bs \<and> IP6Address_port a6 = EndianNumber_of e BIG port \<and>
     getScopeID a6 = scope \<and> getFlowInfo a6 = flow \<and>
     (IP4Address_eq a4 b4 \<longleftrightarrow> sin_addr b4 = sin_addr a4 \<and> sin_port b4 = sin_port a4) \<and>
     (IP6Address_eq a6 b6 \<longleftrightarrow> sin6_addr b6 = bs \<and> sin6_port b6 = sin6_port a6)"
  using assms
  by (auto simp: ip_field_defs layout_defs net_layout ipAddrPtr_def isV4_def peek_def poke_def Let_def)

theorem ip_address_layout_witness:
  "ipAddrPtr LITTLE (IP4Address (IP4Address_create \<lparr>sin_family = 0, sin_port = 0, sin_addr = 0, sin_zero = replicate 8 NUL\<rparr>
     (EndianNumber_of LITTLE BIG 0x7F000001) (EndianNumber_of LITTLE BIG 80))) = str_of_bytes (rev (bytes (0x7F000001 :: 32 word)))"
  using ip_address_layout[where e = LITTLE and raw = "\<lparr>sin_family = 0, sin_port = 0, sin_addr = 0, sin_zero = replicate 8 NUL\<rparr>"
      and ip = "0x7F000001" and port = 80 and bs = IP6_LOOPBACK and scope = 0 and flow = 0]
  by (simp add: IP6_LOOPBACK_def Let_def)

text \<open>
  Link layer addresses: the protocol is kept in network byte order, and a MAC address of six
  bytes is read back; an address of any other length is refused.
\<close>

theorem link_layer_fields:
  assumes "length (sll_addr a) = 8" "length mac = 6"
  shows "host_str e (sll_protocol (LL_setProtocol e prot a)) = str_of_bytes (rev (bytes prot)) \<and>
     LL_protocol e (LL_setProtocol e prot a) = prot \<and> LL_ifindex (LL_setIfindex i a) = i \<and>
     LL_macAddress (LL_setMacAddress mac a) = Inr mac \<and>
     (sll_halen a \<noteq> 6 \<longrightarrow> LL_macAddress a = Inl (RuntimeError ''LinkLayerAddress does not contain a MAC address''))"
  using assms network_order[of prot e]
  by (simp add: LL_setProtocol_def LL_protocol_def LL_ifindex_def LL_setIfindex_def LL_macAddress_def
      LL_setMacAddress_def host_str_def)

subsection \<open>The textual form of an IP address\<close>

definition ntop_calls :: "Endian \<Rightarrow> SocketAddress \<Rightarrow> nat \<Rightarrow> syscall" where
  "ntop_calls e a n = Call ''inet_ntop'' [I (SocketFamily_value (address_family a)), S (ipAddrPtr e a), I (int n)]"

abbreviation ntop_loop :: "Endian \<Rightarrow> SocketAddress \<Rightarrow> (string \<times> world, string) act" where
  "ntop_loop e a \<equiv> loop (\<lambda>(buf, w). 1024 - length buf) (inet_ntop_round e a)"

lemma ntop_round_failed:
  assumes "answers w = f # as" "rv f = 0"
  shows "\<exists>w'. inet_ntop_round e a (buf, w) = (if 512 < length buf then (Throw (ApiError ''inet_ntop()'' (errno_after (errno_var w) f)), (buf, w'))
      else (Ret None, (resize (length buf * 2) buf, w'))) \<and> answers w' = as \<and>
     runs_to w [(ntop_calls e a (length buf), f)] w'"
  using assms by (auto simp: inet_ntop_round_def act_defs kernel_defs ntop_calls_def runs_to_def)

lemma ntop_again:
  assumes "answers w = f # as" "rv f = 0" "0 < length buf" "length buf \<le> 512"
  shows "\<exists>w'. ntop_loop e a (buf, w) = ntop_loop e a (resize (length buf * 2) buf, w') \<and> answers w' = as \<and>
     runs_to w [(ntop_calls e a (length buf), f)] w'"
proof -
  have "1024 - length buf * 2 < 1024 - length buf" using assms(3,4) by linarith
  with assms(4) ntop_round_failed[OF assms(1,2), of e a buf] show ?thesis
    by (auto simp: loop.simps[of _ _ "(buf, w)"])
qed

lemma ntop_retries:
  assumes "answers w = fs @ as" "\<forall>f\<in>set fs. rv f = 0" "length buf = 64 * 2 ^ j" "j + length fs \<le> 4"
  shows "\<exists>w' buf'. ntop_loop e a (buf, w) = ntop_loop e a (buf', w') \<and> answers w' = as \<and>
     length buf' = 64 * 2 ^ (j + length fs) \<and>
     runs_to w (map (\<lambda>i. (ntop_calls e a (64 * 2 ^ (j + i)), fs ! i)) [0..<length fs]) w'"
  using assms
proof (induction fs arbitrary: w buf j)
  case Nil
  then show ?case by auto
next
  case (Cons f fs)
  have "(2::nat) ^ j \<le> 2 ^ 3" using Cons.prems(4) by (intro power_increasing) auto
  with Cons.prems have len: "0 < length buf" "length buf \<le> 512" by simp_all
  with Cons.prems ntop_again[of w f "fs @ as" buf e a] obtain v where
    v: "ntop_loop e a (buf, w) = ntop_loop e a (resize (length buf * 2) buf, v)" "answers v = fs @ as"
      "runs_to w [(ntop_calls e a (length buf), f)] v" by auto
  with Cons.prems Cons.IH[of v "resize (length buf * 2) buf" "Suc j"] obtain w' buf' where
    "ntop_loop e a (buf, w) = ntop_loop e a (buf', w')" "answers w' = as" "length buf' = 64 * 2 ^ (j + length (f # fs))"
    and r: "runs_to v (map (\<lambda>i. (ntop_calls e a (64 * 2 ^ (Suc j + i)), fs ! i)) [0..<length fs]) w'" by auto
  moreover have "map (\<lambda>i. (ntop_calls e a (64 * 2 ^ (j + i)), (f # fs) ! i)) [0..<length (f # fs)] =
      (ntop_calls e a (length buf), f) # map (\<lambda>i. (ntop_calls e a (64 * 2 ^ (Suc j + i)), fs ! i)) [0..<length fs]"
    using Cons.prems(3) by (simp add: upt_conv_Cons map_Suc_upt[symmetric] o_def del: upt_Suc)
  ultimately show ?case using runs_to_trans[OF v(3) r] by auto
qed

text \<open>The round that ends the loop: the text fits, or the largest buffer was refused as well.\<close>

lemma ntop_last:
  assumes "answers w = g # as" "rv g \<noteq> 0 \<or> 512 < length buf"
  shows "\<exists>r w'. ntop_loop e a (buf, w) = (r, (if rv g = 0 then buf else store buf (out g), w')) \<and>
    runs_to w [(ntop_calls e a (length buf), g)] w' \<and>
    r = (if rv g = 0 then Throw (ApiError ''inet_ntop()'' (errno_after (errno_var w) g)) else Ret (c_str (store buf (out g))))"
  using assms
  by (auto simp: loop.simps[of _ _ "(buf, w)"] inet_ntop_round_def act_defs kernel_defs ntop_calls_def runs_to_def)

lemma ntop_runs:
  assumes "answers w = fs @ g # as" "\<forall>f\<in>set fs. rv f = 0" "length fs \<le> 4" "rv g \<noteq> 0 \<or> length fs = 4"
  shows "\<exists>r w'. ipAsString e a w = (r, w') \<and>
    runs_to w (map (\<lambda>i. (ntop_calls e a (64 * 2 ^ i), (fs @ [g]) ! i)) [0..<Suc (length fs)]) w' \<and>
    (rv g = 0 \<longrightarrow> (\<exists>en. r = Throw (ApiError ''inet_ntop()'' en))) \<and>
    (\<forall>t. rv g \<noteq> 0 \<and> out g = t @ [NUL] \<and> NUL \<notin> set t \<and> length t < 64 * 2 ^ length fs \<longrightarrow> r = Ret t) \<and> r \<noteq> Blocked"
proof -
  let ?buf = "resize 64 []"
  from ntop_retries[OF assms(1,2), of ?buf 0 e a] assms(3) obtain v buf where
    v: "ntop_loop e a (?buf, w) = ntop_loop e a (buf, v)" "answers v = g # as" "length buf = 64 * 2 ^ length fs"
      "runs_to w (map (\<lambda>i. (ntop_calls e a (64 * 2 ^ i), fs ! i)) [0..<length fs]) v" by auto
  from ntop_last[OF v(2), of buf e a] assms(4) v(3) obtain r w' where
    l: "ntop_loop e a (buf, v) = (r, (if rv g = 0 then buf else store buf (out g), w'))"
      "runs_to v [(ntop_calls e a (length buf), g)] w'"
      "r = (if rv g = 0 then Throw (ApiError ''inet_ntop()'' (errno_after (errno_var v) g)) else Ret (c_str (store buf (out g))))"
    by auto
  have "map (\<lambda>i. (ntop_calls e a (64 * 2 ^ i), (fs @ [g]) ! i)) [0..<Suc (length fs)] =
      map (\<lambda>i. (ntop_calls e a (64 * 2 ^ i), fs ! i)) [0..<length fs] @ [(ntop_calls e a (length buf), g)]"
    by (simp add: v(3) nth_append)
  with runs_to_trans[OF v(4) l(2)]
  have run: "runs_to w (map (\<lambda>i. (ntop_calls e a (64 * 2 ^ i), (fs @ [g]) ! i)) [0..<Suc (length fs)]) w'" by metis
  have "ipAsString e a w = (r, w')"
    using v(1) l(1,3) by (auto simp: ipAsString_def with_local_def bind_def ret_def split: if_splits)
  moreover have "\<forall>t. rv g \<noteq> 0 \<and> out g = t @ [NUL] \<and> NUL \<notin> set t \<and> length t < 64 * 2 ^ length fs \<longrightarrow> r = Ret t"
    using l(3) v(3) store_terminated[of _ buf] by (auto simp: c_str_def)
  ultimately show ?thesis using run l(3) by auto
qed

text \<open>
  C24: \<^verbatim>\<open>ipAsString()\<close> ends after at most five calls whatever the C library answers: the buffer
  grows from 64 to 1024 bytes, and when the last one is refused too the error is thrown.  As
  soon as a call succeeds the text it stored is returned.
\<close>

theorem ipAsString_ends:
  assumes "5 \<le> length (answers w)"
  shows "\<exists>k r w'. k < 5 \<and> ipAsString e a w = (r, w') \<and> r \<noteq> Blocked \<and>
    runs_to w (map (\<lambda>i. (ntop_calls e a (64 * 2 ^ i), answers w ! i)) [0..<Suc k]) w' \<and>
    (rv (answers w ! k) = 0 \<longrightarrow> k = 4 \<and> (\<exists>en. r = Throw (ApiError ''inet_ntop()'' en))) \<and>
    (\<forall>t. rv (answers w ! k) \<noteq> 0 \<and> out (answers w ! k) = t @ [NUL] \<and> NUL \<notin> set t \<and> length t < 64 * 2 ^ k \<longrightarrow> r = Ret t)"
proof -
  obtain k where k: "k \<le> 4" "\<forall>i<k. rv (answers w ! i) = 0" "rv (answers w ! k) \<noteq> 0 \<or> k = 4"
  proof (cases "\<exists>i\<le>4. rv (answers w ! i) \<noteq> 0")
    case True
    then obtain j where "j \<le> 4" "rv (answers w ! j) \<noteq> 0" by blast
    then show ?thesis
      using that[of "LEAST i. rv (answers w ! i) \<noteq> 0"] LeastI[of "\<lambda>i. rv (answers w ! i) \<noteq> 0" j]
        Least_le[of "\<lambda>i. rv (answers w ! i) \<noteq> 0" j] not_less_Least[of _ "\<lambda>i. rv (answers w ! i) \<noteq> 0"]
      by (metis (no_types, lifting) le_trans)
  next
    case False
    with that[of 4] show ?thesis by auto
  qed
  define fs where "fs = take k (answers w)"
  have split: "answers w = fs @ answers w ! k # drop (Suc k) (answers w)"
    using assms k(1) by (simp add: fs_def id_take_nth_drop)
  have zero: "\<forall>f\<in>set fs. rv f = 0" using k(1,2) assms by (auto simp: fs_def in_set_conv_nth)
  have len: "length fs = k" using k(1) assms by (simp add: fs_def)
  note runs = ntop_runs[OF split zero, of e a, unfolded len, OF k(1,3)]
  then obtain r w' where run: "ipAsString e a w = (r, w')"
    "runs_to w (map (\<lambda>i. (ntop_calls e a (64 * 2 ^ i), (fs @ [answers w ! k]) ! i)) [0..<Suc k]) w'"
    "rv (answers w ! k) = 0 \<longrightarrow> (\<exists>en. r = Throw (ApiError ''inet_ntop()'' en))"
    "\<forall>t. rv (answers w ! k) \<noteq> 0 \<and> out (answers w ! k) = t @ [NUL] \<and> NUL \<notin> set t \<and> length t < 64 * 2 ^ k \<longrightarrow> r = Ret t"
    "r \<noteq> Blocked"
    by (elim exE conjE) (rule that; assumption)
  have same: "map (\<lambda>i. (ntop_calls e a (64 * 2 ^ i), (fs @ [answers w ! k]) ! i)) [0..<Suc k] =
      map (\<lambda>i. (ntop_calls e a (64 * 2 ^ i), answers w ! i)) [0..<Suc k]"
    using len by (intro map_cong refl) (auto simp: nth_append fs_def less_Suc_eq)
  have "k < 5" "rv (answers w ! k) = 0 \<longrightarrow> k = 4" using k by auto
  then show ?thesis using run(1,3,4,5) run(2)[unfolded same]
    by (intro exI[of _ k] exI[of _ r] exI[of _ w'] conjI) blast+
qed

theorem ipAsString_ends_witness:
  "\<exists>r w'. ipAsString LITTLE (IP6Address sin6_zero) (world_of (replicate 5 (null_failed Errno_NO_SPACE))) = (r, w') \<and> r \<noteq> Blocked"
  using ipAsString_ends[of "world_of (replicate 5 (null_failed Errno_NO_SPACE))" LITTLE "IP6Address sin6_zero"]
  by (auto simp: world_of_def)

end
