(* ===== verification/Iteration.thy ===== *)
theory Iteration
  imports Cosmos_Prelude
begin

text \<open>
  The range-based \<^verbatim>\<open>for\<close> loops over the iterators of the library.  An iterator is compared with
  the end of its range, dereferenced and incremented; the last two throw where there is no
  element.  A range that never reaches its end makes a loop that does not return.
\<close>

partial_function (option) range_for :: "('i \<Rightarrow> 'i \<Rightarrow> bool) \<Rightarrow> ('i \<Rightarrow> exn + 'e) \<Rightarrow> ('i \<Rightarrow> exn + 'i) \<Rightarrow>
    'i \<Rightarrow> 'i \<Rightarrow> (exn + 'e list) option" where
  "range_for eq deref next stop it =
     (if eq it stop then Some (Inr [])
      else case deref it of Inl ex \<Rightarrow> Some (Inl ex)
        | Inr x \<Rightarrow> (case next it of Inl ex \<Rightarrow> Some (Inl ex)
            | Inr it' \<Rightarrow> Option.bind (range_for eq deref next stop it') (\<lambda>r. Some (map_sum id ((#) x) r))))"

text \<open>
  The contract of an iterator: \<open>spans it xs\<close> says that the elements \<open>xs\<close> lie between \<open>it\<close> and
  the end.
\<close>

locale input_range =
  fixes eq :: "'i \<Rightarrow> 'i \<Rightarrow> bool" and deref :: "'i \<Rightarrow> exn + 'e" and "next" :: "'i \<Rightarrow> exn + 'i"
    and stop :: 'i and spans :: "'i \<Rightarrow> 'e list \<Rightarrow> bool"
  assumes at_end: "spans it [] \<Longrightarrow> eq it stop"
    and past_end: "spans it [] \<Longrightarrow> (\<exists>m. deref it = Inl (RuntimeError m)) \<and> (\<exists>m. next it = Inl (RuntimeError m))"
    and at_item: "spans it (x # xs) \<Longrightarrow> \<not> eq it stop \<and> deref it = Inr x \<and> (\<exists>it'. next it = Inr it' \<and> spans it' xs)"
begin

lemma visits: "spans it xs \<Longrightarrow> range_for eq deref next stop it = Some (Inr xs)"
proof (induction xs arbitrary: it)
  case Nil
  then show ?case by (simp add: range_for.simps[of eq deref "next" stop it] at_end)
next
  case (Cons x xs)
  then obtain it' where "next it = Inr it'" "spans it' xs" using at_item by blast
  with Cons at_item[OF Cons.prems] show ?case
    by (simp add: range_for.simps[of eq deref "next" stop it])
qed

lemma spans_unique: "spans it xs \<Longrightarrow> spans it ys \<Longrightarrow> xs = ys"
  using visits[of it xs] visits[of it ys] by simp

end

end
