(* ===== verification/SocketMessages.thy ===== *)
theory SocketMessages
  imports Iteration Addresses StreamIO Process
begin

text \<open>
  Messages with ancillary data: the headers of \<^verbatim>\<open>sendmsg()\<close> and \<^verbatim>\<open>recvmsg()\<close> with the
  iteration over control messages (\<^verbatim>\<open>include/net/message_header.hxx\<close>,
  \<^verbatim>\<open>src/net/message_header.cxx\<close>), the messages of UNIX sockets that carry file descriptors and
  credentials (\<^verbatim>\<open>include/net/unix/aux.hxx\<close>, \<^verbatim>\<open>src/net/unix/aux.cxx\<close>) and the extended
  errors of IP sockets (\<^verbatim>\<open>include/net/SocketError.hxx\<close>, \<^verbatim>\<open>src/net/inet/aux.cxx\<close>).
  Control messages are bytes in a buffer, as the kernel reads and writes them.
\<close>

subsection \<open>The macros of the C library\<close>

text \<open>
  A control message is a header of 16 bytes (its length with the header, level, type), its
  data, and padding to the alignment of the next header.
\<close>

definition cmsg_hdr :: nat where
  "cmsg_hdr = 16"

definition CMSG_ALIGN :: "nat \<Rightarrow> nat" where
  "CMSG_ALIGN n = (n + 7) div 8 * 8"

definition CMSG_SPACE :: "nat \<Rightarrow> nat" where
  "CMSG_SPACE n = CMSG_ALIGN n + CMSG_ALIGN cmsg_hdr"

definition CMSG_LEN :: "nat \<Rightarrow> nat" where
  "CMSG_LEN n = CMSG_ALIGN cmsg_hdr + n"

text \<open>The fields of the header that starts at an offset.\<close>

definition cmsg_len :: "Endian \<Rightarrow> string \<Rightarrow> nat \<Rightarrow> 64 word" where
  "cmsg_len e m off = host_word e (peek off 8 m)"

definition cmsg_level :: "Endian \<Rightarrow> string \<Rightarrow> nat \<Rightarrow> 32 word" where
  "cmsg_level e m off = host_word e (peek (off + 8) 4 m)"

definition cmsg_type :: "Endian \<Rightarrow> string \<Rightarrow> nat \<Rightarrow> 32 word" where
  "cmsg_type e m off = host_word e (peek (off + 12) 4 m)"

definition CMSG_FIRSTHDR :: "nat \<Rightarrow> nat option" where
  "CMSG_FIRSTHDR controllen = (if cmsg_hdr \<le> controllen then Some 0 else None)"

text \<open>The next header, when the length of the current one is sane and there is room for another.\<close>

definition CMSG_NXTHDR :: "Endian \<Rightarrow> string \<Rightarrow> nat \<Rightarrow> nat \<Rightarrow> nat option" where
  "CMSG_NXTHDR e m controllen pos = (let len = unat (cmsg_len e m pos) in
     if len < cmsg_hdr then None
     else if controllen - pos < cmsg_hdr + CMSG_ALIGN len then None
     else Some (pos + CMSG_ALIGN len))"

subsection \<open>MessageHeaderBase\<close>

text \<open>
  The \<^verbatim>\<open>struct msghdr\<close>, with what its pointers point to in place of the pointers, and the flags.
\<close>

record MessageHeader =
  msg_name :: "SocketAddress option"
  msg_namelen :: "32 word"
  msg_iov :: "iovector option"
  msg_iovlen :: nat
  msg_control :: "string option"
  msg_controllen :: nat
  msg_flags :: "32 word"
  m_io_flags :: "32 mask"

definition header_clear :: "'z MessageHeader_scheme \<Rightarrow> 'z MessageHeader_scheme" where
  "header_clear h = h\<lparr>msg_name := None, msg_namelen := 0, msg_iov := None, msg_iovlen := 0,
     msg_control := None, msg_controllen := 0, msg_flags := 0\<rparr>"

definition setIOFlags :: "32 mask \<Rightarrow> 'z MessageHeader_scheme \<Rightarrow> 'z MessageHeader_scheme" where
  "setIOFlags flags h = h\<lparr>m_io_flags := flags\<rparr>"

definition ioFlags :: "'z MessageHeader_scheme \<Rightarrow> 32 mask" where
  "ioFlags h = m_io_flags h"

text \<open>The constructor: a cleared structure and the flag for received descriptors.\<close>

definition header_create :: "'z MessageHeader_scheme \<Rightarrow> 'z MessageHeader_scheme" where
  "header_create h = setIOFlags (BitMask_of_list [MessageFlag_value MSG_CLOEXEC]) (header_clear h)"

definition resetAddress :: "'z MessageHeader_scheme \<Rightarrow> 'z MessageHeader_scheme" where
  "resetAddress h = h\<lparr>msg_name := None, msg_namelen := 0\<rparr>"

definition setIov :: "iovector \<Rightarrow> 'z MessageHeader_scheme \<Rightarrow> 'z MessageHeader_scheme" where
  "setIov v h = (if v = [] then h\<lparr>msg_iov := None, msg_iovlen := 0\<rparr>
     else h\<lparr>msg_iov := Some v, msg_iovlen := length v\<rparr>)"

subsection \<open>SendMessageHeader\<close>

record SendControl =
  sc_buffer :: string

definition SendControl_create :: "Endian \<Rightarrow> OptLevel \<Rightarrow> int \<Rightarrow> nat \<Rightarrow> SendControl" where
  "SendControl_create e level type data_len =
     \<lparr>sc_buffer = poke 0 (host_str e (of_nat (CMSG_LEN data_len) :: 64 word))
       (poke 12 (host_str e (of_int type :: 32 word))
       (poke 8 (host_str e (of_int (OptLevel_value level) :: 32 word))
          (resize (CMSG_SPACE data_len) [])))\<rparr>"

text \<open>Storing at an offset of the data portion.\<close>

definition SendControl_store :: "nat \<Rightarrow> string \<Rightarrow> SendControl \<Rightarrow> SendControl" where
  "SendControl_store off bs m = m\<lparr>sc_buffer := poke (cmsg_hdr + off) bs (sc_buffer m)\<rparr>"

definition SendControl_data :: "SendControl \<Rightarrow> string" where
  "SendControl_data m = drop cmsg_hdr (sc_buffer m)"

text \<open>The difference of the two pointers, as the code computes it.\<close>

definition SendControl_dataSpace :: "SendControl \<Rightarrow> nat" where
  "SendControl_dataSpace m = cmsg_hdr"

definition SendControl_raw :: "SendControl \<Rightarrow> string" where
  "SendControl_raw m = sc_buffer m"

definition SendControl_size :: "SendControl \<Rightarrow> nat" where
  "SendControl_size m = length (sc_buffer m)"

record SendMessageHeader = MessageHeader +
  send_iovec :: iovector
  control_msg :: "SendControl option"

definition SendHeader_setAddress :: "SocketAddress \<Rightarrow> SendMessageHeader \<Rightarrow> SendMessageHeader" where
  "SendHeader_setAddress addr h = h\<lparr>msg_name := Some addr, msg_namelen := ucast (address_size addr)\<rparr>"

definition prepareSend :: "SocketAddress option \<Rightarrow> SendMessageHeader \<Rightarrow> SendMessageHeader" where
  "prepareSend addr h =
     (let h = (case addr of Some a \<Rightarrow> SendHeader_setAddress a h | None \<Rightarrow> resetAddress h);
          h = setIov (send_iovec h) h
      in case control_msg h of
          Some m \<Rightarrow> h\<lparr>msg_control := Some (SendControl_raw m), msg_controllen := SendControl_size m\<rparr>
        | None \<Rightarrow> h\<lparr>msg_control := None, msg_controllen := 0\<rparr>)"

definition postSend :: "nat \<Rightarrow> (SendMessageHeader \<times> 'w, unit) act" where
  "postSend sent = andthen
     (bind (zoom send_iovec (\<lambda>v h. h\<lparr>send_iovec := v\<rparr>) (iovec_update sent)) (\<lambda>_. ret ()))
     (set_this (\<lambda>h. h\<lparr>control_msg := None\<rparr>))"

subsection \<open>ReceiveMessageHeader\<close>

record ReceiveMessageHeader = MessageHeader +
  recv_iovec :: iovector
  m_control_buffer :: string

definition recv_flags :: "ReceiveMessageHeader \<Rightarrow> 32 mask" where
  "recv_flags h = BitMask_of (msg_flags h)"

definition setControlBufferSize :: "nat \<Rightarrow> (ReceiveMessageHeader \<times> 'w, unit) act" where
  "setControlBufferSize n =
     (if n = 0 then set_this (\<lambda>h. h\<lparr>m_control_buffer := []\<rparr>)
      else if n < cmsg_hdr then throw (RuntimeError ''control buffer size smaller than control message header'')
      else set_this (\<lambda>h. h\<lparr>m_control_buffer := resize n (m_control_buffer h)\<rparr>))"

definition clearControlBuffer :: "(ReceiveMessageHeader \<times> 'w, unit) act" where
  "clearControlBuffer = setControlBufferSize 0"

definition RecvHeader_setAddress :: "SocketAddress \<Rightarrow> ReceiveMessageHeader \<Rightarrow> ReceiveMessageHeader" where
  "RecvHeader_setAddress addr h = h\<lparr>msg_name := Some addr, msg_namelen := ucast (address_maxSize addr)\<rparr>"

definition prepareReceive :: "SocketAddress option \<Rightarrow> ReceiveMessageHeader \<Rightarrow> ReceiveMessageHeader" where
  "prepareReceive addr h =
     (let h = (case addr of Some a \<Rightarrow> RecvHeader_setAddress a h | None \<Rightarrow> resetAddress h);
          h = setIov (recv_iovec h) h
      in if m_control_buffer h \<noteq> []
         then h\<lparr>msg_control := Some (m_control_buffer h), msg_controllen := length (m_control_buffer h)\<rparr>
         else h)"

definition postReceive :: "nat \<Rightarrow> (ReceiveMessageHeader \<times> 'w, unit) act" where
  "postReceive received =
     bind (zoom recv_iovec (\<lambda>v h. h\<lparr>recv_iovec := v\<rparr>) (iovec_update received)) (\<lambda>_. ret ())"

subsection \<open>Received control messages\<close>

text \<open>A reference to a message: the control buffer and the offset of its header.\<close>

record RecvControl =
  rc_mem :: string
  rc_off :: nat

definition rc_type :: "Endian \<Rightarrow> RecvControl \<Rightarrow> int" where
  "rc_type e m = sint (cmsg_type e (rc_mem m) (rc_off m))"

definition rc_length :: "Endian \<Rightarrow> RecvControl \<Rightarrow> 64 word" where
  "rc_length e m = cmsg_len e (rc_mem m) (rc_off m)"

definition rc_level :: "Endian \<Rightarrow> RecvControl \<Rightarrow> int" where
  "rc_level e m = sint (cmsg_level e (rc_mem m) (rc_off m))"

definition asUnixMessage :: "Endian \<Rightarrow> RecvControl \<Rightarrow> int option" where
  "asUnixMessage e m = (if rc_level e m = OptLevel_value OPT_SOCKET then Some (rc_type e m) else None)"

definition asIP4Message :: "Endian \<Rightarrow> RecvControl \<Rightarrow> int option" where
  "asIP4Message e m = (if rc_level e m = OptLevel_value OPT_IP then Some (rc_type e m) else None)"

definition asIP6Message :: "Endian \<Rightarrow> RecvControl \<Rightarrow> int option" where
  "asIP6Message e m = (if rc_level e m = OptLevel_value OPT_IPV6 then Some (rc_type e m) else None)"

text \<open>The bytes from the data pointer to the end of the buffer, and how many belong to the message.\<close>

definition rc_data :: "RecvControl \<Rightarrow> string" where
  "rc_data m = drop (rc_off m + cmsg_hdr) (rc_mem m)"

definition rc_dataLength :: "Endian \<Rightarrow> RecvControl \<Rightarrow> 64 word" where
  "rc_dataLength e m = rc_length e m - of_nat cmsg_hdr"

record ControlMessageIterator =
  m_pos :: "nat option"
  m_curmsg :: "RecvControl option"
  m_header :: "ReceiveMessageHeader option"

definition control_mem :: "ReceiveMessageHeader \<Rightarrow> string" where
  "control_mem h = (case msg_control h of None \<Rightarrow> [] | Some m \<Rightarrow> m)"

definition updateCurMsg :: "ControlMessageIterator \<Rightarrow> ControlMessageIterator" where
  "updateCurMsg it = it\<lparr>m_curmsg := (case (m_pos it, m_header it) of
      (Some p, Some h) \<Rightarrow> Some \<lparr>rc_mem = control_mem h, rc_off = p\<rparr>
    | _ \<Rightarrow> None)\<rparr>"

definition recv_end :: ControlMessageIterator where
  "recv_end = \<lparr>m_pos = None, m_curmsg = None, m_header = None\<rparr>"

definition recv_begin :: "ReceiveMessageHeader \<Rightarrow> ControlMessageIterator" where
  "recv_begin h = updateCurMsg \<lparr>m_pos = CMSG_FIRSTHDR (msg_controllen h), m_curmsg = None, m_header = Some h\<rparr>"

definition iterator_next :: "Endian \<Rightarrow> ControlMessageIterator \<Rightarrow> exn + ControlMessageIterator" where
  "iterator_next e it = (case (m_pos it, m_header it) of
      (Some p, Some h) \<Rightarrow> Inr (updateCurMsg (it\<lparr>m_pos := CMSG_NXTHDR e (control_mem h) (msg_controllen h) p\<rparr>))
    | _ \<Rightarrow> Inl (RuntimeError ''Attempt to increment ControlMessageIterator past the end''))"

definition iterator_eq :: "ControlMessageIterator \<Rightarrow> ControlMessageIterator \<Rightarrow> bool" where
  "iterator_eq a b \<longleftrightarrow> m_pos a = m_pos b"

definition iterator_deref :: "ControlMessageIterator \<Rightarrow> exn + RecvControl" where
  "iterator_deref it = (case m_curmsg it of
      None \<Rightarrow> Inl (RuntimeError ''Attempt to dereference an invalid ControlMessageIterator'')
    | Some m \<Rightarrow> Inr m)"

subsection \<open>Ancillary messages\<close>

definition createMsg :: "Endian \<Rightarrow> OptLevel \<Rightarrow> int \<Rightarrow> nat \<Rightarrow> SendControl" where
  "createMsg e level type data_len = SendControl_create e level type data_len"

definition checkMsg :: "Endian \<Rightarrow> OptLevel \<Rightarrow> int \<Rightarrow> RecvControl \<Rightarrow> ('s, unit) act" where
  "checkMsg e level type msg =
     (if rc_level e msg \<noteq> OptLevel_value level \<or> type \<noteq> rc_type e msg
      then throw (RuntimeError ''ancillary message type mismatch'') else ret ())"

text \<open>Reading behind the end of a buffer: the process does not survive it in the model.\<close>

definition out_of_bounds :: int where
  "out_of_bounds = 139"

subsection \<open>UnixRightsMessage\<close>

record UnixRightsMessage =
  m_fds :: "FileNum list"
  m_unclaimed_fds :: bool

definition MAX_FDS :: nat where
  "MAX_FDS = 253"

definition Rights_default :: UnixRightsMessage where
  "Rights_default = \<lparr>m_fds = [], m_unclaimed_fds = False\<rparr>"

definition closeUnclaimed :: "(UnixRightsMessage \<times> world, unit) act" where
  "closeUnclaimed = bind (this (\<lambda>m. m)) (\<lambda>m.
     if m_unclaimed_fds m then
       andthen (on_world (forA (m_fds m) (\<lambda>fd. bind (with_local (FD fd) FD_close) (\<lambda>_. ret ()))))
         (set_this (\<lambda>m. m\<lparr>m_fds := [], m_unclaimed_fds := False\<rparr>))
     else ret ())"



definition clearFDs :: "(UnixRightsMessage \<times> world, unit) act" where
  "clearFDs = andthen closeUnclaimed (set_this (\<lambda>m. m\<lparr>m_fds := []\<rparr>))"



text \<open>The loop over the data: \<open>left\<close> bytes are taken for descriptors of four bytes each.\<close>

fun fds_of_data :: "Endian \<Rightarrow> nat \<Rightarrow> string \<Rightarrow> FileNum list option" where
  "fds_of_data e left data = (if left < 4 then Some []
     else if length data < 4 then None
     else map_option ((#) (sint (host_word e (take 4 data) :: 32 word))) (fds_of_data e (left - 4) (drop 4 data)))"

declare fds_of_data.simps [simp del]

definition Rights_deserialize :: "Endian \<Rightarrow> RecvControl \<Rightarrow> (UnixRightsMessage \<times> world, unit) act" where
  "Rights_deserialize e msg = andthen (checkMsg e OPT_SOCKET (UnixMessage_value UNIX_RIGHTS) msg)
     (andthen clearFDs
       (case fds_of_data e (unat (rc_dataLength e msg)) (rc_data msg) of
          None \<Rightarrow> abort out_of_bounds
        | Some fds \<Rightarrow> andthen (set_this (\<lambda>m. m\<lparr>m_fds := m_fds m @ fds\<rparr>))
            (set_this (\<lambda>m. if m_fds m \<noteq> [] then m\<lparr>m_unclaimed_fds := True\<rparr> else m))))"

fun store_fds :: "Endian \<Rightarrow> nat \<Rightarrow> FileNum list \<Rightarrow> SendControl \<Rightarrow> SendControl" where
  "store_fds e off [] m = m"
| "store_fds e off (fd # fds) m =
     store_fds e (off + 4) fds (SendControl_store off (host_str e (of_int fd :: 32 word)) m)"

definition Rights_serialize :: "Endian \<Rightarrow> UnixRightsMessage \<Rightarrow> exn + SendControl" where
  "Rights_serialize e m =
     (if m_fds m = [] then Inl (UsageError ''Attempt to serialize empty vector of FileNum'')
      else Inr (store_fds e 0 (m_fds m) (createMsg e OPT_SOCKET (UnixMessage_value UNIX_RIGHTS) (4 * length (m_fds m)))))"

subsection \<open>UnixCredentialsMessage\<close>

record UnixCredentials =
  cred_pid :: "32 word"
  cred_uid :: "32 word"
  cred_gid :: "32 word"

definition UnixCredentials_create :: "int \<Rightarrow> int \<Rightarrow> int \<Rightarrow> UnixCredentials" where
  "UnixCredentials_create pid uid gid = \<lparr>cred_pid = of_int pid, cred_uid = of_int uid, cred_gid = of_int gid\<rparr>"

definition UnixCredentials_default :: UnixCredentials where
  "UnixCredentials_default = UnixCredentials_create (-1) (-1) (-1)"

definition setCurrentCreds :: "(UnixCredentials \<times> world, unit) act" where
  "setCurrentCreds = andthen
     (bind (on_world get_own_pid) (\<lambda>p. set_this (\<lambda>c. c\<lparr>cred_pid := of_int p\<rparr>)))
     (andthen (bind (on_world get_effective_user_id) (\<lambda>u. set_this (\<lambda>c. c\<lparr>cred_uid := of_int u\<rparr>)))
       (bind (on_world get_effective_group_id) (\<lambda>g. set_this (\<lambda>c. c\<lparr>cred_gid := of_int g\<rparr>))))"

definition cred_bytes :: "Endian \<Rightarrow> UnixCredentials \<Rightarrow> string" where
  "cred_bytes e c = host_str e (cred_pid c) @ host_str e (cred_uid c) @ host_str e (cred_gid c)"

definition cred_of_bytes :: "Endian \<Rightarrow> string \<Rightarrow> UnixCredentials" where
  "cred_of_bytes e m = \<lparr>cred_pid = host_word e (peek 0 4 m), cred_uid = host_word e (peek 4 4 m),
     cred_gid = host_word e (peek 8 4 m)\<rparr>"

definition Credentials_deserialize :: "Endian \<Rightarrow> RecvControl \<Rightarrow> (UnixCredentials \<times> 'w, unit) act" where
  "Credentials_deserialize e msg = andthen (checkMsg e OPT_SOCKET (UnixMessage_value UNIX_CREDENTIALS) msg)
     (if rc_dataLength e msg \<noteq> 12 then throw (RuntimeError ''SCM_CREDS message with mismatching length encountered'')
      else if length (rc_data msg) < 12 then abort out_of_bounds
      else set_this (\<lambda>_. cred_of_bytes e (rc_data msg)))"

definition Credentials_serialize :: "Endian \<Rightarrow> UnixCredentials \<Rightarrow> SendControl" where
  "Credentials_serialize e c =
     SendControl_store 0 (cred_bytes e c) (createMsg e OPT_SOCKET (UnixMessage_value UNIX_CREDENTIALS) 12)"

subsection \<open>SocketErrorMessage\<close>

text \<open>The message of a family keeps a copy of the data, which begins with a \<^verbatim>\<open>sock_extended_err\<close>.\<close>

definition SocketError_deserialize :: "Endian \<Rightarrow> SocketFamily \<Rightarrow> RecvControl \<Rightarrow> (string \<times> 'w, unit) act" where
  "SocketError_deserialize e family msg = (case (OPT_LEVEL family, RECVERR_of family) of
      (Some level, Some type) \<Rightarrow> andthen (checkMsg e level type msg)
        (andthen (set_this (\<lambda>_. []))
          (if rc_dataLength e msg < 16 then throw (RuntimeError ''IP_RECVERR ancillary message too small'')
           else if length (rc_data msg) < unat (rc_dataLength e msg) then abort out_of_bounds
           else set_this (\<lambda>_. take (unat (rc_dataLength e msg)) (rc_data msg))))
    | _ \<Rightarrow> ret ())"

datatype Origin = ORIGIN_NONE | ORIGIN_LOCAL | ORIGIN_ICMP | ORIGIN_ICMP6 | ORIGIN_TXSTATUS
  | ORIGIN_ZEROCOPY | ORIGIN_TXTIME

primrec Origin_value :: "Origin \<Rightarrow> 8 word" where
  "Origin_value ORIGIN_NONE = 0"
| "Origin_value ORIGIN_LOCAL = 1"
| "Origin_value ORIGIN_ICMP = 2"
| "Origin_value ORIGIN_ICMP6 = 3"
| "Origin_value ORIGIN_TXSTATUS = 4"
| "Origin_value ORIGIN_ZEROCOPY = 5"
| "Origin_value ORIGIN_TXTIME = 6"

datatype ZeroCopyCode = ZEROCOPY_COPIED

primrec ZeroCopyCode_value :: "ZeroCopyCode \<Rightarrow> 8 word" where
  "ZeroCopyCode_value ZEROCOPY_COPIED = 1"

datatype TxTimeCode = TXTIME_INVALID_PARAM | TXTIME_MISSED

primrec TxTimeCode_value :: "TxTimeCode \<Rightarrow> 8 word" where
  "TxTimeCode_value TXTIME_INVALID_PARAM = 1"
| "TxTimeCode_value TXTIME_MISSED = 2"

text \<open>The fields of the error, read from the copy.\<close>

definition ee_info :: "Endian \<Rightarrow> string \<Rightarrow> 32 word" where
  "ee_info e m = host_word e (peek 8 4 m)"

definition ee_data :: "Endian \<Rightarrow> string \<Rightarrow> 32 word" where
  "ee_data e m = host_word e (peek 12 4 m)"

definition ee_code :: "Endian \<Rightarrow> string \<Rightarrow> 8 word" where
  "ee_code e m = host_word e (peek 6 1 m)"

definition err_origin :: "Endian \<Rightarrow> string \<Rightarrow> 8 word" where
  "err_origin e m = host_word e (peek 4 1 m)"

definition err_errnum :: "Endian \<Rightarrow> string \<Rightarrow> errno" where
  "err_errnum e m = sint (host_word e (peek 0 4 m) :: 32 word)"

definition discoveredMTU :: "Endian \<Rightarrow> string \<Rightarrow> 32 word option" where
  "discoveredMTU e m = (if err_errnum e m = errno_of Errno_MSG_TOO_LARGE then Some (ee_info e m) else None)"

definition zeroCopyCode :: "Endian \<Rightarrow> string \<Rightarrow> 8 word option" where
  "zeroCopyCode e m = (if err_origin e m = Origin_value ORIGIN_ZEROCOPY then Some (ee_code e m) else None)"

definition txTimeCode :: "Endian \<Rightarrow> string \<Rightarrow> 8 word option" where
  "txTimeCode e m = (if err_origin e m = Origin_value ORIGIN_TXTIME then Some (ee_code e m) else None)"

definition zeroCopyRange :: "Endian \<Rightarrow> string \<Rightarrow> (32 word \<times> 32 word) option" where
  "zeroCopyRange e m = (if err_origin e m = Origin_value ORIGIN_ZEROCOPY then Some (ee_info e m, ee_data e m) else None)"

definition originIsICMP :: "Endian \<Rightarrow> string \<Rightarrow> bool" where
  "originIsICMP e m \<longleftrightarrow> err_origin e m = Origin_value ORIGIN_ICMP \<or> err_origin e m = Origin_value ORIGIN_ICMP6"

definition icmpType :: "Endian \<Rightarrow> string \<Rightarrow> 8 word option" where
  "icmpType e m = (if originIsICMP e m then Some (host_word e (peek 5 1 m)) else None)"

definition icmpCode :: "Endian \<Rightarrow> string \<Rightarrow> 8 word option" where
  "icmpCode e m = (if originIsICMP e m then Some (ee_code e m) else None)"

text \<open>
  The address of the offender lies behind the structure; reading what the copy does not hold is
  \<open>None\<close>.
\<close>

definition offenderAddressFamily :: "Endian \<Rightarrow> string \<Rightarrow> 16 word option" where
  "offenderAddressFamily e m = (if 18 \<le> length m then Some (host_word e (peek 16 2 m)) else None)"

definition hasOffenderAddress :: "Endian \<Rightarrow> string \<Rightarrow> bool option" where
  "hasOffenderAddress e m = map_option (\<lambda>f. f \<noteq> family_field AF_UNSPEC) (offenderAddressFamily e m)"

definition offenderAddress :: "Endian \<Rightarrow> SocketFamily \<Rightarrow> string \<Rightarrow> SocketAddress option option" where
  "offenderAddress e family m = (case offenderAddressFamily e m of None \<Rightarrow> None
    | Some f \<Rightarrow> if f \<noteq> family_field family then Some None
        else (case family of
            AF_INET \<Rightarrow> if 32 \<le> length m then Some (Some (IP4Address (sin_of_bytes e (drop 16 m)))) else None
          | AF_INET6 \<Rightarrow> if 44 \<le> length m then Some (Some (IP6Address (sin6_of_bytes e (drop 16 m)))) else None
          | _ \<Rightarrow> Some None))"

subsection \<open>The layout of control messages\<close>

text \<open>The bytes of a message with level \<open>l\<close>, type \<open>t\<close> and data \<open>d\<close>, with its padding.\<close>

definition cmsg_bytes :: "Endian \<Rightarrow> 32 word \<times> 32 word \<times> string \<Rightarrow> string" where
  "cmsg_bytes e m = (case m of (l, t, d) \<Rightarrow> host_str e (of_nat (cmsg_hdr + length d) :: 64 word) @ host_str e l
     @ host_str e t @ d @ replicate (CMSG_ALIGN (length d) - length d) NUL)"

lemma align_ge: "n \<le> CMSG_ALIGN n"
  unfolding CMSG_ALIGN_def by linarith

lemma align_hdr [simp]: "CMSG_ALIGN (cmsg_hdr + n) = cmsg_hdr + CMSG_ALIGN n" "CMSG_ALIGN cmsg_hdr = cmsg_hdr" "CMSG_ALIGN 16 = 16"
  unfolding CMSG_ALIGN_def cmsg_hdr_def by presburger+

lemma length_cmsg_bytes: "length (cmsg_bytes e (l, t, d)) = cmsg_hdr + CMSG_ALIGN (length d)"
  using align_ge[of "length d"] by (simp add: cmsg_bytes_def cmsg_hdr_def)

lemma peek_append: "peek (length pre + k) n (pre @ xs) = peek k n xs"
  by (simp add: peek_def)

lemma peek_append0: "peek (length pre) n (pre @ xs) = peek 0 n xs"
  by (simp add: peek_def)

lemma cmsg_fields:
  assumes "length pre = p"
  shows "cmsg_len e (pre @ cmsg_bytes e (l, t, d) @ post) p = of_nat (cmsg_hdr + length d)"
    "cmsg_level e (pre @ cmsg_bytes e (l, t, d) @ post) p = l"
    "cmsg_type e (pre @ cmsg_bytes e (l, t, d) @ post) p = t"
    "rc_data \<lparr>rc_mem = pre @ cmsg_bytes e (l, t, d) @ post, rc_off = p\<rparr> =
       d @ replicate (CMSG_ALIGN (length d) - length d) NUL @ post"
  unfolding assms[symmetric]
  by (simp_all add: cmsg_len_def cmsg_level_def cmsg_type_def rc_data_def peek_append peek_append0 cmsg_bytes_def
      cmsg_hdr_def peek_def del: of_nat_add)

lemma poke_zeros: "n = length bs \<Longrightarrow> poke off bs (replicate off NUL @ replicate n NUL @ zs) = replicate off NUL @ bs @ zs"
  by (simp add: poke_def)

text \<open>What the serialization writes into a new message.\<close>

lemma createMsg_store:
  assumes "length d = n"
  shows "SendControl_store 0 d (createMsg e level type n) =
    \<lparr>sc_buffer = cmsg_bytes e (of_int (OptLevel_value level), of_int type, d)\<rparr>"
proof -
  have "CMSG_SPACE n = 16 + CMSG_ALIGN n" by (simp add: CMSG_SPACE_def cmsg_hdr_def)
  moreover obtain k where "CMSG_ALIGN n = n + k" using align_ge[of n] le_Suc_ex by blast
  ultimately show ?thesis
    using assms
    by (simp add: createMsg_def SendControl_create_def SendControl_store_def cmsg_bytes_def CMSG_LEN_def cmsg_hdr_def
        poke_def resize_def replicate_add[symmetric] del: of_nat_add)
qed

lemma store_fds_poke:
  assumes "off + 16 + 4 * length fds \<le> length (sc_buffer m)"
  shows "store_fds e off fds m =
    SendControl_store off (concat (map (\<lambda>fd. host_str e (of_int fd :: 32 word)) fds)) m"
  using assms
proof (induction fds arbitrary: off m)
  case Nil
  then show ?case by (simp add: SendControl_store_def poke_def)
next
  case (Cons fd fds)
  then show ?case
    by (simp add: SendControl_store_def cmsg_hdr_def poke_def min_def ac_simps)
qed

definition fds_data :: "Endian \<Rightarrow> FileNum list \<Rightarrow> string" where
  "fds_data e fds = concat (map (\<lambda>fd. host_str e (of_int fd :: 32 word)) fds)"

lemma length_fds_data [simp]: "length (fds_data e fds) = 4 * length fds"
  by (induction fds) (simp_all add: fds_data_def)

lemma Rights_serialize_bytes:
  assumes "m_fds m \<noteq> []"
  shows "Rights_serialize e m = Inr \<lparr>sc_buffer = cmsg_bytes e (of_int (OptLevel_value OPT_SOCKET),
     of_int (UnixMessage_value UNIX_RIGHTS), fds_data e (m_fds m))\<rparr>"
proof -
  let ?c = "createMsg e OPT_SOCKET (UnixMessage_value UNIX_RIGHTS) (4 * length (m_fds m))"
  have "0 + 16 + 4 * length (m_fds m) \<le> length (sc_buffer ?c)"
    using align_ge[of "4 * length (m_fds m)"]
    by (simp add: createMsg_def SendControl_create_def CMSG_SPACE_def cmsg_hdr_def)
  from store_fds_poke[OF this, of e] createMsg_store[OF length_fds_data, of e "m_fds m" e OPT_SOCKET
      "UnixMessage_value UNIX_RIGHTS"] assms show ?thesis
    by (simp add: Rights_serialize_def fds_data_def)
qed

text \<open>File numbers that fit into the 32 bits of an \<^verbatim>\<open>int\<close>.\<close>

definition int_range :: "int \<Rightarrow> bool" where
  "int_range n \<longleftrightarrow> - (2 ^ 31) \<le> n \<and> n < 2 ^ 31"

lemma sint_of_int_range: "int_range n \<Longrightarrow> sint (of_int n :: 32 word) = n"
  by (simp add: int_range_def signed_of_int signed_take_bit_int_eq_self_iff)

lemma fds_of_data_fds:
  assumes "list_all int_range fds" "r < 4"
  shows "fds_of_data e (4 * length fds + r) (fds_data e fds @ rest) = Some fds"
  using assms
proof (induction fds)
  case Nil
  then show ?case by (simp add: fds_of_data.simps)
next
  case (Cons fd fds)
  have "fds_data e (fd # fds) = host_str e (of_int fd :: 32 word) @ fds_data e fds" by (simp add: fds_data_def)
  with Cons show ?case
    by (subst fds_of_data.simps) (simp add: sint_of_int_range)
qed

subsection \<open>Passing descriptors and credentials\<close>

text \<open>A message somewhere in the control buffer of the receiver.\<close>

definition received :: "string \<Rightarrow> string \<Rightarrow> string \<Rightarrow> RecvControl" where
  "received pre bs post = \<lparr>rc_mem = pre @ bs @ post, rc_off = length pre\<rparr>"

lemma received_fields:
  assumes "length d < 2 ^ 32"
  shows "rc_level e (received pre (cmsg_bytes e (l, t, d)) post) = sint l"
    "rc_type e (received pre (cmsg_bytes e (l, t, d)) post) = sint t"
    "unat (rc_dataLength e (received pre (cmsg_bytes e (l, t, d)) post)) = length d"
    "rc_data (received pre (cmsg_bytes e (l, t, d)) post) = d @ replicate (CMSG_ALIGN (length d) - length d) NUL @ post"
proof -
  have "unat (of_nat (length d) :: 64 word) = length d" using assms by (simp add: unat_of_nat)
  then show "unat (rc_dataLength e (received pre (cmsg_bytes e (l, t, d)) post)) = length d"
    by (simp add: rc_dataLength_def rc_length_def received_def cmsg_fields)
qed (simp_all add: rc_level_def rc_type_def received_def cmsg_fields)

lemma cred_of_cred_bytes: "cred_of_bytes e (cred_bytes e c @ rest) = c"
  by (simp add: cred_of_bytes_def cred_bytes_def peek_def)

lemma clearFDs_unclaimed:
  "\<not> m_unclaimed_fds m \<Longrightarrow> clearFDs (m, w) = (Ret (), (m\<lparr>m_fds := []\<rparr>, w))"
  by (simp add: clearFDs_def closeUnclaimed_def act_defs)

text \<open>
  C9: What a sender serializes a receiver reads back.  A message of descriptors, wherever the
  kernel puts it into the control buffer, is deserialized to the same numbers in the same
  order, now owned by the object, by an object that owns none and without a system call; credentials
  are read back field by field; each refuses the message of the other and leaves its object alone,
  and an empty list of descriptors is not serialized.
\<close>

theorem ancillary_roundtrip:
  assumes "list_all int_range (m_fds m)" "length (m_fds m) \<le> MAX_FDS" "\<not> m_unclaimed_fds o'"
  shows "(m_fds m = [] \<longrightarrow> Rights_serialize e m = Inl (UsageError ''Attempt to serialize empty vector of FileNum'')) \<and>
    (m_fds m \<noteq> [] \<longrightarrow> (\<exists>c. Rights_serialize e m = Inr c \<and>
       Rights_deserialize e (received pre (SendControl_raw c) post) (o', w) =
         (Ret (), (\<lparr>m_fds = m_fds m, m_unclaimed_fds = True\<rparr>, w)) \<and>
       Credentials_deserialize e (received pre (SendControl_raw c) post) (d, w) =
         (Throw (RuntimeError ''ancillary message type mismatch''), (d, w)))) \<and>
    Credentials_deserialize e (received pre (SendControl_raw (Credentials_serialize e cr)) post) (d, w) = (Ret (), (cr, w)) \<and>
    Rights_deserialize e (received pre (SendControl_raw (Credentials_serialize e cr)) post) (o', w) =
      (Throw (RuntimeError ''ancillary message type mismatch''), (o', w))"
proof -
  let ?rights = "cmsg_bytes e (of_int (OptLevel_value OPT_SOCKET), of_int (UnixMessage_value UNIX_RIGHTS), fds_data e (m_fds m))"
  let ?creds = "cmsg_bytes e (of_int (OptLevel_value OPT_SOCKET), of_int (UnixMessage_value UNIX_CREDENTIALS), cred_bytes e cr)"
  have len: "length (fds_data e (m_fds m)) < 2 ^ 32" "length (cred_bytes e cr) = 12"
    using assms(2) by (simp_all add: MAX_FDS_def cred_bytes_def)
  have creds: "Credentials_serialize e cr = \<lparr>sc_buffer = ?creds\<rparr>"
    using createMsg_store[OF len(2)] by (simp add: Credentials_serialize_def)
  note f = received_fields[OF len(1)] and g = received_fields[of "cred_bytes e cr", unfolded len(2), simplified]
  have fds: "fds_of_data e (4 * length (m_fds m)) (fds_data e (m_fds m) @ rest) = Some (m_fds m)" for rest
    using fds_of_data_fds[OF assms(1), of 0 e rest] by simp
  have "Rights_deserialize e (received pre ?rights post) (o', w) =
      (Ret (), (\<lparr>m_fds = m_fds m, m_unclaimed_fds = True\<rparr>, w))" if "m_fds m \<noteq> []"
    using that assms(3) by (simp add: Rights_deserialize_def checkMsg_def f fds clearFDs_unclaimed act_defs)
  moreover have "Credentials_deserialize e (received pre ?rights post) (d, w) =
      (Throw (RuntimeError ''ancillary message type mismatch''), (d, w))"
    by (simp add: Credentials_deserialize_def checkMsg_def f act_defs)
  moreover have "rc_dataLength e (received pre ?creds post) = 12"
    using g(3)[of e pre _ _ post] by (simp add: word_unat_eq_iff)
  then have "Credentials_deserialize e (received pre ?creds post) (d, w) = (Ret (), (cr, w))"
    using len(2) by (simp add: Credentials_deserialize_def checkMsg_def g act_defs cred_of_cred_bytes)
  moreover have "Rights_deserialize e (received pre ?creds post) (o', w) =
      (Throw (RuntimeError ''ancillary message type mismatch''), (o', w))"
    by (simp add: Rights_deserialize_def checkMsg_def g act_defs)
  ultimately show ?thesis
    using Rights_serialize_bytes[of m e] by (auto simp: creds SendControl_raw_def Rights_serialize_def)
qed

theorem ancillary_roundtrip_witness:
  "\<exists>c. Rights_serialize BIG \<lparr>m_fds = [3, 7, 5], m_unclaimed_fds = False\<rparr> = Inr c \<and>
     Rights_deserialize BIG (received [] (SendControl_raw c) []) (Rights_default, world_of []) =
       (Ret (), (\<lparr>m_fds = [3, 7, 5], m_unclaimed_fds = True\<rparr>, world_of []))"
  using ancillary_roundtrip[of "\<lparr>m_fds = [3, 7, 5], m_unclaimed_fds = False\<rparr>" Rights_default BIG "[]" "[]" "world_of []"]
  by (auto simp: int_range_def MAX_FDS_def Rights_default_def)

subsection \<open>Iterating over received messages\<close>

type_synonym cmsg = "32 word \<times> 32 word \<times> string"

definition msgs_bytes :: "Endian \<Rightarrow> cmsg list \<Rightarrow> string" where
  "msgs_bytes e ms = concat (map (cmsg_bytes e) ms)"

definition cmsg_data :: "cmsg \<Rightarrow> string" where
  "cmsg_data m = snd (snd m)"

definition padding :: "cmsg \<Rightarrow> nat" where
  "padding m = CMSG_ALIGN (length (cmsg_data m)) - length (cmsg_data m)"

text \<open>The iterator after a number of increments.\<close>

fun advance :: "Endian \<Rightarrow> nat \<Rightarrow> ControlMessageIterator \<Rightarrow> exn + ControlMessageIterator" where
  "advance e 0 it = Inr it"
| "advance e (Suc n) it = (case advance e n it of Inl x \<Rightarrow> Inl x | Inr it' \<Rightarrow> iterator_next e it')"

lemma length_one_message: "length (cmsg_bytes e m) = cmsg_hdr + CMSG_ALIGN (length (cmsg_data m))"
  by (cases m) (simp add: length_cmsg_bytes cmsg_data_def)

lemma msgs_bytes_simps [simp]:
  "msgs_bytes e [] = []" "msgs_bytes e (m # ms) = cmsg_bytes e m @ msgs_bytes e ms"
  "msgs_bytes e (ms @ ns) = msgs_bytes e ms @ msgs_bytes e ns"
  by (simp_all add: msgs_bytes_def)

lemma msgs_bytes_room: "ms \<noteq> [] \<Longrightarrow> cmsg_hdr + padding (last ms) \<le> length (msgs_bytes e ms)"
  by (cases ms rule: rev_cases) (simp_all add: length_one_message padding_def)

text \<open>A header that was filled with messages; the padding of the last one need not be there.\<close>

definition holds_messages :: "Endian \<Rightarrow> ReceiveMessageHeader \<Rightarrow> cmsg list \<Rightarrow> nat \<Rightarrow> string \<Rightarrow> bool" where
  "holds_messages e h ms trim rest \<longleftrightarrow> control_mem h = msgs_bytes e ms @ rest \<and>
     msg_controllen h + trim = length (msgs_bytes e ms) \<and>
     trim \<le> (if ms = [] then 0 else padding (last ms)) \<and>
     (\<forall>m\<in>set ms. length (cmsg_data m) < 2 ^ 32)"

lemma holds_messagesD:
  assumes "holds_messages e h ms trim rest"
  shows "control_mem h = msgs_bytes e ms @ rest" "msg_controllen h + trim = length (msgs_bytes e ms)"
    "trim \<le> (if ms = [] then 0 else padding (last ms))" "m \<in> set ms \<Longrightarrow> length (cmsg_data m) < 2 ^ 32"
  using assms by (simp_all add: holds_messages_def)

definition iterator_at :: "Endian \<Rightarrow> ReceiveMessageHeader \<Rightarrow> cmsg list \<Rightarrow> nat \<Rightarrow> ControlMessageIterator" where
  "iterator_at e h ms k = (if k < length ms
     then \<lparr>m_pos = Some (length (msgs_bytes e (take k ms))),
       m_curmsg = Some \<lparr>rc_mem = control_mem h, rc_off = length (msgs_bytes e (take k ms))\<rparr>, m_header = Some h\<rparr>
     else \<lparr>m_pos = None, m_curmsg = None, m_header = Some h\<rparr>)"

lemma parts:
  assumes "holds_messages e h ms trim rest" "k < length ms"
  shows "control_mem h = msgs_bytes e (take k ms) @ cmsg_bytes e (ms ! k) @ msgs_bytes e (drop (Suc k) ms) @ rest"
proof -
  have "msgs_bytes e (take k ms @ ms ! k # drop (Suc k) ms) = msgs_bytes e ms"
    using assms(2) by (simp only: id_take_nth_drop[symmetric])
  then show ?thesis using holds_messagesD(1)[OF assms(1)] by simp
qed

lemma begin_at:
  assumes "holds_messages e h ms trim rest"
  shows "recv_begin h = iterator_at e h ms 0"
proof (cases "ms = []")
  case True
  with holds_messagesD(2,3)[OF assms] show ?thesis by (simp add: recv_begin_def iterator_at_def updateCurMsg_def CMSG_FIRSTHDR_def cmsg_hdr_def)
next
  case False
  with msgs_bytes_room[OF False, of e] holds_messagesD(2,3)[OF assms] have "cmsg_hdr \<le> msg_controllen h" by auto
  with False show ?thesis by (simp add: recv_begin_def iterator_at_def updateCurMsg_def CMSG_FIRSTHDR_def)
qed

lemma next_at:
  assumes holds: "holds_messages e h ms trim rest" and k: "k < length ms"
  shows "iterator_next e (iterator_at e h ms k) = Inr (iterator_at e h ms (Suc k))"
proof -
  obtain l t d where m: "ms ! k = (l, t, d)" by (cases "ms ! k")
  let ?p = "length (msgs_bytes e (take k ms))" and ?r = "length (msgs_bytes e (drop (Suc k) ms))"
  have "length d < 2 ^ 32" using holds_messagesD(4)[OF holds nth_mem[OF k]] m by (simp add: cmsg_data_def)
  then have "unat (of_nat (cmsg_hdr + length d) :: 64 word) = cmsg_hdr + length d"
    by (simp add: unat_of_nat cmsg_hdr_def del: of_nat_add)
  then have clen: "unat (cmsg_len e (control_mem h) ?p) = cmsg_hdr + length d"
    using cmsg_fields(1)[OF refl, of e "msgs_bytes e (take k ms)" l t d] parts[OF holds k] m by (simp del: of_nat_add)
  have "length (msgs_bytes e ms) = length (msgs_bytes e (take k ms @ ms ! k # drop (Suc k) ms))"
    using k by (simp only: id_take_nth_drop[symmetric])
  also have "\<dots> = ?p + (cmsg_hdr + CMSG_ALIGN (length d)) + ?r" by (simp add: m length_cmsg_bytes)
  finally have total: "msg_controllen h + trim = ?p + (cmsg_hdr + CMSG_ALIGN (length d)) + ?r" using holds_messagesD(2)[OF holds] by simp
  show ?thesis
  proof (cases "Suc k < length ms")
    case True
    then have ne: "drop (Suc k) ms \<noteq> []" by simp
    with holds_messagesD(3)[OF holds] True have "cmsg_hdr + trim \<le> ?r" using msgs_bytes_room[OF ne, of e] by (cases "ms = []") (auto simp: last_drop)
    with total have "\<not> msg_controllen h - ?p < cmsg_hdr + (cmsg_hdr + CMSG_ALIGN (length d))" by linarith
    moreover have "length (msgs_bytes e (take (Suc k) ms)) = ?p + (cmsg_hdr + CMSG_ALIGN (length d))"
      using k m by (simp add: take_Suc_conv_app_nth length_cmsg_bytes)
    ultimately show ?thesis
      using True k clen by (simp add: iterator_next_def iterator_at_def CMSG_NXTHDR_def updateCurMsg_def)
  next
    case False
    with total have "msg_controllen h - ?p < cmsg_hdr + (cmsg_hdr + CMSG_ALIGN (length d))"
      by (simp add: cmsg_hdr_def)
    with False k clen show ?thesis by (simp add: iterator_next_def iterator_at_def CMSG_NXTHDR_def updateCurMsg_def)
  qed
qed

lemma advance_at: "holds_messages e h ms trim rest \<Longrightarrow> k \<le> length ms \<Longrightarrow> advance e k (recv_begin h) = Inr (iterator_at e h ms k)"
  by (induction k) (simp_all add: begin_at next_at)

lemma deref_at:
  assumes "holds_messages e h ms trim rest" "k < length ms"
  shows "iterator_deref (iterator_at e h ms k) = Inr (received (msgs_bytes e (take k ms)) (cmsg_bytes e (ms ! k)) (msgs_bytes e (drop (Suc k) ms) @ rest))"
  using assms(2) parts[OF assms] by (simp add: iterator_deref_def iterator_at_def received_def)

text \<open>The contract of an iterator: what it spans are the messages from its position on.\<close>

definition messages_from :: "Endian \<Rightarrow> cmsg list \<Rightarrow> string \<Rightarrow> nat \<Rightarrow> RecvControl list" where
  "messages_from e ms rest k = map (\<lambda>i. received (msgs_bytes e (take i ms)) (cmsg_bytes e (ms ! i))
     (msgs_bytes e (drop (Suc i) ms) @ rest)) [k..<length ms]"

definition control_spans :: "Endian \<Rightarrow> ControlMessageIterator \<Rightarrow> RecvControl list \<Rightarrow> bool" where
  "control_spans e it xs \<longleftrightarrow> (\<exists>h ms trim rest k. holds_messages e h ms trim rest \<and> k \<le> length ms \<and>
     it = iterator_at e h ms k \<and> xs = messages_from e ms rest k)"

lemma messages_from_eq:
  "messages_from e ms rest k = [] \<longleftrightarrow> length ms \<le> k"
  "k < length ms \<Longrightarrow> messages_from e ms rest k = received (msgs_bytes e (take k ms)) (cmsg_bytes e (ms ! k))
     (msgs_bytes e (drop (Suc k) ms) @ rest) # messages_from e ms rest (Suc k)"
  by (auto simp: messages_from_def upt_conv_Cons)

interpretation control_range: input_range iterator_eq iterator_deref "iterator_next e" recv_end "control_spans e" for e
proof unfold_locales
  fix it :: ControlMessageIterator
  assume "control_spans e it []"
  then obtain h ms rest k where "it = iterator_at e h ms k" "k \<le> length ms" "messages_from e ms rest k = []"
    unfolding control_spans_def by metis
  then have it: "it = iterator_at e h ms (length ms)" by (simp add: messages_from_eq)
  then show "iterator_eq it recv_end" by (simp add: iterator_eq_def iterator_at_def recv_end_def)
  from it show "(\<exists>m. iterator_deref it = Inl (RuntimeError m)) \<and> (\<exists>m. iterator_next e it = Inl (RuntimeError m))"
    by (simp add: iterator_at_def iterator_deref_def iterator_next_def)
next
  fix it :: ControlMessageIterator and x xs
  assume "control_spans e it (x # xs)"
  then obtain h ms trim rest k where *: "holds_messages e h ms trim rest" "k \<le> length ms" "it = iterator_at e h ms k"
    "x # xs = messages_from e ms rest k" unfolding control_spans_def by metis
  then have k: "k < length ms" by (metis list.distinct(1) messages_from_eq(1) not_le)
  then have "Suc k \<le> length ms" "xs = messages_from e ms rest (Suc k)"
    using *(4) messages_from_eq(2)[OF k, of e rest] by simp_all
  with *(1) have "control_spans e (iterator_at e h ms (Suc k)) xs" unfolding control_spans_def by blast
  with * k messages_from_eq(2)[OF k, of e rest] deref_at[OF *(1) k] next_at[OF *(1) k]
  show "\<not> iterator_eq it recv_end \<and> iterator_deref it = Inr x \<and> (\<exists>it'. iterator_next e it = Inr it' \<and> control_spans e it' xs)"
    by (simp add: iterator_eq_def iterator_at_def recv_end_def)
qed

lemma loop_over_messages:
  assumes "holds_messages e h ms trim rest"
  shows "range_for iterator_eq iterator_deref (iterator_next e) recv_end (recv_begin h) = Some (Inr (messages_from e ms rest 0))"
  unfolding begin_at[OF assms] by (rule control_range.visits) (use assms in \<open>unfold control_spans_def, blast\<close>)

text \<open>
  C10: A control buffer that holds a sequence of messages is iterated exactly: after \<open>k\<close> increments
  the iterator shows the \<open>k\<close>-th message with its level, type and data, whether or not the padding
  of the last message is counted; after the last increment it equals \<^verbatim>\<open>end()\<close>, and
  dereferencing or incrementing it further throws.  A loop over the header ends after it has
  visited one message for each.
\<close>

theorem control_messages_are_iterated:
  assumes "holds_messages e h ms trim rest"
  shows "(\<forall>k<length ms. \<exists>it m. advance e k (recv_begin h) = Inr it \<and> \<not> iterator_eq it recv_end \<and> iterator_deref it = Inr m \<and>
       rc_level e m = sint (fst (ms ! k)) \<and> rc_type e m = sint (fst (snd (ms ! k))) \<and>
       take (unat (rc_dataLength e m)) (rc_data m) = cmsg_data (ms ! k)) \<and>
    (\<exists>it. advance e (length ms) (recv_begin h) = Inr it \<and> iterator_eq it recv_end \<and>
       iterator_deref it = Inl (RuntimeError ''Attempt to dereference an invalid ControlMessageIterator'') \<and>
       iterator_next e it = Inl (RuntimeError ''Attempt to increment ControlMessageIterator past the end'')) \<and>
    (\<exists>xs. range_for iterator_eq iterator_deref (iterator_next e) recv_end (recv_begin h) = Some (Inr xs) \<and>
       length xs = length ms \<and> (\<forall>k<length ms. rc_level e (xs ! k) = sint (fst (ms ! k)) \<and> rc_type e (xs ! k) = sint (fst (snd (ms ! k)))))"
proof (intro conjI allI impI)
  fix k assume k: "k < length ms"
  obtain l t d where m: "ms ! k = (l, t, d)" by (cases "ms ! k")
  have "length d < 2 ^ 32" using holds_messagesD(4)[OF assms nth_mem[OF k]] m by (simp add: cmsg_data_def)
  note f = received_fields[OF this]
  have "\<not> iterator_eq (iterator_at e h ms k) recv_end"
    using k by (simp add: iterator_eq_def iterator_at_def recv_end_def)
  with advance_at[OF assms, of k] deref_at[OF assms k] k m f
  show "\<exists>it m. advance e k (recv_begin h) = Inr it \<and> \<not> iterator_eq it recv_end \<and> iterator_deref it = Inr m \<and>
       rc_level e m = sint (fst (ms ! k)) \<and> rc_type e m = sint (fst (snd (ms ! k))) \<and>
       take (unat (rc_dataLength e m)) (rc_data m) = cmsg_data (ms ! k)"
    by (simp add: cmsg_data_def)
next
  show "\<exists>it. advance e (length ms) (recv_begin h) = Inr it \<and> iterator_eq it recv_end \<and>
       iterator_deref it = Inl (RuntimeError ''Attempt to dereference an invalid ControlMessageIterator'') \<and>
       iterator_next e it = Inl (RuntimeError ''Attempt to increment ControlMessageIterator past the end'')"
    using advance_at[OF assms, of "length ms"]
    by (simp add: iterator_eq_def recv_end_def iterator_deref_def iterator_next_def iterator_at_def)
next
  have "rc_level e (messages_from e ms rest 0 ! k) = sint (fst (ms ! k)) \<and> rc_type e (messages_from e ms rest 0 ! k) = sint (fst (snd (ms ! k)))"
    if k: "k < length ms" for k
    using received_fields(1,2)[of "snd (snd (ms ! k))" e] holds_messagesD(4)[OF assms nth_mem[OF k]] k
    by (cases "ms ! k") (simp add: messages_from_def cmsg_data_def)
  then show "\<exists>xs. range_for iterator_eq iterator_deref (iterator_next e) recv_end (recv_begin h) = Some (Inr xs) \<and>
       length xs = length ms \<and> (\<forall>k<length ms. rc_level e (xs ! k) = sint (fst (ms ! k)) \<and> rc_type e (xs ! k) = sint (fst (snd (ms ! k))))"
    using loop_over_messages[OF assms] by (simp add: messages_from_def)
qed

definition sample_received :: ReceiveMessageHeader where
  "sample_received = (let bs = msgs_bytes LITTLE [(1, 1, ''abcd''), (0, 2, ''x'')] in
     \<lparr>msg_name = None, msg_namelen = 0, msg_iov = None, msg_iovlen = 0, msg_control = Some bs,
       msg_controllen = length bs - 7, msg_flags = 0, m_io_flags = 0, recv_iovec = [], m_control_buffer = bs\<rparr>)"

theorem control_messages_are_iterated_witness:
  "\<exists>it m. advance LITTLE 1 (recv_begin sample_received) = Inr it \<and> iterator_deref it = Inr m \<and> rc_type LITTLE m = 2"
proof -
  have "holds_messages LITTLE sample_received [(1, 1, ''abcd''), (0, 2, ''x'')] 7 []"
    by (simp add: holds_messages_def sample_received_def control_mem_def length_one_message padding_def cmsg_data_def
        CMSG_ALIGN_def cmsg_hdr_def Let_def)
  from control_messages_are_iterated[OF this] show ?thesis by auto
qed

subsection \<open>Ownership of received descriptors\<close>






text \<open>The object after it has received descriptors, and a received message that holds some.\<close>

definition holding :: "FileNum list \<Rightarrow> UnixRightsMessage" where
  "holding fds = \<lparr>m_fds = fds, m_unclaimed_fds = (fds \<noteq> [])\<rparr>"


lemma holding_Nil: "holding [] = Rights_default"
  by (simp add: holding_def Rights_default_def)








subsection \<open>Headers\<close>

text \<open>
  Preparing a receive operation without a control buffer leaves the control buffer of an
  earlier one in the header, so that control messages are still received after
  \<^verbatim>\<open>clearControlBuffer()\<close>; preparing to send resets it.  A buffer smaller than a header is
  refused.
\<close>

theorem cleared_control_buffer_is_still_used:
  shows "\<exists>h'. clearControlBuffer (h, w) = (Ret (), (h', w)) \<and>
     msg_control (prepareReceive addr h') = msg_control h \<and> msg_controllen (prepareReceive addr h') = msg_controllen h"
    "control_msg s = None \<Longrightarrow> msg_control (prepareSend addr s) = None \<and> msg_controllen (prepareSend addr s) = 0"
    "0 < n \<Longrightarrow> n < 16 \<Longrightarrow> setControlBufferSize n (h, w) =
      (Throw (RuntimeError ''control buffer size smaller than control message header''), (h, w))"
    "n \<ge> 16 \<Longrightarrow> \<exists>h' m. setControlBufferSize n (h, w) = (Ret (), (h', w)) \<and>
      msg_control (prepareReceive addr h') = Some m \<and> length m = n \<and> msg_controllen (prepareReceive addr h') = n"
proof -
  show "\<exists>h'. clearControlBuffer (h, w) = (Ret (), (h', w)) \<and>
     msg_control (prepareReceive addr h') = msg_control h \<and> msg_controllen (prepareReceive addr h') = msg_controllen h"
    by (auto simp: clearControlBuffer_def setControlBufferSize_def act_defs prepareReceive_def RecvHeader_setAddress_def
        resetAddress_def setIov_def Let_def split: option.splits)
  show "n \<ge> 16 \<Longrightarrow> \<exists>h' m. setControlBufferSize n (h, w) = (Ret (), (h', w)) \<and>
      msg_control (prepareReceive addr h') = Some m \<and> length m = n \<and> msg_controllen (prepareReceive addr h') = n"
    by (auto simp: setControlBufferSize_def act_defs prepareReceive_def RecvHeader_setAddress_def
        resetAddress_def setIov_def Let_def cmsg_hdr_def resize_def split: option.splits)
qed (auto simp: prepareSend_def SendHeader_setAddress_def resetAddress_def setIov_def Let_def
    setControlBufferSize_def cmsg_hdr_def act_defs split: option.splits)

end
