(* ===== verification/SocketOptions.thy ===== *)
theory SocketOptions
  imports SocketMessages SubProcess
begin

text \<open>
  Socket options: the helpers of \<^verbatim>\<open>src/cosmos/private/sockopts.hxx\<close> and
  \<^verbatim>\<open>src/net/SockOptBase.cxx\<close>, and the classes of options built on them (\<^verbatim>\<open>SocketOptions\<close>,
  \<^verbatim>\<open>IP4Options\<close>, \<^verbatim>\<open>IP6Options\<close>, \<^verbatim>\<open>TCPOptions\<close>, \<^verbatim>\<open>UDPOptions\<close> and \<^verbatim>\<open>UnixOptions\<close>).  An options
  object is the file number of its socket; the classes differ in the option level they use.
\<close>

subsection \<open>The system calls\<close>

text \<open>
  The length the kernel stores through the pointer, when it stores one.  A failing call may
  store it as well.
\<close>

definition opt_len :: "answer \<Rightarrow> nat \<Rightarrow> nat" where
  "opt_len a len = (case outs a of [n] \<Rightarrow> nat n | _ \<Rightarrow> len)"

text \<open>The variant for a value of \<open>n\<close> bytes: the stored length and the bytes of the value.\<close>

definition getsockopt_ref :: "FileNum \<Rightarrow> int \<Rightarrow> int \<Rightarrow> nat \<Rightarrow> (world, nat \<times> string) act" where
  "getsockopt_ref sock lvl name n = bind (call ''getsockopt'' [I sock, I lvl, I name, I (int n)]) (\<lambda>a.
     if rv a \<noteq> 0 then bind get_errno (\<lambda>en.
       if en = errno_of Errno_RANGE then throw (RangeError ''getsockopt'' en (opt_len a n))
       else throw_ApiError ''getsockopt()'')
     else ret (opt_len a n, store (resize n []) (out a)))"

definition getsockopt_val :: "FileNum \<Rightarrow> int \<Rightarrow> int \<Rightarrow> nat \<Rightarrow> (world, string) act" where
  "getsockopt_val sock lvl name n = bind (getsockopt_ref sock lvl name n) (\<lambda>(len, v).
     if len \<noteq> n then throw (RuntimeError ''short getsockopt read'') else ret v)"

text \<open>The variant that updates the length through a pointer: the object is that length.\<close>

definition getsockopt_ptr :: "FileNum \<Rightarrow> int \<Rightarrow> int \<Rightarrow> (nat \<times> world, string) act" where
  "getsockopt_ptr sock lvl name = bind (this (\<lambda>len. len)) (\<lambda>len.
     bind (on_world (call ''getsockopt'' [I sock, I lvl, I name, I (int len)])) (\<lambda>a.
       andthen (set_this (\<lambda>_. opt_len a len))
         (if rv a \<noteq> 0 then on_world (throw_ApiError ''getsockopt()'') else ret (out a))))"

definition getsockopt_len :: "FileNum \<Rightarrow> int \<Rightarrow> int \<Rightarrow> nat \<Rightarrow> (world, nat \<times> string) act" where
  "getsockopt_len sock lvl name len = bind (with_local len (getsockopt_ptr sock lvl name)) (\<lambda>(v, n). ret (n, v))"

text \<open>Both variants that set an option pass the bytes of the value.\<close>

definition setsockopt_val :: "FileNum \<Rightarrow> int \<Rightarrow> int \<Rightarrow> string \<Rightarrow> (world, unit) act" where
  "setsockopt_val sock lvl name v = call_or_throw (\<lambda>r. r = 0) ''setsockopt'' [I sock, I lvl, I name, S v]
     (throw_ApiError ''setsockopt()'')"

definition setsockopt_ptr :: "FileNum \<Rightarrow> int \<Rightarrow> int \<Rightarrow> string \<Rightarrow> (world, unit) act" where
  "setsockopt_ptr sock lvl name v = call_or_throw (\<lambda>r. r = 0) ''setsockopt'' [I sock, I lvl, I name, S v]
     (throw_ApiError ''setsockopt()'')"

subsection \<open>SockOptBase\<close>

definition getIntOption :: "Endian \<Rightarrow> int \<Rightarrow> FileNum \<Rightarrow> int \<Rightarrow> (world, int) act" where
  "getIntOption e level sock name =
     bind (getsockopt_val sock level name 4) (\<lambda>v. ret (sint (host_word e v :: 32 word)))"

definition getBoolOption :: "Endian \<Rightarrow> int \<Rightarrow> FileNum \<Rightarrow> int \<Rightarrow> (world, bool) act" where
  "getBoolOption e level sock name =
     bind (getsockopt_val sock level name 4) (\<lambda>v. ret ((host_word e v :: 32 word) \<noteq> 0))"

definition setIntOption :: "Endian \<Rightarrow> int \<Rightarrow> FileNum \<Rightarrow> int \<Rightarrow> int \<Rightarrow> (world, unit) act" where
  "setIntOption e level sock name val = setsockopt_val sock level name (host_str e (of_int val :: 32 word))"

definition setBoolOption :: "Endian \<Rightarrow> int \<Rightarrow> FileNum \<Rightarrow> int \<Rightarrow> bool \<Rightarrow> (world, unit) act" where
  "setBoolOption e level sock name val = setIntOption e level sock name (if val then 1 else 0)"

text \<open>A string longer than \<^verbatim>\<open>max_size()\<close> cannot be resized to.\<close>

definition getStringOption :: "int \<Rightarrow> FileNum \<Rightarrow> int \<Rightarrow> nat \<Rightarrow> (world, string) act" where
  "getStringOption level sock name max_len = bind (getsockopt_len sock level name max_len) (\<lambda>(n, v).
     let buf = store (replicate max_len NUL) v in
     if n = 0 then throw (StdLengthError ''basic_string::_M_replace_aux'') else ret (resize (n - 1) buf))"

definition setStringOption :: "int \<Rightarrow> FileNum \<Rightarrow> int \<Rightarrow> string \<Rightarrow> (world, unit) act" where
  "setStringOption level sock name str = setsockopt_ptr sock level name str"

definition max_NAME :: nat where
  "max_NAME = 255"

text \<open>One round of the loop; the object is the buffer.\<close>

definition getPeerSec_round :: "int \<Rightarrow> FileNum \<Rightarrow> int \<Rightarrow> (string \<times> world, string option) act" where
  "getPeerSec_round level sock peersec = bind (this length) (\<lambda>size.
     catch (bind (on_world (getsockopt_len sock level peersec size)) (\<lambda>(n, v).
         andthen (set_this (\<lambda>buf. store buf v)) (bind (this (\<lambda>buf. buf)) (\<lambda>buf.
           if n = 0 \<or> size < n then abort out_of_bounds
           else let n = (if buf ! (n - 1) = NUL then n - 1 else n) in ret (Some (resize n buf))))))
       (\<lambda>ex. case ex of
           RangeError _ _ required \<Rightarrow>
             if required = 0 \<or> required < size then throw ex
             else andthen (set_this (\<lambda>buf. resize size buf)) (ret None)
         | _ \<Rightarrow> throw ex))"

definition getPeerSec :: "int \<Rightarrow> FileNum \<Rightarrow> int \<Rightarrow> (world, string) act" where
  "getPeerSec level sock peersec = bind (with_local (resize max_NAME [])
     (loop (\<lambda>(buf, w). length (answers w)) (getPeerSec_round level sock peersec))) (\<lambda>(s, _). ret s)"

subsection \<open>SocketOptions\<close>

text \<open>The names of the options of this level.\<close>

datatype (plugins only: lifting) SockOption = SO_DEBUG | SO_REUSEADDR | SO_TYPE | SO_ERROR |
    SO_KEEPALIVE | SO_LINGER | SO_REUSEPORT | SO_PASSCRED | SO_PEERCRED | SO_RCVLOWAT |
    SO_BINDTODEVICE | SO_ACCEPTCONN | SO_PEERSEC | SO_PASSSEC | SO_MARK | SO_PROTOCOL | SO_DOMAIN
    | SO_PEEK_OFF | SO_PEERGROUPS | SO_ZEROCOPY | SO_PEERPIDFD

primrec SockOption_value :: "SockOption \<Rightarrow> int" where
  "SockOption_value SO_DEBUG = 1"
| "SockOption_value SO_REUSEADDR = 2"
| "SockOption_value SO_TYPE = 3"
| "SockOption_value SO_ERROR = 4"
| "SockOption_value SO_KEEPALIVE = 9"
| "SockOption_value SO_LINGER = 0xd"
| "SockOption_value SO_REUSEPORT = 0xf"
| "SockOption_value SO_PASSCRED = 0x10"
| "SockOption_value SO_PEERCRED = 0x11"
| "SockOption_value SO_RCVLOWAT = 0x12"
| "SockOption_value SO_BINDTODEVICE = 0x19"
| "SockOption_value SO_ACCEPTCONN = 0x1e"
| "SockOption_value SO_PEERSEC = 0x1f"
| "SockOption_value SO_PASSSEC = 0x22"
| "SockOption_value SO_MARK = 0x24"
| "SockOption_value SO_PROTOCOL = 0x26"
| "SockOption_value SO_DOMAIN = 0x27"
| "SockOption_value SO_PEEK_OFF = 0x2a"
| "SockOption_value SO_PEERGROUPS = 0x3b"
| "SockOption_value SO_ZEROCOPY = 0x3c"
| "SockOption_value SO_PEERPIDFD = 0x4d"

abbreviation SOL_SOCKET :: int where
  "SOL_SOCKET \<equiv> OptLevel_value OPT_SOCKET"

definition so_get_int :: "Endian \<Rightarrow> SockOption \<Rightarrow> FileNum \<Rightarrow> (world, int) act" where
  "so_get_int e opt sock = getIntOption e SOL_SOCKET sock (SockOption_value opt)"

definition so_set_int :: "Endian \<Rightarrow> SockOption \<Rightarrow> int \<Rightarrow> FileNum \<Rightarrow> (world, unit) act" where
  "so_set_int e opt n sock = setIntOption e SOL_SOCKET sock (SockOption_value opt) n"

definition so_set_bool :: "Endian \<Rightarrow> SockOption \<Rightarrow> bool \<Rightarrow> FileNum \<Rightarrow> (world, unit) act" where
  "so_set_bool e opt b sock = setBoolOption e SOL_SOCKET sock (SockOption_value opt) b"

definition acceptsConnections :: "Endian \<Rightarrow> FileNum \<Rightarrow> (world, bool) act" where
  "acceptsConnections e sock = getBoolOption e SOL_SOCKET sock (SockOption_value SO_ACCEPTCONN)"

definition bindToDevice :: "string \<Rightarrow> FileNum \<Rightarrow> (world, unit) act" where
  "bindToDevice ifname sock = setStringOption SOL_SOCKET sock (SockOption_value SO_BINDTODEVICE) ifname"

definition boundDevice :: "FileNum \<Rightarrow> (world, string) act" where
  "boundDevice sock = getStringOption SOL_SOCKET sock (SockOption_value SO_BINDTODEVICE) MAX_NET_INTERFACE_NAME"

definition unbindDevice :: "FileNum \<Rightarrow> (world, unit) act" where
  "unbindDevice sock = bindToDevice [] sock"

definition enableDebug :: "Endian \<Rightarrow> bool \<Rightarrow> FileNum \<Rightarrow> (world, unit) act" where
  "enableDebug e on_off sock = so_set_bool e SO_DEBUG on_off sock"

definition setReuseAddress :: "Endian \<Rightarrow> bool \<Rightarrow> FileNum \<Rightarrow> (world, unit) act" where
  "setReuseAddress e on_off sock = so_set_bool e SO_REUSEADDR on_off sock"

definition setReusePort :: "Endian \<Rightarrow> bool \<Rightarrow> FileNum \<Rightarrow> (world, unit) act" where
  "setReusePort e on_off sock = so_set_bool e SO_REUSEPORT on_off sock"

definition setKeepalive :: "Endian \<Rightarrow> bool \<Rightarrow> FileNum \<Rightarrow> (world, unit) act" where
  "setKeepalive e on_off sock = so_set_bool e SO_KEEPALIVE on_off sock"

definition setZeroCopy :: "Endian \<Rightarrow> bool \<Rightarrow> FileNum \<Rightarrow> (world, unit) act" where
  "setZeroCopy e on_off sock = so_set_bool e SO_ZEROCOPY on_off sock"

definition sock_family :: "Endian \<Rightarrow> FileNum \<Rightarrow> (world, int) act" where
  "sock_family e sock = so_get_int e SO_DOMAIN sock"

definition sock_type :: "Endian \<Rightarrow> FileNum \<Rightarrow> (world, int) act" where
  "sock_type e sock = so_get_int e SO_TYPE sock"

definition sock_protocol :: "Endian \<Rightarrow> FileNum \<Rightarrow> (world, int) act" where
  "sock_protocol e sock = so_get_int e SO_PROTOCOL sock"

definition lastError :: "Endian \<Rightarrow> FileNum \<Rightarrow> (world, int) act" where
  "lastError e sock = so_get_int e SO_ERROR sock"

definition setReceiveLowerBound :: "Endian \<Rightarrow> int \<Rightarrow> FileNum \<Rightarrow> (world, unit) act" where
  "setReceiveLowerBound e n sock = so_set_int e SO_RCVLOWAT n sock"

definition setMark :: "Endian \<Rightarrow> 32 word \<Rightarrow> FileNum \<Rightarrow> (world, unit) act" where
  "setMark e mark sock = setsockopt_val sock SOL_SOCKET (SockOption_value SO_MARK) (host_str e mark)"

text \<open>\<^verbatim>\<open>struct linger\<close>: two numbers of type \<^verbatim>\<open>int\<close>; times are seconds of 64 bits.\<close>

record Linger =
  l_onoff :: "32 word"
  l_linger :: "32 word"

definition Linger_create :: "bool \<Rightarrow> 64 word \<Rightarrow> Linger" where
  "Linger_create on_off time = \<lparr>l_onoff = (if on_off then 1 else 0), l_linger = ucast time\<rparr>"

definition Linger_default :: Linger where
  "Linger_default = Linger_create False 0"

definition Linger_isEnabled :: "Linger \<Rightarrow> bool" where
  "Linger_isEnabled l \<longleftrightarrow> l_onoff l \<noteq> 0"

definition Linger_setEnabled :: "bool \<Rightarrow> Linger \<Rightarrow> Linger" where
  "Linger_setEnabled on_off l = l\<lparr>l_onoff := (if on_off then 1 else 0)\<rparr>"

definition Linger_setTime :: "64 word \<Rightarrow> Linger \<Rightarrow> Linger" where
  "Linger_setTime time l = l\<lparr>l_linger := ucast time\<rparr>"

definition Linger_time :: "Linger \<Rightarrow> 64 word" where
  "Linger_time l = scast (l_linger l)"

definition linger_bytes :: "Endian \<Rightarrow> Linger \<Rightarrow> string" where
  "linger_bytes e l = host_str e (l_onoff l) @ host_str e (l_linger l)"

definition linger_of_bytes :: "Endian \<Rightarrow> string \<Rightarrow> Linger" where
  "linger_of_bytes e m = \<lparr>l_onoff = host_word e (peek 0 4 m), l_linger = host_word e (peek 4 4 m)\<rparr>"

definition getLinger :: "Endian \<Rightarrow> FileNum \<Rightarrow> (world, Linger) act" where
  "getLinger e sock = bind (getsockopt_len sock SOL_SOCKET (SockOption_value SO_LINGER) 8) (\<lambda>(n, v).
     if n \<noteq> 8 then throw (RuntimeError ''getsockopt: short read on SO_LINGER'')
     else ret (linger_of_bytes e (store (linger_bytes e Linger_default) v)))"

definition setLinger :: "Endian \<Rightarrow> Linger \<Rightarrow> FileNum \<Rightarrow> (world, unit) act" where
  "setLinger e l sock = setsockopt_ptr sock SOL_SOCKET (SockOption_value SO_LINGER) (linger_bytes e l)"

subsection \<open>IP4Options and IP6Options\<close>

datatype MTUDiscoveryMode = MTU_WANT | MTU_DONT | MTU_DO | MTU_PROBE

primrec MTUDiscoveryMode_value :: "MTUDiscoveryMode \<Rightarrow> int" where
  "MTUDiscoveryMode_value MTU_WANT = 1"
| "MTUDiscoveryMode_value MTU_DONT = 0"
| "MTUDiscoveryMode_value MTU_DO = 2"
| "MTUDiscoveryMode_value MTU_PROBE = 3"

datatype ToS = TOS_LOWDELAY | TOS_THROUGHPUT | TOS_RELIABILITY | TOS_MINCOST

primrec ToS_value :: "ToS \<Rightarrow> 8 word" where
  "ToS_value TOS_LOWDELAY = 0x10"
| "ToS_value TOS_THROUGHPUT = 8"
| "ToS_value TOS_RELIABILITY = 4"
| "ToS_value TOS_MINCOST = 2"

datatype (plugins only: lifting) IP4Option = IP4O_TOS | IP4O_TTL | IP4O_HDRINCL |
    IP4O_ROUTER_ALERT | IP4O_RECVOPTS | IP4O_RETOPTS | IP4O_PKTINFO | IP4O_MTU_DISCOVER |
    IP4O_RECVERR | IP4O_RECVTTL | IP4O_RECVTOS | IP4O_MTU | IP4O_FREEBIND | IP4O_PASSSEC |
    IP4O_TRANSPARENT | IP4O_RECVORIGDSTADDR | IP4O_NODEFRAG | IP4O_BIND_ADDRESS_NO_PORT |
    IP4O_LOCAL_PORT_RANGE

primrec IP4Option_value :: "IP4Option \<Rightarrow> int" where
  "IP4Option_value IP4O_TOS = 1"
| "IP4Option_value IP4O_TTL = 2"
| "IP4Option_value IP4O_HDRINCL = 3"
| "IP4Option_value IP4O_ROUTER_ALERT = 5"
| "IP4Option_value IP4O_RECVOPTS = 6"
| "IP4Option_value IP4O_RETOPTS = 7"
| "IP4Option_value IP4O_PKTINFO = 8"
| "IP4Option_value IP4O_MTU_DISCOVER = 0xa"
| "IP4Option_value IP4O_RECVERR = 0xb"
| "IP4Option_value IP4O_RECVTTL = 0xc"
| "IP4Option_value IP4O_RECVTOS = 0xd"
| "IP4Option_value IP4O_MTU = 0xe"
| "IP4Option_value IP4O_FREEBIND = 0xf"
| "IP4Option_value IP4O_PASSSEC = 0x12"
| "IP4Option_value IP4O_TRANSPARENT = 0x13"
| "IP4Option_value IP4O_RECVORIGDSTADDR = 0x14"
| "IP4Option_value IP4O_NODEFRAG = 0x16"
| "IP4Option_value IP4O_BIND_ADDRESS_NO_PORT = 0x18"
| "IP4Option_value IP4O_LOCAL_PORT_RANGE = 0x33"

abbreviation IPPROTO_IP :: int where
  "IPPROTO_IP \<equiv> OptLevel_value OPT_IP"

definition ip4_set_bool :: "Endian \<Rightarrow> IP4Option \<Rightarrow> bool \<Rightarrow> FileNum \<Rightarrow> (world, unit) act" where
  "ip4_set_bool e opt b sock = setBoolOption e IPPROTO_IP sock (IP4Option_value opt) b"

definition setBindAddressNoPort :: "Endian \<Rightarrow> bool \<Rightarrow> FileNum \<Rightarrow> (world, unit) act" where
  "setBindAddressNoPort e on_off sock = ip4_set_bool e IP4O_BIND_ADDRESS_NO_PORT on_off sock"

definition setFreeBind :: "Endian \<Rightarrow> bool \<Rightarrow> FileNum \<Rightarrow> (world, unit) act" where
  "setFreeBind e on_off sock = ip4_set_bool e IP4O_FREEBIND on_off sock"

definition setHeaderIncluded :: "Endian \<Rightarrow> bool \<Rightarrow> FileNum \<Rightarrow> (world, unit) act" where
  "setHeaderIncluded e on_off sock = ip4_set_bool e IP4O_HDRINCL on_off sock"

definition setNoDefrag :: "Endian \<Rightarrow> bool \<Rightarrow> FileNum \<Rightarrow> (world, unit) act" where
  "setNoDefrag e on_off sock = ip4_set_bool e IP4O_NODEFRAG on_off sock"

definition ip4_setPassSecurity :: "Endian \<Rightarrow> bool \<Rightarrow> FileNum \<Rightarrow> (world, unit) act" where
  "ip4_setPassSecurity e on_off sock = ip4_set_bool e IP4O_PASSSEC on_off sock"

definition setPacketInfo :: "Endian \<Rightarrow> bool \<Rightarrow> FileNum \<Rightarrow> (world, unit) act" where
  "setPacketInfo e on_off sock = ip4_set_bool e IP4O_PKTINFO on_off sock"

definition ip4_setReceiveErrors :: "Endian \<Rightarrow> bool \<Rightarrow> FileNum \<Rightarrow> (world, unit) act" where
  "ip4_setReceiveErrors e on_off sock = ip4_set_bool e IP4O_RECVERR on_off sock"

definition setReceiveOptions :: "Endian \<Rightarrow> bool \<Rightarrow> FileNum \<Rightarrow> (world, unit) act" where
  "setReceiveOptions e on_off sock = ip4_set_bool e IP4O_RECVOPTS on_off sock"

definition setReceiveRawOptions :: "Endian \<Rightarrow> bool \<Rightarrow> FileNum \<Rightarrow> (world, unit) act" where
  "setReceiveRawOptions e on_off sock = ip4_set_bool e IP4O_RETOPTS on_off sock"

definition setReceiveOrigDestAddr :: "Endian \<Rightarrow> bool \<Rightarrow> FileNum \<Rightarrow> (world, unit) act" where
  "setReceiveOrigDestAddr e on_off sock = ip4_set_bool e IP4O_RECVORIGDSTADDR on_off sock"

definition setReceiveTOS :: "Endian \<Rightarrow> bool \<Rightarrow> FileNum \<Rightarrow> (world, unit) act" where
  "setReceiveTOS e on_off sock = ip4_set_bool e IP4O_RECVTOS on_off sock"

definition setReceiveTTL :: "Endian \<Rightarrow> bool \<Rightarrow> FileNum \<Rightarrow> (world, unit) act" where
  "setReceiveTTL e on_off sock = ip4_set_bool e IP4O_RECVTTL on_off sock"

definition ip4_setRouterAlert :: "Endian \<Rightarrow> bool \<Rightarrow> FileNum \<Rightarrow> (world, unit) act" where
  "ip4_setRouterAlert e on_off sock = ip4_set_bool e IP4O_ROUTER_ALERT on_off sock"

definition setTransparentProxying :: "Endian \<Rightarrow> bool \<Rightarrow> FileNum \<Rightarrow> (world, unit) act" where
  "setTransparentProxying e on_off sock = ip4_set_bool e IP4O_TRANSPARENT on_off sock"

definition setLocalPortRange :: "Endian \<Rightarrow> 16 word \<Rightarrow> 16 word \<Rightarrow> FileNum \<Rightarrow> (world, unit) act" where
  "setLocalPortRange e lower_bound upper_bound sock = setsockopt_val sock IPPROTO_IP (IP4Option_value IP4O_LOCAL_PORT_RANGE)
     (host_str e (push_bit 16 (ucast upper_bound :: 32 word) OR ucast lower_bound))"

definition resetLocalPortRange :: "Endian \<Rightarrow> FileNum \<Rightarrow> (world, unit) act" where
  "resetLocalPortRange e sock = setLocalPortRange e 0 0 sock"

definition getLocalPortRange :: "Endian \<Rightarrow> FileNum \<Rightarrow> (world, 16 word \<times> 16 word) act" where
  "getLocalPortRange e sock = bind (getsockopt_val sock IPPROTO_IP (IP4Option_value IP4O_LOCAL_PORT_RANGE) 4) (\<lambda>v.
     let bounds = (host_word e v :: 32 word) in ret (ucast (drop_bit 16 bounds), ucast bounds))"

definition ip4_getMTU :: "Endian \<Rightarrow> FileNum \<Rightarrow> (world, int) act" where
  "ip4_getMTU e sock = getIntOption e IPPROTO_IP sock (IP4Option_value IP4O_MTU)"

definition ip4_getMTUDiscoveryMode :: "Endian \<Rightarrow> FileNum \<Rightarrow> (world, int) act" where
  "ip4_getMTUDiscoveryMode e sock = getIntOption e IPPROTO_IP sock (IP4Option_value IP4O_MTU_DISCOVER)"

definition getTimeToLive :: "Endian \<Rightarrow> FileNum \<Rightarrow> (world, int) act" where
  "getTimeToLive e sock = getIntOption e IPPROTO_IP sock (IP4Option_value IP4O_TTL)"

definition ip4_setMTUDiscoveryMode :: "Endian \<Rightarrow> MTUDiscoveryMode \<Rightarrow> FileNum \<Rightarrow> (world, unit) act" where
  "ip4_setMTUDiscoveryMode e mode sock = setIntOption e IPPROTO_IP sock (IP4Option_value IP4O_MTU_DISCOVER) (MTUDiscoveryMode_value mode)"

definition setTimeToLive :: "Endian \<Rightarrow> int \<Rightarrow> FileNum \<Rightarrow> (world, unit) act" where
  "setTimeToLive e ttl sock = setIntOption e IPPROTO_IP sock (IP4Option_value IP4O_TTL) ttl"

definition setTypeOfService :: "ToS \<Rightarrow> FileNum \<Rightarrow> (world, unit) act" where
  "setTypeOfService tos sock = setsockopt_val sock IPPROTO_IP (IP4Option_value IP4O_TOS) (str_of_bytes [ToS_value tos])"

definition getTypeOfService :: "Endian \<Rightarrow> FileNum \<Rightarrow> (world, 8 word) act" where
  "getTypeOfService e sock = bind (getsockopt_val sock IPPROTO_IP (IP4Option_value IP4O_TOS) 1) (\<lambda>v. ret (host_word e v))"

datatype (plugins only: lifting) IP6Option = IP6O_ADDRFORM | IP6O_AUTHHDR | IP6O_UNICAST_HOPS |
    IP6O_ROUTER_ALERT | IP6O_MTU_DISCOVER | IP6O_MTU | IP6O_RECVERR | IP6O_V6ONLY |
    IP6O_RECVPKTINFO | IP6O_HOPLIMIT | IP6O_HOPOPTS | IP6O_RTHDR | IP6O_DSTOPTS

primrec IP6Option_value :: "IP6Option \<Rightarrow> int" where
  "IP6Option_value IP6O_ADDRFORM = 1"
| "IP6Option_value IP6O_AUTHHDR = 0xa"
| "IP6Option_value IP6O_UNICAST_HOPS = 0x10"
| "IP6Option_value IP6O_ROUTER_ALERT = 0x16"
| "IP6Option_value IP6O_MTU_DISCOVER = 0x17"
| "IP6Option_value IP6O_MTU = 0x18"
| "IP6Option_value IP6O_RECVERR = 0x19"
| "IP6Option_value IP6O_V6ONLY = 0x1a"
| "IP6Option_value IP6O_RECVPKTINFO = 0x31"
| "IP6Option_value IP6O_HOPLIMIT = 0x34"
| "IP6Option_value IP6O_HOPOPTS = 0x36"
| "IP6Option_value IP6O_RTHDR = 0x39"
| "IP6Option_value IP6O_DSTOPTS = 0x3b"

abbreviation IPPROTO_IPV6 :: int where
  "IPPROTO_IPV6 \<equiv> OptLevel_value OPT_IPV6"

definition ip6_set_bool :: "Endian \<Rightarrow> IP6Option \<Rightarrow> bool \<Rightarrow> FileNum \<Rightarrow> (world, unit) act" where
  "ip6_set_bool e opt b sock = setBoolOption e IPPROTO_IPV6 sock (IP6Option_value opt) b"

definition setReceivePktInfo :: "Endian \<Rightarrow> bool \<Rightarrow> FileNum \<Rightarrow> (world, unit) act" where
  "setReceivePktInfo e on_off sock = ip6_set_bool e IP6O_RECVPKTINFO on_off sock"

definition ip6_setReceiveErrors :: "Endian \<Rightarrow> bool \<Rightarrow> FileNum \<Rightarrow> (world, unit) act" where
  "ip6_setReceiveErrors e on_off sock = ip6_set_bool e IP6O_RECVERR on_off sock"

definition setReceiveRoutingHeader :: "Endian \<Rightarrow> bool \<Rightarrow> FileNum \<Rightarrow> (world, unit) act" where
  "setReceiveRoutingHeader e on_off sock = ip6_set_bool e IP6O_RTHDR on_off sock"

definition setReceiveAuthHeader :: "Endian \<Rightarrow> bool \<Rightarrow> FileNum \<Rightarrow> (world, unit) act" where
  "setReceiveAuthHeader e on_off sock = ip6_set_bool e IP6O_AUTHHDR on_off sock"

definition setReceiveDestOpts :: "Endian \<Rightarrow> bool \<Rightarrow> FileNum \<Rightarrow> (world, unit) act" where
  "setReceiveDestOpts e on_off sock = ip6_set_bool e IP6O_DSTOPTS on_off sock"

definition setReceiveHopOpts :: "Endian \<Rightarrow> bool \<Rightarrow> FileNum \<Rightarrow> (world, unit) act" where
  "setReceiveHopOpts e on_off sock = ip6_set_bool e IP6O_HOPOPTS on_off sock"

definition setReceiveHopLimit :: "Endian \<Rightarrow> bool \<Rightarrow> FileNum \<Rightarrow> (world, unit) act" where
  "setReceiveHopLimit e on_off sock = ip6_set_bool e IP6O_HOPLIMIT on_off sock"

definition ip6_setRouterAlert :: "Endian \<Rightarrow> bool \<Rightarrow> FileNum \<Rightarrow> (world, unit) act" where
  "ip6_setRouterAlert e on_off sock = ip6_set_bool e IP6O_ROUTER_ALERT on_off sock"

definition setV6Only :: "Endian \<Rightarrow> bool \<Rightarrow> FileNum \<Rightarrow> (world, unit) act" where
  "setV6Only e on_off sock = ip6_set_bool e IP6O_V6ONLY on_off sock"

definition ip6_getMTU :: "Endian \<Rightarrow> FileNum \<Rightarrow> (world, int) act" where
  "ip6_getMTU e sock = getIntOption e IPPROTO_IPV6 sock (IP6Option_value IP6O_MTU)"

definition ip6_getMTUDiscoveryMode :: "Endian \<Rightarrow> FileNum \<Rightarrow> (world, int) act" where
  "ip6_getMTUDiscoveryMode e sock = getIntOption e IPPROTO_IPV6 sock (IP6Option_value IP6O_MTU_DISCOVER)"

definition ip6_setMTUDiscoveryMode :: "Endian \<Rightarrow> MTUDiscoveryMode \<Rightarrow> FileNum \<Rightarrow> (world, unit) act" where
  "ip6_setMTUDiscoveryMode e mode sock = setIntOption e IPPROTO_IPV6 sock (IP6Option_value IP6O_MTU_DISCOVER) (MTUDiscoveryMode_value mode)"

definition setAddrForm :: "Endian \<Rightarrow> SocketFamily \<Rightarrow> FileNum \<Rightarrow> (world, unit) act" where
  "setAddrForm e family sock = setIntOption e IPPROTO_IPV6 sock (IP6Option_value IP6O_ADDRFORM) (SocketFamily_value family)"

definition ip6_setMTU :: "Endian \<Rightarrow> int \<Rightarrow> FileNum \<Rightarrow> (world, unit) act" where
  "ip6_setMTU e n sock = setIntOption e IPPROTO_IPV6 sock (IP6Option_value IP6O_MTU) n"

definition setUnicastHops :: "Endian \<Rightarrow> int \<Rightarrow> FileNum \<Rightarrow> (world, unit) act" where
  "setUnicastHops e n sock = setIntOption e IPPROTO_IPV6 sock (IP6Option_value IP6O_UNICAST_HOPS) n"

subsection \<open>TCPOptions and UDPOptions\<close>

datatype (plugins only: lifting) TCPOption = TCPO_NODELAY | TCPO_MAXSEG | TCPO_CORK |
    TCPO_KEEPIDLE | TCPO_KEEPINTVL | TCPO_KEEPCNT | TCPO_SYNCNT | TCPO_LINGER2 | TCPO_DEFER_ACCEPT
    | TCPO_WINDOW_CLAMP | TCPO_INFO | TCPO_QUICKACK | TCPO_CONGESTION | TCPO_USER_TIMEOUT |
    TCPO_FASTOPEN | TCPO_FASTOPEN_CONNECT

primrec TCPOption_value :: "TCPOption \<Rightarrow> int" where
  "TCPOption_value TCPO_NODELAY = 1"
| "TCPOption_value TCPO_MAXSEG = 2"
| "TCPOption_value TCPO_CORK = 3"
| "TCPOption_value TCPO_KEEPIDLE = 4"
| "TCPOption_value TCPO_KEEPINTVL = 5"
| "TCPOption_value TCPO_KEEPCNT = 6"
| "TCPOption_value TCPO_SYNCNT = 7"
| "TCPOption_value TCPO_LINGER2 = 8"
| "TCPOption_value TCPO_DEFER_ACCEPT = 9"
| "TCPOption_value TCPO_WINDOW_CLAMP = 0xa"
| "TCPOption_value TCPO_INFO = 0xb"
| "TCPOption_value TCPO_QUICKACK = 0xc"
| "TCPOption_value TCPO_CONGESTION = 0xd"
| "TCPOption_value TCPO_USER_TIMEOUT = 0x12"
| "TCPOption_value TCPO_FASTOPEN = 0x17"
| "TCPOption_value TCPO_FASTOPEN_CONNECT = 0x1e"

abbreviation IPPROTO_TCP :: int where
  "IPPROTO_TCP \<equiv> OptLevel_value OPT_TCP"

definition tcp_set_bool :: "Endian \<Rightarrow> TCPOption \<Rightarrow> bool \<Rightarrow> FileNum \<Rightarrow> (world, unit) act" where
  "tcp_set_bool e opt b sock = setBoolOption e IPPROTO_TCP sock (TCPOption_value opt) b"

text \<open>Counts and times of 64 bits are converted to \<^verbatim>\<open>int\<close>, which keeps their low 32 bits.\<close>

definition tcp_set_long :: "Endian \<Rightarrow> TCPOption \<Rightarrow> 64 word \<Rightarrow> FileNum \<Rightarrow> (world, unit) act" where
  "tcp_set_long e opt n sock = setIntOption e IPPROTO_TCP sock (TCPOption_value opt) (sint (ucast n :: 32 word))"

definition setCongestionControl :: "string \<Rightarrow> FileNum \<Rightarrow> (world, unit) act" where
  "setCongestionControl name sock = setStringOption IPPROTO_TCP sock (TCPOption_value TCPO_CONGESTION) name"

definition tcp_setCork :: "Endian \<Rightarrow> bool \<Rightarrow> FileNum \<Rightarrow> (world, unit) act" where
  "tcp_setCork e on_off sock = tcp_set_bool e TCPO_CORK on_off sock"

definition setNoDelay :: "Endian \<Rightarrow> bool \<Rightarrow> FileNum \<Rightarrow> (world, unit) act" where
  "setNoDelay e on_off sock = tcp_set_bool e TCPO_NODELAY on_off sock"

definition setQuickACK :: "Endian \<Rightarrow> bool \<Rightarrow> FileNum \<Rightarrow> (world, unit) act" where
  "setQuickACK e on_off sock = tcp_set_bool e TCPO_QUICKACK on_off sock"

definition setFastOpenConnect :: "Endian \<Rightarrow> bool \<Rightarrow> FileNum \<Rightarrow> (world, unit) act" where
  "setFastOpenConnect e on_off sock = tcp_set_bool e TCPO_FASTOPEN_CONNECT on_off sock"

definition tcp_pushCork :: "Endian \<Rightarrow> FileNum \<Rightarrow> (world, unit) act" where
  "tcp_pushCork e sock = tcp_setCork e True sock"

definition tcp_popCork :: "Endian \<Rightarrow> FileNum \<Rightarrow> (world, unit) act" where
  "tcp_popCork e sock = tcp_setCork e False sock"

definition setDeferAccept :: "Endian \<Rightarrow> 64 word \<Rightarrow> FileNum \<Rightarrow> (world, unit) act" where
  "setDeferAccept e n sock = tcp_set_long e TCPO_DEFER_ACCEPT n sock"

definition setKeepaliveCount :: "Endian \<Rightarrow> 64 word \<Rightarrow> FileNum \<Rightarrow> (world, unit) act" where
  "setKeepaliveCount e n sock = tcp_set_long e TCPO_KEEPCNT n sock"

definition setKeepaliveIdleTime :: "Endian \<Rightarrow> 64 word \<Rightarrow> FileNum \<Rightarrow> (world, unit) act" where
  "setKeepaliveIdleTime e n sock = tcp_set_long e TCPO_KEEPIDLE n sock"

definition setKeepaliveInterval :: "Endian \<Rightarrow> 64 word \<Rightarrow> FileNum \<Rightarrow> (world, unit) act" where
  "setKeepaliveInterval e n sock = tcp_set_long e TCPO_KEEPINTVL n sock"

definition setFinLinger :: "Endian \<Rightarrow> 64 word \<Rightarrow> FileNum \<Rightarrow> (world, unit) act" where
  "setFinLinger e n sock = tcp_set_long e TCPO_LINGER2 n sock"

definition setMaxSegmentSize :: "Endian \<Rightarrow> 64 word \<Rightarrow> FileNum \<Rightarrow> (world, unit) act" where
  "setMaxSegmentSize e n sock = tcp_set_long e TCPO_MAXSEG n sock"

definition setSynCount :: "Endian \<Rightarrow> 64 word \<Rightarrow> FileNum \<Rightarrow> (world, unit) act" where
  "setSynCount e n sock = tcp_set_long e TCPO_SYNCNT n sock"

definition setWindowClamp :: "Endian \<Rightarrow> 64 word \<Rightarrow> FileNum \<Rightarrow> (world, unit) act" where
  "setWindowClamp e n sock = tcp_set_long e TCPO_WINDOW_CLAMP n sock"

definition setFastOpen :: "Endian \<Rightarrow> 64 word \<Rightarrow> FileNum \<Rightarrow> (world, unit) act" where
  "setFastOpen e n sock = tcp_set_long e TCPO_FASTOPEN n sock"

definition setUserTimeout :: "Endian \<Rightarrow> 64 word \<Rightarrow> FileNum \<Rightarrow> (world, unit) act" where
  "setUserTimeout e n sock = setsockopt_val sock IPPROTO_TCP (TCPOption_value TCPO_USER_TIMEOUT) (host_str e (ucast n :: 32 word))"

text \<open>The size of the information is that of the headers the library was built with.\<close>

definition TCP_getInfo :: "nat \<Rightarrow> FileNum \<Rightarrow> (world, string) act" where
  "TCP_getInfo n sock = getsockopt_val sock IPPROTO_TCP (TCPOption_value TCPO_INFO) n"

datatype UDPOption = UDPO_CORK | UDPO_SEGMENT | UDPO_GRO

primrec UDPOption_value :: "UDPOption \<Rightarrow> int" where
  "UDPOption_value UDPO_CORK = 1"
| "UDPOption_value UDPO_SEGMENT = 0x67"
| "UDPOption_value UDPO_GRO = 0x68"

abbreviation IPPROTO_UDP :: int where
  "IPPROTO_UDP \<equiv> OptLevel_value OPT_UDP"

definition udp_setCork :: "Endian \<Rightarrow> bool \<Rightarrow> FileNum \<Rightarrow> (world, unit) act" where
  "udp_setCork e on_off sock = setBoolOption e IPPROTO_UDP sock (UDPOption_value UDPO_CORK) on_off"

definition udp_pushCork :: "Endian \<Rightarrow> FileNum \<Rightarrow> (world, unit) act" where
  "udp_pushCork e sock = udp_setCork e True sock"

definition udp_popCork :: "Endian \<Rightarrow> FileNum \<Rightarrow> (world, unit) act" where
  "udp_popCork e sock = udp_setCork e False sock"

definition setSendOffload :: "Endian \<Rightarrow> 16 word \<Rightarrow> FileNum \<Rightarrow> (world, unit) act" where
  "setSendOffload e segment_size sock = setIntOption e IPPROTO_UDP sock (UDPOption_value UDPO_SEGMENT) (uint segment_size)"

definition setReceiveOffload :: "Endian \<Rightarrow> bool \<Rightarrow> FileNum \<Rightarrow> (world, unit) act" where
  "setReceiveOffload e on_off sock = setBoolOption e IPPROTO_UDP sock (UDPOption_value UDPO_GRO) on_off"

subsection \<open>UnixOptions\<close>

definition setPassCredentials :: "Endian \<Rightarrow> bool \<Rightarrow> FileNum \<Rightarrow> (world, unit) act" where
  "setPassCredentials e on_off sock = so_set_bool e SO_PASSCRED on_off sock"

definition unix_setPassSecurity :: "Endian \<Rightarrow> bool \<Rightarrow> FileNum \<Rightarrow> (world, unit) act" where
  "unix_setPassSecurity e on_off sock = so_set_bool e SO_PASSSEC on_off sock"

text \<open>Nothing checks how much of the default credentials was overwritten.\<close>

definition unix_credentials :: "Endian \<Rightarrow> FileNum \<Rightarrow> (world, UnixCredentials) act" where
  "unix_credentials e sock = bind (getsockopt_len sock SOL_SOCKET (SockOption_value SO_PEERCRED) 12) (\<lambda>(_, v).
     ret (cred_of_bytes e (store (cred_bytes e UnixCredentials_default) v)))"

text \<open>
  The loop of \<^verbatim>\<open>supplementaryGroups()\<close>.  The object is the buffer for the group IDs, of which only
  the number of bytes matters before a call succeeds; the error is looked at by a handler of
  \<^verbatim>\<open>ApiError\<close>.
\<close>

definition groups_round :: "FileNum \<Rightarrow> (nat \<times> world, string option) act" where
  "groups_round sock = bind (this (\<lambda>n. n)) (\<lambda>n.
     bind (on_world (call ''getsockopt'' [I sock, I SOL_SOCKET, I (SockOption_value SO_PEERGROUPS), I (int (n * 4))])) (\<lambda>a.
       let len = opt_len a (n * 4) in
       if rv a = 0 then ret (Some (resize (len div 4 * 4) (store (replicate (n * 4) NUL) (out a))))
       else bind (on_world get_errno) (\<lambda>en.
         if en \<noteq> errno_of Errno_RANGE then throw (ApiError ''getsockopt()'' en)
         else if 128 * 4 < len then throw (ApiError ''getsockopt()'' en)
         else andthen (set_this (\<lambda>_. len div 4)) (ret None))))"

definition supplementaryGroups :: "FileNum \<Rightarrow> (world, string) act" where
  "supplementaryGroups sock = bind (with_local 16
     (loop (\<lambda>(n, w). length (answers w)) (groups_round sock))) (\<lambda>(s, _). ret s)"

definition unix_pidfd :: "Endian \<Rightarrow> FileNum \<Rightarrow> (world, ProcessFile) act" where
  "unix_pidfd e sock = bind (getsockopt_val sock SOL_SOCKET (SockOption_value SO_PEERPIDFD) 4) (\<lambda>v.
     ret \<lparr>pf_fd = FD (sint (host_word e v :: 32 word))\<rparr>)"

definition setPeekOffset :: "Endian \<Rightarrow> bool \<Rightarrow> 64 word \<Rightarrow> FileNum \<Rightarrow> (world, unit) act" where
  "setPeekOffset e on_off offset sock =
     so_set_int e SO_PEEK_OFF (sint (ucast (if on_off then offset else - 1) :: 32 word)) sock"

subsection \<open>Options are read as they were set\<close>

text \<open>What the kernel answers when asked for an option with these bytes.\<close>

abbreviation opt_answer :: "string \<Rightarrow> answer" where
  "opt_answer bs \<equiv> \<lparr>rv = 0, err = None, out = bs, outs = [int (length bs)]\<rparr>"

lemma store_all: "length bs = length buf \<Longrightarrow> store buf bs = bs"
  by (simp add: store_def)

lemma setsockopt_answered:
  assumes "answers w = a # as" "rv a = 0"
  shows "\<exists>w'. setsockopt_val sock lvl name v w = (Ret (), w') \<and> answers w' = as \<and>
    runs_to w [(Call ''setsockopt'' [I sock, I lvl, I name, S v], a)] w'"
  using assms by (auto simp: setsockopt_val_def act_defs kernel_defs runs_to_def)

lemma getsockopt_answered:
  assumes "answers w = opt_answer v # as" "length v = n"
  shows "\<exists>w'. getsockopt_val sock lvl name n w = (Ret v, w') \<and> answers w' = as \<and>
    runs_to w [(Call ''getsockopt'' [I sock, I lvl, I name, I (int n)], opt_answer v)] w'"
  using assms by (auto simp: getsockopt_val_def getsockopt_ref_def opt_len_def store_all act_defs kernel_defs runs_to_def)

lemma high_bit: "16 \<le> n \<Longrightarrow> \<not> bit (l :: 16 word) n"
  using bit_imp_le_length[of l n] by auto

lemma port_parts:
  "ucast (drop_bit 16 (push_bit 16 (ucast (u :: 16 word) :: 32 word)) OR drop_bit 16 (ucast (l :: 16 word))) = u"
  "ucast (push_bit 16 (ucast (u :: 16 word) :: 32 word) OR ucast (l :: 16 word)) = l"
  by (rule bit_word_eqI, simp add: bit_simps high_bit)+

text \<open>The world in which the kernel accepts an option and is then asked for it.\<close>

definition replying :: "world \<Rightarrow> string \<Rightarrow> world" where
  "replying w v = w\<lparr>answers := [ok 0, opt_answer v]\<rparr>"

text \<open>
  An option is stored as the bytes the setter passes, and the getter of the same option reads
  from them what was set: numbers, switches, linger settings, the type of service, and the
  range of local ports, which is given back with the upper bound first.
\<close>

theorem options_read_as_set:
  assumes "int_range n"
  shows "(let v = host_str e (of_int n :: 32 word) in
       \<exists>w1 w2. setIntOption e level sock name n (replying w v) = (Ret (), w1) \<and> getIntOption e level sock name w1 = (Ret n, w2) \<and>
         runs_to (replying w v) [(Call ''setsockopt'' [I sock, I level, I name, S v], ok 0),
           (Call ''getsockopt'' [I sock, I level, I name, I 4], opt_answer v)] w2) \<and>
    (\<exists>w1 w2. setBoolOption e level sock name b (replying w (host_str e (if b then 1 else 0 :: 32 word))) = (Ret (), w1) \<and>
       getBoolOption e level sock name w1 = (Ret b, w2)) \<and>
    (\<exists>w1 w2. setLocalPortRange e lo hi sock (replying w (host_str e (push_bit 16 (ucast hi :: 32 word) OR ucast lo))) = (Ret (), w1) \<and>
       getLocalPortRange e sock w1 = (Ret (hi, lo), w2)) \<and>
    (\<exists>w1 w2. setLinger e l sock (replying w (linger_bytes e l)) = (Ret (), w1) \<and> getLinger e sock w1 = (Ret l, w2)) \<and>
    (\<exists>w1 w2. setTypeOfService tos sock (replying w (str_of_bytes [ToS_value tos])) = (Ret (), w1) \<and>
       getTypeOfService e sock w1 = (Ret (ToS_value tos), w2))"
proof -
  have set: "\<exists>w'. setsockopt_val sock lvl nm v' (replying w v) = (Ret (), w') \<and> answers w' = [opt_answer v] \<and>
      runs_to (replying w v) [(Call ''setsockopt'' [I sock, I lvl, I nm, S v'], ok 0)] w'" for lvl nm v' v
    using setsockopt_answered[of "replying w v" "ok 0"] by (simp add: replying_def)
  have get: "\<exists>w2. getsockopt_val sock lvl nm (length v) w1 = (Ret v, w2) \<and>
      runs_to w1 [(Call ''getsockopt'' [I sock, I lvl, I nm, I (int (length v))], opt_answer v)] w2"
    if "answers w1 = [opt_answer v]" for lvl nm w1 v
    using getsockopt_answered[OF that] by blast
  have both: "\<exists>w1 w2. setsockopt_val sock lvl nm v (replying w v) = (Ret (), w1) \<and>
      getsockopt_val sock lvl nm (length v) w1 = (Ret v, w2) \<and>
      runs_to (replying w v) [(Call ''setsockopt'' [I sock, I lvl, I nm, S v], ok 0),
         (Call ''getsockopt'' [I sock, I lvl, I nm, I (int (length v))], opt_answer v)] w2" for lvl nm v
  proof -
    from set[of lvl nm v v] obtain w1 where w1: "setsockopt_val sock lvl nm v (replying w v) = (Ret (), w1)"
      "answers w1 = [opt_answer v]" "runs_to (replying w v) [(Call ''setsockopt'' [I sock, I lvl, I nm, S v], ok 0)] w1" by blast
    from get[OF w1(2), of lvl nm] obtain w2 where w2: "getsockopt_val sock lvl nm (length v) w1 = (Ret v, w2)"
      "runs_to w1 [(Call ''getsockopt'' [I sock, I lvl, I nm, I (int (length v))], opt_answer v)] w2" by blast
    from w1(1) w2(1) runs_to_trans[OF w1(3) w2(2)] show ?thesis by auto
  qed
  have int: "\<exists>w1 w2. setIntOption e lvl sock nm k (replying w v) = (Ret (), w1) \<and> getIntOption e lvl sock nm w1 = (Ret k, w2) \<and>
         getBoolOption e lvl sock nm w1 = (Ret (k \<noteq> 0), w2) \<and>
         runs_to (replying w v) [(Call ''setsockopt'' [I sock, I lvl, I nm, S v], ok 0),
           (Call ''getsockopt'' [I sock, I lvl, I nm, I 4], opt_answer v)] w2"
    if "v = host_str e (of_int k :: 32 word)" "int_range k" for v lvl nm k
  proof -
    have "((of_int k :: 32 word) \<noteq> 0) = (k \<noteq> 0)" using sint_of_int_range[OF that(2)] by force
    then show ?thesis
      using both[of lvl nm v] that by (auto simp: setIntOption_def getIntOption_def getBoolOption_def sint_of_int_range bind_Ret ret_def)
  qed
  have "int_range (if b then 1 else 0)" by (simp add: int_range_def)
  from int[OF refl this, of level name] have bool: "\<exists>w1 w2. setBoolOption e level sock name b
      (replying w (host_str e (if b then 1 else 0 :: 32 word))) = (Ret (), w1) \<and> getBoolOption e level sock name w1 = (Ret b, w2)"
    by (cases b) (auto simp: setBoolOption_def)
  have ports: "\<exists>w1 w2. setLocalPortRange e lo hi sock (replying w (host_str e (push_bit 16 (ucast hi :: 32 word) OR ucast lo))) = (Ret (), w1) \<and>
       getLocalPortRange e sock w1 = (Ret (hi, lo), w2)"
    using both[of IPPROTO_IP "IP4Option_value IP4O_LOCAL_PORT_RANGE" "host_str e (push_bit 16 (ucast hi :: 32 word) OR ucast lo)"]
    by (auto simp: setLocalPortRange_def getLocalPortRange_def port_parts Let_def bind_Ret ret_def)
  have tos: "\<exists>w1 w2. setTypeOfService tos sock (replying w (str_of_bytes [ToS_value tos])) = (Ret (), w1) \<and>
       getTypeOfService e sock w1 = (Ret (ToS_value tos), w2)"
    using both[of IPPROTO_IP "IP4Option_value IP4O_TOS" "str_of_bytes [ToS_value tos]"]
    by (auto simp: setTypeOfService_def getTypeOfService_def host_word_def bind_Ret ret_def split: Endian.split)
  have linger: "\<exists>w1 w2. setLinger e l sock (replying w (linger_bytes e l)) = (Ret (), w1) \<and> getLinger e sock w1 = (Ret l, w2)"
    by (auto simp: setLinger_def getLinger_def setsockopt_ptr_def getsockopt_len_def getsockopt_ptr_def act_defs kernel_defs
        replying_def opt_len_def linger_bytes_def linger_of_bytes_def store_def peek_def)
  show ?thesis using int[OF refl assms(1), of level name] bool ports tos linger by (auto simp: Let_def)
qed

theorem options_read_as_set_witness:
  "\<exists>w1 w2. setIntOption BIG 1 5 17 (-7) (replying (world_of []) (host_str BIG (- 7 :: 32 word))) = (Ret (), w1) \<and>
     getIntOption BIG 1 5 17 w1 = (Ret (-7), w2)"
  using options_read_as_set[where n = "-7" and e = BIG and level = 1 and sock = 5 and name = 17 and w = "world_of []", THEN conjunct1]
  by (auto simp: int_range_def Let_def)

text \<open>
  The name of the device a socket is bound to is read without its terminator; for a socket
  that is not bound the kernel stores nothing, and the length is decremented below zero, which
  throws.  The security label of the peer loses its terminator when it has one; a label longer
  than the buffer is an error, although the code means to try again with a larger one.
\<close>

theorem string_options:
  assumes "length s < 16" "NUL \<notin> set s" "t \<noteq> []" "length t \<le> 255"
  shows "(\<exists>w'. boundDevice sock (w\<lparr>answers := [opt_answer (s @ [NUL])]\<rparr>) = (Ret s, w')) \<and>
    (\<exists>w'. boundDevice sock (w\<lparr>answers := [opt_answer []]\<rparr>) = (Throw (StdLengthError ''basic_string::_M_replace_aux''), w')) \<and>
    (\<exists>w'. getPeerSec level sock peersec (w\<lparr>answers := [opt_answer t]\<rparr>) = (Ret (if last t = NUL then butlast t else t), w')) \<and>
    (\<exists>w'. getPeerSec level sock peersec (w\<lparr>answers := [\<lparr>rv = -1, err = Some (errno_of Errno_RANGE), out = [], outs = [n]\<rparr>, g]\<rparr>) =
       (Throw (ApiError ''getsockopt()'' (errno_of Errno_RANGE)), w') \<and> answers w' = [g])"
proof -
  have "\<exists>w'. boundDevice sock (w\<lparr>answers := [opt_answer (s @ [NUL])]\<rparr>) = (Ret s, w')"
    using assms(1) by (auto simp: boundDevice_def getStringOption_def getsockopt_len_def getsockopt_ptr_def act_defs kernel_defs
        opt_len_def MAX_NET_INTERFACE_NAME_def store_def resize_def)
  moreover have "\<exists>w'. boundDevice sock (w\<lparr>answers := [opt_answer []]\<rparr>) = (Throw (StdLengthError ''basic_string::_M_replace_aux''), w')"
    by (auto simp: boundDevice_def getStringOption_def getsockopt_len_def getsockopt_ptr_def act_defs kernel_defs opt_len_def)
  moreover have buf: "resize n (store (resize 255 []) t) = take n t" if "n \<le> length t" for n
    using that assms(4) by (simp add: store_def resize_def)
  moreover have "store (resize 255 []) t ! (length t - 1) = last t"
    using assms(3,4) by (simp add: store_def nth_append last_conv_nth)
  ultimately show ?thesis
    using assms(3,4) by (auto simp: getPeerSec_def loop.simps getPeerSec_round_def getsockopt_len_def getsockopt_ptr_def
        act_defs kernel_defs opt_len_def max_NAME_def butlast_conv_take not_le)
qed

theorem string_options_witness:
  "\<exists>w'. boundDevice 3 ((world_of [])\<lparr>answers := [opt_answer (''eth0'' @ [NUL])]\<rparr>) = (Ret ''eth0'', w')"
  using string_options[of "''eth0''" "''t''" 3 "world_of []", THEN conjunct1] by (simp add: NUL_def)

text \<open>
  The groups of a peer that has more than the 16 the first buffer has room for are returned
  completely when the kernel asks for a larger buffer; more than 128 groups are an error.
\<close>

theorem supplementary_groups_complete:
  assumes "length bs = 4 * k" "16 < k"
  shows "(k \<le> 128 \<longrightarrow> (\<exists>w'. supplementaryGroups sock
        (w\<lparr>answers := [\<lparr>rv = -1, err = Some (errno_of Errno_RANGE), out = [], outs = [int (4 * k)]\<rparr>, opt_answer bs]\<rparr>) = (Ret bs, w'))) \<and>
    (128 < k \<longrightarrow> (\<exists>w'. supplementaryGroups sock
        (w\<lparr>answers := [\<lparr>rv = -1, err = Some (errno_of Errno_RANGE), out = [], outs = [int (4 * k)]\<rparr>, opt_answer bs]\<rparr>) =
        (Throw (ApiError ''getsockopt()'' (errno_of Errno_RANGE)), w')))"
  using assms by (auto simp: supplementaryGroups_def loop.simps groups_round_def act_defs kernel_defs opt_len_def store_def resize_def Let_def)

end
