(* ===== verification/Sockets.thy ===== *)
theory Sockets
  imports SocketOptions Files
begin

text \<open>
  Sockets: the base class (\<^verbatim>\<open>include/net/Socket.hxx\<close>, \<^verbatim>\<open>src/net/Socket.cxx\<close>), the classes of
  IP and UNIX sockets built on it (\<^verbatim>\<open>include/net/inet\<close>, \<^verbatim>\<open>include/net/unix\<close>,
  \<^verbatim>\<open>src/net/unix\<close>) and the pairs of connected sockets (\<^verbatim>\<open>src/net/network.cxx\<close>).  A socket is
  an \<^verbatim>\<open>FDFile\<close>: it owns its descriptor.  The operations on an open socket take its file number.
\<close>

subsection \<open>The base class\<close>

datatype Direction = SHUT_READ | SHUT_WRITE | SHUT_READ_WRITE

primrec Direction_value :: "Direction \<Rightarrow> int" where
  "Direction_value SHUT_READ = 0"
| "Direction_value SHUT_WRITE = 1"
| "Direction_value SHUT_READ_WRITE = 2"

text \<open>The default flags of sockets.\<close>

definition cloexec_socket :: "32 mask" where
  "cloexec_socket = BitMask_of_list [SocketFlag_value SOCK_CLOEXEC]"

definition type_arg :: "SocketType \<Rightarrow> 32 mask \<Rightarrow> int" where
  "type_arg type flags = sint (of_int (SocketType_value type) OR BitMask_raw flags)"

definition Socket_create :: "SocketFamily \<Rightarrow> SocketType \<Rightarrow> 32 mask \<Rightarrow> int \<Rightarrow> (world, FDFile) act" where
  "Socket_create family type flags protocol =
     bind (call ''socket'' [I (SocketFamily_value family), I (type_arg type flags), I protocol]) (\<lambda>a.
       let f = FDFile_default\<lparr>fb_fd := FD_setFD (rv a) FD_default\<rparr> in
       if \<not> FD_valid (fb_fd f) then throw_ApiError ''socket()'' else ret f)"

definition Socket_of_fd :: "FileDescriptor \<Rightarrow> bool \<Rightarrow> FDFile" where
  "Socket_of_fd fd auto_close = FDFile_open_fd fd auto_close FDFile_default"

text \<open>An address as the kernel is given it: the pointer to its bytes and its size.\<close>

definition addr_args :: "Endian \<Rightarrow> SocketAddress \<Rightarrow> arg list" where
  "addr_args e addr = [S (sent_bytes e addr), I (uint (address_size addr))]"

definition Socket_bind :: "Endian \<Rightarrow> FileNum \<Rightarrow> SocketAddress \<Rightarrow> (world, unit) act" where
  "Socket_bind e sock addr = call_or_throw (\<lambda>r. r = 0) ''bind'' (I sock # addr_args e addr) (throw_ApiError ''bind()'')"

definition Socket_connect :: "Endian \<Rightarrow> FileNum \<Rightarrow> SocketAddress \<Rightarrow> (world, unit) act" where
  "Socket_connect e sock addr =
     call_or_throw (\<lambda>r. r = 0) ''connect'' (I sock # addr_args e addr) (throw_ApiError ''connect()'')"

definition Socket_shutdown :: "FileNum \<Rightarrow> Direction \<Rightarrow> (world, unit) act" where
  "Socket_shutdown sock dir =
     call_or_throw (\<lambda>r. r = 0) ''shutdown'' [I sock, I (Direction_value dir)] (throw_ApiError ''shutdown()'')"

definition Socket_listen :: "FileNum \<Rightarrow> 64 word \<Rightarrow> (world, unit) act" where
  "Socket_listen sock backlog =
     call_or_throw (\<lambda>r. r = 0) ''listen'' [I sock, I (sint (ucast backlog :: 32 word))] (throw_ApiError ''listen()'')"

text \<open>
  Where a call stores an address the answer holds its bytes and, first of its numbers, the
  length; the object of these operations is the address of the caller.
\<close>

definition out_length :: "answer \<Rightarrow> 64 word" where
  "out_length a = (case outs a of n # _ \<Rightarrow> of_int n | [] \<Rightarrow> 0)"

definition Socket_accept :: "Endian \<Rightarrow> FileNum \<Rightarrow> 32 mask \<Rightarrow> (SocketAddress option \<times> world, FileDescriptor) act" where
  "Socket_accept e sock flags = bind (this (\<lambda>addr. addr)) (\<lambda>addr.
     bind (on_world (call ''accept4'' [I sock, I (case addr of None \<Rightarrow> 0 | Some a \<Rightarrow> uint (address_maxSize a)), I (sint (BitMask_raw flags))]))
       (\<lambda>ans. if rv ans = -1 then on_world (throw_ApiError ''accept()'')
         else andthen
           (case addr of None \<Rightarrow> ret ()
             | Some a \<Rightarrow> zoom (\<lambda>_. fill e (out ans) a) (\<lambda>a' _. Some a') (address_update (out_length ans)))
           (ret (FD (rv ans)))))"

definition Socket_send :: "FileNum \<Rightarrow> string \<Rightarrow> 32 mask \<Rightarrow> (world, nat) act" where
  "Socket_send sock buf flags = bind (call ''send'' [I sock, S buf, I (sint (BitMask_raw flags))]) (\<lambda>a.
     if rv a < 0 then throw_ApiError ''send()'' else ret (nat (rv a)))"

definition Socket_sendTo :: "Endian \<Rightarrow> FileNum \<Rightarrow> string \<Rightarrow> SocketAddress \<Rightarrow> 32 mask \<Rightarrow> (world, nat) act" where
  "Socket_sendTo e sock buf addr flags =
     bind (call ''sendto'' ([I sock, S buf, I (sint (BitMask_raw flags))] @ addr_args e addr)) (\<lambda>a.
       if rv a < 0 then throw_ApiError ''sendto()'' else ret (nat (rv a)))"

definition Socket_receive :: "FileNum \<Rightarrow> 64 word \<Rightarrow> 32 mask \<Rightarrow> (world, nat \<times> string) act" where
  "Socket_receive sock len flags =
     bind (call ''recv'' [I sock, I (uint len), I (sint (BitMask_raw flags))]) (\<lambda>a.
       if rv a < 0 then throw_ApiError ''recv()'' else ret (nat (rv a), stored a))"

text \<open>The answer holds the received data and behind them the address of the sender.\<close>

definition Socket_receiveFrom :: "Endian \<Rightarrow> FileNum \<Rightarrow> 64 word \<Rightarrow> 32 mask \<Rightarrow>
    (SocketAddress \<times> world, (nat \<times> string) \<times> bool) act" where
  "Socket_receiveFrom e sock len flags = bind (this address_maxSize) (\<lambda>maxlen.
     bind (on_world (call ''recvfrom'' [I sock, I (uint len), I (sint (BitMask_raw flags)), I (uint maxlen)])) (\<lambda>a.
       if rv a < 0 then on_world (throw_ApiError ''recvfrom()'')
       else let filled_in = (out_length a \<noteq> 0) in
         andthen (set_this (fill e (drop (nat (rv a)) (out a))))
         (andthen (whenA filled_in (address_update (out_length a)))
           (ret ((nat (rv a), stored a), filled_in)))))"

text \<open>The common code of \<^verbatim>\<open>getSockName()\<close> and \<^verbatim>\<open>getPeerName()\<close>, which differ in the call.\<close>

definition get_name :: "Endian \<Rightarrow> string \<Rightarrow> FileNum \<Rightarrow> (SocketAddress \<times> world, unit) act" where
  "get_name e f sock = bind (this address_maxSize) (\<lambda>maxlen.
     bind (on_world (call f [I sock, I (uint maxlen)])) (\<lambda>a.
       if rv a \<noteq> 0 then on_world (throw_ApiError (f @ ''()''))
       else andthen (set_this (fill e (out a))) (bind (this (\<lambda>addr. addr)) (\<lambda>addr.
         if sa_family addr \<noteq> family_field (address_family addr)
         then andthen (set_this (address_clear e))
           (throw (RuntimeError (f @ '': unexpected type of SocketAddress was returned'')))
         else address_update (out_length a)))))"

definition Socket_getSockName :: "Endian \<Rightarrow> FileNum \<Rightarrow> (SocketAddress \<times> world, unit) act" where
  "Socket_getSockName e sock = get_name e ''getsockname'' sock"

definition Socket_getPeerName :: "Endian \<Rightarrow> FileNum \<Rightarrow> (SocketAddress \<times> world, unit) act" where
  "Socket_getPeerName e sock = get_name e ''getpeername'' sock"

text \<open>The header as the kernel sees it: the address, the memory regions and the control data.\<close>

definition header_args :: "Endian \<Rightarrow> 'z MessageHeader_scheme \<Rightarrow> arg list" where
  "header_args e h =
     [L (case msg_name h of None \<Rightarrow> [] | Some a \<Rightarrow> [S (take (unat (msg_namelen h)) (basePtr e a))]),
      L (case msg_iov h of None \<Rightarrow> [] | Some v \<Rightarrow> [iovec_arg v]),
      L (case msg_control h of None \<Rightarrow> [] | Some m \<Rightarrow> [S (take (msg_controllen h) m)]),
      I (sint (BitMask_raw (ioFlags h)))]"

definition Socket_sendMessage :: "Endian \<Rightarrow> FileNum \<Rightarrow> SocketAddress option \<Rightarrow> (SendMessageHeader \<times> world, unit) act" where
  "Socket_sendMessage e sock addr = andthen (set_this (prepareSend addr)) (bind (this (\<lambda>h. h)) (\<lambda>h.
     bind (on_world (call ''sendmsg'' (I sock # header_args e h))) (\<lambda>a.
       if rv a < 0 then on_world (throw_ApiError ''sendmsg()'') else postSend (nat (rv a)))))"

text \<open>
  What \<^verbatim>\<open>recvmsg()\<close> stores: the three lengths and flags of the header, and as bytes the name,
  cut to the space for it, followed by the control data.
\<close>

definition recvmsg_stores :: "answer \<Rightarrow> ReceiveMessageHeader \<Rightarrow> ReceiveMessageHeader \<times> string" where
  "recvmsg_stores a h = (case outs a of
      [namelen, controllen, flags] \<Rightarrow>
        let space = (if msg_name h = None then 0 else min (nat namelen) (unat (msg_namelen h)));
            control = drop space (out a) in
        (h\<lparr>msg_namelen := of_int namelen, msg_controllen := nat controllen, msg_flags := of_int flags,
           msg_control := map_option (\<lambda>m. store m control) (msg_control h)\<rparr>, take space (out a))
    | _ \<Rightarrow> (h, []))"

definition Socket_receiveMessage :: "Endian \<Rightarrow> FileNum \<Rightarrow>
    ((ReceiveMessageHeader \<times> SocketAddress option) \<times> world, bool) act" where
  "Socket_receiveMessage e sock =
     andthen (set_this (\<lambda>(h, addr). (prepareReceive addr h, addr))) (bind (this fst) (\<lambda>h.
     bind (on_world (call ''recvmsg'' (I sock # header_args e h))) (\<lambda>a.
       if rv a < 0 then on_world (throw_ApiError ''recvmsg()'')
       else
         let (h', name) = recvmsg_stores a h in
         andthen (set_this (\<lambda>(_, addr). (h', map_option (fill e name) addr)))
         (bind (this snd) (\<lambda>addr.
           let filled = (addr \<noteq> None \<and> msg_namelen h' \<noteq> 0) in
           andthen (case addr of
               None \<Rightarrow> ret ()
             | Some ad \<Rightarrow> whenA filled
                 (zoom (\<lambda>_. ad) (\<lambda>a' (h, _). (h, Some a')) (address_update (ucast (msg_namelen h')))))
           (andthen (zoom fst (\<lambda>h (_, addr). (h, addr)) (postReceive (nat (rv a))))
             (ret filled)))))))"

subsection \<open>IP sockets\<close>

text \<open>A member function that works on an object and a local variable of its caller.\<close>

definition beside :: "'l \<Rightarrow> (('o \<times> 'l) \<times> 'w, 'a) act \<Rightarrow> ('o \<times> 'w, 'a \<times> 'l) act" where
  "beside l m s = (case m ((fst s, l), snd s) of
      (Ret x, ((o', l'), w')) \<Rightarrow> (Ret (x, l'), (o', w'))
    | (Throw ex, ((o', _), w')) \<Rightarrow> (Throw ex, (o', w'))
    | (Abort n, ((o', _), w')) \<Rightarrow> (Abort n, (o', w'))
    | (Blocked, ((o', _), w')) \<Rightarrow> (Blocked, (o', w')))"

text \<open>A default constructed address of a family; \<open>raw\<close> is the memory it is constructed in.\<close>

definition default_address :: "Endian \<Rightarrow> SocketAddress \<Rightarrow> SocketAddress" where
  "default_address e raw = (case raw of UNIXAddress u \<Rightarrow> UNIXAddress (UnixAddress_create (ua_addr u)) | _ \<Rightarrow> address_clear e raw)"

definition IPSocket_create :: "SocketFamily \<Rightarrow> SocketType \<Rightarrow> 32 mask \<Rightarrow> (world, FDFile) act" where
  "IPSocket_create family type flags = Socket_create family type flags SocketProtocol_DEFAULT"

definition TCPClientSocket_create :: "SocketFamily \<Rightarrow> 32 mask \<Rightarrow> (world, FDFile) act" where
  "TCPClientSocket_create family flags = IPSocket_create family SOCK_STREAM flags"

definition TCPListenSocket_create :: "SocketFamily \<Rightarrow> 32 mask \<Rightarrow> (world, FDFile) act" where
  "TCPListenSocket_create family flags = Socket_create family SOCK_STREAM flags SocketProtocol_DEFAULT"

definition UDPSocket_create :: "SocketFamily \<Rightarrow> 32 mask \<Rightarrow> (world, FDFile) act" where
  "UDPSocket_create family flags = IPSocket_create family SOCK_DGRAM flags"

definition TCPConnection_create :: "FileDescriptor \<Rightarrow> FDFile" where
  "TCPConnection_create fd = Socket_of_fd fd True"

text \<open>Connecting moves the descriptor from the client socket to the connection.\<close>

definition TCPClientSocket_connect :: "Endian \<Rightarrow> SocketAddress \<Rightarrow> (FDFile \<times> world, FDFile) act" where
  "TCPClientSocket_connect e addr = bind (this fb_fd) (\<lambda>fd.
     andthen (on_world (Socket_connect e (m_fd fd) addr))
       (let conn = TCPConnection_create fd in
        andthen (set_this (\<lambda>f. f\<lparr>fb_fd := FD_reset (fb_fd f)\<rparr>)) (ret conn)))"

definition TCPListenSocket_accept :: "Endian \<Rightarrow> FileNum \<Rightarrow> 32 mask \<Rightarrow> (SocketAddress option \<times> world, FDFile) act" where
  "TCPListenSocket_accept e sock flags = bind (Socket_accept e sock flags) (\<lambda>fd. ret (TCPConnection_create fd))"

definition UDPSocket_receiveFrom :: "Endian \<Rightarrow> SocketAddress \<Rightarrow> FileNum \<Rightarrow> 64 word \<Rightarrow> 32 mask \<Rightarrow>
    (world, (nat \<times> string) \<times> SocketAddress option) act" where
  "UDPSocket_receiveFrom e raw sock len flags =
     bind (with_local (default_address e raw) (Socket_receiveFrom e sock len flags)) (\<lambda>((data, filled), addr).
       ret (data, if filled then Some addr else None))"

definition sendMessageTo :: "Endian \<Rightarrow> FileNum \<Rightarrow> SocketAddress \<Rightarrow> (SendMessageHeader \<times> world, unit) act" where
  "sendMessageTo e sock addr = Socket_sendMessage e sock (Some addr)"

definition UDPSocket_receiveMessageFrom :: "Endian \<Rightarrow> SocketAddress \<Rightarrow> FileNum \<Rightarrow>
    (ReceiveMessageHeader \<times> world, SocketAddress option) act" where
  "UDPSocket_receiveMessageFrom e raw sock =
     bind (beside (Some (default_address e raw)) (Socket_receiveMessage e sock)) (\<lambda>(filled, addr).
       ret (if filled then addr else None))"

subsection \<open>UNIX sockets\<close>

text \<open>
  The constructors of connection mode sockets look at the type after the base class has created the
  socket, which its destructor closes when they throw.
\<close>

definition unix_connection_mode :: "SocketType \<Rightarrow> 32 mask \<Rightarrow> (world, FDFile) act" where
  "unix_connection_mode type flags =
     bind (Socket_create AF_UNIX type flags SocketProtocol_DEFAULT) (\<lambda>f.
       if type \<noteq> SOCK_STREAM \<and> type \<noteq> SOCK_SEQPACKET
       then scoped f (throw (RuntimeError ''invalid socket type for unix connection mode socket'')) FDFile_destroy
       else ret f)"

definition UnixClientSocket_create :: "SocketType \<Rightarrow> 32 mask \<Rightarrow> (world, FDFile) act" where
  "UnixClientSocket_create type flags = unix_connection_mode type flags"

definition UnixListenSocket_create :: "SocketType \<Rightarrow> 32 mask \<Rightarrow> (world, FDFile) act" where
  "UnixListenSocket_create type flags = unix_connection_mode type flags"

definition UnixConnection_create :: "FileDescriptor \<Rightarrow> FDFile" where
  "UnixConnection_create fd = Socket_of_fd fd True"

definition UnixClientSocket_connect :: "Endian \<Rightarrow> SocketAddress \<Rightarrow> (FDFile \<times> world, FDFile) act" where
  "UnixClientSocket_connect e addr = bind (this fb_fd) (\<lambda>fd.
     andthen (on_world (Socket_connect e (m_fd fd) addr))
       (let conn = UnixConnection_create fd in
        andthen (set_this (\<lambda>f. f\<lparr>fb_fd := FD_reset (fb_fd f)\<rparr>)) (ret conn)))"

definition UnixListenSocket_accept :: "Endian \<Rightarrow> FileNum \<Rightarrow> 32 mask \<Rightarrow> (SocketAddress option \<times> world, FDFile) act" where
  "UnixListenSocket_accept e sock flags = bind (Socket_accept e sock flags) (\<lambda>fd. ret (UnixConnection_create fd))"

definition UnixDatagramSocket_create :: "32 mask \<Rightarrow> (world, FDFile) act" where
  "UnixDatagramSocket_create flags = Socket_create AF_UNIX SOCK_DGRAM flags SocketProtocol_DEFAULT"

definition UnixDatagramSocket_receiveFrom :: "Endian \<Rightarrow> SocketAddress \<Rightarrow> FileNum \<Rightarrow> 64 word \<Rightarrow> 32 mask \<Rightarrow>
    (world, (nat \<times> string) \<times> SocketAddress option) act" where
  "UnixDatagramSocket_receiveFrom e raw sock len flags =
     bind (with_local (default_address e raw) (Socket_receiveFrom e sock len flags)) (\<lambda>((data, filled), addr).
       ret (data, if filled then Some addr else None))"

definition UnixDatagramSocket_receiveMessageFrom :: "Endian \<Rightarrow> SocketAddress \<Rightarrow> FileNum \<Rightarrow>
    (ReceiveMessageHeader \<times> world, SocketAddress option) act" where
  "UnixDatagramSocket_receiveMessageFrom e raw sock =
     bind (beside (Some (default_address e raw)) (Socket_receiveMessage e sock)) (\<lambda>(filled, addr).
       ret (if filled then addr else None))"

subsection \<open>Pairs of sockets, interfaces and the host name\<close>

definition create_socket_pair :: "SocketFamily \<Rightarrow> SocketType \<Rightarrow> 32 mask \<Rightarrow> int \<Rightarrow>
    (world, FileDescriptor \<times> FileDescriptor) act" where
  "create_socket_pair family type flags protocol =
     bind (call ''socketpair'' [I (SocketFamily_value family), I (type_arg type flags), I protocol]) (\<lambda>a.
       if rv a \<noteq> 0 then throw_ApiError ''socketpair()''
       else ret (FD (outs a ! 0), FD (outs a ! 1)))"

definition create_stream_socket_pair :: "32 mask \<Rightarrow> (world, FDFile \<times> FDFile) act" where
  "create_stream_socket_pair flags = bind (create_socket_pair AF_UNIX SOCK_STREAM flags 0) (\<lambda>(fd1, fd2).
     ret (UnixConnection_create fd1, UnixConnection_create fd2))"

definition create_seqpacket_socket_pair :: "32 mask \<Rightarrow> (world, FDFile \<times> FDFile) act" where
  "create_seqpacket_socket_pair flags = bind (create_socket_pair AF_UNIX SOCK_SEQPACKET flags 0) (\<lambda>(fd1, fd2).
     ret (UnixConnection_create fd1, UnixConnection_create fd2))"

definition create_dgram_socket_pair :: "32 mask \<Rightarrow> (world, FDFile \<times> FDFile) act" where
  "create_dgram_socket_pair flags = bind (create_socket_pair AF_UNIX SOCK_DGRAM flags 0) (\<lambda>(fd1, fd2).
     ret (Socket_of_fd fd1 True, Socket_of_fd fd2 True))"

definition name_to_index :: "string \<Rightarrow> (world, 32 word) act" where
  "name_to_index name = bind (call ''if_nametoindex'' [S name]) (\<lambda>a.
     if rv a = 0 then throw_ApiError ''if_nametoindex()'' else ret (of_int (rv a)))"

definition index_to_name :: "32 word \<Rightarrow> (world, string) act" where
  "index_to_name index = bind (call ''if_indextoname'' [I (uint index)]) (\<lambda>a.
     if rv a = 0 then throw_ApiError ''if_indextoname()''
     else ret (c_str (store (resize MAX_NET_INTERFACE_NAME []) (out a))))"

definition get_hostname :: "(world, string) act" where
  "get_hostname = bind (call ''gethostname'' [I (int MAX_HOSTNAME)]) (\<lambda>a.
     if rv a \<noteq> 0 then throw_ApiError ''gethostname()''
     else let buf = store (resize MAX_HOSTNAME []) (out a) in
       if last buf \<noteq> NUL then throw (RuntimeError ''gethostname() truncation occurred'')
       else ret (c_str buf))"

subsection \<open>Names of sockets\<close>

lemma peek_whole: "peek 0 (length s) (s @ t) = s"
  by (simp add: peek_def)

lemma sin_of_sin_bytes [simp]: "length (sin_zero a) = 8 \<Longrightarrow> sin_of_bytes e (sin_bytes e a) = a"
  by (simp add: sin_of_bytes_def sin_bytes_def peek_def)

lemma sin6_of_sin6_bytes [simp]: "length (sin6_addr a) = 16 \<Longrightarrow> sin6_of_bytes e (sin6_bytes e a) = a"
  by (simp add: sin6_of_bytes_def sin6_bytes_def peek_def)

lemma sll_of_sll_bytes [simp]: "length (sll_addr a) = 8 \<Longrightarrow> sll_of_bytes e (sll_bytes e a) = a"
  by (simp add: sll_of_bytes_def sll_bytes_def peek_def)

text \<open>Addresses a program can have made: the path of a UNIX address fits.\<close>

primrec valid_address :: "SocketAddress \<Rightarrow> bool" where
  "valid_address (IP4Address a) \<longleftrightarrow> sin_family a = family_field AF_INET"
| "valid_address (IP6Address a) \<longleftrightarrow> sin6_family a = family_field AF_INET6"
| "valid_address (UNIXAddress u) \<longleftrightarrow> sun_family (ua_addr u) = family_field AF_UNIX \<and> m_path_len u \<le> 107"
| "valid_address (LLAddress a) \<longleftrightarrow> sll_family a = family_field AF_PACKET"

primrec same_class :: "SocketAddress \<Rightarrow> SocketAddress \<Rightarrow> bool" where
  "same_class (IP4Address _) b \<longleftrightarrow> (\<exists>b'. b = IP4Address b')"
| "same_class (IP6Address _) b \<longleftrightarrow> (\<exists>b'. b = IP6Address b')"
| "same_class (UNIXAddress _) b \<longleftrightarrow> (\<exists>b'. b = UNIXAddress b')"
| "same_class (LLAddress _) b \<longleftrightarrow> (\<exists>b'. b = LLAddress b')"

text \<open>What the kernel stores for the name of a socket with this address.\<close>

definition name_answer :: "Endian \<Rightarrow> SocketAddress \<Rightarrow> answer" where
  "name_answer e a = \<lparr>rv = 0, err = None, out = sent_bytes e a, outs = [uint (address_size a)]\<rparr>"

lemma out_length_name [simp]: "out_length (name_answer e a) = address_size a"
  by (simp add: out_length_def name_answer_def)

text \<open>An address filled with the bytes of another one and updated with its size.\<close>

lemma fill_and_update:
  assumes "address_layout a" "address_layout b" "valid_address a" "same_class a b"
  shows "sa_family (fill e (sent_bytes e a) b) = family_field (address_family b) \<and>
    (\<exists>b'. address_update (address_size a) (fill e (sent_bytes e a) b, w) = (Ret (), (b', w)) \<and>
       sent_bytes e b' = sent_bytes e a \<and> address_size b' = address_size a)"
proof (cases a)
  case (UNIXAddress u)
  with assms(4) obtain v where b: "b = UNIXAddress v" by auto
  define n where "n = unat (m_path_len u)"
  have n: "m_path_len u = of_nat n" "n \<le> 107"
    using assms(3) UNIXAddress by (simp_all add: n_def word_le_nat_alt)
  let ?p = "take (n + 1) (sun_path (ua_addr u))"
  have l: "length ?p = n + 1" using assms(1) UNIXAddress n(2) by simp
  have sent: "sent_bytes e a = host_str e (sun_family (ua_addr u)) @ ?p"
    using sent_unix[OF _ n] assms(1) UNIXAddress by simp
  have size: "address_size a = of_nat (n + 3)"
    using UNIXAddress n(1) by (simp add: UnixAddress_size_def BASE_SIZE_def)
  let ?v = "v\<lparr>ua_addr := \<lparr>sun_family = sun_family (ua_addr u), sun_path = ?p @ drop (n + 1) (sun_path (ua_addr v))\<rparr>\<rparr>"
  have f: "fill e (sent_bytes e a) b = UNIXAddress ?v"
    using fill_unix[OF _ l n(2)] assms(2) b by (simp add: sent del: fill.simps)
  have "address_update (address_size a) (fill e (sent_bytes e a) b, w) = (Ret (), (UNIXAddress (?v\<lparr>m_path_len := of_nat n\<rparr>), w))"
    using update_unix[OF n(2)] by (simp add: f size del: of_nat_add)
  moreover have "sent_bytes e (UNIXAddress (?v\<lparr>m_path_len := of_nat n\<rparr>)) = sent_bytes e a"
    using sent_unix[of "?v\<lparr>m_path_len := of_nat n\<rparr>" n e] n(2) assms(2) b l by (simp add: sent)
  moreover have "address_size (UNIXAddress (?v\<lparr>m_path_len := of_nat n\<rparr>)) = address_size a"
    by (simp add: size UnixAddress_size_def BASE_SIZE_def)
  ultimately show ?thesis using f assms(3) UNIXAddress b by (auto simp del: fill.simps)
qed (use assms in \<open>auto simp: sent_bytes_def address_update_def SocketAddress_update_def act_defs
     length_basePtr[of a e, simplified] poke_def layout_defs peek_def\<close>)


lemma get_name_answered:
  assumes "address_layout a" "address_layout b" "valid_address a" "same_class a b" "answers w = name_answer e a # as"
  shows "\<exists>b' w'. get_name e f sock (b, w) = (Ret (), (b', w')) \<and> sent_bytes e b' = sent_bytes e a \<and>
    address_size b' = address_size a \<and> answers w' = as"
proof -
  let ?w = "w\<lparr>answers := as, trace := trace w @ [(Call f [I sock, I (uint (address_maxSize b))], name_answer e a)]\<rparr>"
  have c: "call f [I sock, I (uint (address_maxSize b))] w = (Ret (name_answer e a), ?w)"
    using assms(5) by (simp add: call_def name_answer_def)
  have o: "rv (name_answer e a) = 0" "out (name_answer e a) = sent_bytes e a" by (simp_all add: name_answer_def)
  from fill_and_update[OF assms(1-4), of e ?w] obtain b' where
    "sa_family (fill e (sent_bytes e a) b) = family_field (address_family b)"
    "address_update (address_size a) (fill e (sent_bytes e a) b, ?w) = (Ret (), (b', ?w))"
    "sent_bytes e b' = sent_bytes e a" "address_size b' = address_size a" by blast
  with c o show ?thesis
    by (intro exI[of _ b'] exI[of _ ?w]) (simp add: get_name_def act_defs)
qed

lemma fill_family:
  assumes "address_layout b" "length bs \<le> unat (address_maxSize b) - 2"
  shows "sa_family (fill e (host_str e (f :: 16 word) @ bs) b) = f"
  using assms by (cases b) (simp_all add: layout_defs poke_def peek_def)

lemma sa_family_set [simp]: "sa_family (set_sa_family f a) = f"
  by (cases a) simp_all

text \<open>
  A socket reports the address it was bound to.  Binding passes the bytes in use of the
  address; when the kernel names the socket with these bytes, \<^verbatim>\<open>getSockName()\<close> leaves any
  address of the same class with the same bytes and size, and \<^verbatim>\<open>getPeerName()\<close> does the same for
  the peer.  A name of another family clears the address and throws.
\<close>

theorem socket_names:
  assumes "address_layout a" "address_layout b" "valid_address a" "same_class a b"
    "f \<noteq> family_field (address_family b)" "length bs \<le> unat (address_maxSize b) - 2"
  shows "(\<exists>w'. Socket_bind e sock a (w\<lparr>answers := [ok 0, name_answer e a, name_answer e a]\<rparr>) = (Ret (), w') \<and>
      trace w' = trace w @ [(Call ''bind'' [I sock, S (sent_bytes e a), I (uint (address_size a))], ok 0)] \<and>
      (\<exists>b' v. Socket_getSockName e sock (b, w') = (Ret (), (b', v)) \<and> sent_bytes e b' = sent_bytes e a \<and>
         address_size b' = address_size a) \<and>
      (\<exists>b' v. Socket_getPeerName e sock (b, w') = (Ret (), (b', v)) \<and> sent_bytes e b' = sent_bytes e a \<and>
         address_size b' = address_size a)) \<and>
    (\<exists>b' v. Socket_getSockName e sock (b, w\<lparr>answers := [\<lparr>rv = 0, err = None, out = host_str e f @ bs, outs = [n]\<rparr>]\<rparr>) =
       (Throw (RuntimeError ''getsockname: unexpected type of SocketAddress was returned''), (b', v)) \<and>
       sa_family b' = family_field (address_family b) \<and> address_layout b')"
proof -
  obtain w' where w': "Socket_bind e sock a (w\<lparr>answers := [ok 0, name_answer e a, name_answer e a]\<rparr>) = (Ret (), w')"
    "answers w' = [name_answer e a, name_answer e a]"
    "trace w' = trace w @ [(Call ''bind'' [I sock, S (sent_bytes e a), I (uint (address_size a))], ok 0)]"
    by (simp add: Socket_bind_def addr_args_def act_defs kernel_defs)
  have "address_layout (address_clear e (fill e (host_str e f @ bs) b))"
    "sa_family (address_clear e (fill e (host_str e f @ bs) b)) = family_field (address_family b)"
    using assms(2) by (simp_all add: address_clear_def del: fill.simps)
  moreover have "\<exists>v. Socket_getSockName e sock (b, w\<lparr>answers := [\<lparr>rv = 0, err = None, out = host_str e f @ bs, outs = [n]\<rparr>]\<rparr>) =
       (Throw (RuntimeError ''getsockname: unexpected type of SocketAddress was returned''),
        (address_clear e (fill e (host_str e f @ bs) b), v))"
    using fill_family[OF assms(2,6), of e f] assms(5)
    by (simp add: Socket_getSockName_def get_name_def act_defs kernel_defs del: fill.simps)
  ultimately show ?thesis
    using w'(1,3) get_name_answered[OF assms(1-4) w'(2), of "''getsockname''" sock]
      get_name_answered[OF assms(1-4) w'(2), of "''getpeername''" sock]
    unfolding Socket_getSockName_def Socket_getPeerName_def by blast
qed

theorem socket_names_witness:
  "\<exists>w'. Socket_bind LITTLE 3 (IP6Address sin6_zero)
     ((world_of [])\<lparr>answers := [ok 0, name_answer LITTLE (IP6Address sin6_zero), name_answer LITTLE (IP6Address sin6_zero)]\<rparr>) = (Ret (), w')"
  using socket_names[of "IP6Address sin6_zero" "IP6Address sin6_zero" 0 "[]" LITTLE 3 "world_of []" 0]
  by (auto simp: sin6_zero_def family_field_def)

text \<open>
  C26: Who owns a descriptor.  A connection made from a client socket takes its descriptor over, so that
  destroying the client makes no call and destroying the connection closes it; when
  connecting fails the client keeps it.  A connection socket of the wrong type is closed before
  the error is thrown.  An accepted connection owns its new descriptor, but when
  the address of the peer is refused, after the kernel has made the descriptor, nobody owns it.
\<close>

theorem socket_ownership:
  assumes "0 \<le> fd" "0 \<le> c" "Fd c \<notin> live_in w" "type \<notin> {SOCK_STREAM, SOCK_SEQPACKET}"
  shows "(\<exists>cl conn w'. TCPClientSocket_connect e addr (Socket_of_fd (FD fd) True, w\<lparr>answers := [ok 0, ok 0]\<rparr>) = (Ret conn, (cl, w')) \<and>
      FDFile_destroy (cl, w') = (Ret (), (cl, w')) \<and>
      (\<exists>f' w''. FDFile_destroy (conn, w') = (Ret (), (f', w'')) \<and> trace w'' = trace w' @ [(Call ''close'' [I fd], ok 0)])) \<and>
    (\<exists>en w'. TCPClientSocket_connect e addr (Socket_of_fd (FD fd) True, w\<lparr>answers := [failed er]\<rparr>) =
      (Throw (ApiError ''connect()'' en), (Socket_of_fd (FD fd) True, w'))) \<and>
    (\<exists>w'. unix_connection_mode type flags (w\<lparr>answers := [ok c, ok 0]\<rparr>) =
        (Throw (RuntimeError ''invalid socket type for unix connection mode socket''), w') \<and> live_in w' = live_in w) \<and>
    (\<exists>conn w'. TCPListenSocket_accept e fd flags (None, w\<lparr>answers := [ok c]\<rparr>) = (Ret conn, (None, w')) \<and>
      live_in w' = live_in w \<union> {Fd c} \<and> fb_fd conn = FD c \<and> m_auto_close conn) \<and>
    (\<exists>a' w'. TCPListenSocket_accept e fd flags (Some (IP4Address a4), w\<lparr>answers := [\<lparr>rv = c, err = None, out = [], outs = [28]\<rparr>]\<rparr>) =
      (Throw (RuntimeError ''inconsistent socket address size on return''), (a', w')) \<and> live_in w' = live_in w \<union> {Fd c})"
proof -
  have names: "FD fd \<noteq> FD_default" "fd \<noteq> -1" "c \<noteq> -1"
    using assms(1,2) by (auto simp: FD_default_def FD_def)
  note defs = TCPClientSocket_connect_def TCPConnection_create_def Socket_of_fd_def FDFile_open_fd_def Socket_connect_def
    addr_args_def act_defs kernel_defs Let_def
  have connect: "\<exists>cl conn w'. TCPClientSocket_connect e addr (Socket_of_fd (FD fd) True, w\<lparr>answers := [ok 0, ok 0]\<rparr>) = (Ret conn, (cl, w')) \<and>
      FDFile_destroy (cl, w') = (Ret (), (cl, w')) \<and>
      (\<exists>f' w''. FDFile_destroy (conn, w') = (Ret (), (f', w'')) \<and> trace w'' = trace w' @ [(Call ''close'' [I fd], ok 0)])"
    using names by (simp add: defs FDFile_destroy_def FDFile_default_def FileBase_destroy_def FileBase_close_def
        FileBase_isOpen_def on_fd_def FD_close_def FD_reset_def FD_valid_def FD_default_def FD_def FDFile_close_def)
  have fails: "\<exists>en w'. TCPClientSocket_connect e addr (Socket_of_fd (FD fd) True, w\<lparr>answers := [failed er]\<rparr>) =
      (Throw (ApiError ''connect()'' en), (Socket_of_fd (FD fd) True, w'))"
    by (simp add: defs)
  have wrong: "\<exists>w'. unix_connection_mode type flags (w\<lparr>answers := [ok c, ok 0]\<rparr>) =
        (Throw (RuntimeError ''invalid socket type for unix connection mode socket''), w') \<and> live_in w' = live_in w"
    using names assms(2-4)
    by (auto simp: unix_connection_mode_def Socket_create_def act_defs kernel_defs Let_def FDFile_destroy_def FDFile_default_def
        FileBase_destroy_def FileBase_close_def FileBase_isOpen_def on_fd_def FD_close_def FD_reset_def FD_valid_def
        FD_default_def FD_def FD_setFD_def FDFile_close_def live_def opens_fd_def)
  have "\<exists>conn w'. TCPListenSocket_accept e fd flags (None, w\<lparr>answers := [ok c]\<rparr>) = (Ret conn, (None, w')) \<and>
      live_in w' = live_in w \<union> {Fd c} \<and> fb_fd conn = FD c \<and> m_auto_close conn"
    using names assms(2) by (simp add: TCPListenSocket_accept_def Socket_accept_def defs live_def opens_fd_def)
  moreover have "\<exists>a' w'. TCPListenSocket_accept e fd flags (Some (IP4Address a4), w\<lparr>answers := [\<lparr>rv = c, err = None, out = [], outs = [28]\<rparr>]\<rparr>) =
      (Throw (RuntimeError ''inconsistent socket address size on return''), (a', w')) \<and> live_in w' = live_in w \<union> {Fd c}"
    using names assms(2) by (simp add: TCPListenSocket_accept_def Socket_accept_def defs address_update_def
        SocketAddress_update_def out_length_def live_def opens_fd_def)
  ultimately show ?thesis using connect fails wrong by blast
qed

theorem socket_ownership_witness:
  "\<exists>w'. unix_connection_mode SOCK_DGRAM 0 ((world_of [])\<lparr>answers := [ok 5, ok 0]\<rparr>) =
     (Throw (RuntimeError ''invalid socket type for unix connection mode socket''), w') \<and> live_in w' = {}"
  using socket_ownership[of 3 5 "world_of []" SOCK_DGRAM LITTLE "IP6Address sin6_zero" Errno_TIMEDOUT 0] by (simp add: world_of_def)


subsection \<open>Sending and receiving messages\<close>

lemma iovec_update_Ret:
  "update_entries v n = (v', 0, finished) \<Longrightarrow> iovec_update n (v, w) = (Ret finished, (v', w))"
  by (simp add: iovec_update_def act_defs)

text \<open>
  The control data a receive operation gets are what the header shows: for a buffer
  large enough for the messages the kernel stores, the header holds exactly these messages
  afterwards, so that iterating over it yields them, the memory regions have advanced by the
  received bytes, and without an address none is reported.  Sending passes the serialized message
  once: afterwards none is set any more, unless the call failed, when the header keeps it.
\<close>

theorem messages_are_passed:
  assumes "length (msgs_bytes e ms) \<le> length (m_control_buffer h)" "ms \<noteq> []"
    "\<forall>m\<in>set ms. length (cmsg_data m) < 2 ^ 32" "t \<le> padding (last ms)" "t \<le> length (msgs_bytes e ms)"
    "update_entries (recv_iovec h) k = (v, 0, fin)" "update_entries (send_iovec s) k = (v', 0, fin')"
  shows "(\<exists>h' w'. Socket_receiveMessage e sock ((h, None), w\<lparr>answers := [\<lparr>rv = int k, err = None, out = msgs_bytes e ms,
         outs = [0, int (length (msgs_bytes e ms)) - int t, fl]\<rparr>]\<rparr>) = (Ret False, ((h', None), w')) \<and>
      recv_iovec h' = v \<and> recv_flags h' = of_int fl \<and>
      (\<exists>rest. holds_messages e h' ms t rest)) \<and>
    (\<exists>s' w'. Socket_sendMessage e sock addr (s, w\<lparr>answers := [ok (int k)]\<rparr>) = (Ret (), (s', w')) \<and>
      control_msg s' = None \<and> send_iovec s' = v') \<and>
    (\<exists>s' en w'. Socket_sendMessage e sock addr (s, w\<lparr>answers := [failed er]\<rparr>) = (Throw (ApiError ''sendmsg()'' en), (s', w')) \<and>
      control_msg s' = control_msg s \<and> send_iovec s' = send_iovec s)"
proof -
  have ne: "m_control_buffer h \<noteq> []"
    using assms(1,2) msgs_bytes_room[OF assms(2), of e] by (auto simp: cmsg_hdr_def)
  have r: "recv_iovec (prepareReceive None h) = recv_iovec h" "msg_name (prepareReceive None h) = None"
    "msg_control (prepareReceive None h) = Some (m_control_buffer h)"
    using ne by (simp_all add: prepareReceive_def resetAddress_def setIov_def Let_def)
  have st: "store (m_control_buffer h) (msgs_bytes e ms) = msgs_bytes e ms @ drop (length (msgs_bytes e ms)) (m_control_buffer h)"
    using assms(1) by (simp add: store_def)
  have "nat (int (length (msgs_bytes e ms)) - int t) + t = length (msgs_bytes e ms)" using assms(5) by simp
  then have "\<exists>h' w'. Socket_receiveMessage e sock ((h, None), w\<lparr>answers := [\<lparr>rv = int k, err = None, out = msgs_bytes e ms,
         outs = [0, int (length (msgs_bytes e ms)) - int t, fl]\<rparr>]\<rparr>) = (Ret False, ((h', None), w')) \<and>
      recv_iovec h' = v \<and> recv_flags h' = of_int fl \<and>
      (\<exists>rest. holds_messages e h' ms t rest)"
    using assms(2-4,6) r st
    by (simp add: Socket_receiveMessage_def recvmsg_stores_def act_defs kernel_defs Let_def postReceive_def
        iovec_update_Ret recv_flags_def BitMask_of_def holds_messages_def control_mem_def)
  moreover have "send_iovec (prepareSend addr s) = send_iovec s" "control_msg (prepareSend addr s) = control_msg s"
    by (simp_all add: prepareSend_def SendHeader_setAddress_def resetAddress_def setIov_def Let_def split: option.splits)
  then have "\<exists>s' w'. Socket_sendMessage e sock addr (s, w\<lparr>answers := [ok (int k)]\<rparr>) = (Ret (), (s', w')) \<and>
      control_msg s' = None \<and> send_iovec s' = v'"
    "\<exists>s' en w'. Socket_sendMessage e sock addr (s, w\<lparr>answers := [failed er]\<rparr>) = (Throw (ApiError ''sendmsg()'' en), (s', w')) \<and>
      control_msg s' = control_msg s \<and> send_iovec s' = send_iovec s"
    using assms(7) by (simp_all add: Socket_sendMessage_def act_defs kernel_defs postSend_def iovec_update_Ret)
  ultimately show ?thesis by blast
qed

definition receiving :: ReceiveMessageHeader where
  "receiving = \<lparr>msg_name = None, msg_namelen = 0, msg_iov = None, msg_iovlen = 0, msg_control = None, msg_controllen = 0,
     msg_flags = 0, m_io_flags = 0, recv_iovec = [], m_control_buffer = replicate 32 NUL\<rparr>"

definition sending :: SendMessageHeader where
  "sending = \<lparr>msg_name = None, msg_namelen = 0, msg_iov = None, msg_iovlen = 0, msg_control = None, msg_controllen = 0,
     msg_flags = 0, m_io_flags = 0, send_iovec = [], control_msg = None\<rparr>"

theorem messages_are_passed_witness:
  "\<exists>h' w'. Socket_receiveMessage BIG 4 ((receiving, None), (world_of [])\<lparr>answers := [\<lparr>rv = 0, err = None,
     out = msgs_bytes BIG [(1, 1, ''wxyz'')], outs = [0, 20, 0]\<rparr>]\<rparr>) = (Ret False, ((h', None), w')) \<and>
     (\<exists>rest. holds_messages BIG h' [(1, 1, ''wxyz'')] 4 rest)"
  using messages_are_passed[where e = BIG and ms = "[(1, 1, ''wxyz'')]" and h = receiving and t = 4 and k = 0 and v = "[]"
      and fin = True and s = sending and v' = "[]" and fin' = True and sock = 4 and w = "world_of []" and fl = 0, THEN conjunct1]
  by (auto simp: receiving_def sending_def length_one_message padding_def cmsg_data_def CMSG_ALIGN_def cmsg_hdr_def)

end
