(* ===== verification/Resolution.thy ===== *)
theory Resolution
  imports Sockets Iteration
begin

text \<open>
  Name resolution and network interfaces: \<^verbatim>\<open>AddressHints\<close>, \<^verbatim>\<open>AddressInfo\<close> and
  \<^verbatim>\<open>AddressInfoList\<close> below \<^verbatim>\<open>net/inet\<close>, and \<^verbatim>\<open>InterfaceAddress\<close>, \<^verbatim>\<open>InterfaceAddressList\<close>,
  \<^verbatim>\<open>InterfaceInfo\<close> and \<^verbatim>\<open>InterfaceEnumerator\<close> below \<^verbatim>\<open>net/ifs\<close>.  The lists are structures of
  the C library that the objects point to; a pointer is its address, zero is the null pointer,
  and the contents of the memory are a parameter.
\<close>

subsection \<open>AddressHints (include/net/inet/AddressHints.hxx)\<close>

text \<open>\<^verbatim>\<open>struct addrinfo\<close>; the address and the name it points to are given by their bytes.\<close>

record addrinfo =
  ai_flags :: "32 word"
  ai_family :: int
  ai_socktype :: int
  ai_protocol :: int
  ai_addr :: "string option"
  ai_canonname :: "string option"
  ai_next :: int

type_synonym AddressHints = addrinfo

datatype HintFlag = HINT_V4_MAPPED | HINT_ALL | HINT_ADDR_CONFIG | HINT_NUMERIC_HOST |
    HINT_PASSIVE | HINT_NUMERIC_SERVICE | HINT_CANON_NAME | HINT_IDN | HINT_CANON_IDN

primrec HintFlag_value :: "HintFlag \<Rightarrow> 32 word" where
  "HintFlag_value HINT_V4_MAPPED = 8"
| "HintFlag_value HINT_ALL = 0x10"
| "HintFlag_value HINT_ADDR_CONFIG = 0x20"
| "HintFlag_value HINT_NUMERIC_HOST = 4"
| "HintFlag_value HINT_PASSIVE = 1"
| "HintFlag_value HINT_NUMERIC_SERVICE = 0x400"
| "HintFlag_value HINT_CANON_NAME = 2"
| "HintFlag_value HINT_IDN = 0x40"
| "HintFlag_value HINT_CANON_IDN = 0x80"

definition hints_setFlags :: "32 mask \<Rightarrow> AddressHints \<Rightarrow> AddressHints" where
  "hints_setFlags flags h = h\<lparr>ai_flags := BitMask_raw flags\<rparr>"

definition hints_flags :: "AddressHints \<Rightarrow> 32 mask" where
  "hints_flags h = BitMask_of (ai_flags h)"

definition AddressHints_default :: AddressHints where
  "AddressHints_default = hints_setFlags
     (BitMask_of_list [HintFlag_value HINT_V4_MAPPED, HintFlag_value HINT_ADDR_CONFIG])
     \<lparr>ai_flags = 0, ai_family = 0, ai_socktype = 0, ai_protocol = 0, ai_addr = None, ai_canonname = None, ai_next = 0\<rparr>"

definition hints_setFamily :: "SocketFamily \<Rightarrow> AddressHints \<Rightarrow> AddressHints" where
  "hints_setFamily family h = h\<lparr>ai_family := SocketFamily_value family\<rparr>"

definition hints_setType :: "SocketType \<Rightarrow> AddressHints \<Rightarrow> AddressHints" where
  "hints_setType type h = h\<lparr>ai_socktype := SocketType_value type\<rparr>"

definition hints_setProtocol :: "int \<Rightarrow> AddressHints \<Rightarrow> AddressHints" where
  "hints_setProtocol protocol h = h\<lparr>ai_protocol := protocol\<rparr>"

subsection \<open>AddressInfo (include/net/inet/AddressInfo.hxx)\<close>

definition info_family :: "addrinfo \<Rightarrow> int" where
  "info_family a = ai_family a"

definition info_isV4 :: "addrinfo \<Rightarrow> bool" where
  "info_isV4 a \<longleftrightarrow> info_family a = SocketFamily_value AF_INET"

definition info_isV6 :: "addrinfo \<Rightarrow> bool" where
  "info_isV6 a \<longleftrightarrow> info_family a = SocketFamily_value AF_INET6"

definition info_type :: "addrinfo \<Rightarrow> int" where
  "info_type a = ai_socktype a"

definition info_protocol :: "addrinfo \<Rightarrow> int" where
  "info_protocol a = ai_protocol a"

definition hasCanonName :: "addrinfo \<Rightarrow> bool" where
  "hasCanonName a \<longleftrightarrow> ai_canonname a \<noteq> None"

definition canonName :: "addrinfo \<Rightarrow> SysString" where
  "canonName a = (case ai_canonname a of Some s \<Rightarrow> SysString_of s | None \<Rightarrow> None)"

definition asIP4 :: "Endian \<Rightarrow> addrinfo \<Rightarrow> sockaddr_in option" where
  "asIP4 e a = (case ai_addr a of None \<Rightarrow> None
    | Some m \<Rightarrow> if info_family a \<noteq> SocketFamily_value AF_INET then None else Some (sin_of_bytes e m))"

definition asIP6 :: "Endian \<Rightarrow> addrinfo \<Rightarrow> sockaddr_in6 option" where
  "asIP6 e a = (case ai_addr a of None \<Rightarrow> None
    | Some m \<Rightarrow> if info_family a \<noteq> SocketFamily_value AF_INET6 then None else Some (sin6_of_bytes e m))"

definition info_hasNext :: "addrinfo \<Rightarrow> bool" where
  "info_hasNext a \<longleftrightarrow> ai_next a \<noteq> 0"

subsection \<open>AddressInfoIterator (include/net/inet/AddressInfoIterator.hxx)\<close>

definition info_next :: "(int \<Rightarrow> addrinfo) \<Rightarrow> int \<Rightarrow> exn + int" where
  "info_next mem pos = (if pos = 0 then Inl (RuntimeError ''Attempt to increment past the end() AddressInfoIterator'')
     else Inr (ai_next (mem pos)))"

definition info_deref :: "(int \<Rightarrow> addrinfo) \<Rightarrow> int \<Rightarrow> exn + addrinfo" where
  "info_deref mem pos = (if pos = 0 then Inl (RuntimeError ''Attempt to dereference an invalid AddressInfoIterator'')
     else Inr (mem pos))"

definition info_eq :: "int \<Rightarrow> int \<Rightarrow> bool" where
  "info_eq pos other \<longleftrightarrow> pos = other"

subsection \<open>AddressInfoList (src/net/inet/AddressInfoList.cxx)\<close>

record AddressInfoList =
  ail_hints :: AddressHints
  ail_addrs :: int

definition AddressInfoList_default :: AddressInfoList where
  "AddressInfoList_default = \<lparr>ail_hints = AddressHints_default, ail_addrs = 0\<rparr>"

definition AddressInfoList_clear :: "(AddressInfoList \<times> world, unit) act" where
  "AddressInfoList_clear = bind (this ail_addrs) (\<lambda>addrs. whenA (addrs \<noteq> 0)
     (andthen (on_world (call ''freeaddrinfo'' [I addrs])) (set_this (\<lambda>l. l\<lparr>ail_addrs := 0\<rparr>))))"

definition AddressInfoList_destroy :: "(AddressInfoList \<times> world, unit) act" where
  "AddressInfoList_destroy = AddressInfoList_clear"

definition name_arg :: "SysString \<Rightarrow> arg" where
  "name_arg s = (if SysString_empty s then I 0 else S (SysString_raw s))"

text \<open>The hints as the C library sees them, and the pointer it stores.\<close>

definition hints_arg :: "AddressHints \<Rightarrow> arg" where
  "hints_arg h = L [I (sint (ai_flags h)), I (ai_family h), I (ai_socktype h), I (ai_protocol h)]"

definition stored_pointer :: "answer \<Rightarrow> int \<Rightarrow> int" where
  "stored_pointer a old = (case outs a of p # _ \<Rightarrow> p | [] \<Rightarrow> old)"

definition AddressInfoList_resolve :: "SysString \<Rightarrow> SysString \<Rightarrow> (AddressInfoList \<times> world, unit) act" where
  "AddressInfoList_resolve node service = andthen AddressInfoList_clear
     (bind (this ail_hints) (\<lambda>h.
       bind (on_world (call ''getaddrinfo'' [name_arg node, name_arg service, hints_arg h])) (\<lambda>a.
         andthen (set_this (\<lambda>l. l\<lparr>ail_addrs := stored_pointer a (ail_addrs l)\<rparr>))
           (if rv a \<noteq> 0 then on_world (throw_ResolveError (rv a)) else ret ()))))"

definition AddressInfoList_setHints :: "AddressHints \<Rightarrow> AddressInfoList \<Rightarrow> AddressInfoList" where
  "AddressInfoList_setHints h l = l\<lparr>ail_hints := h\<rparr>"

definition AddressInfoList_valid :: "AddressInfoList \<Rightarrow> bool" where
  "AddressInfoList_valid l \<longleftrightarrow> ail_addrs l \<noteq> 0"

definition AddressInfoList_begin :: "AddressInfoList \<Rightarrow> int" where
  "AddressInfoList_begin l = ail_addrs l"

definition AddressInfoList_end :: int where
  "AddressInfoList_end = 0"

subsection \<open>InterfaceAddress (include/net/ifs/InterfaceAddress.hxx)\<close>

text \<open>
  \<^verbatim>\<open>struct ifaddrs\<close>; the broadcast address and the destination of a point-to-point connection
  are one field, \<^verbatim>\<open>ifa_ifu\<close>.
\<close>

record ifaddrs =
  ifa_name :: string
  ifa_flags :: "32 word"
  ifa_addr :: "string option"
  ifa_netmask :: "string option"
  ifa_ifu :: "string option"
  ifa_next :: int

datatype (plugins only: lifting) InterfaceFlag = IFF_UP | IFF_BROADCAST | IFF_DEBUG | IFF_LOOPBACK
    | IFF_POINTOPOINT | IFF_NOTRAILERS | IFF_RUNNING | IFF_NOARP | IFF_PROMISC | IFF_ALLMULTI |
    IFF_MASTER | IFF_SLAVE | IFF_MULTICAST | IFF_PORTSEL | IFF_AUTOMEDIA | IFF_DYNAMIC |
    IFF_LOWER_UP | IFF_DORMANT | IFF_ECHO

primrec InterfaceFlag_value :: "InterfaceFlag \<Rightarrow> 32 word" where
  "InterfaceFlag_value IFF_UP = 1"
| "InterfaceFlag_value IFF_BROADCAST = 2"
| "InterfaceFlag_value IFF_DEBUG = 4"
| "InterfaceFlag_value IFF_LOOPBACK = 8"
| "InterfaceFlag_value IFF_POINTOPOINT = 0x10"
| "InterfaceFlag_value IFF_NOTRAILERS = 0x20"
| "InterfaceFlag_value IFF_RUNNING = 0x40"
| "InterfaceFlag_value IFF_NOARP = 0x80"
| "InterfaceFlag_value IFF_PROMISC = 0x100"
| "InterfaceFlag_value IFF_ALLMULTI = 0x200"
| "InterfaceFlag_value IFF_MASTER = 0x400"
| "InterfaceFlag_value IFF_SLAVE = 0x800"
| "InterfaceFlag_value IFF_MULTICAST = 0x1000"
| "InterfaceFlag_value IFF_PORTSEL = 0x2000"
| "InterfaceFlag_value IFF_AUTOMEDIA = 0x4000"
| "InterfaceFlag_value IFF_DYNAMIC = 0x8000"
| "InterfaceFlag_value IFF_LOWER_UP = 0x10000"
| "InterfaceFlag_value IFF_DORMANT = 0x20000"
| "InterfaceFlag_value IFF_ECHO = 0x40000"

definition ifname :: "ifaddrs \<Rightarrow> SysString" where
  "ifname a = SysString_of (ifa_name a)"

definition if_flags :: "ifaddrs \<Rightarrow> 32 mask" where
  "if_flags a = BitMask_of (ifa_flags a)"

definition hasAddress :: "ifaddrs \<Rightarrow> bool" where
  "hasAddress a \<longleftrightarrow> ifa_addr a \<noteq> None"

text \<open>The family of an address behind a pointer.\<close>

definition family_at :: "Endian \<Rightarrow> string \<Rightarrow> int" where
  "family_at e m = uint (host_word e (peek 0 2 m) :: 16 word)"

definition if_family :: "Endian \<Rightarrow> ifaddrs \<Rightarrow> int" where
  "if_family e a = (case ifa_addr a of None \<Rightarrow> SocketFamily_value AF_UNSPEC | Some m \<Rightarrow> family_at e m)"

definition hasNetmask :: "ifaddrs \<Rightarrow> bool" where
  "hasNetmask a \<longleftrightarrow> ifa_netmask a \<noteq> None"

definition hasBroadcastAddress :: "ifaddrs \<Rightarrow> bool" where
  "hasBroadcastAddress a \<longleftrightarrow>
     (if BitMask_test (if_flags a) (InterfaceFlag_value IFF_BROADCAST) \<noteq> Inr True then False else ifa_ifu a \<noteq> None)"

definition hasPointToPointDest :: "ifaddrs \<Rightarrow> bool" where
  "hasPointToPointDest a \<longleftrightarrow>
     (if BitMask_test (if_flags a) (InterfaceFlag_value IFF_POINTOPOINT) \<noteq> Inr True then False else ifa_ifu a \<noteq> None)"

definition isIP4 :: "Endian \<Rightarrow> ifaddrs \<Rightarrow> bool" where
  "isIP4 e a \<longleftrightarrow> if_family e a = SocketFamily_value AF_INET"

definition isIP6 :: "Endian \<Rightarrow> ifaddrs \<Rightarrow> bool" where
  "isIP6 e a \<longleftrightarrow> if_family e a = SocketFamily_value AF_INET6"

definition isLinkLayer :: "Endian \<Rightarrow> ifaddrs \<Rightarrow> bool" where
  "isLinkLayer e a \<longleftrightarrow> if_family e a = SocketFamily_value AF_PACKET"

definition addrAsIP4 :: "Endian \<Rightarrow> ifaddrs \<Rightarrow> sockaddr_in option" where
  "addrAsIP4 e a = (if \<not> isIP4 e a then None else map_option (sin_of_bytes e) (ifa_addr a))"

definition addrAsIP6 :: "Endian \<Rightarrow> ifaddrs \<Rightarrow> sockaddr_in6 option" where
  "addrAsIP6 e a = (if \<not> isIP6 e a then None else map_option (sin6_of_bytes e) (ifa_addr a))"

definition addrAsLLA :: "Endian \<Rightarrow> ifaddrs \<Rightarrow> sockaddr_ll option" where
  "addrAsLLA e a = (if \<not> isLinkLayer e a then None else map_option (sll_of_bytes e) (ifa_addr a))"

definition netmaskAsIP4 :: "Endian \<Rightarrow> ifaddrs \<Rightarrow> sockaddr_in option" where
  "netmaskAsIP4 e a = (case ifa_netmask a of None \<Rightarrow> None
    | Some m \<Rightarrow> if family_at e m \<noteq> SocketFamily_value AF_INET then None else Some (sin_of_bytes e m))"

definition netmaskAsIP6 :: "Endian \<Rightarrow> ifaddrs \<Rightarrow> sockaddr_in6 option" where
  "netmaskAsIP6 e a = (case ifa_netmask a of None \<Rightarrow> None
    | Some m \<Rightarrow> if family_at e m \<noteq> SocketFamily_value AF_INET6 then None else Some (sin6_of_bytes e m))"

definition ifu_as_ip4 :: "Endian \<Rightarrow> ifaddrs \<Rightarrow> sockaddr_in option" where
  "ifu_as_ip4 e a = Option.bind (ifa_ifu a) (\<lambda>m.
     if family_at e m \<noteq> SocketFamily_value AF_INET then None else Some (sin_of_bytes e m))"

definition broadcastAsIP4 :: "Endian \<Rightarrow> ifaddrs \<Rightarrow> sockaddr_in option" where
  "broadcastAsIP4 e a = (if \<not> hasBroadcastAddress a then None else ifu_as_ip4 e a)"

definition pointToPointAsIP4 :: "Endian \<Rightarrow> ifaddrs \<Rightarrow> sockaddr_in option" where
  "pointToPointAsIP4 e a = (if \<not> hasPointToPointDest a then None else ifu_as_ip4 e a)"

definition ifaddr_next :: "(int \<Rightarrow> ifaddrs) \<Rightarrow> int \<Rightarrow> exn + int" where
  "ifaddr_next mem pos = (if pos \<noteq> 0 then Inr (ifa_next (mem pos))
     else Inl (RuntimeError ''Attempt to increment InterfaceAddressIterator past the end''))"

definition ifaddr_deref :: "(int \<Rightarrow> ifaddrs) \<Rightarrow> int \<Rightarrow> exn + ifaddrs" where
  "ifaddr_deref mem pos = (if pos = 0 then Inl (RuntimeError ''Attempt to dereference invalid InterfaceAddressIterator'')
     else Inr (mem pos))"

definition ifaddr_eq :: "int \<Rightarrow> int \<Rightarrow> bool" where
  "ifaddr_eq pos other \<longleftrightarrow> pos = other"

subsection \<open>InterfaceAddressList (src/net/ifs/InterfaceAddressList.cxx)\<close>

record InterfaceAddressList =
  ifl_addrs :: int

definition InterfaceAddressList_default :: InterfaceAddressList where
  "InterfaceAddressList_default = \<lparr>ifl_addrs = 0\<rparr>"

definition InterfaceAddressList_clear :: "(InterfaceAddressList \<times> world, unit) act" where
  "InterfaceAddressList_clear = bind (this ifl_addrs) (\<lambda>addrs. whenA (addrs \<noteq> 0)
     (andthen (on_world (call ''freeifaddrs'' [I addrs])) (set_this (\<lambda>l. l\<lparr>ifl_addrs := 0\<rparr>))))"

definition InterfaceAddressList_destroy :: "(InterfaceAddressList \<times> world, unit) act" where
  "InterfaceAddressList_destroy = InterfaceAddressList_clear"

definition InterfaceAddressList_fetch :: "(InterfaceAddressList \<times> world, unit) act" where
  "InterfaceAddressList_fetch = andthen InterfaceAddressList_clear
     (bind (on_world (call ''getifaddrs'' [])) (\<lambda>a.
       andthen (set_this (\<lambda>l. l\<lparr>ifl_addrs := stored_pointer a (ifl_addrs l)\<rparr>))
         (if rv a \<noteq> 0 then on_world (throw_ApiError ''getifaddrs()'') else ret ())))"

definition InterfaceAddressList_valid :: "InterfaceAddressList \<Rightarrow> bool" where
  "InterfaceAddressList_valid l \<longleftrightarrow> ifl_addrs l \<noteq> 0"

definition InterfaceAddressList_begin :: "InterfaceAddressList \<Rightarrow> int" where
  "InterfaceAddressList_begin l = ifl_addrs l"

definition InterfaceAddressList_end :: int where
  "InterfaceAddressList_end = 0"

subsection \<open>InterfaceInfo and InterfaceIterator (include/net/ifs)\<close>

text \<open>\<^verbatim>\<open>struct if_nameindex\<close>, 16 bytes; the name is a pointer to a string.\<close>

record if_nameindex =
  if_name :: int
  if_index :: "32 word"

definition info_name :: "(int \<Rightarrow> string) \<Rightarrow> if_nameindex \<Rightarrow> SysString" where
  "info_name strs i = (if if_name i = 0 then None else SysString_of (strs (if_name i)))"

definition info_index :: "if_nameindex \<Rightarrow> 32 word" where
  "info_index i = if_index i"

text \<open>A position is the address of the static end element or of an element of an array.\<close>

datatype NamePos = M_END | NameAt int

definition InterfaceIterator_default :: NamePos where
  "InterfaceIterator_default = M_END"

definition InterfaceIterator_of :: "int \<Rightarrow> NamePos" where
  "InterfaceIterator_of pos = (if pos \<noteq> 0 then NameAt pos else M_END)"

primrec name_entry :: "(int \<Rightarrow> if_nameindex) \<Rightarrow> NamePos \<Rightarrow> if_nameindex" where
  "name_entry mem M_END = \<lparr>if_name = 0, if_index = 0\<rparr>"
| "name_entry mem (NameAt pos) = mem pos"

definition ifname_next :: "(int \<Rightarrow> if_nameindex) \<Rightarrow> NamePos \<Rightarrow> exn + NamePos" where
  "ifname_next mem p = (if if_name (name_entry mem p) \<noteq> 0
     then Inr (case p of NameAt pos \<Rightarrow> NameAt (pos + 16) | M_END \<Rightarrow> M_END)
     else Inl (RuntimeError ''Attempt to increment InterfaceIterator past the end''))"

definition ifname_deref :: "(int \<Rightarrow> if_nameindex) \<Rightarrow> NamePos \<Rightarrow> exn + if_nameindex" where
  "ifname_deref mem p = (if if_name (name_entry mem p) = 0
     then Inl (RuntimeError ''Attempt to dereference invalid InterfaceIterator'')
     else Inr (name_entry mem p))"

definition ifname_eq :: "(int \<Rightarrow> if_nameindex) \<Rightarrow> NamePos \<Rightarrow> NamePos \<Rightarrow> bool" where
  "ifname_eq mem p q \<longleftrightarrow> (if p = q then True
     else if_name (name_entry mem p) = if_name (name_entry mem q) \<and> if_index (name_entry mem p) = if_index (name_entry mem q))"

subsection \<open>InterfaceEnumerator (src/net/ifs/InterfaceEnumerator.cxx)\<close>

record InterfaceEnumerator =
  ife_list :: int

definition InterfaceEnumerator_default :: InterfaceEnumerator where
  "InterfaceEnumerator_default = \<lparr>ife_list = 0\<rparr>"

definition InterfaceEnumerator_clear :: "(InterfaceEnumerator \<times> world, unit) act" where
  "InterfaceEnumerator_clear = bind (this ife_list) (\<lambda>list. whenA (list \<noteq> 0)
     (andthen (on_world (call ''if_freenameindex'' [I list])) (set_this (\<lambda>l. l\<lparr>ife_list := 0\<rparr>))))"

definition InterfaceEnumerator_destroy :: "(InterfaceEnumerator \<times> world, unit) act" where
  "InterfaceEnumerator_destroy = InterfaceEnumerator_clear"

definition InterfaceEnumerator_fetch :: "(InterfaceEnumerator \<times> world, unit) act" where
  "InterfaceEnumerator_fetch = andthen InterfaceEnumerator_clear
     (bind (on_world (call ''if_nameindex'' [])) (\<lambda>a.
       andthen (set_this (\<lambda>l. l\<lparr>ife_list := rv a\<rparr>))
         (if rv a = 0 then on_world (throw_ApiError ''ifnameindex()'') else ret ())))"

definition InterfaceEnumerator_valid :: "InterfaceEnumerator \<Rightarrow> bool" where
  "InterfaceEnumerator_valid l \<longleftrightarrow> ife_list l \<noteq> 0"

definition InterfaceEnumerator_begin :: "InterfaceEnumerator \<Rightarrow> NamePos" where
  "InterfaceEnumerator_begin l = InterfaceIterator_of (ife_list l)"

definition InterfaceEnumerator_end :: NamePos where
  "InterfaceEnumerator_end = InterfaceIterator_default"

subsection \<open>The account of the lists\<close>

datatype c_list = AddrInfos int | IfAddrs int | NameIndex int

text \<open>A list lives from the call that stores it until the call that frees it.\<close>

fun list_effect :: "syscall \<times> answer \<Rightarrow> c_list set \<Rightarrow> c_list set" where
  "list_effect (Call f args, a) R =
     (if f = ''getaddrinfo'' then (if rv a = 0 then R \<union> AddrInfos ` (set (outs a) - {0}) else R)
      else if f = ''getifaddrs'' then (if rv a = 0 then R \<union> IfAddrs ` (set (outs a) - {0}) else R)
      else if f = ''if_nameindex'' then (if rv a \<noteq> 0 then insert (NameIndex (rv a)) R else R)
      else if f = ''freeaddrinfo'' then (case args of [I p] \<Rightarrow> R - {AddrInfos p} | _ \<Rightarrow> R)
      else if f = ''freeifaddrs'' then (case args of [I p] \<Rightarrow> R - {IfAddrs p} | _ \<Rightarrow> R)
      else if f = ''if_freenameindex'' then (case args of [I p] \<Rightarrow> R - {NameIndex p} | _ \<Rightarrow> R)
      else R)"

definition live_lists :: "world \<Rightarrow> c_list set" where
  "live_lists w = foldl (\<lambda>R c. list_effect c R) {} (trace w)"

lemma live_lists_call: "trace w' = trace w @ [c] \<Longrightarrow> live_lists w' = list_effect c (live_lists w)"
  by (simp add: live_lists_def)

lemma live_lists_same: "trace w' = trace w \<Longrightarrow> live_lists w' = live_lists w"
  by (simp add: live_lists_def)

definition infos_owned :: "AddressInfoList \<Rightarrow> c_list set" where
  "infos_owned l = (if AddressInfoList_valid l then {AddrInfos (ail_addrs l)} else {})"

definition ifaddrs_owned :: "InterfaceAddressList \<Rightarrow> c_list set" where
  "ifaddrs_owned l = (if InterfaceAddressList_valid l then {IfAddrs (ifl_addrs l)} else {})"

definition names_owned :: "InterfaceEnumerator \<Rightarrow> c_list set" where
  "names_owned l = (if InterfaceEnumerator_valid l then {NameIndex (ife_list l)} else {})"

lemmas owned_defs = infos_owned_def ifaddrs_owned_def names_owned_def AddressInfoList_valid_def
  InterfaceAddressList_valid_def InterfaceEnumerator_valid_def

lemmas clear_defs = AddressInfoList_clear_def InterfaceAddressList_clear_def InterfaceEnumerator_clear_def
  AddressInfoList_destroy_def InterfaceAddressList_destroy_def InterfaceEnumerator_destroy_def

text \<open>Clearing a list gives back what it owns; this is all the destructors do.\<close>

interpretation infos: resource_owner live_lists infos_owned AddressInfoList_destroy
proof unfold_locales
  fix l w l' w'
  assume "AddressInfoList_destroy (l, w) = (Ret (), (l', w'))"
  then show "infos_owned l' = {} \<and> live_lists w' = live_lists w - infos_owned l"
    by (auto simp: clear_defs act_defs kernel_defs owned_defs live_lists_def split: if_splits list.splits)
qed

interpretation addrs: resource_owner live_lists ifaddrs_owned InterfaceAddressList_destroy
proof unfold_locales
  fix l w l' w'
  assume "InterfaceAddressList_destroy (l, w) = (Ret (), (l', w'))"
  then show "ifaddrs_owned l' = {} \<and> live_lists w' = live_lists w - ifaddrs_owned l"
    by (auto simp: clear_defs act_defs kernel_defs owned_defs live_lists_def split: if_splits list.splits)
qed

interpretation names: resource_owner live_lists names_owned InterfaceEnumerator_destroy
proof unfold_locales
  fix l w l' w'
  assume "InterfaceEnumerator_destroy (l, w) = (Ret (), (l', w'))"
  then show "names_owned l' = {} \<and> live_lists w' = live_lists w - names_owned l"
    by (auto simp: clear_defs act_defs kernel_defs owned_defs live_lists_def split: if_splits list.splits)
qed

text \<open>
  C29: A new result replaces the old one, which is given back first; when it cannot be had the
  object is empty, and the error is thrown, with the system error only when the resolver says that
  there is one.  The classes can be copied, and a copy points to the same list: two objects
  free it when they are destroyed, the second one a list that does not exist any more.
\<close>

theorem result_lists_are_owned:
  assumes "ail_addrs l \<noteq> 0" "ifl_addrs i \<noteq> 0" "ife_list n \<noteq> 0" "p \<noteq> 0" "code \<noteq> 0"
  shows "(\<exists>l' w'. AddressInfoList_resolve node service (l, w\<lparr>answers := [freed, \<lparr>rv = 0, err = None, out = [], outs = [p]\<rparr>]\<rparr>) = (Ret (), (l', w')) \<and>
       infos_owned l' = {AddrInfos p} \<and> ail_hints l' = ail_hints l \<and> live_lists w' = insert (AddrInfos p) (live_lists w - infos_owned l)) \<and>
    (\<exists>l' w' en. AddressInfoList_resolve node service (l, w\<lparr>answers := [freed, \<lparr>rv = code, err = Some er, out = [], outs = []\<rparr>]\<rparr>) =
         (Throw (ResolveError code en), (l', w')) \<and> en = (if code = -11 then er else 0) \<and>
       infos_owned l' = {} \<and> live_lists w' = live_lists w - infos_owned l) \<and>
    (\<exists>i' w'. InterfaceAddressList_fetch (i, w\<lparr>answers := [freed, \<lparr>rv = 0, err = None, out = [], outs = [p]\<rparr>]\<rparr>) = (Ret (), (i', w')) \<and>
       ifaddrs_owned i' = {IfAddrs p} \<and> live_lists w' = insert (IfAddrs p) (live_lists w - ifaddrs_owned i)) \<and>
    (\<exists>i' w'. InterfaceAddressList_fetch (i, w\<lparr>answers := [freed, failed en]\<rparr>) = (Throw (ApiError ''getifaddrs()'' (errno_of en)), (i', w')) \<and>
       ifaddrs_owned i' = {} \<and> live_lists w' = live_lists w - ifaddrs_owned i) \<and>
    (\<exists>n' w'. InterfaceEnumerator_fetch (n, w\<lparr>answers := [freed, ok p]\<rparr>) = (Ret (), (n', w')) \<and>
       names_owned n' = {NameIndex p} \<and> live_lists w' = insert (NameIndex p) (live_lists w - names_owned n)) \<and>
    (\<exists>n' w'. InterfaceEnumerator_fetch (n, w\<lparr>answers := [freed, null_failed en]\<rparr>) = (Throw (ApiError ''ifnameindex()'' (errno_of en)), (n', w')) \<and>
       names_owned n' = {} \<and> live_lists w' = live_lists w - names_owned n) \<and>
    (\<exists>l' w' l'' w''. AddressInfoList_destroy (l, w\<lparr>answers := [freed, freed']\<rparr>) = (Ret (), (l', w')) \<and>
       AddressInfoList_destroy (l, w') = (Ret (), (l'', w'')) \<and>
       trace w'' = trace w @ [(Call ''freeaddrinfo'' [I (ail_addrs l)], freed), (Call ''freeaddrinfo'' [I (ail_addrs l)], freed')] \<and>
       infos_owned l \<inter> live_lists w' = {})"
  using assms
  by (simp add: AddressInfoList_resolve_def InterfaceAddressList_fetch_def InterfaceEnumerator_fetch_def clear_defs
      act_defs kernel_defs throw_ResolveError_def owned_defs stored_pointer_def live_lists_def errno_after_def)

subsection \<open>Walking through the lists\<close>

text \<open>The elements of a linked list from an address on.\<close>

fun chain :: "('n \<Rightarrow> int) \<Rightarrow> (int \<Rightarrow> 'n) \<Rightarrow> int \<Rightarrow> 'n list \<Rightarrow> bool" where
  "chain nxt mem p [] \<longleftrightarrow> p = 0"
| "chain nxt mem p (x # xs) \<longleftrightarrow> p \<noteq> 0 \<and> mem p = x \<and> chain nxt mem (nxt x) xs"

text \<open>The elements of an array that ends with a null name.\<close>

fun named_array :: "(int \<Rightarrow> if_nameindex) \<Rightarrow> int \<Rightarrow> if_nameindex list \<Rightarrow> bool" where
  "named_array mem p [] \<longleftrightarrow> mem p = \<lparr>if_name = 0, if_index = 0\<rparr>"
| "named_array mem p (x # xs) \<longleftrightarrow> mem p = x \<and> if_name x \<noteq> 0 \<and> named_array mem (p + 16) xs"

definition names_from :: "(int \<Rightarrow> if_nameindex) \<Rightarrow> NamePos \<Rightarrow> if_nameindex list \<Rightarrow> bool" where
  "names_from mem p xs \<longleftrightarrow> (case p of M_END \<Rightarrow> xs = [] | NameAt a \<Rightarrow> named_array mem a xs)"

interpretation info_range: input_range info_eq "info_deref mem" "info_next mem" AddressInfoList_end "chain ai_next mem" for mem
  by unfold_locales (auto simp: info_eq_def info_deref_def info_next_def AddressInfoList_end_def)

interpretation ifaddr_range: input_range ifaddr_eq "ifaddr_deref mem" "ifaddr_next mem" InterfaceAddressList_end "chain ifa_next mem" for mem
  by unfold_locales (auto simp: ifaddr_eq_def ifaddr_deref_def ifaddr_next_def InterfaceAddressList_end_def)

interpretation name_range: input_range "ifname_eq mem" "ifname_deref mem" "ifname_next mem" InterfaceEnumerator_end "names_from mem" for mem
  by unfold_locales (auto simp: names_from_def ifname_eq_def ifname_deref_def ifname_next_def InterfaceEnumerator_end_def
      InterfaceIterator_default_def split: NamePos.splits)

theorem result_lists_are_owned_witness:
  "\<exists>i' w'. InterfaceAddressList_fetch (\<lparr>ifl_addrs = 8\<rparr>, world_of [ok 0, \<lparr>rv = 0, err = None, out = [], outs = [16]\<rparr>]) = (Ret (), (i', w')) \<and>
     live_lists w' = {IfAddrs 16}"
  using result_lists_are_owned[where l = "AddressInfoList_default\<lparr>ail_addrs := 8\<rparr>" and i = "\<lparr>ifl_addrs = 8\<rparr>" and n = "\<lparr>ife_list = 8\<rparr>" and p = 16
      and code = "-2" and w = "world_of []" and freed = "ok 0"]
  by (fastforce simp: world_of_def live_lists_def)

text \<open>
  A loop over a result visits every entry of the list of the C library once and in order, and
  ends; a loop over an object without a result visits nothing.  Beyond the end, dereferencing and
  incrementing throw.
\<close>

theorem loops_visit_every_entry:
  assumes "chain ai_next infos (ail_addrs l) as" "chain ifa_next addrs (ifl_addrs i) bs"
    and "ife_list n \<noteq> 0 \<longrightarrow> named_array names (ife_list n) cs"
  shows "range_for info_eq (info_deref infos) (info_next infos) AddressInfoList_end (AddressInfoList_begin l) = Some (Inr as) \<and>
    range_for ifaddr_eq (ifaddr_deref addrs) (ifaddr_next addrs) InterfaceAddressList_end (InterfaceAddressList_begin i) = Some (Inr bs) \<and>
    range_for (ifname_eq names) (ifname_deref names) (ifname_next names) InterfaceEnumerator_end (InterfaceEnumerator_begin n) =
      Some (Inr (if InterfaceEnumerator_valid n then cs else [])) \<and>
    (\<not> AddressInfoList_valid l \<longrightarrow> as = []) \<and> (\<not> InterfaceAddressList_valid i \<longrightarrow> bs = []) \<and>
    info_deref infos AddressInfoList_end = Inl (RuntimeError ''Attempt to dereference an invalid AddressInfoIterator'') \<and>
    ifaddr_next addrs InterfaceAddressList_end = Inl (RuntimeError ''Attempt to increment InterfaceAddressIterator past the end'') \<and>
    ifname_next names InterfaceEnumerator_end = Inl (RuntimeError ''Attempt to increment InterfaceIterator past the end'')"
proof (intro conjI)
  have "names_from names (InterfaceEnumerator_begin n) (if InterfaceEnumerator_valid n then cs else [])"
    using assms(3) by (simp add: names_from_def InterfaceEnumerator_begin_def InterfaceIterator_of_def InterfaceEnumerator_valid_def)
  then show "range_for (ifname_eq names) (ifname_deref names) (ifname_next names) InterfaceEnumerator_end (InterfaceEnumerator_begin n) =
      Some (Inr (if InterfaceEnumerator_valid n then cs else []))"
    by (rule name_range.visits)
  show "range_for info_eq (info_deref infos) (info_next infos) AddressInfoList_end (AddressInfoList_begin l) = Some (Inr as)"
    "range_for ifaddr_eq (ifaddr_deref addrs) (ifaddr_next addrs) InterfaceAddressList_end (InterfaceAddressList_begin i) = Some (Inr bs)"
    using assms info_range.visits ifaddr_range.visits by (simp_all add: AddressInfoList_begin_def InterfaceAddressList_begin_def)
  show "\<not> AddressInfoList_valid l \<longrightarrow> as = []" "\<not> InterfaceAddressList_valid i \<longrightarrow> bs = []"
    using assms(1,2) by (cases as; cases bs; simp add: AddressInfoList_valid_def InterfaceAddressList_valid_def)+
qed (simp_all add: AddressInfoList_end_def InterfaceAddressList_end_def info_deref_def ifaddr_next_def ifname_next_def InterfaceEnumerator_end_def InterfaceIterator_default_def)

theorem loops_visit_every_entry_witness:
  "range_for (ifname_eq (\<lambda>p. if p = 64 then \<lparr>if_name = 8, if_index = 1\<rparr> else \<lparr>if_name = 0, if_index = 0\<rparr>))
     (ifname_deref (\<lambda>p. if p = 64 then \<lparr>if_name = 8, if_index = 1\<rparr> else \<lparr>if_name = 0, if_index = 0\<rparr>))
     (ifname_next (\<lambda>p. if p = 64 then \<lparr>if_name = 8, if_index = 1\<rparr> else \<lparr>if_name = 0, if_index = 0\<rparr>))
     InterfaceEnumerator_end (InterfaceEnumerator_begin \<lparr>ife_list = 64\<rparr>) = Some (Inr [\<lparr>if_name = 8, if_index = 1\<rparr>])"
  using loops_visit_every_entry[where l = AddressInfoList_default and i = InterfaceAddressList_default and n = "\<lparr>ife_list = 64\<rparr>"
      and as = "[]" and bs = "[]" and cs = "[\<lparr>if_name = 8, if_index = 1\<rparr>]"
      and names = "\<lambda>p. if p = 64 then \<lparr>if_name = 8, if_index = 1\<rparr> else \<lparr>if_name = 0, if_index = 0\<rparr>"]
  by (simp add: AddressInfoList_default_def InterfaceAddressList_default_def InterfaceEnumerator_valid_def)

text \<open>An address is read from its first bytes.\<close>

lemma sin_of_bytes_append: "length (sin_zero a) = 8 \<Longrightarrow> sin_of_bytes e (sin_bytes e a @ pad) = a"
  by (simp add: sin_of_bytes_def sin_bytes_def peek_def)

lemma sin6_of_bytes_append: "length (sin6_addr a) = 16 \<Longrightarrow> sin6_of_bytes e (sin6_bytes e a @ pad) = a"
  by (simp add: sin6_of_bytes_def sin6_bytes_def peek_def)

lemma sll_of_bytes_append: "length (sll_addr a) = 8 \<Longrightarrow> sll_of_bytes e (sll_bytes e a @ pad) = a"
  by (simp add: sll_of_bytes_def sll_bytes_def peek_def)

lemma family_at_bytes:
  "family_at e (sin_bytes e a4 @ pad) = uint (sin_family a4)"
  "family_at e (sin6_bytes e a6 @ pad) = uint (sin6_family a6)"
  "family_at e (sll_bytes e al @ pad) = uint (sll_family al)"
  by (simp_all add: family_at_def sin_bytes_def sin6_bytes_def sll_bytes_def peek_def)

text \<open>
  The address of an interface is told by exactly one of the three views, the one of its family,
  and an entry without address has the unspecified family and no view.  The broadcast address and
  the destination of a point-to-point connection share their memory; what is shown depends on
  the flags alone, so both are shown when both flags are set and none when none is.
\<close>

theorem interface_addresses_read_back:
  assumes "length (sin_zero a4) = 8" "length (sin6_addr a6) = 16" "length (sll_addr al) = 8"
    and "sin_family a4 = family_field AF_INET" "sin6_family a6 = family_field AF_INET6" "sll_family al = family_field AF_PACKET"
  shows "(addrAsIP4 e (x\<lparr>ifa_addr := Some (sin_bytes e a4 @ pad)\<rparr>), addrAsIP6 e (x\<lparr>ifa_addr := Some (sin_bytes e a4 @ pad)\<rparr>),
      addrAsLLA e (x\<lparr>ifa_addr := Some (sin_bytes e a4 @ pad)\<rparr>)) = (Some a4, None, None) \<and>
    (addrAsIP4 e (x\<lparr>ifa_addr := Some (sin6_bytes e a6 @ pad)\<rparr>), addrAsIP6 e (x\<lparr>ifa_addr := Some (sin6_bytes e a6 @ pad)\<rparr>),
      addrAsLLA e (x\<lparr>ifa_addr := Some (sin6_bytes e a6 @ pad)\<rparr>)) = (None, Some a6, None) \<and>
    (addrAsIP4 e (x\<lparr>ifa_addr := Some (sll_bytes e al @ pad)\<rparr>), addrAsIP6 e (x\<lparr>ifa_addr := Some (sll_bytes e al @ pad)\<rparr>),
      addrAsLLA e (x\<lparr>ifa_addr := Some (sll_bytes e al @ pad)\<rparr>)) = (None, None, Some al) \<and>
    if_family e (x\<lparr>ifa_addr := None\<rparr>) = SocketFamily_value AF_UNSPEC \<and> addrAsIP4 e (x\<lparr>ifa_addr := None\<rparr>) = None \<and>
    addrAsIP6 e (x\<lparr>ifa_addr := None\<rparr>) = None \<and> addrAsLLA e (x\<lparr>ifa_addr := None\<rparr>) = None \<and>
    broadcastAsIP4 e (x\<lparr>ifa_ifu := Some (sin_bytes e a4 @ pad)\<rparr>) = (if BitMask_test (ifa_flags x) 2 = Inr True then Some a4 else None) \<and>
    pointToPointAsIP4 e (x\<lparr>ifa_ifu := Some (sin_bytes e a4 @ pad)\<rparr>) = (if BitMask_test (ifa_flags x) 0x10 = Inr True then Some a4 else None) \<and>
    asIP4 e (y\<lparr>ai_family := 2, ai_addr := Some (sin_bytes e a4 @ pad)\<rparr>) = Some a4 \<and>
    asIP6 e (y\<lparr>ai_family := 2, ai_addr := Some (sin_bytes e a4 @ pad)\<rparr>) = None"
  using assms
  by (simp add: addrAsIP4_def addrAsIP6_def addrAsLLA_def isIP4_def isIP6_def isLinkLayer_def if_family_def family_at_bytes
      sin_of_bytes_append sin6_of_bytes_append sll_of_bytes_append family_field_def broadcastAsIP4_def pointToPointAsIP4_def
      hasBroadcastAddress_def hasPointToPointDest_def if_flags_def BitMask_of_def ifu_as_ip4_def asIP4_def asIP6_def info_family_def)

theorem interface_addresses_read_back_witness:
  "addrAsIP4 LITTLE \<lparr>ifa_name = ''lo'', ifa_flags = 9, ifa_addr = Some (sin_bytes LITTLE
       \<lparr>sin_family = 2, sin_port = 0, sin_addr = 0x0100007f, sin_zero = replicate 8 NUL\<rparr>), ifa_netmask = None, ifa_ifu = None, ifa_next = 0\<rparr> =
     Some \<lparr>sin_family = 2, sin_port = 0, sin_addr = 0x0100007f, sin_zero = replicate 8 NUL\<rparr>"
  using interface_addresses_read_back[where ?a4.0 = "\<lparr>sin_family = 2, sin_port = 0, sin_addr = 0x0100007f, sin_zero = replicate 8 NUL\<rparr>"
      and ?a6.0 = "\<lparr>sin6_family = 10, sin6_port = 0, sin6_flowinfo = 0, sin6_addr = replicate 16 NUL, sin6_scope_id = 0\<rparr>"
      and al = "\<lparr>sll_family = 17, sll_protocol = 0, sll_ifindex = 1, sll_hatype = 0, sll_pkttype = 0, sll_halen = 6, sll_addr = replicate 8 NUL\<rparr>"
      and x = "\<lparr>ifa_name = ''lo'', ifa_flags = 9, ifa_addr = None, ifa_netmask = None, ifa_ifu = None, ifa_next = 0\<rparr>" and e = LITTLE and pad = "[]"]
  by (simp add: family_field_def)

end
