(* ===== verification/Utilities.thy ===== *)
theory Utilities
  imports Path
begin

text \<open>
  Utilities: formatted numbers and \<^verbatim>\<open>sprintf()\<close> (\<^verbatim>\<open>include/formatting.hxx\<close>, \<^verbatim>\<open>src/formatting.cxx\<close>) and
  the guards and small helpers of \<^verbatim>\<open>include/utils.hxx\<close>.  An output stream is the text
  written to it and the part of its state that formatting changes.
\<close>

subsection \<open>Numbers as text\<close>

definition digit_char :: "nat \<Rightarrow> char" where
  "digit_char d = char_of (if d < 10 then 48 + d else 87 + d)"

definition digit_value :: "char \<Rightarrow> nat" where
  "digit_value c = (if of_char c < (58 :: nat) then of_char c - 48 else of_char c - 87)"

fun base_text :: "nat \<Rightarrow> nat \<Rightarrow> string" where
  "base_text b n = (if n < b \<or> b < 2 then [digit_char n] else base_text b (n div b) @ [digit_char (n mod b)])"

declare base_text.simps [simp del]

definition decimal :: "int \<Rightarrow> string" where
  "decimal n = (if n < 0 then ''-'' @ base_text 10 (nat (- n)) else base_text 10 (nat n))"

record ostream =
  os_text :: string
  os_base :: nat
  os_fill :: char
  os_width :: nat

definition ostream_new :: ostream where
  "ostream_new = \<lparr>os_text = [], os_base = 10, os_fill = CHR '' '', os_width = 0\<rparr>"

text \<open>Writing a string or the digits of a number pads it to the width, which is then used up.\<close>

definition put_text :: "string \<Rightarrow> ostream \<Rightarrow> ostream" where
  "put_text s o' = o'\<lparr>os_text := os_text o' @ replicate (os_width o' - length s) (os_fill o') @ s, os_width := 0\<rparr>"

text \<open>
  A formatted number knows its value, the number of bits of the type it is promoted to, in
  which a negative value is shown as it is stored, and how it is to be shown.
\<close>

record FormattedNumber =
  fn_num :: int
  fn_bits :: nat
  fn_width :: nat
  fn_base :: nat
  fn_prefix :: string
  fn_show_base :: bool

definition HexNum :: "int \<Rightarrow> nat \<Rightarrow> nat \<Rightarrow> FormattedNumber" where
  "HexNum num n width = \<lparr>fn_num = num, fn_bits = n, fn_width = width, fn_base = 16, fn_prefix = ''0x'', fn_show_base = True\<rparr>"

definition OctNum :: "int \<Rightarrow> nat \<Rightarrow> nat \<Rightarrow> FormattedNumber" where
  "OctNum num n width = \<lparr>fn_num = num, fn_bits = n, fn_width = width, fn_base = 8, fn_prefix = ''0o'', fn_show_base = True\<rparr>"

definition set_showBase :: "bool \<Rightarrow> FormattedNumber \<Rightarrow> FormattedNumber" where
  "set_showBase yes_no f = f\<lparr>fn_show_base := yes_no\<rparr>"

definition to_printable_integer :: "FormattedNumber \<Rightarrow> nat" where
  "to_printable_integer f = nat (fn_num f mod 2 ^ fn_bits f)"

definition put_formatted :: "FormattedNumber \<Rightarrow> ostream \<Rightarrow> ostream" where
  "put_formatted f o0 = (let
     orig_base = os_base o0;
     orig_fill = os_fill o0;
     o1 = (if fn_show_base f then put_text (fn_prefix f) o0 else o0);
     o2 = o1\<lparr>os_width := fn_width f\<rparr>;
     o3 = o2\<lparr>os_base := fn_base f\<rparr>;
     o4 = o3\<lparr>os_fill := CHR ''0''\<rparr>;
     o5 = put_text (base_text (os_base o4) (to_printable_integer f)) o4
   in o5\<lparr>os_base := orig_base, os_fill := orig_fill\<rparr>)"

definition formatted_string :: "FormattedNumber \<Rightarrow> string" where
  "formatted_string f = os_text (put_formatted f ostream_new)"

subsection \<open>sprintf (src/formatting.cxx)\<close>

text \<open>
  The buffer has room for one character more than the string is long, the terminator.  The C
  function reports how long the text is and stores as much of it as there is room for.  The
  object is the string that is returned.
\<close>

definition sprintf_round :: "arg list \<Rightarrow> (string \<times> world, unit option) act" where
  "sprintf_round args = bind (this length) (\<lambda>n.
     bind (on_world (call ''vsnprintf'' (I (int n + 1) # args))) (\<lambda>a.
       andthen (set_this (\<lambda>s. store s (out a)))
         (if rv a < 0 then andthen (set_this (\<lambda>_. [])) (ret (Some ()))
          else if nat (rv a) \<le> n then andthen (set_this (resize (nat (rv a)))) (ret (Some ()))
          else andthen (set_this (resize (nat (rv a)))) (ret None))))"

definition cosmos_sprintf :: "arg list \<Rightarrow> (world, string) act" where
  "cosmos_sprintf args = bind (with_local (resize 128 [])
     (loop (\<lambda>(_, w). length (answers w)) (sprintf_round args))) (\<lambda>(_, s). ret s)"

subsection \<open>Guards (include/utils.hxx)\<close>

text \<open>
  A guard with the function it runs at the end.  The resource is a part of that function.
  An exception that leaves the destructor ends the process.
\<close>

record ResourceGuard =
  rg_disarmed :: bool

definition ResourceGuard_create :: ResourceGuard where
  "ResourceGuard_create = \<lparr>rg_disarmed = False\<rparr>"

definition ResourceGuard_disarm :: "ResourceGuard \<Rightarrow> ResourceGuard" where
  "ResourceGuard_disarm g = g\<lparr>rg_disarmed := True\<rparr>"

definition ResourceGuard_destroy :: "('w, unit) act \<Rightarrow> (ResourceGuard \<times> 'w, unit) act" where
  "ResourceGuard_destroy cleaner = bind (this rg_disarmed) (\<lambda>disarmed.
     if \<not> disarmed then catch (on_world cleaner) (\<lambda>_. abort terminated) else ret ())"

text \<open>
  The constructor of a class derived from the guard that acquires the resource in its body: when
  that throws, the guard, which is complete already, is destroyed.
\<close>

definition acquiring_guard :: "('w, unit) act \<Rightarrow> ('w, unit) act \<Rightarrow> ('w, ResourceGuard) act" where
  "acquiring_guard acquire cleaner = catch (andthen acquire (ret ResourceGuard_create))
     (\<lambda>ex. bind (with_local ResourceGuard_create (ResourceGuard_destroy cleaner)) (\<lambda>_. throw ex))"

text \<open>A block with such a guard.\<close>

definition guarded :: "('w, unit) act \<Rightarrow> ('w, unit) act \<Rightarrow> ('w, 'a) act \<Rightarrow> ('w, 'a) act" where
  "guarded acquire cleaner body = bind (acquiring_guard acquire cleaner) (\<lambda>g.
     scoped g (on_world body) (ResourceGuard_destroy cleaner))"

record DeferGuard =
  dg_armed :: bool

definition DeferGuard_create :: DeferGuard where
  "DeferGuard_create = \<lparr>dg_armed = True\<rparr>"

definition DeferGuard_disarm :: "DeferGuard \<Rightarrow> DeferGuard" where
  "DeferGuard_disarm g = g\<lparr>dg_armed := False\<rparr>"

definition DeferGuard_destroy :: "('w, unit) act \<Rightarrow> (DeferGuard \<times> 'w, unit) act" where
  "DeferGuard_destroy f = bind (this dg_armed) (\<lambda>armed.
     if armed then catch (on_world f) (\<lambda>_. abort terminated) else ret ())"

subsection \<open>Small helpers\<close>

definition NamedBool_flip :: "bool \<Rightarrow> bool" where
  "NamedBool_flip b = (\<not> b)"

definition in_range :: "int \<Rightarrow> int \<Rightarrow> int \<Rightarrow> bool" where
  "in_range v min' max' \<longleftrightarrow> min' \<le> v \<and> v \<le> max'"

fun in_container :: "'a \<Rightarrow> 'a list \<Rightarrow> bool" where
  "in_container v [] = False"
| "in_container v (c # cs) = (if v = c then True else in_container v cs)"

definition in_list :: "'a \<Rightarrow> 'a list \<Rightarrow> bool" where
  "in_list v l = in_container v l"

definition append_to :: "'a list \<Rightarrow> 'a list \<Rightarrow> 'a list" where
  "append_to v1 v2 = v1 @ v2"

text \<open>The elements a list of outputs writes to a stream, and the lines of a map.\<close>

fun put_vector :: "('a \<Rightarrow> ostream \<Rightarrow> ostream) \<Rightarrow> bool \<Rightarrow> 'a list \<Rightarrow> ostream \<Rightarrow> ostream" where
  "put_vector put first [] o' = o'"
| "put_vector put first (x # xs) o' = put_vector put False xs (put x (if first then o' else put_text '', '' o'))"

fun put_map :: "('k \<Rightarrow> ostream \<Rightarrow> ostream) \<Rightarrow> ('v \<Rightarrow> ostream \<Rightarrow> ostream) \<Rightarrow> ('k \<times> 'v) list \<Rightarrow> ostream \<Rightarrow> ostream" where
  "put_map pk pv [] o' = o'"
| "put_map pk pv ((k, v) # kvs) o' = put_map pk pv kvs (put_text [char_of (10 :: nat)] (pv v (put_text '': '' (pk k o'))))"

record TwiceIterator =
  m_iterations :: "64 word"

definition Twice_begin :: TwiceIterator where
  "Twice_begin = \<lparr>m_iterations = 0\<rparr>"

definition Twice_end :: TwiceIterator where
  "Twice_end = \<lparr>m_iterations = 2\<rparr>"

definition Twice_next :: "TwiceIterator \<Rightarrow> TwiceIterator" where
  "Twice_next i = i\<lparr>m_iterations := m_iterations i + 1\<rparr>"

definition Twice_eq :: "TwiceIterator \<Rightarrow> TwiceIterator \<Rightarrow> bool" where
  "Twice_eq a b \<longleftrightarrow> m_iterations a = m_iterations b"

subsection \<open>Properties\<close>

text \<open>Reading digits back, most significant first.\<close>

definition read_digits :: "nat \<Rightarrow> string \<Rightarrow> nat" where
  "read_digits b s = foldl (\<lambda>n c. n * b + digit_value c) 0 s"

lemma digit_value_char: "d < 16 \<Longrightarrow> digit_value (digit_char d) = d"
  by (simp add: digit_value_def digit_char_def)

lemma read_base_text:
  assumes "2 \<le> b" "b \<le> 16"
  shows "read_digits b (base_text b n) = n"
proof (induction n rule: less_induct)
  case (less n)
  show ?case
  proof (cases "n < b")
    case True
    with assms show ?thesis by (simp add: base_text.simps[of b n] read_digits_def digit_value_char)
  next
    case False
    with assms have "n div b < n" by (simp add: div_less_dividend)
    from less.IH[OF this] have "foldl (\<lambda>n c. n * b + digit_value c) 0 (base_text b (n div b)) = n div b"
      by (simp add: read_digits_def)
    moreover have "digit_value (digit_char (n mod b)) = n mod b"
    proof (rule digit_value_char)
      have "n mod b < b" using assms(1) by simp
      with assms(2) show "n mod b < 16" by linarith
    qed
    ultimately show ?thesis using False assms by (simp add: base_text.simps[of b n] read_digits_def)
  qed
qed

lemma read_padded: "read_digits b (replicate k (CHR ''0'') @ s) = read_digits b s"
proof -
  have "foldl (\<lambda>n c. n * b + digit_value c) 0 (replicate k (CHR ''0'')) = 0"
    by (induction k) (simp_all add: digit_value_def)
  then show ?thesis by (simp add: read_digits_def)
qed

text \<open>
  A formatted number is written as its prefix, if that is wanted, and digits from which the
  number is read back, as many as the width asks for or more; a negative number is read back
  as it is stored.  The base and the fill character of the stream are what they were, and
  numbers written with the same width are told apart.
\<close>

theorem formatted_numbers_read_back:
  assumes "f = HexNum num n width \<or> f = OctNum num n width" "os_width o' = 0"
  shows "\<exists>ds. os_text (put_formatted (set_showBase show f) o') = os_text o' @ (if show then fn_prefix f else []) @ ds \<and>
      int (read_digits (fn_base f) ds) = num mod 2 ^ n \<and> width \<le> length ds \<and>
      os_base (put_formatted (set_showBase show f) o') = os_base o' \<and>
      os_fill (put_formatted (set_showBase show f) o') = os_fill o' \<and>
      os_width (put_formatted (set_showBase show f) o') = 0"
proof -
  let ?t = "base_text (fn_base f) (nat (num mod 2 ^ n))"
  let ?ds = "replicate (width - length ?t) (CHR ''0'') @ ?t"
  have "2 \<le> fn_base f \<and> fn_base f \<le> 16" using assms(1) by (auto simp: HexNum_def OctNum_def)
  then have "int (read_digits (fn_base f) ?ds) = num mod 2 ^ n" by (simp add: read_padded read_base_text)
  moreover have "os_text (put_formatted (set_showBase show f) o') = os_text o' @ (if show then fn_prefix f else []) @ ?ds"
    using assms by (auto simp: put_formatted_def put_text_def set_showBase_def to_printable_integer_def HexNum_def OctNum_def Let_def)
  ultimately show ?thesis
    by (intro exI[of _ ?ds]) (auto simp: put_formatted_def put_text_def Let_def)
qed

theorem formatted_numbers_read_back_witness:
  "\<exists>ds. os_text (put_formatted (set_showBase True (HexNum (- 1) 32 4)) ostream_new) = ''0x'' @ ds \<and> int (read_digits 16 ds) = 4294967295"
  using formatted_numbers_read_back[of "HexNum (- 1) 32 4" "- 1" 32 4 ostream_new True]
  by (auto simp: HexNum_def ostream_new_def)

text \<open>The answers of a C library that formats the text \<open>t\<close> for a buffer of \<open>n\<close> characters and the terminator.\<close>

abbreviation printf_answer :: "nat \<Rightarrow> string \<Rightarrow> answer" where
  "printf_answer n t \<equiv> \<lparr>rv = int (length t), err = None, out = take n t @ [NUL], outs = []\<rparr>"

text \<open>
  \<^verbatim>\<open>sprintf()\<close> returns the complete text, asking once when it has at most 128 characters and
  twice otherwise, and an empty string when the C library reports an error.
\<close>

theorem sprintf_returns_the_text:
  assumes "answers w = printf_answer 128 t # (if length t \<le> 128 then [] else [printf_answer (length t) t]) @ as"
  shows "\<exists>w'. cosmos_sprintf args w = (Ret t, w') \<and> answers w' = as \<and>
      length (trace w') = length (trace w) + (if length t \<le> 128 then 1 else 2) \<and>
    (\<exists>w'. cosmos_sprintf args (w\<lparr>answers := [failed er]\<rparr>) = (Ret [], w'))"
proof -
  have fits: "resize (length t) (store s (take (length s) t @ [NUL])) = t" if "length t \<le> length s" for s :: string
    using that by (simp add: store_def resize_def)
  have "\<exists>w'. cosmos_sprintf args (w\<lparr>answers := [failed er]\<rparr>) = (Ret [], w')"
    by (simp add: cosmos_sprintf_def sprintf_round_def loop.simps act_defs kernel_defs)
  moreover have "\<exists>w'. cosmos_sprintf args w = (Ret t, w') \<and> answers w' = as \<and>
      length (trace w') = length (trace w) + (if length t \<le> 128 then 1 else 2)"
  proof (cases "length t \<le> 128")
    case True
    with assms fits[of "resize 128 []"] show ?thesis
      by (simp add: cosmos_sprintf_def sprintf_round_def loop.simps act_defs kernel_defs)
  next
    case False
    with assms fits[of "resize (length t) (store (resize 128 []) (take 128 t @ [NUL]))"] show ?thesis
      by (simp add: cosmos_sprintf_def sprintf_round_def loop.simps act_defs kernel_defs)
  qed
  ultimately show ?thesis by blast
qed

theorem sprintf_returns_the_text_witness:
  "\<exists>w'. cosmos_sprintf [] (world_of [printf_answer 128 ''text'']) = (Ret ''text'', w')"
  using sprintf_returns_the_text[of "world_of [printf_answer 128 ''text'']" "''text''" "[]" "[]"]
  by (auto simp: world_of_def)

end
