(* ===== verification/ProcControl.thy ===== *)
theory ProcControl
  imports AuxVector HostBytes Path ProcTypes BitMask
begin

text \<open>
  Process control: the capabilities of \<^verbatim>\<open>include/proc/caps.hxx\<close> and the wrappers of
  \<^verbatim>\<open>src/proc/prctl.cxx\<close>, each a request of \<^verbatim>\<open>prctl()\<close> or \<^verbatim>\<open>arch_prctl()\<close> with its operation
  and the text of its error.  Values that the kernel stores through a pointer are the integers
  of its answer.
\<close>

subsection \<open>Capabilities\<close>

datatype (plugins only: lifting) Capability = CAP_CHOWN | CAP_DAC_OVERRIDE | CAP_DAC_READ_SEARCH |
    CAP_FOWNER | CAP_FSETID | CAP_KILL | CAP_SETGID | CAP_SETUID | CAP_SETPCAP | CAP_IMMUTABLE |
    CAP_NET_BIND_SERVICE | CAP_NET_BROADCAST | CAP_NET_ADMIN | CAP_NET_RAW | CAP_IPC_LOCK |
    CAP_IPC_OWNER | CAP_SYS_MODULE | CAP_SYS_RAWIO | CAP_SYS_CHROOT | CAP_SYS_PTRACE |
    CAP_SYS_PACCT | CAP_SYS_ADMIN | CAP_SYS_BOOT | CAP_SYS_NICE | CAP_SYS_RESOURCE | CAP_SYS_TIME
    | CAP_SYS_TTY_CONFIG | CAP_MKNOD | CAP_LEASE | CAP_AUDIT_WRITE | CAP_AUDIT_CONTROL |
    CAP_SETFCAP | CAP_MAC_OVERRIDE | CAP_MAC_ADMIN | CAP_SYSLOG | CAP_WAKE_ALARM |
    CAP_BLOCK_SUSPEND | CAP_AUDIT_READ | CAP_PERFMON | CAP_BPF | CAP_CHECKPOINT_RESTORE

primrec Capability_value :: "Capability \<Rightarrow> int" where
  "Capability_value CAP_CHOWN = 0"
| "Capability_value CAP_DAC_OVERRIDE = 1"
| "Capability_value CAP_DAC_READ_SEARCH = 2"
| "Capability_value CAP_FOWNER = 3"
| "Capability_value CAP_FSETID = 4"
| "Capability_value CAP_KILL = 5"
| "Capability_value CAP_SETGID = 6"
| "Capability_value CAP_SETUID = 7"
| "Capability_value CAP_SETPCAP = 8"
| "Capability_value CAP_IMMUTABLE = 9"
| "Capability_value CAP_NET_BIND_SERVICE = 0xa"
| "Capability_value CAP_NET_BROADCAST = 0xb"
| "Capability_value CAP_NET_ADMIN = 0xc"
| "Capability_value CAP_NET_RAW = 0xd"
| "Capability_value CAP_IPC_LOCK = 0xe"
| "Capability_value CAP_IPC_OWNER = 0xf"
| "Capability_value CAP_SYS_MODULE = 0x10"
| "Capability_value CAP_SYS_RAWIO = 0x11"
| "Capability_value CAP_SYS_CHROOT = 0x12"
| "Capability_value CAP_SYS_PTRACE = 0x13"
| "Capability_value CAP_SYS_PACCT = 0x14"
| "Capability_value CAP_SYS_ADMIN = 0x15"
| "Capability_value CAP_SYS_BOOT = 0x16"
| "Capability_value CAP_SYS_NICE = 0x17"
| "Capability_value CAP_SYS_RESOURCE = 0x18"
| "Capability_value CAP_SYS_TIME = 0x19"
| "Capability_value CAP_SYS_TTY_CONFIG = 0x1a"
| "Capability_value CAP_MKNOD = 0x1b"
| "Capability_value CAP_LEASE = 0x1c"
| "Capability_value CAP_AUDIT_WRITE = 0x1d"
| "Capability_value CAP_AUDIT_CONTROL = 0x1e"
| "Capability_value CAP_SETFCAP = 0x1f"
| "Capability_value CAP_MAC_OVERRIDE = 0x20"
| "Capability_value CAP_MAC_ADMIN = 0x21"
| "Capability_value CAP_SYSLOG = 0x22"
| "Capability_value CAP_WAKE_ALARM = 0x23"
| "Capability_value CAP_BLOCK_SUSPEND = 0x24"
| "Capability_value CAP_AUDIT_READ = 0x25"
| "Capability_value CAP_PERFMON = 0x26"
| "Capability_value CAP_BPF = 0x27"
| "Capability_value CAP_CHECKPOINT_RESTORE = 0x28"

datatype SecureBit = SECBIT_KEEP_CAPS | SECBIT_KEEP_CAPS_LOCKED | SECBIT_NO_SETUID_FIXUP |
    SECBIT_NO_SETUID_FIXUP_LOCKED | SECBIT_NOROOT | SECBIT_NOROOT_LOCKED |
    SECBIT_NO_CAP_AMBIENT_RAISE | SECBIT_NO_CAP_AMBIENT_RAISE_LOCKED

primrec SecureBit_value :: "SecureBit \<Rightarrow> 64 word" where
  "SecureBit_value SECBIT_KEEP_CAPS = 0x10"
| "SecureBit_value SECBIT_KEEP_CAPS_LOCKED = 0x20"
| "SecureBit_value SECBIT_NO_SETUID_FIXUP = 4"
| "SecureBit_value SECBIT_NO_SETUID_FIXUP_LOCKED = 8"
| "SecureBit_value SECBIT_NOROOT = 1"
| "SecureBit_value SECBIT_NOROOT_LOCKED = 2"
| "SecureBit_value SECBIT_NO_CAP_AMBIENT_RAISE = 0x40"
| "SecureBit_value SECBIT_NO_CAP_AMBIENT_RAISE_LOCKED = 0x80"

datatype MemoryWriteExecFlag = MDWE_REFUSE_EXEC_GAIN | MDWE_NO_INHERIT

primrec MemoryWriteExecFlag_value :: "MemoryWriteExecFlag \<Rightarrow> 64 word" where
  "MemoryWriteExecFlag_value MDWE_REFUSE_EXEC_GAIN = 1"
| "MemoryWriteExecFlag_value MDWE_NO_INHERIT = 2"

subsection \<open>The generic requests\<close>

text \<open>An operation and its name, as the macro \<^verbatim>\<open>EXPAND_CTL\<close> passes them.\<close>

type_synonym ctl = "int \<times> string"

definition PR_SET_PDEATHSIG :: ctl where "PR_SET_PDEATHSIG = (1, ''PR_SET_PDEATHSIG'')"
definition PR_GET_PDEATHSIG :: ctl where "PR_GET_PDEATHSIG = (2, ''PR_GET_PDEATHSIG'')"
definition PR_GET_DUMPABLE :: ctl where "PR_GET_DUMPABLE = (3, ''PR_GET_DUMPABLE'')"
definition PR_SET_DUMPABLE :: ctl where "PR_SET_DUMPABLE = (4, ''PR_SET_DUMPABLE'')"
definition PR_SET_NAME :: ctl where "PR_SET_NAME = (0xf, ''PR_SET_NAME'')"
definition PR_GET_NAME :: ctl where "PR_GET_NAME = (0x10, ''PR_GET_NAME'')"
definition PR_CAPBSET_READ :: ctl where "PR_CAPBSET_READ = (0x17, ''PR_CAPBSET_READ'')"
definition PR_CAPBSET_DROP :: ctl where "PR_CAPBSET_DROP = (0x18, ''PR_CAPBSET_DROP'')"
definition PR_GET_SECUREBITS :: ctl where "PR_GET_SECUREBITS = (0x1b, ''PR_GET_SECUREBITS'')"
definition PR_SET_SECUREBITS :: ctl where "PR_SET_SECUREBITS = (0x1c, ''PR_SET_SECUREBITS'')"
definition PR_SET_TIMERSLACK :: ctl where "PR_SET_TIMERSLACK = (0x1d, ''PR_SET_TIMERSLACK'')"
definition PR_GET_TIMERSLACK :: ctl where "PR_GET_TIMERSLACK = (0x1e, ''PR_GET_TIMERSLACK'')"
definition PR_SET_CHILD_SUBREAPER :: ctl where "PR_SET_CHILD_SUBREAPER = (0x24, ''PR_SET_CHILD_SUBREAPER'')"
definition PR_GET_CHILD_SUBREAPER :: ctl where "PR_GET_CHILD_SUBREAPER = (0x25, ''PR_GET_CHILD_SUBREAPER'')"
definition PR_SET_NO_NEW_PRIVS :: ctl where "PR_SET_NO_NEW_PRIVS = (0x26, ''PR_SET_NO_NEW_PRIVS'')"
definition PR_GET_NO_NEW_PRIVS :: ctl where "PR_GET_NO_NEW_PRIVS = (0x27, ''PR_GET_NO_NEW_PRIVS'')"
definition PR_GET_TID_ADDRESS :: ctl where "PR_GET_TID_ADDRESS = (0x28, ''PR_GET_TID_ADDRESS'')"
definition PR_CAP_AMBIENT :: ctl where "PR_CAP_AMBIENT = (0x2f, ''PR_CAP_AMBIENT'')"
definition PR_SET_MDWE :: ctl where "PR_SET_MDWE = (0x41, ''PR_SET_MDWE'')"
definition PR_GET_MDWE :: ctl where "PR_GET_MDWE = (0x42, ''PR_GET_MDWE'')"
definition PR_SET_PTRACER :: ctl where "PR_SET_PTRACER = (0x59616d61, ''PR_SET_PTRACER'')"
definition PR_SET_VMA :: ctl where "PR_SET_VMA = (0x53564d41, ''PR_SET_VMA'')"
definition PR_GET_AUXV :: ctl where "PR_GET_AUXV = (0x41555856, ''PR_GET_AUXV'')"
definition PR_CAP_AMBIENT_IS_SET :: ctl where "PR_CAP_AMBIENT_IS_SET = (1, ''PR_CAP_AMBIENT_IS_SET'')"
definition PR_CAP_AMBIENT_RAISE :: ctl where "PR_CAP_AMBIENT_RAISE = (2, ''PR_CAP_AMBIENT_RAISE'')"
definition PR_CAP_AMBIENT_LOWER :: ctl where "PR_CAP_AMBIENT_LOWER = (3, ''PR_CAP_AMBIENT_LOWER'')"
definition PR_CAP_AMBIENT_CLEAR_ALL :: ctl where "PR_CAP_AMBIENT_CLEAR_ALL = (4, ''PR_CAP_AMBIENT_CLEAR_ALL'')"

definition arch_prctl :: "int \<Rightarrow> arg \<Rightarrow> bool \<Rightarrow> (world, answer) act" where
  "arch_prctl op addr eval_error = bind (call ''arch_prctl'' [I op, addr]) (\<lambda>a.
     if eval_error \<and> rv a \<noteq> 0 then throw_ApiError ''arch_prctl()'' else ret a)"

definition ctl_error :: "string \<Rightarrow> string" where
  "ctl_error name = ''prctl('' @ name @ '')''"

definition prctl_cap_ambient :: "ctl \<Rightarrow> Capability option \<Rightarrow> (world, int) act" where
  "prctl_cap_ambient subop cap = bind (call ''prctl'' [I (fst PR_CAP_AMBIENT), I (fst subop),
       I (case cap of Some c \<Rightarrow> Capability_value c | None \<Rightarrow> 0), I 0, I 0]) (\<lambda>a.
     if rv a < 0 then throw_ApiError (''prctl(PR_CAP_AMBIENT, '' @ snd subop) else ret (rv a))"

text \<open>The attribute is zero until the kernel stores it.\<close>

definition prctl_get_attr_by_ptr :: "ctl \<Rightarrow> (world, int) act" where
  "prctl_get_attr_by_ptr ctl = bind (call ''prctl'' [I (fst ctl)]) (\<lambda>a.
     if rv a < 0 then throw_ApiError (ctl_error (snd ctl)) else ret (case outs a of [] \<Rightarrow> 0 | n # _ \<Rightarrow> n))"

definition prctl_get_int_by_ptr :: "ctl \<Rightarrow> (world, int) act" where
  "prctl_get_int_by_ptr ctl = prctl_get_attr_by_ptr ctl"

definition prctl_get_bool_by_ptr :: "ctl \<Rightarrow> (world, bool) act" where
  "prctl_get_bool_by_ptr ctl = bind (prctl_get_attr_by_ptr ctl) (\<lambda>n. ret (n \<noteq> 0))"

definition prctl_get_int_by_value :: "ctl \<Rightarrow> (world, int) act" where
  "prctl_get_int_by_value ctl = bind (call ''prctl'' [I (fst ctl), I 0, I 0, I 0, I 0]) (\<lambda>a.
     if rv a < 0 then throw_ApiError (ctl_error (snd ctl)) else ret (rv a))"

definition prctl_get_bool_by_value :: "ctl \<Rightarrow> (world, bool) act" where
  "prctl_get_bool_by_value ctl = bind (prctl_get_int_by_value ctl) (\<lambda>n. ret (n \<noteq> 0))"

definition prctl_set_attr :: "ctl \<Rightarrow> int \<Rightarrow> (world, unit) act" where
  "prctl_set_attr ctl setting = call_or_throw (\<lambda>r. \<not> r < 0) ''prctl'' [I (fst ctl), I setting, I 0, I 0, I 0]
     (throw_ApiError (ctl_error (snd ctl)))"

definition prctl_set_bool_attr :: "ctl \<Rightarrow> bool \<Rightarrow> (world, unit) act" where
  "prctl_set_bool_attr ctl setting = prctl_set_attr ctl (if setting then 1 else 0)"

subsection \<open>Capability sets\<close>

definition get_cap_in_bounding_set :: "Capability \<Rightarrow> (world, bool) act" where
  "get_cap_in_bounding_set cap = bind (call ''prctl'' [I (fst PR_CAPBSET_READ), I (Capability_value cap)]) (\<lambda>a.
     if rv a < 0 then throw_ApiError ''prctl(PR_CAPBSET_READ)'' else ret (rv a \<noteq> 0))"

definition drop_cap_from_bounding_set :: "Capability \<Rightarrow> (world, unit) act" where
  "drop_cap_from_bounding_set cap = call_or_throw (\<lambda>r. r = 0) ''prctl'' [I (fst PR_CAPBSET_DROP), I (Capability_value cap)]
     (throw_ApiError ''prctl(PR_CAPBSET_DROP)'')"

definition drop_all_ambient_caps :: "(world, unit) act" where
  "drop_all_ambient_caps = bind (prctl_cap_ambient PR_CAP_AMBIENT_CLEAR_ALL None) (\<lambda>_. ret ())"

definition get_cap_in_ambient_set :: "Capability \<Rightarrow> (world, bool) act" where
  "get_cap_in_ambient_set cap = bind (prctl_cap_ambient PR_CAP_AMBIENT_IS_SET (Some cap)) (\<lambda>n. ret (n \<noteq> 0))"

definition raise_ambient_cap :: "Capability \<Rightarrow> (world, unit) act" where
  "raise_ambient_cap cap = bind (prctl_cap_ambient PR_CAP_AMBIENT_RAISE (Some cap)) (\<lambda>_. ret ())"

definition lower_ambient_cap :: "Capability \<Rightarrow> (world, unit) act" where
  "lower_ambient_cap cap = bind (prctl_cap_ambient PR_CAP_AMBIENT_LOWER (Some cap)) (\<lambda>_. ret ())"

subsection \<open>Attributes of processes and threads\<close>

definition get_child_subreaper :: "(world, bool) act" where
  "get_child_subreaper = prctl_get_bool_by_ptr PR_GET_CHILD_SUBREAPER"

definition set_child_subreaper :: "bool \<Rightarrow> (world, unit) act" where
  "set_child_subreaper is_subreaper = prctl_set_bool_attr PR_SET_CHILD_SUBREAPER is_subreaper"

definition get_dumpable :: "(world, bool) act" where
  "get_dumpable = prctl_get_bool_by_value PR_GET_DUMPABLE"

definition set_dumpable :: "bool \<Rightarrow> (world, unit) act" where
  "set_dumpable dumpable = prctl_set_bool_attr PR_SET_DUMPABLE dumpable"

definition set_anon_memory_name :: "int \<Rightarrow> 64 word \<Rightarrow> string \<Rightarrow> (world, unit) act" where
  "set_anon_memory_name addr len name = call_or_throw (\<lambda>r. r = 0) ''prctl''
     [I (fst PR_SET_VMA), I 0, I addr, I (uint len), S name] (throw_ApiError ''prctl(PR_SET_VMA, PR_EST_VMA_ANON_NAME)'')"

text \<open>The name is read into an array of 16 bytes.\<close>

definition get_thread_name :: "(world, string) act" where
  "get_thread_name = bind (call ''prctl'' [I (fst PR_GET_NAME)]) (\<lambda>a.
     if rv a < 0 then throw_ApiError ''prctl(PR_GET_NAME)'' else ret (c_str (store (resize 16 []) (out a))))"

definition set_thread_name :: "string \<Rightarrow> (world, unit) act" where
  "set_thread_name name = call_or_throw (\<lambda>r. \<not> r < 0) ''prctl'' [I (fst PR_SET_NAME), S name]
     (throw_ApiError ''prctl(PR_SET_NAME)'')"

definition get_no_new_privs :: "(world, bool) act" where
  "get_no_new_privs = prctl_get_bool_by_value PR_GET_NO_NEW_PRIVS"

definition set_no_new_privs :: "(world, unit) act" where
  "set_no_new_privs = prctl_set_bool_attr PR_SET_NO_NEW_PRIVS True"

definition get_parent_death_signal :: "(world, Signal) act" where
  "get_parent_death_signal = prctl_get_int_by_ptr PR_GET_PDEATHSIG"

definition set_parent_death_signal :: "Signal \<Rightarrow> (world, unit) act" where
  "set_parent_death_signal sig = prctl_set_attr PR_SET_PDEATHSIG sig"

definition set_ptracer :: "ProcessID \<Rightarrow> (world, unit) act" where
  "set_ptracer pid = prctl_set_attr PR_SET_PTRACER pid"

definition set_any_ptracer :: "(world, unit) act" where
  "set_any_ptracer = prctl_set_attr PR_SET_PTRACER (-1)"

text \<open>The masks are 64 bits wide; the value that is returned is an \<^verbatim>\<open>int\<close>.\<close>

definition get_secure_bits :: "(world, 64 mask) act" where
  "get_secure_bits = bind (prctl_get_int_by_value PR_GET_SECUREBITS) (\<lambda>n. ret (BitMask_of (of_int n)))"

definition set_secure_bits :: "64 mask \<Rightarrow> (world, unit) act" where
  "set_secure_bits flags = prctl_set_attr PR_SET_SECUREBITS (uint (BitMask_raw flags))"

definition get_clear_child_tid_addr :: "(world, int) act" where
  "get_clear_child_tid_addr = prctl_get_attr_by_ptr PR_GET_TID_ADDRESS"

definition get_timer_slack :: "(world, int) act" where
  "get_timer_slack = prctl_get_int_by_value PR_GET_TIMERSLACK"

definition set_timer_slack :: "int \<Rightarrow> (world, unit) act" where
  "set_timer_slack ns = prctl_set_attr PR_SET_TIMERSLACK (uint (of_int ns :: 64 word))"

definition get_memory_write_exec_flags :: "(world, 64 mask) act" where
  "get_memory_write_exec_flags = bind (prctl_get_int_by_value PR_GET_MDWE) (\<lambda>n. ret (BitMask_of (of_int n)))"

definition set_memory_write_exec_flags :: "64 mask \<Rightarrow> (world, unit) act" where
  "set_memory_write_exec_flags flags = prctl_set_attr PR_SET_MDWE (uint (BitMask_raw flags))"

text \<open>
  The auxiliary vector is read into a buffer that grows to the size the kernel reports, up to
  64 kilobytes.  The room up to that limit bounds the loop.
\<close>

definition aux_vector_round :: "(string \<times> world, string option) act" where
  "aux_vector_round = bind (this length) (\<lambda>n.
     bind (on_world (call ''prctl'' [I (fst PR_GET_AUXV), I (int n), I 0, I 0])) (\<lambda>a.
       andthen (set_this (\<lambda>buf. store buf (out a)))
         (if rv a < 0 then on_world (throw_ApiError ''prctl{PR_GET_AUXV}'')
          else if nat (rv a) \<le> n then bind (this (\<lambda>buf. buf)) (\<lambda>buf. ret (Some buf))
          else if 1024 * 64 < nat (rv a) then throw (RuntimeError ''suspicously large AUXV encountered'')
          else andthen (set_this (resize (nat (rv a)))) (ret None))))"

definition get_aux_vector :: "(world, string) act" where
  "get_aux_vector = bind (with_local (resize 512 [])
       (loop (\<lambda>(buf, _). 1024 * 64 - length buf) aux_vector_round)) (\<lambda>(v, _). ret v)"

subsection \<open>Requests of the architecture\<close>

definition get_cpuid_enabled :: "(world, bool) act" where
  "get_cpuid_enabled = bind (arch_prctl 0x1011 (I 0) False) (\<lambda>a. ret (rv a \<noteq> 0))"

definition set_cpuid_enabled :: "bool \<Rightarrow> (world, unit) act" where
  "set_cpuid_enabled on_off = bind (arch_prctl 0x1012 (I (if on_off then 1 else 0)) True) (\<lambda>_. ret ())"

text \<open>The register base is what the kernel stores.\<close>

definition reg_out :: "answer \<Rightarrow> 64 word" where
  "reg_out a = (case outs a of [] \<Rightarrow> 0 | n # _ \<Rightarrow> of_int n)"

definition get_fs_register_base :: "(world, 64 word) act" where
  "get_fs_register_base = bind (arch_prctl 0x1003 (I 0) True) (\<lambda>a. ret (reg_out a))"

definition set_fs_register_base :: "64 word \<Rightarrow> (world, unit) act" where
  "set_fs_register_base addr = bind (arch_prctl 0x1002 (I (uint addr)) True) (\<lambda>_. ret ())"

definition get_gs_register_base :: "(world, 64 word) act" where
  "get_gs_register_base = bind (arch_prctl 0x1004 (I 0) True) (\<lambda>a. ret (reg_out a))"

definition set_gs_register_base :: "64 word \<Rightarrow> (world, unit) act" where
  "set_gs_register_base addr = bind (arch_prctl 0x1001 (I (uint addr)) True) (\<lambda>_. ret ())"

subsection \<open>Properties\<close>

text \<open>
  The name of a thread is read as it was set when it fits into the 16 bytes of the array; of a
  longer name the kernel keeps and stores 15 characters and the terminator.
\<close>

theorem thread_name_roundtrip:
  assumes "NUL \<notin> set name"
  shows "\<exists>w'. bind (set_thread_name name) (\<lambda>_. get_thread_name)
      (w\<lparr>answers := [ok 0, \<lparr>rv = 0, err = None, out = take 15 name @ [NUL], outs = []\<rparr>]\<rparr>) = (Ret (take 15 name), w') \<and>
    runs_to (w\<lparr>answers := [ok 0, \<lparr>rv = 0, err = None, out = take 15 name @ [NUL], outs = []\<rparr>]\<rparr>)
      [(Call ''prctl'' [I 15, S name], ok 0), (Call ''prctl'' [I 16], \<lparr>rv = 0, err = None, out = take 15 name @ [NUL], outs = []\<rparr>)] w'"
proof -
  have "c_str (store (resize 16 []) (take 15 name @ [NUL])) = take 15 name"
    using assms by (auto simp: c_str_def store_def takeWhile_append dest: in_set_takeD)
  then show ?thesis
    by (simp add: set_thread_name_def get_thread_name_def PR_SET_NAME_def PR_GET_NAME_def act_defs kernel_defs runs_to_def)
qed

theorem thread_name_roundtrip_witness:
  "\<exists>w'. bind (set_thread_name ''worker'') (\<lambda>_. get_thread_name)
      ((world_of [])\<lparr>answers := [ok 0, \<lparr>rv = 0, err = None, out = take 15 ''worker'' @ [NUL], outs = []\<rparr>]\<rparr>) = (Ret (take 15 ''worker''), w')"
  using thread_name_roundtrip[of "''worker''" "world_of []"] by (auto simp: NUL_def)

text \<open>The bytes of an auxiliary vector with its terminator.\<close>

definition aux_bytes :: "RawEntry list \<Rightarrow> 8 word list" where
  "aux_bytes es = concat (map (\<lambda>e. bytes (re_type e) @ bytes (re_value e)) es) @ replicate 16 0"

lemma length_aux_bytes: "length (aux_bytes es) = 16 * length es + 16"
  by (induction es) (simp_all add: aux_bytes_def length_bytes)

lemma entry_at_bytes: "entry_at (bytes t @ bytes v @ rest) = \<lparr>re_type = t, re_value = v\<rparr>"
  by (simp add: entry_at_def of_bytes_bytes length_bytes)

lemma of_bytes_zero: "of_bytes (replicate n 0) = 0"
  by (induction n) simp_all

lemma raw_entries_aux:
  assumes "\<forall>e\<in>set es. re_type e \<noteq> AT_NULL" "length es < n"
  shows "raw_entries n (aux_bytes es @ rest) = es"
  using assms
proof (induction es arbitrary: n)
  case Nil
  then obtain m where "n = Suc m" by (cases n) auto
  moreover have "isNull (entry_at (aux_bytes [] @ rest))"
    by (simp add: aux_bytes_def isNull_def entry_at_def AT_NULL_def of_bytes_zero take_replicate)
  ultimately show ?case by simp
next
  case (Cons e es)
  then obtain m where m: "n = Suc m" "length es < m" by (cases n) auto
  have a: "aux_bytes (e # es) @ rest = bytes (re_type e) @ bytes (re_value e) @ (aux_bytes es @ rest)"
    by (simp add: aux_bytes_def)
  have "entry_at (aux_bytes (e # es) @ rest) = e" unfolding a by (simp add: entry_at_bytes)
  moreover have "drop 16 (aux_bytes (e # es) @ rest) = aux_bytes es @ rest" unfolding a by (simp add: length_bytes)
  ultimately show ?case using Cons m by (simp add: isNull_def)
qed

lemma entries_aux:
  assumes "\<forall>e\<in>set es. re_type e \<noteq> AT_NULL"
  shows "entries (aux_bytes es @ rest) = es"
  unfolding entries_def
  by (rule raw_entries_aux[OF assms]) (simp add: length_aux_bytes)

abbreviation aux_answer :: "nat \<Rightarrow> string \<Rightarrow> answer" where
  "aux_answer n v \<equiv> \<lparr>rv = int (length v), err = None, out = take n v, outs = []\<rparr>"

lemma bytes_of_str_append: "bytes_of_str (s @ t) = bytes_of_str s @ bytes_of_str t"
  by (simp add: bytes_of_str_def)

text \<open>One round against a kernel that stores as much of the vector as there is room for.\<close>

lemma aux_round:
  assumes "answers w = aux_answer (length buf) v # as"
  shows "\<exists>w'. aux_vector_round (buf, w) =
      (if length v \<le> length buf then (Ret (Some (store buf v)), (store buf v, w'))
       else if 65536 < length v then (Throw (RuntimeError ''suspicously large AUXV encountered''), (store buf (take (length buf) v), w'))
       else (Ret None, (resize (length v) (store buf (take (length buf) v)), w'))) \<and> answers w' = as"
  using assms by (auto simp: aux_vector_round_def act_defs kernel_defs PR_GET_AUXV_def)

text \<open>
  C21: The vector of the process is read completely, in at most two calls, when it is not larger
  than 64 kilobytes, and looking up an entry in an object made from it finds the first entry
  of its type; a larger vector is refused.
\<close>

theorem aux_vector_is_read:
  assumes "\<forall>e\<in>set es. re_type e \<noteq> AT_NULL" "v = str_of_bytes (aux_bytes es)" "n = length v"
  shows "(n \<le> 512 \<longrightarrow> answers w = [aux_answer 512 v] \<longrightarrow> (\<exists>buf w'. get_aux_vector w = (Ret buf, w') \<and>
       lookupValue mem (viewed (AuxVector_move (bytes_of_str buf)) ext) type = map_option (make_data mem) (first_entry type es))) \<and>
    (512 < n \<and> n \<le> 65536 \<longrightarrow> answers w = [aux_answer 512 v, aux_answer n v] \<longrightarrow> (\<exists>buf w'. get_aux_vector w = (Ret buf, w') \<and>
       lookupValue mem (viewed (AuxVector_move (bytes_of_str buf)) ext) type = map_option (make_data mem) (first_entry type es))) \<and>
    (65536 < n \<longrightarrow> answers w = aux_answer 512 v # as \<longrightarrow>
       fst (get_aux_vector w) = Throw (RuntimeError ''suspicously large AUXV encountered''))"
proof -
  have found: "lookupValue mem (viewed (AuxVector_move (bytes_of_str (store buf v))) ext) type =
      map_option (make_data mem) (first_entry type es)" if "length v \<le> length buf" for buf
  proof -
    have "bytes_of_str (store buf v) = aux_bytes es @ bytes_of_str (drop (length v) buf)"
      using that assms(2) by (simp add: store_def bytes_of_str_append)
    then have "entries (bytes_of_str (store buf v)) = es" using entries_aux[OF assms(1)] by simp
    then show ?thesis
      by (simp add: viewed_def AuxVector_move_def lookupValue_def iterate_def lookup_entries entries_def)
  qed
  let ?b = "resize 512 [] :: string"
  have lb: "length ?b = 512" by simp
  note start = loop.simps[of _ aux_vector_round "(?b, w)"]
  note first = aux_round[of w v ?b, unfolded lb]
  show ?thesis
  proof (intro conjI impI)
    assume n: "n \<le> 512" and a: "answers w = [aux_answer 512 v]"
    from first[OF a] n assms(3) obtain w' where
      "aux_vector_round (?b, w) = (Ret (Some (store ?b v)), (store ?b v, w'))" by auto
    then have "get_aux_vector w = (Ret (store ?b v), w')"
      by (simp add: start get_aux_vector_def with_local_def bind_def ret_def)
    with n assms(3) found[of ?b] show "\<exists>buf w'. get_aux_vector w = (Ret buf, w') \<and>
       lookupValue mem (viewed (AuxVector_move (bytes_of_str buf)) ext) type = map_option (make_data mem) (first_entry type es)"
      by auto
  next
    assume n: "512 < n \<and> n \<le> 65536" and a: "answers w = [aux_answer 512 v, aux_answer n v]"
    let ?buf = "resize n (store ?b (take 512 v))"
    from first[OF a] n assms(3) obtain w1 where
      1: "aux_vector_round (?b, w) = (Ret None, (?buf, w1))" "answers w1 = [aux_answer n v]" by auto
    have len: "length ?buf = n" by simp
    from aux_round[of w1 v ?buf, unfolded len, OF 1(2)] assms(3) obtain w2 where
      "aux_vector_round (?buf, w1) = (Ret (Some (store ?buf v)), (store ?buf v, w2))" by auto
    moreover have "65536 - n < 65024" using n by linarith
    ultimately have "get_aux_vector w = (Ret (store ?buf v), w2)"
      using 1 n by (simp add: start get_aux_vector_def with_local_def bind_def ret_def loop.simps[of _ _ "(?buf, w1)"])
    with found[of ?buf] assms(3) show "\<exists>buf w'. get_aux_vector w = (Ret buf, w') \<and>
       lookupValue mem (viewed (AuxVector_move (bytes_of_str buf)) ext) type = map_option (make_data mem) (first_entry type es)"
      by auto
  next
    assume n: "65536 < n" and a: "answers w = aux_answer 512 v # as"
    from first[OF a] n assms(3) obtain b w' where
      "aux_vector_round (?b, w) = (Throw (RuntimeError ''suspicously large AUXV encountered''), (b, w'))" by auto
    then show "fst (get_aux_vector w) = Throw (RuntimeError ''suspicously large AUXV encountered'')"
      by (simp add: start get_aux_vector_def with_local_def bind_def)
  qed
qed

theorem aux_vector_is_read_witness:
  "\<exists>buf w'. get_aux_vector ((world_of [])\<lparr>answers := [aux_answer 512 (str_of_bytes (aux_bytes [\<lparr>re_type = 6, re_value = 4096\<rparr>]))]\<rparr>) = (Ret buf, w') \<and>
     lookupValue (\<lambda>_. [], \<lambda>_ _. []) (viewed (AuxVector_move (bytes_of_str buf)) []) 6 = Some (DNumber 4096)"
  using aux_vector_is_read[of "[\<lparr>re_type = 6, re_value = 4096\<rparr>]" _ _
      "(world_of [])\<lparr>answers := [aux_answer 512 (str_of_bytes (aux_bytes [\<lparr>re_type = 6, re_value = 4096\<rparr>]))]\<rparr>" "(\<lambda>_. [], \<lambda>_ _. [])" "[]" 6]
  by (auto simp: AT_NULL_def length_aux_bytes first_entry_def make_data_def type_in_def isString_def isPointer_def
      isUID_def isGID_def isBuffer_def isBool_def isFileNum_def)

text \<open>
  Whether \<^verbatim>\<open>cpuid\<close> is enabled is asked without evaluating errors: a call that fails counts
  as enabled, while every other request of the architecture throws.
\<close>

theorem failed_cpuid_query_counts_as_enabled:
  "(\<exists>w'. get_cpuid_enabled (w\<lparr>answers := [failed Errno_NO_DEVICE]\<rparr>) = (Ret True, w')) \<and>
   (\<exists>w'. set_cpuid_enabled b (w\<lparr>answers := [failed Errno_NO_DEVICE]\<rparr>) = (Throw (ApiError ''arch_prctl()'' (errno_of Errno_NO_DEVICE)), w')) \<and>
   (\<exists>w'. get_fs_register_base (w\<lparr>answers := [failed Errno_NO_SYS]\<rparr>) = (Throw (ApiError ''arch_prctl()'' (errno_of Errno_NO_SYS)), w'))"
  by (simp add: get_cpuid_enabled_def set_cpuid_enabled_def get_fs_register_base_def arch_prctl_def act_defs kernel_defs)

end
