(* ===== verification/Memory.thy ===== *)
theory Memory
  imports ProcControl Files
begin

text \<open>
  Memory mappings: the functions of \<^verbatim>\<open>src/proc/mman.cxx\<close> with the types of
  \<^verbatim>\<open>include/proc/mman.hxx\<close>, and the class \<^verbatim>\<open>Mapping\<close> (\<^verbatim>\<open>include/proc/Mapping.hxx\<close>), which owns one.
  An address is the integer the call returns; the null pointer is 0 and \<^verbatim>\<open>MAP_FAILED\<close> is -1.
  The contents of the memory are not modelled.  The constants are those of x86-64.
\<close>

subsection \<open>Types (include/proc/mman.hxx)\<close>

datatype MapType = MAP_SHARED | MAP_SHARED_VALIDATE | MAP_PRIVATE

primrec MapType_value :: "MapType \<Rightarrow> 32 word" where
  "MapType_value MAP_SHARED = 1"
| "MapType_value MAP_SHARED_VALIDATE = 3"
| "MapType_value MAP_PRIVATE = 2"

datatype MemAccessFlag = ACCESS_EXEC | ACCESS_READ | ACCESS_WRITE | ACCESS_NONE | ACCESS_SEM |
    ACCESS_SAO

primrec MemAccessFlag_value :: "MemAccessFlag \<Rightarrow> 32 word" where
  "MemAccessFlag_value ACCESS_EXEC = 4"
| "MemAccessFlag_value ACCESS_READ = 1"
| "MemAccessFlag_value ACCESS_WRITE = 2"
| "MemAccessFlag_value ACCESS_NONE = 0"
| "MemAccessFlag_value ACCESS_SEM = 8"
| "MemAccessFlag_value ACCESS_SAO = 0x10"

datatype (plugins only: lifting) MapFlag = MAPF_INTO_32BIT | MAPF_ANONYMOUS | MAPF_FIXED |
    MAPF_FIXED_NOREPLACE | MAPF_GROWSDOWN | MAPF_HUGETLB | MAPF_LOCKED | MAPF_NONBLOCK |
    MAPF_NORESERVE | MAPF_POPULATE | MAPF_STACK | MAPF_SYNC | MAPF_UNINITIALIZED

primrec MapFlag_value :: "MapFlag \<Rightarrow> 32 word" where
  "MapFlag_value MAPF_INTO_32BIT = 0x40"
| "MapFlag_value MAPF_ANONYMOUS = 0x20"
| "MapFlag_value MAPF_FIXED = 0x10"
| "MapFlag_value MAPF_FIXED_NOREPLACE = 0x100000"
| "MapFlag_value MAPF_GROWSDOWN = 0x100"
| "MapFlag_value MAPF_HUGETLB = 0x40000"
| "MapFlag_value MAPF_LOCKED = 0x2000"
| "MapFlag_value MAPF_NONBLOCK = 0x10000"
| "MapFlag_value MAPF_NORESERVE = 0x4000"
| "MapFlag_value MAPF_POPULATE = 0x8000"
| "MapFlag_value MAPF_STACK = 0x20000"
| "MapFlag_value MAPF_SYNC = 0x80000"
| "MapFlag_value MAPF_UNINITIALIZED = 0x4000000"

datatype ProtectFlag = PROTECT_GROWSUP | PROTECT_GROWSDOWN

primrec ProtectFlag_value :: "ProtectFlag \<Rightarrow> 32 word" where
  "ProtectFlag_value PROTECT_GROWSUP = 0x2000000"
| "ProtectFlag_value PROTECT_GROWSDOWN = 0x1000000"

datatype RemapFlag = REMAP_MAYMOVE | REMAP_FIXED | REMAP_DONTUNMAP

primrec RemapFlag_value :: "RemapFlag \<Rightarrow> 32 word" where
  "RemapFlag_value REMAP_MAYMOVE = 1"
| "RemapFlag_value REMAP_FIXED = 2"
| "RemapFlag_value REMAP_DONTUNMAP = 4"

datatype SyncFlag = SYNC_ASYNC | SYNC_SYNC | SYNC_INVALIDATE

primrec SyncFlag_value :: "SyncFlag \<Rightarrow> 32 word" where
  "SyncFlag_value SYNC_ASYNC = 1"
| "SyncFlag_value SYNC_SYNC = 4"
| "SyncFlag_value SYNC_INVALIDATE = 2"

datatype LockFlag = LOCK_ON_FAULT

primrec LockFlag_value :: "LockFlag \<Rightarrow> 32 word" where
  "LockFlag_value LOCK_ON_FAULT = 1"

datatype LockAllFlag = LOCKALL_CURRENT | LOCKALL_FUTURE | LOCKALL_ONFAULT

primrec LockAllFlag_value :: "LockAllFlag \<Rightarrow> 32 word" where
  "LockAllFlag_value LOCKALL_CURRENT = 1"
| "LockAllFlag_value LOCKALL_FUTURE = 2"
| "LockAllFlag_value LOCKALL_ONFAULT = 4"

record MapSettings =
  ms_type :: MapType
  ms_access :: "32 mask"
  ms_flags :: "32 mask"
  ms_offset :: int
  ms_fd :: FileDescriptor
  ms_addr :: int

text \<open>The members that have a default.\<close>

definition MapSettings_of :: "MapType \<Rightarrow> 32 mask \<Rightarrow> MapSettings" where
  "MapSettings_of type access = \<lparr>ms_type = type, ms_access = access, ms_flags = 0, ms_offset = 0,
     ms_fd = FD_default, ms_addr = 0\<rparr>"

subsection \<open>Functions (src/proc/mman.cxx)\<close>

definition MAP_FAILED :: int where "MAP_FAILED = -1"

definition mem_map :: "64 word \<Rightarrow> MapSettings \<Rightarrow> (world, int) act" where
  "mem_map len settings = (let flags = BitMask_raw (ms_flags settings) OR MapType_value (ms_type settings) in
     bind (call ''mmap'' [I (ms_addr settings), I (uint len), I (sint (BitMask_raw (ms_access settings))), I (sint flags),
         I (m_fd (ms_fd settings)), I (ms_offset settings)]) (\<lambda>a.
       if rv a = MAP_FAILED then throw_ApiError ''mmap()'' else ret (rv a)))"

definition mem_unmap :: "int \<Rightarrow> 64 word \<Rightarrow> (world, unit) act" where
  "mem_unmap addr len = call_or_throw (\<lambda>r. r = 0) ''munmap'' [I addr, I (uint len)] (throw_ApiError ''munmap()'')"

definition mem_sync :: "int \<Rightarrow> 64 word \<Rightarrow> 32 mask \<Rightarrow> (world, unit) act" where
  "mem_sync addr len flags = call_or_throw (\<lambda>r. r = 0) ''msync'' [I addr, I (uint len), I (sint (BitMask_raw flags))]
     (throw_ApiError ''msync()'')"

definition remap_has :: "32 mask \<Rightarrow> RemapFlag \<Rightarrow> bool" where
  "remap_has flags f \<longleftrightarrow> BitMask_test flags (RemapFlag_value f) = Inr True"

definition mem_remap :: "int \<Rightarrow> 64 word \<Rightarrow> 64 word \<Rightarrow> 32 mask \<Rightarrow> int option \<Rightarrow> (world, int) act" where
  "mem_remap old_addr old_size new_size flags new_addr =
     (if remap_has flags REMAP_FIXED \<and> new_addr = None then throw (UsageError ''missing new_addr argument along with FIXED'')
      else if \<not> remap_has flags REMAP_FIXED \<and> new_addr \<noteq> None then throw (UsageError ''unexpected new_addr argument without FIXED'')
      else bind (call ''mremap'' [I old_addr, I (uint old_size), I (uint new_size), I (sint (BitMask_raw flags)),
          I (case new_addr of Some a \<Rightarrow> a | None \<Rightarrow> MAP_FAILED)]) (\<lambda>a.
        if rv a = MAP_FAILED then throw_ApiError ''mremap()'' else ret (rv a)))"

definition mem_lock :: "int \<Rightarrow> 64 word \<Rightarrow> 32 mask \<Rightarrow> (world, unit) act" where
  "mem_lock addr len flags = call_or_throw (\<lambda>r. r = 0) ''mlock2'' [I addr, I (uint len), I (uint (BitMask_raw flags))]
     (throw_ApiError ''mlock2()'')"

definition mem_unlock :: "int \<Rightarrow> 64 word \<Rightarrow> (world, unit) act" where
  "mem_unlock addr len = call_or_throw (\<lambda>r. r = 0) ''munlock'' [I addr, I (uint len)] (throw_ApiError ''munlock()'')"

definition lock_all :: "32 mask \<Rightarrow> (world, unit) act" where
  "lock_all flags = call_or_throw (\<lambda>r. r = 0) ''mlockall'' [I (sint (BitMask_raw flags))] (throw_ApiError ''mlockall()'')"

definition unlock_all :: "(world, unit) act" where
  "unlock_all = call_or_throw (\<lambda>r. r = 0) ''munlockall'' [] (throw_ApiError ''munlockall()'')"

definition mem_protect :: "int \<Rightarrow> 64 word \<Rightarrow> 32 mask \<Rightarrow> 32 mask \<Rightarrow> (world, unit) act" where
  "mem_protect addr len flags extra = (let raw_flags = BitMask_raw flags OR BitMask_raw extra in
     call_or_throw (\<lambda>r. r = 0) ''mprotect'' [I addr, I (uint len), I (sint raw_flags)] (throw_ApiError ''mprotect()''))"

text \<open>
  The loop that counts the position of the lowest bit, for a nonzero number, for which
  alone it is reached: it ends because the number loses a bit in every round.
\<close>

function tlb_log2 :: "64 word \<Rightarrow> nat \<Rightarrow> nat" where
  "tlb_log2 page_size n = (if page_size AND 1 \<noteq> 1 \<and> page_size \<noteq> 0 then tlb_log2 (drop_bit 1 page_size) (n + 1) else n)"
  by pat_completeness auto
termination
proof (relation "measure (\<lambda>(p, n). unat p)", simp, clarsimp)
  fix p :: "64 word"
  assume "p \<noteq> 0"
  then have "0 < unat p" by (simp add: unat_gt_0)
  then show "unat (drop_bit (Suc 0) p) < unat p" by (simp add: unat_drop_bit_eq drop_bit_Suc unat_div)
qed

declare tlb_log2.simps [simp del]

definition MAX_TLB_LOG2 :: nat where "MAX_TLB_LOG2 = 0x3F"

definition MAP_HUGE_SHIFT :: nat where "MAP_HUGE_SHIFT = 26"

definition setTLBPageSize :: "64 word \<Rightarrow> (32 mask \<times> 'w, unit) act" where
  "setTLBPageSize page_size =
     (if page_size = 0 \<or> page_size AND (page_size - 1) \<noteq> 0 then throw (UsageError ''non-log2 TLB page size encountered'')
      else let log2 = tlb_log2 page_size 1 in
        if MAX_TLB_LOG2 < log2 then throw (UsageError ''requested TLB page size is too large'')
        else andthen (set_this (\<lambda>m. BitMask_reset_mask m (BitMask_of (of_nat MAX_TLB_LOG2))))
          (set_this (\<lambda>m. BitMask_set_mask m (BitMask_of (push_bit MAP_HUGE_SHIFT (of_nat log2))))))"

subsection \<open>Mapping\<close>

record Mapping =
  map_addr :: int
  map_size :: "64 word"

definition Mapping_default :: Mapping where
  "Mapping_default = \<lparr>map_addr = 0, map_size = 0\<rparr>"

definition Mapping_invalidate :: "Mapping \<Rightarrow> Mapping" where
  "Mapping_invalidate m = m\<lparr>map_addr := 0, map_size := 0\<rparr>"

definition Mapping_valid :: "Mapping \<Rightarrow> bool" where
  "Mapping_valid m \<longleftrightarrow> map_addr m \<noteq> 0"

text \<open>The constructor works on the object with its default members.\<close>

definition Mapping_construct :: "64 word \<Rightarrow> MapSettings \<Rightarrow> (Mapping \<times> world, unit) act" where
  "Mapping_construct sz settings = bind (on_world (mem_map sz settings)) (\<lambda>addr.
     andthen (set_this (\<lambda>m. m\<lparr>map_addr := addr\<rparr>)) (set_this (\<lambda>m. m\<lparr>map_size := sz\<rparr>)))"

definition Mapping_create :: "64 word \<Rightarrow> MapSettings \<Rightarrow> (world, Mapping) act" where
  "Mapping_create sz settings = bind (with_local Mapping_default (Mapping_construct sz settings)) (\<lambda>(_, m). ret m)"

text \<open>A mapping that cannot be unmapped is given up.\<close>

definition Mapping_unmap :: "(Mapping \<times> world, unit) act" where
  "Mapping_unmap = bind (this (\<lambda>m. m)) (\<lambda>m.
     if \<not> Mapping_valid m then ret ()
     else catch (andthen (on_world (mem_unmap (map_addr m) (map_size m))) (set_this Mapping_invalidate))
       (\<lambda>ex. andthen (set_this Mapping_invalidate) (throw ex)))"

definition Mapping_destroy :: "(Mapping \<times> world, unit) act" where
  "Mapping_destroy = catch Mapping_unmap (\<lambda>_. abort terminated)"

text \<open>Moving gives the new value of the target and of the source.\<close>

definition Mapping_move_assign :: "Mapping \<Rightarrow> Mapping \<Rightarrow> Mapping \<times> Mapping" where
  "Mapping_move_assign target other =
     (target\<lparr>map_addr := map_addr other, map_size := map_size other\<rparr>, Mapping_invalidate other)"

definition Mapping_move :: "Mapping \<Rightarrow> Mapping \<times> Mapping" where
  "Mapping_move other = Mapping_move_assign Mapping_default other"

definition Mapping_remap :: "64 word \<Rightarrow> 32 mask \<Rightarrow> int option \<Rightarrow> (Mapping \<times> world, unit) act" where
  "Mapping_remap new_size flags new_addr = bind (this (\<lambda>m. m)) (\<lambda>m.
     bind (on_world (mem_remap (map_addr m) (map_size m) new_size flags new_addr)) (\<lambda>addr.
       andthen (set_this (\<lambda>m. m\<lparr>map_addr := addr\<rparr>)) (set_this (\<lambda>m. m\<lparr>map_size := new_size\<rparr>))))"

text \<open>The operations that only pass the range of the mapping on.\<close>

definition Mapping_sync :: "32 mask \<Rightarrow> (Mapping \<times> world, unit) act" where
  "Mapping_sync flags = bind (this (\<lambda>m. m)) (\<lambda>m. on_world (mem_sync (map_addr m) (map_size m) flags))"

definition Mapping_lock :: "32 mask \<Rightarrow> (Mapping \<times> world, unit) act" where
  "Mapping_lock flags = bind (this (\<lambda>m. m)) (\<lambda>m. on_world (mem_lock (map_addr m) (map_size m) flags))"

definition Mapping_unlock :: "(Mapping \<times> world, unit) act" where
  "Mapping_unlock = bind (this (\<lambda>m. m)) (\<lambda>m. on_world (mem_unlock (map_addr m) (map_size m)))"

definition Mapping_setProtection :: "32 mask \<Rightarrow> (Mapping \<times> world, unit) act" where
  "Mapping_setProtection flags = bind (this (\<lambda>m. m)) (\<lambda>m. on_world (mem_protect (map_addr m) (map_size m) flags 0))"

definition Mapping_setName :: "string \<Rightarrow> (Mapping \<times> world, unit) act" where
  "Mapping_setName name = bind (this (\<lambda>m. m)) (\<lambda>m. on_world (set_anon_memory_name (map_addr m) (map_size m) name))"

subsection \<open>The account of mappings\<close>

text \<open>
  Which mappings exist follows from the calls: a mapping is known by its address.  Unmapping
  ends one when it succeeds; moving one ends it at its old address unless the flag
  \<open>DONTUNMAP\<close> keeps it.
\<close>

fun map_effect :: "syscall \<times> answer \<Rightarrow> int set \<Rightarrow> int set" where
  "map_effect (Call f args, a) M =
     (if f = ''mmap'' then (if rv a = MAP_FAILED then M else insert (rv a) M)
      else if f = ''munmap'' then (case args of I addr # _ \<Rightarrow> (if rv a = 0 then M - {addr} else M) | _ \<Rightarrow> M)
      else if f = ''mremap'' then (case args of
          [I addr, _, _, I flags, _] \<Rightarrow> (if rv a = MAP_FAILED then M
             else insert (rv a) (if flags AND 4 = 0 then M - {addr} else M))
        | _ \<Rightarrow> M)
      else M)"

definition mapped :: "world \<Rightarrow> int set" where
  "mapped w = foldl (\<lambda>M c. map_effect c M) {} (trace w)"

definition Mapping_owned :: "Mapping \<Rightarrow> int set" where
  "Mapping_owned m = (if Mapping_valid m then {map_addr m} else {})"

lemma mapped_call:
  "trace w' = trace w @ [c] \<Longrightarrow> mapped w' = map_effect c (mapped w)"
  by (simp add: mapped_def)

lemma Mapping_unmap_answered:
  assumes "Mapping_valid m" "answers w = a # as"
  shows "\<exists>w' en. Mapping_unmap (m, w) =
      (if rv a = 0 then Ret () else Throw (ApiError ''munmap()'' en), (Mapping_invalidate m, w')) \<and>
    trace w' = trace w @ [(Call ''munmap'' [I (map_addr m), I (uint (map_size m))], a)] \<and> answers w' = as"
  using assms by (simp add: Mapping_unmap_def mem_unmap_def act_defs kernel_defs)

lemma Mapping_unmap_invalid: "\<not> Mapping_valid m \<Longrightarrow> Mapping_unmap (m, w) = (Ret (), (m, w))"
  by (simp add: Mapping_unmap_def act_defs)

lemma Mapping_unmap_blocked:
  "Mapping_valid m \<Longrightarrow> answers w = [] \<Longrightarrow> Mapping_unmap (m, w) = (Blocked, (m, w))"
  by (simp add: Mapping_unmap_def mem_unmap_def act_defs kernel_defs)

text \<open>The contract of an owner: the destructor releases the mapping the object has.\<close>

interpretation mapping: resource_owner mapped Mapping_owned Mapping_destroy
proof unfold_locales
  fix m m' w w'
  assume d: "Mapping_destroy (m, w) = (Ret (), (m', w'))"
  show "Mapping_owned m' = {} \<and> mapped w' = mapped w - Mapping_owned m"
  proof (cases "Mapping_valid m")
    case True
    with d obtain a as where a: "answers w = a # as"
      by (cases "answers w") (auto simp: Mapping_destroy_def catch_def Mapping_unmap_blocked)
    from Mapping_unmap_answered[OF True a] d have "m' = Mapping_invalidate m"
      "rv a = 0" "trace w' = trace w @ [(Call ''munmap'' [I (map_addr m), I (uint (map_size m))], a)]"
      by (auto simp: Mapping_destroy_def catch_def abort_def split: if_splits)
    with True mapped_call[of w' w] show ?thesis
      by (simp add: Mapping_owned_def Mapping_valid_def Mapping_invalidate_def)
  next
    case False
    with d show ?thesis by (simp add: Mapping_destroy_def catch_def Mapping_unmap_invalid Mapping_owned_def)
  qed
qed

subsection \<open>Properties\<close>

lemma dontunmap_arg: "sint (flags :: 32 word) AND 4 = 0 \<longleftrightarrow> \<not> remap_has flags REMAP_DONTUNMAP"
proof -
  have four: "(4 :: int) = 2 ^ 2" "(4 :: 32 word) = 2 ^ 2" by simp_all
  have "x AND 2 ^ n = 2 ^ n \<longleftrightarrow> bit x n" if "n < 32" for x :: "32 word" and n
    using that by (auto simp: bit_eq_iff[where 'a = "32 word"] bit_simps)
  from this[of 2 flags] show ?thesis
    unfolding remap_has_def BitMask_test_def RemapFlag_value.simps four and_exp_eq_0_iff_not_bit by (simp add: bit_simps)
qed

text \<open>
  C20: The life of a mapping, against the account of the mappings that exist.  Creating an object
  makes one and owns it, a creation that fails makes none; resizing makes the object own the
  new place, and gives up the old one for good when it is kept by \<open>DONTUNMAP\<close>; when it
  fails nothing changes.  Destroying the object unmaps what it owns and nothing else, and
  a failure of that ends the process.  Moving hands the mapping over, but what the target
  owned before is then owned by nobody and still mapped.
\<close>

theorem mappings_are_owned:
  assumes "0 < addr" "Mapping_valid m" "Mapping_valid t" "map_addr t \<noteq> map_addr m" "\<not> remap_has flags REMAP_FIXED"
  shows "(\<exists>m' w'. Mapping_create sz settings (w\<lparr>answers := [ok addr]\<rparr>) = (Ret m', w') \<and> Mapping_owned m' = {addr} \<and>
       map_size m' = sz \<and> mapped w' = insert addr (mapped w)) \<and>
    (\<exists>en w'. Mapping_create sz settings (w\<lparr>answers := [failed er]\<rparr>) = (Throw (ApiError ''mmap()'' en), w') \<and> mapped w' = mapped w) \<and>
    (\<exists>m' w'. Mapping_remap sz flags None (m, w\<lparr>answers := [ok addr]\<rparr>) = (Ret (), (m', w')) \<and> Mapping_owned m' = {addr} \<and>
       map_size m' = sz \<and>
       mapped w' = insert addr (if remap_has flags REMAP_DONTUNMAP then mapped w else mapped w - Mapping_owned m)) \<and>
    (\<exists>en w'. Mapping_remap sz flags None (m, w\<lparr>answers := [failed er]\<rparr>) = (Throw (ApiError ''mremap()'' en), (m, w')) \<and> mapped w' = mapped w) \<and>
    (\<exists>m' w'. Mapping_destroy (m, w\<lparr>answers := [ok 0]\<rparr>) = (Ret (), (m', w')) \<and> Mapping_owned m' = {} \<and>
       mapped w' = mapped w - Mapping_owned m) \<and>
    fst (Mapping_destroy (m, w\<lparr>answers := [failed er]\<rparr>)) = Abort terminated \<and>
    (let (t', m') = Mapping_move_assign t m in Mapping_owned t' = Mapping_owned m \<and> Mapping_owned m' = {} \<and>
       Mapping_owned t \<noteq> {} \<and> Mapping_owned t \<inter> (Mapping_owned t' \<union> Mapping_owned m') = {})"
proof -
  note acc = mapped_def[of w] mapped_def
  have create: "\<exists>m' w'. Mapping_create sz settings (w\<lparr>answers := [ok addr]\<rparr>) = (Ret m', w') \<and> Mapping_owned m' = {addr} \<and>
      map_size m' = sz \<and> mapped w' = insert addr (mapped w)"
    using assms(1) by (simp add: Mapping_create_def Mapping_construct_def mem_map_def MAP_FAILED_def act_defs kernel_defs
        Let_def Mapping_owned_def Mapping_valid_def mapped_def)
  have nocreate: "\<exists>en w'. Mapping_create sz settings (w\<lparr>answers := [failed er]\<rparr>) = (Throw (ApiError ''mmap()'' en), w') \<and>
      mapped w' = mapped w"
    by (simp add: Mapping_create_def Mapping_construct_def mem_map_def MAP_FAILED_def act_defs kernel_defs Let_def mapped_def)
  have remap: "\<exists>m' w'. Mapping_remap sz flags None (m, w\<lparr>answers := [ok addr]\<rparr>) = (Ret (), (m', w')) \<and>
      Mapping_owned m' = {addr} \<and> map_size m' = sz \<and>
      mapped w' = insert addr (if remap_has flags REMAP_DONTUNMAP then mapped w else mapped w - Mapping_owned m)"
    using assms(1,2,5) by (simp add: Mapping_remap_def mem_remap_def MAP_FAILED_def act_defs kernel_defs
        Mapping_owned_def Mapping_valid_def mapped_def BitMask_raw_def dontunmap_arg)
  have noremap: "\<exists>en w'. Mapping_remap sz flags None (m, w\<lparr>answers := [failed er]\<rparr>) =
      (Throw (ApiError ''mremap()'' en), (m, w')) \<and> mapped w' = mapped w"
    using assms(5) by (simp add: Mapping_remap_def mem_remap_def MAP_FAILED_def act_defs kernel_defs mapped_def)
  obtain w' where u: "Mapping_unmap (m, w\<lparr>answers := [ok 0]\<rparr>) = (Ret (), (Mapping_invalidate m, w'))"
    using Mapping_unmap_answered[OF assms(2), of "w\<lparr>answers := [ok 0]\<rparr>" "ok 0"] by auto
  then have d: "Mapping_destroy (m, w\<lparr>answers := [ok 0]\<rparr>) = (Ret (), (Mapping_invalidate m, w'))"
    by (simp add: Mapping_destroy_def catch_def)
  from mapping.release[OF d] have "Mapping_owned (Mapping_invalidate m) = {} \<and> mapped w' = mapped w - Mapping_owned m"
    by (simp add: mapped_def)
  moreover have "fst (Mapping_destroy (m, w\<lparr>answers := [failed er]\<rparr>)) = Abort terminated"
    using Mapping_unmap_answered[OF assms(2), of "w\<lparr>answers := [failed er]\<rparr>" "failed er"]
    by (auto simp: Mapping_destroy_def catch_def abort_def)
  moreover have "let (t', m') = Mapping_move_assign t m in Mapping_owned t' = Mapping_owned m \<and> Mapping_owned m' = {} \<and>
       Mapping_owned t \<noteq> {} \<and> Mapping_owned t \<inter> (Mapping_owned t' \<union> Mapping_owned m') = {}"
    using assms(2-4) by (simp add: Mapping_move_assign_def Mapping_owned_def Mapping_valid_def Mapping_invalidate_def)
  ultimately show ?thesis using create nocreate remap noremap d by (simp only:) blast
qed

theorem mappings_are_owned_witness:
  "\<exists>m' w'. Mapping_create 4096 (MapSettings_of MAP_PRIVATE 3) ((world_of [])\<lparr>answers := [ok 0x1000]\<rparr>) = (Ret m', w') \<and> Mapping_owned m' = {0x1000}"
  using mappings_are_owned[where addr = "0x1000" and m = "\<lparr>map_addr = 0x2000, map_size = 1\<rparr>" and t = "\<lparr>map_addr = 0x3000, map_size = 1\<rparr>"
      and flags = 0 and sz = 4096 and settings = "MapSettings_of MAP_PRIVATE 3" and w = "world_of []", THEN conjunct1]
  by (auto simp: Mapping_valid_def remap_has_def BitMask_test_def)

text \<open>The counting loop finds the exponent of a power of two, counted from where it starts.\<close>

lemma tlb_log2_power: "k < 64 \<Longrightarrow> tlb_log2 (2 ^ k) n = n + k"
proof (induction k arbitrary: n)
  case 0
  then show ?case by (simp add: tlb_log2.simps)
next
  case (Suc k)
  have "bit (2 ^ Suc k :: 64 word) (Suc k)" using Suc.prems by (simp add: bit_exp_iff del: power_Suc)
  then have nz: "(2 ^ Suc k :: 64 word) \<noteq> 0" by (metis bit_0_eq bot_apply bot_bool_def)
  have "\<not> bit (2 ^ Suc k :: 64 word) 0" by (simp add: bit_exp_iff del: power_Suc)
  then have even: "(2 ^ Suc k :: 64 word) AND 1 = 0" by (simp add: and_one_eq bit_0 mod_2_eq_odd del: power_Suc)
  have "drop_bit 1 (2 ^ Suc k :: 64 word) = 2 ^ k"
    by (rule bit_word_eqI) (use Suc.prems in \<open>auto simp: bit_simps\<close>)
  with Suc even nz show ?case by (subst tlb_log2.simps) simp
qed

text \<open>
  The page size field of the mapping flags.  For a power of two the code enters its exponent
  plus one, twice the size that is asked for, clears the lowest six bits of the
  flags in place of the old field, and adds to what the field held: a mapping that was
  anonymous or at a fixed address is not any more.  Any other number, and a size for which the
  exponent has no room, is refused and changes nothing.
\<close>

theorem tlb_page_size_field:
  assumes "k \<le> 62"
  shows "setTLBPageSize (2 ^ k) (m, w) =
      (Ret (), ((m AND NOT 0x3f) OR push_bit 26 (of_nat (k + 1)), w)) \<and>
    BitMask_testAny (fst (snd (setTLBPageSize (2 ^ k) (m, w)))) (MapFlag_value MAPF_ANONYMOUS OR MapFlag_value MAPF_FIXED) = False \<and>
    setTLBPageSize (2 ^ 63) (m, w) = (Throw (UsageError ''requested TLB page size is too large''), (m, w)) \<and>
    (p AND (p - 1) \<noteq> 0 \<longrightarrow> setTLBPageSize p (m, w) = (Throw (UsageError ''non-log2 TLB page size encountered''), (m, w)))"
proof -
  have pow: "(2 ^ j :: 64 word) \<noteq> 0 \<and> (2 ^ j :: 64 word) AND (2 ^ j - 1) = 0" if "j < 64" for j
  proof
    have "bit (2 ^ j :: 64 word) j" using that by (simp add: bit_exp_iff)
    then show "(2 ^ j :: 64 word) \<noteq> 0" by (metis bit_0_eq bot_apply bot_bool_def)
    show "(2 ^ j :: 64 word) AND (2 ^ j - 1) = 0"
      unfolding mask_eq_exp_minus_1[symmetric] by (rule bit_word_eqI) (auto simp: bit_simps)
  qed
  have set: "setTLBPageSize (2 ^ k) (m, w) = (Ret (), ((m AND NOT 0x3f) OR push_bit 26 (of_nat (k + 1)), w))"
    using assms pow[of k] by (simp add: setTLBPageSize_def tlb_log2_power MAX_TLB_LOG2_def MAP_HUGE_SHIFT_def Let_def act_defs
        BitMask_reset_mask_def BitMask_set_mask_def BitMask_of_def BitMask_raw_def)
  moreover have "((m AND NOT 0x3f) OR push_bit 26 (of_nat (k + 1))) AND 0x30 = (0 :: 32 word)"
  proof -
    have "(NOT 0x3f :: 32 word) AND 0x30 = 0" by simp
    moreover have "push_bit 26 (of_nat (k + 1)) AND (0x30 :: 32 word) = 0"
    proof (rule bit_word_eqI)
      fix n
      have "\<not> bit (0x30 :: 32 word) n" if "26 \<le> n" "n < 32"
      proof -
        from that have "n \<in> {26, 27, 28, 29, 30, 31}" by auto
        then show ?thesis by auto
      qed
      then show "bit (push_bit 26 (of_nat (k + 1)) AND (0x30 :: 32 word)) n = bit (0 :: 32 word) n" if "n < LENGTH(32)"
        using that by (auto simp: bit_and_iff bit_push_bit_iff)
    qed
    ultimately show ?thesis by (simp add: bit.conj_disj_distrib2 and.assoc)
  qed
  moreover have "setTLBPageSize (2 ^ 63) (m, w) = (Throw (UsageError ''requested TLB page size is too large''), (m, w))"
    using pow[of 63] tlb_log2_power[of 63 1] by (simp add: setTLBPageSize_def MAX_TLB_LOG2_def act_defs)
  ultimately show ?thesis by (simp add: BitMask_testAny_def setTLBPageSize_def act_defs)
qed

theorem tlb_page_size_field_witness:
  "setTLBPageSize (2 ^ 21) ((MapFlag_value MAPF_HUGETLB OR MapFlag_value MAPF_ANONYMOUS), ()) = (Ret (), (0x40000 OR push_bit 26 22, ()))"
  using tlb_page_size_field[of 21 "MapFlag_value MAPF_HUGETLB OR MapFlag_value MAPF_ANONYMOUS" "()"] by simp

end
