(* ===== verification/FileInfo.thy ===== *)
theory FileInfo
  imports DirStreams TimeTypes Retry Memory
begin

text \<open>
  What the kernel tells about files and file systems, and files without a name:
  \<^verbatim>\<open>FileStatus\<close> with all of its fields (\<^verbatim>\<open>src/fs/FileStatus.cxx\<close>), \<^verbatim>\<open>FileSystemStatus\<close>
  (\<^verbatim>\<open>src/fs/FileSystemStatus.cxx\<close>), \<^verbatim>\<open>MemFile\<close> and \<^verbatim>\<open>SecretFile\<close> (\<^verbatim>\<open>src/io\<close>).
\<close>

subsection \<open>FileStatus (include/fs/FileStatus.hxx)\<close>

text \<open>
  The structure the calls store extends the part that the walk of a tree uses; an answer holds
  its fields in the order of the record, a time as two of them.
\<close>

record FileStat = FileStatus +
  st_dev :: int
  st_ino :: int
  st_nlink :: int
  st_uid :: int
  st_gid :: int
  st_size :: int
  st_rdev :: int
  st_blksize :: int
  st_blocks :: int
  st_mtim :: TimeSpec
  st_ctim :: TimeSpec
  st_atim :: TimeSpec

definition FileStat_of :: "answer \<Rightarrow> FileStat" where
  "FileStat_of a = (let f = (\<lambda>n. if n < length (outs a) then outs a ! n else 0) in
     \<lparr>st_mode = word_of_int (f 0), st_dev = f 1, st_ino = f 2, st_nlink = f 3, st_uid = f 4, st_gid = f 5,
      st_size = f 6, st_rdev = f 7, st_blksize = f 8, st_blocks = f 9, st_mtim = TimeSpec (f 10) (f 11),
      st_ctim = TimeSpec (f 12) (f 13), st_atim = TimeSpec (f 14) (f 15)\<rparr>)"

definition updateFrom_fd :: "FileNum \<Rightarrow> (FileStat \<times> world, unit) act" where
  "updateFrom_fd fd = bind (on_world (call ''fstat'' [I fd])) (\<lambda>a.
     if rv a \<noteq> 0 then on_world (throw_ApiError ''fstat()'') else set_this (\<lambda>_. FileStat_of a))"

definition updateFrom_path :: "string \<Rightarrow> bool \<Rightarrow> (FileStat \<times> world, unit) act" where
  "updateFrom_path path follow = bind (on_world (call (if follow then ''stat'' else ''lstat'') [S path])) (\<lambda>a.
     if rv a \<noteq> 0 then on_world (throw_FileError path (if follow then ''stat'' else ''lstat''))
     else set_this (\<lambda>_. FileStat_of a))"

definition updateFrom_at :: "FileNum \<Rightarrow> string \<Rightarrow> bool \<Rightarrow> (FileStat \<times> world, unit) act" where
  "updateFrom_at fd path follow =
     bind (on_world (call ''fstatat'' [I fd, S path, I (if follow then 0 else AT_SYMLINK_NOFOLLOW)])) (\<lambda>a.
     if rv a \<noteq> 0 then on_world (throw_FileError path ''fstatat()'') else set_this (\<lambda>_. FileStat_of a))"

definition updateFrom_stat :: "FileStat \<Rightarrow> FileStat \<Rightarrow> FileStat" where
  "updateFrom_stat st s = st"

definition FileStat_reset :: "FileStat \<Rightarrow> FileStat" where
  "FileStat_reset s = s\<lparr>st_mode := 0\<rparr>"

definition FileStat_valid :: "FileStat \<Rightarrow> bool" where
  "FileStat_valid s \<longleftrightarrow> st_mode s \<noteq> 0"

definition FileStat_rawMode :: "FileStat \<Rightarrow> ModeT" where
  "FileStat_rawMode s = st_mode s"

definition FileStat_type :: "FileStat \<Rightarrow> FileType" where
  "FileStat_type s = FileType_of (FileStat_rawMode s)"

definition stat_device :: "FileStat \<Rightarrow> int" where "stat_device s = st_dev s"

definition stat_inode :: "FileStat \<Rightarrow> int" where "stat_inode s = st_ino s"

definition numLinks :: "FileStat \<Rightarrow> int" where "numLinks s = st_nlink s"

definition stat_uid :: "FileStat \<Rightarrow> int" where "stat_uid s = st_uid s"

definition stat_gid :: "FileStat \<Rightarrow> int" where "stat_gid s = st_gid s"

definition throwBadType :: "string \<Rightarrow> exn + 'a" where
  "throwBadType ctx = Inl (UsageError ctx)"

definition stat_size :: "FileStat \<Rightarrow> exn + int" where
  "stat_size s = (if FileType_is (FileStat_type s) FT_REGULAR \<or> FileType_is (FileStat_type s) FT_LINK \<or>
       FileType_is (FileStat_type s) FT_DIRECTORY
     then Inr (st_size s) else throwBadType ''invalid type for st_size'')"

definition representedDevice :: "FileStat \<Rightarrow> exn + int" where
  "representedDevice s = (if FileType_is (FileStat_type s) FT_BLOCKDEV \<or> FileType_is (FileStat_type s) FT_CHARDEV
     then Inr (st_rdev s) else throwBadType ''attempted to get st_rdev but this is no dev!'')"

definition stat_blockSize :: "FileStat \<Rightarrow> int" where "stat_blockSize s = st_blksize s"

definition allocatedBlocks :: "FileStat \<Rightarrow> int" where "allocatedBlocks s = st_blocks s"

definition modTime :: "FileStat \<Rightarrow> TimeSpec" where "modTime s = st_mtim s"

definition statusTime :: "FileStat \<Rightarrow> TimeSpec" where "statusTime s = st_ctim s"

definition accessTime :: "FileStat \<Rightarrow> TimeSpec" where "accessTime s = st_atim s"

definition isSameFile :: "FileStat \<Rightarrow> FileStat \<Rightarrow> bool" where
  "isSameFile s other \<longleftrightarrow> stat_inode s = stat_inode other \<and> stat_device s = stat_device other"

definition FileStat_eq :: "FileStat \<Rightarrow> FileStat \<Rightarrow> bool" where
  "FileStat_eq s other \<longleftrightarrow> s = other"

subsection \<open>FileSystemStatus (src/fs/FileSystemStatus.cxx)\<close>

datatype (plugins only: lifting) FsMagic = FSM_ADFS | FSM_AFFS | FSM_AFS | FSM_ANON_INODE_FS |
    FSM_AUTOFS | FSM_BDEVFS | FSM_BEFS | FSM_BFS | FSM_BINFMTFS | FSM_BPF_FS | FSM_BTRFS |
    FSM_BTRFS_TEST | FSM_CGROUP | FSM_CGROUP2 | FSM_CIFS | FSM_CODA | FSM_COH | FSM_CRAMFS |
    FSM_DEBUGFS | FSM_DEVFS | FSM_DEVPTS | FSM_ECRYPTFS | FSM_EFIVARFS | FSM_EFS | FSM_EXT |
    FSM_EXT2_OLD | FSM_EXT2_3_4 | FSM_F2FS | FSM_FUSE | FSM_FUTEXFS | FSM_HFS | FSM_HOSTFS |
    FSM_HPFS | FSM_HUGETLBFS | FSM_ISOFS | FSM_JFFS2 | FSM_JFS | FSM_MINIX | FSM_MINIX_2 |
    FSM_MINIX2 | FSM_MINIX2_2 | FSM_MINIX3 | FSM_MQUEUE | FSM_MSDOS | FSM_MTD_INODE_FS | FSM_NCP |
    FSM_NFS | FSM_NILFS | FSM_NSFS | FSM_NTFS_SB | FSM_OCFS2 | FSM_OPENPROM | FSM_OVERLAYFS |
    FSM_PIPEFS | FSM_PROC | FSM_PSTOREFS | FSM_QNX4 | FSM_QNX6 | FSM_RAMFS | FSM_REISERFS |
    FSM_ROMFS | FSM_SECURITYFS | FSM_SELINUX | FSM_SMACK | FSM_SMB | FSM_SMB2 | FSM_SOCKFS |
    FSM_SQUASHFS | FSM_SYSFS | FSM_SYSV2 | FSM_SYSV4 | FSM_TMPFS | FSM_TRACEFS | FSM_UDF | FSM_UFS
    | FSM_USBDEVICE | FSM_V9FS | FSM_VXFS | FSM_XENFS | FSM_XENIX | FSM_XFS | FSM_XIAFS

primrec FsMagic_value :: "FsMagic \<Rightarrow> 32 word" where
  "FsMagic_value FSM_ADFS = 0xadf5"
| "FsMagic_value FSM_AFFS = 0xadff"
| "FsMagic_value FSM_AFS = 0x5346414f"
| "FsMagic_value FSM_ANON_INODE_FS = 0x9041934"
| "FsMagic_value FSM_AUTOFS = 0x187"
| "FsMagic_value FSM_BDEVFS = 0x62646576"
| "FsMagic_value FSM_BEFS = 0x42465331"
| "FsMagic_value FSM_BFS = 0x1badface"
| "FsMagic_value FSM_BINFMTFS = 0x42494e4d"
| "FsMagic_value FSM_BPF_FS = 0xcafe4a11"
| "FsMagic_value FSM_BTRFS = 0x9123683e"
| "FsMagic_value FSM_BTRFS_TEST = 0x73727279"
| "FsMagic_value FSM_CGROUP = 0x27e0eb"
| "FsMagic_value FSM_CGROUP2 = 0x63677270"
| "FsMagic_value FSM_CIFS = 0xff534d42"
| "FsMagic_value FSM_CODA = 0x73757245"
| "FsMagic_value FSM_COH = 0x12ff7b7"
| "FsMagic_value FSM_CRAMFS = 0x28cd3d45"
| "FsMagic_value FSM_DEBUGFS = 0x64626720"
| "FsMagic_value FSM_DEVFS = 0x1373"
| "FsMagic_value FSM_DEVPTS = 0x1cd1"
| "FsMagic_value FSM_ECRYPTFS = 0xf15f"
| "FsMagic_value FSM_EFIVARFS = 0xde5e81e4"
| "FsMagic_value FSM_EFS = 0x414a53"
| "FsMagic_value FSM_EXT = 0x137d"
| "FsMagic_value FSM_EXT2_OLD = 0xef51"
| "FsMagic_value FSM_EXT2_3_4 = 0xef53"
| "FsMagic_value FSM_F2FS = 0xf2f52010"
| "FsMagic_value FSM_FUSE = 0x65735546"
| "FsMagic_value FSM_FUTEXFS = 0xbad1dea"
| "FsMagic_value FSM_HFS = 0x4244"
| "FsMagic_value FSM_HOSTFS = 0xc0ffee"
| "FsMagic_value FSM_HPFS = 0xf995e849"
| "FsMagic_value FSM_HUGETLBFS = 0x958458f6"
| "FsMagic_value FSM_ISOFS = 0x9660"
| "FsMagic_value FSM_JFFS2 = 0x72b6"
| "FsMagic_value FSM_JFS = 0x3153464a"
| "FsMagic_value FSM_MINIX = 0x137f"
| "FsMagic_value FSM_MINIX_2 = 0x138f"
| "FsMagic_value FSM_MINIX2 = 0x2468"
| "FsMagic_value FSM_MINIX2_2 = 0x2478"
| "FsMagic_value FSM_MINIX3 = 0x4d5a"
| "FsMagic_value FSM_MQUEUE = 0x19800202"
| "FsMagic_value FSM_MSDOS = 0x4d44"
| "FsMagic_value FSM_MTD_INODE_FS = 0x11307854"
| "FsMagic_value FSM_NCP = 0x564c"
| "FsMagic_value FSM_NFS = 0x6969"
| "FsMagic_value FSM_NILFS = 0x3434"
| "FsMagic_value FSM_NSFS = 0x6e736673"
| "FsMagic_value FSM_NTFS_SB = 0x5346544e"
| "FsMagic_value FSM_OCFS2 = 0x7461636f"
| "FsMagic_value FSM_OPENPROM = 0x9fa1"
| "FsMagic_value FSM_OVERLAYFS = 0x794c7630"
| "FsMagic_value FSM_PIPEFS = 0x50495045"
| "FsMagic_value FSM_PROC = 0x9fa0"
| "FsMagic_value FSM_PSTOREFS = 0x6165676c"
| "FsMagic_value FSM_QNX4 = 0x2f"
| "FsMagic_value FSM_QNX6 = 0x68191122"
| "FsMagic_value FSM_RAMFS = 0x858458f6"
| "FsMagic_value FSM_REISERFS = 0x52654973"
| "FsMagic_value FSM_ROMFS = 0x7275"
| "FsMagic_value FSM_SECURITYFS = 0x73636673"
| "FsMagic_value FSM_SELINUX = 0xf97cff8c"
| "FsMagic_value FSM_SMACK = 0x43415d53"
| "FsMagic_value FSM_SMB = 0x517b"
| "FsMagic_value FSM_SMB2 = 0xfe534d42"
| "FsMagic_value FSM_SOCKFS = 0x534f434b"
| "FsMagic_value FSM_SQUASHFS = 0x73717368"
| "FsMagic_value FSM_SYSFS = 0x62656572"
| "FsMagic_value FSM_SYSV2 = 0x12ff7b6"
| "FsMagic_value FSM_SYSV4 = 0x12ff7b5"
| "FsMagic_value FSM_TMPFS = 0x1021994"
| "FsMagic_value FSM_TRACEFS = 0x74726163"
| "FsMagic_value FSM_UDF = 0x15013346"
| "FsMagic_value FSM_UFS = 0x11954"
| "FsMagic_value FSM_USBDEVICE = 0x9fa2"
| "FsMagic_value FSM_V9FS = 0x1021997"
| "FsMagic_value FSM_VXFS = 0xa501fcf5"
| "FsMagic_value FSM_XENFS = 0xabba1974"
| "FsMagic_value FSM_XENIX = 0x12ff7b4"
| "FsMagic_value FSM_XFS = 0x58465342"
| "FsMagic_value FSM_XIAFS = 0x12fd16d"

datatype MountOption = MOUNT_MANDLOCK | MOUNT_NOATIME | MOUNT_NODEV | MOUNT_NODIRATIME |
    MOUNT_NOEXEC | MOUNT_NOSUID | MOUNT_RDONLY | MOUNT_RELATIME | MOUNT_SYNCHRONOUS |
    MOUNT_NOSYMFOLLOW

primrec MountOption_value :: "MountOption \<Rightarrow> 32 word" where
  "MountOption_value MOUNT_MANDLOCK = 0x40"
| "MountOption_value MOUNT_NOATIME = 0x400"
| "MountOption_value MOUNT_NODEV = 4"
| "MountOption_value MOUNT_NODIRATIME = 0x800"
| "MountOption_value MOUNT_NOEXEC = 8"
| "MountOption_value MOUNT_NOSUID = 2"
| "MountOption_value MOUNT_RDONLY = 1"
| "MountOption_value MOUNT_RELATIME = 0x1000"
| "MountOption_value MOUNT_SYNCHRONOUS = 0x10"
| "MountOption_value MOUNT_NOSYMFOLLOW = 0x2000"

record FileSystemStatus =
  f_type :: int
  f_bsize :: int
  f_blocks :: int
  f_bfree :: int
  f_bavail :: int
  f_files :: int
  f_ffree :: int
  f_fsid :: int
  f_namelen :: int
  f_frsize :: int
  f_flags :: int

definition FileSystemStatus_of :: "answer \<Rightarrow> FileSystemStatus" where
  "FileSystemStatus_of a = (let f = (\<lambda>n. if n < length (outs a) then outs a ! n else 0) in
     \<lparr>f_type = f 0, f_bsize = f 1, f_blocks = f 2, f_bfree = f 3, f_bavail = f 4, f_files = f 5, f_ffree = f 6,
      f_fsid = f 7, f_namelen = f 8, f_frsize = f 9, f_flags = f 10\<rparr>)"

text \<open>The loop of both calls; the structure is filled by the call that succeeds.\<close>

definition statfs_loop :: "string \<Rightarrow> string \<Rightarrow> arg list \<Rightarrow> (world, answer) act" where
  "statfs_loop f message args = syscall_loop (bind (call f args) (\<lambda>a.
     if rv a = 0 then ret (Some a)
     else bind (gets auto_restart_syscalls) (\<lambda>restart. bind get_errno (\<lambda>e.
       if restart \<and> e = errno_of Errno_INTERRUPTED then ret None else throw_ApiError message))))"

definition fss_updateFrom_path :: "string \<Rightarrow> (FileSystemStatus \<times> world, unit) act" where
  "fss_updateFrom_path path = bind (on_world (statfs_loop ''statfs'' ''statfs()'' [S path]))
     (\<lambda>a. set_this (\<lambda>_. FileSystemStatus_of a))"

definition fss_updateFrom_fd :: "FileNum \<Rightarrow> (FileSystemStatus \<times> world, unit) act" where
  "fss_updateFrom_fd fd = bind (on_world (statfs_loop ''fstatfs'' ''fstatfs()'' [I fd]))
     (\<lambda>a. set_this (\<lambda>_. FileSystemStatus_of a))"

definition fss_reset :: "FileSystemStatus \<Rightarrow> FileSystemStatus" where
  "fss_reset s = s\<lparr>f_type := 0\<rparr>"

definition fss_valid :: "FileSystemStatus \<Rightarrow> bool" where
  "fss_valid s \<longleftrightarrow> f_type s \<noteq> 0"

definition fsType :: "FileSystemStatus \<Rightarrow> 32 word" where
  "fsType s = of_int (f_type s)"

definition fss_blockSize :: "FileSystemStatus \<Rightarrow> 32 word" where
  "fss_blockSize s = of_int (f_bsize s)"

definition totalBlocks :: "FileSystemStatus \<Rightarrow> 64 word" where "totalBlocks s = of_int (f_blocks s)"

definition freeBlocks :: "FileSystemStatus \<Rightarrow> 64 word" where "freeBlocks s = of_int (f_bfree s)"

definition availableBlocks :: "FileSystemStatus \<Rightarrow> 64 word" where "availableBlocks s = of_int (f_bavail s)"

definition totalInodes :: "FileSystemStatus \<Rightarrow> 64 word" where "totalInodes s = of_int (f_files s)"

definition freeInodes :: "FileSystemStatus \<Rightarrow> 64 word" where "freeInodes s = of_int (f_ffree s)"

definition fss_id :: "FileSystemStatus \<Rightarrow> int" where "fss_id s = f_fsid s"

definition nameLen :: "FileSystemStatus \<Rightarrow> 32 word" where "nameLen s = of_int (f_namelen s)"

definition fragmentSize :: "FileSystemStatus \<Rightarrow> 32 word" where "fragmentSize s = of_int (f_frsize s)"

definition mount_options :: "FileSystemStatus \<Rightarrow> 32 mask" where
  "mount_options s = BitMask_of (of_int (f_flags s))"

subsection \<open>MemFile and SecretFile (src/io/MemFile.cxx, src/io/SecretFile.cxx)\<close>

datatype MemFileFlag = MFD_CLOEXEC | MFD_ALLOW_SEALING | MFD_HUGETLB

primrec MemFileFlag_value :: "MemFileFlag \<Rightarrow> 32 word" where
  "MemFileFlag_value MFD_CLOEXEC = 1"
| "MemFileFlag_value MFD_ALLOW_SEALING = 2"
| "MemFileFlag_value MFD_HUGETLB = 4"

datatype HugePageSize = HUGE_DEFAULT | HUGE_2MB | HUGE_8MB | HUGE_16MB | HUGE_32MB | HUGE_256MB |
    HUGE_512MB | HUGE_1GB | HUGE_2GB | HUGE_16GB

primrec HugePageSize_value :: "HugePageSize \<Rightarrow> 32 word" where
  "HugePageSize_value HUGE_DEFAULT = 0"
| "HugePageSize_value HUGE_2MB = 0x15"
| "HugePageSize_value HUGE_8MB = 0x17"
| "HugePageSize_value HUGE_16MB = 0x18"
| "HugePageSize_value HUGE_32MB = 0x19"
| "HugePageSize_value HUGE_256MB = 0x1c"
| "HugePageSize_value HUGE_512MB = 0x1d"
| "HugePageSize_value HUGE_1GB = 0x1e"
| "HugePageSize_value HUGE_2GB = 0x1f"
| "HugePageSize_value HUGE_16GB = 0x22"

definition MemFile_create :: "string \<Rightarrow> 32 mask \<Rightarrow> 32 word \<Rightarrow> (FileBase \<times> world, unit) act" where
  "MemFile_create name flags tlb_ps = andthen FileBase_close
     (let page_size = push_bit MAP_HUGE_SHIFT tlb_ps in
      bind (on_world (call ''memfd_create'' [S name, I (uint (BitMask_raw flags OR page_size))])) (\<lambda>a.
        if rv a = -1 then on_world (throw_ApiError ''memfd_create()'')
        else set_this (\<lambda>f. f\<lparr>fb_fd := FD (rv a)\<rparr>)))"

text \<open>\<^verbatim>\<open>FD_CLOEXEC\<close> is one.\<close>

definition SecretFile_create :: "bool \<Rightarrow> (FileBase \<times> world, unit) act" where
  "SecretFile_create cloexec = andthen FileBase_close
     (bind (on_world (call ''memfd_secret'' [I (if cloexec then 1 else 0)])) (\<lambda>a.
        if rv a = -1 then on_world (throw_ApiError ''memfd_secret()'')
        else set_this (\<lambda>f. f\<lparr>fb_fd := FD (rv a)\<rparr>)))"

subsection \<open>Properties of file status and file systems\<close>

definition stat_answer_of :: "FileStat \<Rightarrow> answer" where
  "stat_answer_of s = \<lparr>rv = 0, err = None, out = [], outs = [uint (st_mode s), st_dev s, st_ino s, st_nlink s, st_uid s, st_gid s,
     st_size s, st_rdev s, st_blksize s, st_blocks s, tv_sec (st_mtim s), tv_nsec (st_mtim s), tv_sec (st_ctim s), tv_nsec (st_ctim s),
     tv_sec (st_atim s), tv_nsec (st_atim s)]\<rparr>"

lemma FileStat_of_answer: "FileStat_of (stat_answer_of s) = s" "rv (stat_answer_of s) = 0"
  by (cases s; simp add: FileStat_of_def stat_answer_of_def Let_def nth_Cons')+

lemma FileStat_type_is: "FileType_is (FileStat_type s) t \<longleftrightarrow> st_mode s AND 0xf000 = FileT_value t"
  by (simp add: FileType_is_def FileStat_type_def FileType_of_def FileStat_rawMode_def ModeT_and_def)

text \<open>
  Whatever way the status is asked for, the object shows the fields the kernel stored, and when
  the call fails it shows what it did before.  The size is told for regular files, links and
  directories only, the device for block and character devices only, so never both; for every other
  type both throw.  Two objects are the same file exactly when device and inode agree.
\<close>

theorem file_status_is_read:
  assumes "rv bad \<noteq> 0" "err bad = Some er"
  shows "(\<forall>run \<in> {updateFrom_fd fd, updateFrom_path path follow, updateFrom_at fd path follow}.
       (\<exists>w'. run (old, w\<lparr>answers := [stat_answer_of s]\<rparr>) = (Ret (), (s, w'))) \<and>
       (\<exists>ex w'. run (old, w\<lparr>answers := [bad]\<rparr>) = (Throw ex, (old, w')) \<and>
          ex \<in> {ApiError ''fstat()'' er, FileError path (if follow then ''stat'' else ''lstat'') er, FileError path ''fstatat()'' er})) \<and>
    (isl (stat_size s) \<or> isl (representedDevice s)) \<and>
    (stat_size s = Inr (st_size s) \<longleftrightarrow> st_mode s AND 0xf000 \<in> {0x8000, 0xa000, 0x4000}) \<and>
    (representedDevice s = Inr (st_rdev s) \<longleftrightarrow> st_mode s AND 0xf000 \<in> {0x6000, 0x2000}) \<and>
    (isSameFile s t \<longleftrightarrow> (st_dev s, st_ino s) = (st_dev t, st_ino t)) \<and> \<not> FileStat_valid (FileStat_reset s)"
proof (intro conjI)
  show "\<forall>run \<in> {updateFrom_fd fd, updateFrom_path path follow, updateFrom_at fd path follow}.
       (\<exists>w'. run (old, w\<lparr>answers := [stat_answer_of s]\<rparr>) = (Ret (), (s, w'))) \<and>
       (\<exists>ex w'. run (old, w\<lparr>answers := [bad]\<rparr>) = (Throw ex, (old, w')) \<and>
          ex \<in> {ApiError ''fstat()'' er, FileError path (if follow then ''stat'' else ''lstat'') er, FileError path ''fstatat()'' er})"
    using assms by (simp add: updateFrom_fd_def updateFrom_path_def updateFrom_at_def act_defs kernel_defs FileStat_of_answer)
qed (auto simp: stat_size_def representedDevice_def FileStat_type_is throwBadType_def isSameFile_def stat_inode_def
  stat_device_def FileStat_valid_def FileStat_reset_def)

theorem file_status_is_read_witness:
  "\<exists>w'. updateFrom_fd 3 (FileStat_of (ok 0), (world_of [])\<lparr>answers := [stat_answer_of ((FileStat_of (ok 0))\<lparr>st_mode := 0x81a4, st_size := 12\<rparr>)]\<rparr>) =
     (Ret (), ((FileStat_of (ok 0))\<lparr>st_mode := 0x81a4, st_size := 12\<rparr>, w')) \<and>
     stat_size ((FileStat_of (ok 0))\<lparr>st_mode := 0x81a4, st_size := 12\<rparr>) = Inr 12"
  using file_status_is_read[where bad = "failed Errno_BAD_FD" and er = 9 and w = "world_of []" and fd = 3 and old = "FileStat_of (ok 0)"
      and s = "(FileStat_of (ok 0))\<lparr>st_mode := 0x81a4, st_size := 12\<rparr>"]
  by simp

text \<open>The calls of \<^verbatim>\<open>FileSystemStatus\<close> repeat themselves when they are interrupted.\<close>

lemma statfs_interrupted:
  "answers w = failed Errno_INTERRUPTED # as \<Longrightarrow> auto_restart_syscalls w \<Longrightarrow>
     statfs_loop f message args w = statfs_loop f message args (snd (call f args w))"
  by (subst statfs_loop_def, subst loop.simps) (simp add: act_defs kernel_defs statfs_loop_def[symmetric])

interpretation statfs: restarting "statfs_loop f message args" f args for f message args
  by unfold_locales (rule statfs_interrupted)

lemma statfs_answered:
  "answers w = a # as \<Longrightarrow> rv a = 0 \<Longrightarrow>
     \<exists>w'. statfs_loop f message args w = (Ret a, w') \<and> runs_to w [(Call f args, a)] w'"
  by (simp add: statfs_loop_def loop.simps[of _ _ w] runs_to_def act_defs kernel_defs)

lemma statfs_failed:
  "answers w = a # as \<Longrightarrow> rv a \<noteq> 0 \<Longrightarrow> err a = Some er \<Longrightarrow> \<not> auto_restart_syscalls w \<or> er \<noteq> errno_of Errno_INTERRUPTED \<Longrightarrow>
     \<exists>w'. statfs_loop f message args w = (Throw (ApiError message er), w') \<and> runs_to w [(Call f args, a)] w'"
  by (auto simp: statfs_loop_def loop.simps[of _ _ w] runs_to_def act_defs kernel_defs)

definition statfs_answer :: "FileSystemStatus \<Rightarrow> answer" where
  "statfs_answer s = \<lparr>rv = 0, err = None, out = [], outs = [f_type s, f_bsize s, f_blocks s, f_bfree s, f_bavail s, f_files s, f_ffree s,
     f_fsid s, f_namelen s, f_frsize s, f_flags s]\<rparr>"

lemma FileSystemStatus_of_answer: "FileSystemStatus_of (statfs_answer s) = s" "rv (statfs_answer s) = 0"
  by (cases s; simp add: FileSystemStatus_of_def statfs_answer_def Let_def nth_Cons')+

text \<open>
  However often they are interrupted, both ways of updating the status of a file system make the
  same call again, as long as restarting is on, and then show what the kernel stored.  Another
  error, or an interruption without restarting, is thrown after as many repetitions, and the object
  keeps what it showed before.
\<close>

theorem file_system_status_restarts:
  assumes "answers w = replicate k (failed Errno_INTERRUPTED) @ a # as" "auto_restart_syscalls w"
    and "update = fss_updateFrom_path path \<and> c = Call ''statfs'' [S path] \<and> message = ''statfs()'' \<or>
      update = fss_updateFrom_fd fd \<and> c = Call ''fstatfs'' [I fd] \<and> message = ''fstatfs()''"
  shows "(a = statfs_answer s \<longrightarrow> (\<exists>w'. update (old, w) = (Ret (), (s, w')) \<and>
       trace w' = trace w @ replicate k (c, failed Errno_INTERRUPTED) @ [(c, a)] \<and> answers w' = as)) \<and>
    (rv a \<noteq> 0 \<and> err a = Some er \<and> er \<noteq> errno_of Errno_INTERRUPTED \<longrightarrow>
       (\<exists>w'. update (old, w) = (Throw (ApiError message er), (old, w')) \<and>
       trace w' = trace w @ replicate k (c, failed Errno_INTERRUPTED) @ [(c, a)] \<and> answers w' = as)) \<and>
    (\<exists>v'. update (old, v\<lparr>answers := failed Errno_INTERRUPTED # as, auto_restart_syscalls := False\<rparr>) =
       (Throw (ApiError message (errno_of Errno_INTERRUPTED)), (old, v')) \<and> answers v' = as)"
proof -
  obtain f args where c: "c = Call f args" by (cases c)
  have u: "update = bind (on_world (statfs_loop f message args)) (\<lambda>a. set_this (\<lambda>_. FileSystemStatus_of a))"
    using assms(3) c by (auto simp: fss_updateFrom_path_def fss_updateFrom_fd_def)
  have good: "\<exists>w'. statfs_loop f message args w = (Ret a, w') \<and> runs_to w (replicate k (c, failed Errno_INTERRUPTED) @ [(c, a)]) w'"
    if "a = statfs_answer s"
    unfolding c by (rule statfs.eventually_answered[OF assms(1,2)]) (use statfs_answered that FileSystemStatus_of_answer(2) in blast)
  have bad: "\<exists>w'. statfs_loop f message args w = (Throw (ApiError message er), w') \<and>
      runs_to w (replicate k (c, failed Errno_INTERRUPTED) @ [(c, a)]) w'"
    if "rv a \<noteq> 0 \<and> err a = Some er \<and> er \<noteq> errno_of Errno_INTERRUPTED"
    unfolding c by (rule statfs.eventually_answered[OF assms(1,2)]) (use statfs_failed that in blast)
  have off: "\<exists>v'. statfs_loop f message args (v\<lparr>answers := failed Errno_INTERRUPTED # as, auto_restart_syscalls := False\<rparr>) =
      (Throw (ApiError message (errno_of Errno_INTERRUPTED)), v') \<and> answers v' = as"
    using statfs_failed[of "v\<lparr>answers := failed Errno_INTERRUPTED # as, auto_restart_syscalls := False\<rparr>"]
    by (fastforce simp: runs_to_def)
  show ?thesis
    using good bad off assms(1)
    by (fastforce simp: u act_defs runs_to_def FileSystemStatus_of_answer(1))
qed

theorem file_system_status_restarts_witness:
  "\<exists>w'. fss_updateFrom_fd 4 (FileSystemStatus_of (ok 0), world_of [failed Errno_INTERRUPTED, failed Errno_NO_SYS]) =
     (Throw (ApiError ''fstatfs()'' 38), (FileSystemStatus_of (ok 0), w'))"
  using file_system_status_restarts[where w = "world_of [failed Errno_INTERRUPTED, failed Errno_NO_SYS]" and k = 1 and a = "failed Errno_NO_SYS"
      and as = "[]" and update = "fss_updateFrom_fd 4" and c = "Call ''fstatfs'' [I 4]" and message = "''fstatfs()''" and fd = 4
      and er = 38 and old = "FileSystemStatus_of (ok 0)"]
  by (auto simp: world_of_def)

subsection \<open>Properties of files in memory\<close>

definition FileBase_owned :: "FileBase \<Rightarrow> resource set" where
  "FileBase_owned f = fd_owned (fb_fd f)"

interpretation filebase: resource_owner live_in FileBase_owned FileBase_destroy
proof unfold_locales
  fix f f' :: FileBase and w w'
  assume "FileBase_destroy (f, w) = (Ret (), (f', w'))"
  from FileBase_destroy_releases[OF this] show "FileBase_owned f' = {} \<and> live_in w' = live_in w - FileBase_owned f"
    by (simp add: FileBase_owned_def fd_owned_def FD_default_def FD_valid_def FD_def)
qed

lemma low_bits: "(x :: 'w::len word) < 2 ^ m \<Longrightarrow> bit x n \<Longrightarrow> n < m"
  by (metis bit_and_iff bit_mask_iff less_mask_eq not_le)

lemma page_size_parts:
  fixes flags ps :: "32 word"
  assumes "flags < 2 ^ 26" "ps < 2 ^ 6"
  shows "drop_bit 26 (flags OR push_bit 26 ps) = ps" "take_bit 26 (flags OR push_bit 26 ps) = flags"
  using low_bits[OF assms(1)] low_bits[OF assms(2)]
  by (fastforce intro!: bit_word_eqI simp: bit_simps)+

text \<open>
  Creating a file in memory closes what the object held before and then owns the new descriptor;
  when the call fails the object is empty, and nothing else is open.  The size of the huge pages stands
  above the flags in the number that is passed on, and both are read back from it.
\<close>

theorem memory_files_are_owned:
  assumes "FD_valid (fb_fd f)" "0 \<le> n" "BitMask_raw flags < 2 ^ 26" "ps < 64"
  shows "(\<forall>make \<in> {MemFile_create name flags ps, SecretFile_create cloexec}.
      (\<exists>f' w'. make (f, w\<lparr>answers := [ok 0, ok n]\<rparr>) = (Ret (), (f', w')) \<and> FileBase_owned f' = {Fd n} \<and>
         live_in w' = insert (Fd n) (live_in w - FileBase_owned f)) \<and>
      (\<exists>ex f' w'. make (f, w\<lparr>answers := [ok 0, failed en]\<rparr>) = (Throw ex, (f', w')) \<and> FileBase_owned f' = {} \<and>
         live_in w' = live_in w - FileBase_owned f)) \<and>
    (\<exists>f' w' arg. MemFile_create name flags ps (f, w\<lparr>answers := [ok 0, ok n]\<rparr>) = (Ret (), (f', w')) \<and>
       last (trace w') = (Call ''memfd_create'' [S name, I (uint (arg :: 32 word))], ok n) \<and>
       drop_bit 26 arg = ps \<and> take_bit 26 arg = BitMask_raw flags)"
proof -
  from assms(4) have "ps < 2 ^ 6" by simp
  from page_size_parts[OF assms(3) this] show ?thesis using assms(1,2)
    by (auto simp: MemFile_create_def SecretFile_create_def FileBase_close_def FileBase_isOpen_def on_fd_def FD_close_def FD_reset_def
        FD_def FD_valid_def act_defs kernel_defs FileBase_owned_def fd_owned_def opens_fd_def MAP_HUGE_SHIFT_def Let_def live_def)
qed

theorem memory_files_are_owned_witness:
  "\<exists>f' w' arg. MemFile_create ''buffer'' 5 21 (\<lparr>fb_fd = FD 3\<rparr>, (world_of [])\<lparr>answers := [ok 0, ok 7]\<rparr>) = (Ret (), (f', w')) \<and>
     last (trace w') = (Call ''memfd_create'' [S ''buffer'', I (uint (arg :: 32 word))], ok 7) \<and>
     drop_bit 26 arg = 21 \<and> take_bit 26 arg = 5"
proof -
  have "FD_valid (fb_fd \<lparr>fb_fd = FD 3\<rparr>)" by (simp add: FD_valid_def FD_def)
  from memory_files_are_owned[where name = "''buffer''" and ps = 21 and w = "world_of []" and n = 7 and flags = 5, OF this]
  show ?thesis by (simp add: BitMask_raw_def)
qed

end
