(* ===== verification/ErrorText.thy ===== *)
theory ErrorText
  imports Utilities SubProcess
begin

text \<open>
  The objects behind the exceptions and their texts (\<^verbatim>\<open>include/error\<close>, \<^verbatim>\<open>src/error\<close>), and the
  formatters of \<^verbatim>\<open>include/formatters.hxx\<close>.  The texts of the C library, \<^verbatim>\<open>strerror_r()\<close>,
  \<^verbatim>\<open>gai_strerror()\<close> and \<^verbatim>\<open>strsignal()\<close>, are parameters.
\<close>

subsection \<open>CosmosError (include/error/CosmosError.hxx, src/error/CosmosError.cxx)\<close>

text \<open>The source location: file, line and function.\<close>

type_synonym SourceLocation = "string \<times> nat \<times> string"

text \<open>The members of the derived classes that their \<^verbatim>\<open>generateMsg()\<close> uses.\<close>

datatype ErrorKind = PlainError | ApiErrorOf errno | FileErrorOf string string errno | ResolveErrorOf int errno

record CosmosError =
  ce_class :: string
  ce_msg :: string
  ce_generated :: bool
  ce_loc :: SourceLocation
  ce_kind :: ErrorKind

definition CosmosError_create :: "string \<Rightarrow> string \<Rightarrow> SourceLocation \<Rightarrow> ErrorKind \<Rightarrow> CosmosError" where
  "CosmosError_create cls fixed loc kind =
     \<lparr>ce_class = cls, ce_msg = fixed, ce_generated = False, ce_loc = loc, ce_kind = kind\<rparr>"

definition setMessage :: "string \<Rightarrow> CosmosError \<Rightarrow> CosmosError" where
  "setMessage msg o' = o'\<lparr>ce_msg := msg, ce_generated := True\<rparr>"

definition setErrorClass :: "string \<Rightarrow> CosmosError \<Rightarrow> CosmosError" where
  "setErrorClass cls o' = o'\<lparr>ce_class := cls\<rparr>"

subsection \<open>The texts of the derived classes\<close>

text \<open>\<^verbatim>\<open>strerror_r()\<close> returns a number and fills a buffer.\<close>

definition ApiError_msg :: "(errno \<Rightarrow> int \<times> string) \<Rightarrow> errno \<Rightarrow> (world, string) act" where
  "ApiError_msg strerr e = bind get_errno (\<lambda>current. ret (case strerr e of (r, error) \<Rightarrow>
     if r \<noteq> 0 then ''failed to format errno (error code:'' @ decimal (if r < 0 then current else r) @ '')''
     else c_str error))"

definition format_Errno :: "(errno \<Rightarrow> int \<times> string) \<Rightarrow> errno \<Rightarrow> (world, string) act" where
  "format_Errno strerr e = bind (ApiError_msg strerr e) (\<lambda>m. ret (m @ '' ('' @ decimal e @ '')''))"

definition ResolveError_msg :: "(int \<Rightarrow> string) \<Rightarrow> int \<Rightarrow> string" where
  "ResolveError_msg gaierr code = c_str (gaierr code)"

datatype ResolveCode = EAI_ADDR_FAMILY | EAI_AGAIN | EAI_BAD_FLAGS | EAI_FAIL | EAI_FAMILY | EAI_MEMORY
  | EAI_NO_DATA | EAI_NO_NAME | EAI_SERVICE | EAI_SOCKTYPE | EAI_SYSTEM | EAI_OVERFLOW

primrec ResolveCode_value :: "ResolveCode \<Rightarrow> int" where
  "ResolveCode_value EAI_ADDR_FAMILY = -9"
| "ResolveCode_value EAI_AGAIN = -3"
| "ResolveCode_value EAI_BAD_FLAGS = -1"
| "ResolveCode_value EAI_FAIL = -4"
| "ResolveCode_value EAI_FAMILY = -6"
| "ResolveCode_value EAI_MEMORY = -10"
| "ResolveCode_value EAI_NO_DATA = -5"
| "ResolveCode_value EAI_NO_NAME = -2"
| "ResolveCode_value EAI_SERVICE = -8"
| "ResolveCode_value EAI_SOCKTYPE = -7"
| "ResolveCode_value EAI_SYSTEM = -11"
| "ResolveCode_value EAI_OVERFLOW = -12"

definition resolve_code_label :: "int \<Rightarrow> string" where
  "resolve_code_label code =
     (if code = ResolveCode_value EAI_ADDR_FAMILY then ''EAI_ADDRFAMILY''
      else if code = ResolveCode_value EAI_AGAIN then ''EAI_AGAIN''
      else if code = ResolveCode_value EAI_BAD_FLAGS then ''EAI_BADFLAGS''
      else if code = ResolveCode_value EAI_FAIL then ''EAI_FAIL''
      else if code = ResolveCode_value EAI_FAMILY then ''EAI_FAMILY''
      else if code = ResolveCode_value EAI_MEMORY then ''EAI_MEMORY''
      else if code = ResolveCode_value EAI_NO_DATA then ''EAI_NODATA''
      else if code = ResolveCode_value EAI_NO_NAME then ''EAI_NONAME''
      else if code = ResolveCode_value EAI_SERVICE then ''EAI_SERVICE''
      else if code = ResolveCode_value EAI_SOCKTYPE then ''EAI_SOCKTYPE''
      else if code = ResolveCode_value EAI_SYSTEM then ''EAI_SYSTEM''
      else if code = ResolveCode_value EAI_OVERFLOW then ''EAI_OVERFLOW''
      else ''EAI_???'')"

definition format_ResolveCode :: "(int \<Rightarrow> string) \<Rightarrow> int \<Rightarrow> string" where
  "format_ResolveCode gaierr code = ResolveError_msg gaierr code @ '' ('' @ resolve_code_label code @ '')''"

text \<open>What the C library has to say, for both kinds of codes.\<close>

record texts =
  strerr :: "errno \<Rightarrow> int \<times> string"
  gaierr :: "int \<Rightarrow> string"

definition append_msg :: "string \<Rightarrow> (CosmosError \<times> world, unit) act" where
  "append_msg s = set_this (\<lambda>o'. o'\<lparr>ce_msg := ce_msg o' @ s\<rparr>)"

definition ApiError_generateMsg :: "texts \<Rightarrow> errno \<Rightarrow> (CosmosError \<times> world, unit) act" where
  "ApiError_generateMsg tx e = bind (on_world (format_Errno (strerr tx) e)) append_msg"

definition FileError_generateMsg :: "texts \<Rightarrow> string \<Rightarrow> string \<Rightarrow> errno \<Rightarrow> (CosmosError \<times> world, unit) act" where
  "FileError_generateMsg tx path operation e =
     andthen (append_msg (path @ '': '' @ operation @ '': '')) (ApiError_generateMsg tx e)"

definition ResolveError_generateMsg :: "texts \<Rightarrow> int \<Rightarrow> errno \<Rightarrow> (CosmosError \<times> world, unit) act" where
  "ResolveError_generateMsg tx code e =
     bind (if code = ResolveCode_value EAI_SYSTEM
       then bind (on_world (format_Errno (strerr tx) e)) (\<lambda>s. ret ('' (errno = '' @ s @ '')'')) else ret [])
     (\<lambda>sys. append_msg (format_ResolveCode (gaierr tx) code @ sys))"

definition generateMsg :: "texts \<Rightarrow> (CosmosError \<times> world, unit) act" where
  "generateMsg tx = bind (this ce_kind) (\<lambda>kind. case kind of
       PlainError \<Rightarrow> ret ()
     | ApiErrorOf e \<Rightarrow> ApiError_generateMsg tx e
     | FileErrorOf path operation e \<Rightarrow> FileError_generateMsg tx path operation e
     | ResolveErrorOf code e \<Rightarrow> ResolveError_generateMsg tx code e)"

definition location_text :: "SourceLocation \<Rightarrow> string" where
  "location_text loc = (case loc of (file, line, function) \<Rightarrow>
     file @ '':'' @ decimal (int line) @ '' ['' @ function @ '']: '')"

definition what_text :: "texts \<Rightarrow> (CosmosError \<times> world, string) act" where
  "what_text tx = andthen
     (bind (this ce_generated) (\<lambda>generated. whenA (\<not> generated)
       (andthen (set_this (\<lambda>o'. o'\<lparr>ce_msg := location_text (ce_loc o') @ ce_class o' @ '': '' @ ce_msg o'\<rparr>))
       (andthen (generateMsg tx) (set_this (\<lambda>o'. o'\<lparr>ce_generated := True\<rparr>))))))
     (this (\<lambda>o'. c_str (ce_msg o')))"

text \<open>
  The search returns \<^verbatim>\<open>npos\<close>, the largest number, when the class is not in the text, and the
  sum wraps around.
\<close>

definition npos :: "64 word" where "npos = 2 ^ 64 - 1"

definition short_start :: "string \<Rightarrow> string \<Rightarrow> 64 word" where
  "short_start what cls = (case str_find what cls 0 of Some p \<Rightarrow> of_nat p | None \<Rightarrow> npos) + of_nat (length cls) + 2"

definition shortWhat :: "texts \<Rightarrow> (CosmosError \<times> world, string) act" where
  "shortWhat tx = bind (what_text tx) (\<lambda>what. bind (this ce_class) (\<lambda>cls.
     case substr what (unat (short_start what cls)) (length what) of Inl ex \<Rightarrow> throw ex | Inr s \<Rightarrow> ret s))"

subsection \<open>The derived classes\<close>

definition ApiError_create :: "string \<Rightarrow> errno \<Rightarrow> SourceLocation \<Rightarrow> CosmosError" where
  "ApiError_create prefix e loc = (let o' = CosmosError_create ''ApiError'' [] loc (ApiErrorOf e) in
     if prefix \<noteq> [] then o'\<lparr>ce_msg := prefix @ '': ''\<rparr> else o')"

definition ApiError_current :: "string \<Rightarrow> SourceLocation \<Rightarrow> (world, CosmosError) act" where
  "ApiError_current prefix loc = bind get_errno (\<lambda>e. ret (ApiError_create prefix e loc))"

definition FileError_create :: "string \<Rightarrow> string \<Rightarrow> errno \<Rightarrow> SourceLocation \<Rightarrow> CosmosError" where
  "FileError_create path operation e loc =
     setErrorClass ''FileError'' ((ApiError_create [] e loc)\<lparr>ce_kind := FileErrorOf path operation e\<rparr>)"

record RangeError = CosmosError +
  required_length :: nat

definition RangeError_create :: "string \<Rightarrow> nat \<Rightarrow> SourceLocation \<Rightarrow> RangeError" where
  "RangeError_create operation required loc = CosmosError.extend
     (ApiError_create operation (errno_of Errno_NO_ERROR) loc) (RangeError.fields required)"

definition requiredLength :: "RangeError \<Rightarrow> nat" where
  "requiredLength o' = required_length o'"

definition requiredLengthKnown :: "RangeError \<Rightarrow> bool" where
  "requiredLengthKnown o' \<longleftrightarrow> requiredLength o' \<noteq> 0"

definition WouldBlock_create :: "string \<Rightarrow> errno \<Rightarrow> SourceLocation \<Rightarrow> CosmosError" where
  "WouldBlock_create prefix e loc = ApiError_create prefix e loc"

definition RuntimeError_create :: "string \<Rightarrow> SourceLocation \<Rightarrow> CosmosError" where
  "RuntimeError_create msg loc = (CosmosError_create ''RuntimeError'' [] loc PlainError)\<lparr>ce_msg := msg\<rparr>"

definition UsageError_create :: "string \<Rightarrow> SourceLocation \<Rightarrow> CosmosError" where
  "UsageError_create msg loc = (CosmosError_create ''UsageError'' [] loc PlainError)\<lparr>ce_msg := msg\<rparr>"

definition InternalError_create :: "string \<Rightarrow> SourceLocation \<Rightarrow> CosmosError" where
  "InternalError_create msg loc = (CosmosError_create ''InternalError'' [] loc PlainError)\<lparr>ce_msg := msg\<rparr>"

definition ResolveError_create :: "int \<Rightarrow> errno \<Rightarrow> SourceLocation \<Rightarrow> CosmosError" where
  "ResolveError_create code current loc = CosmosError_create ''ResolveError'' [] loc
     (ResolveErrorOf code (if code = ResolveCode_value EAI_SYSTEM then current else errno_of Errno_NO_ERROR))"

definition errnum :: "CosmosError \<Rightarrow> errno" where
  "errnum o' = (case ce_kind o' of ApiErrorOf e \<Rightarrow> e | FileErrorOf _ _ e \<Rightarrow> e | _ \<Rightarrow> errno_of Errno_NO_ERROR)"

text \<open>The object behind an exception value of this development; those of the C++ library have none.\<close>

primrec thrown_object :: "SourceLocation \<Rightarrow> exn \<Rightarrow> CosmosError option" where
  "thrown_object loc (ApiError prefix e) = Some (ApiError_create prefix e loc)"
| "thrown_object loc (ApiErrorMsg msg e) = Some (setMessage msg (ApiError_create [] e loc))"
| "thrown_object loc (FileError path operation e) = Some (FileError_create path operation e loc)"
| "thrown_object loc (WouldBlock prefix e) = Some (WouldBlock_create prefix e loc)"
| "thrown_object loc (RangeError operation e n) = Some (CosmosError.truncate (RangeError_create operation n loc))"
| "thrown_object loc (ResolveError code e) = Some (ResolveError_create code e loc)"
| "thrown_object loc (UsageError msg) = Some (UsageError_create msg loc)"
| "thrown_object loc (RuntimeError msg) = Some (RuntimeError_create msg loc)"
| "thrown_object loc (InternalError msg) = Some (InternalError_create msg loc)"
| "thrown_object loc (StdOutOfRange _) = None"
| "thrown_object loc StdBadAlloc = None"
| "thrown_object loc (StdRuntimeError _) = None"
| "thrown_object loc (StdInvalidArgument _) = None"
| "thrown_object loc (StdLengthError _) = None"

subsection \<open>Formatters (include/formatters.hxx)\<close>

definition exit_status_label :: "int \<Rightarrow> string" where
  "exit_status_label status = (if status = ExitStatus_value EXIT_INVALID then ''(INVALID)''
     else if status = ExitStatus_value EXIT_SUCCESS then ''(SUCCESS)''
     else if status = ExitStatus_value EXIT_FAILURE then ''(FAILURE)'' else '' (other)'')"

definition format_ExitStatus :: "int \<Rightarrow> string" where
  "format_ExitStatus status = decimal status @ '' '' @ exit_status_label status"

definition format_Integral :: "int \<Rightarrow> string" where
  "format_Integral t = decimal t"

definition Signal_name :: "(int \<Rightarrow> string) \<Rightarrow> Signal \<Rightarrow> string" where
  "Signal_name strsignal sig = c_str (strsignal sig)"

definition format_Signal :: "(int \<Rightarrow> string) \<Rightarrow> Signal \<Rightarrow> string" where
  "format_Signal strsignal sig = Signal_name strsignal sig @ '' ('' @ decimal sig @ '')''"

text \<open>Formatting a status or a signal that is not there is undefined, the value \<open>None\<close>.\<close>

definition format_ChildState :: "(int \<Rightarrow> string) \<Rightarrow> ChildState \<Rightarrow> string option" where
  "format_ChildState strsignal info =
     (if cs_event info = ChildEvent_value EV_EXITED
      then map_option (\<lambda>s. ''Child exited with '' @ format_ExitStatus s) (cs_status info)
      else if cs_event info = ChildEvent_value EV_KILLED
      then map_option (\<lambda>s. ''Child killed by '' @ format_Signal strsignal s) (cs_signal info)
      else if cs_event info = ChildEvent_value EV_DUMPED
      then map_option (\<lambda>s. ''Child killed by '' @ format_Signal strsignal s @ '' (dumped core)'') (cs_signal info)
      else if cs_event info = ChildEvent_value EV_TRAPPED then Some ''Child trapped''
      else if cs_event info = ChildEvent_value EV_STOPPED
      then map_option (\<lambda>s. ''Child stopped by '' @ format_Signal strsignal s) (cs_signal info)
      else if cs_event info = ChildEvent_value EV_CONTINUED
      then map_option (\<lambda>s. ''Child continued by '' @ format_Signal strsignal s) (cs_signal info)
      else Some ''Bad ChildState'')"

definition format_FileMode :: "FileMode \<Rightarrow> string" where
  "format_FileMode m = FileMode_symbolic m @ '' (0o'' @
     (let digits = base_text 8 (unat m) in replicate (4 - length digits) (CHR ''0'') @ digits) @ '')''"

definition format_FileType :: "FileType \<Rightarrow> string" where
  "format_FileType t = [FileType_symbolic t]"

definition open_flag_order :: "OpenFlag list" where
  "open_flag_order = [APPEND, ASYNC, CLOEXEC, CREATE, DIRECT, DIRECTORY, DSYNC, EXCLUSIVE, NOATIME,
     NO_CONTROLLING_TTY, NOFOLLOW, NONBLOCK, PATH, SYNC, TMPFILE, TRUNCATE]"

fun format_flags_loop :: "OpenFlags \<Rightarrow> OpenFlag list \<Rightarrow> bool \<Rightarrow> string \<Rightarrow> string" where
  "format_flags_loop flags [] first out' = out'"
| "format_flags_loop flags (f # fs) first out' =
     (if BitMask_test flags (OpenFlag_value f) = Inr True
      then format_flags_loop flags fs False (out' @ (if first then '''' else ''|'') @ get_label (OpenFlag_value f))
      else format_flags_loop flags fs first out')"

definition format_OpenFlags :: "OpenFlags \<Rightarrow> string" where
  "format_OpenFlags flags = format_flags_loop flags open_flag_order True []"

definition format_SysString :: "SysString \<Rightarrow> string" where
  "format_SysString s = SysString_raw s"

fun format_vector_loop :: "('a \<Rightarrow> string) \<Rightarrow> nat \<Rightarrow> 'a list \<Rightarrow> string" where
  "format_vector_loop fmt first [] = []"
| "format_vector_loop fmt first (v # vs) = (if first \<noteq> 0 then '', '' else []) @ fmt v @ format_vector_loop fmt (first + 1) vs"

definition format_vector :: "('a \<Rightarrow> string) \<Rightarrow> 'a list \<Rightarrow> string" where
  "format_vector fmt vec = format_vector_loop fmt 0 vec"

definition format_map :: "('k \<Rightarrow> string) \<Rightarrow> ('v \<Rightarrow> string) \<Rightarrow> ('k \<times> 'v) list \<Rightarrow> string" where
  "format_map fk fv m = concat (map (\<lambda>(k, v). fk k @ '': '' @ fv v @ [char_of (10 :: nat)]) m)"

text \<open>\<^verbatim>\<open>ChildCloner::info()\<close>, which its formatter prints.\<close>

fun info_args :: "nat \<Rightarrow> string list \<Rightarrow> string" where
  "info_args n [] = []"
| "info_args n (a # as) = (if 0 < n then '' '' else []) @ a @ info_args (n + 1) as"

definition cloner_info :: "'z ClonerSettings_scheme \<Rightarrow> string" where
  "cloner_info c = ''Arguments: '' @ info_args 0 (m_argv c) @ (if m_cwd c \<noteq> [] then ''CWD: '' @ m_cwd c else [])"

definition format_ChildCloner :: "'z ClonerSettings_scheme \<Rightarrow> string" where
  "format_ChildCloner c = cloner_info c"

subsection \<open>The text of an error\<close>

definition errno_text :: "texts \<Rightarrow> errno \<Rightarrow> string" where
  "errno_text tx e = c_str (snd (strerr tx e)) @ '' ('' @ decimal e @ '')''"

text \<open>What an exception says after its location and class.\<close>

primrec describe :: "texts \<Rightarrow> exn \<Rightarrow> string" where
  "describe tx (ApiError prefix e) = (if prefix = [] then [] else prefix @ '': '') @ errno_text tx e"
| "describe tx (ApiErrorMsg msg e) = msg"
| "describe tx (FileError path operation e) = path @ '': '' @ operation @ '': '' @ errno_text tx e"
| "describe tx (WouldBlock prefix e) = (if prefix = [] then [] else prefix @ '': '') @ errno_text tx e"
| "describe tx (RangeError operation e n) = (if operation = [] then [] else operation @ '': '') @ errno_text tx 0"
| "describe tx (ResolveError code e) = c_str (gaierr tx code) @ '' ('' @ resolve_code_label code @ '')'' @
     (if code = -11 then '' (errno = '' @ errno_text tx e @ '')'' else [])"
| "describe tx (UsageError msg) = msg"
| "describe tx (RuntimeError msg) = msg"
| "describe tx (InternalError msg) = msg"
| "describe tx (StdOutOfRange msg) = msg"
| "describe tx StdBadAlloc = []"
| "describe tx (StdRuntimeError msg) = msg"
| "describe tx (StdInvalidArgument msg) = msg"
| "describe tx (StdLengthError msg) = msg"

primrec class_name :: "exn \<Rightarrow> string" where
  "class_name (ApiError _ _) = ''ApiError''"
| "class_name (ApiErrorMsg _ _) = ''ApiError''"
| "class_name (FileError _ _ _) = ''FileError''"
| "class_name (WouldBlock _ _) = ''ApiError''"
| "class_name (RangeError _ _ _) = ''ApiError''"
| "class_name (ResolveError _ _) = ''ResolveError''"
| "class_name (UsageError _) = ''UsageError''"
| "class_name (RuntimeError _) = ''RuntimeError''"
| "class_name (InternalError _) = ''InternalError''"
| "class_name (StdOutOfRange _) = []"
| "class_name StdBadAlloc = []"
| "class_name (StdRuntimeError _) = []"
| "class_name (StdInvalidArgument _) = []"
| "class_name (StdLengthError _) = []"

lemmas error_creates = ApiError_create_def FileError_create_def RangeError_create_def WouldBlock_create_def
  RuntimeError_create_def UsageError_create_def InternalError_create_def ResolveError_create_def
  CosmosError_create_def setErrorClass_def setMessage_def Let_def

lemmas message_defs = what_text_def generateMsg_def ApiError_generateMsg_def FileError_generateMsg_def
  ResolveError_generateMsg_def append_msg_def format_Errno_def ApiError_msg_def format_ResolveCode_def ResolveError_msg_def

text \<open>
  C30: The text of every exception of the library is its location, the name of its class and what it
  describes, and is composed once: asking again, later and with another \<^verbatim>\<open>errno\<close>, gives the same.
  A message that was set replaces all of it.  Range and blocking errors call themselves
  \<^verbatim>\<open>ApiError\<close>.
\<close>

theorem error_texts:
  assumes "thrown_object loc ex = Some o'" "\<And>e. fst (strerr tx e) = 0"
  shows "\<exists>o'' t. what_text tx (o', w) = (Ret t, (o'', w)) \<and> what_text tx (o'', v) = (Ret t, (o'', v)) \<and>
    ce_class o' = class_name ex \<and> errnum o'' = errnum o' \<and>
    t = c_str ((case ex of ApiErrorMsg _ _ \<Rightarrow> [] | _ \<Rightarrow> location_text loc @ class_name ex @ '': '') @ describe tx ex)"
proof -
  have "case_prod (\<lambda>r error. if r \<noteq> 0 then s r else c_str error) (strerr tx e) = c_str (snd (strerr tx e))" for e s
    using assms(2)[of e] by (cases "strerr tx e") simp
  with assms(1) show ?thesis
    by (cases ex) (auto simp: error_creates message_defs act_defs kernel_defs errno_text_def errnum_def CosmosError.defs
        RangeError.defs)
qed

text \<open>
  The short text is what the exception describes, as long as the name of the class does not occur
  earlier, in the location: when it does, as for an error thrown in a function or a file that is named
  after the class, the short text begins inside the location.  After a message was set that does not
  name the class, as many characters as the name is long and one more are cut off it, and when it is
  not longer than that asking for the short text throws.
\<close>

theorem short_texts:
  assumes "what_text tx (o', w) = (Ret (loc @ ce_class o' @ '': '' @ d), (o'', w'))" "ce_class o'' = ce_class o'"
    and "ce_class o' \<noteq> []" "length (loc @ ce_class o' @ '': '' @ d) < 2 ^ 63"
  shows "((\<forall>p<length loc. take (length (ce_class o')) (drop p (loc @ ce_class o' @ '': '' @ d)) \<noteq> ce_class o') \<longrightarrow>
       fst (shortWhat tx (o', w)) = Ret d) \<and>
    (p < length loc \<and> take (length (ce_class o')) (drop p (loc @ ce_class o' @ '': '' @ d)) = ce_class o' \<longrightarrow>
       (\<exists>s. fst (shortWhat tx (o', w)) = Ret s \<and> length d < length s)) \<and>
    (find_first (ce_class o') m = None \<and> NUL \<notin> set m \<longrightarrow> fst (shortWhat tx (setMessage m o', w)) =
       (if length m \<le> length (ce_class o') then Throw (StdOutOfRange ''basic_string::substr'')
        else Ret (drop (length (ce_class o') + 1) m)))"
proof -
  let ?c = "ce_class o'" let ?t = "loc @ ?c @ '': '' @ d"
  have sw: "fst (shortWhat tx (o', w)) = (case substr ?t (unat (short_start ?t ?c)) (length ?t) of Inl ex \<Rightarrow> Throw ex | Inr s \<Rightarrow> Ret s)"
    using assms(1,2) by (simp add: shortWhat_def act_defs split: sum.split)
  have start: "unat (short_start ?t ?c) = q + length ?c + 2" if "find_first ?c ?t = Some q" for q
  proof -
    have "q + length ?c \<le> length ?t" using find_first_Some[OF that] by blast
    then have "q + length ?c + 2 < 2 ^ LENGTH(64)" using assms(4) by simp
    then have "unat (of_nat (q + length ?c + 2) :: 64 word) = q + length ?c + 2" by (subst unat_of_nat) (rule mod_less)
    then show ?thesis using that by (simp add: short_start_def str_find_def add_ac)
  qed
  have hit: "take (length ?c) (drop (length loc) ?t) = ?c" by simp
  have first: "\<exists>q\<le>p. find_first ?c ?t = Some q" if "take (length ?c) (drop p ?t) = ?c" "p \<le> length ?t" for p
    using find_first_None[of ?c ?t p] find_first_Some[of ?c ?t] that by (cases "find_first ?c ?t") (auto simp: not_le[symmetric])
  show ?thesis
  proof (intro conjI impI)
    assume "\<forall>p<length loc. take (length ?c) (drop p ?t) \<noteq> ?c"
    with find_first_eqI[OF hit] have "find_first ?c ?t = Some (length loc)" by simp
    from start[OF this] show "fst (shortWhat tx (o', w)) = Ret d" by (simp add: sw substr_def)
  next
    assume "p < length loc \<and> take (length ?c) (drop p ?t) = ?c"
    with first[of p] obtain q where q: "q < length loc" "find_first ?c ?t = Some q" by auto
    with start[OF q(2)] show "\<exists>s. fst (shortWhat tx (o', w)) = Ret s \<and> length d < length s"
      by (simp add: sw substr_def)
  next
    assume m: "find_first ?c m = None \<and> NUL \<notin> set m"
    have "short_start m ?c = of_nat (length ?c + 1)"
      using m by (simp add: short_start_def str_find_def npos_def)
    moreover have "length ?c + 1 < 2 ^ LENGTH(64)" using assms(4) by simp
    then have "unat (of_nat (length ?c + 1) :: 64 word) = length ?c + 1" by (subst unat_of_nat) (rule mod_less)
    ultimately have "unat (short_start m ?c) = length ?c + 1" by simp
    moreover have "c_str m = m" using m by (simp add: c_str_def takeWhile_eq_all_conv)
    ultimately show "fst (shortWhat tx (setMessage m o', w)) =
       (if length m \<le> length ?c then Throw (StdOutOfRange ''basic_string::substr'') else Ret (drop (length ?c + 1) m))"
      by (simp add: shortWhat_def what_text_def setMessage_def substr_def act_defs)
  qed
qed

theorem error_texts_witness:
  "\<exists>o'' t. what_text \<lparr>strerr = (\<lambda>e. (0, ''No such file'')), gaierr = (\<lambda>c. ''?'')\<rparr> (FileError_create ''/x'' ''open'' 2 (''a.cxx'', 7, ''f''), world_of []) =
     (Ret t, (o'', world_of [])) \<and> take 5 t = ''a.cxx''"
proof -
  let ?tx = "\<lparr>strerr = (\<lambda>e. (0, ''No such file'')), gaierr = (\<lambda>c. ''?'')\<rparr>"
  obtain o'' t where t: "what_text ?tx (FileError_create ''/x'' ''open'' 2 (''a.cxx'', 7, ''f''), world_of []) = (Ret t, (o'', world_of []))"
    "t = c_str (location_text (''a.cxx'', 7, ''f'') @ ''FileError'' @ '': '' @ describe ?tx (FileError ''/x'' ''open'' 2))"
    using error_texts[of "(''a.cxx'', 7, ''f'')" "FileError ''/x'' ''open'' 2" _ ?tx "world_of []" "world_of []"] by auto
  then show ?thesis by (simp add: location_text_def c_str_def NUL_def)
qed

theorem short_texts_witness:
  "fst (shortWhat \<lparr>strerr = (\<lambda>_. (0, [])), gaierr = (\<lambda>_. [])\<rparr>
     (setMessage ''failed'' (RuntimeError_create ''bad'' (''a.cxx'', 7, ''f'')), world_of [])) = Throw (StdOutOfRange ''basic_string::substr'')"
proof -
  let ?tx = "\<lparr>strerr = (\<lambda>_. (0, [])), gaierr = (\<lambda>_. [])\<rparr>" let ?w = "world_of []"
  let ?o = "RuntimeError_create ''bad'' (''a.cxx'', 7, ''f'')"
  have seven: "char_of (55 :: nat) = CHR ''7''" by code_simp
  have "what_text ?tx (?o, ?w) = (Ret (''a.cxx:7 [f]: '' @ ce_class ?o @ '': '' @ ''bad''), (?o\<lparr>ce_msg := ''a.cxx:7 [f]: RuntimeError: bad'', ce_generated := True\<rparr>, ?w))"
    by (simp add: error_creates message_defs act_defs location_text_def decimal_def base_text.simps digit_char_def c_str_def NUL_def seven)
  note short = short_texts[OF this, of 0 "''failed''"]
  have "find_first ''RuntimeError'' ''failed'' = None" by (simp add: find_first.simps)
  with short show ?thesis by (simp add: error_creates NUL_def)
qed

subsection \<open>The text of open flags\<close>

definition set_flags :: "OpenFlags \<Rightarrow> OpenFlag list" where
  "set_flags flags = filter (\<lambda>f. flags AND OpenFlag_value f = OpenFlag_value f) open_flag_order"

definition flag_label :: "OpenFlag \<Rightarrow> string" where
  "flag_label f = get_label (OpenFlag_value f)"

lemma flag_value_nonzero: "OpenFlag_value f \<noteq> 0"
  by (cases f) simp_all

lemma flag_label_chars: "flag_label f \<noteq> []" "CHR ''|'' \<notin> set (flag_label f)"
  by (cases f; simp add: flag_label_def get_label_def)+

lemma flag_label_inj: "inj flag_label"
proof (rule injI)
  fix f g assume "flag_label f = flag_label g"
  then show "f = g" by (cases f; cases g) (simp_all add: flag_label_def get_label_def)
qed

lemma format_flags_loop_eq:
  "format_flags_loop flags fs first out' = out' @ (let ls = map flag_label (filter (\<lambda>f. flags AND OpenFlag_value f = OpenFlag_value f) fs) in
     if ls = [] then [] else (if first then [] else ''|'') @ join ''|'' ls)"
proof (induction fs arbitrary: first out')
  case (Cons f fs)
  let ?ls = "map flag_label (filter (\<lambda>f. flags AND OpenFlag_value f = OpenFlag_value f) fs)"
  show ?case
    using Cons.IH flag_value_nonzero[of f]
    by (cases "?ls = []") (auto simp: BitMask_test_def flag_label_def[symmetric] join_Cons Let_def)
qed simp

text \<open>
  The text of open flags names every flag whose bits are all set, once and in a fixed order:
  splitting it at the bars gives the names back, which tell the flags apart.  Flags that contain
  others are named after them, so synchronous writing shows as two flags, and so does a temporary
  file.
\<close>

theorem open_flags_are_listed:
  "split (format_OpenFlags flags) ''|'' 0 0 = Ret (map flag_label (set_flags flags)) \<and> distinct (set_flags flags) \<and>
    (f \<in> set (set_flags flags) \<longleftrightarrow> flags AND OpenFlag_value f = OpenFlag_value f) \<and>
    (SYNC \<in> set (set_flags flags) \<longrightarrow> DSYNC \<in> set (set_flags flags)) \<and>
    (TMPFILE \<in> set (set_flags flags) \<longrightarrow> DIRECTORY \<in> set (set_flags flags)) \<and> inj flag_label"
proof (intro conjI)
  let ?ls = "map flag_label (set_flags flags)"
  have fmt: "format_OpenFlags flags = join ''|'' ?ls"
    by (cases "?ls = []") (simp_all add: format_OpenFlags_def format_flags_loop_eq set_flags_def Let_def)
  have kept: "kept_parts 0 ?ls = ?ls"
    by (induction "set_flags flags") (simp_all add: kept_parts_def empty_flags flag_label_chars(1))
  have "split (format_OpenFlags flags) ''|'' 0 0 = Ret (kept_parts 0 (ref_split ''|'' (format_OpenFlags flags)))"
    using split_loop_ref[of "''|''" 0 "format_OpenFlags flags" 0 "[]"] by (simp add: split_def)
  also have "kept_parts 0 (ref_split ''|'' (format_OpenFlags flags)) = ?ls"
  proof (cases "?ls = []")
    case True
    then show ?thesis by (simp add: fmt ref_split.simps find_first.simps kept_parts_def empty_flags)
  next
    case False
    then have "ref_split ''|'' (join ''|'' ?ls) = ?ls" by (intro ref_split_join) (auto simp: flag_label_chars(2))
    then show ?thesis by (simp only: fmt kept)
  qed
  finally show "split (format_OpenFlags flags) ''|'' 0 0 = Ret ?ls" .
  show "distinct (set_flags flags)" unfolding set_flags_def by (intro distinct_filter) (simp add: open_flag_order_def)
  have all: "f \<in> set open_flag_order" for f by (cases f) (simp_all add: open_flag_order_def)
  then show "f \<in> set (set_flags flags) \<longleftrightarrow> flags AND OpenFlag_value f = OpenFlag_value f" by (simp add: set_flags_def)
  have sub: "g \<in> set (set_flags flags)" if "f \<in> set (set_flags flags)" "OpenFlag_value f AND OpenFlag_value g = OpenFlag_value g" for f g
  proof -
    have "flags AND OpenFlag_value f = OpenFlag_value f" using that(1) by (simp add: set_flags_def)
    then have "flags AND OpenFlag_value g = OpenFlag_value g" by (metis that(2) and.assoc)
    with all show ?thesis by (simp add: set_flags_def)
  qed
  from sub[of SYNC DSYNC] show "SYNC \<in> set (set_flags flags) \<longrightarrow> DSYNC \<in> set (set_flags flags)" by simp
  from sub[of TMPFILE DIRECTORY] show "TMPFILE \<in> set (set_flags flags) \<longrightarrow> DIRECTORY \<in> set (set_flags flags)" by simp
  show "inj flag_label" by (rule flag_label_inj)
qed

end
