(* ===== verification/Terminals.thy ===== *)
theory Terminals
  imports Utilities Process Files
begin

text \<open>
  Terminals and what is written to them: \<^verbatim>\<open>Terminal\<close> (\<^verbatim>\<open>src/io/Terminal.cxx\<close>), colored text
  (\<^verbatim>\<open>src/io/colors.cxx\<close>), the loggers (\<^verbatim>\<open>src/io/ILogger.cxx\<close>, \<^verbatim>\<open>src/io/StdLogger.cxx\<close>) and the
  adaptors that make streams of descriptors (\<^verbatim>\<open>include/io/StreamAdaptor.hxx\<close>).
\<close>

subsection \<open>Terminal (include/io/Terminal.hxx, src/io/Terminal.cxx)\<close>

text \<open>\<^verbatim>\<open>struct winsize\<close> without the sizes in pixels, which the constructor leaves undefined.\<close>

record TermDimension =
  ws_row :: "16 word"
  ws_col :: "16 word"

definition TermDimension_create :: "64 word \<Rightarrow> 64 word \<Rightarrow> TermDimension" where
  "TermDimension_create columns lines = \<lparr>ws_row = ucast lines, ws_col = ucast columns\<rparr>"

definition term_cols :: "TermDimension \<Rightarrow> 16 word" where "term_cols d = ws_col d"

definition term_rows :: "TermDimension \<Rightarrow> 16 word" where "term_rows d = ws_row d"

record Terminal =
  term_fd :: FileDescriptor

definition Terminal_create :: "FileDescriptor \<Rightarrow> Terminal" where
  "Terminal_create fd = \<lparr>term_fd = fd\<rparr>"

definition Terminal_setFD :: "FileDescriptor \<Rightarrow> Terminal \<Rightarrow> Terminal" where
  "Terminal_setFD fd t = t\<lparr>term_fd := fd\<rparr>"

definition rawFD :: "Terminal \<Rightarrow> int" where
  "rawFD t = m_fd (term_fd t)"

definition isTTY :: "Terminal \<Rightarrow> (world, bool) act" where
  "isTTY t = bind (call ''isatty'' [I (rawFD t)]) (\<lambda>a.
     if rv a = 1 then ret True
     else bind get_errno (\<lambda>e. if e = errno_of Errno_NOT_A_TTY then ret False else throw_ApiError ''isatty:''))"

definition TIOCGWINSZ :: int where "TIOCGWINSZ = 0x5413"
definition TIOCSWINSZ :: int where "TIOCSWINSZ = 0x5414"
definition TIOCSCTTY :: int where "TIOCSCTTY = 0x540E"

text \<open>The kernel stores the rows, then the columns.\<close>

definition getSize :: "Terminal \<Rightarrow> (world, TermDimension) act" where
  "getSize t = bind (call ''ioctl'' [I (rawFD t), I TIOCGWINSZ]) (\<lambda>a.
     if rv a \<noteq> 0 then throw_ApiError ''ioctl(GWINSZ)''
     else ret (case outs a of r # c # _ \<Rightarrow> \<lparr>ws_row = of_int r, ws_col = of_int c\<rparr> | _ \<Rightarrow> TermDimension_create 0 0))"

definition setSize :: "Terminal \<Rightarrow> TermDimension \<Rightarrow> (world, unit) act" where
  "setSize t dim = bind (call ''ioctl'' [I (rawFD t), I TIOCSWINSZ, L [I (uint (ws_row dim)), I (uint (ws_col dim))]]) (\<lambda>a.
     if rv a \<noteq> 0 then throw_ApiError ''ioctl(SWINSZ)'' else ret ())"

text \<open>The duration is cut to an \<^verbatim>\<open>int\<close>.\<close>

definition sendBreak :: "Terminal \<Rightarrow> int \<Rightarrow> (world, unit) act" where
  "sendBreak t ms = bind (call ''tcsendbreak'' [I (rawFD t), I (sint (of_int ms :: 32 word))]) (\<lambda>a.
     if rv a \<noteq> 0 then throw_ApiError ''tcsendbreak'' else ret ())"

definition makeControllingTerminal :: "Terminal \<Rightarrow> bool \<Rightarrow> (world, unit) act" where
  "makeControllingTerminal t force = bind (call ''ioctl'' [I (rawFD t), I TIOCSCTTY, I (if force then 1 else 0)]) (\<lambda>a.
     if rv a \<noteq> 0 then throw_ApiError ''ioctl(TIOCSCTTY)'' else ret ())"

definition openPTY :: "TermDimension option \<Rightarrow> (world, FileDescriptor \<times> FileDescriptor) act" where
  "openPTY initial_size = bind (call ''openpty'' [case initial_size of None \<Rightarrow> I 0
       | Some dim \<Rightarrow> L [I (uint (ws_row dim)), I (uint (ws_col dim))]]) (\<lambda>a.
     if rv a < 0 then throw_ApiError ''openpty()''
     else ret (FD (outs a ! 0), FD (outs a ! 1)))"

subsection \<open>Colors and effects (include/io/colors.hxx)\<close>

datatype TermColor = BLACK | RED | GREEN | YELLOW | BLUE | MAGENTA | CYAN | WHITE

primrec TermColor_value :: "TermColor \<Rightarrow> nat" where
  "TermColor_value BLACK = 0"
| "TermColor_value RED = 1"
| "TermColor_value GREEN = 2"
| "TermColor_value YELLOW = 3"
| "TermColor_value BLUE = 4"
| "TermColor_value MAGENTA = 5"
| "TermColor_value CYAN = 6"
| "TermColor_value WHITE = 7"

datatype ColorKind = FRONT | BACK

datatype ColorIntensity = NORMAL | BRIGHT

record ColorSpec =
  cs_color :: TermColor
  cs_kind :: ColorKind
  cs_intensity :: ColorIntensity

definition isBright :: "ColorSpec \<Rightarrow> bool" where "isBright c \<longleftrightarrow> cs_intensity c = BRIGHT"

definition isNormal :: "ColorSpec \<Rightarrow> bool" where "isNormal c \<longleftrightarrow> \<not> isBright c"

definition isFrontColor :: "ColorSpec \<Rightarrow> bool" where "isFrontColor c \<longleftrightarrow> cs_kind c = FRONT"

definition isBackColor :: "ColorSpec \<Rightarrow> bool" where "isBackColor c \<longleftrightarrow> \<not> isFrontColor c"

definition FrontColor :: "TermColor \<Rightarrow> ColorSpec" where
  "FrontColor c = \<lparr>cs_color = c, cs_kind = FRONT, cs_intensity = NORMAL\<rparr>"

definition BackColor :: "TermColor \<Rightarrow> ColorSpec" where
  "BackColor c = \<lparr>cs_color = c, cs_kind = BACK, cs_intensity = NORMAL\<rparr>"

definition setBright :: "ColorSpec \<Rightarrow> ColorSpec" where
  "setBright c = c\<lparr>cs_intensity := BRIGHT\<rparr>"

datatype TermControl = RESET | UNDERLINE_ON | UNDERLINE_OFF | BLINK_ON | BLINK_OFF | INVERSE_ON | INVERSE_OFF
  | DEFAULT_FG_COLOR | DEFAULT_BG_COLOR

primrec TermControl_value :: "TermControl \<Rightarrow> nat" where
  "TermControl_value RESET = 0"
| "TermControl_value UNDERLINE_ON = 4"
| "TermControl_value UNDERLINE_OFF = 24"
| "TermControl_value BLINK_ON = 5"
| "TermControl_value BLINK_OFF = 25"
| "TermControl_value INVERSE_ON = 7"
| "TermControl_value INVERSE_OFF = 27"
| "TermControl_value DEFAULT_FG_COLOR = 39"
| "TermControl_value DEFAULT_BG_COLOR = 49"

type_synonym ANSICode = nat

definition get_ansi_color_code :: "ColorSpec \<Rightarrow> ANSICode" where
  "get_ansi_color_code color = (let code = (if isFrontColor color then 30 else 40);
     code' = (if isBright color then code + 60 else code) in code' + TermColor_value (cs_color color))"

definition get_off_control :: "TermControl \<Rightarrow> exn + TermControl" where
  "get_off_control ctrl = (case ctrl of UNDERLINE_ON \<Rightarrow> Inr UNDERLINE_OFF | BLINK_ON \<Rightarrow> Inr BLINK_OFF
     | INVERSE_ON \<Rightarrow> Inr INVERSE_OFF | _ \<Rightarrow> Inl (UsageError ''bad value''))"

text \<open>A feature holds a text or the next feature, with its codes to turn it on and off.\<close>

datatype FeatureBase = FeatureText string (on_code: ANSICode) (off_code: ANSICode)
  | FeatureNext FeatureBase (on_code: ANSICode) (off_code: ANSICode)

definition hasText :: "FeatureBase \<Rightarrow> bool" where
  "hasText f = (case f of FeatureText _ _ _ \<Rightarrow> True | FeatureNext _ _ _ \<Rightarrow> False)"

definition hasNextFeature :: "FeatureBase \<Rightarrow> bool" where
  "hasNextFeature f = (case f of FeatureText _ _ _ \<Rightarrow> False | FeatureNext _ _ _ \<Rightarrow> True)"

text \<open>What a feature is applied to: a text or another feature.\<close>

datatype markup = Plain string | Over FeatureBase

definition FeatureBase_create :: "markup \<Rightarrow> ANSICode \<Rightarrow> ANSICode \<Rightarrow> FeatureBase" where
  "FeatureBase_create m on off = (case m of Plain text \<Rightarrow> FeatureText text on off | Over f \<Rightarrow> FeatureNext f on off)"

definition TextEffect :: "TermControl \<Rightarrow> markup \<Rightarrow> exn + FeatureBase" where
  "TextEffect feature m = (case get_off_control feature of Inl ex \<Rightarrow> Inl ex
     | Inr off \<Rightarrow> Inr (FeatureBase_create m (TermControl_value feature) (TermControl_value off)))"

definition getOffCode :: "ColorKind \<Rightarrow> ANSICode" where
  "getOffCode kind = TermControl_value (if kind = FRONT then DEFAULT_FG_COLOR else DEFAULT_BG_COLOR)"

definition ColoredText :: "markup \<Rightarrow> TermColor \<Rightarrow> ColorKind \<Rightarrow> ColorIntensity \<Rightarrow> FeatureBase" where
  "ColoredText m c kind intensity = FeatureBase_create m
     (get_ansi_color_code \<lparr>cs_color = c, cs_kind = kind, cs_intensity = intensity\<rparr>) (getOffCode kind)"

definition ColoredTextT :: "TermColor \<Rightarrow> ColorIntensity \<Rightarrow> markup \<Rightarrow> FeatureBase" where
  "ColoredTextT color intensity m = ColoredText m color FRONT intensity"

definition TextOnColorT :: "TermColor \<Rightarrow> ColorIntensity \<Rightarrow> markup \<Rightarrow> FeatureBase" where
  "TextOnColorT color intensity m = ColoredText m color BACK intensity"

subsection \<open>Writing them (src/io/colors.cxx)\<close>

text \<open>The buffer of a stream tells where it leads: to the standard output, the standard errors, elsewhere.\<close>

datatype StreamBuf = CoutBuf | CerrBuf | OtherBuf nat

record TTYState =
  stdout_is_tty :: bool
  stderr_is_tty :: bool

definition isTTYStream :: "TTYState \<Rightarrow> StreamBuf \<Rightarrow> bool" where
  "isTTYStream tty buf = (case buf of CoutBuf \<Rightarrow> stdout_is_tty tty | CerrBuf \<Rightarrow> stderr_is_tty tty | OtherBuf _ \<Rightarrow> False)"

definition ANSI_ESC_START :: char where "ANSI_ESC_START = CHR 0x1B"

definition build_ansi_command :: "ANSICode list \<Rightarrow> string" where
  "build_ansi_command cmds = (let ret = foldl (\<lambda>ret cmd. ret @ decimal (int cmd) @ '';'') [ANSI_ESC_START, CHR ''[''] cmds
     in butlast ret @ ''m'')"

fun get_features :: "FeatureBase \<Rightarrow> FeatureBase list" where
  "get_features (FeatureText t on off) = [FeatureText t on off]"
| "get_features (FeatureNext f on off) = FeatureNext f on off # get_features f"

definition getText :: "FeatureBase \<Rightarrow> string" where
  "getText f = (case f of FeatureText t _ _ \<Rightarrow> t | FeatureNext _ _ _ \<Rightarrow> [])"

definition put_color :: "TTYState \<Rightarrow> StreamBuf \<Rightarrow> ColorSpec \<Rightarrow> ostream \<Rightarrow> ostream" where
  "put_color tty buf fc o' = (if \<not> isTTYStream tty buf then o'
     else put_text (build_ansi_command [get_ansi_color_code fc]) o')"

definition put_control :: "TTYState \<Rightarrow> StreamBuf \<Rightarrow> TermControl \<Rightarrow> ostream \<Rightarrow> ostream" where
  "put_control tty buf p o' = (if \<not> isTTYStream tty buf then o'
     else put_text (build_ansi_command [TermControl_value p]) o')"

definition put_feature :: "TTYState \<Rightarrow> StreamBuf \<Rightarrow> FeatureBase \<Rightarrow> ostream \<Rightarrow> ostream" where
  "put_feature tty buf fb o' =
     (if \<not> isTTYStream tty buf
      then (if \<not> hasNextFeature fb then put_text (getText fb) o' else put_text (getText (last (get_features fb))) o')
      else if \<not> hasNextFeature fb
      then put_text (build_ansi_command [off_code fb]) (put_text (getText fb) (put_text (build_ansi_command [on_code fb]) o'))
      else let features = get_features fb; on_codes = map on_code features; off_codes = map off_code features in
        put_text (build_ansi_command off_codes) (put_text (getText (last features)) (put_text (build_ansi_command on_codes) o')))"

text \<open>The detection looks at the environment and then at the standard descriptors.\<close>

definition refresh_tty_detection :: "(TTYState \<times> world, unit) act" where
  "refresh_tty_detection = bind (on_world (get_env_var ''COSMOS_FORCE_COLOR_ON'')) (\<lambda>on.
     if on \<noteq> None then set_this (\<lambda>s. s\<lparr>stderr_is_tty := True, stdout_is_tty := True\<rparr>)
     else bind (on_world (get_env_var ''COSMOS_FORCE_COLOR_OFF'')) (\<lambda>off.
       if off \<noteq> None then set_this (\<lambda>s. s\<lparr>stderr_is_tty := False, stdout_is_tty := False\<rparr>)
       else bind (on_world (isTTY (Terminal_create (FD (FileNum_of FN_STDOUT))))) (\<lambda>out_tty.
         andthen (set_this (\<lambda>s. s\<lparr>stdout_is_tty := out_tty\<rparr>))
         (bind (on_world (isTTY (Terminal_create (FD (FileNum_of FN_STDERR))))) (\<lambda>err_tty.
           set_this (\<lambda>s. s\<lparr>stderr_is_tty := err_tty\<rparr>))))))"

definition CheckStdioTTYs_libInit :: "(TTYState \<times> world, unit) act" where
  "CheckStdioTTYs_libInit = refresh_tty_detection"

subsection \<open>Loggers (include/io/ILogger.hxx, src/io/ILogger.cxx)\<close>

record StreamState =
  ss_stream :: "StreamBuf option"
  ss_enabled :: bool
  ss_is_tty :: bool
  ss_prefix :: string
  ss_color :: ColorSpec

record ILogger =
  m_err :: StreamState
  m_warn :: StreamState
  m_info :: StreamState
  m_debug :: StreamState
  m_common_prefix :: string

definition StreamState_create :: "string \<Rightarrow> ColorSpec \<Rightarrow> StreamState" where
  "StreamState_create p c = \<lparr>ss_stream = None, ss_enabled = False, ss_is_tty = False, ss_prefix = p, ss_color = c\<rparr>"

definition ILogger_create :: ILogger where
  "ILogger_create = \<lparr>m_err = StreamState_create ''Error:   '' (FrontColor RED),
     m_warn = StreamState_create ''Warning: '' (FrontColor YELLOW),
     m_info = StreamState_create ''Info:    '' (FrontColor WHITE),
     m_debug = StreamState_create ''Debug:   '' (FrontColor CYAN), m_common_prefix = []\<rparr>"

datatype channel = ErrorChannel | WarnChannel | InfoChannel | DebugChannel

definition channel_state :: "channel \<Rightarrow> ILogger \<Rightarrow> StreamState" where
  "channel_state c l = (case c of ErrorChannel \<Rightarrow> m_err l | WarnChannel \<Rightarrow> m_warn l | InfoChannel \<Rightarrow> m_info l | DebugChannel \<Rightarrow> m_debug l)"

definition channel_enabled :: "channel \<Rightarrow> ILogger \<Rightarrow> bool" where
  "channel_enabled c l = ss_enabled (channel_state c l)"

definition setChannels :: "bool \<Rightarrow> bool \<Rightarrow> bool \<Rightarrow> bool \<Rightarrow> ILogger \<Rightarrow> ILogger" where
  "setChannels error warning info debug l = l\<lparr>m_err := (m_err l)\<lparr>ss_enabled := error\<rparr>,
     m_warn := (m_warn l)\<lparr>ss_enabled := warning\<rparr>, m_info := (m_info l)\<lparr>ss_enabled := info\<rparr>,
     m_debug := (m_debug l)\<lparr>ss_enabled := debug\<rparr>\<rparr>"

definition setPrefix :: "string \<Rightarrow> ILogger \<Rightarrow> ILogger" where
  "setPrefix prefix l = l\<lparr>m_common_prefix := prefix\<rparr>"

definition ILogger_isTTY :: "StreamBuf \<Rightarrow> (world, bool) act" where
  "ILogger_isTTY buf = (case buf of CoutBuf \<Rightarrow> isTTY (Terminal_create (FD (FileNum_of FN_STDOUT)))
     | CerrBuf \<Rightarrow> isTTY (Terminal_create (FD (FileNum_of FN_STDERR))) | OtherBuf _ \<Rightarrow> ret False)"

text \<open>\<open>setStream\<close> works on the state of one channel; the debug channel is off at first.\<close>

definition setStream :: "StreamBuf \<Rightarrow> bool \<Rightarrow> (StreamState \<times> world, unit) act" where
  "setStream s is_debug = andthen (set_this (\<lambda>st. st\<lparr>ss_stream := Some s\<rparr>))
     (bind (on_world (ILogger_isTTY s)) (\<lambda>tty.
       andthen (set_this (\<lambda>st. st\<lparr>ss_is_tty := tty\<rparr>))
       (set_this (\<lambda>st. st\<lparr>ss_enabled := (if is_debug then False else True)\<rparr>))))"

definition setStreams :: "StreamBuf \<Rightarrow> StreamBuf \<Rightarrow> StreamBuf \<Rightarrow> StreamBuf \<Rightarrow> (ILogger \<times> world, unit) act" where
  "setStreams debug info warn err' =
     andthen (zoom m_debug (\<lambda>st l. l\<lparr>m_debug := st\<rparr>) (setStream debug True))
     (andthen (zoom m_err (\<lambda>st l. l\<lparr>m_err := st\<rparr>) (setStream err' False))
     (andthen (zoom m_info (\<lambda>st l. l\<lparr>m_info := st\<rparr>) (setStream info False))
     (zoom m_warn (\<lambda>st l. l\<lparr>m_warn := st\<rparr>) (setStream warn False))))"

text \<open>
  The streams of the program by their buffers, and the null stream of the logger: of that the text
  in front of its write position, which is moved to the start before each use.  The result is the stream that the message goes to; \<open>None\<close> is
  the use of a null pointer.
\<close>

record streams =
  real_stream :: "StreamBuf \<Rightarrow> ostream"
  null_stream :: ostream

definition put_prefixes :: "TTYState \<Rightarrow> StreamBuf option \<Rightarrow> StreamState \<Rightarrow> string \<Rightarrow> ostream \<Rightarrow> ostream" where
  "put_prefixes tty buf st common o0 = (let
     on_tty = (\<lambda>put o'. case buf of Some b \<Rightarrow> put b o' | None \<Rightarrow> o');
     o1 = (if ss_is_tty st then on_tty (\<lambda>b. put_color tty b (ss_color st)) o0 else o0);
     o2 = put_text common o1;
     o3 = put_text (ss_prefix st) o2
   in if ss_is_tty st then on_tty (\<lambda>b. put_control tty b DEFAULT_FG_COLOR) o3 else o3)"

definition getStream :: "TTYState \<Rightarrow> StreamState \<Rightarrow> string \<Rightarrow> streams \<Rightarrow> (StreamBuf option \<times> streams) option" where
  "getStream tty st common s = (if ss_enabled st
     then (case ss_stream st of None \<Rightarrow> None
       | Some b \<Rightarrow> Some (Some b, s\<lparr>real_stream := (real_stream s)(b := put_prefixes tty (Some b) st common (real_stream s b))\<rparr>))
     else Some (None, s\<lparr>null_stream := put_prefixes tty None st common ((null_stream s)\<lparr>os_text := []\<rparr>)\<rparr>))"

text \<open>\<open>error()\<close>, \<open>warn()\<close>, \<open>info()\<close> and \<open>debug()\<close>.\<close>

definition log_channel :: "TTYState \<Rightarrow> channel \<Rightarrow> ILogger \<Rightarrow> streams \<Rightarrow> (StreamBuf option \<times> streams) option" where
  "log_channel tty c l s = getStream tty (channel_state c l) (m_common_prefix l) s"

definition logger_settings :: "string \<Rightarrow> channel option" where
  "logger_settings name = (if name = ''error'' then Some ErrorChannel else if name = ''warn'' then Some WarnChannel
     else if name = ''info'' then Some InfoChannel else if name = ''debug'' then Some DebugChannel else None)"

text \<open>One round of the loop over the channels; the message is what \<^verbatim>\<open>sprintf()\<close> composes.\<close>

definition config_channel :: "string \<Rightarrow> (channel \<Rightarrow> bool) \<Rightarrow> exn + (channel \<Rightarrow> bool)" where
  "config_channel part settings = (let channel = to_lower part;
     negated = (channel \<noteq> [] \<and> hd channel = CHR ''!'');
     name = (if negated then tl channel else channel)
   in case logger_settings name of
       Some c \<Rightarrow> Inr (settings(c := \<not> negated))
     | None \<Rightarrow> Inl (RuntimeError (''Bad logger channel name '' @ [CHR 0x27] @ c_str name @ [CHR 0x27])))"

fun config_channels :: "string list \<Rightarrow> (channel \<Rightarrow> bool) \<Rightarrow> exn + (channel \<Rightarrow> bool)" where
  "config_channels [] settings = Inr settings"
| "config_channels (p # ps) settings = (case config_channel p settings of Inl ex \<Rightarrow> Inl ex
     | Inr settings' \<Rightarrow> config_channels ps settings')"

definition configFromString :: "string \<Rightarrow> (ILogger \<times> 'w, unit) act" where
  "configFromString var = bind (this (\<lambda>l c. channel_enabled c l)) (\<lambda>settings.
     case split var '','' (BitMask_of_list [SplitFlag_value STRIP_PARTS]) 0 of
       Ret parts \<Rightarrow> (case config_channels parts settings of Inl ex \<Rightarrow> throw ex
         | Inr s \<Rightarrow> set_this (setChannels (s ErrorChannel) (s WarnChannel) (s InfoChannel) (s DebugChannel)))
     | Throw ex \<Rightarrow> throw ex
     | Abort n \<Rightarrow> abort n
     | Blocked \<Rightarrow> (\<lambda>s. (Blocked, s)))"

definition configFromEnvVar :: "string \<Rightarrow> (ILogger \<times> world, bool) act" where
  "configFromEnvVar var = bind (on_world (get_env_var var)) (\<lambda>str. case str of None \<Rightarrow> ret False
     | Some s \<Rightarrow> andthen (configFromString s) (ret True))"

definition StdLogger_create :: "(world, ILogger) act" where
  "StdLogger_create = bind (with_local ILogger_create (setStreams CoutBuf CoutBuf CoutBuf CerrBuf)) (\<lambda>(_, l). ret l)"

subsection \<open>Stream adaptors (include/io/StreamAdaptor.hxx)\<close>

text \<open>
  An adaptor owns the descriptor of its buffer, an object of the C++ library that closes it.
  What it reads and writes is not modelled.
\<close>

datatype openmode = mode_in | mode_out | mode_inout

record StreamAdaptor =
  sa_fd :: FileDescriptor
  sa_mode :: openmode

definition StreamAdaptor_create :: "FileDescriptor \<Rightarrow> openmode \<Rightarrow> exn + StreamAdaptor" where
  "StreamAdaptor_create fd mode = (if \<not> FD_valid fd then Inl (UsageError ''Attempt to construct StreamAdaptor for invalid FD'')
     else Inr \<lparr>sa_fd = fd, sa_mode = mode\<rparr>)"

definition adaptor_fileDesc :: "StreamAdaptor \<Rightarrow> FileDescriptor" where
  "adaptor_fileDesc s = FD (m_fd (sa_fd s))"

definition InputStreamAdaptor_of_pipe :: "Pipe \<Rightarrow> (exn + StreamAdaptor) \<times> Pipe" where
  "InputStreamAdaptor_of_pipe p = (let (fd, p') = Pipe_takeReadEndOwnership p in (StreamAdaptor_create fd mode_in, p'))"

definition OutputStreamAdaptor_of_pipe :: "Pipe \<Rightarrow> (exn + StreamAdaptor) \<times> Pipe" where
  "OutputStreamAdaptor_of_pipe p = (let (fd, p') = Pipe_takeWriteEndOwnership p in (StreamAdaptor_create fd mode_out, p'))"

definition StreamAdaptor_of_file :: "openmode \<Rightarrow> (FDFile \<times> world, exn + StreamAdaptor) act" where
  "StreamAdaptor_of_file mode = bind FDFile_takeOwnership (\<lambda>d. ret (StreamAdaptor_create d mode))"

text \<open>Closing the buffer closes the descriptor, once; the result is ignored.\<close>

definition StreamAdaptor_close :: "(StreamAdaptor \<times> world, unit) act" where
  "StreamAdaptor_close = bind (this (\<lambda>s. FD_valid (sa_fd s))) (\<lambda>open'. whenA open'
     (bind (this (\<lambda>s. m_fd (sa_fd s))) (\<lambda>fd. andthen (on_world (call ''close'' [I fd]))
       (set_this (\<lambda>s. s\<lparr>sa_fd := FD_default\<rparr>)))))"

subsection \<open>What a terminal shows\<close>

text \<open>
  The attributes of a terminal, what the codes do to them, and the characters that are shown
  with their attributes when a text is written to it.  A sequence starts with the escape character
  and ends with an \<open>m\<close>; the codes stand between a bracket and that, with semicolons between them.
\<close>

record screen =
  sc_fg :: "(nat \<times> bool) option"
  sc_bg :: "(nat \<times> bool) option"
  sc_under :: bool
  sc_blink :: bool
  sc_inverse :: bool

definition plain_screen :: screen where
  "plain_screen = \<lparr>sc_fg = None, sc_bg = None, sc_under = False, sc_blink = False, sc_inverse = False\<rparr>"

definition ansi_effect :: "nat \<Rightarrow> screen \<Rightarrow> screen" where
  "ansi_effect n s =
     (if 30 \<le> n \<and> n < 38 then s\<lparr>sc_fg := Some (n - 30, False)\<rparr>
      else if 90 \<le> n \<and> n < 98 then s\<lparr>sc_fg := Some (n - 90, True)\<rparr>
      else if 40 \<le> n \<and> n < 48 then s\<lparr>sc_bg := Some (n - 40, False)\<rparr>
      else if 100 \<le> n \<and> n < 108 then s\<lparr>sc_bg := Some (n - 100, True)\<rparr>
      else if n = 39 then s\<lparr>sc_fg := None\<rparr> else if n = 49 then s\<lparr>sc_bg := None\<rparr>
      else if n = 4 then s\<lparr>sc_under := True\<rparr> else if n = 24 then s\<lparr>sc_under := False\<rparr>
      else if n = 5 then s\<lparr>sc_blink := True\<rparr> else if n = 25 then s\<lparr>sc_blink := False\<rparr>
      else if n = 7 then s\<lparr>sc_inverse := True\<rparr> else if n = 27 then s\<lparr>sc_inverse := False\<rparr>
      else if n = 0 then plain_screen else s)"

definition ansi_effects :: "nat list \<Rightarrow> screen \<Rightarrow> screen" where
  "ansi_effects codes s = foldl (\<lambda>s n. ansi_effect n s) s codes"

function display :: "screen \<Rightarrow> string \<Rightarrow> (char \<times> screen) list \<times> screen" where
  "display s [] = ([], s)"
| "display s (c # cs) = (if c = ANSI_ESC_START
     then display (ansi_effects (map (read_digits 10) (ref_split '';'' (tl (takeWhile (\<lambda>d. d \<noteq> CHR ''m'') cs)))) s)
       (tl (dropWhile (\<lambda>d. d \<noteq> CHR ''m'') cs))
     else (let (shown, s') = display s cs in ((c, s) # shown, s')))"
  by pat_completeness auto
termination
proof (relation "measure (\<lambda>(_, cs). length cs)")
  fix s :: screen and c :: char and cs :: string
  have "length (tl (dropWhile (\<lambda>d. d \<noteq> CHR ''m'') cs)) \<le> length cs"
    using length_dropWhile_le[of "\<lambda>d. d \<noteq> CHR ''m''" cs] by simp
  then show "((ansi_effects (map (read_digits 10) (ref_split '';'' (tl (takeWhile (\<lambda>d. d \<noteq> CHR ''m'') cs)))) s,
      tl (dropWhile (\<lambda>d. d \<noteq> CHR ''m'') cs)), s, c # cs) \<in> measure (\<lambda>(_, cs). length cs)" by simp
qed simp_all

lemma digit_char_digits: "d < 10 \<Longrightarrow> digit_char d \<in> set ''0123456789''"
proof -
  assume "d < 10"
  then have "d \<in> {0, 1, 2, 3, 4, 5, 6, 7, 8, 9}" by auto
  moreover have "\<forall>d \<in> {0, 1, 2, 3, 4, 5, 6, 7, 8, 9}. digit_char d \<in> set ''0123456789''" by code_simp
  ultimately show ?thesis by blast
qed

lemma base_text_digits: "set (base_text 10 n) \<subseteq> set ''0123456789''"
proof (induction n rule: less_induct)
  case (less n)
  show ?case
  proof (cases "n < 10")
    case True
    with digit_char_digits[of n] show ?thesis by (simp add: base_text.simps[of 10 n])
  next
    case False
    then have "set (base_text 10 (n div 10)) \<subseteq> set ''0123456789''" by (intro less.IH) simp
    with digit_char_digits[of "n mod 10"] False show ?thesis by (simp add: base_text.simps[of 10 n])
  qed
qed

lemma decimal_digits: "set (decimal (int n)) \<subseteq> set ''0123456789''"
  using base_text_digits[of n] by (simp add: decimal_def)

lemma read_decimal: "read_digits 10 (decimal (int n)) = n"
  using read_base_text[of 10 n] by (simp add: decimal_def)

lemma ansi_fold: "cmds \<noteq> [] \<Longrightarrow> butlast (foldl (\<lambda>ret cmd. ret @ decimal (int cmd) @ '';'') start cmds) =
    start @ join '';'' (map (\<lambda>n. decimal (int n)) cmds)"
proof (induction cmds arbitrary: start)
  case (Cons c cmds)
  from Cons.IH[of "start @ decimal (int c) @ '';''"] show ?case by (cases cmds) (simp_all add: butlast_append)
qed simp

lemma join_chars: "set (join sep ps) \<subseteq> set sep \<union> (\<Union>p \<in> set ps. set p)"
  by (induction sep ps rule: join.induct) auto

text \<open>A command is understood as the codes it was built from.\<close>

lemma display_command:
  assumes "cmds \<noteq> []"
  shows "display s (build_ansi_command cmds @ rest) = display (ansi_effects cmds s) rest"
proof -
  let ?ps = "map (\<lambda>n. decimal (int n)) cmds"
  have cmd: "build_ansi_command cmds = ANSI_ESC_START # CHR ''['' # join '';'' ?ps @ ''m''"
    using assms by (simp add: build_ansi_command_def ansi_fold Let_def)
  have "set (join '';'' ?ps) \<subseteq> set '';0123456789''"
    using join_chars[of "'';''" ?ps] decimal_digits by fastforce
  then have m: "CHR ''m'' \<notin> set (CHR ''['' # join '';'' ?ps)" by auto
  have tw: "takeWhile (\<lambda>d. d \<noteq> CHR ''m'') (CHR ''['' # join '';'' ?ps @ CHR ''m'' # rest) = CHR ''['' # join '';'' ?ps"
    and dw: "dropWhile (\<lambda>d. d \<noteq> CHR ''m'') (CHR ''['' # join '';'' ?ps @ CHR ''m'' # rest) = CHR ''m'' # rest"
    using m by (auto simp: takeWhile_append dropWhile_append)
  have "ref_split '';'' (join '';'' ?ps) = ?ps"
    using assms decimal_digits by (intro ref_split_join) fastforce+
  then have "map (read_digits 10) (ref_split '';'' (join '';'' ?ps)) = cmds" by (simp add: read_decimal comp_def)
  then show ?thesis using tw dw by (simp add: cmd)
qed

lemma display_text: "ANSI_ESC_START \<notin> set t \<Longrightarrow>
    display s (t @ rest) = (let (shown, s') = display s rest in (map (\<lambda>c. (c, s)) t @ shown, s'))"
  by (induction t) (auto simp: Let_def split: prod.splits)

text \<open>Features that were made by the classes for colors and effects.\<close>

inductive made_feature :: "FeatureBase \<Rightarrow> bool" where
  color_text: "made_feature (ColoredText (Plain t) c kind intensity)"
| color_over: "made_feature f \<Longrightarrow> made_feature (ColoredText (Over f) c kind intensity)"
| effect_text: "TextEffect ctrl (Plain t) = Inr f \<Longrightarrow> made_feature f"
| effect_over: "made_feature f \<Longrightarrow> TextEffect ctrl (Over f) = Inr f' \<Longrightarrow> made_feature f'"

text \<open>The attributes that a code may change, as the operation that resets them.\<close>

definition matched :: "nat \<Rightarrow> nat \<Rightarrow> bool" where
  "matched on off \<longleftrightarrow> off \<in> {39, 49, 24, 25, 27} \<and> (\<forall>s. ansi_effect off (ansi_effect on s) = ansi_effect off s)"

lemma color_matched: "matched (get_ansi_color_code \<lparr>cs_color = c, cs_kind = kind, cs_intensity = intensity\<rparr>) (getOffCode kind)"
  by (cases c; cases kind; cases intensity)
    (simp_all add: matched_def get_ansi_color_code_def getOffCode_def isFrontColor_def isBright_def ansi_effect_def Let_def)

lemma effect_matched: "get_off_control ctrl = Inr off \<Longrightarrow> matched (TermControl_value ctrl) (TermControl_value off)"
  by (cases ctrl) (auto simp: get_off_control_def matched_def ansi_effect_def)

lemma made_matched: "made_feature f \<Longrightarrow> \<forall>g \<in> set (get_features f). matched (on_code g) (off_code g)"
proof (induction rule: made_feature.induct)
  case (effect_text ctrl t f)
  then show ?case by (auto simp: TextEffect_def FeatureBase_create_def effect_matched split: sum.splits)
next
  case (effect_over f ctrl f')
  then show ?case by (auto simp: TextEffect_def FeatureBase_create_def effect_matched split: sum.splits)
qed (auto simp: ColoredText_def FeatureBase_create_def color_matched)

lemma reset_commute: "a \<in> {39, 49, 24, 25, 27} \<Longrightarrow> b \<in> {39, 49, 24, 25, 27} \<Longrightarrow>
    ansi_effect a (ansi_effect b s) = ansi_effect b (ansi_effect a s)"
  by (elim insertE emptyE) (simp_all add: ansi_effect_def)

lemma reset_again: "a \<in> {39, 49, 24, 25, 27} \<Longrightarrow> ansi_effect a (ansi_effect a s) = ansi_effect a s"
  by (elim insertE emptyE) (simp_all add: ansi_effect_def)

lemma ansi_effects_Cons: "ansi_effects (n # ns) s = ansi_effects ns (ansi_effect n s)"
  by (simp add: ansi_effects_def)

lemma resets_commute:
  "set offs \<subseteq> {39, 49, 24, 25, 27} \<Longrightarrow> a \<in> {39, 49, 24, 25, 27} \<Longrightarrow>
     ansi_effects offs (ansi_effect a s) = ansi_effect a (ansi_effects offs s)"
proof (induction offs arbitrary: s)
  case (Cons b offs)
  then have "ansi_effect b (ansi_effect a s) = ansi_effect a (ansi_effect b s)" by (intro reset_commute) auto
  with Cons show ?case by (simp add: ansi_effects_Cons)
qed (simp add: ansi_effects_def)

lemma resets_absorb:
  "set offs \<subseteq> {39, 49, 24, 25, 27} \<Longrightarrow> a \<in> set offs \<Longrightarrow> ansi_effects offs (ansi_effect a s) = ansi_effects offs s"
proof (induction offs arbitrary: s)
  case (Cons b offs)
  show ?case
  proof (cases "a = b")
    case True
    with Cons.prems show ?thesis by (simp only: ansi_effects_Cons reset_again[of b] True) (auto simp: reset_again)
  next
    case False
    with Cons.prems have "ansi_effect b (ansi_effect a s) = ansi_effect a (ansi_effect b s)" by (intro reset_commute) auto
    with False Cons show ?thesis by (simp add: ansi_effects_Cons)
  qed
qed simp

lemma resets_undo:
  "\<forall>g \<in> set gs. matched (on_code g) (off_code g) \<and> off_code g \<in> set offs \<Longrightarrow> set offs \<subseteq> {39, 49, 24, 25, 27} \<Longrightarrow>
     ansi_effects offs (ansi_effects (map on_code gs) s) = ansi_effects offs s"
proof (induction gs arbitrary: s)
  case (Cons g gs)
  have "ansi_effects offs (ansi_effect (on_code g) s) = ansi_effects offs (ansi_effect (off_code g) (ansi_effect (on_code g) s))"
    using Cons.prems resets_absorb[of offs "off_code g"] by simp
  also have "\<dots> = ansi_effects offs (ansi_effect (off_code g) s)" using Cons.prems(1) by (simp add: matched_def)
  also have "\<dots> = ansi_effects offs s" using Cons.prems resets_absorb[of offs "off_code g"] by simp
  finally show ?case using Cons by (simp add: ansi_effects_Cons)
qed (simp add: ansi_effects_def)

lemma resets_plain: "set offs \<subseteq> {39, 49, 24, 25, 27} \<Longrightarrow> ansi_effects offs plain_screen = plain_screen"
proof (induction offs)
  case (Cons b offs)
  then have "ansi_effect b plain_screen = plain_screen" by (auto simp: ansi_effect_def plain_screen_def)
  with Cons show ?case by (simp add: ansi_effects_Cons)
qed (simp add: ansi_effects_def)

lemma get_features_neq_Nil [simp]: "get_features f \<noteq> []"
  by (cases f) simp_all

text \<open>
  What a program asks for when it makes a feature, in its own terms: colors with their
  intensity, and effects; what a screen shows with them, and without.  The colors are numbered as
  ECMA-48 does.
\<close>

datatype style = Colored ColorKind TermColor ColorIntensity | Effect TermControl

definition ecma_colors :: "TermColor list" where
  "ecma_colors = [BLACK, RED, GREEN, YELLOW, BLUE, MAGENTA, CYAN, WHITE]"

definition color_shown :: "TermColor \<Rightarrow> ColorIntensity \<Rightarrow> nat \<times> bool" where
  "color_shown c i = (length (takeWhile (\<lambda>d. d \<noteq> c) ecma_colors), i = BRIGHT)"

fun apply_style :: "style \<Rightarrow> screen \<Rightarrow> screen" where
  "apply_style (Colored FRONT c i) s = s\<lparr>sc_fg := Some (color_shown c i)\<rparr>"
| "apply_style (Colored BACK c i) s = s\<lparr>sc_bg := Some (color_shown c i)\<rparr>"
| "apply_style (Effect UNDERLINE_ON) s = s\<lparr>sc_under := True\<rparr>"
| "apply_style (Effect BLINK_ON) s = s\<lparr>sc_blink := True\<rparr>"
| "apply_style (Effect INVERSE_ON) s = s\<lparr>sc_inverse := True\<rparr>"
| "apply_style (Effect _) s = s"

fun clear_style :: "style \<Rightarrow> screen \<Rightarrow> screen" where
  "clear_style (Colored FRONT c i) s = s\<lparr>sc_fg := None\<rparr>"
| "clear_style (Colored BACK c i) s = s\<lparr>sc_bg := None\<rparr>"
| "clear_style (Effect UNDERLINE_ON) s = s\<lparr>sc_under := False\<rparr>"
| "clear_style (Effect BLINK_ON) s = s\<lparr>sc_blink := False\<rparr>"
| "clear_style (Effect INVERSE_ON) s = s\<lparr>sc_inverse := False\<rparr>"
| "clear_style (Effect _) s = s"

text \<open>A feature with its text and its styles, the outermost first.\<close>

inductive styled :: "style list \<Rightarrow> string \<Rightarrow> FeatureBase \<Rightarrow> bool" where
  styled_color: "styled [Colored kind c i] t (ColoredText (Plain t) c kind i)"
| styled_color_over: "styled ss t f \<Longrightarrow> styled (Colored kind c i # ss) t (ColoredText (Over f) c kind i)"
| styled_effect: "TextEffect ctrl (Plain t) = Inr f \<Longrightarrow> styled [Effect ctrl] t f"
| styled_effect_over: "styled ss t f \<Longrightarrow> TextEffect ctrl (Over f) = Inr f' \<Longrightarrow> styled (Effect ctrl # ss) t f'"

lemma color_codes:
  "ansi_effect (get_ansi_color_code \<lparr>cs_color = c, cs_kind = kind, cs_intensity = i\<rparr>) s = apply_style (Colored kind c i) s"
  "ansi_effect (getOffCode kind) s = clear_style (Colored kind c i) s"
  by (cases c; cases kind; cases i; simp add: get_ansi_color_code_def getOffCode_def isFrontColor_def isBright_def
      ansi_effect_def color_shown_def ecma_colors_def Let_def)+

lemma effect_codes:
  assumes "get_off_control ctrl = Inr off"
  shows "ansi_effect (TermControl_value ctrl) s = apply_style (Effect ctrl) s"
    "ansi_effect (TermControl_value off) s = clear_style (Effect ctrl) s"
  using assms by (cases ctrl; auto simp: get_off_control_def ansi_effect_def)+

lemma styled_codes:
  assumes "styled ss t f"
  shows "made_feature f \<and> getText (last (get_features f)) = t \<and>
    ansi_effects (map on_code (get_features f)) s = fold apply_style ss s \<and>
    ansi_effects (map off_code (get_features f)) s = fold clear_style ss s"
  using assms
proof (induction arbitrary: s rule: styled.induct)
  case (styled_color kind c i t)
  show ?case
    using made_feature.color_text[of t c kind i]
    by (simp add: ColoredText_def FeatureBase_create_def getText_def ansi_effects_def color_codes)
next
  case (styled_color_over ss t f kind c i)
  then show ?case
    using made_feature.color_over[of f c kind i]
    by (simp add: ColoredText_def FeatureBase_create_def ansi_effects_Cons color_codes(1)
        color_codes(2)[where c = c and i = i])
next
  case (styled_effect ctrl t f)
  then obtain off where off: "get_off_control ctrl = Inr off" "f = FeatureText t (TermControl_value ctrl) (TermControl_value off)"
    by (auto simp: TextEffect_def FeatureBase_create_def split: sum.splits)
  with made_feature.effect_text[OF styled_effect] show ?case
    by (simp add: getText_def ansi_effects_def effect_codes)
next
  case (styled_effect_over ss t f ctrl f')
  then obtain off where off: "get_off_control ctrl = Inr off" "f' = FeatureNext f (TermControl_value ctrl) (TermControl_value off)"
    by (auto simp: TextEffect_def FeatureBase_create_def split: sum.splits)
  with made_feature.effect_over[of f ctrl f'] styled_effect_over show ?case
    by (simp add: ansi_effects_Cons effect_codes)
qed

text \<open>
  C35: Colored text on a terminal that understands the control sequences of ECMA-48 (and the bright colors
  90 to 97 and 100 to 107): whatever the terminal showed before, the text is shown in the colors and
  intensities and with the effects that were asked for, the inner ones after the outer ones, and
  nothing else is shown.  Behind it each of these is switched off and the rest is as before: a terminal that
  had no attributes has none again, but a color that was selected before does not come back.  On
  any other stream the text is written alone.
\<close>

theorem colored_text_is_displayed:
  assumes "styled ss t f" "ANSI_ESC_START \<notin> set t" "os_width o' = 0"
  shows "(isTTYStream tty buf \<longrightarrow> (\<exists>new. os_text (put_feature tty buf f o') = os_text o' @ new \<and>
       display s (new @ rest) = (let (shown, s') = display (fold clear_style ss s) rest in
         (map (\<lambda>c. (c, fold apply_style ss s)) t @ shown, s')))) \<and>
    (\<not> isTTYStream tty buf \<longrightarrow> os_text (put_feature tty buf f o') = os_text o' @ t) \<and>
    fold clear_style ss plain_screen = plain_screen"
proof -
  note st = styled_codes[OF assms(1)]
  then have made: "made_feature f" and t: "t = getText (last (get_features f))" by blast+
  let ?gs = "get_features f" let ?on = "map on_code ?gs" let ?off = "map off_code ?gs"
  have m: "\<forall>g \<in> set ?gs. matched (on_code g) (off_code g)" by (rule made_matched[OF made])
  then have offs: "set ?off \<subseteq> {39, 49, 24, 25, 27}" by (auto simp: matched_def)
  have single: "\<not> hasNextFeature f \<Longrightarrow> ?gs = [f]" by (cases f) (simp_all add: hasNextFeature_def)
  have written: "os_text (put_feature tty buf f o') = os_text o' @ (if isTTYStream tty buf
      then build_ansi_command ?on @ t @ build_ansi_command ?off else t)"
    using t assms(3) single by (cases "hasNextFeature f") (simp_all add: put_feature_def put_text_def Let_def)
  have undone: "ansi_effects ?off (ansi_effects ?on s) = ansi_effects ?off s"
    by (rule resets_undo[OF _ offs]) (use m in auto)
  have "display s (build_ansi_command ?on @ t @ build_ansi_command ?off @ rest) =
      (let (shown, s') = display (ansi_effects ?off s) rest in (map (\<lambda>c. (c, ansi_effects ?on s)) t @ shown, s'))"
    by (simp add: display_command display_text[OF assms(2)] undone Let_def)
  moreover have "ansi_effects ?on s = fold apply_style ss s" "ansi_effects ?off s = fold clear_style ss s"
    "ansi_effects ?off plain_screen = fold clear_style ss plain_screen"
    using st by blast+
  ultimately show ?thesis using written resets_plain[OF offs] by (auto simp: Let_def)
qed

theorem colored_text_is_displayed_witness:
  "\<exists>new. os_text (put_feature \<lparr>stdout_is_tty = True, stderr_is_tty = False\<rparr> CoutBuf
       (ColoredTextT GREEN NORMAL (Over (TextOnColorT WHITE BRIGHT (Plain ''ok'')))) ostream_new) = new \<and>
     display plain_screen new = (map (\<lambda>c. (c, \<lparr>sc_fg = Some (2, False), sc_bg = Some (7, True), sc_under = False,
       sc_blink = False, sc_inverse = False\<rparr>)) ''ok'', plain_screen)"
proof -
  let ?f = "ColoredTextT GREEN NORMAL (Over (TextOnColorT WHITE BRIGHT (Plain ''ok'')))"
  let ?ss = "[Colored FRONT GREEN NORMAL, Colored BACK WHITE BRIGHT]"
  have made: "styled ?ss ''ok'' ?f" unfolding ColoredTextT_def TextOnColorT_def by (intro styled.intros)
  have esc: "ANSI_ESC_START \<notin> set ''ok''" by (simp add: ANSI_ESC_START_def)
  show ?thesis
    using colored_text_is_displayed[OF made esc, where o' = ostream_new and tty = "\<lparr>stdout_is_tty = True, stderr_is_tty = False\<rparr>"
        and buf = CoutBuf and rest = "[]" and s = plain_screen]
    by (auto simp: ostream_new_def isTTYStream_def color_shown_def ecma_colors_def plain_screen_def Let_def)
qed

subsection \<open>Configuring a logger\<close>

text \<open>What one part of a configuration asks for.\<close>

definition setting_of :: "string \<Rightarrow> (channel \<times> bool) option" where
  "setting_of part = (let channel = to_lower part in
     if channel \<noteq> [] \<and> hd channel = CHR ''!'' then map_option (\<lambda>c. (c, False)) (logger_settings (tl channel))
     else map_option (\<lambda>c. (c, True)) (logger_settings channel))"

lemma config_channel_setting:
  "setting_of p = Some (c, b) \<Longrightarrow> config_channel p s = Inr (s(c := b))"
  "setting_of p = None \<Longrightarrow> \<exists>m. config_channel p s = Inl (RuntimeError m)"
  by (auto simp: setting_of_def config_channel_def Let_def split: if_splits option.splits)

lemma config_channels_settings:
  "list_all (\<lambda>p. setting_of p \<noteq> None) ps \<Longrightarrow>
     config_channels ps s = Inr (\<lambda>c. case map_of (rev (map (the \<circ> setting_of) ps)) c of Some b \<Rightarrow> b | None \<Rightarrow> s c)"
proof (induction ps arbitrary: s)
  case (Cons p ps)
  then obtain c b where p: "setting_of p = Some (c, b)" by auto
  with Cons show ?case
    by (auto simp: config_channel_setting(1)[OF p] fun_eq_iff map_add_def map_of_append split: option.splits)
qed simp

lemma config_channels_bad:
  "\<not> list_all (\<lambda>p. setting_of p \<noteq> None) ps \<Longrightarrow> \<exists>m. config_channels ps s = Inl (RuntimeError m)"
proof (induction ps arbitrary: s)
  case (Cons p ps)
  show ?case
  proof (cases "setting_of p")
    case None
    with config_channel_setting(2)[OF None, of s] show ?thesis by auto
  next
    case (Some cb)
    then obtain c b where "setting_of p = Some (c, b)" by (cases cb) simp
    with Cons show ?thesis by (simp add: config_channel_setting(1))
  qed
qed simp

lemma setChannels_enabled:
  "channel_enabled c (setChannels (s ErrorChannel) (s WarnChannel) (s InfoChannel) (s DebugChannel) l) = s c"
  by (cases c) (simp_all add: channel_enabled_def channel_state_def setChannels_def)

definition config_parts :: "string \<Rightarrow> string list" where
  "config_parts var = kept_parts (BitMask_of_list [SplitFlag_value STRIP_PARTS]) (ref_split '','' var)"

text \<open>
  A configuration is a list of names between commas, around which white space and case do not
  matter.  When all are names of channels, with or without a leading exclamation mark, each channel that
  is named is on or off as its last mention says, and the others are as they were; nothing else of
  the logger changes.  Otherwise a runtime error is thrown and nothing changes at all.
\<close>

theorem logger_configuration:
  "(list_all (\<lambda>p. setting_of p \<noteq> None) (config_parts var) \<longrightarrow>
      (\<exists>l'. configFromString var (l, w) = (Ret (), (l', w)) \<and>
        (\<forall>c. channel_enabled c l' = (case map_of (rev (map (the \<circ> setting_of) (config_parts var))) c of Some b \<Rightarrow> b | None \<Rightarrow> channel_enabled c l)) \<and>
        (\<forall>c. (channel_state c l')\<lparr>ss_enabled := b\<rparr> = (channel_state c l)\<lparr>ss_enabled := b\<rparr>) \<and> m_common_prefix l' = m_common_prefix l)) \<and>
    (\<not> list_all (\<lambda>p. setting_of p \<noteq> None) (config_parts var) \<longrightarrow> (\<exists>m. configFromString var (l, w) = (Throw (RuntimeError m), (l, w))))"
proof -
  let ?parts = "config_parts var"
  have split: "split var '','' (BitMask_of_list [SplitFlag_value STRIP_PARTS]) 0 = Ret ?parts"
    using split_loop_ref[of "'',''" 0 var "BitMask_of_list [SplitFlag_value STRIP_PARTS]" "[]"] by (simp add: split_def config_parts_def)
  show ?thesis
  proof (intro conjI impI)
    assume ok: "list_all (\<lambda>p. setting_of p \<noteq> None) ?parts"
    let ?s = "\<lambda>c. case map_of (rev (map (the \<circ> setting_of) ?parts)) c of Some b \<Rightarrow> b | None \<Rightarrow> channel_enabled c l"
    have "configFromString var (l, w) = (Ret (), (setChannels (?s ErrorChannel) (?s WarnChannel) (?s InfoChannel) (?s DebugChannel) l, w))"
      using config_channels_settings[OF ok, of "\<lambda>c. channel_enabled c l"] by (simp add: configFromString_def split[simplified] act_defs)
    moreover have "(channel_state c (setChannels e wa i d l))\<lparr>ss_enabled := b\<rparr> = (channel_state c l)\<lparr>ss_enabled := b\<rparr>" for c e wa i d
      by (cases c) (simp_all add: channel_state_def setChannels_def)
    moreover have "channel_enabled c (setChannels (?s ErrorChannel) (?s WarnChannel) (?s InfoChannel) (?s DebugChannel) l) = ?s c" for c
      by (rule setChannels_enabled)
    moreover have "m_common_prefix (setChannels e wa i d l) = m_common_prefix l" for e wa i d by (simp add: setChannels_def)
    ultimately show "\<exists>l'. configFromString var (l, w) = (Ret (), (l', w)) \<and>
        (\<forall>c. channel_enabled c l' = ?s c) \<and>
        (\<forall>c. (channel_state c l')\<lparr>ss_enabled := b\<rparr> = (channel_state c l)\<lparr>ss_enabled := b\<rparr>) \<and> m_common_prefix l' = m_common_prefix l"
      by (intro exI[of _ "setChannels (?s ErrorChannel) (?s WarnChannel) (?s InfoChannel) (?s DebugChannel) l"] conjI allI)
  next
    assume "\<not> list_all (\<lambda>p. setting_of p \<noteq> None) ?parts"
    from config_channels_bad[OF this, of "\<lambda>c. channel_enabled c l"] show "\<exists>m. configFromString var (l, w) = (Throw (RuntimeError m), (l, w))"
      by (auto simp: configFromString_def split[simplified] act_defs)
  qed
qed

theorem logger_configuration_witness:
  "\<exists>l'. configFromString '' !Error,debug '' (ILogger_create, ()) = (Ret (), (l', ())) \<and>
     channel_enabled DebugChannel l' \<and> \<not> channel_enabled ErrorChannel l'"
proof -
  let ?v = "'' !Error,debug ''"
  have "config_parts ?v = [''!Error'', ''debug'']"
    by code_simp
  moreover have "setting_of ''!Error'' = Some (ErrorChannel, False)" "setting_of ''debug'' = Some (DebugChannel, True)" by code_simp+
  ultimately show ?thesis using logger_configuration[where var = ?v and l = ILogger_create and w = "()" and b = True]
    by (fastforce split: if_splits)
qed

subsection \<open>Logging, detection and ownership\<close>

text \<open>
  A message on a channel that is off reaches no stream of the program.  On a channel that is on it starts
  with both prefixes, on the stream of the channel alone, and in the color of the channel when
  the stream is a terminal for the logger and for the library.  A channel that was switched on
  before it has a stream uses a null pointer.
\<close>

theorem logging_writes_to_its_stream:
  assumes "os_width (real_stream s b) = 0"
  shows "(\<not> ss_enabled st \<longrightarrow> (\<exists>s'. getStream tty st common s = Some (None, s') \<and> real_stream s' = real_stream s)) \<and>
    (ss_enabled st \<and> ss_stream st = Some b \<longrightarrow> (\<exists>s'. getStream tty st common s = Some (Some b, s') \<and>
       (\<forall>b'. b' \<noteq> b \<longrightarrow> real_stream s' b' = real_stream s b') \<and>
       os_text (real_stream s' b) = os_text (real_stream s b) @
         (if ss_is_tty st \<and> isTTYStream tty b then build_ansi_command [get_ansi_color_code (ss_color st)] @ common @ ss_prefix st @
            build_ansi_command [39] else common @ ss_prefix st))) \<and>
    (ss_enabled st \<and> ss_stream st = None \<longrightarrow> getStream tty st common s = None)"
  using assms by (auto simp: getStream_def put_prefixes_def put_text_def put_color_def put_control_def Let_def)

theorem logging_writes_to_its_stream_witness:
  "\<exists>s'. getStream \<lparr>stdout_is_tty = True, stderr_is_tty = True\<rparr> (StreamState_create ''Debug: '' (FrontColor CYAN)) ''app: ''
     \<lparr>real_stream = (\<lambda>_. ostream_new), null_stream = ostream_new\<rparr> = Some (None, s') \<and> os_text (real_stream s' CoutBuf) = []"
  using logging_writes_to_its_stream[where s = "\<lparr>real_stream = (\<lambda>_. ostream_new), null_stream = ostream_new\<rparr>" and b = CoutBuf
      and st = "StreamState_create ''Debug: '' (FrontColor CYAN)" and common = "''app: ''"
      and tty = "\<lparr>stdout_is_tty = True, stderr_is_tty = True\<rparr>"]
  by (auto simp: ostream_new_def StreamState_create_def)

lemma all_channel: "(\<forall>c. P c) \<longleftrightarrow> P ErrorChannel \<and> P WarnChannel \<and> P InfoChannel \<and> P DebugChannel"
  by (metis channel.exhaust)

text \<open>
  The detection of terminals obeys the environment first and asks both descriptors otherwise.  A
  descriptor that is not open is an error and not the answer no: in a program that was started
  with its standard output closed the initialization of the library throws, and so does making a
  standard logger.
\<close>

theorem closed_output_is_an_error:
  assumes "rv a \<noteq> 1" "err a = Some er" "er \<noteq> errno_of Errno_NOT_A_TTY" "rv yes \<noteq> 0"
  shows "(\<exists>w'. CheckStdioTTYs_libInit (tty, w\<lparr>answers := [ok 0, ok 0, a]\<rparr>) = (Throw (ApiError ''isatty:'' er), (tty, w'))) \<and>
    (\<exists>w'. CheckStdioTTYs_libInit (tty, w\<lparr>answers := [ok 0, ok 0, ok 1, failed Errno_NOT_A_TTY]\<rparr>) =
       (Ret (), (tty\<lparr>stdout_is_tty := True, stderr_is_tty := False\<rparr>, w'))) \<and>
    (\<exists>w'. CheckStdioTTYs_libInit (tty, w\<lparr>answers := [yes]\<rparr>) = (Ret (), (tty\<lparr>stdout_is_tty := True, stderr_is_tty := True\<rparr>, w'))) \<and>
    (\<exists>w'. CheckStdioTTYs_libInit (tty, w\<lparr>answers := [ok 0, yes]\<rparr>) = (Ret (), (tty\<lparr>stdout_is_tty := False, stderr_is_tty := False\<rparr>, w'))) \<and>
    fst (StdLogger_create (w\<lparr>answers := [a]\<rparr>)) = Throw (ApiError ''isatty:'' er) \<and>
    (\<exists>l w'. StdLogger_create (w\<lparr>answers := [ok 1, failed Errno_NOT_A_TTY, ok 1, ok 1]\<rparr>) = (Ret l, w') \<and>
       (\<forall>c. channel_enabled c l \<longleftrightarrow> c \<noteq> DebugChannel) \<and> (\<forall>c. ss_is_tty (channel_state c l) \<longleftrightarrow> c \<noteq> ErrorChannel))"
  using assms
  by (simp add: CheckStdioTTYs_libInit_def refresh_tty_detection_def get_env_var_def isTTY_def StdLogger_create_def setStreams_def
      setStream_def ILogger_isTTY_def ILogger_create_def StreamState_create_def act_defs kernel_defs channel_enabled_def channel_state_def
      all_channel)

theorem closed_output_is_an_error_witness:
  "fst (StdLogger_create ((world_of [])\<lparr>answers := [failed Errno_BAD_FD]\<rparr>)) = Throw (ApiError ''isatty:'' (errno_of Errno_BAD_FD)) \<and>
    (\<exists>l w'. StdLogger_create ((world_of [])\<lparr>answers := [ok 1, failed Errno_NOT_A_TTY, ok 1, ok 1]\<rparr>) = (Ret l, w') \<and> \<not> channel_enabled DebugChannel l)"
  using closed_output_is_an_error[of "failed Errno_BAD_FD" "errno_of Errno_BAD_FD" "ok 1" "\<lparr>stdout_is_tty = True, stderr_is_tty = True\<rparr>" "world_of []"]
  by fastforce

text \<open>The contract of an owner for the adaptors.\<close>

definition adaptor_owned :: "StreamAdaptor \<Rightarrow> resource set" where
  "adaptor_owned s = fd_owned (sa_fd s)"

interpretation adaptor: resource_owner live_in adaptor_owned StreamAdaptor_close
proof unfold_locales
  fix s s' w w'
  assume "StreamAdaptor_close (s, w) = (Ret (), (s', w'))"
  then show "adaptor_owned s' = {} \<and> live_in w' = live_in w - adaptor_owned s"
    by (auto simp: StreamAdaptor_close_def act_defs kernel_defs adaptor_owned_def fd_owned_def FD_default_def FD_valid_def FD_def
        opens_fd_def split: if_splits list.splits)
qed

text \<open>
  An adaptor takes over the end of a pipe or the descriptor of a file: what the pipe owned the two
  own together, and an end that is not open is refused.  A file that only borrows its descriptor is
  not asked about that: the adaptor owns, and will close, what the file did not own.
\<close>

theorem adaptors_take_over:
  assumes "FD_valid (m_read_end p)" "m_read_end p \<noteq> m_write_end p" "FD_valid (fb_fd f)"
  shows "(\<exists>s p'. InputStreamAdaptor_of_pipe p = (Inr s, p') \<and> adaptor_owned s \<union> Pipe_owned p' = Pipe_owned p \<and>
       adaptor_owned s = {Fd (m_fd (m_read_end p))} \<and>
       fst (InputStreamAdaptor_of_pipe p') = Inl (UsageError ''Attempt to construct StreamAdaptor for invalid FD'')) \<and>
    (\<exists>s f'. StreamAdaptor_of_file mode (f, w) = (Ret (Inr s), (f', w)) \<and> FDFile_owned f' = {} \<and> adaptor_owned s = {Fd (m_fd (fb_fd f))} \<and>
       (m_auto_close f \<longrightarrow> adaptor_owned s = FDFile_owned f) \<and> (\<not> m_auto_close f \<longrightarrow> FDFile_owned f = {}))"
  using assms
  by (auto simp: InputStreamAdaptor_of_pipe_def Pipe_takeReadEndOwnership_def StreamAdaptor_create_def adaptor_owned_def fd_owned_def
      Pipe_owned_def StreamAdaptor_of_file_def FDFile_takeOwnership_def FDFile_owned_def act_defs FD_reset_def FD_valid_def)

theorem adaptors_take_over_witness:
  "\<exists>s. fst (StreamAdaptor_of_file mode_in (\<lparr>fb_fd = FD 4, m_auto_close = False\<rparr>, world_of [])) = Ret (Inr s) \<and> adaptor_owned s = {Fd 4} \<and>
     FDFile_owned \<lparr>fb_fd = FD 4, m_auto_close = False\<rparr> = {}"
proof -
  have "FD_valid (m_read_end \<lparr>m_read_end = FD 3, m_write_end = FD 5\<rparr>)"
    "m_read_end \<lparr>m_read_end = FD 3, m_write_end = FD 5\<rparr> \<noteq> m_write_end \<lparr>m_read_end = FD 3, m_write_end = FD 5\<rparr>"
    "FD_valid (fb_fd \<lparr>fb_fd = FD 4, m_auto_close = False\<rparr>)" by code_simp+
  from adaptors_take_over[OF this, where mode = mode_in and w = "world_of []"] show ?thesis by (fastforce simp: FD_def)
qed

end
