(* ===== verification/Tracing.thy ===== *)
theory Tracing
  imports SigInfo Signals HostBytes StreamIO Process Utilities
begin

text \<open>
  Tracing other processes: the types of \<^verbatim>\<open>include/proc/ptrace.hxx\<close>, the functions of
  \<^verbatim>\<open>src/proc/ptrace.cxx\<close> and the class \<^verbatim>\<open>Tracee\<close> (\<^verbatim>\<open>include/proc/Tracee.hxx\<close>,
  \<^verbatim>\<open>src/proc/Tracee.cxx\<close>).  A tracee is the number of its process.  What a request means to
  the traced process is the kernel's business; the development is about which request is
  made with which arguments and about what becomes of the answer.  The constants are those of x86-64.
\<close>

subsection \<open>Types (include/proc/ptrace.hxx)\<close>

datatype TraceOpt = OPT_EXITKILL | OPT_TRACECLONE | OPT_TRACEEXEC | OPT_TRACEEXIT | OPT_TRACEFORK
    | OPT_TRACEVFORK | OPT_TRACEVFORKDONE | OPT_TRACESYSGOOD | OPT_TRACESECCOMP |
    OPT_SUSPENDSECCOMP

primrec TraceOpt_value :: "TraceOpt \<Rightarrow> 64 word" where
  "TraceOpt_value OPT_EXITKILL = 0x100000"
| "TraceOpt_value OPT_TRACECLONE = 8"
| "TraceOpt_value OPT_TRACEEXEC = 0x10"
| "TraceOpt_value OPT_TRACEEXIT = 0x40"
| "TraceOpt_value OPT_TRACEFORK = 2"
| "TraceOpt_value OPT_TRACEVFORK = 4"
| "TraceOpt_value OPT_TRACEVFORKDONE = 0x20"
| "TraceOpt_value OPT_TRACESYSGOOD = 1"
| "TraceOpt_value OPT_TRACESECCOMP = 0x80"
| "TraceOpt_value OPT_SUSPENDSECCOMP = 0x200000"

datatype TraceEvent = EVENT_VFORK | EVENT_FORK | EVENT_CLONE | EVENT_VFORK_DONE | EVENT_EXEC |
    EVENT_EXIT | EVENT_STOP | EVENT_SECCOMP

primrec TraceEvent_value :: "TraceEvent \<Rightarrow> int" where
  "TraceEvent_value EVENT_VFORK = 2"
| "TraceEvent_value EVENT_FORK = 1"
| "TraceEvent_value EVENT_CLONE = 3"
| "TraceEvent_value EVENT_VFORK_DONE = 5"
| "TraceEvent_value EVENT_EXEC = 4"
| "TraceEvent_value EVENT_EXIT = 6"
| "TraceEvent_value EVENT_STOP = 0x80"
| "TraceEvent_value EVENT_SECCOMP = 7"

datatype RegisterType = REG_GENERAL_PURPOSE | REG_FLOATING_POINT

primrec RegisterType_value :: "RegisterType \<Rightarrow> int" where
  "RegisterType_value REG_GENERAL_PURPOSE = 1"
| "RegisterType_value REG_FLOATING_POINT = 2"

datatype (plugins only: lifting) Request = REQ_TRACEME | REQ_PEEKDATA | REQ_PEEKTEXT |
    REQ_PEEKUSER | REQ_POKEDATA | REQ_POKEUSER | REQ_GETREGS | REQ_GETFPREGS | REQ_GETREGSET |
    REQ_SETREGS | REQ_SETFPREGS | REQ_SETREGSET | REQ_GETSIGINFO | REQ_SETSIGINFO |
    REQ_PEEKSIGINFO | REQ_GETSIGMASK | REQ_SETSIGMASK | REQ_SETOPTIONS | REQ_GETEVENTMSG |
    REQ_CONT | REQ_SYSCALL | REQ_SINGLESTEP | REQ_SYSEMU | REQ_SYSEMU_SINGLESTEP | REQ_LISTEN |
    REQ_KILL | REQ_INTERRUPT | REQ_ATTACH | REQ_SEIZE | REQ_SECCOMP_GET_FILTER | REQ_DETACH |
    REQ_GET_THREAD_AREA | REQ_SET_THREAD_AREA | REQ_GET_SYSCALL_INFO

primrec Request_value :: "Request \<Rightarrow> int" where
  "Request_value REQ_TRACEME = 0"
| "Request_value REQ_PEEKDATA = 2"
| "Request_value REQ_PEEKTEXT = 1"
| "Request_value REQ_PEEKUSER = 3"
| "Request_value REQ_POKEDATA = 5"
| "Request_value REQ_POKEUSER = 6"
| "Request_value REQ_GETREGS = 0xc"
| "Request_value REQ_GETFPREGS = 0xe"
| "Request_value REQ_GETREGSET = 0x4204"
| "Request_value REQ_SETREGS = 0xd"
| "Request_value REQ_SETFPREGS = 0xf"
| "Request_value REQ_SETREGSET = 0x4205"
| "Request_value REQ_GETSIGINFO = 0x4202"
| "Request_value REQ_SETSIGINFO = 0x4203"
| "Request_value REQ_PEEKSIGINFO = 0x4209"
| "Request_value REQ_GETSIGMASK = 0x420a"
| "Request_value REQ_SETSIGMASK = 0x420b"
| "Request_value REQ_SETOPTIONS = 0x4200"
| "Request_value REQ_GETEVENTMSG = 0x4201"
| "Request_value REQ_CONT = 7"
| "Request_value REQ_SYSCALL = 0x18"
| "Request_value REQ_SINGLESTEP = 9"
| "Request_value REQ_SYSEMU = 0x1f"
| "Request_value REQ_SYSEMU_SINGLESTEP = 0x20"
| "Request_value REQ_LISTEN = 0x4208"
| "Request_value REQ_KILL = 8"
| "Request_value REQ_INTERRUPT = 0x4207"
| "Request_value REQ_ATTACH = 0x10"
| "Request_value REQ_SEIZE = 0x4206"
| "Request_value REQ_SECCOMP_GET_FILTER = 0x420c"
| "Request_value REQ_DETACH = 0x11"
| "Request_value REQ_GET_THREAD_AREA = 0x19"
| "Request_value REQ_SET_THREAD_AREA = 0x1a"
| "Request_value REQ_GET_SYSCALL_INFO = 0x420e"

subsection \<open>Requests (src/proc/ptrace.cxx)\<close>

primrec to_label :: "Request \<Rightarrow> string" where
  "to_label REQ_TRACEME = ''TRACEME''"
| "to_label REQ_PEEKDATA = ''PEEKDATA''"
| "to_label REQ_PEEKTEXT = ''PEEKTEXT''"
| "to_label REQ_PEEKUSER = ''PEEKUSER''"
| "to_label REQ_POKEDATA = ''POKEDATA''"
| "to_label REQ_POKEUSER = ''POKEUSER''"
| "to_label REQ_GETREGS = ''GETREGS''"
| "to_label REQ_GETFPREGS = ''GETFPREGS''"
| "to_label REQ_GETREGSET = ''GETREGSET''"
| "to_label REQ_SETREGS = ''SETREGS''"
| "to_label REQ_SETFPREGS = ''SETFPREGS''"
| "to_label REQ_SETREGSET = ''SETREGSET''"
| "to_label REQ_GETSIGINFO = ''GETSIGINFO''"
| "to_label REQ_SETSIGINFO = ''SETSIGINFO''"
| "to_label REQ_PEEKSIGINFO = ''PEEKSIGINFO''"
| "to_label REQ_GETSIGMASK = ''GETSIGMASK''"
| "to_label REQ_SETSIGMASK = ''SETSIGMASK''"
| "to_label REQ_SETOPTIONS = ''SETOPTIONS''"
| "to_label REQ_GETEVENTMSG = ''GETEVENTMSG''"
| "to_label REQ_CONT = ''CONT''"
| "to_label REQ_SYSCALL = ''SYSCALL''"
| "to_label REQ_SINGLESTEP = ''SINGLESTEP''"
| "to_label REQ_SYSEMU = ''SYSEMU''"
| "to_label REQ_SYSEMU_SINGLESTEP = ''SYSEMU_SINGLESTEP''"
| "to_label REQ_LISTEN = ''LISTEN''"
| "to_label REQ_KILL = ''KILL''"
| "to_label REQ_INTERRUPT = ''INTERRUPT''"
| "to_label REQ_ATTACH = ''ATTACH''"
| "to_label REQ_SEIZE = ''SEIZE''"
| "to_label REQ_SECCOMP_GET_FILTER = ''SECCOMP_GET_FILTER''"
| "to_label REQ_DETACH = ''DETACH''"
| "to_label REQ_GET_THREAD_AREA = ''GET_THREAD_AREA''"
| "to_label REQ_SET_THREAD_AREA = ''SET_THREAD_AREA''"
| "to_label REQ_GET_SYSCALL_INFO = ''GET_SYSCALL_INFO''"

definition is_peek :: "Request \<Rightarrow> bool" where
  "is_peek req \<longleftrightarrow> req = REQ_PEEKDATA \<or> req = REQ_PEEKTEXT \<or> req = REQ_PEEKUSER"

definition ptrace_label :: "Request \<Rightarrow> ProcessID \<Rightarrow> string" where
  "ptrace_label req pid = ''ptrace('' @ decimal pid @ '', '' @ to_label req @ '', ...)''"

text \<open>
  The answer is handed to the caller together with the result: it holds what the kernel
  stored through the pointers of the call.
\<close>

definition ptrace_trace :: "Request \<Rightarrow> ProcessID \<Rightarrow> arg \<Rightarrow> arg \<Rightarrow> (world, int option \<times> answer) act" where
  "ptrace_trace req pid addr data = andthen (whenA (is_peek req) reset_errno)
     (bind (call ''ptrace'' [I (Request_value req), I pid, addr, data]) (\<lambda>a.
        if rv a = -1 then bind is_errno_set (\<lambda>set.
          if is_peek req \<and> \<not> set then ret (Some (rv a), a)
          else throw_ApiError (ptrace_label req pid))
        else if is_peek req \<or> req = REQ_SECCOMP_GET_FILTER \<or> req = REQ_GET_SYSCALL_INFO then ret (Some (rv a), a)
        else ret (None, a)))"

definition traceme :: "(world, unit) act" where
  "traceme = bind (ptrace_trace REQ_TRACEME 0 (I 0) (I 0)) (\<lambda>_. ret ())"

definition decode_event :: "Signal \<Rightarrow> exn + Signal \<times> int" where
  "decode_event sig =
     (if \<not> Signal_isPtraceEventStop sig then Inl (UsageError ''this is not a ptrace-event-stop signal'')
      else Inr (sig AND 0xff, drop_bit 8 sig))"

subsection \<open>System call information\<close>

datatype Arch = ARCH_X86_64 | ARCH_I386 | ARCH_AARCH64 | ARCH_ARM | ARCH_ARMEB | ARCH_MIPS |
    ARCH_MIPS64 | ARCH_PPC | ARCH_PPC64 | ARCH_PPC64LE

primrec Arch_value :: "Arch \<Rightarrow> 32 word" where
  "Arch_value ARCH_X86_64 = 0xc000003e"
| "Arch_value ARCH_I386 = 0x40000003"
| "Arch_value ARCH_AARCH64 = 0xc00000b7"
| "Arch_value ARCH_ARM = 0x40000028"
| "Arch_value ARCH_ARMEB = 0x28"
| "Arch_value ARCH_MIPS = 8"
| "Arch_value ARCH_MIPS64 = 0x80000008"
| "Arch_value ARCH_PPC = 0x14"
| "Arch_value ARCH_PPC64 = 0x80000015"
| "Arch_value ARCH_PPC64LE = 0xc0000015"

datatype SyscallInfoType = SCI_ENTRY | SCI_EXIT | SCI_SECCOMP | SCI_NONE

primrec SyscallInfoType_value :: "SyscallInfoType \<Rightarrow> 8 word" where
  "SyscallInfoType_value SCI_ENTRY = 1"
| "SyscallInfoType_value SCI_EXIT = 2"
| "SyscallInfoType_value SCI_SECCOMP = 3"
| "SyscallInfoType_value SCI_NONE = 0"

text \<open>
  The structure of the kernel: a header and a union of 64 bytes, which the three views read
  as the structure of an entry, an exit or a seccomp stop.  A view points into the
  object it was taken from; it is the bytes of the union.
\<close>

record SyscallInfo =
  sc_op :: "8 word"
  sc_arch :: "32 word"
  sc_ip :: "64 word"
  sc_sp :: "64 word"
  sc_union :: string

definition SyscallInfo_bytes :: "Endian \<Rightarrow> SyscallInfo \<Rightarrow> string" where
  "SyscallInfo_bytes e i = host_str e (sc_op i) @ replicate 3 NUL @ host_str e (sc_arch i) @
     host_str e (sc_ip i) @ host_str e (sc_sp i) @ sc_union i"

definition SyscallInfo_of_bytes :: "Endian \<Rightarrow> string \<Rightarrow> SyscallInfo" where
  "SyscallInfo_of_bytes e s = \<lparr>sc_op = host_word e (peek 0 1 s), sc_arch = host_word e (peek 4 4 s),
     sc_ip = host_word e (peek 8 8 s), sc_sp = host_word e (peek 16 8 s), sc_union = peek 24 64 s\<rparr>"

definition SYSCALL_INFO_SIZE :: nat where "SYSCALL_INFO_SIZE = 88"

text \<open>The raw value of \<^verbatim>\<open>type()\<close>, which need not be one of the constants.\<close>

definition sc_type :: "SyscallInfo \<Rightarrow> 8 word" where
  "sc_type i = sc_op i"

definition isEntry :: "SyscallInfo \<Rightarrow> bool" where
  "isEntry i \<longleftrightarrow> sc_type i = SyscallInfoType_value SCI_ENTRY"

definition isExit :: "SyscallInfo \<Rightarrow> bool" where
  "isExit i \<longleftrightarrow> sc_type i = SyscallInfoType_value SCI_EXIT"

definition isSeccomp :: "SyscallInfo \<Rightarrow> bool" where
  "isSeccomp i \<longleftrightarrow> sc_type i = SyscallInfoType_value SCI_SECCOMP"

definition arch :: "SyscallInfo \<Rightarrow> 32 word" where
  "arch i = sc_arch i"

definition instructionPtr :: "SyscallInfo \<Rightarrow> 64 word" where
  "instructionPtr i = sc_ip i"

definition stackPtr :: "SyscallInfo \<Rightarrow> 64 word" where
  "stackPtr i = sc_sp i"

definition entryInfo :: "SyscallInfo \<Rightarrow> string option" where
  "entryInfo i = (if \<not> isEntry i then None else Some (sc_union i))"

definition exitInfo :: "SyscallInfo \<Rightarrow> string option" where
  "exitInfo i = (if \<not> isExit i then None else Some (sc_union i))"

definition seccompInfo :: "SyscallInfo \<Rightarrow> string option" where
  "seccompInfo i = (if \<not> isSeccomp i then None else Some (sc_union i))"

definition MAX_ARGS :: nat where "MAX_ARGS = 6"

definition entry_syscallNr :: "Endian \<Rightarrow> string \<Rightarrow> 64 word" where
  "entry_syscallNr e u = host_word e (peek 0 8 u)"

definition entry_args :: "Endian \<Rightarrow> string \<Rightarrow> 64 word list" where
  "entry_args e u = map (\<lambda>k. host_word e (peek (8 + 8 * k) 8 u)) [0..<MAX_ARGS]"

definition exit_rval :: "Endian \<Rightarrow> string \<Rightarrow> 64 word" where
  "exit_rval e u = host_word e (peek 0 8 u)"

definition exit_isError :: "Endian \<Rightarrow> string \<Rightarrow> bool" where
  "exit_isError e u \<longleftrightarrow> (host_word e (peek 8 1 u) :: 8 word) \<noteq> 0"

definition exit_isValue :: "Endian \<Rightarrow> string \<Rightarrow> bool" where
  "exit_isValue e u \<longleftrightarrow> \<not> exit_isError e u"

definition exit_retVal :: "Endian \<Rightarrow> string \<Rightarrow> int option" where
  "exit_retVal e u = (if exit_isError e u then None else Some (sint (exit_rval e u)))"

definition exit_errVal :: "Endian \<Rightarrow> string \<Rightarrow> errno option" where
  "exit_errVal e u = (if exit_isError e u then Some (sint (ucast (- exit_rval e u) :: 32 word)) else None)"

definition seccomp_syscallNr :: "Endian \<Rightarrow> string \<Rightarrow> 64 word" where
  "seccomp_syscallNr e u = host_word e (peek 0 8 u)"

definition seccomp_maxArgs :: nat where "seccomp_maxArgs = 6"

definition seccomp_args :: "Endian \<Rightarrow> string \<Rightarrow> 64 word list" where
  "seccomp_args e u = map (\<lambda>k. host_word e (peek (8 + 8 * k) 8 u)) [0..<seccomp_maxArgs]"

definition seccomp_retData :: "Endian \<Rightarrow> string \<Rightarrow> 32 word" where
  "seccomp_retData e u = host_word e (peek 56 4 u)"

definition X32_SYSCALL_BIT :: "64 word" where "X32_SYSCALL_BIT = 0x40000000"

definition isX32 :: "Endian \<Rightarrow> SyscallInfo \<Rightarrow> bool" where
  "isX32 e i = (if \<not> isEntry i \<or> arch i \<noteq> Arch_value ARCH_X86_64 then False
     else case entryInfo i of None \<Rightarrow> False | Some u \<Rightarrow> entry_syscallNr e u AND X32_SYSCALL_BIT \<noteq> 0)"

subsection \<open>Settings for pending signals\<close>

record PeekSigInfo =
  psi_off :: "64 word"
  psi_flags :: "32 word"
  psi_nr :: int

definition PEEK_SHARED :: "32 word" where "PEEK_SHARED = 1"

definition PeekSigInfo_clear :: PeekSigInfo where
  "PeekSigInfo_clear = \<lparr>psi_off = 0, psi_flags = 0, psi_nr = 0\<rparr>"

definition PeekSigInfo_setFlags :: "32 mask \<Rightarrow> PeekSigInfo \<Rightarrow> PeekSigInfo" where
  "PeekSigInfo_setFlags flags s = s\<lparr>psi_flags := BitMask_raw flags\<rparr>"

definition PeekSigInfo_setOffset :: "64 word \<Rightarrow> PeekSigInfo \<Rightarrow> PeekSigInfo" where
  "PeekSigInfo_setOffset off s = s\<lparr>psi_off := off\<rparr>"

definition PeekSigInfo_setAmount :: "int \<Rightarrow> PeekSigInfo \<Rightarrow> PeekSigInfo" where
  "PeekSigInfo_setAmount nr s = s\<lparr>psi_nr := nr\<rparr>"

definition PeekSigInfo_create :: PeekSigInfo where
  "PeekSigInfo_create = PeekSigInfo_setFlags (BitMask_of PEEK_SHARED) PeekSigInfo_clear"

subsection \<open>Tracee\<close>

record Tracee =
  tracee_pid :: ProcessID

definition Tracee_create :: "ProcessID \<Rightarrow> Tracee" where
  "Tracee_create pid = \<lparr>tracee_pid = pid\<rparr>"

definition Tracee_default :: Tracee where
  "Tracee_default = Tracee_create (ProcessID_of PID_INVALID)"

definition Tracee_valid :: "Tracee \<Rightarrow> bool" where
  "Tracee_valid t \<longleftrightarrow> tracee_pid t \<noteq> ProcessID_of PID_INVALID"

definition request :: "Tracee \<Rightarrow> Request \<Rightarrow> arg \<Rightarrow> arg \<Rightarrow> (world, int option \<times> answer) act" where
  "request t req addr data = ptrace_trace req (tracee_pid t) addr data"

text \<open>A request whose result is ignored.\<close>

definition request_only :: "Tracee \<Rightarrow> Request \<Rightarrow> arg \<Rightarrow> arg \<Rightarrow> (world, unit) act" where
  "request_only t req addr data = bind (request t req addr data) (\<lambda>_. ret ())"

text \<open>
  Dereferencing an optional value: without a value the behaviour is undefined, and the result
  of the function is \<open>None\<close>.
\<close>

definition deref :: "'a option \<Rightarrow> ('a \<Rightarrow> ('s, 'b option) act) \<Rightarrow> ('s, 'b option) act" where
  "deref v f = (case v of None \<Rightarrow> ret None | Some x \<Rightarrow> f x)"

datatype RestartMode = RESTART_CONT | RESTART_DETACH | RESTART_SYSCALL | RESTART_SINGLESTEP
  | RESTART_SYSEMU | RESTART_SYSEMU_SINGLESTEP | RESTART_LISTEN

primrec RestartMode_request :: "RestartMode \<Rightarrow> Request" where
  "RestartMode_request RESTART_CONT = REQ_CONT"
| "RestartMode_request RESTART_DETACH = REQ_DETACH"
| "RestartMode_request RESTART_SYSCALL = REQ_SYSCALL"
| "RestartMode_request RESTART_SINGLESTEP = REQ_SINGLESTEP"
| "RestartMode_request RESTART_SYSEMU = REQ_SYSEMU"
| "RestartMode_request RESTART_SYSEMU_SINGLESTEP = REQ_SYSEMU_SINGLESTEP"
| "RestartMode_request RESTART_LISTEN = REQ_LISTEN"

definition seize :: "Tracee \<Rightarrow> 64 mask \<Rightarrow> (world, unit) act" where
  "seize t opts = request_only t REQ_SEIZE (I 0) (I (uint (BitMask_raw opts)))"

definition attach :: "Tracee \<Rightarrow> (world, unit) act" where
  "attach t = request_only t REQ_ATTACH (I 0) (I 0)"

definition detach :: "Tracee \<Rightarrow> (world, unit) act" where
  "detach t = request_only t REQ_DETACH (I 0) (I 0)"

definition restart :: "Tracee \<Rightarrow> RestartMode \<Rightarrow> Signal option \<Rightarrow> (world, unit) act" where
  "restart t mode sig = request_only t (RestartMode_request mode) (I 0)
     (I (case sig of Some s \<Rightarrow> if mode \<noteq> RESTART_LISTEN then s else SignalNr_value SIG_NONE
         | None \<Rightarrow> SignalNr_value SIG_NONE))"

definition interrupt :: "Tracee \<Rightarrow> (world, unit) act" where
  "interrupt t = request_only t REQ_INTERRUPT (I 0) (I 0)"

definition setOptions :: "Tracee \<Rightarrow> 64 mask \<Rightarrow> (world, unit) act" where
  "setOptions t opts = request_only t REQ_SETOPTIONS (I 0) (I (uint (BitMask_raw opts)))"

definition peekData :: "Tracee \<Rightarrow> 64 word \<Rightarrow> (world, int option) act" where
  "peekData t addr = bind (request t REQ_PEEKDATA (I (uint addr)) (I 0)) (\<lambda>(n, _). deref n (\<lambda>n. ret (Some n)))"

definition pokeData :: "Tracee \<Rightarrow> 64 word \<Rightarrow> int \<Rightarrow> (world, unit) act" where
  "pokeData t addr val = request_only t REQ_POKEDATA (I (uint addr)) (I val)"

definition peekUser :: "Tracee \<Rightarrow> 64 word \<Rightarrow> (world, int option) act" where
  "peekUser t offset = bind (request t REQ_PEEKUSER (I (uint offset)) (I 0)) (\<lambda>(n, _). deref n (\<lambda>n. ret (Some n)))"

definition pokeUser :: "Tracee \<Rightarrow> 64 word \<Rightarrow> int \<Rightarrow> (world, unit) act" where
  "pokeUser t offset val = request_only t REQ_POKEUSER (I (uint offset)) (I val)"

text \<open>Registers are the bytes of their structures.\<close>

definition getRegisters :: "Tracee \<Rightarrow> (string \<times> world, unit) act" where
  "getRegisters t = bind (on_world (request t REQ_GETREGS (I 0) (I 0))) (\<lambda>(_, a). set_this (\<lambda>regs. store regs (out a)))"

definition setRegisters :: "Tracee \<Rightarrow> string \<Rightarrow> (world, unit) act" where
  "setRegisters t regs = request_only t REQ_SETREGS (I 0) (S regs)"

definition getFloatRegisters :: "Tracee \<Rightarrow> (string \<times> world, unit) act" where
  "getFloatRegisters t = bind (on_world (request t REQ_GETFPREGS (I 0) (I 0))) (\<lambda>(_, a). set_this (\<lambda>regs. store regs (out a)))"

definition setFloatRegisters :: "Tracee \<Rightarrow> string \<Rightarrow> (world, unit) act" where
  "setFloatRegisters t regs = request_only t REQ_SETFPREGS (I 0) (S regs)"

text \<open>A memory region with its contents; the kernel updates its length.\<close>

definition getRegisterSet :: "Tracee \<Rightarrow> RegisterType \<Rightarrow> (region \<times> world, string) act" where
  "getRegisterSet t type = bind (this (\<lambda>r. r)) (\<lambda>r.
     bind (on_world (request t REQ_GETREGSET (I (RegisterType_value type)) (L [I (int (iov_base r)), I (int (iov_len r))]))) (\<lambda>(_, a).
       andthen (set_this (\<lambda>r. r\<lparr>iov_len := (case outs a of [n] \<Rightarrow> nat n | _ \<Rightarrow> iov_len r)\<rparr>)) (ret (out a))))"

definition setRegisterSet :: "Tracee \<Rightarrow> RegisterType \<Rightarrow> string \<Rightarrow> (region \<times> world, unit) act" where
  "setRegisterSet t type bs = bind (this (\<lambda>r. r)) (\<lambda>r.
     bind (on_world (request t REQ_SETREGSET (I (RegisterType_value type)) (L [I (int (iov_base r)), S bs, I (int (iov_len r))]))) (\<lambda>(_, a).
       set_this (\<lambda>r. r\<lparr>iov_len := (case outs a of [n] \<Rightarrow> nat n | _ \<Rightarrow> iov_len r)\<rparr>)))"

text \<open>
  The structure of a signal is decoded and encoded by \<open>info\<close> and \<open>raw\<close>, as the kernel
  lays it out.
\<close>

definition getSigInfo :: "(answer \<Rightarrow> siginfo) \<Rightarrow> Tracee \<Rightarrow> (siginfo \<times> world, unit) act" where
  "getSigInfo info t = bind (on_world (request t REQ_GETSIGINFO (I 0) (I 0))) (\<lambda>(_, a). set_this (\<lambda>_. info a))"

definition setSigInfo :: "(siginfo \<Rightarrow> arg) \<Rightarrow> Tracee \<Rightarrow> siginfo \<Rightarrow> (world, unit) act" where
  "setSigInfo raw t si = request_only t REQ_SETSIGINFO (I 0) (raw si)"

text \<open>
  \<^verbatim>\<open>vector::resize()\<close> with a negative number is asked for more elements than there can be;
  the elements that are added are \<open>z\<close>.
\<close>

definition resize_vector :: "'a \<Rightarrow> int \<Rightarrow> ('a list \<times> 'w, unit) act" where
  "resize_vector z n =
     (if n < 0 then throw (StdLengthError ''vector::_M_default_append'')
      else set_this (\<lambda>v. take (nat n) v @ replicate (nat n - length v) z))"

definition peekSigInfo :: "(answer \<Rightarrow> siginfo list) \<Rightarrow> Tracee \<Rightarrow> PeekSigInfo \<Rightarrow> (world, siginfo list option) act" where
  "peekSigInfo infos t s = bind (with_local []
     (andthen (resize_vector SigInfo_clear (psi_nr s))
       (bind (on_world (request t REQ_PEEKSIGINFO (L [I (uint (psi_off s)), I (uint (psi_flags s)), I (psi_nr s)]) (I 0))) (\<lambda>(n, a).
          andthen (set_this (\<lambda>v. take (length v) (infos a) @ drop (length (infos a)) v))
            (deref n (\<lambda>n. andthen (resize_vector SigInfo_clear n) (bind (this (\<lambda>v. v)) (\<lambda>v. ret (Some v)))))))))
     (\<lambda>(r, _). ret r)"

definition getSigMask :: "Tracee \<Rightarrow> (SigSet \<times> world, unit) act" where
  "getSigMask t = bind (on_world (request t REQ_GETSIGMASK (I 128) (I 0))) (\<lambda>(_, a). set_this (\<lambda>_. set (outs a)))"

definition setSigMask :: "Tracee \<Rightarrow> SigSet \<Rightarrow> (world, unit) act" where
  "setSigMask t sigs = request_only t REQ_SETSIGMASK (I 128) (mask_arg sigs)"

text \<open>The message is an \<^verbatim>\<open>unsigned long\<close>, which starts as zero.\<close>

definition getEventMsg :: "Tracee \<Rightarrow> (world, 64 word) act" where
  "getEventMsg t = bind (request t REQ_GETEVENTMSG (I 0) (I 0)) (\<lambda>(_, a).
     ret (case outs a of [] \<Rightarrow> 0 | n # _ \<Rightarrow> word_of_int n))"

definition getPIDEventMsg :: "Tracee \<Rightarrow> (world, ProcessID) act" where
  "getPIDEventMsg t = bind (getEventMsg t) (\<lambda>m. ret (sint (ucast m :: 32 word)))"

definition getExitEventMsg :: "Tracee \<Rightarrow> (world, int) act" where
  "getExitEventMsg t = bind (getEventMsg t) (\<lambda>m. ret (sint (ucast m :: 32 word)))"

definition getSeccompRetDataEventMsg :: "Tracee \<Rightarrow> (world, 16 word) act" where
  "getSeccompRetDataEventMsg t = bind (getEventMsg t) (\<lambda>m. ret (ucast m))"

text \<open>
  An instruction is the number of its eight bytes.  The length field of the request is an
  \<^verbatim>\<open>unsigned short\<close>.  When the kernel stores more instructions than the vector has, the
  behaviour is undefined.
\<close>

definition getSeccompFilter :: "Tracee \<Rightarrow> 64 word \<Rightarrow> (int list \<times> world, unit option) act" where
  "getSeccompFilter t prog_index = bind
     (bind (this (\<lambda>v. v)) (\<lambda>instructions. if instructions = [] then
        bind (on_world (request t REQ_SECCOMP_GET_FILTER (I (uint prog_index)) (I 0))) (\<lambda>(n, _).
          deref n (\<lambda>n. andthen (resize_vector 0 n) (ret (Some ()))))
      else ret (Some ())))
     (\<lambda>r. deref r (\<lambda>_. bind (this (\<lambda>v. v)) (\<lambda>instructions.
        bind (on_world (request t REQ_SECCOMP_GET_FILTER (I (uint prog_index))
            (L [I (uint (of_nat (length instructions) :: 16 word)), L (map I instructions)]))) (\<lambda>(n, a).
          if length instructions < length (outs a) then ret None
          else andthen (set_this (\<lambda>v. outs a @ drop (length (outs a)) v))
            (deref n (\<lambda>n. if n < 0 \<or> int (length instructions) \<le> n
               then throw (RuntimeError ''seccomp filter array size inconsistency'') else ret (Some ())))))))"

text \<open>The descriptor of a thread area begins with its 32 bit entry number.\<close>

definition entry_number :: "Endian \<Rightarrow> string \<Rightarrow> 32 word" where
  "entry_number e desc = host_word e (peek 0 4 desc)"

definition getThreadArea :: "Endian \<Rightarrow> Tracee \<Rightarrow> (string \<times> world, unit) act" where
  "getThreadArea e t = bind (this (entry_number e)) (\<lambda>k.
     bind (on_world (request t REQ_GET_THREAD_AREA (I (uint k)) (I 0))) (\<lambda>(_, a). set_this (\<lambda>desc. store desc (out a))))"

definition setThreadArea :: "Endian \<Rightarrow> Tracee \<Rightarrow> string \<Rightarrow> (world, unit) act" where
  "setThreadArea e t desc = request_only t REQ_SET_THREAD_AREA (I (uint (entry_number e desc))) (S desc)"

definition getSyscallInfo :: "Endian \<Rightarrow> Tracee \<Rightarrow> (SyscallInfo \<times> world, unit option) act" where
  "getSyscallInfo e t = bind (on_world (request t REQ_GET_SYSCALL_INFO (I (int SYSCALL_INFO_SIZE)) (I 0))) (\<lambda>(n, a).
     andthen (set_this (\<lambda>i. SyscallInfo_of_bytes e (store (SyscallInfo_bytes e i) (out a))))
       (deref n (\<lambda>n. if n < 0 \<or> int SYSCALL_INFO_SIZE < n
          then throw (RuntimeError ''excess SYSCALL_INFO data, truncation occurred!'') else ret (Some ()))))"

subsection \<open>Properties\<close>

text \<open>What a request yields, from the answer alone.\<close>

lemma ptrace_trace_answered:
  assumes "answers w = a # as"
  shows "\<exists>w'. ptrace_trace req pid addr data w =
      (if rv a = -1 then
         (if is_peek req \<and> errno_after 0 a = 0 then Ret (Some (-1), a)
          else Throw (ApiError (ptrace_label req pid) (errno_after (if is_peek req then 0 else errno_var w) a)))
       else Ret (if is_peek req \<or> req = REQ_SECCOMP_GET_FILTER \<or> req = REQ_GET_SYSCALL_INFO then Some (rv a) else None, a), w') \<and>
    trace w' = trace w @ [(Call ''ptrace'' [I (Request_value req), I pid, addr, data], a)] \<and> answers w' = as"
  using assms by (simp add: ptrace_trace_def act_defs kernel_defs)

text \<open>
  C28: Reading a word of the traced process distinguishes the value -1 from an error: whatever
  \<^verbatim>\<open>errno\<close> was before, a word is returned when the call leaves it alone, and the error the
  call reports is thrown.  Every other request that fails throws as well, and only the
  requests that have a result yield one.
\<close>

theorem trace_tells_values_from_errors:
  assumes "answers w = a # as"
  shows "(rv a \<noteq> -1 \<or> err a = None \<longrightarrow> fst (peekData t addr w) = Ret (Some (rv a))) \<and>
    (rv a = -1 \<and> err a = Some n \<and> n \<noteq> 0 \<longrightarrow>
       fst (peekData t addr w) = Throw (ApiError (ptrace_label REQ_PEEKDATA (tracee_pid t)) n)) \<and>
    (rv a = -1 \<and> err a = Some n \<and> \<not> is_peek req \<longrightarrow>
       fst (request t req x y w) = Throw (ApiError (ptrace_label req (tracee_pid t)) n)) \<and>
    (rv a \<noteq> -1 \<longrightarrow> fst (request t req x y w) =
       Ret (if req \<in> {REQ_PEEKDATA, REQ_PEEKTEXT, REQ_PEEKUSER, REQ_SECCOMP_GET_FILTER, REQ_GET_SYSCALL_INFO}
         then Some (rv a) else None, a)) \<and>
    trace (snd (request t req x y w)) = trace w @ [(Call ''ptrace'' [I (Request_value req), I (tracee_pid t), x, y], a)]"
proof -
  obtain w' where p: "request t REQ_PEEKDATA (I (uint addr)) (I 0) w =
      (if rv a = -1 then
         (if errno_after 0 a = 0 then Ret (Some (-1), a)
          else Throw (ApiError (ptrace_label REQ_PEEKDATA (tracee_pid t)) (errno_after 0 a)))
       else Ret (Some (rv a), a), w')"
    using ptrace_trace_answered[OF assms, of REQ_PEEKDATA "tracee_pid t" "I (uint addr)" "I 0"]
    by (auto simp: request_def is_peek_def)
  then have "(rv a \<noteq> -1 \<or> err a = None \<longrightarrow> fst (peekData t addr w) = Ret (Some (rv a))) \<and>
      (rv a = -1 \<and> err a = Some n \<and> n \<noteq> 0 \<longrightarrow>
         fst (peekData t addr w) = Throw (ApiError (ptrace_label REQ_PEEKDATA (tracee_pid t)) n))"
    by (auto simp: peekData_def deref_def bind_def ret_def)
  moreover obtain v where "request t req x y w =
      (if rv a = -1 then
         (if is_peek req \<and> errno_after 0 a = 0 then Ret (Some (-1), a)
          else Throw (ApiError (ptrace_label req (tracee_pid t)) (errno_after (if is_peek req then 0 else errno_var w) a)))
       else Ret (if is_peek req \<or> req = REQ_SECCOMP_GET_FILTER \<or> req = REQ_GET_SYSCALL_INFO then Some (rv a) else None, a), v)"
    "trace v = trace w @ [(Call ''ptrace'' [I (Request_value req), I (tracee_pid t), x, y], a)]"
    using ptrace_trace_answered[OF assms, of req "tracee_pid t" x y] by (auto simp: request_def)
  ultimately show ?thesis by (simp add: is_peek_def)
qed

theorem trace_tells_values_from_errors_witness:
  "fst (peekData (Tracee_create 42) 0x1000 ((world_of [ok (-1)])\<lparr>errno_var := 5\<rparr>)) = Ret (Some (-1)) \<and>
   fst (peekData (Tracee_create 42) 0x1000 (world_of [failed Errno_IO_ERROR])) =
     Throw (ApiError (ptrace_label REQ_PEEKDATA 42) 5)"
  using trace_tells_values_from_errors[of "(world_of [ok (-1)])\<lparr>errno_var := 5\<rparr>" "ok (-1)" "[]" "Tracee_create 42" "0x1000"]
    trace_tells_values_from_errors[of "world_of [failed Errno_IO_ERROR]" "failed Errno_IO_ERROR" "[]" "Tracee_create 42" "0x1000" 5]
  by (simp add: world_of_def Tracee_create_def)

text \<open>
  What the kernel copies of the description of a system call is what the views show: the
  header, the number and the arguments of an entry, the value or the error of an exit, with
  the sign of the error turned.  At most one view is available, the one the type announces, and
  a reply longer than the structure is refused.
\<close>

definition entry_union :: "Endian \<Rightarrow> 64 word \<Rightarrow> 64 word list \<Rightarrow> string" where
  "entry_union e nr xs = host_str e nr @ concat (map (host_str e) xs)"

definition exit_union :: "Endian \<Rightarrow> 64 word \<Rightarrow> bool \<Rightarrow> string" where
  "exit_union e r er = host_str e r @ host_str e (if er then 1 else 0 :: 8 word)"

lemma peek_args:
  "k < length xs \<Longrightarrow> peek (8 + 8 * k) 8 (host_str e (nr :: 64 word) @ concat (map (host_str e) (xs :: 64 word list)) @ rest) =
     host_str e (xs ! k)"
proof (induction xs arbitrary: k nr)
  case (Cons x xs)
  show ?case
  proof (cases k)
    case (Suc j)
    with Cons.IH[of j x] Cons.prems show ?thesis by (simp add: peek_def)
  qed (simp add: peek_def)
qed simp

lemma length_args: "length (concat (map (host_str e) (xs :: 64 word list))) = 8 * length xs"
  by (induction xs) simp_all

lemma entry_fields:
  assumes "length xs = 6"
  shows "entry_syscallNr e (entry_union e nr xs @ rest) = nr \<and> entry_args e (entry_union e nr xs @ rest) = xs"
proof -
  have "entry_args e (entry_union e nr xs @ rest) = map (\<lambda>k. xs ! k) [0..<6]"
    using assms peek_args[of _ xs e nr rest] by (auto simp: entry_args_def MAX_ARGS_def entry_union_def)
  moreover have "map (\<lambda>k. xs ! k) [0..<6] = xs" using assms by (metis map_nth)
  ultimately show ?thesis by (simp add: entry_syscallNr_def entry_union_def peek_def)
qed

lemma exit_fields: "exit_isError e (exit_union e r er @ rest) \<longleftrightarrow> er" "exit_rval e (exit_union e r er @ rest) = r"
  by (simp_all add: exit_isError_def exit_rval_def exit_union_def peek_def)

lemma length_info_bytes: "length (SyscallInfo_bytes e i) = 24 + length (sc_union i)"
  by (simp add: SyscallInfo_bytes_def)

lemma info_of_stored:
  assumes "length (sc_union i) = 64" "length u \<le> 64"
  shows "SyscallInfo_of_bytes e (store (SyscallInfo_bytes e i) (SyscallInfo_bytes e (j\<lparr>sc_union := u\<rparr>))) =
    j\<lparr>sc_union := u @ drop (length u) (sc_union i)\<rparr>"
proof -
  have "store (SyscallInfo_bytes e i) (SyscallInfo_bytes e (j\<lparr>sc_union := u\<rparr>)) =
      SyscallInfo_bytes e (j\<lparr>sc_union := u @ drop (length u) (sc_union i)\<rparr>)"
    using assms by (simp add: store_def length_info_bytes) (simp add: SyscallInfo_bytes_def)
  moreover have "SyscallInfo_of_bytes e (SyscallInfo_bytes e k) = k" if "length (sc_union k) = 64" for k
    using that by (simp add: SyscallInfo_of_bytes_def SyscallInfo_bytes_def peek_def)
  ultimately show ?thesis using assms by simp
qed

lemma sint_ucast_neg:
  assumes "- (2 ^ 31) < sint (r :: 64 word)" "sint r \<le> 0"
  shows "sint (ucast (- r) :: 32 word) = - sint r"
proof -
  have narrow: "(ucast (of_int z :: 64 word) :: 32 word) = of_int z" for z
    by (rule bit_word_eqI) (simp add: bit_simps)
  have "sint (of_int (- sint r) :: 32 word) = - sint r"
    using assms by (simp add: signed_of_int signed_take_bit_int_eq_self_iff del: of_int_minus)
  moreover have "ucast (- r) = (of_int (- sint r) :: 32 word)" unfolding narrow[symmetric] by simp
  ultimately show ?thesis by (simp only:)
qed

lemma getSyscallInfo_answered:
  assumes "answers w = \<lparr>rv = n, err = None, out = bs, outs = []\<rparr> # as" "0 \<le> n"
  shows "\<exists>w'. getSyscallInfo e t (i, w) =
    (if n \<le> 88 then Ret (Some ()) else Throw (RuntimeError ''excess SYSCALL_INFO data, truncation occurred!''),
     (SyscallInfo_of_bytes e (store (SyscallInfo_bytes e i) bs), w'))"
  using assms by (simp add: getSyscallInfo_def request_def ptrace_trace_def is_peek_def deref_def SYSCALL_INFO_SIZE_def act_defs kernel_defs)

text \<open>
  C19: The description of a system call the kernel copies is what the views show.  At an entry
  these are the number and the arguments of the call, at an exit the value, or the error
  with its sign turned.  No other view is available, the header is the kernel's, and a reply
  longer than the structure is refused.
\<close>

theorem syscall_info_is_read:
  assumes "length (sc_union i) = 64" "length xs = 6" "answers w = \<lparr>rv = n, err = None, out = bs, outs = []\<rparr> # as" "0 \<le> n"
  shows "(88 < n \<longrightarrow> fst (getSyscallInfo e t (i, w)) = Throw (RuntimeError ''excess SYSCALL_INFO data, truncation occurred!'')) \<and>
    (n \<le> 88 \<and> sc_op j = SyscallInfoType_value SCI_ENTRY \<and> bs = SyscallInfo_bytes e (j\<lparr>sc_union := entry_union e nr xs\<rparr>) \<longrightarrow>
       (\<exists>i' u w'. getSyscallInfo e t (i, w) = (Ret (Some ()), (i', w')) \<and> entryInfo i' = Some u \<and>
          entry_syscallNr e u = nr \<and> entry_args e u = xs \<and> exitInfo i' = None \<and> seccompInfo i' = None \<and>
          arch i' = sc_arch j \<and> instructionPtr i' = sc_ip j \<and> stackPtr i' = sc_sp j \<and>
          (isX32 e i' \<longleftrightarrow> sc_arch j = Arch_value ARCH_X86_64 \<and> nr AND X32_SYSCALL_BIT \<noteq> 0))) \<and>
    (n \<le> 88 \<and> sc_op j = SyscallInfoType_value SCI_EXIT \<and> bs = SyscallInfo_bytes e (j\<lparr>sc_union := exit_union e r er\<rparr>) \<longrightarrow>
       (\<exists>i' u w'. getSyscallInfo e t (i, w) = (Ret (Some ()), (i', w')) \<and> exitInfo i' = Some u \<and>
          exit_retVal e u = (if er then None else Some (sint r)) \<and>
          (er \<and> - (2 ^ 31) < sint r \<and> sint r \<le> 0 \<longrightarrow> exit_errVal e u = Some (- sint r)) \<and> (\<not> er \<longrightarrow> exit_errVal e u = None) \<and>
          entryInfo i' = None \<and> seccompInfo i' = None \<and> \<not> isX32 e i'))"
proof (intro conjI impI)
  assume "88 < n"
  then show "fst (getSyscallInfo e t (i, w)) = Throw (RuntimeError ''excess SYSCALL_INFO data, truncation occurred!'')"
    using getSyscallInfo_answered[OF assms(3,4), of e t i] by auto
next
  assume a: "n \<le> 88 \<and> sc_op j = SyscallInfoType_value SCI_ENTRY \<and> bs = SyscallInfo_bytes e (j\<lparr>sc_union := entry_union e nr xs\<rparr>)"
  let ?u = "entry_union e nr xs"
  have len: "length ?u = 56" using assms(2) by (simp add: entry_union_def length_args)
  obtain w' where "getSyscallInfo e t (i, w) = (Ret (Some ()), (j\<lparr>sc_union := ?u @ drop 56 (sc_union i)\<rparr>, w'))"
    using getSyscallInfo_answered[OF assms(3,4), of e t i] a info_of_stored[OF assms(1), of ?u e j] len by auto
  with a entry_fields[OF assms(2), of e nr "drop 56 (sc_union i)"] show
    "\<exists>i' u w'. getSyscallInfo e t (i, w) = (Ret (Some ()), (i', w')) \<and> entryInfo i' = Some u \<and>
       entry_syscallNr e u = nr \<and> entry_args e u = xs \<and> exitInfo i' = None \<and> seccompInfo i' = None \<and>
       arch i' = sc_arch j \<and> instructionPtr i' = sc_ip j \<and> stackPtr i' = sc_sp j \<and>
       (isX32 e i' \<longleftrightarrow> sc_arch j = Arch_value ARCH_X86_64 \<and> nr AND X32_SYSCALL_BIT \<noteq> 0)"
    by (simp add: entryInfo_def exitInfo_def seccompInfo_def isEntry_def isExit_def isSeccomp_def sc_type_def
        arch_def instructionPtr_def stackPtr_def isX32_def)
next
  assume a: "n \<le> 88 \<and> sc_op j = SyscallInfoType_value SCI_EXIT \<and> bs = SyscallInfo_bytes e (j\<lparr>sc_union := exit_union e r er\<rparr>)"
  let ?u = "exit_union e r er" and ?rest = "drop 9 (sc_union i)"
  have len: "length ?u = 9" by (simp add: exit_union_def)
  obtain w' where g: "getSyscallInfo e t (i, w) = (Ret (Some ()), (j\<lparr>sc_union := ?u @ ?rest\<rparr>, w'))"
    using getSyscallInfo_answered[OF assms(3,4), of e t i] a info_of_stored[OF assms(1), of ?u e j] len by auto
  note neg = sint_ucast_neg[of r]
  from a g neg show "\<exists>i' u w'. getSyscallInfo e t (i, w) = (Ret (Some ()), (i', w')) \<and> exitInfo i' = Some u \<and>
       exit_retVal e u = (if er then None else Some (sint r)) \<and>
       (er \<and> - (2 ^ 31) < sint r \<and> sint r \<le> 0 \<longrightarrow> exit_errVal e u = Some (- sint r)) \<and> (\<not> er \<longrightarrow> exit_errVal e u = None) \<and>
       entryInfo i' = None \<and> seccompInfo i' = None \<and> \<not> isX32 e i'"
    by (simp add: entryInfo_def exitInfo_def seccompInfo_def isEntry_def isExit_def isSeccomp_def sc_type_def
        isX32_def exit_retVal_def exit_errVal_def exit_fields)
qed

theorem syscall_info_is_read_witness:
  "\<exists>i' u w'. getSyscallInfo LITTLE (Tracee_create 42) (\<lparr>sc_op = 0, sc_arch = 0, sc_ip = 0, sc_sp = 0, sc_union = replicate 64 NUL\<rparr>,
      (world_of [])\<lparr>answers := [\<lparr>rv = 33, err = None, out = SyscallInfo_bytes LITTLE \<lparr>sc_op = 2, sc_arch = 0, sc_ip = 0, sc_sp = 0,
        sc_union = exit_union LITTLE (- 2) True\<rparr>, outs = []\<rparr>]\<rparr>) = (Ret (Some ()), (i', w')) \<and>
     exitInfo i' = Some u \<and> exit_errVal LITTLE u = Some 2"
  using syscall_info_is_read[where i = "\<lparr>sc_op = 0, sc_arch = 0, sc_ip = 0, sc_sp = 0, sc_union = replicate 64 NUL\<rparr>"
      and xs = "replicate 6 0" and w = "(world_of [])\<lparr>answers := [\<lparr>rv = 33, err = None,
        out = SyscallInfo_bytes LITTLE \<lparr>sc_op = 2, sc_arch = 0, sc_ip = 0, sc_sp = 0, sc_union = exit_union LITTLE (- 2) True\<rparr>, outs = []\<rparr>]\<rparr>"
      and n = 33 and j = "\<lparr>sc_op = 2, sc_arch = 0, sc_ip = 0, sc_sp = 0, sc_union = []\<rparr>" and e = LITTLE and r = "- 2" and er = True
      and t = "Tracee_create 42" and as = "[]"]
  by fastforce

text \<open>
  Reading a seccomp program.  When the vector is empty it is made as large as the kernel says
  the program is; the program is then stored, but as many instructions as there is room for
  count as an inconsistency, so that this way of calling always throws, as does a vector of
  the right size.  Only a vector that is larger than the program gets it, followed by what
  the vector held before.
\<close>

theorem seccomp_filter_needs_spare_room:
  assumes "k = int (length prog)" "answers w = (if v = [] then [ok k, g] else [g])"
    and "g = \<lparr>rv = k, err = None, out = [], outs = prog\<rparr>"
  shows "(v = [] \<or> length v = length prog \<longrightarrow> (\<exists>w'. getSeccompFilter t idx (v, w) =
      (Throw (RuntimeError ''seccomp filter array size inconsistency''), (prog, w')))) \<and>
    (length prog < length v \<longrightarrow> (\<exists>w'. getSeccompFilter t idx (v, w) =
      (Ret (Some ()), (prog @ drop (length prog) v, w')))) \<and>
    (v \<noteq> [] \<and> length v < length prog \<longrightarrow> (\<exists>w'. getSeccompFilter t idx (v, w) = (Ret None, (v, w'))))"
  using assms
  by (auto simp: getSeccompFilter_def request_def ptrace_trace_def is_peek_def deref_def resize_vector_def act_defs kernel_defs)

theorem seccomp_filter_needs_spare_room_witness:
  "\<exists>w'. getSeccompFilter (Tracee_create 42) 0 ([], world_of [ok 2, \<lparr>rv = 2, err = None, out = [], outs = [32, 6]\<rparr>]) =
      (Throw (RuntimeError ''seccomp filter array size inconsistency''), ([32, 6], w'))"
  using seccomp_filter_needs_spare_room[of 2 "[32, 6]" "world_of [ok 2, \<lparr>rv = 2, err = None, out = [], outs = [32, 6]\<rparr>]" "[]"]
  by (simp add: world_of_def)

text \<open>
  Reading pending signals has no defined result: a request that succeeds has no value, and
  the number of entries is taken from it all the same.  A negative amount is refused
  before anything is asked.
\<close>

theorem peek_sig_info_is_undefined:
  assumes "answers w = a # as" "rv a \<noteq> -1"
  shows "(0 \<le> psi_nr s \<longrightarrow> fst (peekSigInfo infos t s w) = Ret None) \<and>
    (psi_nr s < 0 \<longrightarrow> peekSigInfo infos t s w = (Throw (StdLengthError ''vector::_M_default_append''), w))"
  using assms
  by (simp add: peekSigInfo_def request_def ptrace_trace_def is_peek_def deref_def resize_vector_def act_defs kernel_defs)

text \<open>
  A stop signal and an event are told apart again after the kernel has put them into one
  number; a plain signal is refused.  The marker of a system call stop counts as an
  event stop with event zero, which is no event.
\<close>

theorem events_are_decoded:
  assumes "0 \<le> sig" "sig < 256" "0 < ev"
  shows "decode_event (push_bit 8 ev OR sig) = Inr (sig, ev) \<and>
    (s \<le> 65 \<longrightarrow> decode_event s = Inl (UsageError ''this is not a ptrace-event-stop signal'')) \<and>
    decode_event (SignalNr_value SIG_SYS_TRAP) = Inr (SignalNr_value SIG_SYS_TRAP, 0)"
proof -
  have sig: "take_bit 8 sig = sig" using assms by (simp add: take_bit_int_eq_self)
  then have low: "(push_bit 8 ev OR sig) AND 0xff = sig" "drop_bit 8 (push_bit 8 ev OR sig) = ev"
  proof -
    have "(push_bit 8 ev OR sig) AND 0xff = take_bit 8 (push_bit 8 ev OR sig)"
      by (simp add: take_bit_eq_mask mask_eq_exp_minus_1)
    then show "(push_bit 8 ev OR sig) AND 0xff = sig" by (simp add: sig take_bit_push_bit)
    have "drop_bit 8 sig = 0" using assms by (simp add: drop_bit_eq_div)
    then show "drop_bit 8 (push_bit 8 ev OR sig) = ev" by (simp add: drop_bit_push_bit_int)
  qed
  have "(push_bit 8 ev OR sig) div 256 = ev" using low(2) by (simp add: drop_bit_eq_div)
  then have "65 < push_bit 8 ev OR sig" using assms(3) by linarith
  then show ?thesis using low by (simp add: decode_event_def Signal_isPtraceEventStop_def)
qed

theorem events_are_decoded_witness:
  "decode_event 0x405 = Inr (5, TraceEvent_value EVENT_EXEC)"
  using events_are_decoded[of 5 "TraceEvent_value EVENT_EXEC" 5] by simp

end
