(* ===== verification/Limits.thy ===== *)
theory Limits
  imports ProcTypes TimeTypes Kernel
begin

text \<open>
  Limits and usage of resources: \<^verbatim>\<open>include/proc/limits.hxx\<close> with \<^verbatim>\<open>src/proc/limits.cxx\<close>, the
  class \<^verbatim>\<open>LimitSettings\<close>, and \<^verbatim>\<open>ResourceUsage\<close>.  A structure the kernel stores is the list of
  its fields in the answer.
\<close>

subsection \<open>Limits\<close>

datatype (plugins only: lifting) LimitType = LIMIT_ADDRESS_SPACE | LIMIT_CORE | LIMIT_CPU |
    LIMIT_DATA | LIMIT_FILE_SIZE | LIMIT_LOCKS | LIMIT_MEMLOCK | LIMIT_MSGQUEUE | LIMIT_NICE |
    LIMIT_NUM_FILES | LIMIT_NUM_PROCS | LIMIT_RESIDENT_SET | LIMIT_RT_PRIO | LIMIT_RT_TIME |
    LIMIT_SIGPENDING | LIMIT_STACK

primrec LimitType_value :: "LimitType \<Rightarrow> int" where
  "LimitType_value LIMIT_ADDRESS_SPACE = 9"
| "LimitType_value LIMIT_CORE = 4"
| "LimitType_value LIMIT_CPU = 0"
| "LimitType_value LIMIT_DATA = 2"
| "LimitType_value LIMIT_FILE_SIZE = 1"
| "LimitType_value LIMIT_LOCKS = 0xa"
| "LimitType_value LIMIT_MEMLOCK = 8"
| "LimitType_value LIMIT_MSGQUEUE = 0xc"
| "LimitType_value LIMIT_NICE = 0xd"
| "LimitType_value LIMIT_NUM_FILES = 7"
| "LimitType_value LIMIT_NUM_PROCS = 6"
| "LimitType_value LIMIT_RESIDENT_SET = 5"
| "LimitType_value LIMIT_RT_PRIO = 0xe"
| "LimitType_value LIMIT_RT_TIME = 0xf"
| "LimitType_value LIMIT_SIGPENDING = 0xb"
| "LimitType_value LIMIT_STACK = 3"

record LimitSpec =
  rlim_cur :: "64 word"
  rlim_max :: "64 word"

definition LIMIT_INFINITY :: "64 word" where "LIMIT_INFINITY = - 1"

definition getSoftLimit :: "LimitSpec \<Rightarrow> 64 word" where
  "getSoftLimit s = rlim_cur s"

definition getHardLimit :: "LimitSpec \<Rightarrow> 64 word" where
  "getHardLimit s = rlim_max s"

definition getLimits :: "LimitSpec \<Rightarrow> 64 word \<times> 64 word" where
  "getLimits s = (getSoftLimit s, getHardLimit s)"

definition setSoftLimit :: "64 word \<Rightarrow> LimitSpec \<Rightarrow> LimitSpec" where
  "setSoftLimit limit s = s\<lparr>rlim_cur := limit\<rparr>"

definition setHardLimit :: "64 word \<Rightarrow> LimitSpec \<Rightarrow> LimitSpec" where
  "setHardLimit limit s = s\<lparr>rlim_max := limit\<rparr>"

definition setLimits :: "64 word \<Rightarrow> 64 word \<Rightarrow> LimitSpec \<Rightarrow> LimitSpec" where
  "setLimits soft hard s = setHardLimit hard (setSoftLimit soft s)"

definition spec_arg :: "LimitSpec \<Rightarrow> arg" where
  "spec_arg s = L [I (uint (rlim_cur s)), I (uint (rlim_max s))]"

definition spec_out :: "answer \<Rightarrow> LimitSpec" where
  "spec_out a = (case outs a of [c, m] \<Rightarrow> \<lparr>rlim_cur = of_int c, rlim_max = of_int m\<rparr> | _ \<Rightarrow> \<lparr>rlim_cur = 0, rlim_max = 0\<rparr>)"

definition get_limit :: "LimitType \<Rightarrow> ProcessID \<Rightarrow> (world, LimitSpec) act" where
  "get_limit type pid = bind (call ''prlimit'' [I pid, I (LimitType_value type), I 0]) (\<lambda>a.
     if rv a = 0 then ret (spec_out a) else throw_ApiError ''prlimit()'')"

definition set_limit :: "LimitType \<Rightarrow> LimitSpec \<Rightarrow> ProcessID \<Rightarrow> (world, LimitSpec) act" where
  "set_limit type spec pid = bind (call ''prlimit'' [I pid, I (LimitType_value type), spec_arg spec]) (\<lambda>a.
     if rv a = 0 then ret (spec_out a) else throw_ApiError ''prlimit()'')"

subsection \<open>LimitSettings\<close>

record LimitSettings =
  ls_pid :: ProcessID

definition LimitSettings_create :: "ProcessID \<Rightarrow> LimitSettings" where
  "LimitSettings_create pid = \<lparr>ls_pid = pid\<rparr>"

definition LimitSettings_default :: LimitSettings where
  "LimitSettings_default = LimitSettings_create (ProcessID_of PID_SELF)"

definition ls_get :: "LimitSettings \<Rightarrow> LimitType \<Rightarrow> (world, LimitSpec) act" where
  "ls_get s limit = get_limit limit (ls_pid s)"

definition ls_set :: "LimitSettings \<Rightarrow> LimitType \<Rightarrow> LimitSpec \<Rightarrow> (world, LimitSpec) act" where
  "ls_set s limit spec = set_limit limit spec (ls_pid s)"

definition getAddressSpaceLimit :: "LimitSettings \<Rightarrow> (world, LimitSpec) act" where
  "getAddressSpaceLimit s = ls_get s LIMIT_ADDRESS_SPACE"

definition setAddressSpaceLimit :: "LimitSettings \<Rightarrow> LimitSpec \<Rightarrow> (world, LimitSpec) act" where
  "setAddressSpaceLimit s spec = ls_set s LIMIT_ADDRESS_SPACE spec"

definition getDataLimit :: "LimitSettings \<Rightarrow> (world, LimitSpec) act" where
  "getDataLimit s = ls_get s LIMIT_DATA"

definition setDataLimit :: "LimitSettings \<Rightarrow> LimitSpec \<Rightarrow> (world, LimitSpec) act" where
  "setDataLimit s spec = ls_set s LIMIT_DATA spec"

definition getCoreDumpLimit :: "LimitSettings \<Rightarrow> (world, LimitSpec) act" where
  "getCoreDumpLimit s = ls_get s LIMIT_CORE"

definition setCoreDumpLimit :: "LimitSettings \<Rightarrow> LimitSpec \<Rightarrow> (world, LimitSpec) act" where
  "setCoreDumpLimit s spec = ls_set s LIMIT_CORE spec"

definition getCpuTimeLimit :: "LimitSettings \<Rightarrow> (world, LimitSpec) act" where
  "getCpuTimeLimit s = ls_get s LIMIT_CPU"

definition setCpuTimeLimit :: "LimitSettings \<Rightarrow> LimitSpec \<Rightarrow> (world, LimitSpec) act" where
  "setCpuTimeLimit s spec = ls_set s LIMIT_CPU spec"

definition getFileSizeLimit :: "LimitSettings \<Rightarrow> (world, LimitSpec) act" where
  "getFileSizeLimit s = ls_get s LIMIT_FILE_SIZE"

definition setFileSizeLimit :: "LimitSettings \<Rightarrow> LimitSpec \<Rightarrow> (world, LimitSpec) act" where
  "setFileSizeLimit s spec = ls_set s LIMIT_FILE_SIZE spec"

definition getLocksLimit :: "LimitSettings \<Rightarrow> (world, LimitSpec) act" where
  "getLocksLimit s = ls_get s LIMIT_LOCKS"

definition setLocksLimit :: "LimitSettings \<Rightarrow> LimitSpec \<Rightarrow> (world, LimitSpec) act" where
  "setLocksLimit s spec = ls_set s LIMIT_LOCKS spec"

definition getMemLockLimit :: "LimitSettings \<Rightarrow> (world, LimitSpec) act" where
  "getMemLockLimit s = ls_get s LIMIT_LOCKS"

definition setMemLockLimit :: "LimitSettings \<Rightarrow> LimitSpec \<Rightarrow> (world, LimitSpec) act" where
  "setMemLockLimit s spec = ls_set s LIMIT_LOCKS spec"

definition getMsgQueueLimit :: "LimitSettings \<Rightarrow> (world, LimitSpec) act" where
  "getMsgQueueLimit s = ls_get s LIMIT_MSGQUEUE"

definition setMsgQueueLimit :: "LimitSettings \<Rightarrow> LimitSpec \<Rightarrow> (world, LimitSpec) act" where
  "setMsgQueueLimit s spec = ls_set s LIMIT_MSGQUEUE spec"

definition getNiceLimit :: "LimitSettings \<Rightarrow> (world, LimitSpec) act" where
  "getNiceLimit s = ls_get s LIMIT_NICE"

definition setNiceLimit :: "LimitSettings \<Rightarrow> LimitSpec \<Rightarrow> (world, LimitSpec) act" where
  "setNiceLimit s spec = ls_set s LIMIT_NICE spec"

definition getFileLimit :: "LimitSettings \<Rightarrow> (world, LimitSpec) act" where
  "getFileLimit s = ls_get s LIMIT_NUM_FILES"

definition setFileLimit :: "LimitSettings \<Rightarrow> LimitSpec \<Rightarrow> (world, LimitSpec) act" where
  "setFileLimit s spec = ls_set s LIMIT_NUM_FILES spec"

definition getProcLimit :: "LimitSettings \<Rightarrow> (world, LimitSpec) act" where
  "getProcLimit s = ls_get s LIMIT_NUM_PROCS"

definition setProcLimit :: "LimitSettings \<Rightarrow> LimitSpec \<Rightarrow> (world, LimitSpec) act" where
  "setProcLimit s spec = ls_set s LIMIT_NUM_PROCS spec"

definition getRealtimePrioLimit :: "LimitSettings \<Rightarrow> (world, LimitSpec) act" where
  "getRealtimePrioLimit s = ls_get s LIMIT_RT_PRIO"

definition setRealtimePrioLimit :: "LimitSettings \<Rightarrow> LimitSpec \<Rightarrow> (world, LimitSpec) act" where
  "setRealtimePrioLimit s spec = ls_set s LIMIT_RT_PRIO spec"

definition getRealtimeTimeLimit :: "LimitSettings \<Rightarrow> (world, LimitSpec) act" where
  "getRealtimeTimeLimit s = ls_get s LIMIT_RT_TIME"

definition setRealtimeTimeLimit :: "LimitSettings \<Rightarrow> LimitSpec \<Rightarrow> (world, LimitSpec) act" where
  "setRealtimeTimeLimit s spec = ls_set s LIMIT_RT_TIME spec"

definition getSigPendingLimit :: "LimitSettings \<Rightarrow> (world, LimitSpec) act" where
  "getSigPendingLimit s = ls_get s LIMIT_SIGPENDING"

definition setSigPendingLimit :: "LimitSettings \<Rightarrow> LimitSpec \<Rightarrow> (world, LimitSpec) act" where
  "setSigPendingLimit s spec = ls_set s LIMIT_SIGPENDING spec"

definition getStackLimit :: "LimitSettings \<Rightarrow> (world, LimitSpec) act" where
  "getStackLimit s = ls_get s LIMIT_STACK"

definition setStackLimit :: "LimitSettings \<Rightarrow> LimitSpec \<Rightarrow> (world, LimitSpec) act" where
  "setStackLimit s spec = ls_set s LIMIT_STACK spec"

definition setDisableCoreDumps :: "LimitSettings \<Rightarrow> (world, unit) act" where
  "setDisableCoreDumps s = bind (ls_set s LIMIT_CORE \<lparr>rlim_cur = 0, rlim_max = 0\<rparr>) (\<lambda>_. ret ())"

subsection \<open>ResourceUsage\<close>

datatype UsageWho = USAGE_SELF | USAGE_CHILDREN | USAGE_THREAD

primrec UsageWho_value :: "UsageWho \<Rightarrow> int" where
  "UsageWho_value USAGE_SELF = 0"
| "UsageWho_value USAGE_CHILDREN = -1"
| "UsageWho_value USAGE_THREAD = 1"

record ResourceUsage =
  ru_utime :: TimeVal
  ru_stime :: TimeVal
  ru_maxrss :: int
  ru_minflt :: int
  ru_majflt :: int
  ru_inblock :: int
  ru_oublock :: int
  ru_nvcsw :: int
  ru_nivcsw :: int

definition ResourceUsage_clear :: ResourceUsage where
  "ResourceUsage_clear = \<lparr>ru_utime = TimeVal 0 0, ru_stime = TimeVal 0 0, ru_maxrss = 0, ru_minflt = 0,
     ru_majflt = 0, ru_inblock = 0, ru_oublock = 0, ru_nvcsw = 0, ru_nivcsw = 0\<rparr>"

text \<open>The structure of the kernel has 18 fields, of which the class shows these.\<close>

definition usage_out :: "ResourceUsage \<Rightarrow> answer \<Rightarrow> ResourceUsage" where
  "usage_out u a = (if length (outs a) = 18 then let f = (\<lambda>k. outs a ! k) in
     \<lparr>ru_utime = TimeVal (f 0) (f 1), ru_stime = TimeVal (f 2) (f 3), ru_maxrss = f 4, ru_minflt = f 8,
      ru_majflt = f 9, ru_inblock = f 11, ru_oublock = f 12, ru_nvcsw = f 16, ru_nivcsw = f 17\<rparr>
   else u)"

definition ResourceUsage_fetch :: "UsageWho \<Rightarrow> (ResourceUsage \<times> world, unit) act" where
  "ResourceUsage_fetch who = bind (on_world (call ''getrusage'' [I (UsageWho_value who)])) (\<lambda>a.
     if rv a \<noteq> 0 then on_world (throw_ApiError ''getrusage()'') else set_this (\<lambda>u. usage_out u a))"

text \<open>A constructor that throws leaves no object.  Before fetching the fields are not initialized.\<close>

definition ResourceUsage_of :: "ResourceUsage \<Rightarrow> UsageWho \<Rightarrow> (world, ResourceUsage) act" where
  "ResourceUsage_of uninit who = bind (with_local uninit (ResourceUsage_fetch who)) (\<lambda>(_, u). ret u)"

definition userTime :: "ResourceUsage \<Rightarrow> TimeVal" where
  "userTime u = TimeVal (tvv_sec (ru_utime u)) (tvv_usec (ru_utime u))"

definition systemTime :: "ResourceUsage \<Rightarrow> TimeVal" where
  "systemTime u = TimeVal (tvv_sec (ru_stime u)) (tvv_usec (ru_stime u))"

definition maxRss :: "ResourceUsage \<Rightarrow> int" where
  "maxRss u = ru_maxrss u"

definition minorFault :: "ResourceUsage \<Rightarrow> int" where
  "minorFault u = ru_minflt u"

definition majorFault :: "ResourceUsage \<Rightarrow> int" where
  "majorFault u = ru_majflt u"

definition fsInputCount :: "ResourceUsage \<Rightarrow> int" where
  "fsInputCount u = ru_inblock u"

definition fsOutputCount :: "ResourceUsage \<Rightarrow> int" where
  "fsOutputCount u = ru_oublock u"

definition numVoluntaryCtxSwitches :: "ResourceUsage \<Rightarrow> int" where
  "numVoluntaryCtxSwitches u = ru_nvcsw u"

definition numInvoluntaryCtxSwitches :: "ResourceUsage \<Rightarrow> int" where
  "numInvoluntaryCtxSwitches u = ru_nivcsw u"

subsection \<open>Properties\<close>

text \<open>The setters and getters with the resources they are documented for.\<close>

definition limit_operations :: "(LimitType \<times> (LimitSettings \<Rightarrow> LimitSpec \<Rightarrow> (world, LimitSpec) act) \<times>
    (LimitSettings \<Rightarrow> (world, LimitSpec) act)) list" where
  "limit_operations = [(LIMIT_ADDRESS_SPACE, setAddressSpaceLimit, getAddressSpaceLimit),
     (LIMIT_DATA, setDataLimit, getDataLimit),
     (LIMIT_CORE, setCoreDumpLimit, getCoreDumpLimit),
     (LIMIT_CPU, setCpuTimeLimit, getCpuTimeLimit),
     (LIMIT_FILE_SIZE, setFileSizeLimit, getFileSizeLimit),
     (LIMIT_LOCKS, setLocksLimit, getLocksLimit),
     (LIMIT_MEMLOCK, setMemLockLimit, getMemLockLimit),
     (LIMIT_MSGQUEUE, setMsgQueueLimit, getMsgQueueLimit),
     (LIMIT_NICE, setNiceLimit, getNiceLimit),
     (LIMIT_NUM_FILES, setFileLimit, getFileLimit),
     (LIMIT_NUM_PROCS, setProcLimit, getProcLimit),
     (LIMIT_RT_PRIO, setRealtimePrioLimit, getRealtimePrioLimit),
     (LIMIT_RT_TIME, setRealtimeTimeLimit, getRealtimeTimeLimit),
     (LIMIT_SIGPENDING, setSigPendingLimit, getSigPendingLimit),
     (LIMIT_STACK, setStackLimit, getStackLimit)]"

lemmas limit_op_defs = setAddressSpaceLimit_def getAddressSpaceLimit_def
  setDataLimit_def getDataLimit_def
  setCoreDumpLimit_def getCoreDumpLimit_def
  setCpuTimeLimit_def getCpuTimeLimit_def
  setFileSizeLimit_def getFileSizeLimit_def
  setLocksLimit_def getLocksLimit_def
  setMemLockLimit_def getMemLockLimit_def
  setMsgQueueLimit_def getMsgQueueLimit_def
  setNiceLimit_def getNiceLimit_def
  setFileLimit_def getFileLimit_def
  setProcLimit_def getProcLimit_def
  setRealtimePrioLimit_def getRealtimePrioLimit_def
  setRealtimeTimeLimit_def getRealtimeTimeLimit_def
  setSigPendingLimit_def getSigPendingLimit_def
  setStackLimit_def getStackLimit_def

text \<open>
  A kernel that keeps one limit for every resource: a request for a resource answers with the
  limit in effect and stores the new one when there is one.
\<close>

definition limit_answer :: "LimitSpec \<Rightarrow> answer" where
  "limit_answer s = \<lparr>rv = 0, err = None, out = [], outs = [uint (rlim_cur s), uint (rlim_max s)]\<rparr>"

fun new_limits :: "(int \<Rightarrow> LimitSpec) \<Rightarrow> syscall \<Rightarrow> int \<Rightarrow> LimitSpec" where
  "new_limits limits (Call f args) = (case args of
      [I pid, I type, L [I c, I m]] \<Rightarrow> limits(type := \<lparr>rlim_cur = of_int c, rlim_max = of_int m\<rparr>)
    | _ \<Rightarrow> limits)"

text \<open>Running an operation against such a kernel.\<close>

definition with_limits :: "(world, LimitSpec) act \<Rightarrow> LimitType \<Rightarrow> (int \<Rightarrow> LimitSpec) \<Rightarrow> LimitSpec outcome \<times> (int \<Rightarrow> LimitSpec)" where
  "with_limits op type limits = (case op (world_of [limit_answer (limits (LimitType_value type))]) of
     (r, w) \<Rightarrow> (r, foldl (\<lambda>l (c, _). new_limits l c) limits (trace w)))"

lemma spec_out_answer [simp]: "spec_out (limit_answer s) = s"
  by (simp add: spec_out_def limit_answer_def)

lemma set_limit_with:
  "with_limits (ls_set s type spec) type' limits =
     (Ret (limits (LimitType_value type')), limits(LimitType_value type := spec))"
  by (cases spec) (simp add: with_limits_def ls_set_def set_limit_def world_of_def act_defs kernel_defs spec_arg_def limit_answer_def[of "limits _"] spec_out_def)

lemma get_limit_with:
  "with_limits (ls_get s type) type' limits = (Ret (limits (LimitType_value type')), limits)"
  by (simp add: with_limits_def ls_get_def get_limit_def world_of_def act_defs kernel_defs limit_answer_def[of "limits _"] spec_out_def)

text \<open>
  Each operation of \<^verbatim>\<open>LimitSettings\<close> but those for locked memory works on the resource it is
  named after: the setter stores the new limit for it, changes no other and returns the
  limit that was in effect, and the getter returns the limit and changes nothing.  The
  operations for locked memory change and read the limit of file locks instead.
\<close>

theorem limit_settings_touch_their_resource:
  "\<forall>(type, set, get) \<in> set limit_operations.
     (type \<noteq> LIMIT_MEMLOCK \<longrightarrow>
        with_limits (set s spec) type limits = (Ret (limits (LimitType_value type)), limits(LimitType_value type := spec)) \<and>
        with_limits (get s) type limits = (Ret (limits (LimitType_value type)), limits)) \<and>
     (type = LIMIT_MEMLOCK \<longrightarrow>
        snd (with_limits (set s spec) LIMIT_LOCKS limits) = limits(LimitType_value LIMIT_LOCKS := spec) \<and>
        with_limits (get s) LIMIT_LOCKS limits = (Ret (limits (LimitType_value LIMIT_LOCKS)), limits))"
  by (simp add: limit_operations_def limit_op_defs set_limit_with get_limit_with del: LimitType_value.simps)

theorem limit_settings_touch_their_resource_witness:
  "with_limits (setStackLimit LimitSettings_default \<lparr>rlim_cur = 8, rlim_max = 16\<rparr>) LIMIT_STACK (\<lambda>_. \<lparr>rlim_cur = 1, rlim_max = 2\<rparr>) =
     (Ret \<lparr>rlim_cur = 1, rlim_max = 2\<rparr>, (\<lambda>_. \<lparr>rlim_cur = 1, rlim_max = 2\<rparr>)(3 := \<lparr>rlim_cur = 8, rlim_max = 16\<rparr>))"
  using limit_settings_touch_their_resource[of LimitSettings_default "\<lparr>rlim_cur = 8, rlim_max = 16\<rparr>" "\<lambda>_. \<lparr>rlim_cur = 1, rlim_max = 2\<rparr>"]
  by (simp add: limit_operations_def)

end
