(* ===== verification/Threads.thy ===== *)
theory Threads
  imports ProcControl Utilities Files Signals TimeTypes Process
begin

text \<open>
  Threads and their synchronization: \<^verbatim>\<open>Mutex\<close>, \<^verbatim>\<open>RWLock\<close>, \<^verbatim>\<open>Condition\<close>, \<^verbatim>\<open>PosixThread\<close> and the
  functions of \<^verbatim>\<open>include/thread/\<close> and \<^verbatim>\<open>src/thread/\<close>.  The functions of the thread library are
  calls, which return their error; what they do to other threads is not modelled.  A
  mutex, a lock and a condition are their addresses.  \<open>debug\<close> tells whether the code was built
  with assertions.
\<close>

text \<open>An exception object that is constructed and not thrown.\<close>

definition dropped_error :: "('s, unit) act" where
  "dropped_error = ret ()"

definition assert_zero :: "bool \<Rightarrow> int \<Rightarrow> ('s, unit) act" where
  "assert_zero debug r = (if debug \<and> r \<noteq> 0 then abort terminated else ret ())"

text \<open>The pattern of the functions of the thread library: they return the error.\<close>

definition pthread_call :: "string \<Rightarrow> arg list \<Rightarrow> string \<Rightarrow> (world, unit) act" where
  "pthread_call f args label = bind (call f args) (\<lambda>a.
     if rv a \<noteq> errno_of Errno_NO_ERROR then throw (ApiError label (rv a)) else ret ())"

subsection \<open>Mutex\<close>

definition MutexAttr_getAttr :: "bool \<Rightarrow> bool \<Rightarrow> (world, bool) act" where
  "MutexAttr_getAttr debug lib_initialized =
     andthen (if \<not> lib_initialized then dropped_error else ret ()) (ret debug)"

definition MutexAttr_libInit :: "bool \<Rightarrow> (world, unit) act" where
  "MutexAttr_libInit debug = (if \<not> debug then ret ()
     else bind (call ''pthread_mutexattr_init'' []) (\<lambda>a.
       andthen (if rv a \<noteq> errno_of Errno_NO_ERROR then dropped_error else ret ())
         (pthread_call ''pthread_mutexattr_settype'' [I 2] ''pthread_mutexattr_settype()'')))"

definition MutexAttr_libExit :: "bool \<Rightarrow> (world, unit) act" where
  "MutexAttr_libExit debug = (if \<not> debug then ret ()
     else bind (call ''pthread_mutexattr_destroy'' []) (\<lambda>_. ret ()))"

definition Mutex_create :: "bool \<Rightarrow> bool \<Rightarrow> int \<Rightarrow> (world, unit) act" where
  "Mutex_create debug lib_initialized m = bind (MutexAttr_getAttr debug lib_initialized) (\<lambda>attr.
     pthread_call ''pthread_mutex_init'' [I m, I (if attr then 1 else 0)] ''pthread_mutex_init()'')"

definition Mutex_destroy :: "bool \<Rightarrow> int \<Rightarrow> (world, unit) act" where
  "Mutex_destroy debug m = bind (call ''pthread_mutex_destroy'' [I m]) (\<lambda>a. assert_zero debug (rv a))"

definition Mutex_lock :: "int \<Rightarrow> (world, unit) act" where
  "Mutex_lock m = pthread_call ''pthread_mutex_lock'' [I m] ''pthread_mutex_lock()''"

definition Mutex_unlock :: "int \<Rightarrow> (world, unit) act" where
  "Mutex_unlock m = pthread_call ''pthread_mutex_unlock'' [I m] ''pthread_mutex_unlock()''"

definition MutexGuard :: "int \<Rightarrow> (world, 'a) act \<Rightarrow> (world, 'a) act" where
  "MutexGuard m body = guarded (Mutex_lock m) (Mutex_unlock m) body"

definition MutexReverseGuard :: "int \<Rightarrow> (world, 'a) act \<Rightarrow> (world, 'a) act" where
  "MutexReverseGuard m body = guarded (Mutex_unlock m) (Mutex_lock m) body"

subsection \<open>RWLock\<close>

text \<open>The errors of this class are made from \<^verbatim>\<open>errno\<close>, which these functions do not set.\<close>

definition RWLock_create :: "int \<Rightarrow> (world, unit) act" where
  "RWLock_create l = call_or_throw (\<lambda>r. r = 0) ''pthread_rwlock_init'' [I l, I 0] (throw_ApiError ''pthread_rwlock_init()'')"

definition RWLock_destroy :: "bool \<Rightarrow> int \<Rightarrow> (world, unit) act" where
  "RWLock_destroy debug l = bind (call ''pthread_rwlock_destroy'' [I l]) (\<lambda>a. assert_zero debug (rv a))"

definition RWLock_readlock :: "int \<Rightarrow> (world, unit) act" where
  "RWLock_readlock l = call_or_throw (\<lambda>r. r = 0) ''pthread_rwlock_rdlock'' [I l] (throw_ApiError ''pthread_rwlock_rdlock()'')"

definition RWLock_writelock :: "int \<Rightarrow> (world, unit) act" where
  "RWLock_writelock l = call_or_throw (\<lambda>r. r = 0) ''pthread_rwlock_wrlock'' [I l] (throw_ApiError ''pthread_rwlock_wrlock()'')"

definition RWLock_unlock :: "int \<Rightarrow> (world, unit) act" where
  "RWLock_unlock l = call_or_throw (\<lambda>r. r = 0) ''pthread_rwlock_unlock'' [I l] (throw_ApiError ''pthread_rwlock_unlock()'')"

definition ReadLockGuard :: "int \<Rightarrow> (world, 'a) act \<Rightarrow> (world, 'a) act" where
  "ReadLockGuard l body = guarded (RWLock_readlock l) (RWLock_unlock l) body"

definition WriteLockGuard :: "int \<Rightarrow> (world, 'a) act \<Rightarrow> (world, 'a) act" where
  "WriteLockGuard l body = guarded (RWLock_writelock l) (RWLock_unlock l) body"

subsection \<open>Condition\<close>

record Condition =
  m_pcond :: int
  m_lock :: int

definition condition_step :: "string \<Rightarrow> arg list \<Rightarrow> (world, unit) act" where
  "condition_step f args = bind (call f args) (\<lambda>a.
     if rv a \<noteq> errno_of Errno_NO_ERROR then dropped_error else ret ())"

definition Condition_create :: "int \<Rightarrow> int \<Rightarrow> (world, Condition) act" where
  "Condition_create c lock = andthen (condition_step ''pthread_condattr_init'' [])
     (catch (andthen (condition_step ''pthread_condattr_setclock'' [I (ClockType_value MONOTONIC)])
         (andthen (condition_step ''pthread_cond_init'' [I c]) (ret \<lparr>m_pcond = c, m_lock = lock\<rparr>)))
       (\<lambda>ex. bind (call ''pthread_condattr_destroy'' []) (\<lambda>_. throw ex)))"

definition Condition_destroy :: "bool \<Rightarrow> Condition \<Rightarrow> (world, unit) act" where
  "Condition_destroy debug c = bind (call ''pthread_cond_destroy'' [I (m_pcond c)]) (\<lambda>a. assert_zero debug (rv a))"

definition Condition_wait :: "Condition \<Rightarrow> (world, unit) act" where
  "Condition_wait c = pthread_call ''pthread_cond_wait'' [I (m_pcond c), I (m_lock c)] ''pthread_cond_wait()''"

datatype WaitTimedRes = WAIT_TIMED_OUT | WAIT_SIGNALED

definition Condition_waitTimed :: "Condition \<Rightarrow> TimeSpec \<Rightarrow> (world, WaitTimedRes) act" where
  "Condition_waitTimed c ts = bind (call ''pthread_cond_timedwait'' [I (m_pcond c), I (m_lock c), L [I (tv_sec ts), I (tv_nsec ts)]]) (\<lambda>a.
     if rv a = errno_of Errno_NO_ERROR then ret WAIT_SIGNALED
     else if rv a = errno_of Errno_TIMEDOUT then ret WAIT_TIMED_OUT
     else throw (ApiError ''pthread_cond_timedwait()'' (rv a)))"

definition Condition_signal :: "Condition \<Rightarrow> (world, unit) act" where
  "Condition_signal c = pthread_call ''pthread_cond_signal'' [I (m_pcond c)] ''pthread_cond_signal()''"

definition Condition_broadcast :: "Condition \<Rightarrow> (world, unit) act" where
  "Condition_broadcast c = pthread_call ''pthread_cond_broadcast'' [I (m_pcond c)] ''pthread_cond_broadcast()''"

definition Condition_mutex :: "Condition \<Rightarrow> int" where
  "Condition_mutex c = m_lock c"

definition ConditionMutex_create :: "bool \<Rightarrow> bool \<Rightarrow> int \<Rightarrow> int \<Rightarrow> (world, Condition) act" where
  "ConditionMutex_create debug lib_initialized m c =
     andthen (Mutex_create debug lib_initialized m) (Condition_create c m)"

subsection \<open>Threads of the kernel and thread numbers\<close>

definition get_tid :: "(world, int) act" where
  "get_tid = bind (call ''gettid'' []) (\<lambda>a. ret (rv a))"

definition is_main_thread :: "(world, bool) act" where
  "is_main_thread = bind get_tid (\<lambda>tid. bind get_own_pid (\<lambda>pid. ret (tid = pid)))"

definition thread_get_name :: "(world, string) act" where
  "thread_get_name = get_thread_name"

definition thread_set_name :: "string \<Rightarrow> (world, unit) act" where
  "thread_set_name name = set_thread_name name"

type_synonym pthread_id = int

definition pthread_id_eq :: "pthread_id \<Rightarrow> pthread_id \<Rightarrow> (world, bool) act" where
  "pthread_id_eq a b = bind (call ''pthread_equal'' [I a, I b]) (\<lambda>r. ret (rv r \<noteq> 0))"

definition pthread_id_less :: "pthread_id \<Rightarrow> pthread_id \<Rightarrow> bool" where
  "pthread_id_less a b \<longleftrightarrow> a < b"

definition pthread_get_id :: "(world, pthread_id) act" where
  "pthread_get_id = bind (call ''pthread_self'' []) (\<lambda>a. ret (rv a))"

text \<open>A call that ends the thread; when it returns the process is ended.\<close>

definition pthread_exit :: "int \<Rightarrow> (world, unit) act" where
  "pthread_exit val = bind (call ''pthread_exit'' [I val]) (\<lambda>_. abort terminated)"

definition pthread_kill :: "pthread_id \<Rightarrow> Signal \<Rightarrow> (world, unit) act" where
  "pthread_kill thread sig = pthread_call ''pthread_kill'' [I thread, I sig] ''pthread_kill()''"

subsection \<open>PosixThread\<close>

text \<open>
  The entry of a thread: a function of an argument that returns a value, or one without
  either.  The name is what fits into an array of 16 bytes.
\<close>

datatype ThreadEntry = PosixEntry "int \<Rightarrow> (world, int) act" | Entry "(world, unit) act"

record Context =
  ctx_entry :: ThreadEntry
  ctx_arg :: int
  ctx_name :: string

definition Context_create :: "ThreadEntry \<Rightarrow> int \<Rightarrow> Context" where
  "Context_create entry arg = \<lparr>ctx_entry = entry, ctx_arg = arg, ctx_name = []\<rparr>"

text \<open>What the new thread runs.  An exception that leaves it ends the process.\<close>

definition thread_entry :: "Context \<Rightarrow> (world, int) act" where
  "thread_entry ctx = catch
     (andthen (whenA (c_str (ctx_name ctx) \<noteq> []) (thread_set_name (c_str (ctx_name ctx))))
       (case ctx_entry ctx of
          PosixEntry entry \<Rightarrow> entry (ctx_arg ctx)
        | Entry entry \<Rightarrow> andthen entry (ret 0)))
     (\<lambda>_. abort terminated)"

text \<open>
  Creating a thread.  The call carries the name of the context; the entry is an opaque
  pointer to it.  A string view is \<open>None\<close> when it has no data.
\<close>

definition context_with_name :: "Context \<Rightarrow> string option \<Rightarrow> Context" where
  "context_with_name ctx name = (case name of None \<Rightarrow> ctx
     | Some n \<Rightarrow> ctx\<lparr>ctx_name := take (min 15 (length n)) n\<rparr>)"

definition create_thread :: "Context \<Rightarrow> string option \<Rightarrow> (pthread_id \<times> world, unit) act" where
  "create_thread ctx name = (let ctx = context_with_name ctx name in
     bind (on_world (call ''pthread_create'' [S (ctx_name ctx), I (ctx_arg ctx)])) (\<lambda>a.
       andthen (set_this (\<lambda>t. case outs a of n # _ \<Rightarrow> n | [] \<Rightarrow> t))
         (if rv a \<noteq> errno_of Errno_NO_ERROR then throw (ApiError ''pthread_create()'' (rv a)) else ret ())))"

record PosixThread =
  m_pthread :: "pthread_id option"
  pt_name :: string

definition PosixThread_default :: PosixThread where
  "PosixThread_default = \<lparr>m_pthread = None, pt_name = []\<rparr>"

definition buildName :: "string \<Rightarrow> 64 word \<Rightarrow> string" where
  "buildName name nr = (if name \<noteq> [] then name else ''thread<'' @ decimal (uint nr) @ ''>'')"

text \<open>
  The global counter of threads stands between the objects and the world: an object is in a
  pair with the pair of the counter and the world.
\<close>

type_synonym counted = "64 word \<times> world"

abbreviation in_world :: "(world, 'a) act \<Rightarrow> ('o \<times> counted, 'a) act" where
  "in_world m \<equiv> on_world (on_world m)"

definition count_up :: "(counted, 64 word) act" where
  "count_up = andthen (set_this (\<lambda>n. n + 1)) (this (\<lambda>n. n))"

definition count_down :: "(counted, unit) act" where
  "count_down = set_this (\<lambda>n. n - 1)"

text \<open>Both constructors; the one for a plain entry passes zero as the argument.\<close>

definition PosixThread_construct :: "ThreadEntry \<Rightarrow> int \<Rightarrow> string option \<Rightarrow> (PosixThread \<times> counted, unit) act" where
  "PosixThread_construct entry arg name = bind (on_world count_up) (\<lambda>nr.
     andthen (set_this (\<lambda>t. t\<lparr>pt_name := buildName (case name of None \<Rightarrow> [] | Some s \<Rightarrow> s) nr, m_pthread := Some 0\<rparr>))
       (catch (bind (in_world (with_local 0 (create_thread (Context_create entry arg) name)))
            (\<lambda>(_, pid). set_this (\<lambda>t. t\<lparr>m_pthread := Some pid\<rparr>)))
          (\<lambda>_. set_this (\<lambda>t. t\<lparr>m_pthread := None\<rparr>))))"

definition PosixThread_create_arg :: "(int \<Rightarrow> (world, int) act) \<Rightarrow> int \<Rightarrow> string option \<Rightarrow> (counted, PosixThread) act" where
  "PosixThread_create_arg entry arg name = bind (with_local PosixThread_default (PosixThread_construct (PosixEntry entry) arg name)) (\<lambda>(_, t). ret t)"

definition PosixThread_create :: "(world, unit) act \<Rightarrow> string option \<Rightarrow> (counted, PosixThread) act" where
  "PosixThread_create entry name = bind (with_local PosixThread_default (PosixThread_construct (Entry entry) 0 name)) (\<lambda>(_, t). ret t)"

definition joinable :: "PosixThread \<Rightarrow> bool" where
  "joinable t \<longleftrightarrow> m_pthread t \<noteq> None"

text \<open>\<^verbatim>\<open>fatal_error()\<close> ends the process.\<close>

definition PosixThread_destroy :: "(PosixThread \<times> 'w, unit) act" where
  "PosixThread_destroy = bind (this joinable) (\<lambda>j. if j then abort terminated else ret ())"

text \<open>
  Moving yields the new value of the target and of the source; \<open>None\<close> stands for
  dereferencing the empty optional of a source without a thread.
\<close>

definition PosixThread_move_assign :: "PosixThread \<Rightarrow> PosixThread \<Rightarrow> ('w, (PosixThread \<times> PosixThread) option) act" where
  "PosixThread_move_assign target other = (if joinable target then abort terminated
     else case m_pthread other of
       None \<Rightarrow> ret None
     | Some pid \<Rightarrow> ret (Some (target\<lparr>pt_name := pt_name other, m_pthread := Some pid\<rparr>,
         other\<lparr>m_pthread := None, pt_name := []\<rparr>)))"

definition PosixThread_move :: "PosixThread \<Rightarrow> ('w, (PosixThread \<times> PosixThread) option) act" where
  "PosixThread_move other = PosixThread_move_assign PosixThread_default other"

text \<open>The identity of a thread; dereferencing the empty optional of an empty object is undefined.\<close>

definition PosixThread_id :: "PosixThread \<Rightarrow> pthread_id option" where
  "PosixThread_id t = m_pthread t"

definition isCallerThread :: "pthread_id \<Rightarrow> (world, bool) act" where
  "isCallerThread pid = bind pthread_get_id (\<lambda>self. pthread_id_eq pid self)"

definition PosixThread_kill :: "pthread_id \<Rightarrow> Signal \<Rightarrow> (world, unit) act" where
  "PosixThread_kill pid sig = pthread_kill pid sig"

text \<open>
  The checks before a join, with what follows them for the thread of the object.
\<close>

definition assertJoinConditions :: "(pthread_id \<Rightarrow> (PosixThread \<times> counted, 'a) act) \<Rightarrow> (PosixThread \<times> counted, 'a) act" where
  "assertJoinConditions go_on = bind (this m_pthread) (\<lambda>p. case p of
       None \<Rightarrow> throw (UsageError ''Attempted to join non-joinable thread (empty or detached)'')
     | Some pid \<Rightarrow> bind (in_world (isCallerThread pid)) (\<lambda>self.
         if self then throw (UsageError ''Attempted to join self'') else go_on pid))"

definition PosixThread_reset :: "(PosixThread \<times> counted, unit) act" where
  "PosixThread_reset = bind (this joinable) (\<lambda>j. whenA j
     (andthen (on_world count_down) (set_this (\<lambda>t. t\<lparr>m_pthread := None, pt_name := []\<rparr>))))"

text \<open>The exit value starts as zero.\<close>

definition exit_value :: "answer \<Rightarrow> int" where
  "exit_value a = (case outs a of [] \<Rightarrow> 0 | n # _ \<Rightarrow> n)"

definition PosixThread_join :: "(PosixThread \<times> counted, int) act" where
  "PosixThread_join = assertJoinConditions (\<lambda>pid.
     bind (in_world (call ''pthread_join'' [I pid])) (\<lambda>a.
       if rv a \<noteq> errno_of Errno_NO_ERROR then throw (ApiError ''pthread_join()'' (rv a))
       else andthen PosixThread_reset (ret (exit_value a))))"

definition PosixThread_tryJoin :: "(PosixThread \<times> counted, int option) act" where
  "PosixThread_tryJoin = assertJoinConditions (\<lambda>pid.
     bind (in_world (call ''pthread_tryjoin_np'' [I pid])) (\<lambda>a.
       if rv a \<noteq> errno_of Errno_NO_ERROR then
         (if rv a = errno_of Errno_BUSY then ret None else throw (ApiError ''pthread_tryjoin_np()'' (rv a)))
       else andthen PosixThread_reset (ret (Some (exit_value a)))))"

definition PosixThread_joinTimed :: "TimeSpec \<Rightarrow> (PosixThread \<times> counted, int option) act" where
  "PosixThread_joinTimed ts = assertJoinConditions (\<lambda>pid.
     bind (in_world (call ''pthread_timedjoin_np'' [I pid, L [I (tv_sec ts), I (tv_nsec ts)]])) (\<lambda>a.
       if rv a \<noteq> errno_of Errno_NO_ERROR then
         (if rv a = errno_of Errno_TIMEDOUT then ret None else throw (ApiError ''pthread_timedjoin_np()'' (rv a)))
       else andthen PosixThread_reset (ret (Some (exit_value a)))))"

definition PosixThread_detach :: "(PosixThread \<times> counted, unit) act" where
  "PosixThread_detach = bind (this m_pthread) (\<lambda>p. case p of
       None \<Rightarrow> throw (UsageError ''Attempted to detach a non-joinable thread (empty or already detached)'')
     | Some pid \<Rightarrow> bind (in_world (call ''pthread_detach'' [I pid])) (\<lambda>a.
         if rv a \<noteq> errno_of Errno_NO_ERROR then throw (ApiError ''pthread_detach()'' (rv a))
         else PosixThread_reset))"

subsection \<open>Guards as critical sections\<close>

text \<open>
  The contract of a guard: acquiring and releasing switch a state that follows from the calls
  made, and a body inside keeps it.
\<close>

locale lock_guard =
  fixes acquire release :: "(world, unit) act"
    and inside :: "world \<Rightarrow> bool"
  assumes acquired: "acquire w = (Ret (), w') \<Longrightarrow> inside w'"
    and released: "release w = (Ret (), w') \<Longrightarrow> \<not> inside w'"
begin

text \<open>
  When a guarded block ends by itself, its body ran inside, and the block is left with the
  result of the body, or with the exception that refused the acquisition.
\<close>

lemma guarded_section:
  fixes body :: "(world, 'a) act"
  assumes "guarded acquire release body w = (r, w')" "r = Ret x \<or> r = Throw ex"
  shows "\<not> inside w' \<and>
    ((\<exists>v v'. acquire w = (Ret (), v) \<and> inside v \<and> body v = (r, v')) \<or>
     (\<exists>v e. acquire w = (Throw e, v) \<and> r = Throw e))"
proof (cases "acquire w")
  case (Pair q v)
  show ?thesis
  proof (cases q)
    case (Ret u)
    then have a: "acquire w = (Ret (), v)" using Pair by simp
    obtain q' v' where b: "body v = (q', v')" by (cases "body v")
    have "release v' = (Ret (), w') \<and> q' = r"
      using assms a b
      by (auto simp: guarded_def acquiring_guard_def ResourceGuard_destroy_def ResourceGuard_create_def act_defs
          split: outcome.splits prod.splits)
    with a b acquired[OF a] released show ?thesis by blast
  next
    case (Throw e')
    have "release v = (Ret (), w') \<and> r = Throw e'"
      using assms Pair Throw
      by (auto simp: guarded_def acquiring_guard_def ResourceGuard_destroy_def ResourceGuard_create_def act_defs
          split: outcome.splits prod.splits)
    with Pair Throw released show ?thesis by blast
  qed (use assms Pair in \<open>auto simp: guarded_def acquiring_guard_def act_defs\<close>)
qed

end

text \<open>Whether the calling thread holds a mutex, and a lock, according to its calls.\<close>

definition holds_after :: "string set \<Rightarrow> string \<Rightarrow> int \<Rightarrow> (syscall \<times> answer) list \<Rightarrow> bool" where
  "holds_after locks unlock m tr = foldl (\<lambda>h (c, a). case c of Call f args \<Rightarrow>
     if rv a = 0 \<and> args = [I m] then (if f \<in> locks then True else if f = unlock then False else h) else h) False tr"

lemma holds_after_snoc: "holds_after locks unlock m (tr @ [(Call f args, a)]) =
    (if rv a = 0 \<and> args = [I m] then (if f \<in> locks then True else if f = unlock then False else holds_after locks unlock m tr)
     else holds_after locks unlock m tr)"
  by (simp add: holds_after_def)

definition holds_mutex :: "int \<Rightarrow> world \<Rightarrow> bool" where
  "holds_mutex m w = holds_after {''pthread_mutex_lock''} ''pthread_mutex_unlock'' m (trace w)"

definition holds_rwlock :: "int \<Rightarrow> world \<Rightarrow> bool" where
  "holds_rwlock l w = holds_after {''pthread_rwlock_rdlock'', ''pthread_rwlock_wrlock''} ''pthread_rwlock_unlock'' l (trace w)"

lemmas lock_defs = Mutex_lock_def Mutex_unlock_def RWLock_readlock_def RWLock_writelock_def RWLock_unlock_def
  pthread_call_def holds_mutex_def holds_rwlock_def

lemma Mutex_lock_holds: "Mutex_lock m w = (Ret (), w') \<Longrightarrow> holds_mutex m w'"
  by (cases "answers w") (auto simp: lock_defs act_defs kernel_defs holds_after_snoc split: if_splits)

lemma Mutex_unlock_releases: "Mutex_unlock m w = (Ret (), w') \<Longrightarrow> \<not> holds_mutex m w'"
  by (cases "answers w") (auto simp: lock_defs act_defs kernel_defs holds_after_snoc split: if_splits)

lemma RWLock_lock_holds:
  "RWLock_readlock l w = (Ret (), w') \<Longrightarrow> holds_rwlock l w'"
  "RWLock_writelock l w = (Ret (), w') \<Longrightarrow> holds_rwlock l w'"
  by (cases "answers w"; auto simp: lock_defs act_defs kernel_defs holds_after_snoc split: if_splits)+

lemma RWLock_unlock_releases: "RWLock_unlock l w = (Ret (), w') \<Longrightarrow> \<not> holds_rwlock l w'"
  by (cases "answers w") (auto simp: lock_defs act_defs kernel_defs holds_after_snoc split: if_splits)

interpretation mutex_guard: lock_guard "Mutex_lock m" "Mutex_unlock m" "holds_mutex m"
  by unfold_locales (auto dest: Mutex_lock_holds Mutex_unlock_releases)

interpretation reverse_guard: lock_guard "Mutex_unlock m" "Mutex_lock m" "\<lambda>w. \<not> holds_mutex m w"
  by unfold_locales (auto dest: Mutex_lock_holds Mutex_unlock_releases)

interpretation read_guard: lock_guard "RWLock_readlock l" "RWLock_unlock l" "holds_rwlock l"
  by unfold_locales (auto dest: RWLock_lock_holds RWLock_unlock_releases)

interpretation write_guard: lock_guard "RWLock_writelock l" "RWLock_unlock l" "holds_rwlock l"
  by unfold_locales (auto dest: RWLock_lock_holds RWLock_unlock_releases)

subsection \<open>Properties\<close>

text \<open>
  C18: A block under a guard is a critical section: when it ends, normally or by an exception, its
  body ran with the lock held, for a reverse guard without it, or the lock was refused, and
  afterwards the state is the opposite.  A refused lock is released all the same: when the caller
  holds the mutex already, the guard throws the error of the deadlock and takes the mutex
  away from it.
\<close>

theorem guards_are_critical_sections:
  fixes body :: "(world, 'a) act"
  assumes "r = Ret x \<or> r = Throw ex"
  shows "(MutexGuard m body w = (r, w') \<longrightarrow> \<not> holds_mutex m w' \<and>
       ((\<exists>v v'. Mutex_lock m w = (Ret (), v) \<and> holds_mutex m v \<and> body v = (r, v')) \<or>
        (\<exists>v e. Mutex_lock m w = (Throw e, v) \<and> r = Throw e))) \<and>
    (MutexReverseGuard m body w = (r, w') \<longrightarrow> holds_mutex m w' \<and>
       ((\<exists>v v'. Mutex_unlock m w = (Ret (), v) \<and> \<not> holds_mutex m v \<and> body v = (r, v')) \<or>
        (\<exists>v e. Mutex_unlock m w = (Throw e, v) \<and> r = Throw e))) \<and>
    (ReadLockGuard m body w = (r, w') \<longrightarrow> \<not> holds_rwlock m w' \<and>
       ((\<exists>v v'. RWLock_readlock m w = (Ret (), v) \<and> holds_rwlock m v \<and> body v = (r, v')) \<or>
        (\<exists>v e. RWLock_readlock m w = (Throw e, v) \<and> r = Throw e))) \<and>
    (WriteLockGuard m body w = (r, w') \<longrightarrow> \<not> holds_rwlock m w' \<and>
       ((\<exists>v v'. RWLock_writelock m w = (Ret (), v) \<and> holds_rwlock m v \<and> body v = (r, v')) \<or>
        (\<exists>v e. RWLock_writelock m w = (Throw e, v) \<and> r = Throw e))) \<and>
    (holds_mutex m w \<and> answers w = [ok (errno_of Errno_DEADLOCK), ok 0] \<longrightarrow>
       (\<exists>v. MutexGuard m body w = (Throw (ApiError ''pthread_mutex_lock()'' (errno_of Errno_DEADLOCK)), v) \<and> \<not> holds_mutex m v))"
proof (intro conjI impI)
  assume "MutexGuard m body w = (r, w')"
  note g = mutex_guard.guarded_section[OF this[unfolded MutexGuard_def] assms]
  from g show "\<not> holds_mutex m w'" by blast
  from g show "(\<exists>v v'. Mutex_lock m w = (Ret (), v) \<and> holds_mutex m v \<and> body v = (r, v')) \<or>
      (\<exists>v e. Mutex_lock m w = (Throw e, v) \<and> r = Throw e)" by blast
next
  assume "MutexReverseGuard m body w = (r, w')"
  note g = reverse_guard.guarded_section[OF this[unfolded MutexReverseGuard_def] assms]
  from g show "holds_mutex m w'" by blast
  from g show "(\<exists>v v'. Mutex_unlock m w = (Ret (), v) \<and> \<not> holds_mutex m v \<and> body v = (r, v')) \<or>
      (\<exists>v e. Mutex_unlock m w = (Throw e, v) \<and> r = Throw e)" by blast
next
  assume "ReadLockGuard m body w = (r, w')"
  note g = read_guard.guarded_section[OF this[unfolded ReadLockGuard_def] assms]
  from g show "\<not> holds_rwlock m w'" by blast
  from g show "(\<exists>v v'. RWLock_readlock m w = (Ret (), v) \<and> holds_rwlock m v \<and> body v = (r, v')) \<or>
      (\<exists>v e. RWLock_readlock m w = (Throw e, v) \<and> r = Throw e)" by blast
next
  assume "WriteLockGuard m body w = (r, w')"
  note g = write_guard.guarded_section[OF this[unfolded WriteLockGuard_def] assms]
  from g show "\<not> holds_rwlock m w'" by blast
  from g show "(\<exists>v v'. RWLock_writelock m w = (Ret (), v) \<and> holds_rwlock m v \<and> body v = (r, v')) \<or>
      (\<exists>v e. RWLock_writelock m w = (Throw e, v) \<and> r = Throw e)" by blast
next
  assume "holds_mutex m w \<and> answers w = [ok (errno_of Errno_DEADLOCK), ok 0]"
  then show "\<exists>v. MutexGuard m body w = (Throw (ApiError ''pthread_mutex_lock()'' (errno_of Errno_DEADLOCK)), v) \<and> \<not> holds_mutex m v"
    by (simp add: MutexGuard_def guarded_def acquiring_guard_def ResourceGuard_destroy_def ResourceGuard_create_def
        lock_defs act_defs kernel_defs holds_after_def)
qed

theorem guards_are_critical_sections_witness:
  "\<exists>v. MutexGuard 8 (ret ()) ((world_of [ok 35, ok 0])\<lparr>trace := [(Call ''pthread_mutex_lock'' [I 8], ok 0)]\<rparr>) =
     (Throw (ApiError ''pthread_mutex_lock()'' 35), v) \<and> \<not> holds_mutex 8 v"
  using guards_are_critical_sections[of "Ret ()" "()" _ 8 "ret ()" "(world_of [ok 35, ok 0])\<lparr>trace := [(Call ''pthread_mutex_lock'' [I 8], ok 0)]\<rparr>"]
  by (simp add: holds_mutex_def holds_after_def world_of_def)

subsection \<open>The lifetime of a thread\<close>

text \<open>The threads that still have to be joined or detached, according to the calls.\<close>

fun thread_effect :: "syscall \<times> answer \<Rightarrow> pthread_id set \<Rightarrow> pthread_id set" where
  "thread_effect (Call f args, a) T =
     (if rv a \<noteq> 0 then T
      else if f = ''pthread_create'' then T \<union> set (take 1 (outs a))
      else if f \<in> {''pthread_join'', ''pthread_tryjoin_np'', ''pthread_timedjoin_np'', ''pthread_detach''}
        then (case args of I pid # _ \<Rightarrow> T - {pid} | _ \<Rightarrow> T)
      else T)"

definition live_threads :: "world \<Rightarrow> pthread_id set" where
  "live_threads w = foldl (\<lambda>T c. thread_effect c T) {} (trace w)"

definition thread_owned :: "PosixThread \<Rightarrow> pthread_id set" where
  "thread_owned t = set_option (m_pthread t)"

lemma live_threads_call:
  "trace w' = trace w @ [c] \<Longrightarrow> live_threads w' = thread_effect c (live_threads w)"
  by (simp add: live_threads_def)

text \<open>The destructor releases nothing: it ends the process rather than let a thread go.\<close>

interpretation posix_thread: resource_owner live_threads thread_owned PosixThread_destroy
  by unfold_locales (auto simp: PosixThread_destroy_def joinable_def thread_owned_def act_defs split: if_splits)

text \<open>
  Operations on any number of objects: the program performs one on the object \<open>i\<close>, whatever it
  returns or throws, moves the object \<open>j\<close> into it, or destroys it and makes an empty one in its
  place.  A move that ends the process or is undefined has no next state.
\<close>

datatype thread_op = OpJoin | OpTryJoin | OpJoinTimed TimeSpec | OpDetach

definition forget :: "('s, 'a) act \<Rightarrow> ('s, unit) act" where
  "forget m = bind m (\<lambda>_. ret ())"

primrec run_thread_op :: "thread_op \<Rightarrow> (PosixThread \<times> counted, unit) act" where
  "run_thread_op OpJoin = forget PosixThread_join"
| "run_thread_op OpTryJoin = forget PosixThread_tryJoin"
| "run_thread_op (OpJoinTimed ts) = forget (PosixThread_joinTimed ts)"
| "run_thread_op OpDetach = PosixThread_detach"

type_synonym thread_objects = "nat \<Rightarrow> PosixThread"

inductive thread_step :: "thread_objects \<times> counted \<Rightarrow> thread_objects \<times> counted \<Rightarrow> bool" where
  step_op: "run_thread_op op (objs i, c) = (r, (t, c')) \<Longrightarrow> thread_step (objs, c) (objs(i := t), c')"
| step_move: "i \<noteq> j \<Longrightarrow> PosixThread_move_assign (objs i) (objs j) c = (Ret (Some (t, u)), c') \<Longrightarrow>
    thread_step (objs, c) (objs(i := t, j := u), c')"
| step_destroy: "PosixThread_destroy (objs i, c) = (Ret (), (t, c')) \<Longrightarrow>
    thread_step (objs, c) (objs(i := PosixThread_default), c')"

inductive thread_runs :: "thread_objects \<times> counted \<Rightarrow> thread_objects \<times> counted \<Rightarrow> bool" where
  runs_refl: "thread_runs s s"
| runs_step: "thread_runs s s' \<Longrightarrow> thread_step s' s'' \<Longrightarrow> thread_runs s s''"

text \<open>A call that releases a thread, and how many calls of a run do.\<close>

fun releases_thread :: "pthread_id \<Rightarrow> syscall \<times> answer \<Rightarrow> bool" where
  "releases_thread pid (Call f (I p # _), a) \<longleftrightarrow> p = pid \<and> rv a = 0 \<and>
     f \<in> {''pthread_join'', ''pthread_tryjoin_np'', ''pthread_timedjoin_np'', ''pthread_detach''}"
| "releases_thread pid _ \<longleftrightarrow> False"

definition thread_releases :: "pthread_id \<Rightarrow> (syscall \<times> answer) list \<Rightarrow> nat" where
  "thread_releases pid es = length (filter (releases_thread pid) es)"

lemma thread_releases_simps [simp]:
  "thread_releases pid [] = 0"
  "thread_releases pid (es @ fs) = thread_releases pid es + thread_releases pid fs"
  "thread_releases pid (e # es) = (if releases_thread pid e then Suc (thread_releases pid es) else thread_releases pid es)"
  by (simp_all add: thread_releases_def)

definition ends_in_release :: "pthread_id \<Rightarrow> (syscall \<times> answer) list \<Rightarrow> bool" where
  "ends_in_release pid es \<longleftrightarrow> es \<noteq> [] \<and> releases_thread pid (last es) \<and> thread_releases pid es = 1"

lemma ends_in_release_append [simp]:
  "thread_releases pid es = 0 \<Longrightarrow> ends_in_release pid (es @ fs) \<longleftrightarrow> ends_in_release pid fs"
  by (cases "fs = []") (auto simp: ends_in_release_def thread_releases_def filter_empty_conv)

lemmas thread_op_defs = PosixThread_join_def PosixThread_tryJoin_def PosixThread_joinTimed_def PosixThread_detach_def
  assertJoinConditions_def isCallerThread_def pthread_get_id_def pthread_id_eq_def PosixThread_reset_def count_down_def
  joinable_def forget_def

text \<open>
  What an operation on the object of a thread can have done: it keeps the object and has not
  released the thread, or its last call has released the thread and the object is empty.
\<close>

definition op_effect :: "pthread_id \<Rightarrow> PosixThread \<times> counted \<Rightarrow> PosixThread \<times> counted \<Rightarrow> bool" where
  "op_effect pid s s' \<longleftrightarrow> (case (s, s') of ((t, n, w), (t', n', w')) \<Rightarrow>
     \<exists>es. trace w' = trace w @ es \<and>
       (t' = t \<and> n' = n \<and> thread_releases pid es = 0 \<or>
        m_pthread t' = None \<and> n' = n - 1 \<and> ends_in_release pid es))"

lemma op_effect_refl: "op_effect pid s s"
  by (auto simp: op_effect_def split: prod.splits)

lemma op_effect_after_call:
  assumes "call f args w = (Ret a, v)" "\<not> releases_thread pid (Call f args, a)"
    and "op_effect pid (t, n, v) s"
  shows "op_effect pid (t, n, w) s"
proof -
  from assms(1) have v: "trace v = trace w @ [(Call f args, a)]"
    by (auto simp: call_def split: list.splits)
  obtain t' n' w' where s: "s = (t', n', w')" by (cases s)
  with assms(3) obtain es where es: "trace w' = trace v @ es"
    "t' = t \<and> n' = n \<and> thread_releases pid es = 0 \<or> m_pthread t' = None \<and> n' = n - 1 \<and> ends_in_release pid es"
    by (auto simp: op_effect_def)
  with assms(2) s v ends_in_release_append[of pid "[(Call f args, a)]" es] show ?thesis
    unfolding op_effect_def by (auto intro!: exI[of _ "(Call f args, a) # es"])
qed

lemma asserted_effect:
  assumes pid: "m_pthread t = Some pid"
    and go: "\<And>v. op_effect pid (t, n, v) (snd (go_on pid (t, n, v)))"
  shows "op_effect pid (t, n, w) (snd (assertJoinConditions go_on (t, n, w)))"
proof (cases rule: call_cases[of w "''pthread_self''" "[]"])
  case blocked
  with pid show ?thesis
    by (simp add: assertJoinConditions_def isCallerThread_def pthread_get_id_def act_defs op_effect_refl)
next
  case (answered a as w1)
  have "op_effect pid (t, n, w1) (snd (assertJoinConditions go_on (t, n, w)))"
  proof (cases rule: call_cases[of w1 "''pthread_equal''" "[I pid, I (rv a)]"])
    case blocked
    with pid answered(2) show ?thesis
      by (simp add: assertJoinConditions_def isCallerThread_def pthread_get_id_def pthread_id_eq_def act_defs op_effect_refl)
  next
    case (answered b bs w2)
    with pid \<open>call ''pthread_self'' [] w = _\<close> go[of w2] op_effect_refl[of pid "(t, n, w2)"]
    have "op_effect pid (t, n, w2) (snd (assertJoinConditions go_on (t, n, w)))"
      by (simp add: assertJoinConditions_def isCallerThread_def pthread_get_id_def pthread_id_eq_def act_defs)
    from op_effect_after_call[OF answered(2) _ this] show ?thesis by simp
  qed
  from op_effect_after_call[OF answered(2) _ this] show ?thesis by simp
qed

lemma snd_forget: "snd (forget m s) = snd (m s)"
  by (auto simp: forget_def act_defs split: outcome.split prod.split)

lemma release_call_effect:
  assumes pid: "m_pthread t = Some pid" and fail: "\<And>a s. snd (fail a s) = s"
    and fin: "\<And>a s. snd (fin a s) = s"
    and f: "f \<in> {''pthread_join'', ''pthread_tryjoin_np'', ''pthread_timedjoin_np'', ''pthread_detach''}"
  shows "op_effect pid (t, n, v) (snd ((bind (in_world (call f (I pid # args))) (\<lambda>a.
     if rv a \<noteq> 0 then fail a else andthen PosixThread_reset (fin a))) (t, n, v)))"
proof (cases rule: call_cases[of v f "I pid # args"])
  case blocked
  then show ?thesis by (simp add: act_defs op_effect_refl)
next
  case (answered a as v')
  show ?thesis
  proof (cases "rv a = 0")
    case True
    let ?t = "t\<lparr>m_pthread := None, pt_name := []\<rparr>"
    have "snd ((bind (in_world (call f (I pid # args))) (\<lambda>a.
       if rv a \<noteq> 0 then fail a else andthen PosixThread_reset (fin a))) (t, n, v)) = (?t, n - 1, v')"
      using True answered(2) pid fin
      by (simp add: PosixThread_reset_def count_down_def joinable_def act_defs)
    moreover have "trace v' = trace v @ [(Call f (I pid # args), a)]"
      using answered(2) by (auto simp: call_def split: list.splits)
    ultimately show ?thesis using True f by (auto simp: op_effect_def ends_in_release_def)
  next
    case False
    with answered(2) fail have "snd ((bind (in_world (call f (I pid # args))) (\<lambda>a.
       if rv a \<noteq> 0 then fail a else andthen PosixThread_reset (fin a))) (t, n, v)) = (t, n, v')"
      by (simp add: bind_def on_world_def)
    then show ?thesis
      using op_effect_after_call[OF answered(2) _ op_effect_refl, of pid t n] False by simp
  qed
qed

lemma andthen_ret_unit: "andthen m (ret ()) = m"
  by (auto simp: act_defs fun_eq_iff split: outcome.split prod.split)

lemma run_thread_op_effect:
  assumes "m_pthread t = Some pid"
  shows "op_effect pid (t, n, w) (snd (run_thread_op op (t, n, w)))"
proof (cases op)
  case OpDetach
  then show ?thesis
    using assms release_call_effect[OF assms, of "\<lambda>a. throw (ApiError ''pthread_detach()'' (rv a))" "\<lambda>_. ret ()" "''pthread_detach''" n w "[]",
        unfolded andthen_ret_unit]
    by (simp add: PosixThread_detach_def throw_def ret_def this_def gets_def bind_def)
qed (auto simp: snd_forget PosixThread_join_def PosixThread_tryJoin_def PosixThread_joinTimed_def throw_def ret_def
    intro!: asserted_effect[OF assms] release_call_effect[OF assms])

lemma run_thread_op_empty:
  "m_pthread t = None \<Longrightarrow> snd (run_thread_op op (t, c)) = (t, c)"
  by (cases op) (simp_all add: thread_op_defs act_defs)

text \<open>The invariant of all objects, from the moment the thread has been created.\<close>

definition threads_inv :: "pthread_id \<Rightarrow> world \<Rightarrow> 64 word \<Rightarrow> thread_objects \<times> counted \<Rightarrow> bool" where
  "threads_inv pid w0 k s \<longleftrightarrow> (case s of (objs, n, w) \<Rightarrow> \<exists>es. trace w = trace w0 @ es \<and>
     ((\<exists>j. m_pthread (objs j) = Some pid \<and> (\<forall>i. i \<noteq> j \<longrightarrow> m_pthread (objs i) = None)) \<and>
        thread_releases pid es = 0 \<and> n = k + 1 \<or>
      (\<forall>i. m_pthread (objs i) = None) \<and> ends_in_release pid es \<and> n = k))"

lemma threads_inv_step:
  assumes "thread_step s s'" "threads_inv pid w0 k s"
  shows "threads_inv pid w0 k s'"
  using assms
proof (induction rule: thread_step.induct)
  case (step_op op objs i c r t c')
  from step_op(1) have t: "snd (run_thread_op op (objs i, c)) = (t, c')" by simp
  show ?case
  proof (cases "m_pthread (objs i)")
    case None
    with t have "t = objs i" "c' = c" using run_thread_op_empty[of "objs i" op c] by simp_all
    with step_op(2) show ?thesis by (simp add: fun_upd_idem)
  next
    case (Some p)
    obtain n w n' w' where c: "c = (n, w)" "c' = (n', w')" by (cases c, cases c')
    from step_op(2) c Some obtain es where es: "trace w = trace w0 @ es" "p = pid" "thread_releases pid es = 0" "n = k + 1"
      "\<And>j. j \<noteq> i \<Longrightarrow> m_pthread (objs j) = None"
      unfolding threads_inv_def by (auto, metis option.distinct(1) option.sel)
    from run_thread_op_effect[OF Some, of n w op] t c es(2) obtain fs where fs: "trace w' = trace w @ fs"
      "t = objs i \<and> n' = n \<and> thread_releases pid fs = 0 \<or> m_pthread t = None \<and> n' = n - 1 \<and> ends_in_release pid fs"
      by (auto simp: op_effect_def)
    from fs(2) show ?thesis
    proof (elim disjE conjE)
      assume "t = objs i" "n' = n" "thread_releases pid fs = 0"
      with es fs(1) Some show ?thesis
        unfolding threads_inv_def c by (auto simp: fun_upd_idem intro!: exI[of _ i])
    next
      assume "m_pthread t = None" "n' = n - 1" "ends_in_release pid fs"
      with es fs(1) show ?thesis
        unfolding threads_inv_def c by auto
    qed
  qed
next
  case (step_move i j objs c t u c')
  then have m: "m_pthread (objs i) = None" "m_pthread t = m_pthread (objs j)" "m_pthread u = None" "c' = c"
    by (auto simp: PosixThread_move_assign_def joinable_def act_defs split: if_splits option.splits)
  obtain n w where "c = (n, w)" by (cases c)
  with step_move(1,3) m show ?case
    unfolding threads_inv_def by (auto, metis option.distinct(1))
next
  case (step_destroy objs i c t c')
  then have "m_pthread (objs i) = None" "c' = c"
    by (auto simp: PosixThread_destroy_def joinable_def act_defs split: if_splits)
  with step_destroy(2) show ?case
    unfolding threads_inv_def by (auto simp: PosixThread_default_def, metis option.distinct(1))
qed

lemma threads_inv_runs: "thread_runs s s' \<Longrightarrow> threads_inv pid w0 k s \<Longrightarrow> threads_inv pid w0 k s'"
  by (induction rule: thread_runs.induct) (auto dest: threads_inv_step)

lemma created_thread:
  assumes "answers w = \<lparr>rv = 0, err = None, out = [], outs = [pid]\<rparr> # as"
  shows "\<exists>t w'. PosixThread_create entry name (n, w) = (Ret t, (n + 1, w')) \<and> m_pthread t = Some pid \<and>
      pt_name t = buildName (case name of None \<Rightarrow> [] | Some s \<Rightarrow> s) (n + 1)"
  using assms
  by (simp add: PosixThread_create_def PosixThread_construct_def create_thread_def count_up_def act_defs kernel_defs Let_def)

text \<open>
  C17: A thread that was created is joined or detached at most once.  After any sequence of
  operations on any number of objects, of moves between them and of destructions, either exactly one
  object has the thread, no call has released it, and the counter has it; or no object has it,
  one call has released it and has been the last call of all, so that nothing is asked of a
  thread that is gone.  An object can be destroyed exactly when it does not have the thread,
  otherwise its destructor ends the process.
\<close>

theorem threads_are_joined_once:
  assumes "answers w = \<lparr>rv = 0, err = None, out = [], outs = [pid]\<rparr> # as"
    and "PosixThread_create entry name (n, w) = (Ret t, c)"
    and "\<forall>j. \<not> joinable (objs j)" "thread_runs (objs(i := t), c) (objs', n', w')"
  shows "\<exists>es. trace w' = trace (snd c) @ es \<and> thread_releases pid es \<le> 1 \<and>
    (thread_releases pid es = 0 \<longleftrightarrow> (\<exists>j. m_pthread (objs' j) = Some pid)) \<and>
    (\<forall>j k. joinable (objs' j) \<and> joinable (objs' k) \<longrightarrow> j = k \<and> m_pthread (objs' j) = Some pid) \<and>
    (thread_releases pid es = 1 \<longrightarrow> es \<noteq> [] \<and> releases_thread pid (last es)) \<and>
    n' = n + (if thread_releases pid es = 0 then 1 else 0) \<and>
    (\<forall>j. fst (PosixThread_destroy (objs' j, w')) = (if joinable (objs' j) then Abort terminated else Ret ()))"
proof -
  obtain w1 where c: "c = (n + 1, w1)" "m_pthread t = Some pid"
    using created_thread[OF assms(1), of entry name n] assms(2) by auto
  with assms(3) have "threads_inv pid w1 n (objs(i := t), c)"
    by (auto simp: threads_inv_def joinable_def)
  from threads_inv_runs[OF assms(4) this] obtain es where es: "trace w' = trace w1 @ es"
    "(\<exists>j. m_pthread (objs' j) = Some pid \<and> (\<forall>i. i \<noteq> j \<longrightarrow> m_pthread (objs' i) = None)) \<and>
        thread_releases pid es = 0 \<and> n' = n + 1 \<or>
      (\<forall>i. m_pthread (objs' i) = None) \<and> ends_in_release pid es \<and> n' = n"
    by (auto simp: threads_inv_def)
  have d: "fst (PosixThread_destroy (u, w')) = (if joinable u then Abort terminated else Ret ())" for u
    by (simp add: PosixThread_destroy_def act_defs)
  have e: "trace w' = trace (snd c) @ es" using es(1) c(1) by simp
  show ?thesis
  proof (intro exI[of _ es] conjI)
    show "\<forall>j k. joinable (objs' j) \<and> joinable (objs' k) \<longrightarrow> j = k \<and> m_pthread (objs' j) = Some pid"
      using es(2) unfolding joinable_def by metis
    show "\<forall>j. fst (PosixThread_destroy (objs' j, w')) = (if joinable (objs' j) then Abort terminated else Ret ())"
      using d by blast
  qed (use e es(2) in \<open>auto simp: ends_in_release_def joinable_def\<close>)
qed

definition some_thread :: PosixThread where
  "some_thread = \<lparr>m_pthread = Some 7, pt_name = ''a''\<rparr>"

definition no_threads :: thread_objects where
  "no_threads _ = PosixThread_default"

theorem threads_are_joined_once_witness:
  "\<exists>w1 w2. PosixThread_create (ret ()) (Some ''a'') (0, world_of [\<lparr>rv = 0, err = None, out = [], outs = [7]\<rparr>, ok 9, ok 0, ok 0]) =
       (Ret some_thread, (1, w1)) \<and>
     thread_runs (no_threads(0 := some_thread), 1, w1) (no_threads(0 := PosixThread_default, 1 := PosixThread_default), 0, w2) \<and>
     (\<exists>es. trace w2 = trace w1 @ es \<and> thread_releases 7 es \<noteq> 0)"
proof -
  let ?w = "world_of [\<lparr>rv = 0, err = None, out = [], outs = [7]\<rparr>, ok 9, ok 0, ok 0]"
  obtain w1 where c: "PosixThread_create (ret ()) (Some ''a'') (0, ?w) = (Ret some_thread, (1, w1))"
    "answers w1 = [ok 9, ok 0, ok 0]"
    by (simp add: PosixThread_create_def PosixThread_construct_def create_thread_def count_up_def act_defs kernel_defs
        Let_def world_of_def PosixThread_default_def buildName_def some_thread_def)
  let ?o = "no_threads(0 := some_thread)" and ?p = "no_threads(0 := some_thread, 1 := some_thread, 0 := PosixThread_default)"
  have "PosixThread_move_assign (?o 1) (?o 0) (1, w1) = (Ret (Some (some_thread, PosixThread_default)), (1 :: 64 word, w1))"
    by (simp add: PosixThread_move_assign_def joinable_def no_threads_def some_thread_def PosixThread_default_def act_defs)
  then have m: "thread_step (?o, 1, w1) (?p, 1, w1)" by (intro step_move) simp_all
  obtain w2 where "run_thread_op OpJoin (?p 1, 1, w1) = (Ret (), (PosixThread_default, 0, w2))"
    using c(2) by (simp add: thread_op_defs act_defs kernel_defs exit_value_def PosixThread_default_def some_thread_def)
  then have j: "thread_step (?p, 1, w1) (?p(1 := PosixThread_default), 0, w2)" by (rule step_op)
  have r: "thread_runs (?o, 1, w1) (no_threads(0 := PosixThread_default, 1 := PosixThread_default), 0, w2)"
    using runs_step[OF runs_step[OF runs_refl m] j] by (simp add: fun_upd_twist)
  have "answers ?w = \<lparr>rv = 0, err = None, out = [], outs = [7]\<rparr> # [ok 9, ok 0, ok 0]" "\<forall>j. \<not> joinable (no_threads j)"
    by (simp_all add: world_of_def no_threads_def joinable_def PosixThread_default_def)
  from threads_are_joined_once[OF this(1) c(1) this(2) r] obtain es where es: "trace w2 = trace w1 @ es"
    "thread_releases 7 es = 0 \<longleftrightarrow>
      (\<exists>j. m_pthread ((no_threads(0 := PosixThread_default, 1 := PosixThread_default)) j) = Some 7)"
    unfolding snd_conv by (elim exE conjE) (rule that)
  have "m_pthread ((no_threads(0 := PosixThread_default, 1 := PosixThread_default)) j) = None" for j
    by (simp add: no_threads_def PosixThread_default_def)
  with es have "\<exists>es. trace w2 = trace w1 @ es \<and> thread_releases 7 es \<noteq> 0" by auto
  with c(1) r show ?thesis by blast
qed

text \<open>
  A thread that cannot be created is not reported: the constructor returns an object without
  a thread that has a name and is counted.  Joining or detaching it is refused, moving from it
  is undefined, and moving into an object that has a thread ends the process.
\<close>

theorem failed_threads_are_silent:
  assumes "rv a \<noteq> 0"
  shows "(\<exists>t w'. PosixThread_create entry name (n, w\<lparr>answers := [a]\<rparr>) = (Ret t, (n + 1, w')) \<and> \<not> joinable t \<and> pt_name t \<noteq> [] \<and>
      fst (PosixThread_join (t, c)) = Throw (UsageError ''Attempted to join non-joinable thread (empty or detached)'') \<and>
      fst (PosixThread_detach (t, c)) = Throw (UsageError ''Attempted to detach a non-joinable thread (empty or already detached)'') \<and>
      fst (PosixThread_move t v) = Ret None) \<and>
    (joinable t1 \<longrightarrow> fst (PosixThread_move_assign t1 t2 v) = Abort terminated)"
proof -
  have "buildName s k \<noteq> []" for s k by (simp add: buildName_def)
  then have "\<exists>t w'. PosixThread_create entry name (n, w\<lparr>answers := [a]\<rparr>) = (Ret t, (n + 1, w')) \<and> m_pthread t = None \<and> pt_name t \<noteq> []"
    using assms by (simp add: PosixThread_create_def PosixThread_construct_def create_thread_def count_up_def act_defs kernel_defs Let_def)
  then show ?thesis
    by (auto simp: joinable_def PosixThread_join_def assertJoinConditions_def PosixThread_detach_def PosixThread_move_def
        PosixThread_move_assign_def PosixThread_default_def act_defs)
qed

theorem failed_threads_are_silent_witness:
  "\<exists>t w'. PosixThread_create (ret ()) None (0, (world_of [])\<lparr>answers := [ok (errno_of Errno_AGAIN)]\<rparr>) = (Ret t, (0 + 1, w')) \<and> \<not> joinable t"
  using failed_threads_are_silent[of "ok (errno_of Errno_AGAIN)" "ret ()" None 0 "world_of []" "(0, world_of [])" "()" PosixThread_default PosixThread_default]
  by auto

text \<open>
  No error of creating a condition is reported, whatever the calls return, and the error of a
  lock is the \<^verbatim>\<open>errno\<close> of the moment and not what the function returned.
\<close>

theorem dropped_and_stale_errors:
  "(\<exists>w'. Condition_create c m (w\<lparr>answers := [ok e1, ok e2, ok e3]\<rparr>) = (Ret \<lparr>m_pcond = c, m_lock = m\<rparr>, w')) \<and>
   (\<exists>w'. RWLock_readlock l (w\<lparr>answers := [ok (errno_of Errno_DEADLOCK)]\<rparr>) = (Throw (ApiError ''pthread_rwlock_rdlock()'' (errno_var w)), w'))"
  by (simp add: Condition_create_def condition_step_def dropped_error_def RWLock_readlock_def act_defs kernel_defs)

end
