(* ===== verification/Startup.thy ===== *)
theory Startup
  imports LibInit Terminals Threads SubProcess
begin

text \<open>
  The library at run time: \<^verbatim>\<open>init()\<close> with the objects that are really registered
  (\<^verbatim>\<open>src/cosmos.cxx\<close>, \<^verbatim>\<open>src/thread/Mutex.cxx\<close>, \<^verbatim>\<open>src/io/colors.cxx\<close>), whose
  initialization may fail, and the wrapper around the main function of a program
  (\<^verbatim>\<open>include/main.hxx\<close>).  LibInit is the abstract view of this.
\<close>

subsection \<open>The objects that are initialized\<close>

text \<open>The global state of the library, and what was printed to the standard errors; the flag for
  Valgrind is part of the world.\<close>

record settings =
  sg_lib :: library
  sg_tty :: TTYState
  sg_cerr :: string

definition settings_start :: settings where
  "settings_start = \<lparr>sg_lib = library_start, sg_tty = \<lparr>stdout_is_tty = True, stderr_is_tty = True\<rparr>,
     sg_cerr = []\<rparr>"

definition on_lib :: "(library \<Rightarrow> library) \<Rightarrow> (settings \<times> world, unit) act" where
  "on_lib f = set_this (\<lambda>g. g\<lparr>sg_lib := f (sg_lib g)\<rparr>)"

definition print_cerr :: "string \<Rightarrow> (settings \<times> world, unit) act" where
  "print_cerr s = set_this (\<lambda>g. g\<lparr>sg_cerr := sg_cerr g @ s\<rparr>)"

definition RunningOnValgrind_libInit :: "(settings \<times> world, unit) act" where
  "RunningOnValgrind_libInit = bind (on_world (get_env_var ''LD_PRELOAD'')) (\<lambda>ld_preload. case ld_preload of
       Some view \<Rightarrow> whenA (str_find view ''valgrind'' 0 \<noteq> None) 
         (on_world (modify (\<lambda>w. w\<lparr>running_on_valgrind := True\<rparr>)))
     | None \<Rightarrow> ret ())"

text \<open>The virtual functions of the object that is registered with a priority.\<close>

definition Initable_libInit :: "bool \<Rightarrow> nat \<Rightarrow> (settings \<times> world, unit) act" where
  "Initable_libInit debug i =
     (if i = InitPrio_value MUTEX_ATTR then on_world (MutexAttr_libInit debug)
      else if i = InitPrio_value RUNNING_ON_VALGRIND then RunningOnValgrind_libInit
      else zoom sg_tty (\<lambda>t g. g\<lparr>sg_tty := t\<rparr>) CheckStdioTTYs_libInit)"

definition Initable_libExit :: "bool \<Rightarrow> nat \<Rightarrow> (settings \<times> world, unit) act" where
  "Initable_libExit debug i = (if i = InitPrio_value MUTEX_ATTR then on_world (MutexAttr_libExit debug) else ret ())"

fun init_objects :: "bool \<Rightarrow> (nat \<times> nat) list \<Rightarrow> (settings \<times> world, unit) act" where
  "init_objects debug [] = ret ()"
| "init_objects debug ((p, i) # m) = andthen (Initable_libInit debug i)
     (andthen (on_lib (call_libInit i)) (init_objects debug m))"

fun finish_objects :: "bool \<Rightarrow> (nat \<times> nat) list \<Rightarrow> (settings \<times> world, unit) act" where
  "finish_objects debug [] = ret ()"
| "finish_objects debug ((p, i) # m) = andthen (Initable_libExit debug i)
     (andthen (on_lib (call_libExit i)) (finish_objects debug m))"

definition startup_init :: "bool \<Rightarrow> (settings \<times> world, unit) act" where
  "startup_init debug = bind (this (\<lambda>g. init_counter (sg_lib g))) (\<lambda>before.
     andthen (on_lib (\<lambda>l. l\<lparr>init_counter := init_counter l + 1\<rparr>))
     (if before \<noteq> 0 then ret ()
      else bind (this (\<lambda>g. init_data (sg_lib g))) (\<lambda>d. case d of None \<Rightarrow> ret () | Some m \<Rightarrow> init_objects debug m)))"

definition startup_finish :: "bool \<Rightarrow> (settings \<times> world, unit) act" where
  "startup_finish debug = andthen (on_lib (\<lambda>l. l\<lparr>init_counter := init_counter l - 1\<rparr>))
     (bind (this (\<lambda>g. init_counter (sg_lib g))) (\<lambda>after.
       if after \<noteq> 0 then ret ()
       else bind (this (\<lambda>g. init_data (sg_lib g))) (\<lambda>d. case d of None \<Rightarrow> ret () | Some m \<Rightarrow> finish_objects debug (rev m))))"

text \<open>The memory of the registry is freed when the process exits.\<close>

definition freeInitData :: "library \<Rightarrow> library" where
  "freeInitData l = l\<lparr>init_data := None\<rparr>"

subsection \<open>Settings and messages (src/cosmos.cxx)\<close>

definition set_restart_syscall_on_interrupt :: "bool \<Rightarrow> (world, unit) act" where
  "set_restart_syscall_on_interrupt auto_restart = modify (\<lambda>w. w\<lparr>auto_restart_syscalls := auto_restart\<rparr>)"

definition newline :: string where "newline = [char_of (10 :: nat)]"

text \<open>Here and below \<open>wt\<close> is what the exceptions say, their \<^verbatim>\<open>what()\<close> (theory ErrorText).\<close>

definition fatal_error :: "(exn \<Rightarrow> string) \<Rightarrow> string \<Rightarrow> exn option \<Rightarrow> (settings \<times> world, unit) act" where
  "fatal_error wt msg ex = andthen (print_cerr (''[libcosmos] FATAL: '' @ msg @ newline))
     (andthen (case ex of None \<Rightarrow> ret () | Some e \<Rightarrow> print_cerr (''Exception context:'' @ newline @ newline @ wt e @ newline))
     (andthen (print_cerr (''Aborting program.'' @ newline)) (abort terminated)))"

definition noncritical_error :: "(exn \<Rightarrow> string) \<Rightarrow> string \<Rightarrow> exn \<Rightarrow> (settings \<times> world, unit) act" where
  "noncritical_error wt msg e = andthen (print_cerr (''[libcosmos] WARNING: '' @ msg @ newline))
     (print_cerr (''Exception context:'' @ newline @ newline @ wt e @ newline))"

subsection \<open>The main wrapper (include/main.hxx)\<close>

datatype main_kind = MainNoArgs | MainPlainArgs | MainContainerArgs

datatype main_args = NoArgs | PlainArgs nat "string list" | ContainerArgs string "string list"

text \<open>Without any argument, not even the name of the program, the views are made of a null pointer.\<close>

definition make_args :: "main_kind \<Rightarrow> string list \<Rightarrow> main_args option" where
  "make_args kind argv = (case kind of
       MainNoArgs \<Rightarrow> Some NoArgs
     | MainPlainArgs \<Rightarrow> Some (PlainArgs (length argv) argv)
     | MainContainerArgs \<Rightarrow> (case argv of [] \<Rightarrow> None | a # as \<Rightarrow> Some (ContainerArgs (c_str a) (map c_str as))))"

text \<open>
  The program is a constructor and a main function, both of which may throw a status (\<open>Inl\<close>)
  or an exception; its destructor counts as the end of the main function.  A status that the
  constructor throws is not caught.
\<close>

record program =
  pr_kind :: main_kind
  pr_ctor :: "(settings \<times> world, int + unit) act"
  pr_main :: "main_args \<Rightarrow> (settings \<times> world, int + int) act"

definition run_main :: "(exn \<Rightarrow> string) \<Rightarrow> program \<Rightarrow> string list \<Rightarrow> (settings \<times> world, int) act" where
  "run_main wt p argv = catch
     (case make_args (pr_kind p) argv of
        None \<Rightarrow> abort undefined_behaviour
      | Some args \<Rightarrow> bind (pr_main p args) (\<lambda>r. ret (case r of Inl thrown \<Rightarrow> thrown | Inr status \<Rightarrow> status)))
     (\<lambda>ex. andthen (print_cerr (''Unhandled exception: '' @ wt ex @ newline)) (ret (ExitStatus_value EXIT_FAILURE)))"

definition cosmos_main :: "bool \<Rightarrow> (exn \<Rightarrow> string) \<Rightarrow> program \<Rightarrow> string list \<Rightarrow> (settings \<times> world, int) act" where
  "cosmos_main debug wt p argv = catch
     (andthen (startup_init debug)
       (scoped () (on_world (bind (pr_ctor p) (\<lambda>c. case c of Inl _ \<Rightarrow> abort terminated | Inr _ \<Rightarrow> run_main wt p argv)))
         (on_world (startup_finish debug))))
     (\<lambda>ex. andthen (print_cerr (''Error starting program: '' @ wt ex @ newline)) (ret (ExitStatus_value EXIT_FAILURE)))"

subsection \<open>The abstract view\<close>

text \<open>What the steps leave alone.\<close>

lemma libInit_keeps_lib: "Initable_libInit debug i (g, w) = (r, (g', w')) \<Longrightarrow> sg_lib g' = sg_lib g"
  by (auto simp: Initable_libInit_def RunningOnValgrind_libInit_def act_defs get_env_var_def
      split: if_splits prod.splits outcome.splits option.splits)

lemma libExit_keeps: "Initable_libExit debug i (g, w) = (r, (g', w')) \<Longrightarrow> g' = g \<and> (r = Ret () \<or> r = Blocked)"
  by (auto simp: Initable_libExit_def MutexAttr_libExit_def act_defs kernel_defs split: if_splits list.splits)

lemma init_objects_lib:
  "init_objects debug m (g, w) = (Ret (), (g', w')) \<Longrightarrow> sg_lib g' = InitData_init m (sg_lib g)"
proof (induction m arbitrary: g w)
  case (Cons e m)
  obtain p i where e: "e = (p, i)" by force
  from Cons.prems obtain g1 w1 where s: "Initable_libInit debug i (g, w) = (Ret (), (g1, w1))"
    "init_objects debug m (g1\<lparr>sg_lib := call_libInit i (sg_lib g1)\<rparr>, w1) = (Ret (), (g', w'))"
    by (auto simp: e act_defs on_lib_def split: prod.splits outcome.splits)
  from Cons.IH[OF s(2)] libInit_keeps_lib[OF s(1)] show ?case by (simp add: e InitData_init_def)
qed (simp add: act_defs InitData_init_def)

lemma finish_objects_lib:
  "finish_objects debug m (g, w) = (r, (g', w')) \<Longrightarrow>
     (r = Ret () \<and> sg_lib g' = foldl (\<lambda>l (p, i). call_libExit i l) (sg_lib g) m) \<or> r = Blocked"
proof (induction m arbitrary: g w)
  case (Cons e m)
  obtain p i where e: "e = (p, i)" by force
  obtain r1 g1 w1 where s: "Initable_libExit debug i (g, w) = (r1, (g1, w1))" by (metis prod_cases3)
  with libExit_keeps[OF this] Cons.prems Cons.IH show ?case
    by (auto simp: e act_defs on_lib_def)
qed (auto simp: act_defs)

lemma startup_init_lib: "startup_init debug (g, w) = (Ret (), (g', w')) \<Longrightarrow> sg_lib g' = lib_init (sg_lib g)"
  by (auto simp: startup_init_def lib_init_def on_lib_def act_defs Let_def dest!: init_objects_lib split: if_splits option.splits)

lemma startup_finish_lib:
  "startup_finish debug (g, w) = (r, (g', w')) \<Longrightarrow> (r = Ret () \<and> sg_lib g' = lib_finish (sg_lib g)) \<or> r = Blocked"
  by (auto simp: startup_finish_def lib_finish_def InitData_finish_def on_lib_def act_defs Let_def
      dest!: finish_objects_lib split: if_splits option.splits)

subsection \<open>Startup\<close>

text \<open>The registrations run while the program is loaded, in an order that is not specified.\<close>

definition register_objects :: "InitPrio list \<Rightarrow> (library, unit) act" where
  "register_objects order = forA order (\<lambda>p. registerInitable p (InitPrio_value p))"

definition registry :: "(nat \<times> nat) list" where
  "registry = [(0, 0), (1, 1), (2, 2)]"

lemma registration_order:
  assumes "distinct order" "set order = UNIV"
  shows "register_objects order library_start = (Ret (), library_start\<lparr>init_data := Some registry\<rparr>)"
proof -
  have univ: "(UNIV :: InitPrio set) = {MUTEX_ATTR, RUNNING_ON_VALGRIND, CHECK_STDIO_TTYS}" using InitPrio.exhaust by auto
  have "card (set order) = 3" by (simp only: assms(2) univ) simp
  then have "length order = 3" using assms(1) distinct_card[of order] by simp
  then obtain a b c where "order = [a, b, c]" by (auto simp: numeral_3_eq_3 length_Suc_conv)
  with assms(1) show ?thesis
    by (cases a; cases b; cases c) (simp_all add: register_objects_def registerInitable_def createInitData_def library_start_def
        registry_def act_defs)
qed

subsection \<open>Nested initialization\<close>

text \<open>Sequences of calls of \<^verbatim>\<open>init()\<close> and \<^verbatim>\<open>finish()\<close>.\<close>

primrec startup_op :: "bool \<Rightarrow> lib_op \<Rightarrow> (settings \<times> world, unit) act" where
  "startup_op debug DoInit = startup_init debug"
| "startup_op debug DoFinish = startup_finish debug"

definition startup_run :: "bool \<Rightarrow> lib_op list \<Rightarrow> (settings \<times> world, unit) act" where
  "startup_run debug ops = forA ops (startup_op debug)"

lemma startup_op_lib: "startup_op debug op (g, w) = (Ret (), (g', w')) \<Longrightarrow> sg_lib g' = lib_step op (sg_lib g)"
  using startup_init_lib startup_finish_lib[of debug g w "Ret ()" g' w'] by (cases op) auto

lemma startup_run_lib: "startup_run debug ops (g, w) = (Ret (), (g', w')) \<Longrightarrow> sg_lib g' = lib_run ops (sg_lib g)"
proof (induction ops arbitrary: g w)
  case (Cons op ops)
  from Cons.prems obtain g1 w1 where "startup_op debug op (g, w) = (Ret (), (g1, w1))"
    "startup_run debug ops (g1, w1) = (Ret (), (g', w'))"
    by (auto simp: startup_run_def act_defs split: prod.splits outcome.splits)
  with Cons.IH startup_op_lib show ?case by (simp add: lib_run_def)
qed (simp add: startup_run_def lib_run_def act_defs)

text \<open>An initialization that throws has initialized the objects before the one that failed.\<close>

lemma init_objects_throws:
  "init_objects debug m (g, w) = (Throw e, (g', w')) \<Longrightarrow>
     \<exists>k < length m. sg_lib g' = InitData_init (take k m) (sg_lib g)"
proof (induction m arbitrary: g w)
  case (Cons x m)
  obtain p i where x: "x = (p, i)" by force
  obtain r1 g1 w1 where s: "Initable_libInit debug i (g, w) = (r1, (g1, w1))" by (metis prod_cases3)
  note keeps = libInit_keeps_lib[OF s]
  show ?case
  proof (cases r1)
    case (Ret u)
    with s Cons.prems have "init_objects debug m (g1\<lparr>sg_lib := call_libInit i (sg_lib g1)\<rparr>, w1) = (Throw e, (g', w'))"
      by (simp add: x act_defs on_lib_def)
    from Cons.IH[OF this] obtain k where "k < length m"
      "sg_lib g' = InitData_init (take k m) (call_libInit i (sg_lib g1))" by auto
    with keeps show ?thesis by (intro exI[of _ "Suc k"]) (simp add: x InitData_init_def)
  next
    case (Throw e1)
    with s keeps Cons.prems show ?thesis by (intro exI[of _ 0]) (simp add: x act_defs InitData_init_def)
  qed (use s Cons.prems in \<open>simp_all add: x act_defs\<close>)
qed (simp add: act_defs)

text \<open>Registering objects, in any order, leaves them in the order of their priorities.\<close>

lemma register_entries:
  assumes "init_data l = Some m" "prio_sorted m" "distinct order" "InitPrio_value ` set order \<inter> fst ` set m = {}"
  shows "\<exists>m'. register_objects order l = (Ret (), l\<lparr>init_data := Some m'\<rparr>) \<and> prio_sorted m' \<and>
    set m' = (\<lambda>p. (InitPrio_value p, InitPrio_value p)) ` set order \<union> set m"
  using assms
proof (induction order arbitrary: l m)
  case (Cons p order)
  let ?v = InitPrio_value
  from Cons.prems(4) have "?v p \<notin> fst ` set m" by auto
  with registration_sorts[OF Cons.prems(1,2), of p "?v p"] obtain m1 where m1:
    "registerInitable p (?v p) l = (Ret (), l\<lparr>init_data := Some m1\<rparr>)" "prio_sorted m1"
    "set m1 = insert (?v p, ?v p) (set m)" by auto
  have inj: "?v a = ?v b \<longleftrightarrow> a = b" for a b by (cases a; cases b) simp_all
  have "?v ` set order \<inter> fst ` set m1 = {}"
    using Cons.prems(3,4) m1(3) by (auto simp: inj)
  from Cons.IH[OF _ m1(2) _ this, of "l\<lparr>init_data := Some m1\<rparr>"] Cons.prems(3) obtain m' where
    "register_objects order (l\<lparr>init_data := Some m1\<rparr>) = (Ret (), l\<lparr>init_data := Some m'\<rparr>)" "prio_sorted m'"
    "set m' = (\<lambda>p. (?v p, ?v p)) ` set order \<union> set m1" by auto
  with m1 show ?case
    by (auto simp: register_objects_def andthen_def bind_def)
next
  case Nil
  then show ?case by (intro exI[of _ m]) (simp add: register_objects_def act_defs)
qed

lemma register_sorted:
  assumes "distinct order" "order \<noteq> []"
  shows "\<exists>m. register_objects order library_start = (Ret (), library_start\<lparr>init_data := Some m\<rparr>) \<and>
    map snd m = sort (map InitPrio_value order)"
proof -
  let ?v = InitPrio_value
  obtain p ps where order: "order = p # ps" using assms(2) by (cases order) auto
  have "registerInitable p i library_start = registerInitable p i (library_start\<lparr>init_data := Some []\<rparr>)" for i
    by (simp add: registerInitable_def createInitData_def library_start_def act_defs)
  then have "register_objects order library_start = register_objects order (library_start\<lparr>init_data := Some []\<rparr>)"
    by (simp add: order register_objects_def andthen_def bind_def)
  with register_entries[of "library_start\<lparr>init_data := Some []\<rparr>" "[]" order] assms(1) obtain m where m:
    "register_objects order library_start = (Ret (), library_start\<lparr>init_data := Some m\<rparr>)" "prio_sorted m"
    "set m = (\<lambda>p. (?v p, ?v p)) ` set order"
    by (auto simp: prio_sorted_def)
  from m(3) have eq: "map snd m = map fst m" by auto
  have "sorted (map fst m)" "distinct (map fst m)"
    using m(2) by (simp_all add: prio_sorted_def strict_sorted_iff)
  moreover have "set (map fst m) = ?v ` set order" using m(3) by (auto simp: image_image)
  moreover have "inj ?v" by (rule injI) (metis InitPrio.exhaust InitPrio_value.simps num.distinct(1) one_neq_zero zero_neq_numeral one_eq_numeral_iff)
  then have "distinct (map ?v order)" using assms(1) inj_on_subset[of ?v UNIV] by (simp add: distinct_map)
  ultimately have "map fst m = sort (map ?v order)"
    by (intro sorted_distinct_set_unique) simp_all
  with eq have "map snd m = sort (map ?v order)" by (rule trans)
  with m(1) show ?thesis by blast
qed

text \<open>
  C27: Whatever objects of different priorities have been registered, in any order, and however the
  calls of \<^verbatim>\<open>init()\<close> and \<^verbatim>\<open>finish()\<close> are nested: as long as the calls return, the objects are
  initialized by the outermost \<^verbatim>\<open>init()\<close> in the order of their priorities and torn down by the
  matching \<^verbatim>\<open>finish()\<close> in the opposite order, with nothing happening in between, and they are
  marked initialized exactly while the nesting is not zero.  When the outermost \<^verbatim>\<open>init()\<close> throws,
  it has initialized the objects before the one that failed, in that order, and the call counts.
\<close>

theorem init_is_nested:
  assumes "distinct order" "order \<noteq> []" and "is = sort (map InitPrio_value order)"
    and "nested is ops 0 = Some (d, es)" "length ops < 2 ^ 64"
  shows "\<exists>l. register_objects order library_start = (Ret (), l) \<and>
    (\<forall>g w g' w'. sg_lib g = l \<and> startup_run debug ops (g, w) = (Ret (), (g', w')) \<longrightarrow>
       init_log (sg_lib g') = es \<and> initialized (sg_lib g') = (if d = 0 then {} else set is)) \<and>
    (\<forall>g w e g' w'. sg_lib g = l \<and> startup_init debug (g, w) = (Throw e, (g', w')) \<longrightarrow>
       (\<exists>k < length is. init_log (sg_lib g') = map LibInit (take k is) \<and>
          initialized (sg_lib g') = set (take k is) \<and> init_counter (sg_lib g') = 1))"
proof -
  obtain m where m: "register_objects order library_start = (Ret (), library_start\<lparr>init_data := Some m\<rparr>)" "map snd m = is"
    using register_sorted[OF assms(1,2)] assms(3) by blast
  let ?l = "library_start\<lparr>init_data := Some m\<rparr>"
  have "init_log (sg_lib g') = es \<and> initialized (sg_lib g') = (if d = 0 then {} else set is)"
    if "sg_lib g = ?l" "startup_run debug ops (g, w) = (Ret (), (g', w'))" for g w g' w'
    using startup_run_lib[OF that(2)] lib_run_nested[of m ops 0 d es ?l] that(1) m(2) assms(4,5)
    by (simp add: library_start_def)
  moreover have "\<exists>k < length is. init_log (sg_lib g') = map LibInit (take k is) \<and>
      initialized (sg_lib g') = set (take k is) \<and> init_counter (sg_lib g') = 1"
    if "sg_lib g = ?l" "startup_init debug (g, w) = (Throw e, (g', w'))" for g w e g' w'
  proof -
    from that have "init_objects debug m (g\<lparr>sg_lib := ?l\<lparr>init_counter := 1\<rparr>\<rparr>, w) = (Throw e, (g', w'))"
      by (simp add: startup_init_def on_lib_def library_start_def act_defs)
    from init_objects_throws[OF this] obtain k where "k < length m"
      "sg_lib g' = InitData_init (take k m) (?l\<lparr>init_counter := 1\<rparr>)" by auto
    then show ?thesis
      by (intro exI[of _ k]) (simp add: InitData_init_eq library_start_def take_map m(2)[symmetric])
  qed
  ultimately show ?thesis using m(1) by blast
qed

theorem init_is_nested_witness:
  "\<exists>l g' w'. register_objects [CHECK_STDIO_TTYS, MUTEX_ATTR, RUNNING_ON_VALGRIND] library_start = (Ret (), l) \<and>
     startup_run False [DoInit, DoInit, DoFinish, DoFinish] (settings_start\<lparr>sg_lib := l\<rparr>, world_of [ok 0, ok 1]) = (Ret (), (g', w')) \<and>
     init_log (sg_lib g') = [LibInit 0, LibInit 1, LibInit 2, LibExit 2, LibExit 1, LibExit 0]"
proof -
  let ?order = "[CHECK_STDIO_TTYS, MUTEX_ATTR, RUNNING_ON_VALGRIND]" and ?ops = "[DoInit, DoInit, DoFinish, DoFinish]"
  let ?es = "[LibInit 0, LibInit 1, LibInit 2, LibExit 2, LibExit 1, LibExit 0]"
  have "[0, 1, 2] = sort (map InitPrio_value ?order)" "nested [0, 1, 2] ?ops 0 = Some (0, ?es)" by simp_all
  from init_is_nested[OF _ _ this] obtain l where l: "register_objects ?order library_start = (Ret (), l)"
    "\<And>g w g' w'. sg_lib g = l \<Longrightarrow> startup_run False ?ops (g, w) = (Ret (), (g', w')) \<Longrightarrow> init_log (sg_lib g') = ?es"
    by fastforce
  have "register_objects ?order library_start = (Ret (), library_start\<lparr>init_data := Some [(0, 0), (1, 1), (2, 2)]\<rparr>)"
    by (simp add: register_objects_def registerInitable_def createInitData_def library_start_def act_defs)
  with l(1) have "l = library_start\<lparr>init_data := Some [(0, 0), (1, 1), (2, 2)]\<rparr>" by simp
  then obtain g' w' where run: "startup_run False ?ops (settings_start\<lparr>sg_lib := l\<rparr>, world_of [ok 0, ok 1]) = (Ret (), (g', w'))"
    by (simp add: startup_run_def startup_init_def startup_finish_def Initable_libInit_def
      Initable_libExit_def MutexAttr_libInit_def MutexAttr_libExit_def RunningOnValgrind_libInit_def CheckStdioTTYs_libInit_def
      refresh_tty_detection_def get_env_var_def on_lib_def call_libInit_def call_libExit_def
      settings_start_def library_start_def world_of_def act_defs kernel_defs)
  have "sg_lib (settings_start\<lparr>sg_lib := l\<rparr>) = l" by simp
  with l(1) run l(2)[OF _ run] show ?thesis by blast
qed

text \<open>What a successful initialization asks of the system.\<close>

definition mutex_answers :: "bool \<Rightarrow> answer list" where
  "mutex_answers debug = (if debug then [ok 0, ok 0] else [])"

text \<open>
  C37: In a program that was started with its standard output closed the first \<^verbatim>\<open>init()\<close> throws: the
  objects for mutexes and for Valgrind are initialized, the one for the terminals is not.  But
  the call counts, so any other \<^verbatim>\<open>init()\<close> after it returns without doing anything, and the program that
  uses the main wrapper ends with the status of a failure before it is constructed.
\<close>

theorem failed_startup_counts:
  assumes "init_data (sg_lib g) = Some registry" "init_counter (sg_lib g) = 0" "initialized (sg_lib g) = {}"
    and "answers w = mutex_answers debug @ [ok 0, ok 0, ok 0, a]" "rv a \<noteq> 1" "err a = Some er" "er \<noteq> errno_of Errno_NOT_A_TTY"
  shows "\<exists>g' w'. startup_init debug (g, w) = (Throw (ApiError ''isatty:'' er), (g', w')) \<and>
    initialized (sg_lib g') = {InitPrio_value MUTEX_ATTR, InitPrio_value RUNNING_ON_VALGRIND} \<and>
    (\<forall>v. startup_init debug (g', v) = (Ret (), (g'\<lparr>sg_lib := (sg_lib g')\<lparr>init_counter := 2\<rparr>\<rparr>, v))) \<and>
    cosmos_main debug wt p argv (g, w) = (Ret 1, (g'\<lparr>sg_cerr := sg_cerr g' @ ''Error starting program: '' @
      wt (ApiError ''isatty:'' er) @ newline\<rparr>, w'))"
  using assms
  by (cases debug) (simp_all add: startup_init_def cosmos_main_def mutex_answers_def registry_def Initable_libInit_def MutexAttr_libInit_def
      RunningOnValgrind_libInit_def CheckStdioTTYs_libInit_def refresh_tty_detection_def get_env_var_def isTTY_def pthread_call_def
      on_lib_def call_libInit_def print_cerr_def act_defs kernel_defs insert_commute)

theorem failed_startup_counts_witness:
  "\<exists>g w g' w'. startup_init True (g, w) = (Throw (ApiError ''isatty:'' 9), (g', w')) \<and> startup_init True (g', w') =
     (Ret (), (g'\<lparr>sg_lib := (sg_lib g')\<lparr>init_counter := 2\<rparr>\<rparr>, w'))"
proof -
  let ?g = "settings_start\<lparr>sg_lib := library_start\<lparr>init_data := Some registry\<rparr>\<rparr>"
  let ?w = "(world_of [])\<lparr>answers := mutex_answers True @ [ok 0, ok 0, ok 0, failed Errno_BAD_FD]\<rparr>"
  from failed_startup_counts[of ?g ?w True "failed Errno_BAD_FD" 9] show ?thesis
    by (fastforce simp: settings_start_def library_start_def)
qed

text \<open>An action that leaves the library alone.\<close>

definition keeps_library :: "(settings \<times> world, 'a) act \<Rightarrow> bool" where
  "keeps_library m \<longleftrightarrow> (\<forall>s. sg_lib (fst (snd (m s))) = sg_lib (fst s))"

lemma finish_after_init: "init_counter l = 0 \<Longrightarrow> initialized l = {} \<Longrightarrow> init_data l = Some m \<Longrightarrow>
    lib_finish (lib_init l) = l\<lparr>init_log := init_log l @ map LibInit (map snd m) @ map LibExit (rev (map snd m))\<rparr>"
  by (simp add: lib_init_def lib_finish_def Let_def InitData_init_eq InitData_finish_eq)

lemma keeps_libraryD: "keeps_library m \<Longrightarrow> m s = (r, (g', w')) \<Longrightarrow> sg_lib g' = sg_lib (fst s)"
  unfolding keeps_library_def by (metis fst_conv snd_conv)

lemma keeps_bind: "keeps_library m \<Longrightarrow> (\<And>x. keeps_library (f x)) \<Longrightarrow> keeps_library (bind m f)"
  unfolding keeps_library_def by (auto simp: bind_def split: prod.split outcome.split) (metis fst_conv snd_conv)+

lemma keeps_catch: "keeps_library m \<Longrightarrow> (\<And>x. keeps_library (h x)) \<Longrightarrow> keeps_library (catch m h)"
  unfolding keeps_library_def by (auto simp: catch_def split: prod.split outcome.split) (metis fst_conv snd_conv)+

lemma keeps_simps [simp]: "keeps_library (ret x)" "keeps_library (abort n)" "keeps_library (print_cerr s)"
  by (simp_all add: keeps_library_def print_cerr_def act_defs)

lemma keeps_run_main: "(\<And>args. keeps_library (pr_main p args)) \<Longrightarrow> keeps_library (run_main wt p argv)"
  by (auto simp: run_main_def andthen_def split: option.split intro!: keeps_bind keeps_catch)

lemma main_body:
  "keeps_library (pr_ctor p) \<Longrightarrow> (\<And>args. keeps_library (pr_main p args)) \<Longrightarrow>
     keeps_library (bind (pr_ctor p) (\<lambda>c. case c of Inl _ \<Rightarrow> abort terminated | Inr _ \<Rightarrow> run_main wt p argv))"
  by (auto intro!: keeps_bind keeps_run_main split: sum.split)

text \<open>
  C36: The main wrapper: when the constructor and the main function of the program leave the library
  as they found it, then so does the wrapper, and the objects that were initialized for the
  program are given up again, however the program ends: with a status it returns, a status it
  throws, or an exception, which is printed and counts as a failure.
\<close>

theorem main_leaves_library_as_found:
  assumes "init_data (sg_lib g) = Some m" "init_counter (sg_lib g) = 0" "initialized (sg_lib g) = {}"
    and "keeps_library (pr_ctor p)" "\<And>args. keeps_library (pr_main p args)"
    and start: "startup_init debug (g, w) = (Ret (), s1)"
    and run: "cosmos_main debug wt p argv (g, w) = (Ret status, (g', w'))"
  shows "sg_lib g' = (sg_lib g)\<lparr>init_log := init_log (sg_lib g) @ map LibInit (map snd m) @ map LibExit (rev (map snd m))\<rparr> \<and>
    (case pr_ctor p s1 of
       (Ret (Inr _), s2) \<Rightarrow> (\<exists>args. make_args (pr_kind p) argv = Some args \<and>
         status = (case fst (pr_main p args s2) of Ret (Inl thrown) \<Rightarrow> thrown | Ret (Inr returned) \<Rightarrow> returned | _ \<Rightarrow> 1))
     | (Throw ex, s2) \<Rightarrow> status = 1 | _ \<Rightarrow> False)"
proof -
  obtain g1 w1 where s1: "s1 = (g1, w1)" by force
  let ?body = "bind (pr_ctor p) (\<lambda>c. case c of Inl _ \<Rightarrow> abort terminated | Inr _ \<Rightarrow> run_main wt p argv)"
  obtain r2 g2 w2 where body: "?body (g1, w1) = (r2, (g2, w2))" by (metis prod_cases3)
  obtain r3 g3 w3 where fin: "startup_finish debug (g2, w2) = (r3, (g3, w3))" by (metis prod_cases3)
  have "sg_lib g1 = lib_init (sg_lib g)" using startup_init_lib start s1 by simp
  moreover have "sg_lib g2 = sg_lib g1" using keeps_libraryD[OF main_body[OF assms(4,5)] body] by simp
  moreover have whole: "(r2 = Ret status \<and> r3 = Ret () \<and> g' = g3) \<or>
      (\<exists>ex. r2 = Throw ex \<and> r3 = Ret () \<and> status = 1 \<and> sg_lib g' = sg_lib g3)"
    using run start body fin startup_finish_lib[OF fin]
    by (auto simp: cosmos_main_def s1 print_cerr_def act_defs split: outcome.splits)
  ultimately have "sg_lib g' = lib_finish (lib_init (sg_lib g))" using startup_finish_lib[OF fin] by auto
  moreover have "case pr_ctor p s1 of
       (Ret (Inr _), s2) \<Rightarrow> (\<exists>args. make_args (pr_kind p) argv = Some args \<and>
         status = (case fst (pr_main p args s2) of Ret (Inl thrown) \<Rightarrow> thrown | Ret (Inr returned) \<Rightarrow> returned | _ \<Rightarrow> 1))
     | (Throw ex, s2) \<Rightarrow> status = 1 | _ \<Rightarrow> False"
    using whole body
    by (auto simp: s1 run_main_def print_cerr_def act_defs split: outcome.splits prod.splits sum.splits option.splits)
  ultimately show ?thesis using finish_after_init[OF assms(2,3,1)] by simp
qed

definition failing_program :: program where
  "failing_program = \<lparr>pr_kind = MainContainerArgs, pr_ctor = ret (Inr ()), pr_main = (\<lambda>_. throw (RuntimeError ''failed''))\<rparr>"

theorem main_leaves_library_as_found_witness:
  "\<exists>g' w'. cosmos_main False (\<lambda>_. ''failed'') failing_program [''prog'']
     (settings_start\<lparr>sg_lib := library_start\<lparr>init_data := Some registry\<rparr>\<rparr>, world_of [ok 0, ok 1]) = (Ret 1, (g', w')) \<and>
     sg_lib g' = library_start\<lparr>init_data := Some registry, init_log := [LibInit 0, LibInit 1, LibInit 2, LibExit 2, LibExit 1, LibExit 0]\<rparr>"
proof -
  let ?g = "settings_start\<lparr>sg_lib := library_start\<lparr>init_data := Some registry\<rparr>\<rparr>"
  note run_defs = startup_init_def startup_finish_def cosmos_main_def run_main_def failing_program_def registry_def Initable_libInit_def
    Initable_libExit_def MutexAttr_libInit_def MutexAttr_libExit_def RunningOnValgrind_libInit_def CheckStdioTTYs_libInit_def
    refresh_tty_detection_def get_env_var_def on_lib_def call_libInit_def call_libExit_def print_cerr_def make_args_def
    settings_start_def library_start_def world_of_def act_defs kernel_defs
  have keeps: "keeps_library (pr_ctor failing_program)" "\<And>args. keeps_library (pr_main failing_program args)"
    by (simp_all add: failing_program_def keeps_library_def act_defs)
  obtain s1 where start: "startup_init False (?g, world_of [ok 0, ok 1]) = (Ret (), s1)" by (simp add: run_defs)
  obtain g' w' where run: "cosmos_main False (\<lambda>_. ''failed'') failing_program [''prog''] (?g, world_of [ok 0, ok 1]) = (Ret 1, (g', w'))"
    by (simp add: run_defs)
  have "init_data (sg_lib ?g) = Some registry" "init_counter (sg_lib ?g) = 0" "initialized (sg_lib ?g) = {}"
    by (simp_all add: settings_start_def library_start_def)
  from main_leaves_library_as_found[OF this keeps start run] run show ?thesis
    by (simp add: registry_def settings_start_def library_start_def)
qed

end
