(* ===== verification/Wrappers.thy ===== *)
theory Wrappers
  imports FileInfo Process
begin

text \<open>
  Smaller parts of the library: the search for programs and the numbers of devices
  (\<^verbatim>\<open>src/fs/filesystem.cxx\<close>), random data, the names of the system, the locale, wide strings
  (\<^verbatim>\<open>src/string.cxx\<close>), the range of the real-time signals (\<^verbatim>\<open>include/proc/signal.hxx\<close>) and
  sleeping (\<^verbatim>\<open>include/time/time.hxx\<close>).
\<close>

subsection \<open>Searching programs: which() (src/fs/filesystem.cxx)\<close>

text \<open>The file is a local object; whatever goes wrong with it, the file is not executable.\<close>

definition checkExecutable :: "string \<Rightarrow> (world, bool) act" where
  "checkExecutable path = catch
     (scoped FDFile_default
       (andthen (File_open_default path READ_ONLY)
         (bind (this (\<lambda>f. m_fd (fb_fd f))) (\<lambda>fd.
           catch (bind (on_world (with_local (FileStat_reset (FileStat_of (ok 0))) (updateFrom_fd fd))) (\<lambda>(_, status). ret
               (if \<not> FileType_is (FileStat_type status) FT_REGULAR then False
                else if \<not> FileMode_canAnyExec (FileMode_of (FileStat_rawMode status)) then False
                else True)))
             (\<lambda>_. ret False))))
       FDFile_destroy)
     (\<lambda>_. ret False)"

fun which_loop :: "string \<Rightarrow> string list \<Rightarrow> (world, string option) act" where
  "which_loop exec_base [] = ret None"
| "which_loop exec_base (dir # dirs) = (let path = dir @ ''/'' @ exec_base in
     bind (checkExecutable path) (\<lambda>found. if found then ret (Some path) else which_loop exec_base dirs))"

definition which :: "string \<Rightarrow> (world, string option) act" where
  "which exec_base =
     (if exec_base = [] then ret None
      else if CHR ''/'' \<in> set exec_base
      then bind (checkExecutable exec_base) (\<lambda>found. ret (if found then Some exec_base else None))
      else bind (get_env_var ''PATH'') (\<lambda>pathvar. case pathvar of None \<Rightarrow> ret None
        | Some p \<Rightarrow> (case split p '':'' (BitMask_of_list []) 0 of
              Ret paths \<Rightarrow> which_loop exec_base paths
            | _ \<Rightarrow> abort terminated)))"

subsection \<open>Numbers of devices\<close>

text \<open>
  The macros of the C library: the major number is in two parts around the low part of the
  minor number.
\<close>

type_synonym DeviceID = "64 word"

definition dev_major :: "DeviceID \<Rightarrow> 32 word" where
  "dev_major d = ucast (drop_bit 8 (d AND 0xfff00)) OR ucast (drop_bit 32 (d AND 0xfffff00000000000))"

definition dev_minor :: "DeviceID \<Rightarrow> 32 word" where
  "dev_minor d = ucast (d AND 0xff) OR ucast (drop_bit 12 (d AND 0xffffff00000))"

definition dev_makedev :: "32 word \<Rightarrow> 32 word \<Rightarrow> DeviceID" where
  "dev_makedev ma mi = push_bit 8 (ucast ma AND 0xfff) OR push_bit 32 (ucast ma AND 0xfffff000) OR
     (ucast mi AND 0xff) OR push_bit 12 (ucast mi AND 0xffffff00)"

definition split_device_id :: "DeviceID \<Rightarrow> 32 word \<times> 32 word" where
  "split_device_id d = (dev_major d, dev_minor d)"

definition make_device :: "32 word \<Rightarrow> 32 word \<Rightarrow> DeviceID" where
  "make_device ma mi = dev_makedev ma mi"

subsection \<open>Random data (src/random.cxx)\<close>

datatype GetRandomFlag = GR_FROM_RANDOM | GR_NONBLOCK

primrec GetRandomFlag_value :: "GetRandomFlag \<Rightarrow> 32 word" where
  "GetRandomFlag_value GR_FROM_RANDOM = 2"
| "GetRandomFlag_value GR_NONBLOCK = 1"

text \<open>The kernel says how many bytes it wrote, and which.\<close>

definition getrandom :: "nat \<Rightarrow> 32 mask \<Rightarrow> (world, nat \<times> string) act" where
  "getrandom amount flags = syscall_loop
     (bind (call ''getrandom'' [I (int amount), I (uint flags)]) (\<lambda>a.
        if 0 \<le> rv a then ret (Some (nat (rv a), out a))
        else bind get_errno (\<lambda>e. bind (gets auto_restart_syscalls) (\<lambda>restart.
          if restart \<and> e = errno_of Errno_INTERRUPTED then ret None else throw_ApiError ''getrandom()''))))"

text \<open>A vector of zeros, written to and cut to what was written.\<close>

definition get_random :: "nat \<Rightarrow> 32 mask \<Rightarrow> (world, string) act" where
  "get_random amount flags = bind (getrandom amount flags) (\<lambda>(n, bs).
     let buf = take amount (take n bs) @ drop (length (take amount (take n bs))) (replicate amount NUL)
     in ret (take n buf @ replicate (n - amount) NUL))"

subsection \<open>Names of the system (src/uname.cxx)\<close>

text \<open>
  The structure that the call fills; its fields are C strings, here one after the other in the
  answer.
\<close>

record Uname =
  sysname :: string
  nodename :: string
  domainname :: string
  release :: string
  version :: string
  machine :: string

definition Uname_empty :: Uname where
  "Uname_empty = \<lparr>sysname = [], nodename = [], domainname = [], release = [], version = [], machine = []\<rparr>"

definition uname_of :: "string \<Rightarrow> Uname" where
  "uname_of bs = (let f = (\<lambda>n. take 65 (drop (65 * n) bs)) in
     \<lparr>sysname = f 0, nodename = f 1, domainname = f 5, release = f 2, version = f 3, machine = f 4\<rparr>)"

definition Uname_update :: "(Uname \<times> world, unit) act" where
  "Uname_update = bind (on_world (call ''uname'' [])) (\<lambda>a.
     if rv a \<noteq> 0 then on_world (throw_ApiError ''uname()'') else set_this (\<lambda>_. uname_of (out a)))"

definition Uname_create :: "bool \<Rightarrow> (world, Uname) act" where
  "Uname_create fetch_data = bind (with_local Uname_empty (if fetch_data then Uname_update else ret ())) (\<lambda>(_, u). ret u)"

definition sysName :: "Uname \<Rightarrow> string" where "sysName u = c_str (sysname u)"

definition nodeName :: "Uname \<Rightarrow> string" where "nodeName u = c_str (nodename u)"

definition domainName :: "Uname \<Rightarrow> string" where "domainName u = c_str (domainname u)"

definition uname_release :: "Uname \<Rightarrow> string" where "uname_release u = c_str (release u)"

definition uname_version :: "Uname \<Rightarrow> string" where "uname_version u = c_str (version u)"

definition uname_machine :: "Uname \<Rightarrow> string" where "uname_machine u = c_str (machine u)"

subsection \<open>The locale (src/locale.cxx)\<close>

datatype Category = LC_CTYPE_CAT | LC_NUMERIC_CAT | LC_TIME_CAT | LC_COLLATE_CAT | LC_MONETARY_CAT | LC_MESSAGES_CAT
  | LC_ALL_CAT | LC_PAPER_CAT | LC_NAME_CAT | LC_ADDRESS_CAT | LC_TELEPHONE_CAT | LC_MEASUREMENT_CAT | LC_IDENTIFICATION_CAT

primrec Category_value :: "Category \<Rightarrow> int" where
  "Category_value LC_CTYPE_CAT = 0"
| "Category_value LC_NUMERIC_CAT = 1"
| "Category_value LC_TIME_CAT = 2"
| "Category_value LC_COLLATE_CAT = 3"
| "Category_value LC_MONETARY_CAT = 4"
| "Category_value LC_MESSAGES_CAT = 5"
| "Category_value LC_ALL_CAT = 6"
| "Category_value LC_PAPER_CAT = 7"
| "Category_value LC_NAME_CAT = 8"
| "Category_value LC_ADDRESS_CAT = 9"
| "Category_value LC_TELEPHONE_CAT = 10"
| "Category_value LC_MEASUREMENT_CAT = 11"
| "Category_value LC_IDENTIFICATION_CAT = 12"

text \<open>A query does not fail for these categories, so the pointer it returns is never null.\<close>

definition locale_get :: "Category \<Rightarrow> (world, string) act" where
  "locale_get cat = bind (call ''setlocale'' [I (Category_value cat), I 0]) (\<lambda>a. ret (c_str (out a)))"

definition locale_set :: "Category \<Rightarrow> string \<Rightarrow> (world, unit) act" where
  "locale_set cat val = bind (call ''setlocale'' [I (Category_value cat), S val]) (\<lambda>a.
     if rv a = 0 then throw_ApiError ''setlocale()'' else ret ())"

definition set_to_default :: "Category \<Rightarrow> (world, unit) act" where
  "set_to_default cat = locale_set cat ''C''"

definition set_from_environment :: "Category \<Rightarrow> (world, unit) act" where
  "set_from_environment cat = locale_set cat []"

subsection \<open>Wide strings (src/string.cxx)\<close>

text \<open>
  A wide character is a number of 32 bits; what is a space and the two cases are up to the
  locale, parameters.  The function that decides what to strip takes a \<^verbatim>\<open>char\<close>: the wide
  character is cut to its low byte, and extended again, with its sign, for the test.
\<close>

type_synonym wchar = "32 word"

definition wide_to_lower :: "(wchar \<Rightarrow> wchar) \<Rightarrow> wchar list \<Rightarrow> wchar list" where
  "wide_to_lower towlower s = map towlower s"

definition wide_to_upper :: "(wchar \<Rightarrow> wchar) \<Rightarrow> wchar list \<Rightarrow> wchar list" where
  "wide_to_upper towupper s = map towupper s"

definition narrowed :: "wchar \<Rightarrow> wchar" where
  "narrowed c = scast (ucast c :: 8 word)"

definition wide_stripit :: "(wchar \<Rightarrow> bool) \<Rightarrow> wchar list \<Rightarrow> wchar \<Rightarrow> bool" where
  "wide_stripit iswspace strip_set c = (if strip_set = [] then iswspace (narrowed c) else narrowed c \<in> set strip_set)"

fun wide_strip_front :: "(wchar \<Rightarrow> bool) \<Rightarrow> wchar list \<Rightarrow> wchar list" where
  "wide_strip_front pr [] = []"
| "wide_strip_front pr (c # s) = (if pr c then wide_strip_front pr s else c # s)"

function wide_strip_back :: "(wchar \<Rightarrow> bool) \<Rightarrow> wchar list \<Rightarrow> wchar list" where
  "wide_strip_back pr s = (if s \<noteq> [] \<and> pr (last s) then wide_strip_back pr (butlast s) else s)"
  by pat_completeness auto
termination by (relation "measure (\<lambda>(_, s). length s)") auto

declare wide_strip_back.simps [simp del]

definition wide_strip :: "(wchar \<Rightarrow> bool) \<Rightarrow> wchar list \<Rightarrow> wchar list \<Rightarrow> wchar list" where
  "wide_strip iswspace s strip_set =
     wide_strip_back (wide_stripit iswspace strip_set) (wide_strip_front (wide_stripit iswspace strip_set) s)"

subsection \<open>Real-time signals (include/proc/signal.hxx)\<close>

text \<open>The range of the C library, which keeps the first two for itself.\<close>

definition SIGRTMIN :: int where "SIGRTMIN = 34"

definition SIGRTMAX :: int where "SIGRTMAX = 64"

definition rt_min :: int where "rt_min = SIGRTMIN"

definition rt_max :: int where "rt_max = SIGRTMAX"

definition num_rt_sigs :: int where "num_rt_sigs = rt_max - rt_min"

text \<open>The results of \<^verbatim>\<open>signal()\<close> are not looked at.\<close>

definition sig_restore :: "int \<Rightarrow> (world, unit) act" where
  "sig_restore sig = bind (call ''signal'' [I sig, I 0]) (\<lambda>_. ret ())"

definition sig_ignore :: "int \<Rightarrow> (world, unit) act" where
  "sig_ignore sig = bind (call ''signal'' [I sig, I 1]) (\<lambda>_. ret ())"

subsection \<open>What the search finds\<close>

text \<open>What the kernel has to say about one path: no access, no status, or the file and its status.\<close>

datatype look = NoAccess Errno | NoStatus int Errno | Found int FileStat

text \<open>The calls of looking at a path, the file opened for reading and closed on execution.\<close>

definition open_call :: "string \<Rightarrow> syscall" where
  "open_call path = Call ''open'' [S path, I 0x80000, I 0]"

primrec look_calls :: "string \<Rightarrow> look \<Rightarrow> (syscall \<times> answer) list" where
  "look_calls path (NoAccess e) = [(open_call path, failed e)]"
| "look_calls path (NoStatus fd e) =
     [(open_call path, ok fd), (Call ''fstat'' [I fd], failed e), (Call ''close'' [I fd], ok 0)]"
| "look_calls path (Found fd s) =
     [(open_call path, ok fd), (Call ''fstat'' [I fd], stat_answer_of s), (Call ''close'' [I fd], ok 0)]"

text \<open>The descriptors are new ones.\<close>

primrec look_fresh :: "resource set \<Rightarrow> look \<Rightarrow> bool" where
  "look_fresh R (NoAccess e) \<longleftrightarrow> True"
| "look_fresh R (NoStatus fd e) \<longleftrightarrow> 0 \<le> fd \<and> Fd fd \<notin> R"
| "look_fresh R (Found fd s) \<longleftrightarrow> 0 \<le> fd \<and> Fd fd \<notin> R"

primrec is_program :: "look \<Rightarrow> bool" where
  "is_program (NoAccess e) \<longleftrightarrow> False"
| "is_program (NoStatus fd e) \<longleftrightarrow> False"
| "is_program (Found fd s) \<longleftrightarrow> st_mode s AND 0xf000 = 0x8000 \<and> (\<exists>n \<in> {0, 3, 6}. bit (st_mode s) n)"

lemma any_exec: "FileMode_canAnyExec (FileMode_of m) \<longleftrightarrow> (\<exists>n \<in> {0, 3, 6}. bit m n)"
proof -
  have "BitMask_anyOf_list (FileMode_of m) (map FileModeBit_value [OWNER_EXEC, GROUP_EXEC, OTHER_EXEC]) =
      Inr (\<exists>n \<in> {0, 3, 6}. n \<in> bits (FileMode_of m))"
    using bits_mode_bit(6,9,12) by (subst anyOf_list_iff) auto
  moreover have "bits (FileMode_of m) = {n. bit m n \<and> bit (NOT 0xF000 :: 32 word) n}"
    by (simp add: FileMode_of_def ModeT_and_def bits_def bit_and_iff del: bit_minus_numeral_Bit0_Suc_iff)
  moreover have "bit (NOT 0xF000 :: 32 word) 0" "bit (NOT 0xF000 :: 32 word) 3" "bit (NOT 0xF000 :: 32 word) 6" by simp_all
  ultimately show ?thesis by (auto simp: FileMode_canAnyExec_def)
qed

lemma file_opened:
  assumes "answers w = a # as"
  shows "File_open_default path READ_ONLY (FDFile_default, w) =
    (let w' = snd (call ''open'' [S path, raw_open_flags cloexec_flags READ_ONLY, I 0] w) in
     if rv a = -1 then (Throw (FileError path ''open'' (errno_after (errno_var w) a)), (FDFile_default, w'))
     else (Ret (), (FDFile_default\<lparr>fb_fd := FD (rv a)\<rparr>, w')))"
proof -
  have "\<not> (needs_fmode cloexec_flags \<and> (None :: FileMode option) = None)"
    by (simp add: needs_fmode_def BitMask_test_def cloexec_flags_def BitMask_of_list_def)
  then show ?thesis using assms
    by (simp add: File_open_default_def File_open_def fs_open_def FDFile_close_def FileBase_close_def FDFile_default_def
        FileBase_isOpen_def fmode_arg_def act_defs kernel_defs Let_def)
qed

lemma file_destroyed:
  assumes "answers w = ok 0 # as" "0 \<le> fd"
  shows "FDFile_destroy (FDFile_default\<lparr>fb_fd := FD fd\<rparr>, w) = (Ret (), (FDFile_default, snd (call ''close'' [I fd] w)))"
  using assms by (simp add: FDFile_destroy_def FileBase_destroy_def FileBase_close_def FDFile_default_def FileBase_isOpen_def
      FD_close_def on_fd_def FD_valid_def FD_def FD_reset_def FD_default_def act_defs kernel_defs)

lemma m_fd_FD: "m_fd (FD fd) = fd"
  by (simp add: FD_def)

lemma open_call_args: "Call ''open'' [S path, raw_open_flags cloexec_flags READ_ONLY, I 0] = open_call path"
  by (simp add: open_call_def raw_open_flags_def cloexec_flags_def BitMask_of_list_def BitMask_raw_def)

lemma check_answered:
  assumes "answers w = map snd (look_calls path l) @ as" "look_fresh (live_in w) l"
  shows "\<exists>w'. checkExecutable path w = (Ret (is_program l), w') \<and> runs_to w (look_calls path l) w' \<and>
    answers w' = as \<and> live_in w' = live_in w"
proof (cases l)
  case (NoAccess e)
  with assms have "answers w = failed e # as" by simp
  with file_opened[OF this, of path] NoAccess assms show ?thesis
    by (simp add: checkExecutable_def FDFile_destroy_def FileBase_destroy_def FileBase_close_invalid FDFile_default_def
        opens_fd_def runs_to_def open_call_args[symmetric] act_defs kernel_defs Let_def)
next
  case (NoStatus fd e)
  with assms have "answers w = ok fd # failed e # ok 0 # as" by simp
  with file_opened[OF this, of path] NoStatus assms show ?thesis
    by (auto simp: checkExecutable_def file_destroyed updateFrom_fd_def
        opens_fd_def live_def runs_to_def open_call_args[symmetric] act_defs kernel_defs Let_def m_fd_FD)
next
  case (Found fd s)
  with assms have "answers w = ok fd # stat_answer_of s # ok 0 # as" by simp
  with file_opened[OF this, of path] Found assms show ?thesis
    by (auto simp: checkExecutable_def file_destroyed updateFrom_fd_def FileStat_of_answer any_exec FileStat_type_is
        FileStat_rawMode_def
        opens_fd_def live_def runs_to_def open_call_args[symmetric] act_defs kernel_defs Let_def m_fd_FD)
qed

text \<open>The search among paths of a file system: all of them up to the first that is a program.\<close>

fun search_calls :: "(string \<Rightarrow> look) \<Rightarrow> string list \<Rightarrow> (syscall \<times> answer) list" where
  "search_calls fs [] = []"
| "search_calls fs (p # ps) = look_calls p (fs p) @ (if is_program (fs p) then [] else search_calls fs ps)"

definition in_dirs :: "string \<Rightarrow> string list \<Rightarrow> string list" where
  "in_dirs exec_base dirs = map (\<lambda>d. d @ ''/'' @ exec_base) dirs"

lemma search_answered:
  assumes "answers w = map snd (search_calls fs (in_dirs exec_base ds)) @ as" "\<And>p. look_fresh (live_in w) (fs p)"
  shows "\<exists>w'. which_loop exec_base ds w = (Ret (List.find (\<lambda>p. is_program (fs p)) (in_dirs exec_base ds)), w') \<and>
    runs_to w (search_calls fs (in_dirs exec_base ds)) w' \<and> answers w' = as \<and> live_in w' = live_in w"
  using assms
proof (induction ds arbitrary: w)
  case Nil
  then show ?case by (simp add: in_dirs_def act_defs)
next
  case (Cons d ds)
  let ?p = "d @ ''/'' @ exec_base"
  let ?rest = "if is_program (fs ?p) then [] else search_calls fs (in_dirs exec_base ds)"
  have "answers w = map snd (look_calls ?p (fs ?p)) @ (map snd ?rest @ as)"
    using Cons.prems(1) by (simp add: in_dirs_def)
  from check_answered[OF this Cons.prems(2)] obtain v where v:
    "checkExecutable ?p w = (Ret (is_program (fs ?p)), v)" "runs_to w (look_calls ?p (fs ?p)) v"
    "answers v = map snd ?rest @ as" "live_in v = live_in w" by blast
  show ?case
  proof (cases "is_program (fs ?p)")
    case True
    with v show ?thesis by (auto simp: in_dirs_def bind_def ret_def Let_def)
  next
    case False
    with Cons.IH[of v] v(3,4) Cons.prems(2) obtain w' where
      "which_loop exec_base ds v = (Ret (List.find (\<lambda>p. is_program (fs p)) (in_dirs exec_base ds)), w')"
      "runs_to v (search_calls fs (in_dirs exec_base ds)) w'" "answers w' = as" "live_in w' = live_in w"
      by auto
    with False v(1) runs_to_trans[OF v(2)] show ?thesis by (auto simp: in_dirs_def bind_def Let_def)
  qed
qed

text \<open>
  C38: \<^verbatim>\<open>which()\<close> opens the file of the given name under the directories of PATH, in order, and returns the
  first path where the file can be opened, is a regular file and has a bit for execution, whoever
  that bit is for; it opens nothing behind that one, empty entries are left out, and every file that it
  opened is closed again.  A name with a slash is only looked at itself, an empty name and a missing PATH
  find nothing, and so does every error.
\<close>

theorem which_finds_first:
  assumes "exec_base \<noteq> []" "0 \<le> rv path" "\<forall>p. look_fresh (live_in w) (fs p)"
    and "paths = in_dirs exec_base (filter (\<lambda>d. d \<noteq> []) (ref_split '':'' (out path)))"
  shows "(CHR ''/'' \<notin> set exec_base \<and> rv path \<noteq> 0 \<and> answers w = path # map snd (search_calls fs paths) @ as \<longrightarrow>
      (\<exists>w'. which exec_base w = (Ret (List.find (\<lambda>p. is_program (fs p)) paths), w') \<and>
       runs_to w ((Call ''getenv'' [S ''PATH''], path) # search_calls fs paths) w' \<and>
       answers w' = as \<and> live_in w' = live_in w)) \<and>
    (CHR ''/'' \<notin> set exec_base \<and> rv path = 0 \<and> answers w = path # as \<longrightarrow>
      (\<exists>w'. which exec_base w = (Ret None, w') \<and> runs_to w [(Call ''getenv'' [S ''PATH''], path)] w')) \<and>
    (CHR ''/'' \<in> set exec_base \<and> answers w = map snd (look_calls exec_base (fs exec_base)) @ as \<longrightarrow>
      (\<exists>w'. which exec_base w = (Ret (if is_program (fs exec_base) then Some exec_base else None), w') \<and>
        runs_to w (look_calls exec_base (fs exec_base)) w' \<and> live_in w' = live_in w)) \<and>
    which [] w = (Ret None, w)"
proof (intro conjI impI)
  let ?ds = "filter (\<lambda>d. d \<noteq> []) (ref_split '':'' (out path))"
  assume a: "CHR ''/'' \<notin> set exec_base \<and> rv path \<noteq> 0 \<and> answers w = path # map snd (search_calls fs paths) @ as"
  let ?v = "snd (call ''getenv'' [S ''PATH''] w)"
  have v: "answers ?v = map snd (search_calls fs (in_dirs exec_base ?ds)) @ as" "live_in ?v = live_in w"
      "runs_to w [(Call ''getenv'' [S ''PATH''], path)] ?v"
    using a assms(4) by (simp_all add: kernel_defs opens_fd_def runs_to_def)
  have "\<not> split_has (BitMask_of_list []) f" for f
    by (cases f) (simp_all add: split_has_def BitMask_has_def BitMask_of_list_def BitMask_test_def)
  then have "split (out path) '':'' (BitMask_of_list []) 0 = Ret ?ds"
    using split_loop_ref[of "'':''" 0 "out path" "BitMask_of_list []" "[]"] by (simp add: split_def kept_parts_def Let_def)
  then have "which exec_base w = which_loop exec_base ?ds ?v"
    using a assms(1) by (simp add: which_def get_env_var_def act_defs kernel_defs)
  moreover obtain w' where "which_loop exec_base ?ds ?v = (Ret (List.find (\<lambda>p. is_program (fs p)) paths), w')"
      "runs_to ?v (search_calls fs paths) w'" "answers w' = as" "live_in w' = live_in w"
    using search_answered[OF v(1)] v(2) assms(3,4) by auto
  ultimately show "\<exists>w'. which exec_base w = (Ret (List.find (\<lambda>p. is_program (fs p)) paths), w') \<and>
       runs_to w ((Call ''getenv'' [S ''PATH''], path) # search_calls fs paths) w' \<and>
       answers w' = as \<and> live_in w' = live_in w"
    using runs_to_trans[OF v(3)] by fastforce
next
  assume "CHR ''/'' \<notin> set exec_base \<and> rv path = 0 \<and> answers w = path # as"
  with assms(1) show "\<exists>w'. which exec_base w = (Ret None, w') \<and> runs_to w [(Call ''getenv'' [S ''PATH''], path)] w'"
    by (simp add: which_def get_env_var_def act_defs kernel_defs runs_to_def)
next
  assume a: "CHR ''/'' \<in> set exec_base \<and> answers w = map snd (look_calls exec_base (fs exec_base)) @ as"
  with check_answered[of w exec_base "fs exec_base" as] assms(1,3)
  show "\<exists>w'. which exec_base w = (Ret (if is_program (fs exec_base) then Some exec_base else None), w') \<and>
      runs_to w (look_calls exec_base (fs exec_base)) w' \<and> live_in w' = live_in w"
    by (auto simp: which_def bind_def ret_def)
qed (simp add: which_def ret_def)

text \<open>A file system with one program, and a directory of the name of the program.\<close>

definition sample_look :: "string \<Rightarrow> look" where
  "sample_look p = (if p = ''/usr/bin/ls'' then Found 3 ((FileStat_of (ok 0))\<lparr>st_mode := 0x81ed\<rparr>)
     else if p = ''/opt/ls'' then Found 3 ((FileStat_of (ok 0))\<lparr>st_mode := 0x41ed\<rparr>) else NoAccess Errno_NO_ENTRY)"

definition sample_paths :: "string list" where
  "sample_paths = [''/bin/ls'', ''/opt/ls'', ''/usr/bin/ls'', ''/sbin/ls'']"

theorem which_finds_first_witness:
  "\<exists>w'. which ''ls'' (world_of (\<lparr>rv = 1, err = None, out = ''/bin::/opt:/usr/bin:/sbin'', outs = []\<rparr> #
      map snd (search_calls sample_look sample_paths) @ [ok 7])) = (Ret (Some ''/usr/bin/ls''), w') \<and>
    live_in w' = {} \<and> answers w' = [ok 7] \<and>
    map fst (trace w') = [Call ''getenv'' [S ''PATH''], open_call ''/bin/ls'',
      open_call ''/opt/ls'', Call ''fstat'' [I 3], Call ''close'' [I 3],
      open_call ''/usr/bin/ls'', Call ''fstat'' [I 3], Call ''close'' [I 3]]"
proof -
  let ?p = "\<lparr>rv = 1, err = None, out = ''/bin::/opt:/usr/bin:/sbin'', outs = []\<rparr>"
  let ?w = "world_of (?p # map snd (search_calls sample_look sample_paths) @ [ok 7])"
  have "filter (\<lambda>d. d \<noteq> []) (ref_split '':'' (out ?p)) = [''/bin'', ''/opt'', ''/usr/bin'', ''/sbin'']" by code_simp
  then have "sample_paths = in_dirs ''ls'' (filter (\<lambda>d. d \<noteq> []) (ref_split '':'' (out ?p)))"
    by (simp add: in_dirs_def sample_paths_def)
  moreover have "\<forall>p. look_fresh (live_in ?w) (sample_look p)"
    by (simp add: sample_look_def world_of_def)
  ultimately obtain w' where w': "which ''ls'' ?w = (Ret (List.find (\<lambda>p. is_program (sample_look p)) sample_paths), w')"
      "runs_to ?w ((Call ''getenv'' [S ''PATH''], ?p) # search_calls sample_look sample_paths) w'"
      "answers w' = [ok 7]" "live_in w' = live_in ?w"
    using which_finds_first[where exec_base = "''ls''" and path = ?p and fs = sample_look and as = "[ok 7]" and w = ?w]
    by (auto simp: world_of_def)
  moreover have "trace ?w = []" "live_in ?w = {}" by (simp_all add: world_of_def)
  ultimately show ?thesis by (auto simp: sample_paths_def sample_look_def runs_to_def)
qed

subsection \<open>Device numbers, random data and wide strings\<close>

lemma dev_masks:
  "(0xfff :: 64 word) = mask 12" "(0xfffff000 :: 64 word) = push_bit 12 (mask 20)" "(0xfff00 :: 64 word) = push_bit 8 (mask 12)"
  "(0xfffff00000000000 :: 64 word) = push_bit 44 (mask 20)" "(0xff :: 64 word) = mask 8"
  "(0xffffff00000 :: 64 word) = push_bit 20 (mask 24)" "(0xffffff00 :: 64 word) = push_bit 8 (mask 24)"
  by code_simp+

text \<open>Where the bits of the two parts are.\<close>

lemma bit_makedev: "n < 64 \<Longrightarrow> bit (dev_makedev ma mi) n \<longleftrightarrow>
    (if n < 8 then bit mi n else if n < 20 then bit ma (n - 8) else if n < 44 then bit mi (n - 12) else bit ma (n - 32))"
  by (auto simp add: dev_makedev_def dev_masks bit_simps)

lemma bit_major: "n < 32 \<Longrightarrow> bit (dev_major d) n \<longleftrightarrow> bit d (if n < 12 then n + 8 else n + 32)"
  by (auto simp add: dev_major_def dev_masks bit_simps ac_simps)

lemma bit_minor: "n < 32 \<Longrightarrow> bit (dev_minor d) n \<longleftrightarrow> bit d (if n < 8 then n else n + 12)"
  by (auto simp add: dev_minor_def dev_masks bit_simps ac_simps)

text \<open>A device number is the pair of its two parts, of 32 bits each, in both directions.\<close>

theorem device_numbers_are_pairs:
  "split_device_id (make_device ma mi) = (ma, mi) \<and> make_device (fst (split_device_id d)) (snd (split_device_id d)) = d"
proof -
  have "dev_major (dev_makedev ma mi) = ma" "dev_minor (dev_makedev ma mi) = mi"
    by (rule bit_word_eqI; simp add: bit_major bit_minor bit_makedev)+
  moreover have "dev_makedev (dev_major d) (dev_minor d) = d"
  proof (rule bit_word_eqI)
    fix n :: nat
    assume n: "n < LENGTH(64)"
    then consider "n < 8" | "8 \<le> n" "n < 20" | "20 \<le> n" "n < 44" | "44 \<le> n" by linarith
    then show "bit (dev_makedev (dev_major d) (dev_minor d)) n = bit d n"
      using n by cases (auto simp: bit_major bit_minor bit_makedev)
  qed
  ultimately show ?thesis by (simp add: split_device_id_def make_device_def)
qed

lemma getrandom_interrupted:
  "answers w = failed Errno_INTERRUPTED # as \<Longrightarrow> auto_restart_syscalls w \<Longrightarrow>
     getrandom n flags w = getrandom n flags (snd (call ''getrandom'' [I (int n), I (uint flags)] w))"
  by (subst getrandom_def, subst loop.simps) (simp add: getrandom_def act_defs kernel_defs)

interpretation random: restarting "getrandom n flags" "''getrandom''" "[I (int n), I (uint flags)]"
  by unfold_locales (rule getrandom_interrupted)

text \<open>
  Random data: interrupted calls are repeated, a short read is what is returned, no byte that
  the kernel did not write is, and every other error, or an interruption without restarting, is thrown.
\<close>

theorem random_data_is_what_was_read:
  assumes "answers w = replicate k (failed Errno_INTERRUPTED) @ a # as" "auto_restart_syscalls w"
  shows "(0 \<le> rv a \<and> rv a \<le> int n \<and> length (out a) = nat (rv a) \<longrightarrow> (\<exists>w'. get_random n flags w = (Ret (out a), w') \<and>
      trace w' = trace w @ replicate k (Call ''getrandom'' [I (int n), I (uint flags)], failed Errno_INTERRUPTED) @
        [(Call ''getrandom'' [I (int n), I (uint flags)], a)])) \<and>
    (rv a < 0 \<and> err a = Some er \<and> er \<noteq> errno_of Errno_INTERRUPTED \<longrightarrow>
      (\<exists>w'. get_random n flags w = (Throw (ApiError ''getrandom()'' er), w') \<and> answers w' = as)) \<and>
    (answers v = failed Errno_INTERRUPTED # bs \<and> \<not> auto_restart_syscalls v \<longrightarrow>
      fst (get_random n flags v) = Throw (ApiError ''getrandom()'' (errno_of Errno_INTERRUPTED)))"
proof -
  let ?c = "Call ''getrandom'' [I (int n), I (uint flags)]"
  have good: "\<exists>w'. getrandom n flags w = (Ret (nat (rv a), out a), w') \<and>
      runs_to w (replicate k (?c, failed Errno_INTERRUPTED) @ [(?c, a)]) w'" if "0 \<le> rv a"
    by (rule random.eventually_answered[OF assms])
      (use that in \<open>auto simp: getrandom_def loop.simps act_defs kernel_defs runs_to_def\<close>)
  have bad: "\<exists>w'. getrandom n flags w = (Throw (ApiError ''getrandom()'' er), w') \<and>
      runs_to w (replicate k (?c, failed Errno_INTERRUPTED) @ [(?c, a)]) w'"
    if "rv a < 0 \<and> err a = Some er \<and> er \<noteq> errno_of Errno_INTERRUPTED"
    by (rule random.eventually_answered[OF assms])
      (use that in \<open>auto simp: getrandom_def loop.simps act_defs kernel_defs runs_to_def\<close>)
  have "fst (getrandom n flags v) = Throw (ApiError ''getrandom()'' (errno_of Errno_INTERRUPTED))"
    if "answers v = failed Errno_INTERRUPTED # bs \<and> \<not> auto_restart_syscalls v"
    using that by (simp add: getrandom_def loop.simps act_defs kernel_defs)
  with good bad assms(1) show ?thesis
    by (fastforce simp: get_random_def bind_def ret_def Let_def runs_to_def split: prod.splits outcome.splits)
qed

theorem random_data_is_what_was_read_witness:
  "\<exists>w'. get_random 4 0 (world_of [failed Errno_INTERRUPTED, \<lparr>rv = 2, err = None, out = ''ab'', outs = []\<rparr>]) = (Ret ''ab'', w')"
  using random_data_is_what_was_read[where w = "world_of [failed Errno_INTERRUPTED, \<lparr>rv = 2, err = None, out = ''ab'', outs = []\<rparr>]"
      and k = 1 and a = "\<lparr>rv = 2, err = None, out = ''ab'', outs = []\<rparr>" and as = "[]" and n = 4 and flags = 0]
  by (fastforce simp: world_of_def)


definition wide_strip_spec :: "(wchar \<Rightarrow> bool) \<Rightarrow> wchar list \<Rightarrow> wchar list" where
  "wide_strip_spec pr s = rev (dropWhile pr (rev (dropWhile pr s)))"

lemma wide_strip_front_eq: "wide_strip_front pr s = dropWhile pr s"
  by (induction s) simp_all

lemma wide_strip_back_eq: "wide_strip_back pr s = rev (dropWhile pr (rev s))"
proof (induction s rule: rev_induct)
  case (snoc c s)
  then show ?case by (subst wide_strip_back.simps) simp
qed (simp add: wide_strip_back.simps)

lemma wide_strip_eq: "wide_strip iswspace s strip_set = wide_strip_spec (wide_stripit iswspace strip_set) s"
  by (simp add: wide_strip_def wide_strip_spec_def wide_strip_front_eq wide_strip_back_eq)

lemma wide_strip_spec_cong:
  assumes "\<And>c. c \<in> set s \<Longrightarrow> p c = q c"
  shows "wide_strip_spec p s = wide_strip_spec q s"
proof -
  have "dropWhile p s = dropWhile q s" using assms by (intro dropWhile_cong) auto
  moreover have "dropWhile p (rev (dropWhile q s)) = dropWhile q (rev (dropWhile q s))"
    using assms by (intro dropWhile_cong) (auto dest: set_dropWhileD)
  ultimately show ?thesis by (simp add: wide_strip_spec_def)
qed

lemma bit_narrowed: "n < 32 \<Longrightarrow> bit (narrowed c) n \<longleftrightarrow> bit c (min n 7)"
  by (simp add: narrowed_def bit_simps min_def)

lemma narrowed_ascii: "c < 0x80 \<Longrightarrow> narrowed c = c"
proof (rule bit_word_eqI)
  fix n :: nat
  assume c: "c < 0x80" and n: "n < LENGTH(32)"
  then have "take_bit 7 (unat c) = unat c" by (simp add: take_bit_nat_eq_self_iff word_less_nat_alt)
  then have "\<not> bit (unat c) m" if "7 \<le> m" for m using that by (metis bit_take_bit_iff not_less)
  then have "\<not> bit c m" if "7 \<le> m" for m using that by (auto simp: bit_unsigned_iff)
  with n show "bit (narrowed c) n = bit c n" by (auto simp: bit_narrowed min_def)
qed

lemma narrowed_values: "narrowed 0x120 = 0x20" "narrowed 0x3000 = 0" "narrowed 0x20AC = 0xFFFFFFAC"
  by (simp_all add: narrowed_def)

text \<open>
  Wide strings are stripped like narrow ones as long as all of their characters are below 128.
  Others are judged by their low byte: the letter U+0120 is taken for a space, the space U+3000 is
  not, and a character like the euro sign is not stripped even if it is in the set.
\<close>

theorem wide_strings_are_stripped_by_low_bytes:
  "((\<forall>c \<in> set s. c < 0x80) \<longrightarrow> wide_strip iswspace s strip_set =
      wide_strip_spec (\<lambda>c. if strip_set = [] then iswspace c else c \<in> set strip_set) s) \<and>
   (iswspace 0x20 \<and> \<not> iswspace 0x120 \<and> \<not> iswspace 0x61 \<longrightarrow> wide_strip iswspace [0x120, 0x61] [] = [0x61]) \<and>
   (\<not> iswspace 0 \<longrightarrow> wide_strip iswspace [0x3000] [] = [0x3000]) \<and>
   wide_strip iswspace [0x20AC] [0x20AC] = [0x20AC]"
proof -
  have "wide_strip_spec (wide_stripit iswspace strip_set) s =
      wide_strip_spec (\<lambda>c. if strip_set = [] then iswspace c else c \<in> set strip_set) s" if "\<forall>c \<in> set s. c < 0x80"
    using that by (intro wide_strip_spec_cong) (simp add: wide_stripit_def narrowed_ascii)
  moreover have "narrowed 0x61 = 0x61" by (rule narrowed_ascii) simp
  ultimately show ?thesis by (simp add: wide_strip_eq wide_stripit_def wide_strip_spec_def narrowed_values)
qed

theorem wide_strings_are_stripped_by_low_bytes_witness:
  "wide_strip (\<lambda>c. c = 0x20 \<or> c = 0x3000) [0x20, 0x61, 0x20] [] = [0x61] \<and>
   wide_strip (\<lambda>c. c = 0x20 \<or> c = 0x3000) [0x120, 0x61] [] = [0x61] \<and>
   wide_strip (\<lambda>c. c = 0x20 \<or> c = 0x3000) [0x3000] [] = [0x3000]"
  using wide_strings_are_stripped_by_low_bytes[of "[0x20, 0x61, 0x20]" "\<lambda>c. c = 0x20 \<or> c = 0x3000" "[]"]
  by (simp add: wide_strip_spec_def)

text \<open>The structure in memory.\<close>

definition utsname_bytes :: "Uname \<Rightarrow> string" where
  "utsname_bytes u = sysname u @ nodename u @ release u @ version u @ machine u @ domainname u"

definition utsname_layout :: "Uname \<Rightarrow> bool" where
  "utsname_layout u \<longleftrightarrow> list_all (\<lambda>s. length s = 65) [sysname u, nodename u, release u, version u, machine u, domainname u]"

lemma uname_of_bytes: "utsname_layout u \<Longrightarrow> uname_of (utsname_bytes u) = u"
  by (cases u) (simp add: uname_of_def utsname_bytes_def utsname_layout_def Let_def)

text \<open>
  The names that the system reports are shown up to their null bytes, and a failing call leaves
  the ones that were shown before.
\<close>

theorem system_names_are_shown:
  assumes "utsname_layout u" "sysname u = s @ NUL # rest" "NUL \<notin> set s"
  shows "(answers w = \<lparr>rv = 0, err = None, out = utsname_bytes u, outs = []\<rparr> # as \<longrightarrow>
      fst (Uname_create True w) = Ret u \<and> sysName u = s) \<and>
    (answers w = a # as \<and> rv a \<noteq> 0 \<and> err a = Some er \<longrightarrow>
      (\<exists>w'. Uname_update (old, w) = (Throw (ApiError ''uname()'' er), (old, w')))) \<and>
    Uname_create False w = (Ret Uname_empty, w) \<and> sysName Uname_empty = []"
proof -
  have "sysName u = s" using assms(2,3) by (auto simp: sysName_def c_str_def takeWhile_append)
  with uname_of_bytes[OF assms(1)] show ?thesis
    by (simp add: Uname_create_def Uname_update_def Uname_empty_def sysName_def c_str_def act_defs kernel_defs)
qed

theorem system_names_are_shown_witness:
  "let u = \<lparr>sysname = ''Linux'' @ replicate 60 NUL, nodename = replicate 65 NUL, domainname = replicate 65 NUL,
      release = ''6.1'' @ replicate 62 NUL, version = replicate 65 NUL, machine = replicate 65 NUL\<rparr>
   in fst (Uname_create True (world_of [\<lparr>rv = 0, err = None, out = utsname_bytes u, outs = []\<rparr>])) = Ret u \<and> sysName u = ''Linux''"
proof -
  let ?u = "\<lparr>sysname = ''Linux'' @ replicate 60 NUL, nodename = replicate 65 NUL, domainname = replicate 65 NUL,
      release = ''6.1'' @ replicate 62 NUL, version = replicate 65 NUL, machine = replicate 65 NUL\<rparr>"
  have "utsname_layout ?u" "sysname ?u = ''Linux'' @ NUL # replicate 59 NUL" "NUL \<notin> set ''Linux''"
    by (simp_all add: utsname_layout_def NUL_def numeral_eq_Suc)
  from system_names_are_shown[OF this, where as = "[]" and w = "world_of [\<lparr>rv = 0, err = None, out = utsname_bytes ?u, outs = []\<rparr>]"]
  show ?thesis by (simp add: world_of_def Let_def)
qed

subsection \<open>Sleeping (include/time/time.hxx)\<close>

text \<open>The durations are those that the nanoseconds can hold.\<close>

definition time_sleep :: "int \<Rightarrow> (world, unit) act" where
  "time_sleep ns = bind (Clock_now MONOTONIC) (\<lambda>now. Clock_sleep MONOTONIC (TimeSpec_plus now (set_ns ns)))"

definition time_sleep_us :: "int \<Rightarrow> (world, unit) act" where
  "time_sleep_us us = time_sleep (us * 1000)"

definition time_sleep_ms :: "int \<Rightarrow> (world, unit) act" where
  "time_sleep_ms ms = time_sleep (ms * 1000000)"

abbreviation sleep_call :: "TimeSpec \<Rightarrow> syscall" where
  "sleep_call until \<equiv> Call ''clock_nanosleep'' [I (ClockType_value MONOTONIC), I TIMER_ABSTIME, timespec_arg until]"

lemma Clock_sleep_interrupted:
  assumes "answers w = replicate k (ok (errno_of Errno_INTERRUPTED)) @ ok 0 # as" "auto_restart_syscalls w"
  shows "\<exists>w'. Clock_sleep MONOTONIC until w = (Ret (), w') \<and> answers w' = as \<and>
     runs_to w (replicate k (sleep_call until, ok (errno_of Errno_INTERRUPTED)) @ [(sleep_call until, ok 0)]) w'"
  using assms
proof (induction k arbitrary: w)
  case 0
  then show ?case by (subst Clock_sleep_def, subst loop.simps) (simp add: runs_to_def act_defs kernel_defs)
next
  case (Suc k)
  let ?v = "snd (call ''clock_nanosleep'' [I (ClockType_value MONOTONIC), I TIMER_ABSTIME, timespec_arg until] w)"
  have v: "answers ?v = replicate k (ok (errno_of Errno_INTERRUPTED)) @ ok 0 # as" "auto_restart_syscalls ?v"
      "runs_to w [(sleep_call until, ok (errno_of Errno_INTERRUPTED))] ?v"
    using Suc.prems by (simp_all add: call_def runs_to_def)
  have "Clock_sleep MONOTONIC until w = Clock_sleep MONOTONIC until ?v"
    using Suc.prems by (subst Clock_sleep_def, subst loop.simps) (simp add: Clock_sleep_def act_defs kernel_defs)
  with Suc.IH[OF v(1,2)] show ?case using runs_to_trans[OF v(3)] by fastforce
qed

text \<open>
  C23: However often a sleep is interrupted, it is continued to the deadline that was computed once, at its start, so
  interruptions do not make it longer.
\<close>

theorem sleep_keeps_its_deadline:
  assumes "answers w = \<lparr>rv = 0, err = None, out = [], outs = [s, n]\<rparr> # replicate k (ok (errno_of Errno_INTERRUPTED)) @ ok 0 # as"
    "auto_restart_syscalls w" "0 \<le> n" "n < 10 ^ 9" "0 \<le> ns"
  defines "until \<equiv> TimeSpec_plus (TimeSpec s n) (set_ns ns)"
  shows "\<exists>w'. time_sleep ns w = (Ret (), w') \<and> answers w' = as \<and> nanoseconds until = nanoseconds (TimeSpec s n) + ns \<and>
     trace w' = trace w @ (Call ''clock_gettime'' [I (ClockType_value MONOTONIC)], \<lparr>rv = 0, err = None, out = [], outs = [s, n]\<rparr>) #
       replicate k (sleep_call until, ok (errno_of Errno_INTERRUPTED)) @ [(sleep_call until, ok 0)]"
proof -
  let ?v = "snd (call ''clock_gettime'' [I (ClockType_value MONOTONIC)] w)"
  have now: "Clock_now MONOTONIC w = (Ret (TimeSpec s n), ?v)"
    using assms(1) by (simp add: Clock_now_def timespec_out_def act_defs kernel_defs)
  have v: "answers ?v = replicate k (ok (errno_of Errno_INTERRUPTED)) @ ok 0 # as" "auto_restart_syscalls ?v"
    using assms(1,2) by (simp_all add: call_def)
  from Clock_sleep_interrupted[OF v, of until] obtain w' where w': "Clock_sleep MONOTONIC until ?v = (Ret (), w')" "answers w' = as"
      "runs_to ?v (replicate k (sleep_call until, ok (errno_of Errno_INTERRUPTED)) @ [(sleep_call until, ok 0)]) w'" by blast
  have "ns smod 1000000000 = ns mod 1000000000" "ns sdiv 1000000000 = ns div 1000000000"
    using assms(5) by (simp_all add: sdiv_nonneg signed_modulo_int_def sgn_if)
  moreover have "ns = ns div 1000000000 * 1000000000 + ns mod 1000000000" by simp
  ultimately have "nanoseconds until = nanoseconds (TimeSpec s n) + ns"
    unfolding until_def
    by (simp add: TimeSpec_plus_def set_ns_def nanoseconds_def NANOSECOND_BASE_def Let_def algebra_simps)
  then show ?thesis
    using now w' assms(1) by (simp add: time_sleep_def until_def bind_def runs_to_def call_def)
qed

definition interrupted_sleep :: world where
  "interrupted_sleep = world_of [\<lparr>rv = 0, err = None, out = [], outs = [100, 900000000]\<rparr>,
     ok (errno_of Errno_INTERRUPTED), ok (errno_of Errno_INTERRUPTED), ok 0]"

theorem sleep_keeps_its_deadline_witness:
  "\<exists>w'. time_sleep 1500000000 interrupted_sleep = (Ret (), w') \<and> length (trace w') = 4"
proof -
  have "answers interrupted_sleep = \<lparr>rv = 0, err = None, out = [], outs = [100, 900000000]\<rparr> #
      replicate 2 (ok (errno_of Errno_INTERRUPTED)) @ ok 0 # []"
    "auto_restart_syscalls interrupted_sleep" "trace interrupted_sleep = []"
    by (simp_all add: interrupted_sleep_def world_of_def numeral_2_eq_2)
  with sleep_keeps_its_deadline[of interrupted_sleep 100 900000000 2 "[]" 1500000000] show ?thesis
    by auto
qed

end
