(* ===== verification/Netcat.thy ===== *)
theory Netcat
  imports Resolution ErrorText Startup
begin

text \<open>
  The sample program \<^verbatim>\<open>sample/netcat.cxx\<close>, which puts the network classes together: it parses its
  command line, resolves an address, connects or listens, and then passes data between its
  standard streams and the socket.  It runs below the main wrapper of theory Startup.
\<close>

subsection \<open>Loops with a \<^verbatim>\<open>break\<close>\<close>

text \<open>
  A range-based loop whose body changes local variables; the body yields \<open>Inl\<close> to leave the loop
  and \<open>Inr\<close> to go on with the next element.
\<close>

partial_function (option) range_until :: "('i \<Rightarrow> 'i \<Rightarrow> bool) \<Rightarrow> ('i \<Rightarrow> exn + 'e) \<Rightarrow> ('i \<Rightarrow> exn + 'i) \<Rightarrow>
    'i \<Rightarrow> ('a \<Rightarrow> 'e \<Rightarrow> 'a + 'a) \<Rightarrow> 'a \<Rightarrow> 'i \<Rightarrow> (exn + 'a) option" where
  "range_until eq deref next stop body vars it =
     (if eq it stop then Some (Inr vars)
      else case deref it of Inl ex \<Rightarrow> Some (Inl ex)
        | Inr x \<Rightarrow> (case body vars x of Inl vars' \<Rightarrow> Some (Inr vars')
            | Inr vars' \<Rightarrow> (case next it of Inl ex \<Rightarrow> Some (Inl ex)
                | Inr it' \<Rightarrow> range_until eq deref next stop body vars' it')))"

fun fold_until :: "('a \<Rightarrow> 'e \<Rightarrow> 'a + 'a) \<Rightarrow> 'a \<Rightarrow> 'e list \<Rightarrow> 'a" where
  "fold_until body vars [] = vars"
| "fold_until body vars (x # xs) = (case body vars x of Inl vars' \<Rightarrow> vars' | Inr vars' \<Rightarrow> fold_until body vars' xs)"

context input_range
begin

lemma visits_until: "spans it xs \<Longrightarrow> range_until eq deref next stop body vars it = Some (Inr (fold_until body vars xs))"
proof (induction xs arbitrary: it vars)
  case Nil
  then show ?case by (simp add: range_until.simps[of eq deref "next" stop body vars it] at_end)
next
  case (Cons x xs)
  then obtain it' where "next it = Inr it'" "spans it' xs" using at_item by blast
  with Cons at_item[OF Cons.prems] show ?case
    by (simp add: range_until.simps[of eq deref "next" stop body vars it] split: sum.split)
qed

end

subsection \<open>The configuration\<close>

record SocketConfig =
  sc_type :: SocketType
  sc_preferred :: SocketFamily
  sc_listen_mode :: bool
  sc_addrspec :: string

definition SocketConfig_default :: SocketConfig where
  "SocketConfig_default = \<lparr>sc_type = SOCK_STREAM, sc_preferred = AF_UNSPEC, sc_listen_mode = False, sc_addrspec = []\<rparr>"

definition matchesPreferred :: "SocketConfig \<Rightarrow> int \<Rightarrow> bool" where
  "matchesPreferred c family \<longleftrightarrow> sc_preferred c = AF_UNSPEC \<or> SocketFamily_value (sc_preferred c) = family"

definition useDgram :: "SocketConfig \<Rightarrow> bool" where
  "useDgram c \<longleftrightarrow> sc_type c = SOCK_DGRAM"

definition useStream :: "SocketConfig \<Rightarrow> bool" where
  "useStream c \<longleftrightarrow> \<not> useDgram c"

definition UNIX_SCHEME :: string where "UNIX_SCHEME = ''unix://''"

definition BAD_CMDLINE :: int where "BAD_CMDLINE = 2"
definition ADDR_ERROR :: int where "ADDR_ERROR = 3"
definition SOCKET_SETUP_ERROR :: int where "SOCKET_SETUP_ERROR = 4"

subsection \<open>The program object\<close>

text \<open>
  The socket is a pointer that may be null.  A method that throws an exit status yields it as
  \<open>Inl\<close>; the exceptions of the library are those of the other theories.
\<close>

record NetCat =
  nc_sock :: "FDFile option"
  nc_config :: SocketConfig

type_synonym 'a netcat = "(NetCat \<times> (settings \<times> world), 'a) act"

definition NetCat_default :: NetCat where
  "NetCat_default = \<lparr>nc_sock = None, nc_config = SocketConfig_default\<rparr>"

definition nc_world :: "(world, 'a) act \<Rightarrow> 'a netcat" where
  "nc_world m = on_world (on_world m)"

definition nc_cerr :: "string \<Rightarrow> unit netcat" where
  "nc_cerr s = on_world (print_cerr s)"

definition unless_thrown :: "('s, int + 'a) act \<Rightarrow> ('a \<Rightarrow> ('s, int + 'b) act) \<Rightarrow> ('s, int + 'b) act" where
  "unless_thrown m f = bind m (\<lambda>r. case r of Inl status \<Rightarrow> ret (Inl status) | Inr x \<Rightarrow> f x)"

definition fail_status :: "string \<Rightarrow> int \<Rightarrow> (int + 'a) netcat" where
  "fail_status msg status = andthen (nc_cerr msg) (ret (Inl status))"

definition set_config :: "(SocketConfig \<Rightarrow> SocketConfig) \<Rightarrow> unit netcat" where
  "set_config f = set_this (\<lambda>n. n\<lparr>nc_config := f (nc_config n)\<rparr>)"

text \<open>Handlers of \<^verbatim>\<open>CosmosError\<close> let the exceptions of the C++ library pass.\<close>

definition catch_cosmos :: "('s, 'a) act \<Rightarrow> (exn \<Rightarrow> ('s, 'a) act) \<Rightarrow> ('s, 'a) act" where
  "catch_cosmos m h = catch m (\<lambda>ex. if thrown_object ([], 0, []) ex = None then throw ex else h ex)"

text \<open>The text of an exception that was thrown at a place \<open>loc\<close> of the sources.\<close>

definition text_of_error :: "(CosmosError \<times> world, string) act \<Rightarrow> SourceLocation \<Rightarrow> exn \<Rightarrow> (world, string) act" where
  "text_of_error m loc ex = bind (value_of (thrown_object loc ex)) (\<lambda>obj. bind (with_local obj m) (\<lambda>(s, _). ret s))"

text \<open>\<^verbatim>\<open>reset()\<close> of the pointer destroys the socket it held.\<close>

definition destroy_socket :: "FDFile option \<Rightarrow> (world, unit) act" where
  "destroy_socket s = (case s of None \<Rightarrow> ret () | Some f \<Rightarrow> scoped f (ret ()) FDFile_destroy)"

definition reset_sock :: "FDFile option \<Rightarrow> unit netcat" where
  "reset_sock s = bind (this nc_sock) (\<lambda>old. andthen (set_this (\<lambda>n. n\<lparr>nc_sock := s\<rparr>)) (nc_world (destroy_socket old)))"

subsection \<open>Setting up the socket\<close>

text \<open>What the template takes from the class of the socket.\<close>

record sock_class =
  sk_type :: SocketType
  sk_is_listen :: bool
  sk_connect :: "Endian \<Rightarrow> SocketAddress \<Rightarrow> (FDFile \<times> world, FDFile) act"
  sk_accept :: "Endian \<Rightarrow> FileNum \<Rightarrow> 32 mask \<Rightarrow> (SocketAddress option \<times> world, FDFile) act"

definition TCPListenSocketT :: sock_class where
  "TCPListenSocketT = \<lparr>sk_type = SOCK_STREAM, sk_is_listen = True, sk_connect = TCPClientSocket_connect, sk_accept = TCPListenSocket_accept\<rparr>"

definition TCPClientSocketT :: sock_class where
  "TCPClientSocketT = TCPListenSocketT\<lparr>sk_is_listen := False\<rparr>"

definition UnixStreamListenSocket :: sock_class where
  "UnixStreamListenSocket = \<lparr>sk_type = SOCK_STREAM, sk_is_listen = True, sk_connect = UnixClientSocket_connect, sk_accept = UnixListenSocket_accept\<rparr>"

definition UnixStreamClientSocket :: sock_class where
  "UnixStreamClientSocket = UnixStreamListenSocket\<lparr>sk_is_listen := False\<rparr>"

definition DatagramSocketT :: sock_class where
  "DatagramSocketT = TCPClientSocketT\<lparr>sk_type := SOCK_DGRAM\<rparr>"

definition setupSocketT :: "Endian \<Rightarrow> sock_class \<Rightarrow> FDFile \<Rightarrow> SocketAddress \<Rightarrow> unit netcat" where
  "setupSocketT e cls sock address = (let fd = m_fd (fb_fd sock) in
     andthen (reset_sock (Some sock))
     (bind (this nc_config) (\<lambda>c.
       andthen (whenA (useStream c) (nc_world (setReuseAddress e True fd)))
       (if sk_type cls = SOCK_STREAM then
          (if sk_is_listen cls
           then andthen (nc_world (Socket_bind e fd address))
             (andthen (nc_world (Socket_listen fd 10))
             (bind (nc_world (with_local None (sk_accept cls e fd cloexec_socket))) (\<lambda>(conn, _). reset_sock (Some conn))))
           else bind (nc_world (with_local sock (sk_connect cls e address))) (\<lambda>(conn, sock').
             andthen (set_this (\<lambda>n. n\<lparr>nc_sock := Some sock'\<rparr>)) (reset_sock (Some conn))))
        else if sk_type cls = SOCK_DGRAM then
          (if sc_listen_mode c then nc_world (Socket_bind e fd address) else nc_world (Socket_connect e fd address))
        else ret ()))))"

definition setupIPSocket :: "Endian \<Rightarrow> SocketFamily \<Rightarrow> SocketAddress \<Rightarrow> unit netcat" where
  "setupIPSocket e family address = bind (this nc_config) (\<lambda>c.
     if useStream c then
       (if sc_listen_mode c
        then bind (nc_world (TCPListenSocket_create family cloexec_socket)) (\<lambda>s. setupSocketT e TCPListenSocketT s address)
        else bind (nc_world (TCPClientSocket_create family cloexec_socket)) (\<lambda>s. setupSocketT e TCPClientSocketT s address))
     else bind (nc_world (UDPSocket_create family cloexec_socket)) (\<lambda>s. setupSocketT e DatagramSocketT s address))"

text \<open>
  The first character of an empty path is read outside the view.  \<open>raw\<close> is the memory the address
  is built in.
\<close>

definition setupUnixSocket :: "Endian \<Rightarrow> sockaddr_un \<Rightarrow> unit netcat" where
  "setupUnixSocket e raw = bind (this nc_config) (\<lambda>c.
     case drop (length UNIX_SCHEME) (sc_addrspec c) of
       [] \<Rightarrow> abort undefined_behaviour
     | first # rest \<Rightarrow>
         let abstract = (first = CHR ''@''); path = (if abstract then rest else first # rest) in
         bind (nc_world (with_local (UnixAddress_create raw) (setPath path abstract))) (\<lambda>(_, address).
           if useStream c then
             (if sc_listen_mode c
              then bind (nc_world (UnixListenSocket_create SOCK_STREAM cloexec_socket))
                (\<lambda>s. setupSocketT e UnixStreamListenSocket s (UNIXAddress address))
              else bind (nc_world (UnixClientSocket_create SOCK_STREAM cloexec_socket))
                (\<lambda>s. setupSocketT e UnixStreamClientSocket s (UNIXAddress address)))
           else bind (nc_world (UnixDatagramSocket_create cloexec_socket))
             (\<lambda>s. setupSocketT e DatagramSocketT s (UNIXAddress address))))"

text \<open>
  The body of the loop over the resolved addresses; a preferred address ends it, another one is
  kept while there is none.
\<close>

definition choose_body :: "Endian \<Rightarrow> SocketConfig \<Rightarrow> sockaddr_in option \<times> sockaddr_in6 option \<Rightarrow> addrinfo \<Rightarrow>
    (sockaddr_in option \<times> sockaddr_in6 option) + (sockaddr_in option \<times> sockaddr_in6 option)" where
  "choose_body e c vars info =
     (if matchesPreferred c (info_family info) then Inl (asIP4 e info, asIP6 e info)
      else if fst vars = None \<and> snd vars = None then Inr (asIP4 e info, asIP6 e info)
      else Inr vars)"

definition choose_address :: "Endian \<Rightarrow> (int \<Rightarrow> addrinfo) \<Rightarrow> SocketConfig \<Rightarrow> AddressInfoList \<Rightarrow>
    (exn + (sockaddr_in option \<times> sockaddr_in6 option)) option" where
  "choose_address e mem c l = range_until info_eq (info_deref mem) (info_next mem) AddressInfoList_end
     (choose_body e c) (None, None) (AddressInfoList_begin l)"

text \<open>A method of the local list of addresses; the program and its settings stay as they are.\<close>

definition on_list :: "(AddressInfoList \<times> world, 'a) act \<Rightarrow> (AddressInfoList \<times> (NetCat \<times> (settings \<times> world)), 'a) act" where
  "on_list m s = (case s of (l, (n, (g, w))) \<Rightarrow> (case m (l, w) of (r, (l', w')) \<Rightarrow> (r, (l', (n, (g, w'))))))"

definition clear_hints :: "SocketConfig \<Rightarrow> AddressInfoList \<Rightarrow> AddressInfoList" where
  "clear_hints c l = (let h = hints_setFlags (BitMask_reset_flag (hints_flags (ail_hints l)) (HintFlag_value HINT_ADDR_CONFIG)) (ail_hints l)
     in l\<lparr>ail_hints := hints_setType (sc_type c) h\<rparr>)"

definition resolve_and_choose :: "Endian \<Rightarrow> (int \<Rightarrow> addrinfo) \<Rightarrow> SocketConfig \<Rightarrow> string \<Rightarrow> string \<Rightarrow>
    (AddressInfoList \<times> world, sockaddr_in option \<times> sockaddr_in6 option) act" where
  "resolve_and_choose e mem c host port =
     andthen (AddressInfoList_resolve (SysString_of host) (SysString_of port))
     (bind (this (\<lambda>l. l)) (\<lambda>l. case choose_address e mem c l of
         None \<Rightarrow> (\<lambda>s. (Blocked, s)) | Some (Inl ex) \<Rightarrow> throw ex | Some (Inr vars) \<Rightarrow> ret vars))"

definition quoted :: "string \<Rightarrow> string" where
  "quoted s = [CHR 39] @ s @ [CHR 39]"

definition setupResolved :: "Endian \<Rightarrow> string \<Rightarrow> sockaddr_in option \<times> sockaddr_in6 option \<Rightarrow> (int + unit) netcat" where
  "setupResolved e spec vars = (case vars of
       (None, None) \<Rightarrow> fail_status (''No results trying to resolve address specification '' @ quoted spec @ newline) ADDR_ERROR
     | (Some a, _) \<Rightarrow> andthen (setupIPSocket e AF_INET (IP4Address a)) (ret (Inr ()))
     | (None, Some a) \<Rightarrow> andthen (setupIPSocket e AF_INET6 (IP6Address a)) (ret (Inr ())))"

definition setupSocket :: "Endian \<Rightarrow> (int \<Rightarrow> addrinfo) \<Rightarrow> sockaddr_un \<Rightarrow> texts \<Rightarrow> SourceLocation \<Rightarrow> (int + unit) netcat" where
  "setupSocket e mem raw tx loc = bind (this nc_config) (\<lambda>c. let spec = sc_addrspec c in
     if is_prefix spec UNIX_SCHEME then andthen (setupUnixSocket e raw) (ret (Inr ()))
     else case str_rfind spec '':'' of
       None \<Rightarrow> fail_status (''Missing port specification ('' @ quoted '':<port>'' @ '' suffix) in '' @ spec @ newline) BAD_CMDLINE
     | Some port_sep \<Rightarrow>
         let port = drop (port_sep + 1) spec; host = take port_sep spec in
         scoped AddressInfoList_default
           (andthen (set_this (clear_hints c))
           (unless_thrown
             (catch_cosmos (bind (on_list (resolve_and_choose e mem c host port)) (\<lambda>vars. ret (Inr vars)))
               (\<lambda>ex. on_world (bind (nc_world (text_of_error (shortWhat tx) loc ex)) (\<lambda>s.
                 fail_status (''Failed to resolve IP address specification '' @ quoted spec @ '': '' @ s @ newline) ADDR_ERROR))))
             (\<lambda>vars. on_world (setupResolved e spec vars))))
           (on_list AddressInfoList_destroy))"

subsection \<open>The command line\<close>

definition checkPreferredUnassigned :: "(int + unit) netcat" where
  "checkPreferredUnassigned = bind (this nc_config) (\<lambda>c.
     if sc_preferred c \<noteq> AF_UNSPEC
     then fail_status (''conflicting flags --ipv4 and --ipv6 encountered'' @ newline) BAD_CMDLINE else ret (Inr ()))"

definition process_arg :: "string \<Rightarrow> (int + unit) netcat" where
  "process_arg arg = bind (this nc_config) (\<lambda>c.
     if arg = ''-h'' \<or> arg = ''--help'' then ret (Inl BAD_CMDLINE)
     else if sc_addrspec c = [] then
       (if arg = ''--datagram'' then andthen (set_config (\<lambda>c. c\<lparr>sc_type := SOCK_DGRAM\<rparr>)) (ret (Inr ()))
        else if arg = ''--listen'' then andthen (set_config (\<lambda>c. c\<lparr>sc_listen_mode := True\<rparr>)) (ret (Inr ()))
        else if arg = ''--ipv6'' then unless_thrown checkPreferredUnassigned (\<lambda>_.
          andthen (set_config (\<lambda>c. c\<lparr>sc_preferred := AF_INET6\<rparr>)) (ret (Inr ())))
        else if arg = ''--ipv4'' then unless_thrown checkPreferredUnassigned (\<lambda>_.
          andthen (set_config (\<lambda>c. c\<lparr>sc_preferred := AF_INET\<rparr>)) (ret (Inr ())))
        else andthen (set_config (\<lambda>c. c\<lparr>sc_addrspec := arg\<rparr>)) (ret (Inr ())))
     else fail_status (''unsupported or extraneous argument: '' @ arg @ newline) BAD_CMDLINE)"

fun process_args_loop :: "string list \<Rightarrow> (int + unit) netcat" where
  "process_args_loop [] = ret (Inr ())"
| "process_args_loop (arg # args) = unless_thrown (process_arg arg) (\<lambda>_. process_args_loop args)"

definition processArgs :: "Endian \<Rightarrow> (int \<Rightarrow> addrinfo) \<Rightarrow> sockaddr_un \<Rightarrow> texts \<Rightarrow> SourceLocation \<Rightarrow> string list \<Rightarrow> (int + unit) netcat" where
  "processArgs e mem raw tx loc args = unless_thrown (process_args_loop args) (\<lambda>_.
     bind (this nc_config) (\<lambda>c.
       if sc_addrspec c = [] then fail_status (''Missing ADDRSPEC to operate on.'' @ newline) BAD_CMDLINE
       else setupSocket e mem raw tx loc))"

definition usage_text :: "string \<Rightarrow> string" where
  "usage_text argv0 = concat (map (\<lambda>line. line @ newline)
     [''USAGE:'', '''', argv0 @ '' [--datagram] [--listen] [--ipv6] [--ipv4] ADDRSPEC'', '''',
      ''--datagram: use DGRAM socket instead of STREAM'',
      ''--listen:'',
      ''    - for STREAM sockets wait for incoming connections'',
      ''    - for DGRAM sockets receive packets at the given address'',
      ''--ipv6: when resolving hostnames, prefer IPv6'',
      ''--ipv4: when resolving hostnames, prefer IPv4'',
      ''ADDRSPEC: one of the following address specification strings:'',
      ''    - IPv4 address and port: 192.168.1.1:22'',
      ''    - IPv6 address and port: ::1:80'',
      ''    - DNS hostname and port: www.somehost.com:443'',
      ''    - Local UNIX address:    unix:///run/my.socket'',
      ''    - (abstract)             unix://@abstract.socket'', '''',
      ''This program will forward data from stdin to the socket and output'',
      ''data received from the socket to stdout.''])"

definition printUsage :: "string \<Rightarrow> unit netcat" where
  "printUsage argv0 = nc_cerr (usage_text argv0)"

subsection \<open>Exchanging data\<close>

text \<open>The local objects of \<^verbatim>\<open>exchangeData()\<close>.\<close>

record exchange =
  ex_poller :: Poller
  ex_stdin :: FDFile
  ex_stdout :: FDFile
  ex_buffer :: string
  ex_running :: bool

definition BUFSIZ :: nat where "BUFSIZ = 8192"

definition exchange_start :: exchange where
  "exchange_start = \<lparr>ex_poller = Poller_default,
     ex_stdin = FDFile_open_fd (FD (FileNum_of FN_STDIN)) False FDFile_default,
     ex_stdout = FDFile_open_fd (FD (FileNum_of FN_STDOUT)) False FDFile_default,
     ex_buffer = resize BUFSIZ [], ex_running = True\<rparr>"

definition on_poller :: "(Poller \<times> world, 'a) act \<Rightarrow> (exchange \<times> world, 'a) act" where
  "on_poller = zoom ex_poller (\<lambda>p x. x\<lparr>ex_poller := p\<rparr>)"

definition monitor_input :: "FileDescriptor \<Rightarrow> (exchange \<times> world, unit) act" where
  "monitor_input fd = bind (this ex_poller) (\<lambda>p.
     on_world (Poller_addFD fd (BitMask_of_list [MonitorFlag_value MON_INPUT]) p))"

definition stop_running :: "(exchange \<times> world, unit) act" where
  "stop_running = set_this (\<lambda>x. x\<lparr>ex_running := False\<rparr>)"

text \<open>A read stores at the start of the buffer; a write takes the bytes from there.\<close>

definition read_buffer :: "FileDescriptor \<Rightarrow> (exchange \<times> world, nat) act" where
  "read_buffer fd = bind (this (\<lambda>x. length (ex_buffer x))) (\<lambda>size.
     bind (on_world (StreamIO_read (m_fd fd) (of_nat size))) (\<lambda>(bytes, data).
       andthen (set_this (\<lambda>x. x\<lparr>ex_buffer := poke 0 data (ex_buffer x)\<rparr>)) (ret bytes)))"

definition write_buffer :: "FileDescriptor \<Rightarrow> nat \<Rightarrow> (exchange \<times> world, unit) act" where
  "write_buffer fd n = bind (this (\<lambda>x. take n (ex_buffer x))) (\<lambda>data.
     bind (on_world (StreamIO_write (m_fd fd) data)) (\<lambda>_. ret ()))"

definition input_event :: "SocketConfig \<Rightarrow> FDFile \<Rightarrow> (exchange \<times> world, unit) act" where
  "input_event c sock = bind (this (\<lambda>x. fb_fd (ex_stdin x))) (\<lambda>stdin.
     bind (read_buffer stdin) (\<lambda>n. andthen (set_this (\<lambda>x. x\<lparr>ex_buffer := resize n (ex_buffer x)\<rparr>))
       (if n = 0 then andthen
          (catch (andthen (on_world (Socket_shutdown (m_fd (fb_fd sock)) SHUT_WRITE))
              (bind (this ex_poller) (\<lambda>p. on_world (Poller_delFD stdin p))))
            (\<lambda>ex. stop_running))
          (whenA (useDgram c \<and> \<not> sc_listen_mode c) stop_running)
        else write_buffer (fb_fd sock) n)))"

definition socket_event :: "FDFile \<Rightarrow> (exchange \<times> world, unit) act" where
  "socket_event sock = bind (read_buffer (fb_fd sock)) (\<lambda>n.
     if n = 0 then stop_running else bind (this (\<lambda>x. fb_fd (ex_stdout x))) (\<lambda>stdout. write_buffer stdout n))"

definition handle_event :: "SocketConfig \<Rightarrow> FDFile \<Rightarrow> PollEvent \<Rightarrow> (exchange \<times> world, unit) act" where
  "handle_event c sock event = bind (this (\<lambda>x. fb_fd (ex_stdin x))) (\<lambda>stdin.
     if PollEvent_fd event = stdin then input_event c sock else socket_event sock)"

definition exchange_round :: "SocketConfig \<Rightarrow> FDFile \<Rightarrow> (exchange \<times> world, unit option) act" where
  "exchange_round c sock = bind (on_poller (Poller_wait None)) (\<lambda>events.
     andthen (forA events (handle_event c sock))
       (bind (this ex_running) (\<lambda>running. ret (if running then None else Some ()))))"

text \<open>Every round waits for events, which takes an answer.\<close>

definition exchange_loop :: "SocketConfig \<Rightarrow> FDFile \<Rightarrow> (exchange \<times> world, unit) act" where
  "exchange_loop c sock = loop (\<lambda>(x, w). length (answers w)) (exchange_round c sock)"

definition monitor_all :: "SocketConfig \<Rightarrow> FDFile \<Rightarrow> (exchange \<times> world, unit) act" where
  "monitor_all c sock = bind (this (\<lambda>x. fb_fd (ex_stdin x))) (\<lambda>stdin.
     if useStream c then andthen (monitor_input stdin) (monitor_input (fb_fd sock))
     else if sc_listen_mode c then monitor_input (fb_fd sock) else monitor_input stdin)"

text \<open>The destructors run in the reverse order; one that has nothing to close does nothing.\<close>

definition exchange_end :: "(exchange \<times> world, unit) act" where
  "exchange_end = andthen (zoom ex_stdout (\<lambda>f x. x\<lparr>ex_stdout := f\<rparr>) FDFile_destroy)
     (andthen (zoom ex_stdin (\<lambda>f x. x\<lparr>ex_stdin := f\<rparr>) FDFile_destroy) (on_poller Poller_destroy))"

definition exchangeData :: "SocketConfig \<Rightarrow> FDFile \<Rightarrow> (world, unit) act" where
  "exchangeData c sock = scoped exchange_start
     (andthen (on_poller (Poller_create 16)) (andthen (monitor_all c sock) (exchange_loop c sock)))
     exchange_end"

subsection \<open>The main function\<close>

text \<open>A status that is thrown is \<open>Inl\<close>, one that is returned \<open>Inr\<close>.\<close>

definition NetCat_setup :: "Endian \<Rightarrow> (int \<Rightarrow> addrinfo) \<Rightarrow> sockaddr_un \<Rightarrow> texts \<Rightarrow> SourceLocation \<Rightarrow> string \<Rightarrow> string list \<Rightarrow>
    ((int + int) option) netcat" where
  "NetCat_setup e mem raw tx loc argv0 args = catch_cosmos
     (bind (processArgs e mem raw tx loc args) (\<lambda>r. case r of
         Inl status \<Rightarrow> andthen (whenA (status = BAD_CMDLINE) (printUsage argv0)) (ret (Some (Inr status)))
       | Inr _ \<Rightarrow> ret None))
     (\<lambda>ex. bind (nc_world (text_of_error (what_text tx) loc ex)) (\<lambda>s.
       andthen (nc_cerr (''Failed to setup socket: '' @ s @ newline)) (ret (Some (Inl SOCKET_SETUP_ERROR)))))"

definition NetCat_main :: "Endian \<Rightarrow> (int \<Rightarrow> addrinfo) \<Rightarrow> sockaddr_un \<Rightarrow> texts \<Rightarrow> SourceLocation \<Rightarrow> string \<Rightarrow> string list \<Rightarrow>
    (int + int) netcat" where
  "NetCat_main e mem raw tx loc argv0 args = bind (NetCat_setup e mem raw tx loc argv0 args) (\<lambda>r. case r of
       Some status \<Rightarrow> ret status
     | None \<Rightarrow> bind (this (\<lambda>n. n)) (\<lambda>n. bind (nc_world (value_of (nc_sock n))) (\<lambda>sock.
         andthen (nc_world (exchangeData (nc_config n) sock)) (ret (Inr (ExitStatus_value EXIT_SUCCESS))))))"

definition NetCat_destroy :: "unit netcat" where
  "NetCat_destroy = reset_sock None"

definition NetCat_program :: "Endian \<Rightarrow> (int \<Rightarrow> addrinfo) \<Rightarrow> sockaddr_un \<Rightarrow> texts \<Rightarrow> SourceLocation \<Rightarrow> program" where
  "NetCat_program e mem raw tx loc = \<lparr>pr_kind = MainContainerArgs, pr_ctor = ret (Inr ()),
     pr_main = (\<lambda>args. case args of
         ContainerArgs argv0 as \<Rightarrow> scoped NetCat_default (NetCat_main e mem raw tx loc argv0 as) NetCat_destroy
       | _ \<Rightarrow> abort undefined_behaviour)\<rparr>"


subsection \<open>What is passed between the streams\<close>

text \<open>
  A transfer: what was read, and how many bytes the write that follows says it has taken.
  \<open>s\<close> is the descriptor of the socket, \<open>n\<close> the size of the buffer.
\<close>

datatype transfer = FromInput string nat | FromPeer string nat

primrec transfer_data :: "transfer \<Rightarrow> string" where
  "transfer_data (FromInput d k) = d"
| "transfer_data (FromPeer d k) = d"

primrec transfer_fd :: "int \<Rightarrow> transfer \<Rightarrow> int" where
  "transfer_fd s (FromInput d k) = 0"
| "transfer_fd s (FromPeer d k) = s"

primrec transfer_calls :: "int \<Rightarrow> nat \<Rightarrow> transfer \<Rightarrow> (syscall \<times> answer) list" where
  "transfer_calls s n (FromInput d k) = [(Call ''read'' [I 0, I (int n)], ok_bytes d), (Call ''write'' [I s, S d], ok (int k))]"
| "transfer_calls s n (FromPeer d k) = [(Call ''read'' [I s, I (int n)], ok_bytes d), (Call ''write'' [I 1, S d], ok (int k))]"

text \<open>Input leaves the buffer as large as itself.\<close>

primrec size_after :: "nat \<Rightarrow> transfer \<Rightarrow> nat" where
  "size_after n (FromInput d k) = length d"
| "size_after n (FromPeer d k) = n"

fun fits :: "nat \<Rightarrow> transfer list \<Rightarrow> bool" where
  "fits n [] \<longleftrightarrow> True"
| "fits n (t # ts) \<longleftrightarrow> transfer_data t \<noteq> [] \<and> length (transfer_data t) \<le> n \<and> fits (size_after n t) ts"

fun transfers_calls :: "int \<Rightarrow> nat \<Rightarrow> transfer list \<Rightarrow> (syscall \<times> answer) list" where
  "transfers_calls s n [] = []"
| "transfers_calls s n (t # ts) = transfer_calls s n t @ transfers_calls s (size_after n t) ts"

text \<open>One answer of the poller tells of several transfers.\<close>

definition wait_call :: "int \<Rightarrow> int list \<Rightarrow> syscall \<times> answer" where
  "wait_call p fds = (Call ''epoll_pwait2'' [I p, I 16, I 0],
     \<lparr>rv = int (length fds), err = None, out = [], outs = concat (map (\<lambda>fd. [fd, 1]) fds)\<rparr>)"

fun rounds_calls :: "int \<Rightarrow> int \<Rightarrow> nat \<Rightarrow> transfer list list \<Rightarrow> (syscall \<times> answer) list" where
  "rounds_calls p s n [] = []"
| "rounds_calls p s n (ts # rs) = wait_call p (map (transfer_fd s) ts) # transfers_calls s n ts @
     rounds_calls p s (foldl size_after n ts) rs"

text \<open>The state between two rounds.\<close>

definition exchanging :: "int \<Rightarrow> nat \<Rightarrow> exchange \<Rightarrow> bool" where
  "exchanging p n x \<longleftrightarrow> m_poll_fd (ex_poller x) = FD p \<and> length (m_events (ex_poller x)) = 16 \<and>
     fb_fd (ex_stdin x) = FD 0 \<and> \<not> m_auto_close (ex_stdin x) \<and> fb_fd (ex_stdout x) = FD 1 \<and> \<not> m_auto_close (ex_stdout x) \<and>
     length (ex_buffer x) = n \<and> n \<le> BUFSIZ \<and> ex_running x"

lemma FD_number [simp]: "m_fd (FD n) = n"
  by (simp add: FD_def)

lemma FD_inject [simp]: "FD m = FD n \<longleftrightarrow> m = n"
  by (simp add: FD_def)

lemma read_buffer_answered:
  assumes "exchanging p n x" "answers w = ok_bytes d # as" "length d \<le> n"
  shows "\<exists>w'. read_buffer fd (x, w) = (Ret (length d), (x\<lparr>ex_buffer := d @ drop (length d) (ex_buffer x)\<rparr>, w')) \<and>
     runs_to w [(Call ''read'' [I (m_fd fd), I (int n)], ok_bytes d)] w' \<and> answers w' = as"
proof -
  have n: "length (ex_buffer x) = n" "n \<le> 8192" using assms(1) by (auto simp: exchanging_def BUFSIZ_def)
  have "uint (of_nat n :: 64 word) = int n" using n(2) by (simp add: unsigned_of_nat take_bit_nat_eq_self)
  moreover obtain w' where "io_loop ''read()'' ''read'' [I (m_fd fd), I (uint (of_nat n :: 64 word))] w = (Ret (ok_bytes d), w')"
      "runs_to w [(Call ''read'' [I (m_fd fd), I (uint (of_nat n :: 64 word))], ok_bytes d)] w'" "answers w' = as"
    using io_loop_answered[OF assms(2)] by fastforce
  ultimately show ?thesis using n(1)
    by (simp add: read_buffer_def StreamIO_read_def stored_def poke_def act_defs)
qed

lemma write_buffer_answered:
  assumes "answers w = ok (int k) # as"
  shows "\<exists>w'. write_buffer fd n (x, w) = (Ret (), (x, w')) \<and>
     runs_to w [(Call ''write'' [I (m_fd fd), S (take n (ex_buffer x))], ok (int k))] w' \<and> answers w' = as"
proof -
  obtain w' where "io_loop ''write()'' ''write'' [I (m_fd fd), S (take n (ex_buffer x))] w = (Ret (ok (int k)), w')"
      "runs_to w [(Call ''write'' [I (m_fd fd), S (take n (ex_buffer x))], ok (int k))] w'" "answers w' = as"
    using io_loop_answered[OF assms] by fastforce
  then show ?thesis by (simp add: write_buffer_def StreamIO_write_def act_defs)
qed

lemma handle_event_transfer:
  assumes "exchanging p n x" "answers w = map snd (transfer_calls s n t) @ as"
    "transfer_data t \<noteq> []" "length (transfer_data t) \<le> n" "fb_fd sock = FD s" "s \<noteq> 0" "pe_fd ev = transfer_fd s t"
  shows "\<exists>x' w'. handle_event c sock ev (x, w) = (Ret (), (x', w')) \<and> exchanging p (size_after n t) x' \<and>
     runs_to w (transfer_calls s n t) w' \<and> answers w' = as"
proof (cases t)
  case (FromInput d k)
  let ?x = "x\<lparr>ex_buffer := d @ drop (length d) (ex_buffer x)\<rparr>"
  let ?y = "?x\<lparr>ex_buffer := d\<rparr>"
  have d: "answers w = ok_bytes d # ok (int k) # as" "length d \<le> n" "d \<noteq> []" "PollEvent_fd ev = FD 0"
    using assms FromInput by (auto simp: PollEvent_fd_def)
  obtain w1 where r: "read_buffer (FD 0) (x, w) = (Ret (length d), (?x, w1))"
      "runs_to w [(Call ''read'' [I 0, I (int n)], ok_bytes d)] w1" "answers w1 = ok (int k) # as"
    using read_buffer_answered[OF assms(1) d(1,2), of "FD 0"] by auto
  obtain w2 where v: "write_buffer (FD s) (length d) (?y, w1) = (Ret (), (?y, w2))"
      "runs_to w1 [(Call ''write'' [I s, S d], ok (int k))] w2" "answers w2 = as"
    using write_buffer_answered[OF r(3), of "FD s" "length d" ?y] by auto
  have "exchanging p (length d) ?y" using assms(1) d(2) by (auto simp: exchanging_def)
  moreover have "handle_event c sock ev (x, w) = (Ret (), (?y, w2))"
    using assms(1,5) d r(1) v(1)
    by (simp add: handle_event_def input_event_def exchanging_def resize_def act_defs)
  ultimately show ?thesis
    using r(2) v(2,3) FromInput runs_to_trans by fastforce
next
  case (FromPeer d k)
  let ?x = "x\<lparr>ex_buffer := d @ drop (length d) (ex_buffer x)\<rparr>"
  have d: "answers w = ok_bytes d # ok (int k) # as" "length d \<le> n" "d \<noteq> []" "PollEvent_fd ev = FD s" "FD s \<noteq> FD 0"
    using assms FromPeer by (auto simp: PollEvent_fd_def FD_def)
  obtain w1 where r: "read_buffer (FD s) (x, w) = (Ret (length d), (?x, w1))"
      "runs_to w [(Call ''read'' [I s, I (int n)], ok_bytes d)] w1" "answers w1 = ok (int k) # as"
    using read_buffer_answered[OF assms(1) d(1,2), of "FD s"] by auto
  obtain w2 where v: "write_buffer (FD 1) (length d) (?x, w1) = (Ret (), (?x, w2))"
      "runs_to w1 [(Call ''write'' [I 1, S d], ok (int k))] w2" "answers w2 = as"
    using write_buffer_answered[OF r(3), of "FD 1" "length d" ?x] by auto
  have "exchanging p n ?x" using assms(1) d(2) by (auto simp: exchanging_def)
  moreover have "handle_event c sock ev (x, w) = (Ret (), (?x, w2))"
    using assms(1,5) d r(1) v(1)
    by (simp add: handle_event_def socket_event_def exchanging_def act_defs)
  ultimately show ?thesis
    using r(2) v(2,3) FromPeer runs_to_trans by fastforce
qed


lemma handle_events_transfers:
  assumes "exchanging p n x" "answers w = map snd (transfers_calls s n ts) @ as" "fits n ts" "fb_fd sock = FD s" "s \<noteq> 0"
    "map pe_fd evs = map (transfer_fd s) ts"
  shows "\<exists>x' w'. forA evs (handle_event c sock) (x, w) = (Ret (), (x', w')) \<and> exchanging p (foldl size_after n ts) x' \<and>
     runs_to w (transfers_calls s n ts) w' \<and> answers w' = as"
  using assms
proof (induction ts arbitrary: n x w evs)
  case Nil
  then show ?case by (simp add: ret_def)
next
  case (Cons t ts)
  then obtain ev evs' where evs: "evs = ev # evs'" "pe_fd ev = transfer_fd s t" "map pe_fd evs' = map (transfer_fd s) ts" by auto
  obtain x1 w1 where one: "handle_event c sock ev (x, w) = (Ret (), (x1, w1))" "exchanging p (size_after n t) x1"
      "runs_to w (transfer_calls s n t) w1" "answers w1 = map snd (transfers_calls s (size_after n t) ts) @ as"
    using handle_event_transfer[OF Cons.prems(1), of w s t "map snd (transfers_calls s (size_after n t) ts) @ as"] Cons.prems evs(2)
    by fastforce
  from Cons.IH[OF one(2,4) _ Cons.prems(4,5) evs(3)] Cons.prems(3) one evs(1) show ?case
    by (fastforce simp: andthen_Ret intro: runs_to_trans)
qed

lemma events_out_ready: "events_out (concat (map (\<lambda>fd. [fd, 1]) fds)) = map (\<lambda>fd. \<lparr>pe_fd = fd, pe_events = 1\<rparr>) fds"
  by (induction fds) simp_all

lemma wait_ready:
  assumes "exchanging p n x" "answers w = snd (wait_call p fds) # as" "length fds \<le> 16"
  shows "\<exists>x' w'. on_poller (Poller_wait None) (x, w) = (Ret (map (\<lambda>fd. \<lparr>pe_fd = fd, pe_events = 1\<rparr>) fds), (x', w')) \<and>
     exchanging p n x' \<and> runs_to w [wait_call p fds] w' \<and> answers w' = as"
proof -
  have "wait_args (ex_poller x) None = [I p, I 16, I 0]"
    using assms(1) by (simp add: exchanging_def wait_args_def timeout_arg_def)
  with poll_call_answered[OF assms(2), of "ex_poller x" None]
  obtain w' where w': "poll_call (ex_poller x) None w = (Ret (snd (wait_call p fds)), w')" "runs_to w [wait_call p fds] w'"
    by (auto simp: wait_call_def)
  moreover have "answers w' = as" using w'(2) assms(2) by (simp add: runs_to_def)
  ultimately show ?thesis using assms(1,3)
    by (simp add: on_poller_def Poller_wait_def wait_call_def events_out_ready exchanging_def act_defs Let_def)
qed

lemma exchange_round_transfers:
  assumes "exchanging p n x" "answers w = map snd (wait_call p (map (transfer_fd s) ts) # transfers_calls s n ts) @ as" "fits n ts"
    "fb_fd sock = FD s" "s \<noteq> 0" "length ts \<le> 16"
  shows "\<exists>x' w'. exchange_round c sock (x, w) = (Ret None, (x', w')) \<and> exchanging p (foldl size_after n ts) x' \<and>
     runs_to w (wait_call p (map (transfer_fd s) ts) # transfers_calls s n ts) w' \<and> answers w' = as"
proof -
  obtain x1 w1 where wait: "on_poller (Poller_wait None) (x, w) = (Ret (map (\<lambda>fd. \<lparr>pe_fd = fd, pe_events = 1\<rparr>) (map (transfer_fd s) ts)), (x1, w1))"
      "exchanging p n x1" "runs_to w [wait_call p (map (transfer_fd s) ts)] w1" "answers w1 = map snd (transfers_calls s n ts) @ as"
    using wait_ready[OF assms(1), of w "map (transfer_fd s) ts"] assms(2,6) by fastforce
  obtain x2 w2 where all: "forA (map (\<lambda>fd. \<lparr>pe_fd = fd, pe_events = 1\<rparr>) (map (transfer_fd s) ts)) (handle_event c sock) (x1, w1) = (Ret (), (x2, w2))"
      "exchanging p (foldl size_after n ts) x2" "runs_to w1 (transfers_calls s n ts) w2" "answers w2 = as"
    using handle_events_transfers[OF wait(2,4) assms(3-5), of "map (\<lambda>fd. \<lparr>pe_fd = fd, pe_events = 1\<rparr>) (map (transfer_fd s) ts)" c]
    by (auto simp: comp_def)
  have "ex_running x2" using all(2) by (simp add: exchanging_def)
  with wait(1) all(1) have "exchange_round c sock (x, w) = (Ret None, (x2, w2))"
    by (simp add: exchange_round_def act_defs)
  with all(2,4) runs_to_trans[OF wait(3) all(3)] show ?thesis by auto
qed

fun all_fit :: "nat \<Rightarrow> transfer list list \<Rightarrow> bool" where
  "all_fit n [] \<longleftrightarrow> True"
| "all_fit n (ts # rs) \<longleftrightarrow> length ts \<le> 16 \<and> fits n ts \<and> all_fit (foldl size_after n ts) rs"

lemma exchange_loop_rounds:
  assumes "exchanging p n x" "answers w = map snd (rounds_calls p s n rs) @ as" "all_fit n rs" "fb_fd sock = FD s" "s \<noteq> 0"
  shows "\<exists>x' w'. exchange_loop c sock (x, w) = exchange_loop c sock (x', w') \<and> exchanging p (foldl size_after n (concat rs)) x' \<and>
     runs_to w (rounds_calls p s n rs) w' \<and> answers w' = as"
  using assms
proof (induction rs arbitrary: n x w)
  case Nil
  then show ?case by auto
next
  case (Cons ts rs)
  obtain x1 w1 where one: "exchange_round c sock (x, w) = (Ret None, (x1, w1))" "exchanging p (foldl size_after n ts) x1"
      "runs_to w (wait_call p (map (transfer_fd s) ts) # transfers_calls s n ts) w1"
      "answers w1 = map snd (rounds_calls p s (foldl size_after n ts) rs) @ as"
    using exchange_round_transfers[OF Cons.prems(1), of w s ts "map snd (rounds_calls p s (foldl size_after n ts) rs) @ as"] Cons.prems
    by fastforce
  have "length (answers w1) < length (answers w)" using one(3) by (simp add: runs_to_def)
  then have "exchange_loop c sock (x, w) = exchange_loop c sock (x1, w1)"
    by (simp add: exchange_loop_def loop.simps[of _ _ "(x, w)"] one(1))
  with Cons.IH[OF one(2,4)] Cons.prems(3-5) show ?case
    using runs_to_trans[OF one(3)] by fastforce
qed

text \<open>
  The end of the input closes one direction of the connection and empties the buffer.  When the
  socket becomes readable next, nothing is asked for.
\<close>

definition end_calls :: "int \<Rightarrow> int \<Rightarrow> nat \<Rightarrow> (syscall \<times> answer) list" where
  "end_calls p s n = [wait_call p [0], (Call ''read'' [I 0, I (int n)], ok 0), (Call ''shutdown'' [I s, I 1], ok 0),
     (Call ''epoll_ctl'' [I p, I 2, I 0, I 0], ok 0), wait_call p [s], (Call ''read'' [I s, I 0], ok 0)]"


lemma end_of_input:
  assumes "exchanging p n x" "answers w = map snd (tl (take 4 (end_calls p s n))) @ as" "fb_fd sock = FD s" "useStream c" "pe_fd ev = 0"
  shows "\<exists>x' w'. handle_event c sock ev (x, w) = (Ret (), (x', w')) \<and> exchanging p 0 x' \<and>
     runs_to w (tl (take 4 (end_calls p s n))) w' \<and> answers w' = as"
proof -
  let ?x = "x\<lparr>ex_buffer := []\<rparr>"
  have as: "answers w = ok_bytes [] # ok 0 # ok 0 # as" using assms(2) by (simp add: end_calls_def)
  obtain w1 where r: "read_buffer (FD 0) (x, w) = (Ret 0, (x, w1))"
      "runs_to w [(Call ''read'' [I 0, I (int n)], ok 0)] w1" "answers w1 = ok 0 # ok 0 # as"
    using read_buffer_answered[OF assms(1) as, of "FD 0"] by auto
  have "exchanging p 0 ?x" using assms(1) by (simp add: exchanging_def)
  moreover have "\<exists>w'. handle_event c sock ev (x, w) = (Ret (), (?x, w')) \<and>
      runs_to w1 (drop 2 (take 4 (end_calls p s n))) w' \<and> answers w' = as"
    using assms(1,3,4,5) r(1,3)
    by (simp add: handle_event_def input_event_def exchanging_def useStream_def resize_def PollEvent_fd_def Socket_shutdown_def
        Poller_delFD_def end_calls_def runs_to_def act_defs kernel_defs)
  ultimately show ?thesis using runs_to_trans[OF r(2)] by (fastforce simp: end_calls_def)
qed

lemma socket_at_end:
  assumes "exchanging p n x" "answers w = ok 0 # as" "fb_fd sock = FD s" "s \<noteq> 0" "pe_fd ev = s"
  shows "\<exists>w'. handle_event c sock ev (x, w) = (Ret (), (x\<lparr>ex_running := False\<rparr>, w')) \<and>
     runs_to w [(Call ''read'' [I s, I (int n)], ok 0)] w' \<and> answers w' = as"
proof -
  have as: "answers w = ok_bytes [] # as" using assms(2) by simp
  obtain w1 where "read_buffer (FD s) (x, w) = (Ret 0, (x, w1))"
      "runs_to w [(Call ''read'' [I s, I (int n)], ok 0)] w1" "answers w1 = as"
    using read_buffer_answered[OF assms(1) as, of "FD s"] by auto
  with assms(1,3-5) show ?thesis
    by (simp add: handle_event_def socket_event_def stop_running_def exchanging_def PollEvent_fd_def act_defs)
qed

lemma exchange_loop_ends:
  assumes "exchanging p n x" "answers w = map snd (end_calls p s n) @ as" "fb_fd sock = FD s" "s \<noteq> 0" "useStream c"
  shows "\<exists>x' w'. exchange_loop c sock (x, w) = (Ret (), (x'\<lparr>ex_running := False\<rparr>, w')) \<and> exchanging p 0 x' \<and>
     runs_to w (end_calls p s n) w' \<and> answers w' = as"
proof -
  let ?mid = "tl (take 4 (end_calls p s n))" and ?ev = "\<lambda>fd. \<lparr>pe_fd = fd, pe_events = 1\<rparr>"
  obtain x1 w1 where wait1: "on_poller (Poller_wait None) (x, w) = (Ret [?ev 0], (x1, w1))"
      "exchanging p n x1" "runs_to w [wait_call p [0]] w1" "answers w1 = map snd ?mid @ snd (wait_call p [s]) # ok 0 # as"
    using wait_ready[OF assms(1), of w "[0]"] assms(2) by (fastforce simp: end_calls_def)
  obtain x2 w2 where eof: "handle_event c sock (?ev 0) (x1, w1) = (Ret (), (x2, w2))" "exchanging p 0 x2"
      "runs_to w1 ?mid w2" "answers w2 = snd (wait_call p [s]) # ok 0 # as"
    using end_of_input[OF wait1(2,4) assms(3,5), of "?ev 0"] by auto
  obtain x3 w3 where wait2: "on_poller (Poller_wait None) (x2, w2) = (Ret [?ev s], (x3, w3))"
      "exchanging p 0 x3" "runs_to w2 [wait_call p [s]] w3" "answers w3 = ok 0 # as"
    using wait_ready[OF eof(2), of w2 "[s]"] eof(4) by fastforce
  obtain w4 where last: "handle_event c sock (?ev s) (x3, w3) = (Ret (), (x3\<lparr>ex_running := False\<rparr>, w4))"
      "runs_to w3 [(Call ''read'' [I s, I 0], ok 0)] w4" "answers w4 = as"
    using socket_at_end[OF wait2(2,4) assms(3,4), of "?ev s"] by auto
  have runs: "runs_to w (end_calls p s n) w4"
    using runs_to_trans[OF wait1(3) runs_to_trans[OF eof(3) runs_to_trans[OF wait2(3) last(2)]]] by (simp add: end_calls_def)
  have "ex_running x2" using eof(2) by (simp add: exchanging_def)
  then have "exchange_round c sock (x, w) = (Ret None, (x2, w2))"
    using wait1(1) eof(1) by (simp add: exchange_round_def act_defs)
  moreover have "exchange_round c sock (x2, w2) = (Ret (Some ()), (x3\<lparr>ex_running := False\<rparr>, w4))"
    using wait2(1) last(1) by (simp add: exchange_round_def act_defs)
  moreover have "length (answers w2) < length (answers w)" using assms(2) eof(4) by (simp add: end_calls_def)
  ultimately have "exchange_loop c sock (x, w) = (Ret (), (x3\<lparr>ex_running := False\<rparr>, w4))"
    by (simp add: exchange_loop_def loop.simps[of _ _ "(x, w)"] loop.simps[of _ _ "(x2, w2)"])
  with runs wait2(2) last(3) show ?thesis by auto
qed

definition session_calls :: "int \<Rightarrow> int \<Rightarrow> transfer list list \<Rightarrow> (syscall \<times> answer) list" where
  "session_calls p s rs = [(Call ''epoll_create1'' [I EPOLL_CLOEXEC], ok p),
     (Call ''epoll_ctl'' [I p, I 1, I 0, L [I 0, I 1]], ok 0), (Call ''epoll_ctl'' [I p, I 1, I s, L [I s, I 1]], ok 0)] @
     rounds_calls p s BUFSIZ rs @ end_calls p s (foldl size_after BUFSIZ (concat rs)) @ [(Call ''close'' [I p], ok 0)]"

lemma exchange_setup:
  assumes "answers w = ok p # ok 0 # ok 0 # as" "0 \<le> p" "fb_fd sock = FD s" "useStream c"
  shows "\<exists>x w'. andthen (on_poller (Poller_create 16)) (monitor_all c sock) (exchange_start, w) = (Ret (), (x, w')) \<and>
     exchanging p BUFSIZ x \<and> runs_to w (take 3 (session_calls p s rs)) w' \<and> answers w' = as"
proof -
  have "FD_valid FD_default = False" "FD_setFD p FD_default = FD p"
    by (auto simp: FD_valid_def FD_default_def FD_setFD_def FD_def)
  with assms show ?thesis
    by (auto simp: exchange_start_def on_poller_def Poller_create_def Poller_valid_def Poller_default_def monitor_all_def
        monitor_input_def Poller_addFD_def control_def exchanging_def runs_to_def session_calls_def FDFile_open_fd_def
        resize_events_def resize_def BitMask_of_list_def BitMask_raw_def act_defs kernel_defs)
qed

lemma exchange_end_closes:
  assumes "exchanging p n x" "answers w = ok 0 # as" "0 \<le> p"
  shows "\<exists>x' w'. exchange_end (x\<lparr>ex_running := r\<rparr>, w) = (Ret (), (x', w')) \<and> runs_to w [(Call ''close'' [I p], ok 0)] w' \<and> answers w' = as"
  using assms
  by (auto simp: exchange_end_def on_poller_def exchanging_def FDFile_destroy_def FDFile_close_def FileBase_destroy_def
      FileBase_close_def FileBase_isOpen_def FD_reset_def FD_valid_def FD_default_def Poller_destroy_def Poller_close_def
      Poller_valid_def FD_close_def runs_to_def act_defs kernel_defs)

text \<open>
  C31: What netcat passes on over a stream connection.  As long as the kernel reports readable descriptors, every
  chunk read from the input is offered to the socket once and every chunk read from the socket to
  the output, in the order of the events; a write that takes less than it was offered is not
  repeated.  A read from the input shrinks the buffer, so that all later reads ask for no more than
  the last chunk was long, and after the end of the input they ask for nothing: the first
  answer of the peer after that is read with size zero, which the program takes for the end of the
  connection.
\<close>

theorem netcat_exchange:
  assumes "answers w = map snd (session_calls p s rs) @ as" "all_fit BUFSIZ rs" "0 \<le> p" "fb_fd sock = FD s" "s \<noteq> 0" "useStream c"
  shows "\<exists>w'. exchangeData c sock w = (Ret (), w') \<and> runs_to w (session_calls p s rs) w' \<and> answers w' = as"
proof -
  let ?n = "foldl size_after BUFSIZ (concat rs)"
  obtain x1 w1 where start: "andthen (on_poller (Poller_create 16)) (monitor_all c sock) (exchange_start, w) = (Ret (), (x1, w1))"
      "exchanging p BUFSIZ x1" "runs_to w (take 3 (session_calls p s rs)) w1"
      "answers w1 = map snd (rounds_calls p s BUFSIZ rs) @ map snd (end_calls p s ?n) @ ok 0 # as"
    using exchange_setup[OF _ assms(3,4,6), of w] assms(1) by (fastforce simp: session_calls_def)
  obtain x2 w2 where rounds: "exchange_loop c sock (x1, w1) = exchange_loop c sock (x2, w2)" "exchanging p ?n x2"
      "runs_to w1 (rounds_calls p s BUFSIZ rs) w2" "answers w2 = map snd (end_calls p s ?n) @ ok 0 # as"
    using exchange_loop_rounds[OF start(2,4) assms(2,4,5)] by blast
  obtain x3 w3 where ends: "exchange_loop c sock (x2, w2) = (Ret (), (x3\<lparr>ex_running := False\<rparr>, w3))" "exchanging p 0 x3"
      "runs_to w2 (end_calls p s ?n) w3" "answers w3 = ok 0 # as"
    using exchange_loop_ends[OF rounds(2,4) assms(4-6)] by blast
  obtain x4 w4 where closed: "exchange_end (x3\<lparr>ex_running := False\<rparr>, w3) = (Ret (), (x4, w4))"
      "runs_to w3 [(Call ''close'' [I p], ok 0)] w4" "answers w4 = as"
    using exchange_end_closes[OF ends(2,4) assms(3)] by blast
  have "andthen (on_poller (Poller_create 16)) (andthen (monitor_all c sock) (exchange_loop c sock)) (exchange_start, w) =
      (Ret (), (x3\<lparr>ex_running := False\<rparr>, w3))"
    using start(1) rounds(1) ends(1) by (simp add: andthen_def bind_assoc[symmetric] bind_def[of "bind _ _"])
  then have "exchangeData c sock w = (Ret (), w4)" using closed(1) by (simp add: exchangeData_def scoped_def)
  moreover have "runs_to w (session_calls p s rs) w4"
    using runs_to_trans[OF start(3) runs_to_trans[OF rounds(3) runs_to_trans[OF ends(3) closed(2)]]]
    by (simp add: session_calls_def)
  ultimately show ?thesis using closed(3) by blast
qed

definition sample_session :: "transfer list list" where
  "sample_session = [[FromInput ''GET'' 3, FromPeer ''OK'' 1], [FromPeer ''ab'' 2]]"

theorem netcat_exchange_witness:
  "\<exists>w'. exchangeData SocketConfig_default (Socket_of_fd (FD 5) True) (world_of (map snd (session_calls 4 5 sample_session))) = (Ret (), w') \<and>
     (Call ''read'' [I 5, I 3], ok_bytes ''ab'') \<in> set (trace w') \<and> last (butlast (trace w')) = (Call ''read'' [I 5, I 0], ok 0)"
  using netcat_exchange[of "world_of (map snd (session_calls 4 5 sample_session))" 4 5 sample_session "[]" "Socket_of_fd (FD 5) True" SocketConfig_default]
  by (auto simp: world_of_def sample_session_def BUFSIZ_def Socket_of_fd_def FDFile_open_fd_def useStream_def useDgram_def
      SocketConfig_default_def runs_to_def session_calls_def end_calls_def)


subsection \<open>Choosing an address and connecting\<close>

text \<open>
  What the loop is for: the first address of the preferred family, or the first address there is.
\<close>

definition addresses_of :: "Endian \<Rightarrow> addrinfo \<Rightarrow> sockaddr_in option \<times> sockaddr_in6 option" where
  "addresses_of e info = (asIP4 e info, asIP6 e info)"

definition has_address :: "Endian \<Rightarrow> addrinfo \<Rightarrow> bool" where
  "has_address e info \<longleftrightarrow> addresses_of e info \<noteq> (None, None)"

definition reference_choice :: "Endian \<Rightarrow> SocketConfig \<Rightarrow> addrinfo list \<Rightarrow> sockaddr_in option \<times> sockaddr_in6 option" where
  "reference_choice e c infos = (case find (\<lambda>i. matchesPreferred c (info_family i)) infos of
       Some i \<Rightarrow> addresses_of e i
     | None \<Rightarrow> (case find (has_address e) infos of
         Some i \<Rightarrow> addresses_of e i | None \<Rightarrow> (None, None)))"

lemma choose_keeps:
  "vars \<noteq> (None, None) \<Longrightarrow> fold_until (choose_body e c) vars infos =
     (case find (\<lambda>i. matchesPreferred c (info_family i)) infos of Some i \<Rightarrow> addresses_of e i | None \<Rightarrow> vars)"
  by (induction infos) (auto simp: choose_body_def addresses_of_def prod_eq_iff)

lemma fold_choose: "fold_until (choose_body e c) (None, None) infos = reference_choice e c infos"
proof (induction infos)
  case Nil
  then show ?case by (simp add: reference_choice_def)
next
  case (Cons i infos)
  consider (preferred) "matchesPreferred c (info_family i)"
    | (none) "\<not> matchesPreferred c (info_family i)" "addresses_of e i = (None, None)"
    | (kept) "\<not> matchesPreferred c (info_family i)" "addresses_of e i \<noteq> (None, None)" by blast
  then show ?case
  proof cases
    case kept
    then have "fold_until (choose_body e c) (None, None) (i # infos) = fold_until (choose_body e c) (addresses_of e i) infos"
      by (simp add: choose_body_def addresses_of_def)
    with choose_keeps[OF kept(2)] kept show ?thesis
      by (simp add: reference_choice_def has_address_def split: option.split)
  qed (use Cons in \<open>auto simp: choose_body_def addresses_of_def has_address_def reference_choice_def split: option.split\<close>)
qed

lemma choose_address_chain:
  assumes "chain ai_next mem (ail_addrs l) infos"
  shows "choose_address e mem c l = Some (Inr (reference_choice e c infos))"
  by (simp add: choose_address_def AddressInfoList_begin_def info_range.visits_until[OF assms] fold_choose)


definition connect_calls :: "Endian \<Rightarrow> SocketFamily \<Rightarrow> int \<Rightarrow> SocketAddress \<Rightarrow> (syscall \<times> answer) list" where
  "connect_calls e family fd address =
     [(Call ''socket'' [I (SocketFamily_value family), I (type_arg SOCK_STREAM cloexec_socket), I SocketProtocol_DEFAULT], ok fd),
      (Call ''setsockopt'' [I fd, I SOL_SOCKET, I (SockOption_value SO_REUSEADDR), S (host_str e (1 :: 32 word))], ok 0),
      (Call ''connect'' (I fd # addr_args e address), ok 0)]"

lemma setupIPSocket_connects:
  assumes "answers w = ok fd # ok 0 # ok 0 # as" "0 \<le> fd" "nc_sock n = None" "useStream (nc_config n)" "\<not> sc_listen_mode (nc_config n)"
  shows "\<exists>w'. setupIPSocket e family address (n, (g, w)) = (Ret (), (n\<lparr>nc_sock := Some (Socket_of_fd (FD fd) True)\<rparr>, (g, w'))) \<and>
     runs_to w (connect_calls e family fd address) w' \<and> answers w' = as"
proof -
  let ?s = "FDFile_default\<lparr>fb_fd := FD fd\<rparr>"
  have "FD_setFD fd FD_default = FD fd" "FD_valid (FD fd)"
    using assms(2) by (simp_all add: FD_setFD_def FD_valid_def FD_default_def FD_def)
  then have create: "TCPClientSocket_create family cloexec_socket w =
      (Ret ?s, w\<lparr>answers := ok 0 # ok 0 # as, trace := trace w @ take 1 (connect_calls e family fd address)\<rparr>)"
    using assms(1) by (simp add: TCPClientSocket_create_def IPSocket_create_def Socket_create_def connect_calls_def FDFile_default_def
        act_defs kernel_defs Let_def)
  have destroy: "destroy_socket (Some (FDFile_default\<lparr>fb_fd := FD_reset (FD fd)\<rparr>)) v = (Ret (), v)" for v
    by (simp add: destroy_socket_def FDFile_destroy_def FDFile_default_def FileBase_destroy_def FileBase_close_def
        FileBase_isOpen_def FD_reset_def FD_valid_def FD_default_def act_defs)
  have conn: "FDFile_open_fd (FD fd) True FDFile_default = Socket_of_fd (FD fd) True" by (simp add: Socket_of_fd_def)
  show ?thesis using assms(1,3-5)
    by (simp add: setupIPSocket_def nc_world_def create setupSocketT_def reset_sock_def destroy_socket_def[of None] TCPClientSocketT_def
        TCPListenSocketT_def setReuseAddress_def so_set_bool_def setBoolOption_def setIntOption_def setsockopt_val_def
        TCPClientSocket_connect_def TCPConnection_create_def Socket_connect_def connect_calls_def destroy runs_to_def
        act_defs kernel_defs Let_def)
qed


lemma hints_cleared: "hints_arg (ail_hints (clear_hints c AddressInfoList_default)) = L [I 8, I 0, I (SocketType_value (sc_type c)), I 0]"
  by (simp add: hints_arg_def clear_hints_def AddressInfoList_default_def AddressHints_default_def hints_setFlags_def hints_flags_def
      hints_setType_def BitMask_of_list_def BitMask_raw_def BitMask_of_def BitMask_reset_flag_def BitMask_reset_list_def)

definition found :: "int \<Rightarrow> answer" where
  "found q = \<lparr>rv = 0, err = None, out = [], outs = [q]\<rparr>"

definition resolve_call :: "SocketConfig \<Rightarrow> string \<Rightarrow> string \<Rightarrow> int \<Rightarrow> syscall \<times> answer" where
  "resolve_call c host port q = (Call ''getaddrinfo'' [name_arg (SysString_of host), name_arg (SysString_of port),
     L [I 8, I 0, I (SocketType_value (sc_type c)), I 0]], found q)"

lemma resolve_and_choose_found:
  assumes "answers w = found q # as" "chain ai_next mem q infos"
  shows "\<exists>l' w'. resolve_and_choose e mem c host port (clear_hints d AddressInfoList_default, w) =
      (Ret (reference_choice e c infos), (l', w')) \<and> ail_addrs l' = q \<and> runs_to w [resolve_call d host port q] w' \<and> answers w' = as"
proof -
  let ?l = "(clear_hints d AddressInfoList_default)\<lparr>ail_addrs := q\<rparr>"
  have "choose_address e mem c ?l = Some (Inr (reference_choice e c infos))"
    using choose_address_chain[of mem ?l infos] assms(2) by simp
  moreover have "ail_addrs (clear_hints d AddressInfoList_default) = 0" by (simp add: clear_hints_def AddressInfoList_default_def)
  ultimately show ?thesis using assms(1)
    by (simp add: resolve_and_choose_def AddressInfoList_resolve_def AddressInfoList_clear_def stored_pointer_def found_def
        resolve_call_def hints_cleared runs_to_def act_defs kernel_defs)
qed

primrec chosen :: "sockaddr_in option \<times> sockaddr_in6 option \<Rightarrow> (SocketFamily \<times> SocketAddress) option" where
  "chosen (a, b) = (case a of Some x \<Rightarrow> Some (AF_INET, IP4Address x) | None \<Rightarrow> map_option (\<lambda>x. (AF_INET6, IP6Address x)) b)"

lemma list_destroyed:
  assumes "answers w = ok 0 # as" "ail_addrs l = q" "q \<noteq> 0"
  shows "\<exists>l' w'. on_list AddressInfoList_destroy (l, (n, (g, w))) = (Ret (), (l', (n, (g, w')))) \<and>
     runs_to w [(Call ''freeaddrinfo'' [I q], ok 0)] w' \<and> answers w' = as"
  using assms by (simp add: on_list_def AddressInfoList_destroy_def AddressInfoList_clear_def runs_to_def act_defs kernel_defs)

lemma setupSocket_resolved:
  assumes "sc_addrspec (nc_config n) = host @ CHR '':'' # port" "CHR '':'' \<notin> set port" "\<not> is_prefix (sc_addrspec (nc_config n)) UNIX_SCHEME"
    "resolve_and_choose e mem (nc_config n) host port (clear_hints (nc_config n) AddressInfoList_default, w) = (Ret vars, (l, w'))"
  shows "setupSocket e mem raw tx loc (n, (g, w)) =
     scoped l (on_world (setupResolved e (sc_addrspec (nc_config n)) vars)) (on_list AddressInfoList_destroy) (n, (g, w'))"
proof -
  have sep: "str_rfind (sc_addrspec (nc_config n)) '':'' = Some (length host)" "take (length host) (sc_addrspec (nc_config n)) = host"
      "drop (length host + 1) (sc_addrspec (nc_config n)) = port"
    using str_rfind_last[OF assms(2)] assms(1) by simp_all
  show ?thesis
    by (simp add: setupSocket_def assms(3,4) sep[simplified] on_list_def[of "resolve_and_choose e mem (nc_config n) host port"]
        catch_cosmos_def unless_thrown_def act_defs Let_def)
qed

definition no_results :: "string \<Rightarrow> string" where
  "no_results spec = ''No results trying to resolve address specification '' @ quoted spec @ newline"

lemma no_address: "fail_status (no_results spec) status (n, (g, w)) = (Ret (Inl status), (n, (g\<lparr>sg_cerr := sg_cerr g @ no_results spec\<rparr>, w)))"
  by (simp add: fail_status_def nc_cerr_def print_cerr_def act_defs)

lemma setupResolved_cases:
  "setupResolved e spec vars = (case chosen vars of
     Some (family, address) \<Rightarrow> andthen (setupIPSocket e family address) (ret (Inr ()))
   | None \<Rightarrow> fail_status (no_results spec) ADDR_ERROR)"
  by (cases vars) (auto simp: setupResolved_def no_results_def split: option.splits)

text \<open>
  C32: How netcat connects.  The address is split at its last colon; the resolver is asked for both parts without the
  flag that needs a configured address; of the entries it lists the first of the preferred
  family is taken or, without one, the first that has an address.  The program then creates a socket of
  that family, connects it to that address and owns the connection, and the list is freed.  Without a
  usable entry it ends with the status for address errors and has made no socket.
\<close>

theorem netcat_connects:
  assumes "nc_sock n = None" "useStream (nc_config n)" "\<not> sc_listen_mode (nc_config n)"
    "sc_addrspec (nc_config n) = host @ CHR '':'' # port" "CHR '':'' \<notin> set port" "\<not> is_prefix (sc_addrspec (nc_config n)) UNIX_SCHEME"
    "chain ai_next mem q infos" "q \<noteq> 0" "0 \<le> fd"
    "answers w = found q # (if choice = None then [ok 0] else [ok fd, ok 0, ok 0, ok 0]) @ as"
    "choice = chosen (reference_choice e (nc_config n) infos)"
  shows "case choice of
      Some (family, address) \<Rightarrow> \<exists>w'. setupSocket e mem raw tx loc (n, (g, w)) =
          (Ret (Inr ()), (n\<lparr>nc_sock := Some (Socket_of_fd (FD fd) True)\<rparr>, (g, w'))) \<and> answers w' = as \<and>
        runs_to w (resolve_call (nc_config n) host port q # connect_calls e family fd address @ [(Call ''freeaddrinfo'' [I q], ok 0)]) w'
    | None \<Rightarrow> \<exists>g' w'. setupSocket e mem raw tx loc (n, (g, w)) = (Ret (Inl ADDR_ERROR), (n, (g', w'))) \<and> answers w' = as \<and>
        runs_to w [resolve_call (nc_config n) host port q, (Call ''freeaddrinfo'' [I q], ok 0)] w'"
proof -
  let ?c = "nc_config n" and ?r = "reference_choice e (nc_config n) infos"
  obtain l1 w1 where res: "resolve_and_choose e mem ?c host port (clear_hints ?c AddressInfoList_default, w) = (Ret ?r, (l1, w1))"
      "ail_addrs l1 = q" "runs_to w [resolve_call ?c host port q] w1"
      "answers w1 = (if choice = None then [ok 0] else [ok fd, ok 0, ok 0, ok 0]) @ as"
    using resolve_and_choose_found[OF assms(10)[unfolded append_Cons] assms(7)] by blast
  note expand = setupSocket_resolved[OF assms(4-6) res(1)] setupResolved_cases assms(11)[symmetric] scoped_def
  show ?thesis
  proof (cases choice)
    case None
    with res(4) have "answers w1 = ok 0 # as" by simp
    then obtain l2 w2 where w2: "on_list AddressInfoList_destroy (l1, (n, (g\<lparr>sg_cerr := sg_cerr g @ no_results (sc_addrspec ?c)\<rparr>, w1))) =
          (Ret (), (l2, (n, (g\<lparr>sg_cerr := sg_cerr g @ no_results (sc_addrspec ?c)\<rparr>, w2))))"
        "runs_to w1 [(Call ''freeaddrinfo'' [I q], ok 0)] w2" "answers w2 = as"
      using list_destroyed[OF _ res(2) assms(8)] by blast
    have "setupSocket e mem raw tx loc (n, (g, w)) = (Ret (Inl ADDR_ERROR), (n, (g\<lparr>sg_cerr := sg_cerr g @ no_results (sc_addrspec ?c)\<rparr>, w2)))"
      using None w2(1) by (simp add: expand no_address on_world_def)
    with None w2(3) runs_to_trans[OF res(3) w2(2)] show ?thesis by auto
  next
    case (Some fa)
    obtain family address where fa: "fa = (family, address)" by (cases fa)
    have "answers w1 = ok fd # ok 0 # ok 0 # ok 0 # as" using res(4) Some by simp
    from setupIPSocket_connects[OF this assms(9,1-3)]
    obtain w2 where w2: "setupIPSocket e family address (n, (g, w1)) = (Ret (), (n\<lparr>nc_sock := Some (Socket_of_fd (FD fd) True)\<rparr>, (g, w2)))"
        "runs_to w1 (connect_calls e family fd address) w2" "answers w2 = ok 0 # as" by blast
    obtain l3 w3 where w3: "on_list AddressInfoList_destroy (l1, (n\<lparr>nc_sock := Some (Socket_of_fd (FD fd) True)\<rparr>, (g, w2))) =
          (Ret (), (l3, (n\<lparr>nc_sock := Some (Socket_of_fd (FD fd) True)\<rparr>, (g, w3))))"
        "runs_to w2 [(Call ''freeaddrinfo'' [I q], ok 0)] w3" "answers w3 = as"
      using list_destroyed[OF w2(3) res(2) assms(8)] by blast
    have "runs_to w (resolve_call ?c host port q # connect_calls e family fd address @ [(Call ''freeaddrinfo'' [I q], ok 0)]) w3"
      using runs_to_trans[OF res(3) runs_to_trans[OF w2(2) w3(2)]] by simp
    moreover have "setupSocket e mem raw tx loc (n, (g, w)) = (Ret (Inr ()), (n\<lparr>nc_sock := Some (Socket_of_fd (FD fd) True)\<rparr>, (g, w3)))"
      using Some fa w2(1) w3(1) by (simp add: expand on_world_def andthen_def bind_def ret_def)
    ultimately show ?thesis using Some fa w3(3) by auto
  qed
qed

definition sample_infos :: "int \<Rightarrow> addrinfo" where
  "sample_infos p = (if p = 10 then \<lparr>ai_flags = 0, ai_family = 10, ai_socktype = 1, ai_protocol = 6, ai_addr = Some (replicate 28 NUL), ai_canonname = None, ai_next = 20\<rparr>
     else \<lparr>ai_flags = 0, ai_family = 2, ai_socktype = 1, ai_protocol = 6, ai_addr = Some (replicate 16 NUL), ai_canonname = None, ai_next = 0\<rparr>)"

definition sample_config :: SocketConfig where
  "sample_config = SocketConfig_default\<lparr>sc_preferred := AF_INET, sc_addrspec := ''::1:80''\<rparr>"

theorem netcat_connects_witness:
  "\<forall>raw tx loc g. \<exists>w'. setupSocket LITTLE sample_infos raw tx loc (NetCat_default\<lparr>nc_config := sample_config\<rparr>, (g, world_of [found 10, ok 5, ok 0, ok 0, ok 0])) =
     (Ret (Inr ()), (NetCat_default\<lparr>nc_config := sample_config, nc_sock := Some (Socket_of_fd (FD 5) True)\<rparr>, (g, w'))) \<and> answers w' = []"
proof -
  let ?n = "NetCat_default\<lparr>nc_config := sample_config\<rparr>"
  have infos: "chain ai_next sample_infos 10 [sample_infos 10, sample_infos 20]" by (simp add: sample_infos_def)
  have choice: "chosen (reference_choice LITTLE (nc_config ?n) [sample_infos 10, sample_infos 20]) =
      Some (AF_INET, IP4Address (sin_of_bytes LITTLE (replicate 16 NUL)))"
    by (simp add: reference_choice_def matchesPreferred_def sample_config_def sample_infos_def info_family_def addresses_of_def
        asIP4_def SocketConfig_default_def)
  note connects = netcat_connects[where n = ?n and host = "''::1''" and port = "''80''" and fd = 5 and as = "[]"
      and w = "world_of [found 10, ok 5, ok 0, ok 0, ok 0]", OF _ _ _ _ _ _ infos _ _ _ choice[symmetric]]
  show ?thesis
    by (intro allI, rule connects[simplified, THEN exE])
      (auto simp: NetCat_default_def sample_config_def SocketConfig_default_def useStream_def useDgram_def is_prefix_def UNIX_SCHEME_def world_of_def)
qed

subsection \<open>The command line\<close>

text \<open>
  An empty argument is taken for an address that is missing, so it is ignored like an option that
  changes nothing.
\<close>

definition option_args :: "string set" where
  "option_args = {''--datagram'', ''--listen'', ''--ipv6'', ''--ipv4'', ''''}"

definition family_args :: "string list \<Rightarrow> string list" where
  "family_args args = filter (\<lambda>a. a = ''--ipv6'' \<or> a = ''--ipv4'') args"

definition config_of :: "string list \<Rightarrow> string \<Rightarrow> SocketConfig" where
  "config_of opts addr = \<lparr>sc_type = (if ''--datagram'' \<in> set opts then SOCK_DGRAM else SOCK_STREAM),
     sc_preferred = (if ''--ipv6'' \<in> set opts then AF_INET6 else if ''--ipv4'' \<in> set opts then AF_INET else AF_UNSPEC),
     sc_listen_mode = (''--listen'' \<in> set opts), sc_addrspec = addr\<rparr>"

text \<open>A good command line has options, at most one of them for a family, and then one address.\<close>

definition good_line :: "string list \<Rightarrow> bool" where
  "good_line args \<longleftrightarrow> length (family_args (takeWhile (\<lambda>a. a \<in> option_args) args)) \<le> 1 \<and>
     (case dropWhile (\<lambda>a. a \<in> option_args) args of [addr] \<Rightarrow> addr \<noteq> ''-h'' \<and> addr \<noteq> ''--help'' | _ \<Rightarrow> False)"

lemma option_args_simps: "a \<in> option_args \<longleftrightarrow> a = ''--datagram'' \<or> a = ''--listen'' \<or> a = ''--ipv6'' \<or> a = ''--ipv4'' \<or> a = ''''"
  by (simp add: option_args_def)

text \<open>What has been read so far: options only, and at most one family.\<close>

lemma process_option:
  assumes "a \<in> option_args" "length (family_args opts) \<le> 1"
  shows "process_arg a (n\<lparr>nc_config := config_of opts ''''\<rparr>, (g, w)) =
     (if length (family_args (opts @ [a])) \<le> 1 then (Ret (Inr ()), (n\<lparr>nc_config := config_of (opts @ [a]) ''''\<rparr>, (g, w)))
      else (Ret (Inl BAD_CMDLINE), (n\<lparr>nc_config := config_of opts ''''\<rparr>,
        (g\<lparr>sg_cerr := sg_cerr g @ ''conflicting flags --ipv4 and --ipv6 encountered'' @ newline\<rparr>, w))))"
proof -
  have fams: "family_args opts = [] \<longleftrightarrow> ''--ipv6'' \<notin> set opts \<and> ''--ipv4'' \<notin> set opts"
    by (auto simp: family_args_def filter_empty_conv)
  show ?thesis
  proof (cases "family_args opts = []")
    case True
    with fams assms(1) show ?thesis
      by (auto simp: option_args_simps process_arg_def config_of_def checkPreferredUnassigned_def unless_thrown_def set_config_def
          family_args_def act_defs)
  next
    case False
    with fams assms have pref: "sc_preferred (config_of opts '''') \<noteq> AF_UNSPEC" "length (family_args opts) = 1"
      by (auto simp: config_of_def Suc_le_eq le_Suc_eq)
    with assms(1) show ?thesis
      by (auto simp: option_args_simps process_arg_def config_of_def checkPreferredUnassigned_def unless_thrown_def set_config_def
          fail_status_def nc_cerr_def print_cerr_def family_args_def act_defs)
  qed
qed


lemma family_args_append: "family_args (xs @ ys) = family_args xs @ family_args ys"
  by (simp add: family_args_def)

lemma process_options_good:
  "\<lbrakk>set os \<subseteq> option_args; length (family_args (opts @ os)) \<le> 1\<rbrakk> \<Longrightarrow>
     process_args_loop (os @ args) (n\<lparr>nc_config := config_of opts ''''\<rparr>, (g, w)) =
     process_args_loop args (n\<lparr>nc_config := config_of (opts @ os) ''''\<rparr>, (g, w))"
proof (induction os arbitrary: opts)
  case Nil
  then show ?case by simp
next
  case (Cons a os)
  then have len: "length (family_args ((opts @ [a]) @ os)) \<le> 1" "length (family_args (opts @ [a])) \<le> 1" "length (family_args opts) \<le> 1"
    using family_args_append[of "[a]" os] by (simp_all add: family_args_append)
  from Cons.prems(1) process_option[of a opts n g w] Cons.IH[OF _ len(1)] len show ?case
    by (simp add: unless_thrown_def bind_def)
qed

lemma process_options_bad:
  "\<lbrakk>set os \<subseteq> option_args; \<not> length (family_args (opts @ os)) \<le> 1; length (family_args opts) \<le> 1\<rbrakk> \<Longrightarrow>
     \<exists>n' g'. process_args_loop (os @ args) (n\<lparr>nc_config := config_of opts ''''\<rparr>, (g, w)) = (Ret (Inl BAD_CMDLINE), (n', (g', w))) \<and>
       nc_sock n' = nc_sock n"
proof (induction os arbitrary: opts)
  case Nil
  then show ?case by simp
next
  case (Cons a os)
  show ?case
  proof (cases "length (family_args (opts @ [a])) \<le> 1")
    case True
    moreover have "\<not> length (family_args ((opts @ [a]) @ os)) \<le> 1" using Cons.prems(2) by simp
    ultimately show ?thesis
      using Cons.IH[of "opts @ [a]"] process_option[of a opts n g w] Cons.prems(1,3) by (simp add: unless_thrown_def bind_def)
  next
    case False
    with Cons.prems process_option[of a opts n g w] show ?thesis
      by (simp add: unless_thrown_def bind_def ret_def)
  qed
qed

lemma process_address:
  assumes "a \<notin> option_args"
  shows "a \<noteq> ''-h'' \<Longrightarrow> a \<noteq> ''--help'' \<Longrightarrow>
      process_args_loop [a] (n\<lparr>nc_config := config_of opts ''''\<rparr>, (g, w)) = (Ret (Inr ()), (n\<lparr>nc_config := config_of opts a\<rparr>, (g, w)))"
    and "as \<noteq> [] \<or> a = ''-h'' \<or> a = ''--help'' \<Longrightarrow>
      \<exists>n' g'. process_args_loop (a # as) (n\<lparr>nc_config := config_of opts ''''\<rparr>, (g, w)) = (Ret (Inl BAD_CMDLINE), (n', (g', w))) \<and>
        nc_sock n' = nc_sock n"
proof -
  have a: "a \<noteq> ''--datagram''" "a \<noteq> ''--listen''" "a \<noteq> ''--ipv6''" "a \<noteq> ''--ipv4''" "a \<noteq> ''''"
    using assms by (auto simp: option_args_simps)
  note defs = process_arg_def config_of_def unless_thrown_def set_config_def fail_status_def nc_cerr_def print_cerr_def act_defs
  show "process_args_loop [a] (n\<lparr>nc_config := config_of opts ''''\<rparr>, (g, w)) = (Ret (Inr ()), (n\<lparr>nc_config := config_of opts a\<rparr>, (g, w)))"
    if "a \<noteq> ''-h''" "a \<noteq> ''--help''" using a that by (simp add: defs)
  show "\<exists>n' g'. process_args_loop (a # as) (n\<lparr>nc_config := config_of opts ''''\<rparr>, (g, w)) = (Ret (Inl BAD_CMDLINE), (n', (g', w))) \<and>
        nc_sock n' = nc_sock n" if "as \<noteq> [] \<or> a = ''-h'' \<or> a = ''--help''"
  proof (cases as)
    case Nil
    with a that show ?thesis by (auto simp: defs)
  next
    case (Cons b bs)
    with a show ?thesis by (auto simp: defs)
  qed
qed

lemma config_of_start: "NetCat_default\<lparr>nc_config := config_of [] ''''\<rparr> = NetCat_default"
  by (simp add: NetCat_default_def config_of_def SocketConfig_default_def)

lemma good_line_configured:
  assumes "good_line args"
  shows "process_args_loop args (NetCat_default, (g, w)) = (Ret (Inr ()), (NetCat_default\<lparr>nc_config :=
      config_of (takeWhile (\<lambda>a. a \<in> option_args) args) (last args)\<rparr>, (g, w)))"
proof -
  let ?opts = "takeWhile (\<lambda>a. a \<in> option_args) args"
  obtain addr where addr: "dropWhile (\<lambda>a. a \<in> option_args) args = [addr]" "addr \<noteq> ''-h''" "addr \<noteq> ''--help''" "length (family_args ?opts) \<le> 1"
    using assms by (auto simp: good_line_def split: list.splits)
  then have args: "args = ?opts @ [addr]" "addr \<notin> option_args"
    using takeWhile_dropWhile_id[of "\<lambda>a. a \<in> option_args" args] hd_dropWhile[of "\<lambda>a. a \<in> option_args" args] by auto
  have "set ?opts \<subseteq> option_args" by (auto dest: set_takeWhileD)
  then have "process_args_loop (?opts @ [addr]) (NetCat_default, (g, w)) =
      (Ret (Inr ()), (NetCat_default\<lparr>nc_config := config_of ?opts addr\<rparr>, (g, w)))"
    using process_options_good[of ?opts "[]" "[addr]" NetCat_default g w] process_address(1)[OF args(2) addr(2,3)] addr(4)
    by (simp add: config_of_start)
  with args(1) show ?thesis by (metis last_snoc)
qed

lemma bad_line_rejected:
  assumes "\<not> good_line args"
  shows "\<exists>n' g'. nc_sock n' = None \<and> (process_args_loop args (NetCat_default, (g, w)) = (Ret (Inl BAD_CMDLINE), (n', (g', w))) \<or>
     process_args_loop args (NetCat_default, (g, w)) = (Ret (Inr ()), (n', (g', w))) \<and> sc_addrspec (nc_config n') = '''')"
proof -
  let ?opts = "takeWhile (\<lambda>a. a \<in> option_args) args" and ?rest = "dropWhile (\<lambda>a. a \<in> option_args) args"
  have args: "args = ?opts @ ?rest" by simp
  have opts: "set ?opts \<subseteq> option_args" by (auto dest: set_takeWhileD)
  have none: "nc_sock NetCat_default = None" by (simp add: NetCat_default_def)
  show ?thesis
  proof (cases "length (family_args ?opts) \<le> 1")
    case False
    with process_options_bad[OF opts, of "[]" ?rest NetCat_default g w] none args show ?thesis
      by (auto simp: config_of_start family_args_def)
  next
    case fits: True
    then have start: "process_args_loop args (NetCat_default, (g, w)) =
        process_args_loop ?rest (NetCat_default\<lparr>nc_config := config_of ?opts ''''\<rparr>, (g, w))"
      using process_options_good[OF opts, of "[]" ?rest NetCat_default g w] by (simp add: config_of_start)
    show ?thesis
    proof (cases ?rest)
      case Nil
      with start show ?thesis by (auto simp: ret_def config_of_def NetCat_default_def)
    next
      case (Cons a as)
      with hd_dropWhile[of "\<lambda>a. a \<in> option_args" args] have "a \<notin> option_args" by auto
      moreover have "as \<noteq> [] \<or> a = ''-h'' \<or> a = ''--help''" using assms fits Cons by (auto simp: good_line_def split: list.splits)
      ultimately show ?thesis
        using process_address(2)[where a = a and as = as and n = NetCat_default and opts = ?opts and g = g and w = w] start none by (auto simp: Cons)
    qed
  qed
qed

text \<open>
  C33: The command line of netcat.  Options in any order and number, at most one of them for a family, followed by one
  address give the configuration they name.  On every other command line, a request for help included, the
  program prints its usage and ends with the status 2; it has made no system call and has no
  socket.
\<close>

theorem netcat_command_line:
  "if good_line args
   then process_args_loop args (NetCat_default, (g, w)) =
     (Ret (Inr ()), (NetCat_default\<lparr>nc_config := config_of (takeWhile (\<lambda>a. a \<in> option_args) args) (last args)\<rparr>, (g, w)))
   else \<exists>n' g' msg. NetCat_main e mem raw tx loc argv0 args (NetCat_default, (g, w)) = (Ret (Inr BAD_CMDLINE), (n', (g', w))) \<and>
     nc_sock n' = None \<and> sg_cerr g' = msg @ usage_text argv0"
proof (cases "good_line args")
  case True
  with good_line_configured[OF True] show ?thesis by simp
next
  case False
  then obtain n' g' where p: "nc_sock n' = None" "process_args_loop args (NetCat_default, (g, w)) = (Ret (Inl BAD_CMDLINE), (n', (g', w))) \<or>
     process_args_loop args (NetCat_default, (g, w)) = (Ret (Inr ()), (n', (g', w))) \<and> sc_addrspec (nc_config n') = ''''"
    using bad_line_rejected by blast
  then have "\<exists>g''. processArgs e mem raw tx loc args (NetCat_default, (g, w)) = (Ret (Inl BAD_CMDLINE), (n', (g'', w)))"
    by (auto simp: processArgs_def unless_thrown_def fail_status_def nc_cerr_def print_cerr_def act_defs)
  with False p(1) show ?thesis
    by (auto simp: NetCat_main_def NetCat_setup_def catch_cosmos_def printUsage_def nc_cerr_def print_cerr_def act_defs)
qed

theorem netcat_command_line_witness:
  "\<forall>g w. process_args_loop [''--listen'', ''--ipv4'', ''h:1''] (NetCat_default, (g, w)) =
     (Ret (Inr ()), (NetCat_default\<lparr>nc_config := \<lparr>sc_type = SOCK_STREAM, sc_preferred = AF_INET, sc_listen_mode = True,
        sc_addrspec = ''h:1''\<rparr>\<rparr>, (g, w)))"
  using netcat_command_line[of "[''--listen'', ''--ipv4'', ''h:1'']"]
  by (simp add: good_line_def option_args_def family_args_def config_of_def)


subsection \<open>Exit statuses\<close>

lemma catch_RetD:
  assumes "catch m h s = (Ret y, t)"
  obtains "m s = (Ret y, t)" | ex u where "m s = (Throw ex, u)" "h ex u = (Ret y, t)"
  using assms by (auto simp: catch_def split: prod.splits outcome.splits)

lemma scoped_RetD:
  assumes "scoped obj body destroy w = (Ret y, w')"
  obtains obj' u where "body (obj, w) = (Ret y, (obj', u))"
  using assms by (auto simp: scoped_def split: prod.splits outcome.splits)

lemma on_world_RetD:
  assumes "on_world m s = (Ret y, t)"
  obtains w where "m (snd s) = (Ret y, w)"
  using assms by (auto simp: on_world_def split: prod.splits)

text \<open>The statuses a part of the program may throw.\<close>

definition throws_only :: "int set \<Rightarrow> ('s, int + 'a) act \<Rightarrow> bool" where
  "throws_only A m \<longleftrightarrow> (\<forall>s x s'. m s = (Ret (Inl x), s') \<longrightarrow> x \<in> A)"

lemma throws_onlyD: "throws_only A m \<Longrightarrow> m s = (Ret (Inl x), s') \<Longrightarrow> x \<in> A"
  unfolding throws_only_def by blast

lemma throws_onlyI: "(\<And>s x s'. m s = (Ret (Inl x), s') \<Longrightarrow> x \<in> A) \<Longrightarrow> throws_only A m"
  unfolding throws_only_def by blast

lemma throws_only_simps:
  "throws_only A (ret (Inr x))" "st \<in> A \<Longrightarrow> throws_only A (ret (Inl st))" "throws_only A (throw ex)" "throws_only A (abort k)"
  "throws_only A (\<lambda>s. (Blocked, s))" "status \<in> A \<Longrightarrow> throws_only A (fail_status msg status)"
  by (simp_all add: throws_only_def fail_status_def nc_cerr_def print_cerr_def act_defs)

lemma throws_only_bind: "(\<And>x. throws_only A (f x)) \<Longrightarrow> throws_only A (bind m f)"
  by (rule throws_onlyI) (blast elim: bind_RetD dest: throws_onlyD)

lemma throws_only_andthen: "throws_only A n \<Longrightarrow> throws_only A (andthen m n)"
  by (rule throws_onlyI) (blast elim: andthen_RetD dest: throws_onlyD)

lemma throws_only_unless:
  assumes "throws_only A m" "\<And>x. throws_only A (f x)"
  shows "throws_only A (unless_thrown m f)"
proof (rule throws_onlyI)
  fix s x s' assume "unless_thrown m f s = (Ret (Inl x), s')"
  then obtain r u where "m s = (Ret r, u)" "(case r of Inl status \<Rightarrow> ret (Inl status) | Inr y \<Rightarrow> f y) u = (Ret (Inl x), s')"
    unfolding unless_thrown_def by (rule bind_RetD)
  then show "x \<in> A" using assms(1)[THEN throws_onlyD] assms(2)[THEN throws_onlyD] by (cases r) (auto simp: ret_def)
qed

lemma throws_only_catch: "throws_only A m \<Longrightarrow> (\<And>ex. throws_only A (h ex)) \<Longrightarrow> throws_only A (catch_cosmos m h)"
  unfolding catch_cosmos_def
proof (rule throws_onlyI)
  fix s x s' assume "throws_only A m" "\<And>ex. throws_only A (h ex)"
    "catch m (\<lambda>ex. if thrown_object ([], 0, []) ex = None then throw ex else h ex) s = (Ret (Inl x), s')"
  then show "x \<in> A"
    by (elim catch_RetD) (auto simp: throw_def split: if_splits dest: throws_onlyD[where m = m] throws_onlyD[where m = "h _"])
qed

lemma throws_only_on_world: "throws_only A m \<Longrightarrow> throws_only A (on_world m)"
  by (rule throws_onlyI) (blast elim: on_world_RetD dest: throws_onlyD)

lemma throws_only_scoped: "throws_only A body \<Longrightarrow> throws_only A (scoped obj body destroy)"
  by (rule throws_onlyI) (blast elim: scoped_RetD dest: throws_onlyD)

lemma throws_only_cases:
  "throws_only A m \<Longrightarrow> throws_only A n \<Longrightarrow> throws_only A (if b then m else n)"
  "throws_only A m \<Longrightarrow> (\<And>x. throws_only A (f x)) \<Longrightarrow> throws_only A (case opt of None \<Rightarrow> m | Some x \<Rightarrow> f x)"
  "(\<And>x y. throws_only A (h x y)) \<Longrightarrow> throws_only A (case p of (x, y) \<Rightarrow> h x y)"
  by (simp_all split: option.split prod.split)

lemmas throws_only_rules = throws_only_cases throws_only_simps throws_only_bind throws_only_andthen throws_only_unless throws_only_catch
  throws_only_on_world throws_only_scoped

lemma setup_throws: "throws_only {BAD_CMDLINE, ADDR_ERROR} (setupSocket e mem raw tx loc)"
  unfolding setupSocket_def Let_def setupResolved_def by (intro throws_only_rules) simp_all

lemma args_throw: "throws_only {BAD_CMDLINE, ADDR_ERROR} (process_args_loop args)"
proof (induction args)
  case Nil
  then show ?case by (simp add: throws_only_rules)
next
  case (Cons a args)
  have "throws_only {BAD_CMDLINE, ADDR_ERROR} (process_arg a)"
    unfolding process_arg_def checkPreferredUnassigned_def by (intro throws_only_rules) simp_all
  with Cons show ?case by (simp add: throws_only_rules)
qed

lemma processArgs_throws: "throws_only {BAD_CMDLINE, ADDR_ERROR} (processArgs e mem raw tx loc args)"
  unfolding processArgs_def by (intro throws_only_rules args_throw setup_throws) simp_all


lemma NetCat_setup_statuses:
  assumes "NetCat_setup e mem raw tx loc argv0 args s = (Ret q, t)"
  shows "q \<in> {None, Some (Inr BAD_CMDLINE), Some (Inr ADDR_ERROR), Some (Inl SOCKET_SETUP_ERROR)}"
proof -
  have one: "x \<in> {BAD_CMDLINE, ADDR_ERROR}" if "processArgs e mem raw tx loc args s = (Ret (Inl x), u)" for x u
    using processArgs_throws that by (rule throws_onlyD)
  show ?thesis using assms one unfolding NetCat_setup_def catch_cosmos_def
    by (elim catch_RetD bind_RetD) (auto elim!: bind_RetD andthen_RetD simp: ret_def throw_def split: if_splits sum.splits)
qed

lemma NetCat_main_statuses:
  assumes "NetCat_main e mem raw tx loc argv0 args s = (Ret r, t)"
  shows "r \<in> {Inr 0, Inr BAD_CMDLINE, Inr ADDR_ERROR, Inl SOCKET_SETUP_ERROR}"
proof -
  obtain q u where q: "NetCat_setup e mem raw tx loc argv0 args s = (Ret q, u)" "(case q of Some status \<Rightarrow> ret status
     | None \<Rightarrow> bind (this (\<lambda>n. n)) (\<lambda>n. bind (nc_world (value_of (nc_sock n))) (\<lambda>sock.
         andthen (nc_world (exchangeData (nc_config n) sock)) (ret (Inr (ExitStatus_value EXIT_SUCCESS)))))) u = (Ret r, t)"
    using assms unfolding NetCat_main_def by (rule bind_RetD)
  show ?thesis
  proof (cases q)
    case None
    with q(2) show ?thesis by (auto elim!: bind_RetD andthen_RetD simp: ret_def)
  next
    case (Some status)
    with q(2) NetCat_setup_statuses[OF q(1)] show ?thesis by (auto simp: ret_def)
  qed
qed

lemma NetCat_run_statuses:
  assumes "run_main wt (NetCat_program e mem raw tx loc) argv s = (Ret st, t)"
  shows "st \<in> {0, 1, BAD_CMDLINE, ADDR_ERROR, SOCKET_SETUP_ERROR}"
proof -
  have main: "r \<in> {Inr 0, Inr BAD_CMDLINE, Inr ADDR_ERROR, Inl SOCKET_SETUP_ERROR}"
    if "pr_main (NetCat_program e mem raw tx loc) args u = (Ret r, v)" for args u r v
    using that by (cases args) (auto simp: NetCat_program_def abort_def elim!: scoped_RetD dest: NetCat_main_statuses)
  from assms show ?thesis unfolding run_main_def
  proof (cases rule: catch_RetD)
    case 1
    then obtain args where "bind (pr_main (NetCat_program e mem raw tx loc) args)
        (\<lambda>r. ret (case r of Inl thrown \<Rightarrow> thrown | Inr status \<Rightarrow> status)) s = (Ret st, t)"
      by (auto simp: abort_def split: option.splits)
    then show ?thesis by (elim bind_RetD) (auto simp: ret_def dest!: main)
  next
    case (2 ex u)
    then show ?thesis by (auto elim!: andthen_RetD simp: ret_def)
  qed
qed

text \<open>
  C34: The exit status of netcat.  Whatever its arguments are and however the kernel answers, if the program
  ends by itself it returns success, failure, or one of the three statuses it defines.
\<close>

theorem netcat_exit_status:
  assumes "cosmos_main debug wt (NetCat_program e mem raw tx loc) argv s = (Ret status, s')"
  shows "status \<in> {0, 1, BAD_CMDLINE, ADDR_ERROR, SOCKET_SETUP_ERROR}"
proof -
  have ctor: "pr_ctor (NetCat_program e mem raw tx loc) = ret (Inr ())" by (simp add: NetCat_program_def)
  from assms show ?thesis unfolding cosmos_main_def
  proof (cases rule: catch_RetD)
    case 1
    then obtain u v where "on_world (bind (pr_ctor (NetCat_program e mem raw tx loc)) (\<lambda>c. case c of
      Inl _ \<Rightarrow> abort terminated | Inr _ \<Rightarrow> run_main wt (NetCat_program e mem raw tx loc) argv)) ((), u) = (Ret status, v)"
      by (auto elim!: andthen_RetD scoped_RetD)
    then show ?thesis
      by (elim on_world_RetD) (auto simp: ctor dest!: NetCat_run_statuses)
  next
    case (2 ex u)
    then show ?thesis by (auto elim!: andthen_RetD simp: ret_def)
  qed
qed

theorem netcat_exit_status_witness:
  "\<forall>e mem raw tx loc wt. \<exists>s'. cosmos_main True wt (NetCat_program e mem raw tx loc) [''netcat'', ''--listen'', ''--help''] (settings_start, world_of []) =
     (Ret BAD_CMDLINE, s') \<and> BAD_CMDLINE \<in> {0, 1, BAD_CMDLINE, ADDR_ERROR, SOCKET_SETUP_ERROR}"
proof (intro allI)
  fix e mem raw tx loc wt
  obtain s' where run: "cosmos_main True wt (NetCat_program e mem raw tx loc) [''netcat'', ''--listen'', ''--help''] (settings_start, world_of []) =
      (Ret BAD_CMDLINE, s')"
    by (simp add: cosmos_main_def run_main_def NetCat_program_def make_args_def startup_init_def startup_finish_def settings_start_def library_start_def
        on_lib_def NetCat_main_def NetCat_setup_def processArgs_def process_arg_def unless_thrown_def catch_cosmos_def set_config_def
        printUsage_def nc_cerr_def print_cerr_def NetCat_destroy_def reset_sock_def destroy_socket_def nc_world_def NetCat_default_def
        SocketConfig_default_def c_str_def NUL_def act_defs)
  from netcat_exit_status[OF run] run show "\<exists>s'. cosmos_main True wt (NetCat_program e mem raw tx loc) [''netcat'', ''--listen'', ''--help'']
      (settings_start, world_of []) = (Ret BAD_CMDLINE, s') \<and> BAD_CMDLINE \<in> {0, 1, BAD_CMDLINE, ADDR_ERROR, SOCKET_SETUP_ERROR}" by blast
qed

end
