(* ===== verification/UserEntries.thy ===== *)
theory UserEntries
  imports UserDb
begin

text \<open>
  The entries of the user and group databases: the accessors of \<^verbatim>\<open>PasswdInfo\<close>
  (\<^verbatim>\<open>include/PasswdInfo.hxx\<close>) and \<^verbatim>\<open>GroupInfo\<close> (\<^verbatim>\<open>include/GroupInfo.hxx\<close>,
  \<^verbatim>\<open>src/GroupInfo.cxx\<close>).  The numbers the lookup stores (theory UserDb) are followed by the pointers of
  the structure, into the buffer of the object: name, password, description, home and
  shell of a user, and name, password and the array of members of a group.
\<close>

subsection \<open>Fields\<close>

text \<open>
  A field of the structure by its position; after \<^verbatim>\<open>reset()\<close> everything is zero.  \<open>strs\<close> is the
  string at an address, \<open>ptrs\<close> the pointer at an address.
\<close>

definition db_field :: "nat \<Rightarrow> info_base \<Rightarrow> int" where
  "db_field k i = (if k < length (m_info i) then m_info i ! k else 0)"

definition string_at :: "(int \<Rightarrow> string) \<Rightarrow> int \<Rightarrow> SysString" where
  "string_at strs p = (if p = 0 then None else SysString_of (strs p))"

definition PasswdInfo_name :: "(int \<Rightarrow> string) \<Rightarrow> info_base \<Rightarrow> SysString" where
  "PasswdInfo_name strs i = string_at strs (db_field 2 i)"

definition PasswdInfo_passwd :: "(int \<Rightarrow> string) \<Rightarrow> info_base \<Rightarrow> SysString" where
  "PasswdInfo_passwd strs i = string_at strs (db_field 3 i)"

definition PasswdInfo_gecos :: "(int \<Rightarrow> string) \<Rightarrow> info_base \<Rightarrow> SysString" where
  "PasswdInfo_gecos strs i = string_at strs (db_field 4 i)"

definition PasswdInfo_homeDir :: "(int \<Rightarrow> string) \<Rightarrow> info_base \<Rightarrow> SysString" where
  "PasswdInfo_homeDir strs i = string_at strs (db_field 5 i)"

definition PasswdInfo_shell :: "(int \<Rightarrow> string) \<Rightarrow> info_base \<Rightarrow> SysString" where
  "PasswdInfo_shell strs i = string_at strs (db_field 6 i)"

definition GroupInfo_name :: "(int \<Rightarrow> string) \<Rightarrow> info_base \<Rightarrow> SysString" where
  "GroupInfo_name strs i = string_at strs (db_field 1 i)"

definition GroupInfo_passwd :: "(int \<Rightarrow> string) \<Rightarrow> info_base \<Rightarrow> SysString" where
  "GroupInfo_passwd strs i = string_at strs (db_field 2 i)"

text \<open>
  The loop over the array of members, which ends at a null pointer; pointers take eight bytes.
  Without a null pointer it does not return.
\<close>

partial_function (option) members_loop :: "(int \<Rightarrow> int) \<Rightarrow> (int \<Rightarrow> string) \<Rightarrow> int \<Rightarrow> SysString list \<Rightarrow> SysString list option" where
  "members_loop ptrs strs member result =
     (if ptrs member = 0 then Some result
      else members_loop ptrs strs (member + 8) (result @ [SysString_of (strs (ptrs member))]))"

definition GroupInfo_members :: "(int \<Rightarrow> int) \<Rightarrow> (int \<Rightarrow> string) \<Rightarrow> info_base \<Rightarrow> exn + SysString list option" where
  "GroupInfo_members ptrs strs i = (if \<not> m_valid i then Inl (UsageError ''cannot get members of invalid GroupInfo'')
     else Inr (members_loop ptrs strs (db_field 3 i) []))"

text \<open>
  The implicit copy copies the pointers, but its buffer is a new one, at the address the
  allocator gives it; a move takes the buffer along.
\<close>

record db_object =
  db_info :: info_base
  db_buf :: int

definition db_copy :: "int \<Rightarrow> db_object \<Rightarrow> db_object" where
  "db_copy allocated d = d\<lparr>db_buf := allocated\<rparr>"

definition in_buffer :: "db_object \<Rightarrow> int \<Rightarrow> bool" where
  "in_buffer d p \<longleftrightarrow> db_buf d \<le> p \<and> p < db_buf d + int (m_buf_size (db_info d))"

subsection \<open>What the accessors return\<close>

fun array_at :: "(int \<Rightarrow> int) \<Rightarrow> int \<Rightarrow> int list \<Rightarrow> bool" where
  "array_at ptrs p [] \<longleftrightarrow> ptrs p = 0"
| "array_at ptrs p (x # xs) \<longleftrightarrow> x \<noteq> 0 \<and> ptrs p = x \<and> array_at ptrs (p + 8) xs"

lemma members_loop_array:
  "array_at ptrs p ms \<Longrightarrow> members_loop ptrs strs p acc = Some (acc @ map (\<lambda>m. SysString_of (strs m)) ms)"
  by (induction ms arbitrary: p acc) (simp_all add: members_loop.simps)

lemma lookup_fields:
  assumes "answers w = [\<lparr>rv = 0, err = e, out = [], outs = r # vals\<rparr>]"
  shows "\<exists>i w'. info_lookup f key w = (Ret i, w') \<and> m_valid i = (r \<noteq> 0) \<and> m_info i = (if r = 0 then [] else vals) \<and>
     m_buf_size i = (if r = 0 then 0 else BUF_INIT_SIZE)"
  using assms by (simp add: info_lookup_def getInfo_def loop.simps getInfo_round_answer info_reset_def act_defs)

text \<open>
  What a lookup tells of a group: its name and all members, in the order of the array, if
  there is an entry, and nothing if there is none, where asking for the members is an error.  A copy of
  the object points into the buffer of the original and not into its own.
\<close>

theorem group_entries:
  assumes "answers w = [\<lparr>rv = 0, err = e, out = [], outs = [r, gid, nm, pw, arr]\<rparr>]" "array_at ptrs arr ms" "nm \<noteq> 0"
    "buf \<le> nm" "nm < buf + 512" "new + 512 \<le> buf \<or> buf + 512 \<le> new"
  shows "\<exists>i w'. GroupInfo_by_name name w = (Ret i, w') \<and> m_valid i = (r \<noteq> 0) \<and>
     GroupInfo_name strs i = (if r = 0 then None else SysString_of (strs nm)) \<and>
     GroupInfo_members ptrs strs i = (if r = 0 then Inl (UsageError ''cannot get members of invalid GroupInfo'')
       else Inr (Some (map (\<lambda>m. SysString_of (strs m)) ms))) \<and>
     (r \<noteq> 0 \<longrightarrow> in_buffer \<lparr>db_info = i, db_buf = buf\<rparr> (db_field 1 i) \<and>
       db_field 1 (db_info (db_copy new \<lparr>db_info = i, db_buf = buf\<rparr>)) = db_field 1 i \<and>
       \<not> in_buffer (db_copy new \<lparr>db_info = i, db_buf = buf\<rparr>) (db_field 1 i))"
proof -
  obtain i w' where i: "info_lookup ''getgrnam_r'' (S name) w = (Ret i, w')" "m_valid i = (r \<noteq> 0)"
      "m_info i = (if r = 0 then [] else [gid, nm, pw, arr])" "m_buf_size i = (if r = 0 then 0 else BUF_INIT_SIZE)"
    using lookup_fields[OF assms(1)] by blast
  then show ?thesis using assms(3-6) members_loop_array[OF assms(2), of strs "[]"]
    by (auto simp: GroupInfo_by_name_def GroupInfo_name_def GroupInfo_members_def string_at_def db_field_def
        in_buffer_def db_copy_def BUF_INIT_SIZE_def)
qed

theorem group_entries_witness:
  "\<exists>i w'. GroupInfo_by_name ''users'' (world_of [\<lparr>rv = 0, err = None, out = [], outs = [1, 100, 4096, 4104, 4112]\<rparr>]) = (Ret i, w') \<and>
     GroupInfo_members (\<lambda>p. if p = 4112 then 4200 else 0) (\<lambda>p. ''joe'') i = Inr (Some [SysString_of ''joe''])"
  using group_entries[of "world_of [\<lparr>rv = 0, err = None, out = [], outs = [1, 100, 4096, 4104, 4112]\<rparr>]" None 1 100 4096 4104 4112
      "\<lambda>p. if p = 4112 then 4200 else 0" "[4200]" 4096 8192 "''users''" "\<lambda>p. ''joe''"]
  by (auto simp: world_of_def)

end
