(* ===== verification/DirIteration.thy ===== *)
theory DirIteration
  imports DirStreams
begin

text \<open>
  Range-based loops over directories: \<^verbatim>\<open>DirIterator\<close> (\<^verbatim>\<open>include/fs/DirIterator.hxx\<close>).  An iterator
  refers to its stream, in which it moves; the stream is the object of these operations.
\<close>

subsection \<open>DirIterator\<close>

record DirIterator =
  it_entry :: "DirEntry option"

definition DirIterator_create :: "bool \<Rightarrow> (DirStream \<times> world, DirIterator) act" where
  "DirIterator_create at_end =
     (if \<not> at_end then bind DirStream_nextEntry (\<lambda>e. ret \<lparr>it_entry = e\<rparr>) else ret \<lparr>it_entry = None\<rparr>)"

definition DirIterator_eq :: "DirIterator \<Rightarrow> DirIterator \<Rightarrow> bool" where
  "DirIterator_eq it other = (case (it_entry it, it_entry other) of
       (None, None) \<Rightarrow> True | (Some e, Some f) \<Rightarrow> de_ino e = de_ino f | _ \<Rightarrow> False)"

definition DirIterator_neq :: "DirIterator \<Rightarrow> DirIterator \<Rightarrow> bool" where
  "DirIterator_neq it other \<longleftrightarrow> \<not> DirIterator_eq it other"

definition DirIterator_next :: "(DirStream \<times> world, DirIterator) act" where
  "DirIterator_next = bind DirStream_nextEntry (\<lambda>e. ret \<lparr>it_entry = e\<rparr>)"

definition DirIterator_deref :: "DirIterator \<Rightarrow> DirEntry option" where
  "DirIterator_deref it = it_entry it"

definition DirIterator_end :: "(DirStream \<times> world, DirIterator) act" where
  "DirIterator_end = DirIterator_create True"

definition DirIterator_begin :: "(DirStream \<times> world, DirIterator) act" where
  "DirIterator_begin = bind (this DirStream_isOpen) (\<lambda>open'.
     if \<not> open' then DirIterator_end else andthen DirStream_rewind (DirIterator_create False))"

text \<open>
  The loop \<^verbatim>\<open>for (auto &entry: dir)\<close>: both ends are made first; each round compares,
  dereferences and increments.  Its state is the iterator beside the stream; dereferencing
  an iterator at the end, which the comparison excludes, would be undefined.
\<close>

definition iterate_round :: "DirIterator \<Rightarrow> (DirEntry \<Rightarrow> (DirStream \<times> world, unit) act) \<Rightarrow>
    (DirIterator \<times> (DirStream \<times> world), unit option) act" where
  "iterate_round stop visit = bind (this (\<lambda>it. it)) (\<lambda>it.
     if \<not> DirIterator_neq it stop then ret (Some ())
     else case DirIterator_deref it of
       None \<Rightarrow> (\<lambda>s. (Blocked, s))
     | Some e \<Rightarrow> andthen (on_world (visit e)) (bind (on_world DirIterator_next) (\<lambda>it'.
         andthen (set_this (\<lambda>_. it')) (ret None))))"

definition iterate :: "(DirEntry \<Rightarrow> (DirStream \<times> world, unit) act) \<Rightarrow> (DirStream \<times> world, unit) act" where
  "iterate visit = bind DirIterator_begin (\<lambda>it. bind DirIterator_end (\<lambda>stop.
     bind (with_local it (loop (\<lambda>(_, (_, w)). length (answers w)) (iterate_round stop visit))) (\<lambda>_. ret ())))"

subsection \<open>The iterator and the stream\<close>

abbreviation left :: "DirStream \<times> world \<Rightarrow> nat" where
  "left s \<equiv> length (answers (snd s))"

lemma left_eq: "(\<lambda>(st, w). length (answers w)) = left"
  by (simp add: fun_eq_iff)

lemma nextEntry_takes: "DirStream_nextEntry s = (Ret e, s') \<Longrightarrow> left s' < left s"
  by (cases s) (auto simp: DirStream_nextEntry_def requireOpenStream_def act_defs kernel_defs split: if_splits list.splits)

definition entries_from :: "(DirEntry \<Rightarrow> (DirStream \<times> world, unit) act) \<Rightarrow> (DirStream \<times> world, unit) act" where
  "entries_from visit = loop left (bind DirStream_nextEntry (\<lambda>e. case e of
      None \<Rightarrow> ret (Some ()) | Some e \<Rightarrow> andthen (visit e) (ret None)))"

definition quiet :: "(DirEntry \<Rightarrow> (DirStream \<times> world, unit) act) \<Rightarrow> bool" where
  "quiet visit \<longleftrightarrow> (\<forall>e s r s'. visit e s = (r, s') \<longrightarrow> left s' \<le> left s)"

lemma quietD: "quiet visit \<Longrightarrow> visit e s = (r, s') \<Longrightarrow> left s' \<le> left s"
  unfolding quiet_def by blast

lemma entries_from_step:
  assumes "quiet visit"
  shows "entries_from visit s = bind DirStream_nextEntry (\<lambda>e. case e of
      None \<Rightarrow> ret () | Some e \<Rightarrow> andthen (visit e) (entries_from visit)) s"
proof -
  obtain r s1 where Pair: "DirStream_nextEntry s = (r, s1)" by (metis surj_pair)
  show ?thesis
  proof (cases r)
    case (Ret e)
    with Pair nextEntry_takes have "left s1 < left s" by blast
    moreover have "left s2 \<le> left s1" if "visit x s1 = (q, s2)" for x q s2 using quietD[OF assms that] .
    ultimately show ?thesis using Pair Ret
      by (subst entries_from_def, subst loop.simps)
        (fastforce simp: entries_from_def bind_def andthen_def ret_def split: option.split prod.split outcome.split)
  qed (use Pair in \<open>simp_all add: entries_from_def loop.simps[of _ _ s] bind_def\<close>)
qed

abbreviation iterate_from :: "(DirEntry \<Rightarrow> (DirStream \<times> world, unit) act) \<Rightarrow> (DirIterator \<times> (DirStream \<times> world), unit) act" where
  "iterate_from visit \<equiv> loop (\<lambda>(_, (_, w)). length (answers w)) (iterate_round \<lparr>it_entry = None\<rparr> visit)"

lemma iterate_from_entries:
  assumes "quiet visit"
  shows "\<exists>it'. iterate_from visit (\<lparr>it_entry = x\<rparr>, s) =
    (case (case x of None \<Rightarrow> ret () | Some e \<Rightarrow> andthen (visit e) (entries_from visit)) s of (r, s') \<Rightarrow> (r, (it', s')))"
proof (induction "left s" arbitrary: x s rule: less_induct)
  case less
  show ?case
  proof (cases x)
    case None
    then show ?thesis
      by (subst loop.simps) (simp add: iterate_round_def DirIterator_neq_def DirIterator_eq_def act_defs)
  next
    case (Some e)
    obtain r s1 where v: "visit e s = (r, s1)" by (metis surj_pair)
    obtain q s2 where n: "DirStream_nextEntry s1 = (q, s2)" by (metis surj_pair)
    have start: "iterate_round \<lparr>it_entry = None\<rparr> visit (\<lparr>it_entry = Some e\<rparr>, s) =
        andthen (on_world (visit e)) (bind (on_world DirIterator_next) (\<lambda>it'. andthen (set_this (\<lambda>_. it')) (ret None))) (\<lparr>it_entry = Some e\<rparr>, s)"
      by (simp add: iterate_round_def DirIterator_neq_def DirIterator_eq_def DirIterator_deref_def bind_def this_def gets_def)
    have small: "left s1 \<le> left s" using quietD[OF assms v] .
    show ?thesis
    proof (cases "\<exists>y. r = Ret () \<and> q = Ret y")
      case False
      then show ?thesis using Some v n entries_from_step[OF assms, of s1]
        by (subst loop.simps) (cases r; cases q; simp add: start DirIterator_next_def act_defs)
    next
      case True
      then obtain y where y: "r = Ret ()" "q = Ret y" by blast
      with n nextEntry_takes small have "left s2 < left s" by fastforce
      moreover have "iterate_round \<lparr>it_entry = None\<rparr> visit (\<lparr>it_entry = Some e\<rparr>, s) = (Ret None, (\<lparr>it_entry = y\<rparr>, s2))"
        using start v n y by (simp add: DirIterator_next_def act_defs)
      ultimately have "iterate_from visit (\<lparr>it_entry = Some e\<rparr>, s) = iterate_from visit (\<lparr>it_entry = y\<rparr>, s2)"
        by (cases s; cases s2) (simp add: loop.simps[of _ _ "(\<lparr>it_entry = Some e\<rparr>, _)"])
      moreover have "andthen (visit e) (entries_from visit) s =
          (case y of None \<Rightarrow> ret () | Some e \<Rightarrow> andthen (visit e) (entries_from visit)) s2"
        using v n y entries_from_step[OF assms, of s1] by (simp add: andthen_def bind_def)
      ultimately show ?thesis using less[OF \<open>left s2 < left s\<close>, of y] Some by simp
    qed
  qed
qed

text \<open>
  The loop over a directory with the iterators of the library is the loop that reads entries
  until there is none, whatever its body does, as long as it only takes answers of the kernel: the
  comparison by inode numbers decides between an entry and the end only, a stream that is not open has no entries, and
  an exception leaves the loop where it is thrown.
\<close>

theorem iterators_visit_entries:
  assumes "quiet visit"
  shows "iterate visit s = for_entries visit s"
proof -
  have whole: "for_entries visit s = bind (this DirStream_isOpen) (\<lambda>is_open.
      if \<not> is_open then ret () else andthen DirStream_rewind (entries_from visit)) s"
    unfolding for_entries_def entries_from_def left_eq by (rule refl)
  obtain w st where s: "s = (st, w)" by (cases s)
  show ?thesis
  proof (cases "DirStream_isOpen st")
    case False
    then show ?thesis
      by (simp add: s iterate_def for_entries_def DirIterator_begin_def DirIterator_end_def DirIterator_create_def
          loop.simps iterate_round_def DirIterator_neq_def DirIterator_eq_def act_defs)
  next
    case True
    obtain r1 s1 where rw: "DirStream_rewind s = (r1, s1)" by (metis surj_pair)
    obtain q s2 where n: "DirStream_nextEntry s1 = (q, s2)" by (metis surj_pair)
    have begins: "DirIterator_begin s = andthen DirStream_rewind (bind DirStream_nextEntry (\<lambda>e. ret \<lparr>it_entry = e\<rparr>)) s"
      using True by (simp add: s DirIterator_begin_def DirIterator_create_def bind_def this_def gets_def)
    have ends: "bind DirIterator_end g = g \<lparr>it_entry = None\<rparr>" for g :: "DirIterator \<Rightarrow> (DirStream \<times> world, unit) act"
      by (simp add: DirIterator_end_def DirIterator_create_def)
    have entries: "for_entries visit s = andthen DirStream_rewind (entries_from visit) s"
      using whole True by (simp add: s bind_def this_def gets_def)
    show ?thesis
    proof (cases "\<exists>y. r1 = Ret () \<and> q = Ret y")
      case False
      then show ?thesis using rw n
        by (cases r1; cases q; simp add: iterate_def begins entries entries_from_step[OF assms, of s1] bind_def andthen_def)
    next
      case step: True
      then obtain y where y: "r1 = Ret ()" "q = Ret y" by blast
      obtain it' where "iterate_from visit (\<lparr>it_entry = y\<rparr>, s2) =
          (case (case y of None \<Rightarrow> ret () | Some e \<Rightarrow> andthen (visit e) (entries_from visit)) s2 of (r, s') \<Rightarrow> (r, (it', s')))"
        using iterate_from_entries[OF assms] by blast
      moreover have "DirIterator_begin s = (Ret \<lparr>it_entry = y\<rparr>, s2)"
        using rw n y by (simp add: begins act_defs)
      ultimately show ?thesis using rw n y
        by (simp add: iterate_def ends entries entries_from_step[OF assms, of s1] bind_def andthen_def with_local_def ret_def
            split: prod.split outcome.split)
    qed
  qed
qed

end
