(* ===== verification/Spec2Isabelle.thy ===== *)
theory Spec2Isabelle
  imports Cosmos_Prelude Kernel BitMask Strings FsTypes FileDescriptor Path UserDb Filesystem
    Files DirStreams StreamIO ByteOrder TimeTypes SizedArray AuxVector LibInit
    ProcTypes SigInfo Signals Process HostBytes Retry Events SubProcess
    NetTypes Addresses SocketMessages SocketOptions Sockets Iteration Resolution Utilities FileInfo ErrorText Terminals Tracing
    ProcControl Memory Limits Threads Startup Wrappers Netcat UserEntries DirIteration
begin

text \<open>
  A model of libcosmos, a C++ library that wraps the system interfaces of Linux in value
  types, classes that own kernel resources, and functions that report failures as exceptions.
  The paths below are those of the repository under \<^verbatim>\<open>src/\<close>.

  \<^bold>\<open>How the program is modelled.\<close>  A C++ function that only computes is a HOL function.  A
  function that throws or calls the system is an action (theory Cosmos_Prelude): it maps a
  state to an outcome, a value or an exception, and a new state, which an exception does not
  undo.  The innermost state is the world (theory Kernel): the value of \<^verbatim>\<open>errno\<close>, the
  setting of \<^verbatim>\<open>auto_restart_syscalls\<close>, the trace of the system calls made, and the answers
  the kernel is going to give, over which every theorem quantifies.  The kernel itself is not
  modelled: an answer is whatever it likes to say, and the theorems that rely on more name
  the scripts of answers they are about.  A method of an object is an action on the object
  together with the world.  A call that the kernel has not answered yields \<open>Blocked\<close>, so the
  loops over system calls, measured by the answers that are left, need no fuel; the walk of a
  directory tree is bounded by a depth, and the depth of the tree suffices.

  \<^bold>\<open>Values.\<close>  BitMask (\<^verbatim>\<open>include/BitMask.hxx\<close>) refines operations on sets of bit positions.
  Strings (\<^verbatim>\<open>string.hxx\<close>, \<^verbatim>\<open>string.cxx\<close>, \<^verbatim>\<open>SysString.hxx\<close>) models splitting, which equals
  a recursive reference and loses nothing, and stripping.  FsTypes (\<^verbatim>\<open>fs/types.hxx\<close>) holds
  the enumerations, file types and modes with their symbolic form.  ByteOrder
  (\<^verbatim>\<open>net/byte_order.hxx\<close>), TimeTypes (\<^verbatim>\<open>time/types.hxx\<close>, \<^verbatim>\<open>Clock\<close>, \<^verbatim>\<open>StopWatch\<close>) and
  SizedArray (\<^verbatim>\<open>SizedArray.hxx\<close>) show the layout of numbers, the arithmetic of times and a
  bounded list, the last through the locale \<^verbatim>\<open>bounded_sequence\<close>.  AuxVector
  (\<^verbatim>\<open>proc/AuxVector.cxx\<close>) parses the auxiliary vector.

  \<^bold>\<open>Descriptors and files.\<close>  FileDescriptor (\<^verbatim>\<open>fs/FileDescriptor.cxx\<close>, \<^verbatim>\<open>fs/FileLock.hxx\<close>) has
  every \<^verbatim>\<open>fcntl()\<close> operation; Filesystem (\<^verbatim>\<open>fs/filesystem.cxx\<close>), Path (\<^verbatim>\<open>fs/path.cxx\<close>) and
  UserDb (\<^verbatim>\<open>InfoBase.hxx\<close>) the functions on paths and on the user database, whose
  entries are read in UserEntries (\<^verbatim>\<open>PasswdInfo.hxx\<close>, \<^verbatim>\<open>GroupInfo.cxx\<close>).  Files
  (\<^verbatim>\<open>FileBase\<close>, \<^verbatim>\<open>FDFile\<close>, \<^verbatim>\<open>File\<close>, \<^verbatim>\<open>TempFile\<close>, \<^verbatim>\<open>Directory\<close>, \<^verbatim>\<open>Pipe\<close>) are the owners of
  descriptors: the locale \<^verbatim>\<open>resource_owner\<close> states what a destructor promises, against the
  account of live resources that Kernel computes from the trace.  DirStreams (\<^verbatim>\<open>DirStream\<close>,
  \<^verbatim>\<open>DirEntry\<close>, \<^verbatim>\<open>TempDir\<close>, \<^verbatim>\<open>remove_tree()\<close>) walks directories, which
  DirIteration (\<^verbatim>\<open>fs/DirIterator.hxx\<close>) shows to be what a loop with the iterators does; StreamIO
  (\<^verbatim>\<open>io/StreamIO.cxx\<close>, \<^verbatim>\<open>io/iovector.cxx\<close>) transfers data, with the locale
  \<^verbatim>\<open>partial_transfer\<close> for the loops over partial transfers.  FileInfo (\<^verbatim>\<open>fs/FileStatus.cxx\<close>,
  \<^verbatim>\<open>fs/FileSystemStatus.cxx\<close>, \<^verbatim>\<open>io/MemFile.cxx\<close>, \<^verbatim>\<open>io/SecretFile.cxx\<close>) has what the kernel tells of files
  and file systems, and the files that are memory.

  \<^bold>\<open>Signals and processes.\<close>  ProcTypes (\<^verbatim>\<open>proc/types.hxx\<close>, \<^verbatim>\<open>SigSet.hxx\<close>, the wait status of
  \<^verbatim>\<open>process.hxx\<close>) and SigInfo (\<^verbatim>\<open>SigInfo.cxx\<close>, the information of \<^verbatim>\<open>SignalFD.cxx\<close>) decode what
  the kernel reports of processes and signals.  Signals (\<^verbatim>\<open>signal.cxx\<close>, \<^verbatim>\<open>SigAction.cxx\<close>,
  \<^verbatim>\<open>SignalFD.cxx\<close>) sends, masks and receives them; an action is shown to be what the next
  delivery does, through the handler tables.  Process (\<^verbatim>\<open>process.cxx\<close>, \<^verbatim>\<open>clone.cxx\<close>,
  \<^verbatim>\<open>Scheduler.cxx\<close>) has the calls on the own process and its children.  Events
  (\<^verbatim>\<open>EventFile.cxx\<close>, \<^verbatim>\<open>Poller.cxx\<close>, \<^verbatim>\<open>TimerFD.cxx\<close>, \<^verbatim>\<open>INotify.cxx\<close>) has the descriptors events
  come from, over the bytes of host numbers (HostBytes) and the locale \<^verbatim>\<open>restarting\<close> of
  operations that repeat an interrupted call (Retry).  SubProcess (\<^verbatim>\<open>ProcessFile.cxx\<close>,
  \<^verbatim>\<open>SubProc.cxx\<close>, \<^verbatim>\<open>ChildCloner.cxx\<close>) starts programs: the code of the parent and of the child
  are run in two worlds, and what the one writes is what the other reads.

  \<^bold>\<open>Network.\<close>  NetTypes (\<^verbatim>\<open>net/types.hxx\<close>, \<^verbatim>\<open>net/traits.hxx\<close>) has the enumerations.
  Addresses (\<^verbatim>\<open>net/SocketAddress.cxx\<close>, \<^verbatim>\<open>net/unix/UnixAddress.cxx\<close>, \<^verbatim>\<open>net/inet/IPAddress.cxx\<close>,
  \<^verbatim>\<open>net/LinkLayerAddress.cxx\<close>) models the address structures byte by byte, as the kernel writes
  into them through pointers.  SocketMessages (\<^verbatim>\<open>net/message_header.cxx\<close>, \<^verbatim>\<open>net/unix/aux.cxx\<close>,
  \<^verbatim>\<open>net/SocketError.hxx\<close>) has the headers, the control buffers and the messages in them,
  SocketOptions (\<^verbatim>\<open>net/SockOptBase.cxx\<close> and the option classes of the protocols) every option
  over a few forms of \<^verbatim>\<open>getsockopt()\<close> and \<^verbatim>\<open>setsockopt()\<close>, and Sockets (\<^verbatim>\<open>net/Socket.cxx\<close> and the
  classes under \<^verbatim>\<open>net/inet/\<close> and \<^verbatim>\<open>net/unix/\<close>) the sockets, which compose all of these with the
  owners of descriptors.  Resolution (\<^verbatim>\<open>net/inet/AddressInfoList.cxx\<close>, \<^verbatim>\<open>net/ifs/\<close>) has the lists of
  addresses and interfaces that the C library allocates, as memory the objects point to.  A loop
  over a range is written once (theory Iteration), and its locale \<^verbatim>\<open>input_range\<close> is the contract of
  the iterators over these lists and over control messages.

  \<^bold>\<open>Tracing, memory, threads and the rest of the process.\<close>  Tracing (\<^verbatim>\<open>proc/ptrace.cxx\<close>,
  \<^verbatim>\<open>Tracee.cxx\<close>) has every request to a traced process and decodes the structures that come
  back, through HostBytes.  ProcControl (\<^verbatim>\<open>proc/prctl.cxx\<close>, \<^verbatim>\<open>caps.hxx\<close>) has the settings of the
  process, and shows that the auxiliary vector it reads is the one AuxVector finds entries in.
  Memory (\<^verbatim>\<open>proc/mman.cxx\<close>, \<^verbatim>\<open>Mapping.hxx\<close>) interprets \<^verbatim>\<open>resource_owner\<close> for the account of
  mapped addresses, and Threads (\<^verbatim>\<open>PosixThread.cxx\<close>, \<^verbatim>\<open>Mutex.hxx\<close>, \<^verbatim>\<open>RWLock.hxx\<close>,
  \<^verbatim>\<open>Condition.cxx\<close>, \<^verbatim>\<open>pthread.cxx\<close>) for the account of live threads; its locale \<^verbatim>\<open>lock_guard\<close>
  is the contract of the four kinds of guards, and a step relation covers every sequence of
  operations on thread objects, moves between them and their destruction.  Limits (\<^verbatim>\<open>limits.cxx\<close>, \<^verbatim>\<open>LimitSettings.hxx\<close>,
  \<^verbatim>\<open>ResourceUsage.cxx\<close>) runs against a kernel that stores limits.  Utilities (\<^verbatim>\<open>formatting.cxx\<close>,
  \<^verbatim>\<open>utils.hxx\<close>) models formatted output on a stream, guards and helpers.

  \<^bold>\<open>The library itself.\<close>  LibInit (\<^verbatim>\<open>cosmos.cxx\<close>) has the registry of the objects to be initialized and an abstract
  view of nested initialization in which none of them fails.  ErrorText
  (\<^verbatim>\<open>error/\<close>, \<^verbatim>\<open>formatters.hxx\<close>) has the objects behind the exceptions: the other theories throw the
  values of the type \<open>exn\<close>, and \<open>thrown_object\<close> is the object of each, whose text it
  computes.  Terminals (\<^verbatim>\<open>io/Terminal.cxx\<close>, \<^verbatim>\<open>io/colors.cxx\<close>, \<^verbatim>\<open>io/ILogger.cxx\<close>,
  \<^verbatim>\<open>io/StreamAdaptor.hxx\<close>) writes to terminals; a small model of a terminal tells what its
  commands show.  Startup (\<^verbatim>\<open>cosmos.cxx\<close>, \<^verbatim>\<open>thread/Mutex.cxx\<close>, \<^verbatim>\<open>main.hxx\<close>) runs the objects that are
  really registered, whose initialization may throw: the calls that return refine LibInit, a
  call that throws has initialized the first objects in the order of their priorities, and
  the wrapper around the main function of a program leaves the library as it found it.  Wrappers
  has the rest, which is thin: \<^verbatim>\<open>which()\<close>, device numbers (\<^verbatim>\<open>fs/filesystem.cxx\<close>), random data, the
  names of the system, the locale, wide strings, real-time signals and sleeping (\<^verbatim>\<open>random.cxx\<close>,
  \<^verbatim>\<open>uname.cxx\<close>, \<^verbatim>\<open>locale.cxx\<close>, \<^verbatim>\<open>string.cxx\<close>, \<^verbatim>\<open>proc/signal.hxx\<close>, \<^verbatim>\<open>time/time.hxx\<close>).

  \<^bold>\<open>A program.\<close>  Netcat (\<^verbatim>\<open>sample/netcat.cxx\<close>) puts the parts together: its command line, the
  resolver, the sockets, the poller and the transfers of data, below the main wrapper.  Its loop
  over addresses leaves early, for which the locale \<^verbatim>\<open>input_range\<close> gets another lemma, and its
  data exchange is equated with the calls of a session, a list of rounds of transfers; its exit status
  is bounded by the statuses its parts may throw, for every answer of the kernel.

  \<^bold>\<open>What the lemmas show.\<close>  The properties C1 to C40 stand in the theories of their
  components: refinement of the value types by sets, lists and numbers; what each operation
  does on every answer of the kernel, errors included; that loops over partial transfers and
  interrupted calls move every byte once and in order; which resources an object releases;
  and, where the code does not do what it is documented to do, exactly what it does instead.

  \<^bold>\<open>What is not modelled.\<close>  The texts of the C library, what a child
  process prints before it ends, the buffers of the C++ streams, and the parts of the library that
  are listed as not modelled in the manifest.
\<close>

end
